(* ===== verification/VoicePrelude.thy ===== *)
theory VoicePrelude
  imports Complex_Main "HOL-Library.State_Monad" "HOL-Library.Char_ord" "HOL-Library.List_Lexorder"
    "HOL-Library.Product_Lexorder" "HOL-Library.Word" "HOL-Library.Sublist"
begin

text \<open>
  Shared vocabulary of the development: the values that travel through the program as
  JSON-like Python objects, insertion-ordered dictionaries as association lists, the string
  operations the sources use, Python's rounding, the state monad the stateful components are
  written in, and the lemma collections their proofs use.
\<close>

section \<open>Lemma collections\<close>

named_theorems evol \<open>operations that respect the evolution relation of the component\<close>
named_theorems wp_simps \<open>weakest preconditions of the primitive state operations\<close>

section \<open>Python values\<close>

text \<open>
  Floats are exact rationals: the model has no rounding beyond the calls of
  \<open>round\<close> that the sources make themselves.
\<close>

datatype pv =
    PNone
  | PBool bool
  | PInt int
  | PFloat rat
  | PStr string
  | PList "pv list"
  | PDict "(string \<times> pv) list"

type_synonym dict = "(string \<times> pv) list"
type_synonym bytes = "8 word list"

text \<open>A Python dict keeps the position of a key that is stored again.\<close>

fun aput :: "'k \<Rightarrow> 'v \<Rightarrow> ('k \<times> 'v) list \<Rightarrow> ('k \<times> 'v) list" where
  "aput k v [] = [(k, v)]"
| "aput k v ((k', v') # d) = (if k = k' then (k, v) # d else (k', v') # aput k v d)"

definition adel :: "'k \<Rightarrow> ('k \<times> 'v) list \<Rightarrow> ('k \<times> 'v) list" where
  "adel k d = filter (\<lambda>p. fst p \<noteq> k) d"

definition aupdate :: "('k \<times> 'v) list \<Rightarrow> ('k \<times> 'v) list \<Rightarrow> ('k \<times> 'v) list" where
  "aupdate d e = fold (\<lambda>(k, v). aput k v) e d"

abbreviation aget :: "('k \<times> 'v) list \<Rightarrow> 'k \<Rightarrow> 'v option" where
  "aget \<equiv> map_of"

definition dget :: "dict \<Rightarrow> string \<Rightarrow> pv" where
  "dget d k = (case aget d k of None \<Rightarrow> PNone | Some v \<Rightarrow> v)"

lemma aget_aput [simp]: "aget (aput k v d) k' = (if k' = k then Some v else aget d k')"
  by (induction d) auto

lemma aget_adel [simp]: "aget (adel k d) k' = (if k' = k then None else aget d k')"
  by (induction d) (auto simp: adel_def)

lemma set_aput_keys [simp]: "fst ` set (aput k v d) = insert k (fst ` set d)"
  by (induction k v d rule: aput.induct) (simp_all add: insert_commute)

lemma distinct_aput [simp]: "distinct (map fst d) \<Longrightarrow> distinct (map fst (aput k v d))"
proof (induction d)
  case (Cons p d)
  obtain a b where p: "p = (a, b)" by (cases p)
  show ?case
  proof (cases "k = a")
    case True
    with Cons.prems p show ?thesis by simp
  next
    case False
    moreover have "a \<notin> fst ` set (aput k v d)"
      using Cons.prems p False by (simp only: set_aput_keys) simp
    ultimately show ?thesis using Cons p by simp
  qed
qed simp

lemma set_aput: "set (aput k v d) \<subseteq> insert (k, v) (set d)"
  by (induction d) (auto split: if_splits)

lemma length_aput: "length (aput k v d) \<le> Suc (length d)"
  by (induction d) auto

lemma distinct_adel [simp]: "distinct (map fst d) \<Longrightarrow> distinct (map fst (adel k d))"
  unfolding adel_def by (induction d) auto

lemma set_adel: "set (adel k d) \<subseteq> set d"
  by (auto simp: adel_def)

lemma dget_aput [simp]: "dget (aput k v d) k' = (if k' = k then v else dget d k')"
  by (simp add: dget_def)

text \<open>Python's truth value and \<open>a or b\<close>.\<close>

fun truthy :: "pv \<Rightarrow> bool" where
  "truthy PNone = False"
| "truthy (PBool b) = b"
| "truthy (PInt i) = (i \<noteq> 0)"
| "truthy (PFloat r) = (r \<noteq> 0)"
| "truthy (PStr s) = (s \<noteq> [])"
| "truthy (PList xs) = (xs \<noteq> [])"
| "truthy (PDict d) = (d \<noteq> [])"

definition py_or :: "pv \<Rightarrow> pv \<Rightarrow> pv" where
  "py_or a b = (if truthy a then a else b)"

fun is_dict :: "pv \<Rightarrow> bool" where
  "is_dict (PDict d) = True"
| "is_dict _ = False"

text \<open>\<open>dict(x or {})\<close> for a value that the code has put there as a dict.\<close>

fun dict_of :: "pv \<Rightarrow> dict" where
  "dict_of (PDict d) = d"
| "dict_of _ = []"

fun list_of :: "pv \<Rightarrow> pv list" where
  "list_of (PList xs) = xs"
| "list_of _ = []"

text \<open>\<open>isinstance(x, (int, float))\<close> and \<open>float(x)\<close>; \<open>bool\<close> is a subclass of \<open>int\<close>.\<close>

fun num_of :: "pv \<Rightarrow> rat option" where
  "num_of (PInt i) = Some (of_int i)"
| "num_of (PFloat r) = Some r"
| "num_of (PBool b) = Some (if b then 1 else 0)"
| "num_of _ = None"

definition ostr :: "string option \<Rightarrow> pv" where
  "ostr x = (case x of None \<Rightarrow> PNone | Some s \<Rightarrow> PStr s)"

definition oint :: "int option \<Rightarrow> pv" where
  "oint x = (case x of None \<Rightarrow> PNone | Some i \<Rightarrow> PInt i)"

definition onum :: "rat option \<Rightarrow> pv" where
  "onum x = (case x of None \<Rightarrow> PNone | Some r \<Rightarrow> PFloat r)"

definition odict :: "dict option \<Rightarrow> pv" where
  "odict x = (case x of None \<Rightarrow> PNone | Some d \<Rightarrow> PDict d)"

text \<open>The \<open>x or default\<close> of an optional string: an empty string counts as missing.\<close>

definition str_or :: "string option \<Rightarrow> string \<Rightarrow> string" where
  "str_or x d = (case x of None \<Rightarrow> d | Some s \<Rightarrow> if s = [] then d else s)"

definition nonempty :: "string \<Rightarrow> string option" where
  "nonempty s = (if s = [] then None else Some s)"

lemma nonempty_eq_Some [simp]: "nonempty s = Some t \<longleftrightarrow> s \<noteq> [] \<and> t = s"
  by (auto simp: nonempty_def)

section \<open>Strings\<close>

definition digit_char :: "nat \<Rightarrow> char" where
  "digit_char n = char_of (48 + n)"

fun nat_dec :: "nat \<Rightarrow> string" where
  "nat_dec n = (if n < 10 then [digit_char n] else nat_dec (n div 10) @ [digit_char (n mod 10)])"

declare nat_dec.simps [simp del]

definition int_dec :: "int \<Rightarrow> string" where
  "int_dec i = (if i < 0 then ''-'' @ nat_dec (nat (- i)) else nat_dec (nat i))"

text \<open>
  \<open>str(x)\<close>: scalars as the interpreter prints them; the text of floats and of nested
  values (\<open>repr\<close>) is the parameter \<open>rp\<close>.
\<close>

fun py_str :: "(pv \<Rightarrow> string) \<Rightarrow> pv \<Rightarrow> string" where
  "py_str rp (PStr s) = s"
| "py_str rp PNone = ''None''"
| "py_str rp (PBool b) = (if b then ''True'' else ''False'')"
| "py_str rp (PInt i) = int_dec i"
| "py_str rp v = rp v"

definition is_space :: "char \<Rightarrow> bool" where
  "is_space c \<longleftrightarrow> c = CHR '' '' \<or> (9 \<le> (of_char c :: nat) \<and> (of_char c :: nat) \<le> 13)
     \<or> (28 \<le> (of_char c :: nat) \<and> (of_char c :: nat) \<le> 31)"

definition strip :: "string \<Rightarrow> string" where
  "strip s = rev (dropWhile is_space (rev (dropWhile is_space s)))"

definition lower_char :: "char \<Rightarrow> char" where
  "lower_char c = (if 65 \<le> (of_char c :: nat) \<and> (of_char c :: nat) \<le> 90
     then char_of ((of_char c :: nat) + 32) else c)"

definition lower :: "string \<Rightarrow> string" where
  "lower s = map lower_char s"

definition startswith :: "string \<Rightarrow> string \<Rightarrow> bool" where
  "startswith s p \<longleftrightarrow> take (length p) s = p"

definition endswith :: "string \<Rightarrow> string \<Rightarrow> bool" where
  "endswith s p \<longleftrightarrow> length p \<le> length s \<and> drop (length s - length p) s = p"

fun contains :: "string \<Rightarrow> string \<Rightarrow> bool" where
  "contains [] p = (p = [])"
| "contains (c # s) p = (startswith (c # s) p \<or> contains s p)"

text \<open>\<open>sep.join(xs)\<close>\<close>

fun join :: "string \<Rightarrow> string list \<Rightarrow> string" where
  "join sep [] = []"
| "join sep [x] = x"
| "join sep (x # y # xs) = x @ sep @ join sep (y # xs)"

text \<open>\<open>s.replace("Z", "+00:00")\<close>\<close>

definition replace_z :: "string \<Rightarrow> string" where
  "replace_z s = concat (map (\<lambda>c. if c = CHR ''Z'' then ''+00:00'' else [c]) s)"

text \<open>
  The two substitutions \<open>re.sub(r"[^a-z0-9 ]+", " ", s.lower())\<close> and
  \<open>re.sub(r"\s+", " ", _).strip()\<close> the sources use to normalise spoken phrases. The
  second makes runs of blanks one blank, so replacing each foreign character on its own
  gives the same text.
\<close>

definition phrase_char :: "char \<Rightarrow> bool" where
  "phrase_char c \<longleftrightarrow> (97 \<le> (of_char c :: nat) \<and> (of_char c :: nat) \<le> 122)
     \<or> (48 \<le> (of_char c :: nat) \<and> (of_char c :: nat) \<le> 57) \<or> c = CHR '' ''"

fun squeeze :: "string \<Rightarrow> string" where
  "squeeze [] = []"
| "squeeze [c] = [c]"
| "squeeze (c # d # s) = (if c = CHR '' '' \<and> d = CHR '' '' then squeeze (d # s) else c # squeeze (d # s))"

definition phrase_norm :: "string \<Rightarrow> string" where
  "phrase_norm s = strip (squeeze (map (\<lambda>c. if phrase_char c then c else CHR '' '') (lower s)))"

section \<open>Numbers\<close>

definition round_half_even :: "rat \<Rightarrow> int" where
  "round_half_even x =
     (let f = \<lfloor>x\<rfloor>; d = x - of_int f in
      if d < 1/2 then f else if d > 1/2 then f + 1 else if even f then f else f + 1)"

definition py_round :: "nat \<Rightarrow> rat \<Rightarrow> rat" where
  "py_round n x = of_int (round_half_even (x * 10 ^ n)) / 10 ^ n"

lemma round_half_even_bounds:
  "of_int (round_half_even x) \<le> x + 1/2" "x - 1/2 \<le> of_int (round_half_even x)"
proof -
  have "of_int \<lfloor>x\<rfloor> \<le> x" "x < of_int \<lfloor>x\<rfloor> + 1" by linarith+
  then show "of_int (round_half_even x) \<le> x + 1/2" "x - 1/2 \<le> of_int (round_half_even x)"
    unfolding round_half_even_def Let_def by (auto split: if_splits) linarith+
qed

lemma round_half_even_mono: "x \<le> y \<Longrightarrow> round_half_even x \<le> round_half_even y"
proof (cases "\<lfloor>x\<rfloor> = \<lfloor>y\<rfloor>")
  case True
  assume "x \<le> y"
  with True show ?thesis by (auto simp: round_half_even_def Let_def)
next
  case False
  assume "x \<le> y"
  then have "\<lfloor>x\<rfloor> < \<lfloor>y\<rfloor>" using False floor_mono [of x y] by linarith
  then show ?thesis by (auto simp: round_half_even_def Let_def)
qed

lemma round_half_even_of_int [simp]: "round_half_even (of_int i) = i"
  by (simp add: round_half_even_def)

lemma py_round_mono: "x \<le> y \<Longrightarrow> py_round n x \<le> py_round n y"
  unfolding py_round_def
  by (intro divide_right_mono of_int_le_iff [THEN iffD2] round_half_even_mono mult_right_mono) auto

lemma py_round_0 [simp]: "py_round n 0 = 0"
  using round_half_even_of_int [of 0] by (simp add: py_round_def)

lemma py_round_1 [simp]: "py_round n 1 = 1"
  using round_half_even_of_int [of "10 ^ n"] by (simp add: py_round_def)

text \<open>\<open>int(x)\<close> of a float truncates towards zero.\<close>

definition py_trunc :: "rat \<Rightarrow> int" where
  "py_trunc x = (if x < 0 then \<lceil>x\<rceil> else \<lfloor>x\<rfloor>)"

section \<open>The state monad\<close>

abbreviation ret :: "'a \<Rightarrow> ('s, 'a) state" where
  "ret \<equiv> State_Monad.return"

abbreviation gets :: "('s \<Rightarrow> 'a) \<Rightarrow> ('s, 'a) state" where
  "gets f \<equiv> State_Monad.bind State_Monad.get (\<lambda>s. State_Monad.return (f s))"

abbreviation modify :: "('s \<Rightarrow> 's) \<Rightarrow> ('s, unit) state" where
  "modify \<equiv> State_Monad.update"

definition whenM :: "bool \<Rightarrow> ('s, unit) state \<Rightarrow> ('s, unit) state" where
  "whenM b m = (if b then m else ret ())"

fun for_each :: "('a \<Rightarrow> ('s, unit) state) \<Rightarrow> 'a list \<Rightarrow> ('s, unit) state" where
  "for_each f [] = ret ()"
| "for_each f (x # xs) = do { f x; for_each f xs }"

lemma run_state_update [simp]: "run_state (State_Monad.update f) s = ((), f s)"
  by (simp add: State_Monad.update_def)

lemma run_state_whenM [simp]: "run_state (whenM b m) s = (if b then run_state m s else ((), s))"
  by (simp add: whenM_def)

declare State_Monad.update_comp [simp del] State_Monad.get_bind_set [simp del]
  State_Monad.get_const [simp del] State_Monad.bind_assoc [simp del]

lemma run_state_bind_split: "run_state (State_Monad.bind m f) s =
    run_state (f (fst (run_state m s))) (snd (run_state m s))"
  by (simp add: case_prod_beta)

definition wp :: "('s, 'a) state \<Rightarrow> ('a \<Rightarrow> 's \<Rightarrow> bool) \<Rightarrow> 's \<Rightarrow> bool" where
  "wp m Q s \<longleftrightarrow> Q (fst (run_state m s)) (snd (run_state m s))"

lemma wp_return [wp_simps]: "wp (ret a) Q s = Q a s"
  by (simp add: wp_def)

lemma wp_bind [wp_simps]: "wp (State_Monad.bind m f) Q s = wp m (\<lambda>a. wp (f a) Q) s"
  by (simp add: wp_def case_prod_beta)

lemma wp_get [wp_simps]: "wp State_Monad.get Q s = Q s s"
  by (simp add: wp_def)

lemma wp_update [wp_simps]: "wp (modify f) Q s = Q () (f s)"
  by (simp add: wp_def)

lemma wp_if [wp_simps]: "wp (if b then m else n) Q s = (if b then wp m Q s else wp n Q s)"
  by simp

lemma wp_whenM [wp_simps]: "wp (whenM b m) Q s = (if b then wp m Q s else Q () s)"
  by (simp add: wp_def)

lemma wp_mono: "wp m P s \<Longrightarrow> (\<And>a t. P a t \<Longrightarrow> Q a t) \<Longrightarrow> wp m Q s"
  by (simp add: wp_def)

lemma wp_conj: "wp m (\<lambda>a t. P a t \<and> Q a t) s \<longleftrightarrow> wp m P s \<and> wp m Q s"
  by (simp add: wp_def)

lemma wpD: "wp m Q s \<Longrightarrow> run_state m s = (a, t) \<Longrightarrow> Q a t"
  by (simp add: wp_def)

lemma wpI: "(\<And>a t. run_state m s = (a, t) \<Longrightarrow> Q a t) \<Longrightarrow> wp m Q s"
  by (simp add: wp_def)

lemma wp_case_option [wp_simps]:
  "wp (case x of None \<Rightarrow> m | Some y \<Rightarrow> f y) Q s =
   (case x of None \<Rightarrow> wp m Q s | Some y \<Rightarrow> wp (f y) Q s)"
  by (cases x) simp_all

lemma wp_case_sum [wp_simps]:
  "wp (case x of Inl y \<Rightarrow> f y | Inr y \<Rightarrow> g y) Q s =
   (case x of Inl y \<Rightarrow> wp (f y) Q s | Inr y \<Rightarrow> wp (g y) Q s)"
  by (cases x) simp_all

section \<open>Reflexive and transitive state relations\<close>

text \<open>
  A relation between the states before and after an operation that is reflexive and
  transitive passes from the primitive operations of a component to everything that is
  composed of them. The locale states that once; the components interpret it on their own
  evolution relation.
\<close>

locale evolution =
  fixes R :: "'s \<Rightarrow> 's \<Rightarrow> bool"
  assumes refl_R: "R s s"
    and trans_R: "R s t \<Longrightarrow> R t u \<Longrightarrow> R s u"
begin

lemma return_evol: "state_io_rel R (ret a)"
  by (simp add: state_io_rel_def refl_R)

lemma get_evol: "state_io_rel R State_Monad.get"
  by (simp add: state_io_rel_def refl_R)

lemma update_evol: "(\<And>s. R s (f s)) \<Longrightarrow> state_io_rel R (modify f)"
  by (simp add: state_io_rel_def)

lemma bind_evol:
  "state_io_rel R m \<Longrightarrow> (\<And>a. state_io_rel R (f a)) \<Longrightarrow> state_io_rel R (State_Monad.bind m f)"
  by (auto simp: state_io_rel_def case_prod_beta intro: trans_R)

lemma if_evol:
  "(b \<Longrightarrow> state_io_rel R m) \<Longrightarrow> (\<not> b \<Longrightarrow> state_io_rel R n) \<Longrightarrow> state_io_rel R (if b then m else n)"
  by simp

lemma whenM_evol: "(b \<Longrightarrow> state_io_rel R m) \<Longrightarrow> state_io_rel R (whenM b m)"
  by (simp add: whenM_def return_evol)

lemma case_option_evol:
  "state_io_rel R m \<Longrightarrow> (\<And>y. state_io_rel R (f y)) \<Longrightarrow>
   state_io_rel R (case x of None \<Rightarrow> m | Some y \<Rightarrow> f y)"
  by (cases x) simp_all

lemma case_list_evol:
  "state_io_rel R m \<Longrightarrow> (\<And>x xs. state_io_rel R (f x xs)) \<Longrightarrow>
   state_io_rel R (case l of [] \<Rightarrow> m | x # xs \<Rightarrow> f x xs)"
  by (cases l) simp_all

lemma case_sum_evol:
  "(\<And>y. state_io_rel R (f y)) \<Longrightarrow> (\<And>y. state_io_rel R (g y)) \<Longrightarrow>
   state_io_rel R (case x of Inl y \<Rightarrow> f y | Inr y \<Rightarrow> g y)"
  by (cases x) simp_all

lemma case_prod_evol:
  "(\<And>a b. state_io_rel R (f a b)) \<Longrightarrow> state_io_rel R (case x of (a, b) \<Rightarrow> f a b)"
  by (cases x) simp

lemma let_evol: "state_io_rel R (f x) \<Longrightarrow> state_io_rel R (let y = x in f y)"
  by simp

lemma for_each_evol: "(\<And>x. x \<in> set xs \<Longrightarrow> state_io_rel R (f x)) \<Longrightarrow> state_io_rel R (for_each f xs)"
  by (induction xs) (auto intro!: bind_evol return_evol)

lemmas structural =
  return_evol get_evol bind_evol if_evol whenM_evol case_option_evol case_list_evol case_sum_evol
  case_prod_evol let_evol for_each_evol

lemma run_evol: "state_io_rel R m \<Longrightarrow> R s (snd (run_state m s))"
  by (simp add: state_io_rel_def)

end

section \<open>Bounded newest-first logs\<close>

text \<open>\<open>log.insert(0, x); del log[n:]\<close>, the idiom behind every history of the program.\<close>

definition push_front :: "nat \<Rightarrow> 'a \<Rightarrow> 'a list \<Rightarrow> 'a list" where
  "push_front n x xs = take n (x # xs)"

lemma length_push_front [simp]: "length (push_front n x xs) \<le> n"
  by (simp add: push_front_def)

lemma push_front_hd: "0 < n \<Longrightarrow> hd (push_front n x xs) = x \<and> push_front n x xs \<noteq> []"
  by (cases n) (auto simp: push_front_def)

end
