(* ===== verification/PyTime.thy ===== *)
theory PyTime
  imports VoicePrelude
begin

text \<open>
  Instants and their ISO-8601 text. The program works with timezone-aware datetimes in UTC,
  whose resolution is one microsecond, so an instant is the integer number of microseconds
  since the epoch. \<open>isoformat\<close> prints one the way \<open>datetime.isoformat\<close> does, and
  \<open>parse_iso\<close> reads the extended ISO format (date, optional time with optional fraction,
  optional offset) that \<open>datetime.fromisoformat\<close> accepts. The round trip of the two is
  proved at the end; the sources rely on it wherever they read back an instant they stored.
\<close>

type_synonym instant = int

definition us_per_s :: int where "us_per_s = 1000000"
definition us_per_day :: int where "us_per_day = 86400000000"

section \<open>The proleptic Gregorian calendar\<close>

definition days_before_year :: "int \<Rightarrow> int" where
  "days_before_year y = (y - 1) * 365 + (y - 1) div 4 - (y - 1) div 100 + (y - 1) div 400"

definition is_leap :: "int \<Rightarrow> bool" where
  "is_leap y \<longleftrightarrow> y mod 4 = 0 \<and> (y mod 100 \<noteq> 0 \<or> y mod 400 = 0)"

definition month_start :: "bool \<Rightarrow> int \<Rightarrow> int" where
  "month_start leap m =
     (let k = (if leap then 1 else 0) in
      if m \<le> 1 then 0 else if m = 2 then 31 else if m = 3 then 59 + k else if m = 4 then 90 + k
      else if m = 5 then 120 + k else if m = 6 then 151 + k else if m = 7 then 181 + k
      else if m = 8 then 212 + k else if m = 9 then 243 + k else if m = 10 then 273 + k
      else if m = 11 then 304 + k else if m = 12 then 334 + k else 365 + k)"

definition days_in_month :: "bool \<Rightarrow> int \<Rightarrow> int" where
  "days_in_month leap m = month_start leap (m + 1) - month_start leap m"

definition month_of :: "bool \<Rightarrow> int \<Rightarrow> int" where
  "month_of leap d =
     (let k = (if leap then 1 else 0) in
      if d < 31 then 1 else if d < 59 + k then 2 else if d < 90 + k then 3
      else if d < 120 + k then 4 else if d < 151 + k then 5 else if d < 181 + k then 6
      else if d < 212 + k then 7 else if d < 243 + k then 8 else if d < 273 + k then 9
      else if d < 304 + k then 10 else if d < 334 + k then 11 else 12)"

text \<open>Ordinals count from 0001-01-01, which is day 0 here; 1970-01-01 is day 719162.\<close>

definition epoch_day :: int where "epoch_day = 719162"

definition year_of :: "int \<Rightarrow> int" where
  "year_of n =
     (let y = n * 400 div 146097 + 1 in if days_before_year (y + 1) \<le> n then y + 1 else y)"

definition ymd_of_day :: "int \<Rightarrow> int \<times> int \<times> int" where
  "ymd_of_day n =
     (let y = year_of n; d = n - days_before_year y; m = month_of (is_leap y) d
      in (y, m, d - month_start (is_leap y) m + 1))"

definition day_of_ymd :: "int \<Rightarrow> int \<Rightarrow> int \<Rightarrow> int" where
  "day_of_ymd y m d = days_before_year y + month_start (is_leap y) m + (d - 1)"

section \<open>Printing\<close>

fun fixdec :: "nat \<Rightarrow> nat \<Rightarrow> string" where
  "fixdec 0 n = []"
| "fixdec (Suc k) n = fixdec k (n div 10) @ [digit_char (n mod 10)]"

definition iso_date :: "int \<Rightarrow> string" where
  "iso_date n = (case ymd_of_day n of (y, m, d) \<Rightarrow>
     fixdec 4 (nat y) @ ''-'' @ fixdec 2 (nat m) @ ''-'' @ fixdec 2 (nat d))"

definition iso_time :: "int \<Rightarrow> string" where
  "iso_time r =
     (let s = r div us_per_s; us = r mod us_per_s in
      fixdec 2 (nat (s div 3600)) @ '':'' @ fixdec 2 (nat (s div 60 mod 60)) @ '':''
      @ fixdec 2 (nat (s mod 60)) @ (if us = 0 then [] else ''.'' @ fixdec 6 (nat us)))"

definition iso_naive :: "instant \<Rightarrow> string" where
  "iso_naive t = iso_date (t div us_per_day + epoch_day) @ ''T'' @ iso_time (t mod us_per_day)"

definition isoformat :: "instant \<Rightarrow> string" where
  "isoformat t = iso_naive t @ ''+00:00''"

text \<open>\<open>isoformat().replace("+00:00", "Z")\<close>, also the text of a JSON dump.\<close>

definition isoformat_z :: "instant \<Rightarrow> string" where
  "isoformat_z t = iso_naive t @ ''Z''"

section \<open>Reading\<close>

definition char_digit :: "char \<Rightarrow> nat option" where
  "char_digit c = (let n = of_char c :: nat in if 48 \<le> n \<and> n \<le> 57 then Some (n - 48) else None)"

fun undec_from :: "nat \<Rightarrow> string \<Rightarrow> nat option" where
  "undec_from a [] = Some a"
| "undec_from a (c # s) =
     (case char_digit c of None \<Rightarrow> None | Some d \<Rightarrow> undec_from (a * 10 + d) s)"

definition undec :: "nat \<Rightarrow> string \<Rightarrow> nat option" where
  "undec k s = (if length s = k then undec_from 0 s else None)"

definition parse_date :: "string \<Rightarrow> int option" where
  "parse_date s =
     (if length s = 10 \<and> s ! 4 = CHR ''-'' \<and> s ! 7 = CHR ''-'' then
        (case (undec 4 (take 4 s), undec 2 (take 2 (drop 5 s)), undec 2 (drop 8 s)) of
           (Some y, Some m, Some d) \<Rightarrow>
             if 1 \<le> y \<and> 1 \<le> m \<and> m \<le> 12 \<and> 1 \<le> d
                \<and> int d \<le> days_in_month (is_leap (int y)) (int m)
             then Some (day_of_ymd (int y) (int m) (int d)) else None
         | _ \<Rightarrow> None)
      else None)"

definition parse_fraction :: "string \<Rightarrow> int option" where
  "parse_fraction s =
     (case s of [] \<Rightarrow> None
      | _ \<Rightarrow> (case undec_from 0 s of None \<Rightarrow> None
              | Some _ \<Rightarrow> map_option int (undec 6 (take 6 (s @ ''000000'')))))"

definition parse_clock :: "string \<Rightarrow> int option" where
  "parse_clock s =
     (case undec 2 (take 2 s) of None \<Rightarrow> None
      | Some h \<Rightarrow> if 24 \<le> h then None else
        if length s = 2 then Some (int h * 3600 * us_per_s) else
        if length s < 5 \<or> s ! 2 \<noteq> CHR '':'' then None else
        (case undec 2 (take 2 (drop 3 s)) of None \<Rightarrow> None
         | Some m \<Rightarrow> if 60 \<le> m then None else
           if length s = 5 then Some ((int h * 3600 + int m * 60) * us_per_s) else
           if length s < 8 \<or> s ! 5 \<noteq> CHR '':'' then None else
           (case undec 2 (take 2 (drop 6 s)) of None \<Rightarrow> None
            | Some c \<Rightarrow> if 60 \<le> c then None else
              let base = (int h * 3600 + int m * 60 + int c) * us_per_s in
              if length s = 8 then Some base else
              if s ! 8 = CHR ''.'' \<or> s ! 8 = CHR '','' then
                map_option (\<lambda>f. base + f) (parse_fraction (drop 9 s))
              else None)))"

text \<open>The time part is split from its offset at the first \<open>+\<close>, \<open>-\<close> or \<open>Z\<close>.\<close>

definition is_offset_char :: "char \<Rightarrow> bool" where
  "is_offset_char c \<longleftrightarrow> c = CHR ''+'' \<or> c = CHR ''-'' \<or> c = CHR ''Z''"

definition parse_offset :: "string \<Rightarrow> int option option" where
  "parse_offset s =
     (case s of [] \<Rightarrow> Some None
      | c # r \<Rightarrow> if c = CHR ''Z'' then (if r = [] then Some (Some 0) else None)
         else map_option (\<lambda>z. Some (if c = CHR ''-'' then - z else z)) (parse_clock r))"

text \<open>
  \<open>parse_iso\<close> gives the local reading and, for an aware datetime, its offset;
  \<open>parse_utc\<close> is the idiom of the sources: a naive datetime is taken to be UTC.
\<close>

definition parse_iso :: "string \<Rightarrow> (instant \<times> int option) option" where
  "parse_iso s =
     (case parse_date (take 10 s) of None \<Rightarrow> None
      | Some n \<Rightarrow>
        let base = (n - epoch_day) * us_per_day in
        if length s \<le> 10 then Some (base, None) else
        let r = drop 11 s; c = takeWhile (\<lambda>c. \<not> is_offset_char c) r;
            z = dropWhile (\<lambda>c. \<not> is_offset_char c) r in
        (case (parse_clock c, parse_offset z) of
           (Some us, Some off) \<Rightarrow> Some (base + us, off)
         | _ \<Rightarrow> None))"

definition parse_utc :: "string \<Rightarrow> instant option" where
  "parse_utc s = map_option (\<lambda>(t, off). t - (case off of None \<Rightarrow> 0 | Some z \<Rightarrow> z)) (parse_iso s)"

section \<open>Durations\<close>

text \<open>\<open>int((a - b).total_seconds() * 1000)\<close>: whole milliseconds, truncated towards zero.\<close>

definition ms_between :: "instant \<Rightarrow> instant \<Rightarrow> int" where
  "ms_between a b = (let d = a - b in if 0 \<le> d then d div 1000 else - ((- d) div 1000))"

definition seconds_between :: "instant \<Rightarrow> instant \<Rightarrow> rat" where
  "seconds_between a b = of_int (a - b) / 1000000"

section \<open>Round trip\<close>

lemma div_bounds:
  fixes x :: int assumes "0 < k"
  shows "k * (x div k) \<le> x" "x \<le> k * (x div k) + (k - 1)"
  using pos_mod_bound [OF assms, of x] pos_mod_sign [OF assms, of x] mult_div_mod_eq [of k x]
  by linarith+

lemma days_before_year_bounds:
  "400 * days_before_year (x + 1) \<le> 146097 * x + 396"
  "146097 * x - 699 \<le> 400 * days_before_year (x + 1)"
  using div_bounds [of 4 x] div_bounds [of 100 x] div_bounds [of 400 x]
  by (simp_all add: days_before_year_def)

lemma year_of_bounds:
  "days_before_year (year_of n) \<le> n" "n < days_before_year (year_of n + 1)"
proof -
  define q where "q = n * 400 div 146097"
  have q: "146097 * q \<le> n * 400" "n * 400 \<le> 146097 * q + 146096"
    using div_bounds [of 146097 "n * 400"] by (simp_all add: q_def)
  have lo: "days_before_year (q + 1) \<le> n"
    using q days_before_year_bounds(1) [of q] by linarith
  have hi: "n < days_before_year (q + 2 + 1)"
    using q days_before_year_bounds(2) [of "q + 2"] by (simp only: distrib_left)
  from lo hi show "days_before_year (year_of n) \<le> n" "n < days_before_year (year_of n + 1)"
    by (auto simp: year_of_def Let_def q_def [symmetric] add.commute add.left_commute)
qed

lemma div_step:
  fixes y :: int assumes "0 < k"
  shows "y div k - (y - 1) div k = (if y mod k = 0 then 1 else 0)"
proof -
  have a: "k * (y div k) + y mod k = y" "k * ((y - 1) div k) + (y - 1) mod k = y - 1"
    by (rule mult_div_mod_eq)+
  have b: "0 \<le> y mod k" "y mod k < k" "0 \<le> (y - 1) mod k" "(y - 1) mod k < k"
    using assms by simp_all
  have c: "k * (y div k - (y - 1) div k) = 1 + (y - 1) mod k - y mod k"
    unfolding right_diff_distrib using a by linarith
  have "k * (y div k - (y - 1) div k) < k * 2" "k * (-1) < k * (y div k - (y - 1) div k)"
    unfolding c using b by linarith+
  then have d: "y div k - (y - 1) div k \<in> {0, 1}"
    using assms by (auto simp only: mult_less_cancel_left_pos) 
  show ?thesis
  proof (cases "y mod k = 0")
    case True
    with c d b show ?thesis by auto
  next
    case False
    with b have "0 < y mod k" by linarith
    with False c d b show ?thesis by auto
  qed
qed

lemma days_in_year: "days_before_year (y + 1) = days_before_year y + (if is_leap y then 366 else 365)"
proof -
  have "400 dvd y \<Longrightarrow> 100 dvd y" "100 dvd y \<Longrightarrow> 4 dvd y"
    by (auto elim: dvd_trans [rotated])
  then have m: "y mod 400 = 0 \<Longrightarrow> y mod 100 = 0" "y mod 100 = 0 \<Longrightarrow> y mod 4 = 0"
    by (simp_all add: dvd_eq_mod_eq_0)
  define a b c where "a = y div 4 - (y - 1) div 4" and "b = y div 100 - (y - 1) div 100"
    and "c = y div 400 - (y - 1) div 400"
  have eq: "days_before_year (y + 1) = days_before_year y + (365 + a - b + c)"
    by (simp add: days_before_year_def a_def b_def c_def)
  have "365 + a - b + c = (if is_leap y then 366 else 365)"
    using m unfolding a_def b_def c_def is_leap_def
    by (cases "y mod 4 = 0"; cases "y mod 100 = 0"; cases "y mod 400 = 0") (simp_all only: div_step, simp_all)
  with eq show ?thesis by simp
qed

lemma month_of_bounds:
  assumes "0 \<le> d" "d < (if l then 366 else 365)"
  shows "1 \<le> month_of l d" "month_of l d \<le> 12"
    "month_start l (month_of l d) \<le> d" "d < month_start l (month_of l d + 1)"
  using assms by (auto simp: month_of_def month_start_def Let_def)

lemma ymd_of_day:
  assumes "ymd_of_day n = (y, m, d)"
  shows "day_of_ymd y m d = n" "1 \<le> m" "m \<le> 12" "1 \<le> d" "d \<le> days_in_month (is_leap y) m"
    "y = year_of n"
proof -
  let ?r = "n - days_before_year (year_of n)"
  have "0 \<le> ?r" "?r < (if is_leap (year_of n) then 366 else 365)"
    using year_of_bounds [of n] days_in_year [of "year_of n"] by auto
  note mb = month_of_bounds [OF this]
  from assms have e: "y = year_of n" "m = month_of (is_leap (year_of n)) ?r"
    "d = ?r - month_start (is_leap (year_of n)) m + 1"
    by (auto simp: ymd_of_day_def Let_def)
  show "1 \<le> m" "m \<le> 12" "y = year_of n" using mb e by auto
  show "day_of_ymd y m d = n" using e by (simp add: day_of_ymd_def)
  show "1 \<le> d" "d \<le> days_in_month (is_leap y) m"
    using mb(3,4) unfolding days_in_month_def e by auto
qed

lemma year_of_range:
  assumes "0 \<le> n" "n < 3652059"
  shows "1 \<le> year_of n" "year_of n \<le> 9999"
proof -
  define x where "x = year_of n - 1"
  have y: "year_of n = x + 1" by (simp add: x_def)
  note b = year_of_bounds [of n, unfolded y]
  have "146097 * x - 699 \<le> 400 * n"
    using b(1) days_before_year_bounds(2) [of x] by linarith
  moreover have "400 * n < 146097 * (x + 1) + 396"
    using b(2) days_before_year_bounds(1) [of "x + 1"] by linarith
  ultimately have r: "-1 \<le> x" "x \<le> 9999" using assms by (smt (verit))+
  have "x \<noteq> -1" using b(2) assms by (auto simp: days_before_year_def)
  moreover have "x \<noteq> 9999" using b(1) assms by (auto simp: days_before_year_def)
  ultimately show "1 \<le> year_of n" "year_of n \<le> 9999" using r y by linarith+
qed

lemma char_digit_digit [simp]: "n < 10 \<Longrightarrow> char_digit (digit_char n) = Some n"
  by (simp add: char_digit_def digit_char_def Let_def)

lemma length_fixdec [simp]: "length (fixdec k n) = k"
  by (induction k n rule: fixdec.induct) auto

lemma undec_from_append:
  "undec_from a (s @ t) = (case undec_from a s of None \<Rightarrow> None | Some b \<Rightarrow> undec_from b t)"
  by (induction a s rule: undec_from.induct) (auto split: option.splits)

lemma undec_from_fixdec: "n < 10 ^ k \<Longrightarrow> undec_from a (fixdec k n) = Some (a * 10 ^ k + n)"
proof (induction k n arbitrary: a rule: fixdec.induct)
  case (2 k n)
  then have "n div 10 < 10 ^ k" by (simp add: less_mult_imp_div_less mult.commute)
  with 2 show ?case by (simp add: undec_from_append algebra_simps)
qed simp

lemma undec_fixdec [simp]: "n < 10 ^ k \<Longrightarrow> undec k (fixdec k n) = Some n"
  by (simp add: undec_def undec_from_fixdec)

lemma fixdec_chars: "c \<in> set (fixdec k n) \<Longrightarrow> \<exists>d < 10. c = digit_char d"
proof (induction k n rule: fixdec.induct)
  case (2 k n)
  have "n mod 10 < 10" by simp
  with 2 show ?case by (auto simp del: mod_less_divisor)
qed simp

lemma digit_char_neq:
  assumes "d < 10"
  shows "digit_char d \<noteq> CHR ''+''" "digit_char d \<noteq> CHR ''-''" "digit_char d \<noteq> CHR ''Z''"
proof -
  have "of_char (digit_char d) = (48 + d :: nat)"
    using assms by (simp add: digit_char_def)
  with assms show "digit_char d \<noteq> CHR ''+''" "digit_char d \<noteq> CHR ''-''" "digit_char d \<noteq> CHR ''Z''"
    by auto
qed

lemma parse_date_iso_date:
  assumes "0 \<le> n" "n < 3652059"
  shows "parse_date (iso_date n) = Some n" "length (iso_date n) = 10"
proof -
  obtain y m d where e: "ymd_of_day n = (y, m, d)" by (cases "ymd_of_day n") auto
  note f = ymd_of_day [OF e]
  have r: "1 \<le> y" "y \<le> 9999" using year_of_range [OF assms] f by auto
  have "days_in_month (is_leap y) m \<le> 31"
    using f(2,3) by (auto simp: days_in_month_def month_start_def Let_def)
  with f have d: "nat d < 10 ^ 2" "nat m < 10 ^ 2" "nat y < 10 ^ 4" using r by auto
  have "iso_date n = fixdec 4 (nat y) @ ''-'' @ fixdec 2 (nat m) @ ''-'' @ fixdec 2 (nat d)"
    by (simp add: iso_date_def e)
  then show "parse_date (iso_date n) = Some n" "length (iso_date n) = 10"
    using f r d by (simp_all add: parse_date_def nth_append le_nat_iff Suc_le_eq)
qed

lemma parse_fraction_fixdec: "n < 10 ^ 6 \<Longrightarrow> parse_fraction (fixdec 6 n) = Some (int n)"
proof -
  assume n: "n < 10 ^ 6"
  have "fixdec 6 n \<noteq> []" by (metis length_fixdec list.size(3) zero_neq_numeral)
  then obtain c r where cr: "fixdec 6 n = c # r" by (cases "fixdec 6 n") auto
  have "undec_from 0 (c # r) = Some n" "undec 6 (take 6 ((c # r) @ ''000000'')) = Some n"
    using undec_from_fixdec [OF n, of 0] n by (simp_all add: cr [symmetric] del: append_Cons)
  then show ?thesis by (simp only: cr parse_fraction_def list.case option.case option.map)
qed

lemma parse_clock_fields:
  assumes "h < 24" "m < 60" "c < 60"
  shows "parse_clock (fixdec 2 h @ '':'' @ fixdec 2 m @ '':'' @ fixdec 2 c) =
      Some ((int h * 3600 + int m * 60 + int c) * us_per_s)"
    and "us < 10 ^ 6 \<Longrightarrow> parse_clock (fixdec 2 h @ '':'' @ fixdec 2 m @ '':'' @ fixdec 2 c @ ''.'' @ fixdec 6 us) =
      Some ((int h * 3600 + int m * 60 + int c) * us_per_s + int us)"
proof -
  have u: "undec 2 (fixdec 2 h) = Some h" "undec 2 (fixdec 2 m) = Some m" "undec 2 (fixdec 2 c) = Some c"
    using assms by simp_all
  show "parse_clock (fixdec 2 h @ '':'' @ fixdec 2 m @ '':'' @ fixdec 2 c) =
      Some ((int h * 3600 + int m * 60 + int c) * us_per_s)"
    using assms u by (simp add: parse_clock_def nth_append del: undec_fixdec)
  assume "us < 10 ^ 6"
  then show "parse_clock (fixdec 2 h @ '':'' @ fixdec 2 m @ '':'' @ fixdec 2 c @ ''.'' @ fixdec 6 us) =
      Some ((int h * 3600 + int m * 60 + int c) * us_per_s + int us)"
    using assms u
    by (simp add: parse_clock_def nth_append parse_fraction_fixdec Let_def del: undec_fixdec)
qed

lemma parse_clock_iso_time:
  assumes "0 \<le> r" "r < us_per_day"
  shows "parse_clock (iso_time r) = Some r"
proof -
  define s us where "s = r div us_per_s" and "us = r mod us_per_s"
  have s: "0 \<le> s" "s < 86400" "0 \<le> us" "us < 1000000"
    using assms by (auto simp: s_def us_def us_per_s_def us_per_day_def)
  have r: "s * us_per_s + us = r" by (simp add: s_def us_def)
  have d1: "0 \<le> s div 3600" "s div 3600 < 24"
    using div_bounds [of 3600 s] s by linarith+
  have d2: "0 \<le> s div 60 mod 60" "s div 60 mod 60 < 60" "0 \<le> s mod 60" "s mod 60 < 60"
    by (rule pos_mod_sign pos_mod_bound, simp)+
  have b: "nat (s div 3600) < 24" "nat (s div 60 mod 60) < 60" "nat (s mod 60) < 60" "nat us < 10 ^ 6"
    using d1 d2 s by (simp_all only: nat_less_iff) simp_all
  have "s div 3600 = s div 60 div 60" by (simp add: zdiv_zmult2_eq [of 60 s 60, symmetric])
  then have sum: "s div 3600 * 3600 + s div 60 mod 60 * 60 + s mod 60 = s"
    using mult_div_mod_eq [of 60 "s div 60"] mult_div_mod_eq [of 60 s] by linarith
  have i: "(int (nat (s div 3600)) * 3600 + int (nat (s div 60 mod 60)) * 60 + int (nat (s mod 60))) = s"
    using sum d1(1) d2(1,3) by (simp only: int_nat_eq if_True)
  show ?thesis
  proof (cases "us = 0")
    case True
    with parse_clock_fields(1) [OF b(1-3), unfolded i] r show ?thesis
      by (simp only: iso_time_def Let_def s_def [symmetric] us_def [symmetric] if_True append_Nil2) simp
  next
    case False
    moreover have "int (nat us) = us" using s by simp
    ultimately show ?thesis
      using parse_clock_fields(2) [OF b(1-3) b(4), unfolded i] r
      by (simp only: iso_time_def Let_def s_def [symmetric] us_def [symmetric] if_False)
  qed
qed

lemma iso_time_no_offset: "c \<in> set (iso_time r) \<Longrightarrow> \<not> is_offset_char c"
  by (auto simp: iso_time_def Let_def is_offset_char_def dest!: fixdec_chars dest: digit_char_neq
      split: if_splits)

theorem parse_iso_naive:
  assumes "- 62135596800000000 \<le> t" "t < 253402300800000000"
    and off: "parse_offset z = Some off" "z = [] \<or> is_offset_char (hd z)"
  shows "parse_iso (iso_naive t @ z) = Some (t, off)"
proof -
  define n where "n = t div us_per_day + epoch_day"
  have n: "0 \<le> n" "n < 3652059"
    using assms(1,2) by (auto simp: n_def us_per_day_def epoch_day_def)
  note d = parse_date_iso_date [OF n]
  have c: "parse_clock (iso_time (t mod us_per_day)) = Some (t mod us_per_day)"
    by (rule parse_clock_iso_time) (simp_all add: us_per_day_def)
  have tw: "takeWhile (\<lambda>c. \<not> is_offset_char c) (iso_time (t mod us_per_day) @ z) = iso_time (t mod us_per_day)"
    "dropWhile (\<lambda>c. \<not> is_offset_char c) (iso_time (t mod us_per_day) @ z) = z"
    using iso_time_no_offset off(2) by (cases z; auto simp: takeWhile_append2 dropWhile_append2)+
  have e: "iso_naive t @ z = iso_date n @ CHR ''T'' # iso_time (t mod us_per_day) @ z"
    by (simp add: iso_naive_def n_def)
  have "(n - epoch_day) * us_per_day + t mod us_per_day = t" by (simp add: n_def)
  then show ?thesis
    using c d off(1) by (simp add: parse_iso_def e tw Let_def)
qed

lemma parse_utc_isoformat:
  assumes "- 62135596800000000 \<le> t" "t < 253402300800000000"
  shows "parse_utc (isoformat t) = Some t" and "parse_utc (isoformat_z t) = Some t"
proof -
  have "parse_offset ''+00:00'' = Some (Some 0)" by code_simp
  moreover have "parse_offset ''Z'' = Some (Some 0)" by code_simp
  ultimately show "parse_utc (isoformat t) = Some t" "parse_utc (isoformat_z t) = Some t"
    by (simp_all add: parse_utc_def isoformat_def isoformat_z_def parse_iso_naive assms is_offset_char_def)
qed

lemma iso_naive_no_Z: "CHR ''Z'' \<notin> set (iso_naive t)"
  by (auto simp: iso_naive_def iso_date_def iso_time_def Let_def dest!: fixdec_chars dest: digit_char_neq(3)
      split: prod.splits if_splits)

lemma replace_z_id: "CHR ''Z'' \<notin> set s \<Longrightarrow> replace_z (s @ z) = s @ replace_z z"
  by (induction s) (auto simp: replace_z_def)

text \<open>What a record holds is read back through \<open>replace("Z", "+00:00")\<close> as well.\<close>

lemma parse_utc_replace_z:
  assumes "- 62135596800000000 \<le> t" "t < 253402300800000000"
  shows "parse_utc (replace_z (isoformat t)) = Some t" "parse_utc (replace_z (isoformat_z t)) = Some t"
proof -
  have z: "replace_z ''+00:00'' = ''+00:00''" "replace_z ''Z'' = ''+00:00''" by (simp_all add: replace_z_def)
  have "replace_z (isoformat t) = isoformat t" "replace_z (isoformat_z t) = isoformat t"
    using replace_z_id [OF iso_naive_no_Z, of t] z by (simp_all add: isoformat_def isoformat_z_def)
  then show "parse_utc (replace_z (isoformat t)) = Some t" "parse_utc (replace_z (isoformat_z t)) = Some t"
    using parse_utc_isoformat(1) [OF assms] by simp_all
qed

lemma strip_nonblank:
  assumes "c \<in> set s" "\<not> is_space c" shows "strip s \<noteq> []"
proof
  assume "strip s = []"
  then have "\<forall>d \<in> set (dropWhile is_space s). is_space d" by (simp add: strip_def)
  moreover have "c \<in> set (dropWhile is_space s)"
  proof -
    have "c \<notin> set (takeWhile is_space s)" using assms(2) by (auto dest: set_takeWhileD)
    with assms(1) show ?thesis using set_append [of "takeWhile is_space s" "dropWhile is_space s"] by simp
  qed
  ultimately show False using assms(2) by blast
qed

lemma isoformat_nonblank [simp]: "strip (isoformat t) \<noteq> []" "isoformat t \<noteq> []"
proof -
  show "strip (isoformat t) \<noteq> []"
    by (rule strip_nonblank [of "CHR ''T''"]) (simp_all add: isoformat_def iso_naive_def is_space_def)
  show "isoformat t \<noteq> []" by (simp add: isoformat_def iso_naive_def)
qed

end
