(* ===== verification/Contracts.thy ===== *)
theory Contracts
  imports PyTime
begin

text \<open>
  The wire contract of a voice endpoint (\<open>voice/contracts.py\<close>): the event types and their
  directions, the session states with their allowed transitions, the projection to what the
  endpoint shows, and the records of the payloads. Validation of incoming JSON is the work of a
  library; what it returns are the records below.
\<close>

section \<open>Event types\<close>

datatype event_type =
    EvSessionStart
  | EvAudioChunk
  | EvAudioEnd
  | EvVadSpeechStarted
  | EvVadSpeechEnded
  | EvWakeCandidate
  | EvSessionCancel
  | EvSessionPing
  | EvSessionState
  | EvWakeElectionResult
  | EvWakeAccepted
  | EvCaptureStarted
  | EvCaptureStopped
  | EvTranscriptPartial
  | EvTranscriptFinal
  | EvCommandResult
  | EvCommandHandled
  | EvUpstreamPending
  | EvUpstreamResponse
  | EvResponseText
  | EvTtsReady
  | EvTtsPlaybackDownloadStarted
  | EvTtsPlaybackFirstAudioFrame
  | EvTtsPlaybackCompleted
  | EvTtsPlaybackFailed
  | EvPlaybackStart
  | EvPlaybackStop
  | EvEndpointUiButtonPressed
  | EvEndpointUiScreenChanged
  | EvSessionComplete
  | EvSessionCompleted
  | EvSessionCancelled
  | EvSessionError
  | EvOtaUpdate
  | EvEndpointVolume
  | EvEndpointMute
  | EvEndpointMicroVad
  | EvEndpointDisplayTuning
  | EvEndpointAudioFinalize
  | EvEndpointCancel
  | EvEndpointListen
  | EvEndpointReplay
  | EvEndpointRestart
  | EvEndpointAssetsSync
  | EvEndpointAssetPrepare
  | EvEndpointUiFlags
  | EvEndpointUiMessage
  | EvEndpointUiScreenRender
  | EvEndpointUiScreenClear
  | EvEndpointProvisioningApply
  | EvEndpointProvisioningReset
  | EvEndpointLedSimulate
  | EvEndpointMediaTransfer
  | EvEndpointStorageReformat
  | EvEndpointTimer
  | EvCommandAck
  | EvCommandError

primrec event_name :: "event_type \<Rightarrow> string" where
  "event_name EvSessionStart = ''session.start''"
| "event_name EvAudioChunk = ''audio.chunk''"
| "event_name EvAudioEnd = ''audio.end''"
| "event_name EvVadSpeechStarted = ''vad.speech_started''"
| "event_name EvVadSpeechEnded = ''vad.speech_ended''"
| "event_name EvWakeCandidate = ''wake.candidate''"
| "event_name EvSessionCancel = ''session.cancel''"
| "event_name EvSessionPing = ''session.ping''"
| "event_name EvSessionState = ''session.state''"
| "event_name EvWakeElectionResult = ''wake.election.result''"
| "event_name EvWakeAccepted = ''wake.accepted''"
| "event_name EvCaptureStarted = ''capture.started''"
| "event_name EvCaptureStopped = ''capture.stopped''"
| "event_name EvTranscriptPartial = ''transcript.partial''"
| "event_name EvTranscriptFinal = ''transcript.final''"
| "event_name EvCommandResult = ''command.result''"
| "event_name EvCommandHandled = ''command.handled''"
| "event_name EvUpstreamPending = ''upstream.pending''"
| "event_name EvUpstreamResponse = ''upstream.response''"
| "event_name EvResponseText = ''response.text''"
| "event_name EvTtsReady = ''tts.ready''"
| "event_name EvTtsPlaybackDownloadStarted = ''tts.playback.download_started''"
| "event_name EvTtsPlaybackFirstAudioFrame = ''tts.playback.first_audio_frame''"
| "event_name EvTtsPlaybackCompleted = ''tts.playback.completed''"
| "event_name EvTtsPlaybackFailed = ''tts.playback.failed''"
| "event_name EvPlaybackStart = ''playback.start''"
| "event_name EvPlaybackStop = ''playback.stop''"
| "event_name EvEndpointUiButtonPressed = ''endpoint.ui.button_pressed''"
| "event_name EvEndpointUiScreenChanged = ''endpoint.ui.screen.changed''"
| "event_name EvSessionComplete = ''session.complete''"
| "event_name EvSessionCompleted = ''session.completed''"
| "event_name EvSessionCancelled = ''session.cancelled''"
| "event_name EvSessionError = ''session.error''"
| "event_name EvOtaUpdate = ''ota.update''"
| "event_name EvEndpointVolume = ''endpoint.volume''"
| "event_name EvEndpointMute = ''endpoint.mute''"
| "event_name EvEndpointMicroVad = ''endpoint.micro_vad''"
| "event_name EvEndpointDisplayTuning = ''endpoint.display.tuning''"
| "event_name EvEndpointAudioFinalize = ''endpoint.audio.finalize''"
| "event_name EvEndpointCancel = ''endpoint.cancel''"
| "event_name EvEndpointListen = ''endpoint.listen''"
| "event_name EvEndpointReplay = ''endpoint.replay''"
| "event_name EvEndpointRestart = ''endpoint.restart''"
| "event_name EvEndpointAssetsSync = ''endpoint.assets.sync''"
| "event_name EvEndpointAssetPrepare = ''endpoint.asset.prepare''"
| "event_name EvEndpointUiFlags = ''endpoint.ui.flags''"
| "event_name EvEndpointUiMessage = ''endpoint.ui.message''"
| "event_name EvEndpointUiScreenRender = ''endpoint.ui.screen.render''"
| "event_name EvEndpointUiScreenClear = ''endpoint.ui.screen.clear''"
| "event_name EvEndpointProvisioningApply = ''endpoint.provisioning.apply''"
| "event_name EvEndpointProvisioningReset = ''endpoint.provisioning.reset''"
| "event_name EvEndpointLedSimulate = ''endpoint.led.simulate''"
| "event_name EvEndpointMediaTransfer = ''endpoint.media.transfer''"
| "event_name EvEndpointStorageReformat = ''endpoint.storage.reformat''"
| "event_name EvEndpointTimer = ''endpoint.timer''"
| "event_name EvCommandAck = ''command.ack''"
| "event_name EvCommandError = ''command.error''"

definition endpoint_to_backend_events :: "event_type list" where
  "endpoint_to_backend_events =
    [EvSessionStart,
     EvAudioChunk,
     EvAudioEnd,
     EvVadSpeechStarted,
     EvVadSpeechEnded,
     EvWakeCandidate,
     EvSessionCancel,
     EvSessionPing,
     EvCommandAck,
     EvCommandError,
     EvTtsPlaybackDownloadStarted,
     EvTtsPlaybackFirstAudioFrame,
     EvTtsPlaybackCompleted,
     EvTtsPlaybackFailed,
     EvPlaybackStop,
     EvEndpointUiButtonPressed,
     EvEndpointUiScreenChanged]"

definition backend_to_endpoint_events :: "event_type list" where
  "backend_to_endpoint_events =
    [EvSessionState,
     EvWakeElectionResult,
     EvWakeAccepted,
     EvCaptureStarted,
     EvCaptureStopped,
     EvTranscriptPartial,
     EvTranscriptFinal,
     EvCommandResult,
     EvCommandHandled,
     EvUpstreamPending,
     EvUpstreamResponse,
     EvResponseText,
     EvTtsReady,
     EvPlaybackStart,
     EvPlaybackStop,
     EvSessionComplete,
     EvSessionCompleted,
     EvSessionCancelled,
     EvSessionError,
     EvOtaUpdate,
     EvEndpointVolume,
     EvEndpointMute,
     EvEndpointMicroVad,
     EvEndpointDisplayTuning,
     EvEndpointAudioFinalize,
     EvEndpointCancel,
     EvEndpointListen,
     EvEndpointReplay,
     EvEndpointRestart,
     EvEndpointAssetsSync,
     EvEndpointAssetPrepare,
     EvEndpointUiFlags,
     EvEndpointUiMessage,
     EvEndpointUiScreenRender,
     EvEndpointUiScreenClear,
     EvEndpointProvisioningApply,
     EvEndpointProvisioningReset,
     EvEndpointLedSimulate,
     EvEndpointMediaTransfer,
     EvEndpointStorageReformat,
     EvEndpointTimer]"

datatype direction = EndpointToBackend | BackendToEndpoint | InternalEvent

section \<open>Session states\<close>

datatype session_state =
    Idle | WakeDetected | Listening | Capturing | Transcribing | LocalCommand | Routing
  | Responding | Completed | Cancelled | Failed

datatype ux_state =
    UxIdle | UxWakeArmed | UxWakeDetected | UxListening | UxThinking | UxSpeaking | UxMuted | UxError

datatype connection_state = Offline | Connecting | Connected | Degraded

datatype wake_source = WakeOpenWakeWord | WakeButton | WakeManual | WakeTouch | WakeUnknown

primrec state_name :: "session_state \<Rightarrow> string" where
  "state_name Idle = ''idle''"
| "state_name WakeDetected = ''wake_detected''"
| "state_name Listening = ''listening''"
| "state_name Capturing = ''capturing''"
| "state_name Transcribing = ''transcribing''"
| "state_name LocalCommand = ''local_command''"
| "state_name Routing = ''routing''"
| "state_name Responding = ''responding''"
| "state_name Completed = ''completed''"
| "state_name Cancelled = ''cancelled''"
| "state_name Failed = ''failed''"

primrec ux_name :: "ux_state \<Rightarrow> string" where
  "ux_name UxIdle = ''idle''"
| "ux_name UxWakeArmed = ''wake_armed''"
| "ux_name UxWakeDetected = ''wake_detected''"
| "ux_name UxListening = ''listening''"
| "ux_name UxThinking = ''thinking''"
| "ux_name UxSpeaking = ''speaking''"
| "ux_name UxMuted = ''muted''"
| "ux_name UxError = ''error''"

primrec connection_name :: "connection_state \<Rightarrow> string" where
  "connection_name Offline = ''offline''"
| "connection_name Connecting = ''connecting''"
| "connection_name Connected = ''connected''"
| "connection_name Degraded = ''degraded''"

primrec wake_source_name :: "wake_source \<Rightarrow> string" where
  "wake_source_name WakeOpenWakeWord = ''openwakeword''"
| "wake_source_name WakeButton = ''button''"
| "wake_source_name WakeManual = ''manual''"
| "wake_source_name WakeTouch = ''touch''"
| "wake_source_name WakeUnknown = ''unknown''"

text \<open>\<open>VOICE_SESSION_ALLOWED_TRANSITIONS\<close> and \<open>VOICE_SESSION_UX_PROJECTION\<close>.\<close>

primrec allowed_transitions :: "session_state \<Rightarrow> session_state list" where
  "allowed_transitions Idle = [WakeDetected, Listening, Capturing, Cancelled, Failed]"
| "allowed_transitions WakeDetected = [Listening, Cancelled, Failed]"
| "allowed_transitions Listening = [Capturing, Cancelled, Failed]"
| "allowed_transitions Capturing = [Transcribing, Cancelled, Failed]"
| "allowed_transitions Transcribing = [LocalCommand, Routing, Cancelled, Failed]"
| "allowed_transitions LocalCommand = [Responding, Completed, Cancelled, Failed]"
| "allowed_transitions Routing = [Responding, Cancelled, Failed]"
| "allowed_transitions Responding = [Listening, Completed, Cancelled, Failed]"
| "allowed_transitions Completed = [Idle]"
| "allowed_transitions Cancelled = [Idle]"
| "allowed_transitions Failed = [Idle]"

primrec project_ux_state :: "session_state \<Rightarrow> ux_state" where
  "project_ux_state Idle = UxWakeArmed"
| "project_ux_state WakeDetected = UxWakeDetected"
| "project_ux_state Listening = UxListening"
| "project_ux_state Capturing = UxListening"
| "project_ux_state Transcribing = UxThinking"
| "project_ux_state LocalCommand = UxThinking"
| "project_ux_state Routing = UxThinking"
| "project_ux_state Responding = UxSpeaking"
| "project_ux_state Completed = UxIdle"
| "project_ux_state Cancelled = UxIdle"
| "project_ux_state Failed = UxError"

definition is_valid_transition :: "session_state \<Rightarrow> session_state \<Rightarrow> bool" where
  "is_valid_transition current nxt \<longleftrightarrow> nxt \<in> set (allowed_transitions current)"

section \<open>Payload records\<close>

record audio_format =
  af_encoding :: string
  af_sample_rate_hz :: int
  af_channels :: int

record session_start_payload =
  sp_audio_format :: audio_format
  sp_firmware_version :: "string option"
  sp_wake_source :: wake_source

record audio_chunk_payload =
  cp_chunk_index :: int
  cp_audio_format :: audio_format
  cp_payload_base64 :: "string option"
  cp_is_final :: bool
  cp_micro_vad_chunk_index :: "int option"
  cp_micro_vad_chunk_started :: bool
  cp_micro_vad_chunk_final :: bool
  cp_micro_vad_pause_ms :: "int option"
  cp_frame_level :: "int option"
  cp_noise_floor_level :: "int option"
  cp_speech_peak_level :: "int option"
  cp_pre_roll_duration_ms :: "int option"
  cp_contains_pre_roll :: bool
  cp_contains_speech :: bool

record tts_playback_payload =
  pp_stream_id :: "string option"
  pp_audio_url :: "string option"
  pp_byte_count :: "int option"
  pp_reason :: "string option"
  pp_message :: "string option"

record ui_button_payload =
  bp_screen_id :: string
  bp_button_id :: string
  bp_intent_id :: string
  bp_button_index :: int
  bp_button :: "int \<times> int \<times> int \<times> int"
  bp_touch :: "int \<times> int"

record vad_started_payload =
  vs_level :: "int option"
  vs_source :: "string option"

record vad_ended_payload =
  ve_level :: "int option"
  ve_source :: "string option"
  ve_reason :: "string option"

record wake_candidate_payload =
  wp_source :: string
  wp_model :: "string option"
  wp_confidence :: "rat option"
  wp_chunk_index :: "int option"
  wp_chunk_count :: "int option"
  wp_detected_at :: "instant option"
  wp_detection_window_ms :: "int option"
  wp_frame_level :: "int option"
  wp_speech_peak_level :: "int option"
  wp_noise_floor_level :: "int option"
  wp_ambient_level :: "int option"
  wp_snr_db :: "rat option"
  wp_profile_version :: "string option"
  wp_metadata :: dict

record error_payload =
  er_code :: string
  er_message :: string
  er_recoverable :: bool

datatype ack_status = AckAccepted | AckStarted | AckSucceeded | AckUnsupported

primrec ack_name :: "ack_status \<Rightarrow> string" where
  "ack_name AckAccepted = ''accepted''"
| "ack_name AckStarted = ''started''"
| "ack_name AckSucceeded = ''succeeded''"
| "ack_name AckUnsupported = ''unsupported''"

record command_ack_payload =
  ca_request_id :: string
  ca_command_type :: string
  ca_status :: ack_status
  ca_message :: "string option"

record command_error_payload =
  ce_request_id :: string
  ce_command_type :: string
  ce_code :: string
  ce_message :: string
  ce_recoverable :: bool

section \<open>Envelope and snapshot\<close>

record envelope =
  ev_event_type :: event_type
  ev_event_id :: string
  ev_endpoint_id :: string
  ev_direction :: direction
  ev_session_id :: "string option"
  ev_sequence :: "nat option"
  ev_timestamp :: instant
  ev_payload :: dict

record snapshot =
  ss_session_id :: string
  ss_endpoint_id :: string
  ss_session_state :: session_state
  ss_connection_state :: connection_state
  ss_ux_state :: ux_state
  ss_started_at :: instant
  ss_last_updated_at :: instant
  ss_wake_source :: wake_source
  ss_cancel_reason :: "string option"
  ss_completion_reason :: "string option"
  ss_last_error :: "error_payload option"

text \<open>The JSON dumps of the records the manager embeds in payloads and histories.\<close>

definition dump_audio_format :: "audio_format \<Rightarrow> pv" where
  "dump_audio_format f = PDict
     [(''encoding'', PStr (af_encoding f)), (''sample_rate_hz'', PInt (af_sample_rate_hz f)),
      (''channels'', PInt (af_channels f))]"

definition dump_error :: "error_payload \<Rightarrow> dict" where
  "dump_error e =
     [(''code'', PStr (er_code e)), (''message'', PStr (er_message e)),
      (''recoverable'', PBool (er_recoverable e))]"

definition dump_snapshot :: "snapshot \<Rightarrow> pv" where
  "dump_snapshot s = PDict
     [(''session_id'', PStr (ss_session_id s)),
      (''endpoint_id'', PStr (ss_endpoint_id s)),
      (''session_state'', PStr (state_name (ss_session_state s))),
      (''connection_state'', PStr (connection_name (ss_connection_state s))),
      (''ux_state'', PStr (ux_name (ss_ux_state s))),
      (''started_at'', PStr (isoformat_z (ss_started_at s))),
      (''last_updated_at'', PStr (isoformat_z (ss_last_updated_at s))),
      (''wake_source'', PStr (wake_source_name (ss_wake_source s))),
      (''cancel_reason'', ostr (ss_cancel_reason s)),
      (''completion_reason'', ostr (ss_completion_reason s)),
      (''last_error'', odict (map_option dump_error (ss_last_error s)))]"

definition dump_playback :: "tts_playback_payload \<Rightarrow> dict" where
  \<comment> \<open>\<open>model_dump(mode="json", exclude_none=True)\<close>\<close>
  "dump_playback p = filter (\<lambda>kv. snd kv \<noteq> PNone)
     [(''stream_id'', ostr (pp_stream_id p)), (''audio_url'', ostr (pp_audio_url p)),
      (''byte_count'', oint (pp_byte_count p)), (''reason'', ostr (pp_reason p)),
      (''message'', ostr (pp_message p))]"

definition dump_ui_button :: "ui_button_payload \<Rightarrow> dict" where
  "dump_ui_button p =
     (case bp_button p of (bx, by', bw, bh) \<Rightarrow> case bp_touch p of (tx, ty) \<Rightarrow>
      [(''screen_id'', PStr (bp_screen_id p)), (''button_id'', PStr (bp_button_id p)),
       (''intent_id'', PStr (bp_intent_id p)), (''button_index'', PInt (bp_button_index p)),
       (''button'', PDict [(''x'', PInt bx), (''y'', PInt by'), (''width'', PInt bw), (''height'', PInt bh)]),
       (''touch'', PDict [(''x'', PInt tx), (''y'', PInt ty)]), (''source'', PStr ''touch'')])"

definition dump_command_ack :: "command_ack_payload \<Rightarrow> dict" where
  "dump_command_ack p =
     [(''request_id'', PStr (ca_request_id p)), (''command_type'', PStr (ca_command_type p)),
      (''status'', PStr (ack_name (ca_status p))), (''message'', ostr (ca_message p))]"

definition dump_command_error :: "command_error_payload \<Rightarrow> dict" where
  "dump_command_error p =
     [(''request_id'', PStr (ce_request_id p)), (''command_type'', PStr (ce_command_type p)),
      (''code'', PStr (ce_code p)), (''message'', PStr (ce_message p)),
      (''recoverable'', PBool (ce_recoverable p))]"

section \<open>Projection of a connection\<close>

record projection =
  pr_connection_state :: connection_state
  pr_ux_state :: ux_state
  pr_session_state :: "session_state option"
  pr_transport_health :: string

definition project_voice_state :: "bool \<Rightarrow> snapshot option \<Rightarrow> projection" where
  "project_voice_state connection_active active_session =
     (let cs = (if connection_active then Connected else Offline);
          th = (if connection_active then ''online'' else ''offline'') in
      case active_session of
        None \<Rightarrow> \<lparr>pr_connection_state = cs, pr_ux_state = UxIdle, pr_session_state = None,
                 pr_transport_health = th\<rparr>
      | Some s \<Rightarrow> \<lparr>pr_connection_state = cs, pr_ux_state = ss_ux_state s,
                   pr_session_state = Some (ss_session_state s), pr_transport_health = th\<rparr>)"

section \<open>Facts about the transition table\<close>

definition is_terminal :: "session_state \<Rightarrow> bool" where
  "is_terminal s \<longleftrightarrow> s \<in> {Completed, Cancelled, Failed}"

lemma is_valid_transition_simps [simp]:
  "is_valid_transition Idle s \<longleftrightarrow> s \<in> {WakeDetected, Listening, Capturing, Cancelled, Failed}"
  "is_valid_transition WakeDetected s \<longleftrightarrow> s \<in> {Listening, Cancelled, Failed}"
  "is_valid_transition Listening s \<longleftrightarrow> s \<in> {Capturing, Cancelled, Failed}"
  "is_valid_transition Capturing s \<longleftrightarrow> s \<in> {Transcribing, Cancelled, Failed}"
  "is_valid_transition Transcribing s \<longleftrightarrow> s \<in> {LocalCommand, Routing, Cancelled, Failed}"
  "is_valid_transition LocalCommand s \<longleftrightarrow> s \<in> {Responding, Completed, Cancelled, Failed}"
  "is_valid_transition Routing s \<longleftrightarrow> s \<in> {Responding, Cancelled, Failed}"
  "is_valid_transition Responding s \<longleftrightarrow> s \<in> {Listening, Completed, Cancelled, Failed}"
  "is_valid_transition Completed s \<longleftrightarrow> s = Idle"
  "is_valid_transition Cancelled s \<longleftrightarrow> s = Idle"
  "is_valid_transition Failed s \<longleftrightarrow> s = Idle"
  by (auto simp: is_valid_transition_def)

lemma active_can_be_cancelled: "\<not> is_terminal s \<Longrightarrow> is_valid_transition s Cancelled"
  by (cases s) (auto simp: is_terminal_def)

end
