(* ===== verification/WakeElection.thy ===== *)
theory WakeElection
  imports Contracts
begin

text \<open>
  The wake-candidate election (\<open>voice/wake_election.py\<close>): several endpoints in earshot of
  the same wake word report candidates, and the election picks the one that may listen. The
  class is a record of its attributes; \<open>submit_candidate\<close> is a function from the election
  and a candidate to the decision and the new election. The lock around it makes each call
  atomic.
\<close>

section \<open>Candidates and their rank\<close>

definition source_priority :: "string \<Rightarrow> int" where
  "source_priority s =
     (if s = ''button'' then 100 else if s = ''touch'' then 98 else if s = ''manual'' then 95
      else if s = ''endpoint_micro_wake_word'' then 80 else if s = ''endpoint_wake_word'' then 75
      else if s = ''backend_openwakeword'' then 60 else if s = ''openwakeword'' then 55
      else if s = ''unknown'' then 0 else 10)"

record wake_candidate =
  wc_endpoint_id :: string
  wc_session_id :: string
  wc_source :: string
  wc_model :: "string option"
  wc_confidence :: "rat option"
  wc_received_at :: instant
  wc_detected_at :: "instant option"
  wc_chunk_index :: "int option"
  wc_chunk_count :: "int option"
  wc_frame_level :: "int option"
  wc_speech_peak_level :: "int option"
  wc_noise_floor_level :: "int option"
  wc_ambient_level :: "int option"
  wc_snr_db :: "rat option"
  wc_profile_version :: "string option"
  wc_metadata :: dict
  wc_candidate_id :: "string option"

text \<open>\<open>__post_init__\<close>, with the random identifier as an argument.\<close>

definition post_init :: "string \<Rightarrow> wake_candidate \<Rightarrow> wake_candidate" where
  "post_init uuid c = c\<lparr>
     wc_source := str_or (Some (strip (str_or (Some (wc_source c)) ''unknown''))) ''unknown'',
     wc_confidence := map_option (\<lambda>x. max 0 (min 1 x)) (wc_confidence c),
     wc_candidate_id := (case wc_candidate_id c of
         None \<Rightarrow> Some (''wake_candidate_'' @ uuid) | Some i \<Rightarrow> Some i)\<rparr>"

record score_parts =
  sc_score :: rat
  sc_confidence :: rat
  sc_snr_bonus :: rat
  sc_separation_bonus :: rat
  sc_level_bonus :: rat

definition speech_level :: "wake_candidate \<Rightarrow> int option" where
  "speech_level c = (case wc_speech_peak_level c of None \<Rightarrow> wc_frame_level c | Some x \<Rightarrow> Some x)"

definition noise_level :: "wake_candidate \<Rightarrow> int option" where
  "noise_level c = (case wc_noise_floor_level c of None \<Rightarrow> wc_ambient_level c | Some x \<Rightarrow> Some x)"

definition score_breakdown :: "wake_candidate \<Rightarrow> score_parts" where
  "score_breakdown c =
     (let confidence = (case wc_confidence c of None \<Rightarrow> 0 | Some x \<Rightarrow> x);
          snr_bonus = (case wc_snr_db c of None \<Rightarrow> 0
                       | Some s \<Rightarrow> min (8 / 100) (max 0 s / 40 * (8 / 100)));
          separation_bonus = (case (speech_level c, noise_level c) of
              (Some s, Some n) \<Rightarrow>
                if s > n then min (5 / 100) ((of_int s - of_int n) / 32768 * (5 / 100)) else 0
            | _ \<Rightarrow> 0);
          level_bonus = (case speech_level c of None \<Rightarrow> 0
                         | Some s \<Rightarrow> min (2 / 100) (max 0 (of_int s) / 32768 * (2 / 100)));
          score = min 1 (confidence + snr_bonus + separation_bonus + level_bonus)
      in \<lparr>sc_score = py_round 6 score, sc_confidence = confidence,
          sc_snr_bonus = py_round 6 snr_bonus,
          sc_separation_bonus = py_round 6 separation_bonus,
          sc_level_bonus = py_round 6 level_bonus\<rparr>)"

definition score :: "wake_candidate \<Rightarrow> rat" where
  "score c = sc_score (score_breakdown c)"

definition rank_key :: "wake_candidate \<Rightarrow> rat \<times> int \<times> int \<times> string" where
  "rank_key c =
     (score c, source_priority (wc_source c),
      - (case wc_detected_at c of None \<Rightarrow> wc_received_at c | Some t \<Rightarrow> t), wc_endpoint_id c)"

definition dump_breakdown :: "wake_candidate \<Rightarrow> pv" where
  "dump_breakdown c = PDict
     [(''score'', PFloat (sc_score (score_breakdown c))),
      (''confidence'', PFloat (sc_confidence (score_breakdown c))),
      (''snr_bonus'', PFloat (sc_snr_bonus (score_breakdown c))),
      (''speech_noise_separation_bonus'', PFloat (sc_separation_bonus (score_breakdown c))),
      (''level_bonus'', PFloat (sc_level_bonus (score_breakdown c))),
      (''metrics_present'', PDict
        [(''confidence'', PBool (wc_confidence c \<noteq> None)),
         (''frame_level'', PBool (wc_frame_level c \<noteq> None)),
         (''speech_peak_level'', PBool (wc_speech_peak_level c \<noteq> None)),
         (''noise_floor_level'', PBool (wc_noise_floor_level c \<noteq> None)),
         (''ambient_level'', PBool (wc_ambient_level c \<noteq> None)),
         (''snr_db'', PBool (wc_snr_db c \<noteq> None))])]"

definition dump_candidate :: "wake_candidate \<Rightarrow> pv" where
  "dump_candidate c = PDict
     [(''candidate_id'', ostr (wc_candidate_id c)),
      (''endpoint_id'', PStr (wc_endpoint_id c)),
      (''session_id'', PStr (wc_session_id c)),
      (''source'', PStr (wc_source c)),
      (''model'', ostr (wc_model c)),
      (''confidence'', onum (wc_confidence c)),
      (''received_at'', PStr (isoformat (wc_received_at c))),
      (''detected_at'', ostr (map_option isoformat (wc_detected_at c))),
      (''chunk_index'', oint (wc_chunk_index c)),
      (''chunk_count'', oint (wc_chunk_count c)),
      (''frame_level'', oint (wc_frame_level c)),
      (''speech_peak_level'', oint (wc_speech_peak_level c)),
      (''noise_floor_level'', oint (wc_noise_floor_level c)),
      (''ambient_level'', oint (wc_ambient_level c)),
      (''snr_db'', onum (wc_snr_db c)),
      (''endpoint_audio_profile_version'', ostr (wc_profile_version c)),
      (''score'', PFloat (score c)),
      (''score_breakdown'', dump_breakdown c),
      (''metadata'', PDict (wc_metadata c))]"

section \<open>Decisions\<close>

record decision =
  wd_election_id :: string
  wd_accepted :: bool
  wd_reason :: string
  wd_window_ms :: int
  wd_candidate :: "wake_candidate option"
  wd_winner :: "wake_candidate option"
  wd_candidates :: "wake_candidate list"
  wd_decided_at :: instant
  wd_replaced_winner :: "wake_candidate option"

definition dump_decision :: "decision \<Rightarrow> pv" where
  "dump_decision d = PDict
     [(''schema_version'', PInt 1),
      (''election_id'', PStr (wd_election_id d)),
      (''accepted'', PBool (wd_accepted d)),
      (''reason'', PStr (wd_reason d)),
      (''window_ms'', PInt (wd_window_ms d)),
      (''decided_at'', PStr (isoformat (wd_decided_at d))),
      (''candidate'', (case wd_candidate d of None \<Rightarrow> PNone | Some c \<Rightarrow> dump_candidate c)),
      (''winner'', (case wd_winner d of None \<Rightarrow> PNone | Some c \<Rightarrow> dump_candidate c)),
      (''candidates'', PList (map dump_candidate (wd_candidates d)))]"

section \<open>Choosing the winner\<close>

text \<open>Python's \<open>max(xs, key=f)\<close> keeps the first of the elements with the greatest key.\<close>

fun max_by :: "('a \<Rightarrow> 'k::linorder) \<Rightarrow> 'a \<Rightarrow> 'a list \<Rightarrow> 'a" where
  "max_by f b [] = b"
| "max_by f b (x # xs) = max_by f (if f b < f x then x else b) xs"

definition choose_winner :: "wake_candidate list \<Rightarrow> wake_candidate option" where
  "choose_winner cs = (case cs of [] \<Rightarrow> None | c # cs' \<Rightarrow> Some (max_by rank_key c cs'))"

definition same_candidate :: "wake_candidate option \<Rightarrow> wake_candidate option \<Rightarrow> bool" where
  "same_candidate l r =
     (case (l, r) of (Some a, Some b) \<Rightarrow> wc_candidate_id a = wc_candidate_id b | _ \<Rightarrow> False)"

section \<open>The election\<close>

record election =
  el_window_ms :: int
  el_max_recent_candidates :: nat
  el_max_recent_decisions :: nat
  el_pending :: "wake_candidate list"
  el_recent_candidates :: "pv list"
  el_recent_decisions :: "pv list"
  el_active :: "decision option"

definition init_election :: "int \<Rightarrow> int \<Rightarrow> int \<Rightarrow> election" where
  "init_election window_ms max_c max_d =
     \<lparr>el_window_ms = max 0 window_ms, el_max_recent_candidates = nat (max 1 max_c),
      el_max_recent_decisions = nat (max 1 max_d), el_pending = [], el_recent_candidates = [],
      el_recent_decisions = [], el_active = None\<rparr>"

definition in_window :: "election \<Rightarrow> instant \<Rightarrow> instant \<Rightarrow> bool" where
  "in_window e reference_at t \<longleftrightarrow> reference_at - t \<le> el_window_ms e * 1000"

definition decision_is_active :: "election \<Rightarrow> decision \<Rightarrow> instant \<Rightarrow> bool" where
  "decision_is_active e d reference_at =
     (case wd_winner d of None \<Rightarrow> False | Some w \<Rightarrow> in_window e reference_at (wc_received_at w))"

definition expire_pending :: "instant \<Rightarrow> election \<Rightarrow> election" where
  "expire_pending reference_at e =
     e\<lparr>el_pending := filter (\<lambda>c. in_window e reference_at (wc_received_at c)) (el_pending e),
       el_active := (case el_active e of None \<Rightarrow> None
         | Some d \<Rightarrow> if decision_is_active e d reference_at then Some d else None)\<rparr>"

definition record_candidate :: "wake_candidate \<Rightarrow> election \<Rightarrow> election" where
  "record_candidate c e = e\<lparr>el_recent_candidates :=
     push_front (el_max_recent_candidates e) (dump_candidate c) (el_recent_candidates e)\<rparr>"

definition record_decision :: "decision \<Rightarrow> election \<Rightarrow> election" where
  "record_decision d e = e\<lparr>el_recent_decisions :=
     push_front (el_max_recent_decisions e) (dump_decision d) (el_recent_decisions e)\<rparr>"

definition join_election :: "election \<Rightarrow> decision \<Rightarrow> wake_candidate \<Rightarrow> decision" where
  \<comment> \<open>the decision on a candidate that arrives while a winner holds the floor\<close>
  "join_election e active c =
     (let candidates = wd_candidates active @ [c]; winner = choose_winner candidates;
          accepted = same_candidate (Some c) winner;
          replaced = (if accepted \<and> \<not> same_candidate winner (wd_winner active)
                      then wd_winner active else None)
      in \<lparr>wd_election_id = wd_election_id active, wd_accepted = accepted,
          wd_reason = (if replaced \<noteq> None then ''winner_replaced''
             else if accepted then ''winner_confirmed'' else ''stand_down_existing_winner''),
          wd_window_ms = el_window_ms e, wd_candidate = Some c, wd_winner = winner,
          wd_candidates = candidates, wd_decided_at = wc_received_at c,
          wd_replaced_winner = replaced\<rparr>)"

definition open_election :: "string \<Rightarrow> election \<Rightarrow> wake_candidate \<Rightarrow> decision" where
  \<comment> \<open>the decision on a candidate that arrives while nobody holds the floor; the candidate
      is already among the pending ones\<close>
  "open_election uuid e c =
     (let winner = choose_winner (el_pending e); accepted = same_candidate (Some c) winner
      in \<lparr>wd_election_id = ''wake_election_'' @ uuid, wd_accepted = accepted,
          wd_reason = (if accepted then ''winner_selected'' else ''stand_down_lower_rank''),
          wd_window_ms = el_window_ms e, wd_candidate = Some c, wd_winner = winner,
          wd_candidates = el_pending e, wd_decided_at = wc_received_at c,
          wd_replaced_winner = None\<rparr>)"

definition submit_candidate :: "string \<Rightarrow> wake_candidate \<Rightarrow> election \<Rightarrow> decision \<times> election" where
  "submit_candidate uuid c e0 =
     (let e = record_candidate c (expire_pending (wc_received_at c) e0) in
      case el_active e of
        Some active \<Rightarrow>
          if decision_is_active e active (wc_received_at c) then
            let d = join_election e active c;
                e1 = (if wd_accepted d then e\<lparr>el_active := Some d\<rparr> else e)
            in (d, record_decision d e1)
          else
            let e1 = e\<lparr>el_pending := el_pending e @ [c]\<rparr>; d = open_election uuid e1 c;
                e2 = (if wd_accepted d then e1\<lparr>el_active := Some d\<rparr> else e1)
            in (d, record_decision d e2)
      | None \<Rightarrow>
          let e1 = e\<lparr>el_pending := el_pending e @ [c]\<rparr>; d = open_election uuid e1 c;
              e2 = (if wd_accepted d then e1\<lparr>el_active := Some d\<rparr> else e1)
          in (d, record_decision d e2))"

definition decide_candidates :: "string \<Rightarrow> instant \<Rightarrow> wake_candidate list \<Rightarrow> election \<Rightarrow> decision \<times> election" where
  "decide_candidates uuid now cs e =
     (let ordered = sort_key wc_received_at cs; winner = choose_winner ordered;
          d = \<lparr>wd_election_id = ''wake_election_'' @ uuid, wd_accepted = (winner \<noteq> None),
               wd_reason = (if winner \<noteq> None then ''winner_selected'' else ''no_candidates''),
               wd_window_ms = el_window_ms e, wd_candidate = winner, wd_winner = winner,
               wd_candidates = ordered,
               wd_decided_at = (if ordered = [] then now else wc_received_at (last ordered)),
               wd_replaced_winner = None\<rparr>
      in (d, record_decision d e))"

definition election_status :: "instant \<Rightarrow> election \<Rightarrow> pv \<times> election" where
  "election_status now e0 =
     (let e = expire_pending now e0 in
      (PDict [(''enabled'', PBool True), (''window_ms'', PInt (el_window_ms e)),
              (''active_decision'', (case el_active e of None \<Rightarrow> PNone | Some d \<Rightarrow> dump_decision d)),
              (''pending_candidate_count'', PInt (int (length (el_pending e)))),
              (''recent_candidates'', PList (el_recent_candidates e)),
              (''recent_decisions'', PList (el_recent_decisions e))], e))"

section \<open>Choice by rank\<close>

text \<open>
  What the election relies on: a choice function that returns the first of the best-ranked
  elements. The lemmas about arrivals are proved from these laws alone.
\<close>

locale chooser =
  fixes pick :: "'a list \<Rightarrow> 'a option" and rank :: "'a \<Rightarrow> 'k::linorder"
  assumes pick_None: "pick xs = None \<longleftrightarrow> xs = []"
    and pick_split: "pick xs = Some w \<Longrightarrow> \<exists>ys zs. xs = ys @ w # zs \<and>
      (\<forall>y\<in>set ys. rank y < rank w) \<and> (\<forall>z\<in>set zs. rank z \<le> rank w)"
begin

lemma pick_member: "pick xs = Some w \<Longrightarrow> w \<in> set xs"
  using pick_split by fastforce

lemma pick_best: "pick xs = Some w \<Longrightarrow> x \<in> set xs \<Longrightarrow> rank x \<le> rank w"
  using pick_split [of xs w] less_imp_le by fastforce

lemma pick_single: "pick [x] = Some x"
  using pick_member [of "[x]"] pick_None [of "[x]"] by (cases "pick [x]") auto

lemma split_unique:
  assumes "ys @ w # zs = ys' @ w' # zs'"
    and "\<forall>y\<in>set ys. rank y < rank w" "\<forall>z\<in>set zs. rank z \<le> rank w"
    and "\<forall>y\<in>set ys'. rank y < rank w'" "\<forall>z\<in>set zs'. rank z \<le> rank w'"
  shows "w = w'"
  using assms by (auto simp: append_eq_append_conv2 append_eq_Cons_conv Cons_eq_append_conv
      dest: leD)

lemma pick_snoc:
  assumes "pick xs = Some w"
  shows "pick (xs @ [x]) = Some (if rank w < rank x then x else w)"
proof -
  obtain ys zs where xs: "xs = ys @ w # zs" "\<forall>y\<in>set ys. rank y < rank w" "\<forall>z\<in>set zs. rank z \<le> rank w"
    using pick_split [OF assms] by auto
  obtain v where v: "pick (xs @ [x]) = Some v"
    using pick_None [of "xs @ [x]"] by (cases "pick (xs @ [x])") auto
  then obtain ys' zs' where v': "xs @ [x] = ys' @ v # zs'"
      "\<forall>y\<in>set ys'. rank y < rank v" "\<forall>z\<in>set zs'. rank z \<le> rank v"
    using pick_split by blast
  have "v = (if rank w < rank x then x else w)"
  proof (cases "rank w < rank x")
    case True
    then have "\<forall>y\<in>set xs. rank y < rank x" using xs by auto
    with v' have "v = x" by (intro split_unique [of ys' v zs' xs x "[]"]) auto
    with True show ?thesis by simp
  next
    case False
    with xs v' have "v = w" by (intro split_unique [of ys' v zs' ys w "zs @ [x]"]) auto
    with False show ?thesis by simp
  qed
  with v show ?thesis by simp
qed

end

lemma max_by_split:
  "\<exists>ys zs. b # xs = ys @ max_by f b xs # zs \<and> (\<forall>y\<in>set ys. f y < f (max_by f b xs))
     \<and> (\<forall>z\<in>set zs. f z \<le> f (max_by f b xs))"
proof (induction f b xs rule: max_by.induct)
  case (1 f b)
  show ?case by (intro exI [of _ "[]"]) simp
next
  case (2 f b x xs)
  define m where "m = max_by f (if f b < f x then x else b) xs"
  have m: "max_by f b (x # xs) = m" by (simp add: m_def)
  obtain ys zs where yz: "(if f b < f x then x else b) # xs = ys @ m # zs"
      "\<forall>y\<in>set ys. f y < f m" "\<forall>z\<in>set zs. f z \<le> f m"
    using 2 [folded m_def] by blast
  show ?case
  proof (cases "f b < f x")
    case True
    with yz have "f x \<le> f m" by (cases ys) (auto intro: less_imp_le)
    with True have "f b < f m" by simp
    with True yz show ?thesis
      unfolding m by (intro exI [of _ "b # ys"] exI [of _ zs]) simp
  next
    case False
    show ?thesis
    proof (cases ys)
      case Nil
      with yz False show ?thesis
        unfolding m by (intro exI [of _ "[]"] exI [of _ "x # zs"]) auto
    next
      case (Cons a ys')
      with yz False show ?thesis
        unfolding m by (intro exI [of _ "b # x # ys'"] exI [of _ zs]) auto
    qed
  qed
qed

interpretation wake: chooser choose_winner rank_key
proof
  show "choose_winner xs = None \<longleftrightarrow> xs = []" for xs
    by (simp add: choose_winner_def split: list.split)
  show "\<exists>ys zs. xs = ys @ w # zs \<and> (\<forall>y\<in>set ys. rank_key y < rank_key w)
      \<and> (\<forall>z\<in>set zs. rank_key z \<le> rank_key w)" if "choose_winner xs = Some w" for xs w
    using that max_by_split [of _ _ rank_key] by (auto simp: choose_winner_def split: list.splits)
qed

section \<open>The state of an election\<close>

text \<open>
  The invariant behind the election, relative to the time of the last arrival: the holder of
  the floor is the best of the candidates it was chosen from, no pending candidate outlives
  it, and without a holder nothing is pending.
\<close>

definition election_ok :: "instant \<Rightarrow> election \<Rightarrow> bool" where
  "election_ok t e \<longleftrightarrow>
     0 \<le> el_window_ms e \<and>
     (case el_active e of
        None \<Rightarrow> el_pending e = []
      | Some d \<Rightarrow> wd_accepted d
          \<and> (\<exists>w. wd_winner d = Some w \<and> choose_winner (wd_candidates d) = Some w
               \<and> wc_received_at w \<le> t
               \<and> (\<forall>p\<in>set (el_pending e). wc_received_at p \<le> wc_received_at w)))
     \<and> length (el_recent_candidates e) \<le> el_max_recent_candidates e
     \<and> length (el_recent_decisions e) \<le> el_max_recent_decisions e"

lemma election_ok_init: "election_ok t (init_election w c d)"
  by (simp add: election_ok_def init_election_def)

lemma in_window_mono: "in_window e t a \<Longrightarrow> a \<le> b \<Longrightarrow> in_window e t b"
  by (simp add: in_window_def)

lemma expire_pending_ok:
  "election_ok t e \<Longrightarrow> election_ok t (expire_pending u e)"
  by (auto simp: election_ok_def expire_pending_def decision_is_active_def filter_empty_conv
      split: option.splits dest: in_window_mono)

lemma expire_pending_active:
  "el_active (expire_pending u e) = Some d \<Longrightarrow> decision_is_active (expire_pending u e) d u"
  by (auto simp: expire_pending_def decision_is_active_def in_window_def split: option.splits if_splits)

lemma record_simps [simp]:
  "el_active (record_candidate c e) = el_active e" "el_pending (record_candidate c e) = el_pending e"
  "el_active (record_decision d e) = el_active e" "el_pending (record_decision d e) = el_pending e"
  "el_window_ms (record_candidate c e) = el_window_ms e"
  "decision_is_active (record_candidate c e) d t = decision_is_active e d t"
  by (auto simp: record_candidate_def record_decision_def decision_is_active_def in_window_def
      split: option.splits)

lemma record_candidate_ok: "election_ok t e \<Longrightarrow> election_ok t (record_candidate c e)"
  and record_decision_ok: "election_ok t e \<Longrightarrow> election_ok t (record_decision d e)"
  by (auto simp: election_ok_def record_candidate_def record_decision_def split: option.splits)

lemma submit_fresh:
  assumes ok: "election_ok t e" and none: "el_active (expire_pending (wc_received_at c) e) = None"
  shows "fst (submit_candidate uuid c e) =
      \<lparr>wd_election_id = ''wake_election_'' @ uuid, wd_accepted = True, wd_reason = ''winner_selected'',
       wd_window_ms = el_window_ms e, wd_candidate = Some c, wd_winner = Some c,
       wd_candidates = [c], wd_decided_at = wc_received_at c, wd_replaced_winner = None\<rparr>"
    and "el_active (snd (submit_candidate uuid c e)) = Some (fst (submit_candidate uuid c e))"
    and "el_pending (snd (submit_candidate uuid c e)) = [c]"
proof -
  have p: "el_pending (expire_pending (wc_received_at c) e) = []"
    using expire_pending_ok [OF ok, of "wc_received_at c"] none by (simp add: election_ok_def)
  have w: "el_window_ms (expire_pending (wc_received_at c) e) = el_window_ms e"
    by (simp add: expire_pending_def)
  show "fst (submit_candidate uuid c e) =
      \<lparr>wd_election_id = ''wake_election_'' @ uuid, wd_accepted = True, wd_reason = ''winner_selected'',
       wd_window_ms = el_window_ms e, wd_candidate = Some c, wd_winner = Some c,
       wd_candidates = [c], wd_decided_at = wc_received_at c, wd_replaced_winner = None\<rparr>"
    "el_active (snd (submit_candidate uuid c e)) = Some (fst (submit_candidate uuid c e))"
    "el_pending (snd (submit_candidate uuid c e)) = [c]"
    by (simp_all add: submit_candidate_def Let_def none p w open_election_def wake.pick_single
        same_candidate_def)
qed

lemma submit_active:
  assumes "el_active (expire_pending (wc_received_at c) e) = Some active"
  shows "fst (submit_candidate uuid c e) = join_election e active c"
    and "el_active (snd (submit_candidate uuid c e)) =
      (if wd_accepted (join_election e active c) then Some (join_election e active c) else Some active)"
    and "el_pending (snd (submit_candidate uuid c e)) = el_pending (expire_pending (wc_received_at c) e)"
proof -
  have w: "el_window_ms (record_candidate c (expire_pending (wc_received_at c) e)) = el_window_ms e"
    by (simp add: expire_pending_def record_candidate_def)
  have j: "join_election (record_candidate c (expire_pending (wc_received_at c) e)) active c
      = join_election e active c"
    by (simp only: join_election_def w)
  show "fst (submit_candidate uuid c e) = join_election e active c"
    "el_active (snd (submit_candidate uuid c e)) =
      (if wd_accepted (join_election e active c) then Some (join_election e active c) else Some active)"
    "el_pending (snd (submit_candidate uuid c e)) = el_pending (expire_pending (wc_received_at c) e)"
    using expire_pending_active [OF assms] assms
    by (simp_all add: submit_candidate_def Let_def j)
qed

lemma join_better:
  assumes "choose_winner (wd_candidates active) = Some w" "wd_winner active = Some w"
    and "rank_key w < rank_key c" "wc_candidate_id c \<noteq> wc_candidate_id w"
  shows "wd_accepted (join_election e active c)" "wd_winner (join_election e active c) = Some c"
    "wd_replaced_winner (join_election e active c) = Some w"
    "wd_reason (join_election e active c) = ''winner_replaced''"
  using assms wake.pick_snoc [of "wd_candidates active" w c]
  by (simp_all add: join_election_def Let_def same_candidate_def)

lemma join_not_better:
  assumes "choose_winner (wd_candidates active) = Some w" "wd_winner active = Some w"
    and "\<not> rank_key w < rank_key c" "wc_candidate_id c \<noteq> wc_candidate_id w"
  shows "\<not> wd_accepted (join_election e active c)" "wd_winner (join_election e active c) = Some w"
    "wd_replaced_winner (join_election e active c) = None"
    "wd_reason (join_election e active c) = ''stand_down_existing_winner''"
  using assms wake.pick_snoc [of "wd_candidates active" w c]
  by (simp_all add: join_election_def Let_def same_candidate_def)

lemma join_winner:
  assumes "choose_winner (wd_candidates active) = Some w" "wd_winner active = Some w"
  shows "wd_winner (join_election e active c) = Some (if rank_key w < rank_key c then c else w)"
    "choose_winner (wd_candidates (join_election e active c)) = Some (if rank_key w < rank_key c then c else w)"
  using assms wake.pick_snoc [of "wd_candidates active" w c]
  by (simp_all add: join_election_def Let_def)

lemma submit_lengths:
  "election_ok t e \<Longrightarrow>
   length (el_recent_candidates (snd (submit_candidate uuid c e))) \<le> el_max_recent_candidates (snd (submit_candidate uuid c e)) \<and>
   length (el_recent_decisions (snd (submit_candidate uuid c e))) \<le> el_max_recent_decisions (snd (submit_candidate uuid c e)) \<and>
   el_window_ms (snd (submit_candidate uuid c e)) = el_window_ms e"
  by (simp add: submit_candidate_def Let_def record_decision_def record_candidate_def expire_pending_def
      split: option.split)

lemma submit_candidate_ok:
  assumes ok: "election_ok t e" and t: "t \<le> wc_received_at c"
  shows "election_ok (wc_received_at c) (snd (submit_candidate uuid c e))"
proof -
  let ?e = "expire_pending (wc_received_at c) e"
  have ok': "election_ok t ?e" by (rule expire_pending_ok [OF ok])
  note len = submit_lengths [OF ok, of uuid c]
  show ?thesis
  proof (cases "el_active ?e")
    case None
    note f = submit_fresh [OF ok None, of uuid]
    show ?thesis
      using ok len by (simp add: election_ok_def f wake.pick_single)
  next
    case (Some active)
    note f = submit_active [OF Some, of uuid]
    from ok' Some obtain w where w: "wd_accepted active" "choose_winner (wd_candidates active) = Some w"
        "wd_winner active = Some w" "wc_received_at w \<le> t"
        "\<forall>p\<in>set (el_pending ?e). wc_received_at p \<le> wc_received_at w"
      by (auto simp: election_ok_def)
    show ?thesis
    proof (cases "wd_accepted (join_election e active c)")
      case True
      show ?thesis
        unfolding election_ok_def
        using True len ok w t join_winner [OF w(2,3), of e c]
        by (auto simp: f election_ok_def)
    next
      case False
      show ?thesis
        unfolding election_ok_def using False len ok w t by (auto simp: f election_ok_def)
    qed
  qed
qed

section \<open>Scores\<close>

lemma bonus_nonneg:
  fixes k s :: rat
  shows "0 \<le> k \<Longrightarrow> 0 \<le> a \<Longrightarrow> 0 \<le> s \<Longrightarrow> 0 \<le> min k (s * a)"
  by simp

lemma score_bounds:
  assumes "\<And>x. wc_confidence c = Some x \<Longrightarrow> 0 \<le> x"
  shows "0 \<le> score c" "score c \<le> 1"
proof -
  obtain sum where sum: "score c = py_round 6 (min 1 sum)" "0 \<le> sum"
  proof -
    define conf where "conf = (case wc_confidence c of None \<Rightarrow> 0 | Some x \<Rightarrow> x)"
    define b1 where "b1 = (case wc_snr_db c of None \<Rightarrow> 0
                       | Some s \<Rightarrow> min (8 / 100) (max 0 s / 40 * (8 / 100)))"
    define b2 where "b2 = (case (speech_level c, noise_level c) of
              (Some s, Some n) \<Rightarrow>
                if s > n then min (5 / 100) ((of_int s - of_int n) / 32768 * (5 / 100)) else 0
            | _ \<Rightarrow> (0 :: rat))"
    define b3 where "b3 = (case speech_level c of None \<Rightarrow> 0
                         | Some s \<Rightarrow> min (2 / 100) (max 0 (of_int s) / 32768 * (2 / 100 :: rat)))"
    have "0 \<le> conf" using assms by (simp add: conf_def split: option.split)
    moreover have "0 \<le> b1" by (auto simp: b1_def split: option.split)
    moreover have "0 \<le> b2" by (auto simp: b2_def split: option.split)
    moreover have "0 \<le> b3" by (auto simp: b3_def split: option.split)
    ultimately have "0 \<le> conf + b1 + b2 + b3" by simp
    moreover have "score c = py_round 6 (min 1 (conf + b1 + b2 + b3))"
      by (simp only: score_def score_breakdown_def Let_def conf_def b1_def b2_def b3_def score_parts.select_convs)
    ultimately show ?thesis by (rule that [rotated])
  qed
  have "0 \<le> min 1 sum" "min 1 sum \<le> 1" using sum by simp_all
  then show "0 \<le> score c" "score c \<le> 1"
    using py_round_mono [of 0 "min 1 sum" 6] py_round_mono [of "min 1 sum" 1 6] sum(1) by simp_all
qed

section \<open>Runs of an election\<close>

fun run_election :: "(string \<times> wake_candidate) list \<Rightarrow> election \<Rightarrow> decision list \<times> election" where
  "run_election [] e = ([], e)"
| "run_election ((uuid, c) # cs) e =
     (case submit_candidate uuid c e of (d, e') \<Rightarrow>
      case run_election cs e' of (ds, e'') \<Rightarrow> (d # ds, e''))"

lemma submit_reason:
  assumes "election_ok t e" "t \<le> wc_received_at c"
  shows "wd_reason (fst (submit_candidate uuid c e)) \<noteq> ''stand_down_lower_rank''"
proof (cases "el_active (expire_pending (wc_received_at c) e)")
  case None
  then show ?thesis by (simp add: submit_fresh [OF assms(1)])
next
  case (Some active)
  then show ?thesis by (simp add: submit_active join_election_def Let_def)
qed

lemma run_election_ok:
  assumes "election_ok t e" "sorted (map (wc_received_at \<circ> snd) cs)"
    "\<forall>(u, c)\<in>set cs. t \<le> wc_received_at c"
  shows "(\<exists>t'. election_ok t' (snd (run_election cs e)))
    \<and> (\<forall>d\<in>set (fst (run_election cs e)). wd_reason d \<noteq> ''stand_down_lower_rank'')"
  using assms
proof (induction cs e arbitrary: t rule: run_election.induct)
  case (2 uuid c cs e)
  obtain d e' where s: "submit_candidate uuid c e = (d, e')" by force
  have le: "t \<le> wc_received_at c" using 2(4) by auto
  have ok: "election_ok (wc_received_at c) e'"
    using submit_candidate_ok [OF 2(2) le, of uuid] by (simp add: s)
  have d: "wd_reason d \<noteq> ''stand_down_lower_rank''"
    using submit_reason [OF 2(2) le, of uuid] by (simp add: s)
  have "\<forall>(u, c')\<in>set cs. wc_received_at c \<le> wc_received_at c'" using 2(3) by auto
  with 2(1) [OF s [symmetric] ok] 2(3) d show ?case
    by (auto simp: s split: prod.split)
qed auto

definition example_candidate :: "string \<Rightarrow> rat \<Rightarrow> instant \<Rightarrow> wake_candidate" where
  "example_candidate ep conf t =
     \<lparr>wc_endpoint_id = ep, wc_session_id = ep @ ''-1'', wc_source = ''endpoint_micro_wake_word'',
      wc_model = None, wc_confidence = Some conf, wc_received_at = t, wc_detected_at = None,
      wc_chunk_index = None, wc_chunk_count = None, wc_frame_level = None,
      wc_speech_peak_level = None, wc_noise_floor_level = None, wc_ambient_level = None,
      wc_snr_db = None, wc_profile_version = None, wc_metadata = [],
      wc_candidate_id = Some (''wake_candidate_'' @ ep)\<rparr>"

section \<open>Properties\<close>

text \<open>The score of a wake candidate, as the constructor normalises it, lies between 0 and
  1 whatever levels and signal-to-noise ratio the endpoint reports.\<close>

lemma candidate_score_bounded: "0 \<le> score (post_init uuid c) \<and> score (post_init uuid c) \<le> 1"
proof -
  have "0 \<le> x" if "wc_confidence (post_init uuid c) = Some x" for x
    using that by (auto simp: post_init_def)
  then show ?thesis using score_bounds [of "post_init uuid c"] by simp
qed

text \<open>The winner of a list of candidates is one of them, no candidate outranks it, and it
  is the first of the best: earlier arrivals rank strictly lower. Only the empty list has no
  winner.\<close>

lemma winner_is_first_best:
  "(choose_winner cs = None \<longleftrightarrow> cs = []) \<and>
   (\<forall>w. choose_winner cs = Some w \<longrightarrow> (\<exists>before after. cs = before @ w # after
      \<and> (\<forall>c\<in>set before. rank_key c < rank_key w) \<and> (\<forall>c\<in>set after. rank_key c \<le> rank_key w)))"
  using wake.pick_None wake.pick_split by blast

lemma winner_is_first_best_witness:
  "choose_winner [example_candidate ''kitchen'' (1/2) 0, example_candidate ''hall'' (9/10) 10]
     = Some (example_candidate ''hall'' (9/10) 10)
   \<and> (\<exists>before after. [example_candidate ''kitchen'' (1/2) 0, example_candidate ''hall'' (9/10) 10]
        = before @ example_candidate ''hall'' (9/10) 10 # after)"
proof -
  have c: "choose_winner [example_candidate ''kitchen'' (1/2) 0, example_candidate ''hall'' (9/10) 10]
     = Some (example_candidate ''hall'' (9/10) 10)"
    by (simp add: choose_winner_def rank_key_def score_def score_breakdown_def example_candidate_def
        speech_level_def noise_level_def py_round_def round_half_even_def Let_def)
  with winner_is_first_best [of "[example_candidate ''kitchen'' (1/2) 0, example_candidate ''hall'' (9/10) 10]"]
  show ?thesis by blast
qed

text \<open>C6. What a submission decides, arrivals being in time order. When nobody holds the floor
  (no winner within the window) the candidate gets it. When a winner holds it, the candidate
  takes it over exactly when it ranks strictly higher, and then the decision names the replaced
  winner; otherwise it is told to stand down and the holder keeps the floor.\<close>

theorem submission_decides:
  assumes "election_ok t e"
  shows "case el_active (expire_pending (wc_received_at c) e) of
      None \<Rightarrow> wd_accepted (fst (submit_candidate uuid c e))
        \<and> wd_winner (fst (submit_candidate uuid c e)) = Some c
        \<and> el_active (snd (submit_candidate uuid c e)) = Some (fst (submit_candidate uuid c e))
    | Some active \<Rightarrow> (\<exists>w. wd_winner active = Some w \<and>
        (wc_candidate_id c \<noteq> wc_candidate_id w \<longrightarrow>
          (if rank_key w < rank_key c
           then wd_accepted (fst (submit_candidate uuid c e))
             \<and> wd_winner (fst (submit_candidate uuid c e)) = Some c
             \<and> wd_replaced_winner (fst (submit_candidate uuid c e)) = Some w
             \<and> el_active (snd (submit_candidate uuid c e)) = Some (fst (submit_candidate uuid c e))
           else \<not> wd_accepted (fst (submit_candidate uuid c e))
             \<and> wd_winner (fst (submit_candidate uuid c e)) = Some w
             \<and> wd_replaced_winner (fst (submit_candidate uuid c e)) = None
             \<and> el_active (snd (submit_candidate uuid c e)) = Some active)))"
proof (cases "el_active (expire_pending (wc_received_at c) e)")
  case None
  with submit_fresh [OF assms None, of uuid] show ?thesis by simp
next
  case (Some active)
  note ok = expire_pending_ok [OF assms, of "wc_received_at c"]
  from ok Some obtain w where w: "wd_winner active = Some w" "choose_winner (wd_candidates active) = Some w"
    by (auto simp: election_ok_def)
  show ?thesis
    using submit_active [OF Some, of uuid] join_better [OF w(2,1), of c e]
      join_not_better [OF w(2,1), of c e] Some w
    by simp
qed

theorem submission_decides_witness:
  "let e = snd (submit_candidate ''u'' (example_candidate ''kitchen'' (1/2) 0) (init_election 250 50 20));
       r = submit_candidate ''v'' (example_candidate ''hall'' (9/10) 100000) e
   in election_ok 0 e \<and> wd_accepted (fst r)
      \<and> wd_replaced_winner (fst r) = Some (example_candidate ''kitchen'' (1/2) 0)"
proof -
  define k h where "k = example_candidate ''kitchen'' (1/2) 0"
    and "h = example_candidate ''hall'' (9/10) 100000"
  define e where "e = snd (submit_candidate ''u'' k (init_election 250 50 20))"
  have ok: "election_ok 0 e"
    using submit_candidate_ok [OF election_ok_init, of 0 k "''u''" 250 50 20]
    by (simp add: e_def k_def example_candidate_def)
  have none: "el_active (expire_pending (wc_received_at k) (init_election 250 50 20)) = None"
    by (simp add: expire_pending_def init_election_def)
  have act: "el_active (expire_pending (wc_received_at h) e) = el_active e"
    "wd_winner (the (el_active e)) = Some k" "el_active e \<noteq> None"
    using submit_fresh [OF election_ok_init none, of "''u''"]
    by (auto simp: e_def expire_pending_def decision_is_active_def in_window_def k_def h_def
        example_candidate_def submit_candidate_def Let_def init_election_def record_decision_def
        record_candidate_def open_election_def split: if_splits)
  have rank: "rank_key k < rank_key h" "wc_candidate_id h \<noteq> wc_candidate_id k"
    by (simp_all add: k_def h_def rank_key_def score_def score_breakdown_def example_candidate_def
        speech_level_def noise_level_def py_round_def round_half_even_def Let_def)
  from act submission_decides [OF ok, where c = h and uuid = "''v''"] rank
  have "wd_accepted (fst (submit_candidate ''v'' h e))
      \<and> wd_replaced_winner (fst (submit_candidate ''v'' h e)) = Some k"
    by (auto split: if_splits)
  with ok show ?thesis by (simp add: e_def k_def h_def Let_def)
qed

text \<open>C7. Along any run of an election with candidates in arrival order, the holder of the
  floor is at every point the best of the candidates it was chosen from, nothing is pending
  without a holder, both histories stay within their limits, and no candidate is ever turned
  away while the floor is free (\<open>stand_down_lower_rank\<close> does not occur).\<close>

theorem election_run_invariant:
  assumes "sorted (map (wc_received_at \<circ> snd) cs)"
  shows "(\<exists>t. election_ok t (snd (run_election cs (init_election w mc md))))
    \<and> (\<forall>d\<in>set (fst (run_election cs (init_election w mc md))). wd_reason d \<noteq> ''stand_down_lower_rank'')"
proof (cases cs)
  case (Cons p cs')
  with assms have "\<forall>(u, c)\<in>set cs. wc_received_at (snd p) \<le> wc_received_at c" by auto
  with run_election_ok [OF election_ok_init assms] show ?thesis by blast
next
  case Nil
  then show ?thesis using election_ok_init by auto
qed

theorem election_run_invariant_witness:
  "sorted (map (wc_received_at \<circ> snd)
     [(''u'', example_candidate ''kitchen'' (1/2) 0), (''v'', example_candidate ''hall'' (9/10) 100)])
   \<and> (\<exists>t. election_ok t (snd (run_election
     [(''u'', example_candidate ''kitchen'' (1/2) 0), (''v'', example_candidate ''hall'' (9/10) 100)]
     (init_election 250 50 20))))"
proof -
  have s: "sorted (map (wc_received_at \<circ> snd)
     [(''u'', example_candidate ''kitchen'' (1/2) 0), (''v'', example_candidate ''hall'' (9/10) 100)])"
    by (simp add: example_candidate_def)
  then show ?thesis using election_run_invariant [OF s, of 250 50 20] by blast
qed

end
