(* ===== verification/AudioQuality.thy ===== *)
theory AudioQuality
  imports VoicePrelude
begin

unbundle bit_operations_syntax

text \<open>
  How good the audio of a turn is (\<open>voice/audio_quality.py\<close>): 16-bit little-endian samples,
  their level, clipping and activity, the signal-to-noise ratio against the audio before the
  wake word or against what the endpoint measured, and the warnings and status derived from them.
  Samples and ratios are exact rationals; \<open>math.sqrt\<close> and \<open>math.log10\<close> on doubles are the
  parameter \<open>float_math\<close>. The thresholds of a profile are numbers, as the settings parse them.
\<close>

record float_math =
  fm_sqrt :: "rat \<Rightarrow> rat"
  fm_log10 :: "rat \<Rightarrow> rat"

record audio_thresholds =
  th_min_duration_ms :: rat
  th_active_sample_threshold :: rat
  th_silent_peak_threshold :: rat
  th_silent_rms_threshold :: rat
  th_low_level_rms_threshold :: rat
  th_clipping_ratio_threshold :: rat
  th_min_snr_db :: rat

definition default_thresholds :: audio_thresholds where
  "default_thresholds = \<lparr>th_min_duration_ms = 300, th_active_sample_threshold = 1 / 100,
     th_silent_peak_threshold = 1 / 1000, th_silent_rms_threshold = 5 / 10000,
     th_low_level_rms_threshold = 15 / 1000, th_clipping_ratio_threshold = 1 / 100, th_min_snr_db = 15\<rparr>"

record ambient_metrics =
  am_ambient_rms :: "rat option"
  am_ambient_peak :: "rat option"
  am_ambient_duration_ms :: int
  am_speech_peak :: "rat option"
  am_speech_duration_ms :: int
  am_snr_db :: "rat option"
  am_snr_status :: string
  am_snr_reason :: "string option"
  am_source :: string

record audio_quality =
  aq_schema_version :: int
  aq_status :: string
  aq_warnings :: "string list"
  aq_duration_ms :: int
  aq_sample_rate_hz :: "int option"
  aq_channels :: int
  aq_encoding :: "string option"
  aq_frame_count :: int
  aq_rms :: "rat option"
  aq_peak :: "rat option"
  aq_clipping_count :: int
  aq_clipping_ratio :: rat
  aq_active_audio_ratio :: "rat option"
  aq_silence_ratio :: "rat option"
  aq_speech_rms :: "rat option"
  aq_ambient :: ambient_metrics

text \<open>\<open>asdict\<close>: the fields in the order of the dataclass.\<close>

definition quality_context :: "audio_quality \<Rightarrow> dict" where
  "quality_context q = (let a = aq_ambient q in
    [(''schema_version'', PInt (aq_schema_version q)), (''status'', PStr (aq_status q)),
     (''warnings'', PList (map PStr (aq_warnings q))), (''duration_ms'', PInt (aq_duration_ms q)),
     (''sample_rate_hz'', oint (aq_sample_rate_hz q)), (''channels'', PInt (aq_channels q)),
     (''encoding'', ostr (aq_encoding q)), (''frame_count'', PInt (aq_frame_count q)),
     (''rms'', onum (aq_rms q)), (''peak'', onum (aq_peak q)),
     (''clipping_count'', PInt (aq_clipping_count q)), (''clipping_ratio'', PFloat (aq_clipping_ratio q)),
     (''active_audio_ratio'', onum (aq_active_audio_ratio q)), (''silence_ratio'', onum (aq_silence_ratio q)),
     (''speech_rms'', onum (aq_speech_rms q)), (''ambient_rms'', onum (am_ambient_rms a)),
     (''ambient_peak'', onum (am_ambient_peak a)), (''ambient_duration_ms'', PInt (am_ambient_duration_ms a)),
     (''speech_peak'', onum (am_speech_peak a)), (''speech_duration_ms'', PInt (am_speech_duration_ms a)),
     (''snr_db'', onum (am_snr_db a)), (''snr_status'', PStr (am_snr_status a)),
     (''snr_reason'', ostr (am_snr_reason a)), (''source'', PStr (am_source a))])"

section \<open>Samples\<close>

text \<open>\<open>struct.iter_unpack("<h", raw)\<close>, the odd last byte left out, as fractions of full scale.\<close>

fun pcm_samples :: "bytes \<Rightarrow> rat list" where
  "pcm_samples (lo # hi # bs) =
     of_int (sint (word_cat hi lo :: 16 word)) / 32768 # pcm_samples bs"
| "pcm_samples _ = []"

definition mean_square :: "rat list \<Rightarrow> rat" where
  "mean_square xs = sum_list (map (\<lambda>x. x * x) xs) / of_nat (length xs)"

definition rms_of :: "float_math \<Rightarrow> rat list \<Rightarrow> rat" where
  "rms_of fm xs = fm_sqrt fm (mean_square xs)"

definition peak_of :: "rat list \<Rightarrow> rat" where
  "peak_of xs = fold max (map abs xs) 0"

definition frames_ms :: "nat \<Rightarrow> int \<Rightarrow> int" where
  "frames_ms frame_count sample_rate = round_half_even (of_nat frame_count / of_int sample_rate * 1000)"

section \<open>Signal to noise\<close>

definition snr_fields :: "float_math \<Rightarrow> rat \<Rightarrow> rat \<Rightarrow> rat \<Rightarrow> ambient_metrics \<Rightarrow> ambient_metrics" where
  "snr_fields fm speech_rms ambient_rms min_snr_db a =
     (let snr_db = 20 * fm_log10 fm (max speech_rms (1 / 1000000000000) / ambient_rms) in
      a\<lparr>am_snr_db := Some (py_round 2 snr_db),
        am_snr_status := (if min_snr_db \<le> snr_db then ''ok'' else ''low_snr''), am_snr_reason := None\<rparr>)"

definition duration_or_zero :: "pv \<Rightarrow> int" where
  "duration_or_zero v = (case num_of v of None \<Rightarrow> 0 | Some x \<Rightarrow> max 0 (py_trunc x))"

definition endpoint_ambient_snr_metrics ::
    "float_math \<Rightarrow> dict option \<Rightarrow> rat option \<Rightarrow> rat option \<Rightarrow> int \<Rightarrow> rat \<Rightarrow> ambient_metrics option" where
  "endpoint_ambient_snr_metrics fm metrics speech_rms speech_peak speech_duration_ms min_snr_db =
     (case metrics of None \<Rightarrow> None
      | Some m \<Rightarrow> if m = [] then None else
        let ambient_rms = num_of (dget m ''noise_floor_rms'');
            ambient_peak = num_of (dget m ''pre_roll_peak'');
            duration = duration_or_zero (dget m ''pre_roll_duration_ms'');
            own_peak = num_of (dget m ''speech_peak'');
            base = \<lparr>am_ambient_rms = map_option (py_round 6) ambient_rms,
              am_ambient_peak = map_option (py_round 6) ambient_peak,
              am_ambient_duration_ms = duration,
              am_speech_peak = map_option (py_round 6) (if own_peak = None then speech_peak else own_peak),
              am_speech_duration_ms = speech_duration_ms, am_snr_db = None,
              am_snr_status = ''unavailable'', am_snr_reason = Some ''missing_endpoint_ambient'',
              am_source = ''endpoint''\<rparr> in
        Some (case ambient_rms of
            None \<Rightarrow> base
          | Some noise \<Rightarrow>
            if duration < 300 then base\<lparr>am_snr_reason := Some ''short_endpoint_ambient''\<rparr>
            else (case speech_rms of
                None \<Rightarrow> base\<lparr>am_snr_reason := Some ''missing_speech''\<rparr>
              | Some sp \<Rightarrow>
                if noise \<le> 0 then base\<lparr>am_snr_reason := Some ''endpoint_ambient_silent''\<rparr>
                else snr_fields fm sp noise min_snr_db base)))"

definition ambient_snr_metrics ::
    "float_math \<Rightarrow> bytes option \<Rightarrow> int option \<Rightarrow> int \<Rightarrow> string option \<Rightarrow> rat option \<Rightarrow> rat option \<Rightarrow> int
     \<Rightarrow> dict option \<Rightarrow> rat \<Rightarrow> ambient_metrics" where
  "ambient_snr_metrics fm ambient sample_rate_hz channels encoding speech_rms speech_peak speech_duration_ms
      metrics min_snr_db =
     (let base = \<lparr>am_ambient_rms = None, am_ambient_peak = None, am_ambient_duration_ms = 0,
            am_speech_peak = map_option (py_round 6) speech_peak,
            am_speech_duration_ms = speech_duration_ms, am_snr_db = None,
            am_snr_status = ''unavailable'', am_snr_reason = Some ''missing_ambient'',
            am_source = ''backend''\<rparr> in
      case endpoint_ambient_snr_metrics fm metrics speech_rms speech_peak speech_duration_ms min_snr_db of
        Some m \<Rightarrow> m
      | None \<Rightarrow>
        (case ambient of None \<Rightarrow> base
         | Some raw \<Rightarrow>
           let sample_rate = (case sample_rate_hz of None \<Rightarrow> 0 | Some r \<Rightarrow> r); samples = pcm_samples raw in
           if raw = [] then base
           else if encoding \<noteq> Some ''pcm_s16le'' then base\<lparr>am_snr_reason := Some ''unsupported_ambient_audio''\<rparr>
           else if samples = [] \<or> sample_rate \<le> 0 then base\<lparr>am_snr_reason := Some ''short_ambient''\<rparr>
           else
             let duration = frames_ms (length samples div nat (max 1 channels)) sample_rate;
                 ambient_rms = rms_of fm samples;
                 measured = base\<lparr>am_ambient_rms := Some (py_round 6 ambient_rms),
                   am_ambient_peak := Some (py_round 6 (peak_of samples)), am_ambient_duration_ms := duration\<rparr> in
             if duration < 300 then measured\<lparr>am_snr_reason := Some ''short_ambient''\<rparr>
             else (case speech_rms of
                 None \<Rightarrow> measured\<lparr>am_snr_reason := Some ''missing_speech''\<rparr>
               | Some sp \<Rightarrow>
                 if ambient_rms \<le> 0 then measured\<lparr>am_snr_reason := Some ''ambient_silent''\<rparr>
                 else snr_fields fm sp ambient_rms min_snr_db measured)))"

section \<open>The analysis\<close>

definition empty_result :: "string \<Rightarrow> int option \<Rightarrow> int \<Rightarrow> string option \<Rightarrow> audio_quality" where
  "empty_result status sample_rate_hz channels encoding =
     \<lparr>aq_schema_version = 1, aq_status = status, aq_warnings = [status], aq_duration_ms = 0,
      aq_sample_rate_hz = sample_rate_hz, aq_channels = channels, aq_encoding = encoding, aq_frame_count = 0,
      aq_rms = None, aq_peak = None, aq_clipping_count = 0, aq_clipping_ratio = 0,
      aq_active_audio_ratio = None, aq_silence_ratio = None, aq_speech_rms = None,
      aq_ambient = \<lparr>am_ambient_rms = None, am_ambient_peak = None, am_ambient_duration_ms = 0,
        am_speech_peak = None, am_speech_duration_ms = 0, am_snr_db = None, am_snr_status = ''unavailable'',
        am_snr_reason = Some (if status \<in> {''missing_audio'', ''unsupported_audio'', ''short_audio''}
          then status else ''missing_ambient''),
        am_source = ''backend''\<rparr>\<rparr>"

definition status_from_warnings :: "string list \<Rightarrow> string" where
  "status_from_warnings ws =
     (case find (\<lambda>s. s \<in> set ws) [''silent'', ''clipped'', ''short_audio'', ''low_level'', ''low_snr''] of
        None \<Rightarrow> ''ok'' | Some s \<Rightarrow> s)"

definition level_warnings :: "audio_thresholds \<Rightarrow> int \<Rightarrow> rat \<Rightarrow> rat \<Rightarrow> rat \<Rightarrow> string list" where
  "level_warnings th duration_ms peak rms clipping_ratio =
     (if of_int duration_ms < th_min_duration_ms th then [''short_audio''] else [])
     @ (if peak \<le> th_silent_peak_threshold th \<or> rms \<le> th_silent_rms_threshold th then [''silent'']
        else if rms < th_low_level_rms_threshold th then [''low_level''] else [])
     @ (if th_clipping_ratio_threshold th \<le> clipping_ratio then [''clipped''] else [])"

definition analyze_pcm_s16le_audio ::
    "float_math \<Rightarrow> bytes option \<Rightarrow> int option \<Rightarrow> int \<Rightarrow> string option \<Rightarrow> bytes option \<Rightarrow> dict option
     \<Rightarrow> audio_thresholds \<Rightarrow> audio_quality" where
  "analyze_pcm_s16le_audio fm audio sample_rate_hz channels encoding ambient metrics th =
     (let sample_rate = (case sample_rate_hz of None \<Rightarrow> 0 | Some r \<Rightarrow> r);
          channel_count = max 1 channels;
          raw = (case audio of None \<Rightarrow> [] | Some b \<Rightarrow> b);
          samples = pcm_samples raw in
      if raw = [] then empty_result ''missing_audio'' sample_rate_hz channel_count encoding
      else if encoding \<noteq> Some ''pcm_s16le'' then empty_result ''unsupported_audio'' sample_rate_hz channel_count encoding
      else if samples = [] then empty_result ''short_audio'' sample_rate_hz channel_count encoding
      else
        let n = of_nat (length samples) :: rat;
            frame_count = length samples div nat channel_count;
            duration_ms = (if 0 < sample_rate then frames_ms frame_count sample_rate else 0);
            rms = rms_of fm samples;
            peak = peak_of samples;
            clipping_count = length (filter (\<lambda>x. 999 / 1000 \<le> \<bar>x\<bar>) samples);
            clipping_ratio = of_nat clipping_count / n;
            active = filter (\<lambda>x. th_active_sample_threshold th \<le> \<bar>x\<bar>) samples;
            active_ratio = of_nat (length active) / n;
            speech_rms = (if active = [] then None else Some (rms_of fm active));
            snr = ambient_snr_metrics fm ambient sample_rate_hz channel_count encoding speech_rms (Some peak)
              duration_ms metrics (th_min_snr_db th);
            warnings = level_warnings th duration_ms peak rms clipping_ratio
              @ (if am_snr_status snr = ''low_snr'' then [''low_snr''] else []) in
        \<lparr>aq_schema_version = 1, aq_status = status_from_warnings warnings, aq_warnings = warnings,
         aq_duration_ms = duration_ms, aq_sample_rate_hz = sample_rate_hz, aq_channels = channel_count,
         aq_encoding = encoding, aq_frame_count = int frame_count, aq_rms = Some (py_round 6 rms),
         aq_peak = Some (py_round 6 peak), aq_clipping_count = int clipping_count,
         aq_clipping_ratio = py_round 6 clipping_ratio, aq_active_audio_ratio = Some (py_round 6 active_ratio),
         aq_silence_ratio = Some (py_round 6 (1 - active_ratio)),
         aq_speech_rms = map_option (py_round 6) speech_rms, aq_ambient = snr\<rparr>)"

section \<open>Facts\<close>

lemma pcm_samples_range: "x \<in> set (pcm_samples bs) \<Longrightarrow> -1 \<le> x \<and> x < 1"
proof (induction bs rule: pcm_samples.induct)
  case (1 lo hi bs)
  have "- (2 ^ 15) \<le> sint (word_cat hi lo :: 16 word)" "sint (word_cat hi lo :: 16 word) < 2 ^ 15"
    using sint_greater_eq [of "word_cat hi lo :: 16 word"] sint_less [of "word_cat hi lo :: 16 word"] by simp_all
  then have "-32768 \<le> (of_int (sint (word_cat hi lo :: 16 word)) :: rat)"
    "(of_int (sint (word_cat hi lo :: 16 word)) :: rat) < 32768"
    using of_int_le_iff [of "-32768" "sint (word_cat hi lo :: 16 word)", where ?'a = rat]
      of_int_less_iff [of "sint (word_cat hi lo :: 16 word)" 32768, where ?'a = rat] by simp_all
  with 1 show ?case by auto
qed auto

lemma peak_of_bound: "x \<in> set xs \<Longrightarrow> \<bar>x\<bar> \<le> peak_of xs"
proof -
  have "b \<le> fold max ys b \<and> (\<forall>y \<in> set ys. y \<le> fold max ys b)" for ys and b :: rat
  proof (induction ys arbitrary: b)
    case (Cons y ys)
    from Cons.IH [of "max y b"] show ?case by auto
  qed simp
  from this [where ys = "map abs xs" and b = 0] show "x \<in> set xs \<Longrightarrow> \<bar>x\<bar> \<le> peak_of xs" by (auto simp: peak_of_def)
qed

lemma peak_of_least: "0 \<le> b \<Longrightarrow> (\<And>x. x \<in> set xs \<Longrightarrow> \<bar>x\<bar> \<le> b) \<Longrightarrow> peak_of xs \<le> b"
proof -
  have "a \<le> b \<Longrightarrow> \<forall>y \<in> set ys. y \<le> b \<Longrightarrow> fold max ys a \<le> b" for ys and a b :: rat
    by (induction ys arbitrary: a) auto
  from this [where ys = "map abs xs" and a = 0 and b = b]
  show "0 \<le> b \<Longrightarrow> (\<And>x. x \<in> set xs \<Longrightarrow> \<bar>x\<bar> \<le> b) \<Longrightarrow> peak_of xs \<le> b" by (auto simp: peak_of_def)
qed

text \<open>The status is \<open>ok\<close> exactly when there is no warning the status knows, and one of the warnings otherwise.\<close>

lemma status_from_warnings_cases:
  "status_from_warnings ws = ''ok'' \<and> set ws \<inter> {''silent'', ''clipped'', ''short_audio'', ''low_level'', ''low_snr''} = {}
   \<or> status_from_warnings ws \<in> set ws \<inter> {''silent'', ''clipped'', ''short_audio'', ''low_level'', ''low_snr''}"
  by (auto simp: status_from_warnings_def)

lemma status_is_warning:
  "aq_status (analyze_pcm_s16le_audio fm audio r ch enc amb m th) = ''ok'' \<longleftrightarrow>
   aq_warnings (analyze_pcm_s16le_audio fm audio r ch enc amb m th) = []"
proof -
  have *: "status_from_warnings ws = ''ok'' \<longleftrightarrow> ws = []"
    if "set ws \<subseteq> {''silent'', ''clipped'', ''short_audio'', ''low_level'', ''low_snr''}" for ws
    using that by (cases ws) (auto simp: status_from_warnings_def)
  have "set (level_warnings th d p x c @ (if b then [''low_snr''] else []))
      \<subseteq> {''silent'', ''clipped'', ''short_audio'', ''low_level'', ''low_snr''}" for d p x c b
    by (auto simp: level_warnings_def)
  then show ?thesis
    unfolding analyze_pcm_s16le_audio_def Let_def by (simp add: * empty_result_def)
qed

lemma filter_ratio: "xs \<noteq> [] \<Longrightarrow> 0 \<le> of_nat (length (filter P xs)) / (of_nat (length xs) :: rat)
    \<and> of_nat (length (filter P xs)) / (of_nat (length xs) :: rat) \<le> 1"
  by (simp add: divide_le_eq_1)

text \<open>The shares of clipped, active and silent samples lie between 0 and 1, and the peak does too.\<close>

lemma audio_ratios_bounded:
  "let q = analyze_pcm_s16le_audio fm audio r ch enc amb m th; unit = (\<lambda>x. 0 \<le> x \<and> x \<le> (1 :: rat)) in
   unit (aq_clipping_ratio q) \<and> pred_option unit (aq_active_audio_ratio q)
   \<and> pred_option unit (aq_silence_ratio q) \<and> pred_option unit (aq_peak q)"
proof -
  define raw where "raw = (case audio of None \<Rightarrow> [] | Some b \<Rightarrow> b)"
  have u: "0 \<le> py_round 6 x \<and> py_round 6 x \<le> 1" if "0 \<le> x" "x \<le> 1" for x
    using py_round_mono [OF that(1), of 6] py_round_mono [OF that(2), of 6] by simp
  show ?thesis
  proof (cases "pcm_samples raw = []")
    case True
    then show ?thesis
      unfolding analyze_pcm_s16le_audio_def Let_def raw_def [symmetric] by (simp add: empty_result_def)
  next
    case False
    note f = filter_ratio [OF False]
    have p: "0 \<le> peak_of (pcm_samples raw)" "peak_of (pcm_samples raw) \<le> 1"
      using False peak_of_bound [of "hd (pcm_samples raw)" "pcm_samples raw"]
      by (auto intro!: peak_of_least simp: abs_le_iff dest!: pcm_samples_range intro: order_trans [OF abs_ge_zero])
    have s: "0 \<le> 1 - x \<and> 1 - x \<le> 1" if "0 \<le> x \<and> x \<le> 1" for x :: rat using that by simp
    show ?thesis
      unfolding analyze_pcm_s16le_audio_def Let_def raw_def [symmetric]
      using False u [OF p] u [OF f [THEN conjunct1] f [THEN conjunct2]] u s [OF f] by (simp add: empty_result_def)
  qed
qed

end
