(* ===== verification/SessionState.thy ===== *)
theory SessionState
  imports WakeElection AudioQuality
begin

text \<open>
  The state of the voice session manager (\<open>VoiceSessionManager\<close> and
  \<open>EndpointSessionRuntime\<close> in \<open>voice/session_manager.py\<close>) and the primitive operations on
  it. One connection of an endpoint is a runtime; runtimes and session snapshots are mutable
  objects that several variables share, so both live in stores addressed by references. The
  context variable that selects the runtime of the running handler is the field \<open>ctx\<close>.

  Everything outside the manager is a parameter in the record \<open>env\<close>: the clock, the random
  identifiers, the JSON and payload validation of the libraries, and the injected services
  (wake detector, turn pipeline, wake recorder). A service may answer differently each time, so
  each answer is a function of the effects performed so far. Effects on the outside world are
  appended to \<open>trace\<close>, newest first; logging is left out.
\<close>

section \<open>Values exchanged with the injected services\<close>

record detection =
  dt_detected :: bool
  dt_confidence :: "rat option"
  dt_model :: "string option"
  dt_reason :: "string option"

record audio_summary =
  as_endpoint_id :: string
  as_session_id :: string
  as_chunk_count :: nat
  as_sample_rate_hz :: "int option"
  as_encoding :: "string option"
  as_channels :: int
  as_audio_bytes :: bytes
  as_ambient_audio_bytes :: "bytes option"
  as_endpoint_audio_metrics :: "dict option"

record speech_transcript =
  tr_text :: string
  tr_confidence :: "rat option"
  tr_provider_id :: string
  tr_model :: "string option"
  tr_duration_ms :: "rat option"
  tr_error :: "string option"

record tts_synthesis =
  ts_content_type :: string
  ts_stream_id :: "string option"
  ts_audio_url :: "string option"
  ts_endpoint_audio_url :: "string option"
  ts_audio_urls :: dict
  ts_provider_id :: string
  ts_model_id :: "string option"
  ts_voice_id :: "string option"
  ts_audio_variant :: "string option"
  ts_audio_variants :: dict
  ts_planned_audio_variants :: dict
  ts_pending_audio_variants :: dict
  ts_conversion_policy :: "string option"
  ts_raw_audio_path :: "string option"
  ts_raw_sample_rate_hz :: "int option"
  ts_audio_variant_sample_rate_hz :: "int option"
  ts_audio_variant_source_sample_rate_hz :: "int option"
  ts_output_sample_rate_hz :: "int option"
  ts_variant_sample_rates_hz :: dict
  ts_timing_breakdown_ms :: dict
  ts_metadata_path :: "string option"
  ts_expires_at :: "string option"
  ts_ttl_seconds :: "int option"
  ts_error :: "string option"

record assistant_response =
  ar_spoken_text :: string
  ar_handled_locally :: bool
  ar_provider_id :: string
  ar_model :: "string option"
  ar_error :: "string option"
  ar_provider_latency_ms :: "rat option"
  ar_provider_metadata :: "dict option"
  ar_fallback_used :: bool
  ar_fallback_reason :: "string option"
  ar_intent_latency_ms :: "rat option"
  ar_conversation_followup :: "dict option"

record turn_timings =
  tm_stt_ms :: rat
  tm_assistant_ms :: rat
  tm_tts_ms :: rat
  tm_total_ms :: rat

record turn_result =
  tu_transcript :: speech_transcript
  tu_assistant_response :: assistant_response
  tu_tts :: tts_synthesis
  tu_timings :: turn_timings
  tu_speaker_identity :: "dict option"
  tu_audio_quality :: "dict option"

section \<open>Effects and parameters\<close>

datatype ext_effect =
    SendJson nat envelope
  | SendReply nat dict
  | CloseSocket nat int
  | RecordEvent string dict
  | DetectorInspect string string audio_chunk_payload
  | DetectorClose string string
  | RecorderCapture string string audio_format bytes
  | RecorderMarkAccepted string string dict
  | RecorderClose string string
  | RecorderSave string string
  | RecorderAttach dict dict
  | MicroVadCapture string string audio_chunk_payload bytes
  | MicroVadMark string string
  | MicroVadClose string string
  | CompleteTurn audio_summary
  | TranscribeAudio audio_summary
  | IdentifySpeaker audio_summary
  | SynthesizeReply string string string "string option"
  | WriteSidecar string dict
  | ScheduleCallback string dict
  | ScheduleSend string envelope
  | UpsertSession dict
  | WriteObservation dict

record env =
  e_clock :: "nat \<Rightarrow> instant"
  e_uuid :: "nat \<Rightarrow> string"
  e_repr :: "pv \<Rightarrow> string"
  e_json_loads :: "string \<Rightarrow> pv option"
  e_v_envelope :: "pv \<Rightarrow> (string list \<times> string) + envelope"
  e_v_start :: "dict \<Rightarrow> string + session_start_payload"
  e_v_chunk :: "dict \<Rightarrow> string + audio_chunk_payload"
  e_v_playback :: "dict \<Rightarrow> string + tts_playback_payload"
  e_v_button :: "dict \<Rightarrow> string + ui_button_payload"
  e_v_vad_started :: "dict \<Rightarrow> string + vad_started_payload"
  e_v_vad_ended :: "dict \<Rightarrow> string + vad_ended_payload"
  e_v_wake :: "dict \<Rightarrow> string + wake_candidate_payload"
  e_v_ack :: "dict \<Rightarrow> string + command_ack_payload"
  e_v_error :: "dict \<Rightarrow> string + command_error_payload"
  e_b64decode :: "string \<Rightarrow> bytes option"
  e_b64encode :: "bytes \<Rightarrow> string"
  e_p4_screens :: "dict list"
  e_local_utc :: "instant \<Rightarrow> instant"
  e_inspect_chunk :: "ext_effect list \<Rightarrow> string \<Rightarrow> string \<Rightarrow> audio_chunk_payload \<Rightarrow> detection"
  e_last_detection :: "ext_effect list \<Rightarrow> dict"
  e_complete_turn :: "ext_effect list \<Rightarrow> audio_summary \<Rightarrow> turn_result"
  e_transcribe_audio :: "ext_effect list \<Rightarrow> audio_summary \<Rightarrow> speech_transcript"
  e_identify_speaker :: "ext_effect list \<Rightarrow> audio_summary \<Rightarrow> dict"
  e_synthesize_reply :: "ext_effect list \<Rightarrow> string \<Rightarrow> string \<Rightarrow> string \<Rightarrow> string option \<Rightarrow> tts_synthesis"
  e_math :: float_math
  e_float_text :: "string \<Rightarrow> rat option"
  e_read_sidecar :: "ext_effect list \<Rightarrow> string \<Rightarrow> dict option"
  e_save_recording :: "ext_effect list \<Rightarrow> string \<Rightarrow> string \<Rightarrow> bytes list \<Rightarrow> nat \<Rightarrow> dict option"
  e_attach_transcript :: "ext_effect list \<Rightarrow> dict \<Rightarrow> dict \<Rightarrow> dict"
  e_custom_capture_active :: "ext_effect list \<Rightarrow> string \<Rightarrow> bool"
  e_runtime_commands :: "ext_effect list \<Rightarrow> string \<Rightarrow> (event_type \<times> string \<times> dict) list"
  e_has_turn_pipeline :: bool
  e_has_wake_recorder :: bool
  e_has_micro_vad_recorder :: bool
  e_has_quality_log :: bool
  e_has_history_store :: bool
  e_history_limit :: nat
  e_has_custom_capture :: bool
  e_has_ui_button_handler :: bool
  e_has_endpoint_event_handler :: bool
  e_has_custom_capture_handler :: bool
  e_pre_wake_timeout_s :: rat
  e_max_active_session_s :: rat
  e_privacy_mode :: bool

section \<open>Runtimes and the manager\<close>

record runtime =
  rt_connection_active :: bool
  rt_websocket :: "nat option"
  rt_audio_connection_active :: bool
  rt_audio_websocket :: "nat option"
  rt_connected_endpoint_id :: "string option"
  rt_active_session :: "nat option"
  rt_chunk_count :: nat
  rt_audio_ws_chunk_index :: nat
  rt_audio_chunks :: "bytes list"
  rt_ambient_audio_chunks :: "bytes list"
  rt_audio_format :: "audio_format option"
  rt_sequence :: nat
  rt_history :: "dict option"
  rt_last_transcript :: "string option"
  rt_last_response :: "string option"
  rt_last_transcript_metadata :: "dict option"
  rt_last_error :: "dict option"
  rt_last_tts :: "dict option"
  rt_last_tts_playback :: "dict option"
  rt_tts_playback_history :: "dict list"
  rt_active_playbacks :: "(string \<times> dict) list"
  rt_last_playback_interrupt :: "dict option"
  rt_last_assistant :: "dict option"
  rt_last_turn_timings :: "dict option"
  rt_last_event_type :: "string option"
  rt_last_command_ack :: "dict option"
  rt_last_command_error :: "dict option"
  rt_pending_followup :: "dict option"
  rt_followup_task :: "(string \<times> string) option"

definition new_runtime :: runtime where
  "new_runtime =
     \<lparr>rt_connection_active = False, rt_websocket = None, rt_audio_connection_active = False,
      rt_audio_websocket = None, rt_connected_endpoint_id = None, rt_active_session = None,
      rt_chunk_count = 0, rt_audio_ws_chunk_index = 0, rt_audio_chunks = [],
      rt_ambient_audio_chunks = [], rt_audio_format = None, rt_sequence = 0, rt_history = None,
      rt_last_transcript = None, rt_last_response = None, rt_last_transcript_metadata = None,
      rt_last_error = None, rt_last_tts = None, rt_last_tts_playback = None,
      rt_tts_playback_history = [], rt_active_playbacks = [], rt_last_playback_interrupt = None,
      rt_last_assistant = None, rt_last_turn_timings = None, rt_last_event_type = None,
      rt_last_command_ack = None, rt_last_command_error = None, rt_pending_followup = None,
      rt_followup_task = None\<rparr>"

text \<open>
  \<open>rts\<close> and \<open>sess\<close> are the stores of runtimes and snapshots; reference 0 of \<open>rts\<close> is the
  default runtime. \<open>hist\<close> is the content of the session history store, newest first.
\<close>

text \<open>A connection on its way: its socket, its endpoint, the earlier runtime it replaces, and whether that one's
  control socket is being closed already (before, the audio socket is).\<close>

record pending_connection =
  pc_websocket :: nat
  pc_endpoint_id :: string
  pc_replaced :: nat
  pc_control_closing :: bool

record world =
  env :: env
  clock_reads :: nat
  uuid_reads :: nat
  ctx :: nat
  rts :: "nat \<Rightarrow> runtime"
  next_rt :: nat
  sess :: "nat \<Rightarrow> snapshot"
  next_sess :: nat
  endpoint_runtimes :: "(string \<times> nat) list"
  command_records :: "(string \<times> dict) list"
  last_volume :: "(string \<times> int) list"
  event_diagnostics :: "dict list"
  last_ui_button :: "dict option"
  last_ui_screen :: "dict option"
  last_ui_render_sent_at :: "(string \<times> instant) list"
  ui_button_history :: "dict list"
  wake_history :: "dict list"
  wake_confidence_history :: "dict list"
  election :: election
  enrollment_windows :: "(string \<times> dict) list"
  placement_windows :: "(string \<times> dict) list"
  hist :: "dict list"
  connecting :: "pending_connection list"
  trace :: "ext_effect list"

type_synonym 'a M = "(world, 'a) state"

section \<open>Primitive operations\<close>

definition py_now :: "instant M" where
  "py_now = do {
     w \<leftarrow> State_Monad.get;
     modify (\<lambda>w. w\<lparr>clock_reads := Suc (clock_reads w)\<rparr>);
     ret (e_clock (env w) (clock_reads w)) }"

definition uuid_hex :: "string M" where
  "uuid_hex = do {
     w \<leftarrow> State_Monad.get;
     modify (\<lambda>w. w\<lparr>uuid_reads := Suc (uuid_reads w)\<rparr>);
     ret (e_uuid (env w) (uuid_reads w)) }"

definition emit :: "ext_effect \<Rightarrow> unit M" where
  "emit x = modify (\<lambda>w. w\<lparr>trace := x # trace w\<rparr>)"

text \<open>\<open>getter\<close> and \<open>setter\<close> of \<open>_runtime_property\<close>: the runtime the context selects.\<close>

definition cur_runtime :: "runtime M" where
  "cur_runtime = gets (\<lambda>w. rts w (ctx w))"

definition upd_runtime :: "(runtime \<Rightarrow> runtime) \<Rightarrow> unit M" where
  "upd_runtime f = modify (\<lambda>w. w\<lparr>rts := (rts w)(ctx w := f (rts w (ctx w)))\<rparr>)"

definition session_at :: "nat \<Rightarrow> snapshot M" where
  "session_at i = gets (\<lambda>w. sess w i)"

definition upd_session :: "nat \<Rightarrow> (snapshot \<Rightarrow> snapshot) \<Rightarrow> unit M" where
  "upd_session i f = modify (\<lambda>w. w\<lparr>sess := (sess w)(i := f (sess w i))\<rparr>)"

definition with_runtime :: "nat \<Rightarrow> 'a M \<Rightarrow> 'a M" where
  \<comment> \<open>\<open>token = self._runtime_context.set(r); try: ... finally: self._runtime_context.reset(token)\<close>\<close>
  "with_runtime r m = do {
     w \<leftarrow> State_Monad.get;
     modify (\<lambda>w. w\<lparr>ctx := r\<rparr>);
     x \<leftarrow> m;
     modify (\<lambda>v. v\<lparr>ctx := ctx w\<rparr>);
     ret x }"

definition repr_env :: "(pv \<Rightarrow> string) M" where
  "repr_env = gets (\<lambda>w. e_repr (env w))"

definition record_voice_event :: "string \<Rightarrow> dict \<Rightarrow> unit M" where
  "record_voice_event event_type flds = do {
     t \<leftarrow> py_now;
     emit (RecordEvent event_type (aupdate
       [(''recorded_at'', PStr (isoformat t)), (''event_type'', PStr event_type)] flds)) }"

definition next_sequence :: "nat M" where
  "next_sequence = do {
     r \<leftarrow> cur_runtime;
     upd_runtime (\<lambda>r. r\<lparr>rt_sequence := Suc (rt_sequence r)\<rparr>);
     ret (rt_sequence r) }"

text \<open>Construction of an outgoing \<open>VoiceEventEnvelope\<close>: its id and timestamp are defaults.\<close>

definition mk_event :: "event_type \<Rightarrow> string \<Rightarrow> string option \<Rightarrow> nat \<Rightarrow> dict \<Rightarrow> envelope M" where
  "mk_event et endpoint_id session_id seq payload = do {
     u \<leftarrow> uuid_hex;
     t \<leftarrow> py_now;
     ret \<lparr>ev_event_type = et, ev_event_id = ''evt_'' @ u, ev_endpoint_id = endpoint_id,
          ev_direction = BackendToEndpoint, ev_session_id = session_id, ev_sequence = Some seq,
          ev_timestamp = t, ev_payload = payload\<rparr> }"

definition record_event_diagnostic ::
  "string \<Rightarrow> string \<Rightarrow> string option \<Rightarrow> string option \<Rightarrow> string \<Rightarrow> unit M" where
  "record_event_diagnostic code endpoint_id session_id event_type message = do {
     t \<leftarrow> py_now;
     modify (\<lambda>w. w\<lparr>event_diagnostics := push_front 10
       [(''timestamp'', PStr (isoformat t)), (''code'', PStr code),
        (''endpoint_id'', PStr (str_or (Some endpoint_id) ''unknown'')),
        (''session_id'', ostr session_id), (''event_type'', ostr event_type),
        (''message'', PStr message)] (event_diagnostics w)\<rparr>) }"

definition state_event :: "event_type \<Rightarrow> nat \<Rightarrow> dict \<Rightarrow> envelope M" where
  "state_event et i extra = do {
     s \<leftarrow> session_at i;
     upd_runtime (\<lambda>r. r\<lparr>rt_last_error := None, rt_last_event_type := Some (event_name et)\<rparr>);
     n \<leftarrow> next_sequence;
     mk_event et (ss_endpoint_id s) (Some (ss_session_id s)) n
       (aupdate [(''snapshot'', dump_snapshot s)] extra) }"

definition error_event :: "string \<Rightarrow> string option \<Rightarrow> string \<Rightarrow> string \<Rightarrow> bool \<Rightarrow> envelope M" where
  "error_event endpoint_id session_id code message recoverable = do {
     let payload = dump_error \<lparr>er_code = code, er_message = message, er_recoverable = recoverable\<rparr>;
     upd_runtime (\<lambda>r. r\<lparr>rt_last_event_type := Some ''session.error'', rt_last_error := Some payload\<rparr>);
     record_event_diagnostic code (str_or (Some endpoint_id) ''unknown'') session_id
       (Some ''session.error'') message;
     n \<leftarrow> next_sequence;
     mk_event EvSessionError (str_or (Some endpoint_id) ''unknown'') session_id n payload }"

definition set_session_state :: "session_state \<Rightarrow> unit M" where
  "set_session_state st = do {
     r \<leftarrow> cur_runtime;
     (case rt_active_session r of
        None \<Rightarrow> ret ()
      | Some i \<Rightarrow> do {
          s \<leftarrow> session_at i;
          t \<leftarrow> py_now;
          (if ss_session_state s \<noteq> st \<and> \<not> is_valid_transition (ss_session_state s) st then
             upd_session i (\<lambda>s. s\<lparr>
               ss_last_error := Some \<lparr>er_code = ''invalid_session_transition'',
                 er_message = ''Cannot move voice session from '' @ state_name (ss_session_state s)
                   @ '' to '' @ state_name st @ ''.'', er_recoverable = False\<rparr>,
               ss_session_state := Failed, ss_ux_state := UxError, ss_last_updated_at := t\<rparr>)
           else
             upd_session i (\<lambda>s. s\<lparr>ss_session_state := st, ss_ux_state := project_ux_state st,
               ss_last_updated_at := t\<rparr>)) }) }"

section \<open>Commands sent to endpoints\<close>

definition record_command ::
  "string \<Rightarrow> string \<Rightarrow> string \<Rightarrow> string \<Rightarrow> rat option \<Rightarrow> dict M" where
  "record_command request_id endpoint_id command_type event_type timeout_s = do {
     t \<leftarrow> py_now;
     let timeout_seconds = (case timeout_s of None \<Rightarrow> 10 | Some x \<Rightarrow> x);
     let rec =
       [(''request_id'', PStr request_id), (''endpoint_id'', PStr endpoint_id),
        (''command_type'', PStr command_type), (''event_type'', PStr event_type),
        (''status'', PStr ''pending''), (''terminal'', PBool False),
        (''created_at'', PStr (isoformat t)), (''updated_at'', PStr (isoformat t)),
        (''timeout_at'', PFloat (of_int t / 1000000 + timeout_seconds))];
     modify (\<lambda>w. w\<lparr>command_records := aput request_id rec (command_records w)\<rparr>);
     ret rec }"

definition update_command_from_ack :: "command_ack_payload \<Rightarrow> unit M" where
  "update_command_from_ack p = do {
     w \<leftarrow> State_Monad.get;
     (case aget (command_records w) (ca_request_id p) of
        None \<Rightarrow> ret ()
      | Some rec \<Rightarrow> do {
          t \<leftarrow> py_now;
          modify (\<lambda>w. w\<lparr>command_records := aput (ca_request_id p) (aupdate rec
            [(''status'', PStr (ack_name (ca_status p))),
             (''terminal'', PBool (ca_status p \<in> {AckSucceeded, AckUnsupported})),
             (''message'', ostr (ca_message p)),
             (''updated_at'', PStr (isoformat t))]) (command_records w)\<rparr>) }) }"

definition update_command_from_error :: "command_error_payload \<Rightarrow> unit M" where
  "update_command_from_error p = do {
     w \<leftarrow> State_Monad.get;
     (case aget (command_records w) (ce_request_id p) of
        None \<Rightarrow> ret ()
      | Some rec \<Rightarrow> do {
          t \<leftarrow> py_now;
          modify (\<lambda>w. w\<lparr>command_records := aput (ce_request_id p) (aupdate rec
            [(''status'', PStr ''failed''), (''terminal'', PBool True),
             (''error_code'', PStr (ce_code p)), (''message'', PStr (ce_message p)),
             (''updated_at'', PStr (isoformat t))]) (command_records w)\<rparr>) }) }"

definition command_expired :: "instant \<Rightarrow> dict \<Rightarrow> bool" where
  "command_expired now rec \<longleftrightarrow> \<not> truthy (dget rec ''terminal'') \<and>
     (case dget rec ''timeout_at'' of PFloat x \<Rightarrow> of_int now / 1000000 > x | _ \<Rightarrow> False)"

definition expire_commands :: "unit M" where
  "expire_commands = do {
     now \<leftarrow> py_now;
     w \<leftarrow> State_Monad.get;
     for_each (\<lambda>(k, rec).
       whenM (command_expired now rec) (do {
         t \<leftarrow> py_now;
         modify (\<lambda>w. w\<lparr>command_records := aput k (aupdate rec
           [(''status'', PStr ''timed_out''), (''terminal'', PBool True),
            (''updated_at'', PStr (isoformat t))]) (command_records w)\<rparr>) }))
       (command_records w) }"

definition latest_command :: "(pv \<Rightarrow> string) \<Rightarrow> string \<Rightarrow> string \<Rightarrow> world \<Rightarrow> dict option" where
  "latest_command rp endpoint_id command_type w =
     (case filter (\<lambda>rec. dget rec ''endpoint_id'' = PStr endpoint_id
                     \<and> dget rec ''command_type'' = PStr command_type) (map snd (command_records w)) of
        [] \<Rightarrow> None
      | r # rs \<Rightarrow> Some (max_by (\<lambda>rec. py_str rp (py_or (dget rec ''created_at'') (PStr []))) r rs))"

definition volume_status :: "string \<Rightarrow> dict M" where
  "volume_status endpoint_id = do {
     expire_commands;
     rp \<leftarrow> repr_env;
     w \<leftarrow> State_Monad.get;
     ret [(''volume_percent'', oint (aget (last_volume w) endpoint_id)),
          (''latest_command'', odict (latest_command rp endpoint_id ''endpoint.volume.set'' w))] }"

definition clear_ota_commands :: "string option \<Rightarrow> nat M" where
  "clear_ota_commands endpoint_id = do {
     w \<leftarrow> State_Monad.get;
     let ids = map fst (filter (\<lambda>(k, rec). dget rec ''command_type'' = PStr ''ota.update''
          \<and> (endpoint_id = None \<or> dget rec ''endpoint_id'' = ostr endpoint_id)) (command_records w));
     for_each (\<lambda>k. modify (\<lambda>w. w\<lparr>command_records := adel k (command_records w)\<rparr>)) ids;
     ret (length ids) }"

section \<open>Reading untrusted envelopes\<close>

definition safe_field :: "string \<Rightarrow> pv \<Rightarrow> string option" where
  "safe_field k payload =
     (case payload of PDict d \<Rightarrow> (case dget d k of PStr s \<Rightarrow> nonempty s | _ \<Rightarrow> None) | _ \<Rightarrow> None)"

definition safe_endpoint_id :: "pv \<Rightarrow> string" where
  "safe_endpoint_id payload = (case safe_field ''endpoint_id'' payload of None \<Rightarrow> ''unknown'' | Some s \<Rightarrow> s)"

definition safe_session_id :: "pv \<Rightarrow> string option" where
  "safe_session_id payload = safe_field ''session_id'' payload"

definition safe_event_type :: "pv \<Rightarrow> string option" where
  "safe_event_type payload = safe_field ''event_type'' payload"

section \<open>Runtimes by endpoint\<close>

definition runtime_live :: "runtime \<Rightarrow> bool" where
  "runtime_live r \<longleftrightarrow> rt_connection_active r \<and> rt_websocket r \<noteq> None"

definition bind_endpoint :: "nat \<Rightarrow> string \<Rightarrow> world \<Rightarrow> world" where
  "bind_endpoint r endpoint_id w =
     (case aget (endpoint_runtimes w) endpoint_id of
        Some r' \<Rightarrow> if r' \<noteq> r \<and> runtime_live (rts w r') then w
                   else w\<lparr>endpoint_runtimes := aput endpoint_id r (endpoint_runtimes w)\<rparr>
      | None \<Rightarrow> w\<lparr>endpoint_runtimes := aput endpoint_id r (endpoint_runtimes w)\<rparr>)"

definition unbind_endpoint :: "nat \<Rightarrow> world \<Rightarrow> world" where
  "unbind_endpoint r w =
     (case rt_connected_endpoint_id (rts w r) of
        None \<Rightarrow> w
      | Some e \<Rightarrow> if e \<noteq> [] \<and> aget (endpoint_runtimes w) e = Some r
                  then w\<lparr>endpoint_runtimes := adel e (endpoint_runtimes w)\<rparr> else w)"

text \<open>The setters of \<open>_connected_endpoint_id\<close> and \<open>_websocket\<close>.\<close>

definition set_connected_endpoint :: "string option \<Rightarrow> unit M" where
  "set_connected_endpoint v = do {
     w \<leftarrow> State_Monad.get;
     modify (unbind_endpoint (ctx w));
     upd_runtime (\<lambda>r. r\<lparr>rt_connected_endpoint_id := v\<rparr>);
     (case v of None \<Rightarrow> ret ()
      | Some e \<Rightarrow> whenM (e \<noteq> []) (modify (bind_endpoint (ctx w) e))) }"

definition set_websocket :: "nat option \<Rightarrow> unit M" where
  "set_websocket v = do {
     w \<leftarrow> State_Monad.get;
     upd_runtime (\<lambda>r. r\<lparr>rt_websocket := v\<rparr>);
     (case (v, rt_connected_endpoint_id (rts w (ctx w))) of
        (Some _, Some e) \<Rightarrow> whenM (e \<noteq> []) (modify (bind_endpoint (ctx w) e))
      | _ \<Rightarrow> ret ()) }"

definition runtime_for_endpoint :: "string \<Rightarrow> world \<Rightarrow> nat option" where
  "runtime_for_endpoint endpoint_id w =
     (let d = (if runtime_live (rts w 0) \<and> rt_connected_endpoint_id (rts w 0) = Some endpoint_id
               then Some 0 else None) in
      case aget (endpoint_runtimes w) endpoint_id of
        Some r \<Rightarrow> if runtime_live (rts w r) then Some r else d
      | None \<Rightarrow> d)"

definition connected_endpoint_ids :: "world \<Rightarrow> string list" where
  "connected_endpoint_ids w =
     sort (remdups (map fst (filter (\<lambda>(e, r). runtime_live (rts w r)) (endpoint_runtimes w))))"

definition status_runtime :: "world \<Rightarrow> nat" where
  "status_runtime w =
     (let refs = map snd (endpoint_runtimes w) in
      case find (\<lambda>r. rt_active_session (rts w r) \<noteq> None) refs of Some r \<Rightarrow> r
      | None \<Rightarrow> (case find (\<lambda>r. rt_connection_active (rts w r)) refs of Some r \<Rightarrow> r
      | None \<Rightarrow> (case find (\<lambda>r. rt_last_event_type (rts w r) \<noteq> None) refs of Some r \<Rightarrow> r
      | None \<Rightarrow> 0)))"

definition status_visible_session :: "world \<Rightarrow> runtime \<Rightarrow> snapshot option" where
  "status_visible_session w r =
     (case rt_active_session r of None \<Rightarrow> None
      | Some i \<Rightarrow>
        let s = sess w i in
        if ss_session_state s \<noteq> Idle then Some s
        else let wake = (case rt_history r of None \<Rightarrow> PNone | Some h \<Rightarrow> dget h ''wake'') in
        if is_dict wake \<and> dget (dict_of wake) ''outcome'' = PStr ''accepted'' then Some s
        else if ss_wake_source s \<in> {WakeButton, WakeManual, WakeTouch} then Some s
        else None)"

definition runtime_status_summary :: "world \<Rightarrow> runtime \<Rightarrow> dict" where
  "runtime_status_summary w r =
     (let a = map_option (sess w) (rt_active_session r);
          p = project_voice_state (rt_connection_active r) a in
      [(''endpoint_id'', ostr (rt_connected_endpoint_id r)),
       (''connection_state'', PStr (connection_name (pr_connection_state p))),
       (''ux_state'', PStr (ux_name (pr_ux_state p))),
       (''session_state'', ostr (map_option state_name (pr_session_state p))),
       (''transport_health'', PStr (pr_transport_health p)),
       (''active_session'', (case a of None \<Rightarrow> PNone | Some s \<Rightarrow> dump_snapshot s)),
       (''last_event_type'', ostr (rt_last_event_type r)),
       (''last_session_id'', ostr (map_option ss_session_id a))])"

end
