(* ===== verification/SessionHistory.thy ===== *)
theory SessionHistory
  imports SessionState
begin

text \<open>
  The record of a voice session: what the manager collects while a session is active (latency
  points, endpoint audio metrics, wake and VAD results) and the store it is persisted in when
  the session ends (\<open>persistence/voice_session_history.py\<close>). The collected history is a dict
  of the runtime; the functions on it are pure and lifted to the runtime at the end of each
  section.
\<close>

section \<open>The store\<close>

definition hist_upsert :: "(pv \<Rightarrow> string) \<Rightarrow> nat \<Rightarrow> instant \<Rightarrow> dict \<Rightarrow> dict list \<Rightarrow> (dict \<times> dict list) option" where
  "hist_upsert rp limit now rec sessions =
     (let sid = strip (py_str rp (py_or (dget rec ''session_id'') (PStr []))) in
      if sid = [] then None
      else let normalized = aupdate rec [(''session_id'', PStr sid), (''updated_at'', PStr (isoformat now))];
               others = filter (\<lambda>s. dget s ''session_id'' \<noteq> PStr sid) sessions
           in Some (normalized, push_front limit normalized others))"

definition hist_get :: "string \<Rightarrow> dict list \<Rightarrow> dict option" where
  "hist_get sid sessions = find (\<lambda>s. dget s ''session_id'' = PStr sid) sessions"

definition summary_keys :: "string list" where
  "summary_keys =
     [''session_id'', ''endpoint_id'', ''session_state'', ''started_at'', ''completed_at'',
      ''updated_at'', ''duration_ms'', ''completion_reason'', ''cancel_reason'', ''error_state'',
      ''wake'', ''vad'', ''audio'', ''transcript'', ''assistant'', ''turn_timings'', ''latency'',
      ''latency_points'', ''tts'', ''tts_playback'', ''replay'', ''wake_recording'',
      ''placement_test'']"

definition session_summary :: "dict \<Rightarrow> dict" where
  "session_summary s = map (\<lambda>k. (k, dget s k)) summary_keys"

definition hist_list :: "nat \<Rightarrow> int \<Rightarrow> string option \<Rightarrow> dict list \<Rightarrow> dict list" where
  "hist_list max_records limit endpoint_id sessions =
     (let bounded = nat (max 1 (min limit (int max_records)));
          chosen = (case endpoint_id of
              Some (c # e) \<Rightarrow> filter (\<lambda>s. dget s ''endpoint_id'' = PStr (c # e)) sessions
            | _ \<Rightarrow> sessions)
      in map session_summary (take bounded chosen))"

definition replay_eligible :: "dict \<Rightarrow> bool" where
  "replay_eligible s \<longleftrightarrow>
     is_dict (dget s ''replay'') \<and> is_dict (dget s ''tts'')
     \<and> truthy (dget (dict_of (dget s ''replay'')) ''eligible'')
     \<and> truthy (dget (dict_of (dget s ''tts'')) ''stream_id'')
     \<and> truthy (dget (dict_of (dget s ''tts'')) ''audio_url'')"

definition hist_latest_replay_eligible :: "string option \<Rightarrow> dict list \<Rightarrow> dict option" where
  "hist_latest_replay_eligible endpoint_id sessions =
     find (\<lambda>s. \<not> (case endpoint_id of Some (c # e) \<Rightarrow> dget s ''endpoint_id'' \<noteq> PStr (c # e) | _ \<Rightarrow> False)
               \<and> replay_eligible s) sessions"

definition upsert_session :: "dict \<Rightarrow> unit M" where
  \<comment> \<open>the exceptions of the store are caught and logged by every caller\<close>
  "upsert_session rec = do {
     w \<leftarrow> State_Monad.get;
     now \<leftarrow> py_now;
     (case hist_upsert (e_repr (env w)) (e_history_limit (env w)) now rec (hist w) of
        None \<Rightarrow> ret ()
      | Some (normalized, sessions) \<Rightarrow> do {
          modify (\<lambda>w. w\<lparr>hist := sessions\<rparr>);
          emit (UpsertSession normalized) }) }"

section \<open>Latency points\<close>

definition latency_point_order :: "string \<Rightarrow> nat" where
  "latency_point_order k =
     (if k = ''vad_voice_detected'' then 0 else if k = ''wake_word_detected'' then 1
      else if k = ''vad_silence'' then 2 else if k = ''stt_start'' then 3
      else if k = ''stt_end'' then 4 else if k = ''intent_processing_done'' then 5
      else if k = ''tts_start'' then 6 else if k = ''tts_end'' then 7
      else if k = ''session_end'' then 8 else 100)"

definition parse_datetime :: "(pv \<Rightarrow> string) \<Rightarrow> pv \<Rightarrow> instant option" where
  "parse_datetime rp v = (if v = PNone then None else parse_utc (replace_z (py_str rp v)))"

fun latency_offsets :: "(pv \<Rightarrow> string) \<Rightarrow> instant \<Rightarrow> instant option \<Rightarrow> dict list \<Rightarrow> dict list" where
  "latency_offsets rp vad prev [] = []"
| "latency_offsets rp vad prev (p # ps) =
     (case parse_datetime rp (dget p ''timestamp'') of
        None \<Rightarrow> p # latency_offsets rp vad prev ps
      | Some t \<Rightarrow>
          aput ''offset_from_previous_ms''
            (PInt (case prev of None \<Rightarrow> 0 | Some q \<Rightarrow> max 0 (ms_between t q)))
            (aput ''offset_from_vad_ms'' (PInt (max 0 (ms_between t vad))) p)
          # latency_offsets rp vad (Some t) ps)"

definition append_latency :: "(pv \<Rightarrow> string) \<Rightarrow> string \<Rightarrow> string \<Rightarrow> instant \<Rightarrow> dict \<Rightarrow> dict" where
  "append_latency rp key label timestamp h =
     (let old = map dict_of (filter (\<lambda>p. is_dict p \<and> dget (dict_of p) ''key'' \<noteq> PStr key)
                  (list_of (dget h ''latency_points'')));
          points = old @ [[(''key'', PStr key), (''label'', PStr label),
                           (''timestamp'', PStr (isoformat timestamp))]];
          vad = (case find (\<lambda>p. dget p ''key'' = PStr ''vad_voice_detected'') points of
                   None \<Rightarrow> None | Some p \<Rightarrow> parse_datetime rp (dget p ''timestamp''));
          ordered = sort_key (\<lambda>p. latency_point_order (py_str rp (dget p ''key''))) points;
          final = (case vad of None \<Rightarrow> ordered | Some v \<Rightarrow> latency_offsets rp v None ordered)
      in aput ''latency_points'' (PList (map PDict final)) h)"

definition upd_history :: "(dict \<Rightarrow> dict) \<Rightarrow> unit M" where
  "upd_history f = upd_runtime (\<lambda>r. r\<lparr>rt_history := map_option f (rt_history r)\<rparr>)"

definition append_latency_point :: "string \<Rightarrow> string \<Rightarrow> instant \<Rightarrow> unit M" where
  "append_latency_point key label timestamp = do {
     rp \<leftarrow> repr_env;
     upd_history (append_latency rp key label timestamp) }"

definition vad_latency_record :: "(pv \<Rightarrow> string) \<Rightarrow> dict \<Rightarrow> string \<Rightarrow> instant \<Rightarrow> dict option" where
  "vad_latency_record rp h marker ended_at =
     (case dget h ''vad'' of
        PDict vad \<Rightarrow>
          if \<not> truthy (dget vad ''speech_started_at'') then None
          else (case parse_datetime rp (dget vad ''speech_started_at'') of
              None \<Rightarrow> None
            | Some started_at \<Rightarrow>
                Some (aput (''vad_to_'' @ marker @ ''_ms'') (PInt (max 0 (ms_between ended_at started_at)))
                  (aput ''vad_speech_started_at'' (PStr (isoformat started_at))
                    (dict_of (dget h ''latency'')))))
      | _ \<Rightarrow> None)"

text \<open>\<open>_update_active_session_history(**entries)\<close>: entries that are \<open>None\<close> are skipped.\<close>

definition update_entries :: "dict \<Rightarrow> dict \<Rightarrow> dict" where
  "update_entries entries h = aupdate h (filter (\<lambda>kv. snd kv \<noteq> PNone) entries)"

definition update_active_session_history :: "dict \<Rightarrow> unit M" where
  "update_active_session_history entries = upd_history (update_entries entries)"

definition update_vad_latency :: "string \<Rightarrow> instant \<Rightarrow> unit M" where
  "update_vad_latency marker ended_at = do {
     rp \<leftarrow> repr_env;
     r \<leftarrow> cur_runtime;
     (case rt_history r of None \<Rightarrow> ret ()
      | Some h \<Rightarrow> (case vad_latency_record rp h marker ended_at of
            None \<Rightarrow> ret ()
          | Some l \<Rightarrow> whenM (l \<noteq> []) (update_active_session_history [(''latency'', PDict l)]))) }"

definition set_active_session_wake :: "dict \<Rightarrow> unit M" where
  "set_active_session_wake wake = upd_history (aput ''wake'' (PDict wake))"

definition set_active_session_vad :: "dict \<Rightarrow> unit M" where
  "set_active_session_vad vad =
     upd_history (\<lambda>h. aput ''vad'' (PDict (aupdate (dict_of (dget h ''vad'')) vad)) h)"

section \<open>Endpoint audio metrics\<close>

definition level_to_ratio :: "int \<Rightarrow> rat" where
  "level_to_ratio v = py_round 6 (max 0 (of_int v) / 32768)"

fun int_or_zero :: "pv \<Rightarrow> int" where
  "int_or_zero (PInt i) = i"
| "int_or_zero (PFloat r) = py_trunc r"
| "int_or_zero (PBool b) = (if b then 1 else 0)"
| "int_or_zero _ = 0"

definition has_audio_metrics :: "audio_chunk_payload \<Rightarrow> bool" where
  "has_audio_metrics p \<longleftrightarrow>
     cp_frame_level p \<noteq> None \<or> cp_noise_floor_level p \<noteq> None \<or> cp_speech_peak_level p \<noteq> None
     \<or> cp_pre_roll_duration_ms p \<noteq> None \<or> cp_contains_pre_roll p \<or> cp_contains_speech p"

definition metrics_frame_level :: "audio_chunk_payload \<Rightarrow> dict \<Rightarrow> dict" where
  "metrics_frame_level p m =
     (case cp_frame_level p of None \<Rightarrow> m
      | Some v \<Rightarrow>
        let m1 = aput ''frame_level_peak'' (PInt (max (int_or_zero (dget m ''frame_level_peak'')) v)) m in
        if cp_contains_pre_roll p then
          aput ''pre_roll_peak'' (PFloat (max
            (case num_of (dget m1 ''pre_roll_peak'') of None \<Rightarrow> 0 | Some x \<Rightarrow> x) (level_to_ratio v))) m1
        else m1)"

definition metrics_noise_floor :: "audio_chunk_payload \<Rightarrow> dict \<Rightarrow> dict" where
  "metrics_noise_floor p m =
     (case cp_noise_floor_level p of None \<Rightarrow> m
      | Some v \<Rightarrow> aput ''noise_floor_rms'' (PFloat (level_to_ratio v)) (aput ''noise_floor_level'' (PInt v) m))"

definition metrics_speech_peak :: "audio_chunk_payload \<Rightarrow> dict \<Rightarrow> dict" where
  "metrics_speech_peak p m =
     (case cp_speech_peak_level p of None \<Rightarrow> m
      | Some v \<Rightarrow> let k = max (int_or_zero (dget m ''speech_peak_level'')) v in
          aput ''speech_peak'' (PFloat (level_to_ratio k)) (aput ''speech_peak_level'' (PInt k) m))"

definition metrics_pre_roll :: "audio_chunk_payload \<Rightarrow> dict \<Rightarrow> dict" where
  "metrics_pre_roll p m =
     (let m1 = (case cp_pre_roll_duration_ms p of None \<Rightarrow> m
                | Some v \<Rightarrow> aput ''pre_roll_duration_ms''
                    (PInt (int_or_zero (dget m ''pre_roll_duration_ms'') + v)) m) in
      if cp_contains_pre_roll p then
        aput ''pre_roll_chunk_count'' (PInt (int_or_zero (dget m1 ''pre_roll_chunk_count'') + 1))
          (aput ''contains_pre_roll'' (PBool True) m1)
      else m1)"

definition metrics_speech :: "audio_chunk_payload \<Rightarrow> dict \<Rightarrow> dict" where
  "metrics_speech p m =
     (if cp_contains_speech p then
        aput ''speech_chunk_count'' (PInt (int_or_zero (dget m ''speech_chunk_count'') + 1))
          (aput ''contains_speech'' (PBool True) m)
      else m)"

definition update_endpoint_audio_metrics :: "audio_chunk_payload \<Rightarrow> dict \<Rightarrow> dict" where
  "update_endpoint_audio_metrics p h =
     (if \<not> has_audio_metrics p then h
      else let audio = dict_of (dget h ''audio'');
               m = dict_of (dget audio ''endpoint_audio_metrics'');
               m1 = aput ''chunk_count'' (PInt (int_or_zero (dget m ''chunk_count'') + 1))
                      (aput ''schema_version'' (PInt 1) m);
               m2 = metrics_speech p (metrics_pre_roll p (metrics_speech_peak p
                      (metrics_noise_floor p (metrics_frame_level p m1))))
           in aput ''audio'' (PDict (aput ''endpoint_audio_metrics'' (PDict m2) audio)) h)"

definition update_active_session_audio :: "audio_chunk_payload \<Rightarrow> unit M" where
  "update_active_session_audio p = do {
     r \<leftarrow> cur_runtime;
     upd_history (\<lambda>h. update_endpoint_audio_metrics p
       (aput ''audio'' (PDict (aupdate (dict_of (dget h ''audio''))
         [(''chunk_count'', PInt (int (rt_chunk_count r))),
          (''format'', dump_audio_format (cp_audio_format p)),
          (''raw_audio_persisted'', PBool False)])) h)) }"

definition endpoint_audio_metrics :: "runtime \<Rightarrow> dict option" where
  "endpoint_audio_metrics r =
     (case rt_history r of None \<Rightarrow> None
      | Some h \<Rightarrow> (case dget h ''audio'' of
           PDict audio \<Rightarrow> (case dget audio ''endpoint_audio_metrics'' of
               PDict m \<Rightarrow> if m = [] then None else Some m
             | _ \<Rightarrow> None)
         | _ \<Rightarrow> None))"

section \<open>Speech synthesis metadata and replay\<close>

definition tts_synthesis_metadata :: "tts_synthesis \<Rightarrow> dict" where
  "tts_synthesis_metadata t =
     [(''content_type'', PStr (ts_content_type t)),
      (''stream_id'', ostr (ts_stream_id t)),
      (''audio_url'', ostr (ts_audio_url t)),
      (''endpoint_audio_url'', ostr (ts_endpoint_audio_url t)),
      (''audio_urls'', PDict (ts_audio_urls t)),
      (''provider_id'', PStr (ts_provider_id t)),
      (''model_id'', ostr (ts_model_id t)),
      (''voice_id'', ostr (ts_voice_id t)),
      (''audio_variant'', ostr (ts_audio_variant t)),
      (''audio_variant_sample_rate_hz'', oint (ts_audio_variant_sample_rate_hz t)),
      (''audio_variant_source_sample_rate_hz'', oint (ts_audio_variant_source_sample_rate_hz t)),
      (''audio_variants'', PDict (ts_audio_variants t)),
      (''planned_audio_variants'', PDict (ts_planned_audio_variants t)),
      (''pending_audio_variants'', PDict (ts_pending_audio_variants t)),
      (''conversion_policy'', ostr (ts_conversion_policy t)),
      (''raw_audio_path'', ostr (ts_raw_audio_path t)),
      (''raw_sample_rate_hz'', oint (ts_raw_sample_rate_hz t)),
      (''output_sample_rate_hz'', oint (ts_output_sample_rate_hz t)),
      (''variant_sample_rates_hz'', PDict (ts_variant_sample_rates_hz t)),
      (''tts_timing_breakdown_ms'', PDict (ts_timing_breakdown_ms t)),
      (''metadata_path'', ostr (ts_metadata_path t)),
      (''expires_at'', ostr (ts_expires_at t)),
      (''ttl_seconds'', oint (ts_ttl_seconds t)),
      (''error'', ostr (ts_error t))]"

definition endpoint_tts_audio_url :: "dict \<Rightarrow> pv" where
  "endpoint_tts_audio_url tts = py_or (dget tts ''endpoint_audio_url'') (dget tts ''audio_url'')"

definition tts_endpoint_url :: "tts_synthesis \<Rightarrow> string option" where
  \<comment> \<open>\<open>endpoint_tts_audio_url\<close> on a \<open>TtsSynthesis\<close>\<close>
  "tts_endpoint_url t =
     (case ts_endpoint_audio_url t of Some (c # s) \<Rightarrow> Some (c # s) | _ \<Rightarrow> ts_audio_url t)"

definition replay_metadata :: "dict option \<Rightarrow> dict option \<Rightarrow> dict" where
  "replay_metadata tts error_state =
     (let no = (\<lambda>reason. [(''eligible'', PBool False), (''reason'', reason)]) in
      case error_state of
        Some e \<Rightarrow> no (py_or (dget e ''code'') (PStr ''session_failed''))
      | None \<Rightarrow> (case tts of
          None \<Rightarrow> no (PStr ''tts_unavailable'')
        | Some t \<Rightarrow>
            if t = [] then no (PStr ''tts_unavailable'')
            else if truthy (dget t ''error'') then no (dget t ''error'')
            else if \<not> truthy (dget t ''stream_id'') then no (PStr ''tts_stream_unavailable'')
            else if \<not> truthy (endpoint_tts_audio_url t) then no (PStr ''tts_audio_url_unavailable'')
            else [(''eligible'', PBool True), (''reason'', PStr ''cached_tts_available''),
                  (''stream_id'', dget t ''stream_id''), (''content_type'', dget t ''content_type''),
                  (''audio_url'', endpoint_tts_audio_url t)]))"

section \<open>Beginning, updating and persisting the history of a session\<close>

definition begin_active_session_history :: "snapshot \<Rightarrow> session_start_payload \<Rightarrow> unit M" where
  "begin_active_session_history s p = upd_runtime (\<lambda>r. r\<lparr>rt_history := Some
     [(''session_id'', PStr (ss_session_id s)),
      (''endpoint_id'', PStr (ss_endpoint_id s)),
      (''session_state'', PStr (state_name (ss_session_state s))),
      (''started_at'', PStr (isoformat (ss_started_at s))),
      (''wake_source'', PStr (wake_source_name (sp_wake_source p))),
      (''firmware_version'', ostr (sp_firmware_version p)),
      (''audio'', PDict
        [(''chunk_count'', PInt 0), (''captured_chunk_count'', PInt 0),
         (''format'', dump_audio_format (sp_audio_format p)),
         (''raw_audio_persisted'', PBool False)]),
      (''replay'', PDict [(''eligible'', PBool False), (''reason'', PStr ''tts_unavailable'')])]\<rparr>)"

definition upsert_persisted_session_history :: "string \<Rightarrow> dict \<Rightarrow> unit M" where
  "upsert_persisted_session_history session_id entries = do {
     w \<leftarrow> State_Monad.get;
     (if \<not> e_has_history_store (env w) then ret ()
      else case hist_get session_id (hist w) of
          None \<Rightarrow> ret ()
        | Some rec \<Rightarrow> upsert_session (update_entries entries rec)) }"

definition history_record ::
  "runtime \<Rightarrow> snapshot \<Rightarrow> dict \<Rightarrow> instant \<Rightarrow> string \<Rightarrow> dict option \<Rightarrow> dict option \<Rightarrow> dict" where
  "history_record r s h completed_at completion_reason error_state wake_recording =
     (let audio0 = dict_of (dget h ''audio'');
          audio1 = (case rt_audio_format r of None \<Rightarrow> audio0
                    | Some f \<Rightarrow> aput ''format'' (dump_audio_format f) audio0);
          audio = aupdate audio1
            [(''chunk_count'', PInt (int (rt_chunk_count r))),
             (''captured_chunk_count'', PInt (int (length (rt_audio_chunks r)))),
             (''ambient_reference_chunk_count'', PInt (int (length (rt_ambient_audio_chunks r)))),
             (''raw_audio_persisted'', PBool False)];
          error = (case error_state of Some e \<Rightarrow> Some e
                   | None \<Rightarrow> map_option dump_error (ss_last_error s));
          tts = (case dget h ''tts'' of PDict t \<Rightarrow> Some t | _ \<Rightarrow> None);
          rec = aupdate h
            [(''session_state'', PStr (state_name (ss_session_state s))),
             (''completed_at'', PStr (isoformat completed_at)),
             (''duration_ms'', PInt (max 0 (ms_between completed_at (ss_started_at s)))),
             (''completion_reason'', PStr completion_reason),
             (''cancel_reason'', ostr (ss_cancel_reason s)),
             (''error_state'', odict error),
             (''audio'', PDict audio),
             (''replay'', PDict (replay_metadata tts error))]
      in case wake_recording of None \<Rightarrow> rec | Some x \<Rightarrow> aput ''wake_recording'' (PDict x) rec)"

definition persist_active_session_history ::
  "nat \<Rightarrow> string \<Rightarrow> dict option \<Rightarrow> dict option \<Rightarrow> unit M" where
  "persist_active_session_history i completion_reason error_state wake_recording = do {
     w \<leftarrow> State_Monad.get;
     (if \<not> e_has_history_store (env w) \<or> rt_history (rts w (ctx w)) = None then ret ()
      else do {
        completed_at \<leftarrow> py_now;
        append_latency_point ''session_end'' ''Session end'' completed_at;
        update_vad_latency ''session_completed'' completed_at;
        r \<leftarrow> cur_runtime;
        s \<leftarrow> session_at i;
        let rec = history_record r s (the (rt_history r)) completed_at completion_reason
                    error_state wake_recording;
        upsert_session rec;
        whenM (completion_reason = ''turn_completed'' \<and> e_has_quality_log (env w))
          (emit (WriteObservation rec)) }) }"

definition record_wake_history :: "dict \<Rightarrow> unit M" where
  "record_wake_history entry = do {
     t \<leftarrow> py_now;
     modify (\<lambda>w. w\<lparr>wake_history := push_front 10
       (aupdate [(''timestamp'', PStr (isoformat_z t))] entry) (wake_history w)\<rparr>) }"

definition record_wake_confidence ::
  "string \<Rightarrow> string \<Rightarrow> string option \<Rightarrow> rat option \<Rightarrow> bool \<Rightarrow> bool \<Rightarrow> string option \<Rightarrow> string option
    \<Rightarrow> int option \<Rightarrow> int option \<Rightarrow> unit M" where
  "record_wake_confidence endpoint_id session_id model confidence detected accepted reason source
      chunk_index chunk_count =
     (case confidence of None \<Rightarrow> ret ()
      | Some c \<Rightarrow> do {
          t \<leftarrow> py_now;
          let event =
            [(''timestamp'', PStr (isoformat_z t)), (''endpoint_id'', PStr endpoint_id),
             (''session_id'', PStr session_id), (''model'', ostr model),
             (''confidence'', PFloat c), (''detected'', PBool detected),
             (''accepted'', PBool accepted), (''reason'', ostr reason), (''source'', ostr source),
             (''chunk_index'', oint chunk_index), (''chunk_count'', oint chunk_count)];
          modify (\<lambda>w. w\<lparr>wake_confidence_history := push_front 50 event (wake_confidence_history w)\<rparr>);
          record_voice_event ''wake.confidence'' event })"

definition record_accepted_wake_session :: "nat \<Rightarrow> dict option M" where
  "record_accepted_wake_session i = do {
     w \<leftarrow> State_Monad.get;
     s \<leftarrow> session_at i;
     r \<leftarrow> cur_runtime;
     (if \<not> e_has_wake_recorder (env w) then ret None
      else do {
        let rec = e_save_recording (env w) (trace w) (ss_endpoint_id s) (ss_session_id s)
                    (rt_audio_chunks r) (rt_chunk_count r);
        emit (RecorderSave (ss_endpoint_id s) (ss_session_id s));
        (case rec of None \<Rightarrow> ret None
         | Some d \<Rightarrow> do {
             record_voice_event ''wake.recording.saved''
               ([(''endpoint_id'', PStr (ss_endpoint_id s)), (''session_id'', PStr (ss_session_id s))]
                @ map (\<lambda>k. (k, dget d k))
                    [''wav_path'', ''metadata_path'', ''duration_ms'', ''model'', ''confidence'',
                     ''expires_at'']);
             ret (Some d) }) }) }"

definition attach_wake_recording_transcript :: "dict option \<Rightarrow> dict \<Rightarrow> dict option M" where
  "attach_wake_recording_transcript wake_recording transcript = do {
     w \<leftarrow> State_Monad.get;
     (case wake_recording of None \<Rightarrow> ret None
      | Some d \<Rightarrow> if \<not> e_has_wake_recorder (env w) then ret (Some d)
          else do {
            emit (RecorderAttach d transcript);
            ret (Some (e_attach_transcript (env w) (trace w) d transcript)) }) }"

definition attach_tts_sidecar_turn_text :: "tts_synthesis \<Rightarrow> dict \<Rightarrow> string \<Rightarrow> dict M" where
  "attach_tts_sidecar_turn_text tts transcript spoken_text = do {
     w \<leftarrow> State_Monad.get;
     let cleaned = filter (\<lambda>kv. snd kv \<noteq> PNone) transcript;
     (case ts_metadata_path tts of
        None \<Rightarrow> ret cleaned
      | Some path \<Rightarrow>
          if path = [] then ret cleaned
          else (case e_read_sidecar (env w) (trace w) path of
              None \<Rightarrow> ret cleaned
            | Some metadata \<Rightarrow> do {
                emit (WriteSidecar path (aput ''spoken_text'' (PStr spoken_text)
                  (aput ''transcript'' (PDict cleaned) metadata)));
                ret cleaned })) }"

section \<open>Timestamps read back\<close>

text \<open>A time the manager writes into a record, with \<open>+00:00\<close> or with \<open>Z\<close>, is read back to
  the microsecond, for every time a Python datetime can hold.\<close>

lemma timestamps_read_back:
  assumes "- 62135596800000000 \<le> t" "t < 253402300800000000"
  shows "parse_datetime rp (PStr (isoformat t)) = Some t \<and> parse_datetime rp (PStr (isoformat_z t)) = Some t"
  using parse_utc_replace_z [OF assms] by (simp add: parse_datetime_def)

lemma timestamps_read_back_witness:
  "parse_datetime (\<lambda>_. []) (PStr (isoformat 1700000000123456)) = Some 1700000000123456
     \<and> parse_datetime (\<lambda>_. []) (PStr (isoformat_z 1700000000123456)) = Some 1700000000123456"
  by (rule timestamps_read_back) simp_all

end
