(* ===== verification/Evolution.thy ===== *)
theory Evolution
  imports SessionHistory
begin

text \<open>
  How the state of the session manager may change. Three relations between the states before
  and after an operation matter: \<open>evolves\<close> (nothing is lost: sessions keep their identity and
  move only along the contract's transition table or into failure, counters and the trace grow,
  well-formedness is preserved), \<open>wired\<close> (connections and their registry are untouched) and
  \<open>calm\<close> (sessions and captured audio are untouched).

  The locales \<open>bookkeeping\<close> and \<open>handling\<close> state what a relation must satisfy on the primitive
  operations; inside them every operation of the manager is shown once to satisfy it, and the
  three relations are interpretations.
\<close>

section \<open>Session state changes\<close>

definition state_step :: "session_state \<Rightarrow> session_state \<Rightarrow> bool" where
  "state_step a b \<longleftrightarrow> a = b \<or> b = Failed \<or> (b \<noteq> Idle \<and> is_valid_transition a b)"

definition session_step :: "snapshot \<Rightarrow> snapshot \<Rightarrow> bool" where
  "session_step s t \<longleftrightarrow>
     ss_session_id t = ss_session_id s \<and> ss_endpoint_id t = ss_endpoint_id s
     \<and> ss_started_at t = ss_started_at s
     \<and> state_step\<^sup>*\<^sup>* (ss_session_state s) (ss_session_state t)"

lemma session_step_refl [simp]: "session_step s s"
  by (simp add: session_step_def)

lemma session_step_trans: "session_step s t \<Longrightarrow> session_step t u \<Longrightarrow> session_step s u"
  by (auto simp: session_step_def intro: rtranclp_trans)

lemma terminal_step: "state_step a b \<Longrightarrow> is_terminal a \<Longrightarrow> is_terminal b"
  by (cases a) (auto simp: state_step_def is_terminal_def)

lemma terminal_steps: "state_step\<^sup>*\<^sup>* a b \<Longrightarrow> is_terminal a \<Longrightarrow> is_terminal b"
  by (induction rule: rtranclp_induct) (auto intro: terminal_step)

section \<open>Well-formed states\<close>

definition sessions_ok :: "world \<Rightarrow> bool" where
  "sessions_ok w \<longleftrightarrow>
     (\<forall>i < next_sess w. ss_ux_state (sess w i) = project_ux_state (ss_session_state (sess w i)))"

definition refs_ok :: "world \<Rightarrow> bool" where
  "refs_ok w \<longleftrightarrow>
     (\<forall>r i. rt_active_session (rts w r) = Some i \<longrightarrow> i < next_sess w)
     \<and> (\<forall>r r' i. rt_active_session (rts w r) = Some i \<longrightarrow> rt_active_session (rts w r') = Some i
          \<longrightarrow> r = r')"

definition registry_ok :: "world \<Rightarrow> bool" where
  "registry_ok w \<longleftrightarrow>
     distinct (map fst (endpoint_runtimes w))
     \<and> (\<forall>(e, r)\<in>set (endpoint_runtimes w). e \<noteq> [] \<and> rt_connected_endpoint_id (rts w r) = Some e)"

definition logs_ok :: "world \<Rightarrow> bool" where
  "logs_ok w \<longleftrightarrow>
     length (event_diagnostics w) \<le> 10 \<and> length (wake_history w) \<le> 10
     \<and> length (wake_confidence_history w) \<le> 50 \<and> length (ui_button_history w) \<le> 20
     \<and> (\<forall>r. length (rt_tts_playback_history (rts w r)) \<le> 20)"

definition store_ok :: "world \<Rightarrow> bool" where
  "store_ok w \<longleftrightarrow>
     length (hist w) \<le> e_history_limit (env w)
     \<and> distinct (map (\<lambda>s. dget s ''session_id'') (hist w))
     \<and> distinct (map fst (command_records w))"

definition world_ok :: "world \<Rightarrow> bool" where
  "world_ok w \<longleftrightarrow> sessions_ok w \<and> refs_ok w \<and> registry_ok w \<and> logs_ok w \<and> store_ok w"

lemmas world_parts = sessions_ok_def refs_ok_def registry_ok_def logs_ok_def store_ok_def

section \<open>The relations\<close>

definition evolves :: "world \<Rightarrow> world \<Rightarrow> bool" where
  "evolves v w \<longleftrightarrow>
     env w = env v \<and> ctx w = ctx v
     \<and> next_sess v \<le> next_sess w \<and> next_rt v = next_rt w
     \<and> (\<exists>new. trace w = new @ trace v)
     \<and> (\<forall>r. rt_sequence (rts v r) \<le> rt_sequence (rts w r))
     \<and> (\<forall>i < next_sess v. session_step (sess v i) (sess w i))
     \<and> (sessions_ok v \<longrightarrow> sessions_ok w) \<and> (refs_ok v \<longrightarrow> refs_ok w)
     \<and> (registry_ok v \<longrightarrow> registry_ok w) \<and> (logs_ok v \<longrightarrow> logs_ok w)
     \<and> (store_ok v \<longrightarrow> store_ok w)"

definition wired :: "world \<Rightarrow> world \<Rightarrow> bool" where
  "wired v w \<longleftrightarrow>
     env w = env v \<and> ctx w = ctx v \<and> next_rt w = next_rt v
     \<and> endpoint_runtimes w = endpoint_runtimes v \<and> connecting w = connecting v
     \<and> (\<forall>r. rt_connected_endpoint_id (rts w r) = rt_connected_endpoint_id (rts v r)
          \<and> rt_websocket (rts w r) = rt_websocket (rts v r)
          \<and> rt_connection_active (rts w r) = rt_connection_active (rts v r))"

text \<open>What of a runtime the bookkeeping leaves alone.\<close>

definition mild_step :: "runtime \<Rightarrow> runtime \<Rightarrow> bool" where
  "mild_step r t \<longleftrightarrow>
     rt_active_session t = rt_active_session r
     \<and> rt_connected_endpoint_id t = rt_connected_endpoint_id r
     \<and> rt_websocket t = rt_websocket r \<and> rt_connection_active t = rt_connection_active r
     \<and> rt_chunk_count t = rt_chunk_count r \<and> rt_audio_chunks t = rt_audio_chunks r
     \<and> rt_ambient_audio_chunks t = rt_ambient_audio_chunks r
     \<and> rt_audio_format t = rt_audio_format r
     \<and> rt_pending_followup t = rt_pending_followup r \<and> rt_followup_task t = rt_followup_task r
     \<and> (rt_history t = None \<longleftrightarrow> rt_history r = None)
     \<and> rt_sequence r \<le> rt_sequence t
     \<and> (length (rt_tts_playback_history r) \<le> 20 \<longrightarrow> length (rt_tts_playback_history t) \<le> 20)"

definition calm :: "world \<Rightarrow> world \<Rightarrow> bool" where
  "calm v w \<longleftrightarrow>
     env w = env v \<and> ctx w = ctx v \<and> sess w = sess v \<and> next_sess w = next_sess v
     \<and> next_rt w = next_rt v \<and> endpoint_runtimes w = endpoint_runtimes v
     \<and> (\<exists>new. trace w = new @ trace v) \<and> (\<forall>r. mild_step (rts v r) (rts w r))"

definition fair_step :: "runtime \<Rightarrow> runtime \<Rightarrow> bool" where
  "fair_step r t \<longleftrightarrow>
     (rt_active_session t = rt_active_session r \<or> rt_active_session t = None)
     \<and> rt_connected_endpoint_id t = rt_connected_endpoint_id r
     \<and> rt_websocket t = rt_websocket r \<and> rt_connection_active t = rt_connection_active r
     \<and> rt_sequence r \<le> rt_sequence t
     \<and> (length (rt_tts_playback_history r) \<le> 20 \<longrightarrow> length (rt_tts_playback_history t) \<le> 20)"

lemma mild_imp_fair: "mild_step r t \<Longrightarrow> fair_step r t"
  by (simp add: mild_step_def fair_step_def)

definition light_step :: "world \<Rightarrow> world \<Rightarrow> bool" where
  \<comment> \<open>a change of the logs, counters and windows only\<close>
  "light_step v w \<longleftrightarrow>
     env w = env v \<and> ctx w = ctx v \<and> sess w = sess v \<and> next_sess w = next_sess v
     \<and> next_rt w = next_rt v \<and> endpoint_runtimes w = endpoint_runtimes v \<and> rts w = rts v
     \<and> connecting w = connecting v
     \<and> (\<exists>new. trace w = new @ trace v)
     \<and> (logs_ok v \<longrightarrow> logs_ok w) \<and> (store_ok v \<longrightarrow> store_ok w)"

lemmas light_parts = light_step_def logs_ok_def store_ok_def

section \<open>Laws of the relations\<close>

lemma with_runtime_run:
  "run_state (with_runtime r m) w =
     (fst (run_state m (w\<lparr>ctx := r\<rparr>)), (snd (run_state m (w\<lparr>ctx := r\<rparr>)))\<lparr>ctx := ctx w\<rparr>)"
  by (simp add: with_runtime_def case_prod_beta)

locale bookkeeping = evolution R for R :: "world \<Rightarrow> world \<Rightarrow> bool" +
  assumes light: "(\<And>w. light_step w (f w)) \<Longrightarrow> state_io_rel R (modify f)"
    and mild: "(\<And>r. mild_step r (g r)) \<Longrightarrow> state_io_rel R (upd_runtime g)"
    and upsert_session_rel [evol]: "state_io_rel R (upsert_session rec)"
    and switch: "R (w\<lparr>ctx := r\<rparr>) v \<Longrightarrow> R w (v\<lparr>ctx := ctx w\<rparr>)"

locale handling = bookkeeping +
  assumes fair: "(\<And>r. fair_step r (g r)) \<Longrightarrow> state_io_rel R (upd_runtime g)"
    and set_session_state_rel: "st \<noteq> Idle \<Longrightarrow> state_io_rel R (set_session_state st)"
    and upd_session_rel: "(\<And>s. ss_session_state (h s) = ss_session_state s
        \<and> ss_ux_state (h s) = ss_ux_state s \<and> ss_session_id (h s) = ss_session_id s
        \<and> ss_endpoint_id (h s) = ss_endpoint_id s \<and> ss_started_at (h s) = ss_started_at s)
      \<Longrightarrow> state_io_rel R (upd_session i h)"

subsection \<open>Bookkeeping\<close>

context bookkeeping
begin

lemmas [evol] = structural

lemma with_runtime_rel [evol]: "state_io_rel R m \<Longrightarrow> state_io_rel R (with_runtime r m)"
  unfolding state_io_rel_def with_runtime_run by (auto intro: switch)

lemma py_now_rel [evol]: "state_io_rel R py_now"
  unfolding py_now_def by (intro evol light) (simp add: light_parts)

lemma uuid_hex_rel [evol]: "state_io_rel R uuid_hex"
  unfolding uuid_hex_def by (intro evol light) (simp add: light_parts)

lemma emit_rel [evol]: "state_io_rel R (emit x)"
  unfolding emit_def by (intro light) (simp add: light_parts)

lemma cur_runtime_rel [evol]: "state_io_rel R cur_runtime"
  unfolding cur_runtime_def by (intro evol)

lemma session_at_rel [evol]: "state_io_rel R (session_at i)"
  unfolding session_at_def by (intro evol)

lemma repr_env_rel [evol]: "state_io_rel R repr_env"
  unfolding repr_env_def by (intro evol)

lemma record_voice_event_rel [evol]: "state_io_rel R (record_voice_event k d)"
  unfolding record_voice_event_def by (intro evol)

lemma next_sequence_rel [evol]: "state_io_rel R next_sequence"
  unfolding next_sequence_def by (intro evol mild) (simp add: mild_step_def)

lemma mk_event_rel [evol]: "state_io_rel R (mk_event a b c d e)"
  unfolding mk_event_def by (intro evol)

lemma record_event_diagnostic_rel [evol]: "state_io_rel R (record_event_diagnostic a b c d e)"
  unfolding record_event_diagnostic_def by (intro evol light) (simp add: light_parts)

lemma state_event_rel [evol]: "state_io_rel R (state_event a b c)"
  unfolding state_event_def by (intro evol mild) (simp add: mild_step_def)

lemma error_event_rel [evol]: "state_io_rel R (error_event a b c d e)"
  unfolding error_event_def Let_def by (intro evol mild) (simp add: mild_step_def)

lemma store_command_rel: "state_io_rel R (modify (\<lambda>w. w\<lparr>command_records := aput k d (command_records w)\<rparr>))"
  by (rule light) (simp add: light_parts)

lemma record_command_rel [evol]: "state_io_rel R (record_command a b c d e)"
  unfolding record_command_def Let_def by (intro evol store_command_rel)

lemma update_command_from_ack_rel [evol]: "state_io_rel R (update_command_from_ack p)"
  unfolding update_command_from_ack_def Let_def by (intro evol store_command_rel)

lemma update_command_from_error_rel [evol]: "state_io_rel R (update_command_from_error p)"
  unfolding update_command_from_error_def Let_def by (intro evol store_command_rel)

lemma expire_commands_rel [evol]: "state_io_rel R expire_commands"
  unfolding expire_commands_def by (intro evol store_command_rel)

lemma volume_status_rel [evol]: "state_io_rel R (volume_status e)"
  unfolding volume_status_def by (intro evol)

lemma clear_ota_commands_rel [evol]: "state_io_rel R (clear_ota_commands e)"
  unfolding clear_ota_commands_def Let_def by (intro evol light) (simp add: light_parts)

lemma upd_history_rel [evol]: "state_io_rel R (upd_history f)"
  unfolding upd_history_def by (intro mild) (simp add: mild_step_def)

lemma append_latency_point_rel [evol]: "state_io_rel R (append_latency_point a b c)"
  unfolding append_latency_point_def by (intro evol)

lemma update_active_session_history_rel [evol]: "state_io_rel R (update_active_session_history e)"
  unfolding update_active_session_history_def by (intro evol)

lemma update_vad_latency_rel [evol]: "state_io_rel R (update_vad_latency a b)"
  unfolding update_vad_latency_def by (intro evol)

lemma set_active_session_wake_rel [evol]: "state_io_rel R (set_active_session_wake d)"
  unfolding set_active_session_wake_def by (intro evol)

lemma set_active_session_vad_rel [evol]: "state_io_rel R (set_active_session_vad d)"
  unfolding set_active_session_vad_def by (intro evol)

lemma update_active_session_audio_rel [evol]: "state_io_rel R (update_active_session_audio p)"
  unfolding update_active_session_audio_def by (intro evol)

lemma upsert_persisted_session_history_rel [evol]: "state_io_rel R (upsert_persisted_session_history a b)"
  unfolding upsert_persisted_session_history_def by (intro evol)

lemma persist_active_session_history_rel [evol]: "state_io_rel R (persist_active_session_history a b c d)"
  unfolding persist_active_session_history_def Let_def by (intro evol)

lemma record_wake_history_rel [evol]: "state_io_rel R (record_wake_history e)"
  unfolding record_wake_history_def by (intro evol light) (simp add: light_parts)

lemma record_wake_confidence_rel [evol]: "state_io_rel R (record_wake_confidence a b c d e f g h i j)"
  unfolding record_wake_confidence_def Let_def by (intro evol light) (simp add: light_parts)

lemma record_accepted_wake_session_rel [evol]: "state_io_rel R (record_accepted_wake_session i)"
  unfolding record_accepted_wake_session_def Let_def by (intro evol)

lemma attach_wake_recording_transcript_rel [evol]: "state_io_rel R (attach_wake_recording_transcript a b)"
  unfolding attach_wake_recording_transcript_def Let_def by (intro evol)

lemma attach_tts_sidecar_turn_text_rel [evol]: "state_io_rel R (attach_tts_sidecar_turn_text a b c)"
  unfolding attach_tts_sidecar_turn_text_def Let_def by (intro evol)

end

context handling
begin

lemma begin_active_session_history_rel [evol]: "state_io_rel R (begin_active_session_history s p)"
  unfolding begin_active_session_history_def by (intro fair) (simp add: fair_step_def)

end

section \<open>The store of session histories\<close>

text \<open>The store after \<open>upsert\<close>: bounded, with one record per session.\<close>

lemma hist_upsert_record:
  "hist_upsert rp limit now rec sessions = Some (n, sessions') \<Longrightarrow>
   \<exists>sid. sid \<noteq> [] \<and> dget n ''session_id'' = PStr sid
     \<and> sessions' = take limit (n # filter (\<lambda>s. dget s ''session_id'' \<noteq> PStr sid) sessions)"
  by (auto simp: hist_upsert_def Let_def aupdate_def push_front_def split: if_splits)

lemma hist_upsert_ok:
  assumes "hist_upsert rp limit now rec sessions = Some (n, sessions')"
    and "distinct (map (\<lambda>s. dget s ''session_id'') sessions)"
  shows "length sessions' \<le> limit \<and> distinct (map (\<lambda>s. dget s ''session_id'') sessions')"
proof -
  from hist_upsert_record [OF assms(1)] obtain sid where
    s: "dget n ''session_id'' = PStr sid"
       "sessions' = take limit (n # filter (\<lambda>s. dget s ''session_id'' \<noteq> PStr sid) sessions)"
    by blast
  have "distinct (map (\<lambda>s. dget s ''session_id'') (n # filter (\<lambda>s. dget s ''session_id'' \<noteq> PStr sid) sessions))"
    using assms(2) s(1) by (auto simp: distinct_map_filter)
  then show ?thesis using s(2) by (simp only: take_map [symmetric] distinct_take) simp
qed

lemma upsert_session_effect:
  "\<exists>new cr ss. snd (run_state (upsert_session rec) w) = w\<lparr>clock_reads := cr, hist := ss, trace := new @ trace w\<rparr>
     \<and> (store_ok w \<longrightarrow> length ss \<le> e_history_limit (env w) \<and> distinct (map (\<lambda>s. dget s ''session_id'') ss))"
proof (cases "hist_upsert (e_repr (env w)) (e_history_limit (env w)) (e_clock (env w) (clock_reads w)) rec (hist w)")
  case None
  then have "snd (run_state (upsert_session rec) w)
      = w\<lparr>clock_reads := Suc (clock_reads w), hist := hist w, trace := [] @ trace w\<rparr>"
    by (simp add: upsert_session_def py_now_def)
  then show ?thesis unfolding store_ok_def by blast
next
  case (Some p)
  obtain n ss where p: "p = (n, ss)" by force
  then have "snd (run_state (upsert_session rec) w)
      = w\<lparr>clock_reads := Suc (clock_reads w), hist := ss, trace := [UpsertSession n] @ trace w\<rparr>"
    using Some by (simp add: upsert_session_def py_now_def emit_def)
  with hist_upsert_ok [OF Some [unfolded p]] show ?thesis unfolding store_ok_def by blast
qed

section \<open>Sessions and connections evolve\<close>

lemma evolves_refl: "evolves w w"
  by (simp add: evolves_def)

lemma evolves_trans:
  assumes "evolves u v" "evolves v w"
  shows "evolves u w"
proof -
  obtain n m where "trace v = n @ trace u" "trace w = m @ trace v"
    using assms unfolding evolves_def by blast
  then have t: "\<exists>new. trace w = new @ trace u" by simp
  have a: "rt_sequence (rts u r) \<le> rt_sequence (rts v r)" "rt_sequence (rts v r) \<le> rt_sequence (rts w r)" for r
    using assms unfolding evolves_def by blast+
  then have q: "rt_sequence (rts u r) \<le> rt_sequence (rts w r)" for r by (meson order_trans)
  have b: "next_sess u \<le> next_sess v" "next_sess v \<le> next_sess w"
    using assms unfolding evolves_def by blast+
  then have n: "next_sess u \<le> next_sess w" by simp
  have s: "session_step (sess u i) (sess w i)" if i: "i < next_sess u" for i
  proof -
    have "session_step (sess u i) (sess v i)" using assms(1) i unfolding evolves_def by blast
    moreover have "session_step (sess v i) (sess w i)"
      using assms(2) i b unfolding evolves_def by simp
    ultimately show ?thesis by (rule session_step_trans)
  qed
  show ?thesis
    unfolding evolves_def
  proof (intro conjI)
    show "env w = env u" "ctx w = ctx u" "next_rt u = next_rt w"
      "sessions_ok u \<longrightarrow> sessions_ok w" "refs_ok u \<longrightarrow> refs_ok w" "registry_ok u \<longrightarrow> registry_ok w"
      "logs_ok u \<longrightarrow> logs_ok w" "store_ok u \<longrightarrow> store_ok w"
      using assms unfolding evolves_def by simp_all
  qed (use t q s n in blast)+
qed

lemma evolves_world_ok: "evolves v w \<Longrightarrow> world_ok v \<Longrightarrow> world_ok w"
  by (simp add: evolves_def world_ok_def)

lemma evolves_light: "light_step v w \<Longrightarrow> evolves v w"
  by (simp add: light_step_def evolves_def sessions_ok_def refs_ok_def registry_ok_def)

lemma evolves_runtime:
  assumes "rt_active_session t = rt_active_session (rts w r) \<or> rt_active_session t = None"
    and "rt_connected_endpoint_id t = rt_connected_endpoint_id (rts w r)"
    and "rt_sequence (rts w r) \<le> rt_sequence t"
    and "length (rt_tts_playback_history (rts w r)) \<le> 20 \<longrightarrow> length (rt_tts_playback_history t) \<le> 20"
  shows "evolves w (w\<lparr>rts := (rts w)(r := t)\<rparr>)"
proof -
  have "refs_ok w \<Longrightarrow> refs_ok (w\<lparr>rts := (rts w)(r := t)\<rparr>)"
    using assms(1) unfolding refs_ok_def
    by (simp split: if_split) (metis option.discI)
  moreover have "registry_ok w \<Longrightarrow> registry_ok (w\<lparr>rts := (rts w)(r := t)\<rparr>)"
    using assms(2) by (auto simp: registry_ok_def)
  moreover have "logs_ok w \<Longrightarrow> logs_ok (w\<lparr>rts := (rts w)(r := t)\<rparr>)"
    using assms(4) by (auto simp: logs_ok_def)
  ultimately show ?thesis
    using assms(3) by (simp add: evolves_def sessions_ok_def store_ok_def)
qed

lemma upd_session_evolves:
  "(\<And>s. session_step s (f s) \<and> (ss_ux_state s = project_ux_state (ss_session_state s) \<longrightarrow>
      ss_ux_state (f s) = project_ux_state (ss_session_state (f s)))) \<Longrightarrow>
   evolves w (w\<lparr>sess := (sess w)(i := f (sess w i))\<rparr>)"
  by (auto simp: evolves_def world_parts)

text \<open>The update \<open>set_session_state\<close> makes to a snapshot; it never goes back to idle.\<close>

definition moved :: "session_state \<Rightarrow> instant \<Rightarrow> snapshot \<Rightarrow> snapshot" where
  "moved st t s =
     (if ss_session_state s \<noteq> st \<and> \<not> is_valid_transition (ss_session_state s) st
      then s\<lparr>ss_last_error := Some \<lparr>er_code = ''invalid_session_transition'',
                er_message = ''Cannot move voice session from '' @ state_name (ss_session_state s)
                  @ '' to '' @ state_name st @ ''.'', er_recoverable = False\<rparr>,
              ss_session_state := Failed, ss_ux_state := UxError, ss_last_updated_at := t\<rparr>
      else s\<lparr>ss_session_state := st, ss_ux_state := project_ux_state st, ss_last_updated_at := t\<rparr>)"

lemma moved_step: "st \<noteq> Idle \<Longrightarrow> session_step s (moved st t s)"
  by (auto simp: moved_def session_step_def state_step_def intro!: r_into_rtranclp)

lemma moved_ux [simp]: "ss_ux_state (moved st t s) = project_ux_state (ss_session_state (moved st t s))"
  by (simp add: moved_def)

lemma set_session_state_run:
  "run_state (set_session_state st) w =
     (case rt_active_session (rts w (ctx w)) of
        None \<Rightarrow> ((), w)
      | Some i \<Rightarrow> ((), w\<lparr>clock_reads := Suc (clock_reads w),
          sess := (sess w)(i := moved st (e_clock (env w) (clock_reads w)) (sess w i))\<rparr>))"
  by (simp add: set_session_state_def cur_runtime_def session_at_def py_now_def upd_session_def
      moved_def split: option.split)

lemma set_session_state_evolves:
  assumes "st \<noteq> Idle"
  shows "evolves w (snd (run_state (set_session_state st) w))"
proof (cases "rt_active_session (rts w (ctx w))")
  case None
  then show ?thesis by (simp add: set_session_state_run evolves_refl)
next
  case (Some i)
  let ?t = "e_clock (env w) (clock_reads w)" let ?v = "w\<lparr>clock_reads := Suc (clock_reads w)\<rparr>"
  have "evolves w ?v" by (rule evolves_light) (simp add: light_parts)
  moreover have "evolves ?v (?v\<lparr>sess := (sess ?v)(i := moved st ?t (sess ?v i))\<rparr>)"
    by (rule upd_session_evolves) (simp add: moved_step assms)
  ultimately have "evolves w (?v\<lparr>sess := (sess ?v)(i := moved st ?t (sess ?v i))\<rparr>)"
    by (rule evolves_trans)
  with Some show ?thesis by (simp add: set_session_state_run)
qed

lemma evolves_ctx: "evolves (w\<lparr>ctx := r\<rparr>) v \<Longrightarrow> evolves w (v\<lparr>ctx := ctx w\<rparr>)"
  by (simp add: evolves_def sessions_ok_def refs_ok_def registry_ok_def logs_ok_def store_ok_def
      cong: conj_cong)

interpretation ev: handling evolves
proof
  show "evolves s s" for s by (rule evolves_refl)
  show "evolves s t \<Longrightarrow> evolves t u \<Longrightarrow> evolves s u" for s t u by (rule evolves_trans)
  show "state_io_rel evolves (modify f)" if "\<And>w. light_step w (f w)" for f
    using that by (simp add: state_io_rel_def evolves_light)
  show fair: "state_io_rel evolves (upd_runtime g)" if "\<And>r. fair_step r (g r)" for g
  proof -
    have "evolves w (w\<lparr>rts := (rts w)(r := g (rts w r))\<rparr>)" for w r
      using that [of "rts w r"] by (intro evolves_runtime) (simp_all add: fair_step_def)
    then show ?thesis by (simp add: state_io_rel_def upd_runtime_def)
  qed
  show "state_io_rel evolves (upd_runtime g)" if "\<And>r. mild_step r (g r)" for g
    using that by (intro fair mild_imp_fair)
  show "state_io_rel evolves (upsert_session rec)" for rec
    unfolding state_io_rel_def
  proof
    fix w
    show "evolves w (snd (run_state (upsert_session rec) w))"
      using upsert_session_effect [of rec w]
      by (auto simp: evolves_def sessions_ok_def refs_ok_def registry_ok_def logs_ok_def store_ok_def)
  qed
  show "state_io_rel evolves (set_session_state st)" if "st \<noteq> Idle" for st
    using that by (simp add: state_io_rel_def set_session_state_evolves)
  show "state_io_rel evolves (upd_session i h)"
    if h: "\<And>s. ss_session_state (h s) = ss_session_state s
        \<and> ss_ux_state (h s) = ss_ux_state s \<and> ss_session_id (h s) = ss_session_id s
        \<and> ss_endpoint_id (h s) = ss_endpoint_id s \<and> ss_started_at (h s) = ss_started_at s" for h i
    by (simp add: state_io_rel_def upd_session_def) (intro allI upd_session_evolves, simp add: session_step_def h)
  show "evolves w (v\<lparr>ctx := ctx w\<rparr>)" if "evolves (w\<lparr>ctx := r\<rparr>) v" for w r v
    using that by (rule evolves_ctx)
qed

abbreviation keeps :: "'a M \<Rightarrow> bool" where
  "keeps m \<equiv> state_io_rel evolves m"

lemma upd_runtime_keeps:
  assumes "\<And>r. rt_active_session (f r) = rt_active_session r \<or> rt_active_session (f r) = None"
    and "\<And>r. rt_connected_endpoint_id (f r) = rt_connected_endpoint_id r"
    and "\<And>r. rt_sequence r \<le> rt_sequence (f r)"
    and "\<And>r. length (rt_tts_playback_history r) \<le> 20 \<longrightarrow> length (rt_tts_playback_history (f r)) \<le> 20"
  shows "keeps (upd_runtime f)"
  unfolding upd_runtime_def
  by (intro ev.update_evol evolves_runtime) (rule assms)+

section \<open>Connections stay as they are\<close>

interpretation wi: handling wired
proof
  show "wired s s" for s by (simp add: wired_def)
  show "wired s t \<Longrightarrow> wired t u \<Longrightarrow> wired s u" for s t u by (simp add: wired_def)
  show "state_io_rel wired (modify f)" if "\<And>w. light_step w (f w)" for f
    using that by (simp add: state_io_rel_def wired_def light_step_def)
  show fair: "state_io_rel wired (upd_runtime g)" if "\<And>r. fair_step r (g r)" for g
    using that by (simp add: state_io_rel_def wired_def upd_runtime_def fair_step_def)
  show "state_io_rel wired (upd_runtime g)" if "\<And>r. mild_step r (g r)" for g
    using that by (intro fair mild_imp_fair)
  show "state_io_rel wired (upsert_session rec)" for rec
    unfolding state_io_rel_def
  proof
    fix w
    show "wired w (snd (run_state (upsert_session rec) w))"
      using upsert_session_effect [of rec w] by (auto simp: wired_def)
  qed
  show "state_io_rel wired (set_session_state st)" for st
    by (simp add: state_io_rel_def set_session_state_run wired_def split: option.split)
  show "state_io_rel wired (upd_session i h)" for h i
    by (simp add: state_io_rel_def upd_session_def wired_def)
  show "wired w (v\<lparr>ctx := ctx w\<rparr>)" if "wired (w\<lparr>ctx := r\<rparr>) v" for w r v
    using that by (simp add: wired_def)
qed

section \<open>Bookkeeping leaves sessions and audio alone\<close>

lemma mild_step_refl [simp]: "mild_step r r"
  by (simp add: mild_step_def)

lemma mild_step_trans: "mild_step r s \<Longrightarrow> mild_step s t \<Longrightarrow> mild_step r t"
  by (auto simp: mild_step_def)

interpretation ca: bookkeeping calm
proof
  show "calm s s" for s by (simp add: calm_def)
  show "calm s u" if "calm s t" "calm t u" for s t u
  proof -
    from that obtain n m where "trace t = n @ trace s" "trace u = m @ trace t" by (auto simp: calm_def)
    then have "\<exists>new. trace u = new @ trace s" by simp
    with that show ?thesis by (auto simp: calm_def intro: mild_step_trans)
  qed
  show "state_io_rel calm (modify f)" if "\<And>w. light_step w (f w)" for f
    using that by (simp add: state_io_rel_def calm_def light_step_def)
  show "state_io_rel calm (upd_runtime g)" if "\<And>r. mild_step r (g r)" for g
    using that by (simp add: state_io_rel_def calm_def upd_runtime_def)
  show "state_io_rel calm (upsert_session rec)" for rec
    unfolding state_io_rel_def
  proof
    fix w
    show "calm w (snd (run_state (upsert_session rec) w))"
      using upsert_session_effect [of rec w] by (auto simp: calm_def)
  qed
  show "calm w (v\<lparr>ctx := ctx w\<rparr>)" if "calm (w\<lparr>ctx := r\<rparr>) v" for w r v
    using that by (simp add: calm_def)
qed

lemma wp_calm:
  assumes "state_io_rel calm m"
    and "\<And>a v. calm w v \<Longrightarrow> run_state m w = (a, v) \<Longrightarrow> Q a v"
  shows "wp m Q w"
  using assms by (intro wpI) (metis ca.run_evol snd_conv)

section \<open>The registry of connections\<close>

lemma set_aput_cases:
  "distinct (map fst d) \<Longrightarrow> (k', v') \<in> set (aput k v d) \<longleftrightarrow> (k' = k \<and> v' = v) \<or> (k' \<noteq> k \<and> (k', v') \<in> set d)"
  by (metis aget_aput distinct_aput map_of_eq_Some_iff option.inject)

lemma bind_endpoint_run:
  "bind_endpoint r e w = w\<lparr>endpoint_runtimes := endpoint_runtimes (bind_endpoint r e w)\<rparr>"
  by (simp add: bind_endpoint_def split: option.split)

lemma bind_endpoint_registry:
  assumes "registry_ok w" "e \<noteq> []" "rt_connected_endpoint_id (rts w r) = Some e"
  shows "registry_ok (bind_endpoint r e w)"
  using assms
  by (auto simp: bind_endpoint_def registry_ok_def set_aput_cases split: option.split)

lemma evolves_bind_endpoint:
  assumes "e \<noteq> []" "rt_connected_endpoint_id (rts w r) = Some e"
  shows "evolves w (bind_endpoint r e w)"
  using assms bind_endpoint_registry [of w e r]
  by (auto simp: bind_endpoint_def evolves_def sessions_ok_def refs_ok_def logs_ok_def store_ok_def
      split: option.split)

lemma evolves_unbind_endpoint: "evolves w (unbind_endpoint r w)"
  by (auto simp: unbind_endpoint_def evolves_def sessions_ok_def refs_ok_def logs_ok_def store_ok_def
      registry_ok_def adel_def distinct_map_filter split: option.split)

text \<open>After \<open>unbind_endpoint\<close> the registry does not mention the runtime.\<close>

lemma unbind_endpoint_forgets:
  assumes "registry_ok w"
  shows "r \<notin> snd ` set (endpoint_runtimes (unbind_endpoint r w))"
proof
  assume "r \<in> snd ` set (endpoint_runtimes (unbind_endpoint r w))"
  then obtain e where e: "(e, r) \<in> set (endpoint_runtimes (unbind_endpoint r w))" by auto
  then have "(e, r) \<in> set (endpoint_runtimes w)"
    by (auto simp: unbind_endpoint_def adel_def split: option.splits if_splits)
  with assms have "rt_connected_endpoint_id (rts w r) = Some e" "e \<noteq> []"
    "aget (endpoint_runtimes w) e = Some r"
    by (auto simp: registry_ok_def)
  with e show False by (simp add: unbind_endpoint_def adel_def)
qed

lemma rename_runtime_evol:
  assumes "\<And>e. registry_ok w \<Longrightarrow> (e, r) \<notin> set (endpoint_runtimes w)"
  shows "evolves w (w\<lparr>rts := (rts w)(r := (rts w r)\<lparr>rt_connected_endpoint_id := v\<rparr>)\<rparr>)"
  using assms
  by (auto simp: evolves_def sessions_ok_def refs_ok_def logs_ok_def store_ok_def registry_ok_def
      split: if_splits)

lemma set_connected_endpoint_evol [evol]: "keeps (set_connected_endpoint v)"
proof -
  have "evolves w (snd (run_state (set_connected_endpoint v) w))" for w
  proof -
    let ?r = "ctx w" and ?u = "unbind_endpoint (ctx w) w"
    have c: "ctx ?u = ctx w" using evolves_unbind_endpoint [of w ?r] by (simp add: evolves_def)
    let ?n = "?u\<lparr>rts := (rts ?u)(?r := (rts ?u ?r)\<lparr>rt_connected_endpoint_id := v\<rparr>)\<rparr>"
    have "(e, ?r) \<notin> set (endpoint_runtimes ?u)" if ok: "registry_ok ?u" for e
    proof
      assume e: "(e, ?r) \<in> set (endpoint_runtimes ?u)"
      with ok have e': "rt_connected_endpoint_id (rts ?u ?r) = Some e" "e \<noteq> []"
        "aget (endpoint_runtimes ?u) e = Some ?r" by (auto simp: registry_ok_def)
      then have "aget (endpoint_runtimes w) e = Some ?r \<and> rt_connected_endpoint_id (rts w ?r) = Some e"
        by (auto simp: unbind_endpoint_def split: option.splits if_splits)
      with e e' show False by (simp add: unbind_endpoint_def adel_def)
    qed
    then have "evolves ?u ?n" by (rule rename_runtime_evol)
    with evolves_unbind_endpoint have n: "evolves w ?n" by (rule evolves_trans)
    show ?thesis
    proof (cases v)
      case None
      with n c show ?thesis by (simp add: set_connected_endpoint_def upd_runtime_def)
    next
      case (Some e)
      show ?thesis
      proof (cases "e = []")
        case True
        with Some n c show ?thesis by (simp add: set_connected_endpoint_def upd_runtime_def)
      next
        case False
        then have "evolves ?n (bind_endpoint ?r e ?n)"
          by (intro evolves_bind_endpoint) (simp_all add: Some)
        with n have "evolves w (bind_endpoint ?r e ?n)" by (rule evolves_trans)
        with Some False c show ?thesis by (simp add: set_connected_endpoint_def upd_runtime_def)
      qed
    qed
  qed
  then show ?thesis by (simp add: state_io_rel_def)
qed

lemma set_websocket_evol [evol]: "keeps (set_websocket v)"
proof -
  have "evolves w (snd (run_state (set_websocket v) w))" for w
  proof -
    let ?r = "ctx w" let ?n = "w\<lparr>rts := (rts w)(?r := (rts w ?r)\<lparr>rt_websocket := v\<rparr>)\<rparr>"
    have n: "evolves w ?n" by (rule evolves_runtime) simp_all
    show ?thesis
    proof (cases "\<exists>x e. v = Some x \<and> rt_connected_endpoint_id (rts w ?r) = Some e \<and> e \<noteq> []")
      case True
      then obtain x e where e: "v = Some x" "rt_connected_endpoint_id (rts w ?r) = Some e" "e \<noteq> []"
        by blast
      then have "evolves ?n (bind_endpoint ?r e ?n)" by (intro evolves_bind_endpoint) simp_all
      with n have "evolves w (bind_endpoint ?r e ?n)" by (rule evolves_trans)
      with e show ?thesis by (simp add: set_websocket_def upd_runtime_def)
    next
      case False
      then have "snd (run_state (set_websocket v) w) = ?n"
        by (auto simp: set_websocket_def upd_runtime_def split: option.split)
      with n show ?thesis by simp
    qed
  qed
  then show ?thesis by (simp add: state_io_rel_def)
qed

lemma unbind_endpoint_evol [evol]: "keeps (modify (unbind_endpoint r))"
  by (rule ev.update_evol) (rule evolves_unbind_endpoint)

end
