(* ===== verification/SessionCore.thy ===== *)
theory SessionCore
  imports Evolution
begin

text \<open>
  The life of a session in \<open>VoiceSessionManager\<close>: how it ends (operator, timeout, follow-up
  timeout, reconnection), the window for a spoken follow-up, interrupting a playback, the
  windows for speaker enrollment and placement tests, and standing down a session whose wake
  candidate was outranked.
\<close>

section \<open>Ending a session\<close>

definition cancel_followup_timeout_task :: "unit M" where
  "cancel_followup_timeout_task = upd_runtime (\<lambda>r. r\<lparr>rt_followup_task := None\<rparr>)"

definition release_active_session_wake_stream :: "unit M" where
  "release_active_session_wake_stream = do {
     w \<leftarrow> State_Monad.get;
     r \<leftarrow> cur_runtime;
     (case rt_active_session r of
        None \<Rightarrow> ret ()
      | Some i \<Rightarrow> do {
          s \<leftarrow> session_at i;
          emit (DetectorClose (ss_endpoint_id s) (ss_session_id s));
          whenM (e_has_wake_recorder (env w))
            (emit (RecorderClose (ss_endpoint_id s) (ss_session_id s))) }) }"

definition clear_active_session_runtime :: "unit M" where
  "clear_active_session_runtime = do {
     cancel_followup_timeout_task;
     w \<leftarrow> State_Monad.get;
     r \<leftarrow> cur_runtime;
     (case rt_active_session r of
        None \<Rightarrow> ret ()
      | Some i \<Rightarrow> do {
          s \<leftarrow> session_at i;
          whenM (e_has_micro_vad_recorder (env w))
            (emit (MicroVadClose (ss_endpoint_id s) (ss_session_id s))) });
     upd_runtime (\<lambda>r. r\<lparr>rt_active_session := None, rt_chunk_count := 0, rt_audio_chunks := [],
       rt_ambient_audio_chunks := [], rt_audio_format := None, rt_history := None,
       rt_pending_followup := None\<rparr>) }"

definition set_cancel_reason :: "nat \<Rightarrow> string \<Rightarrow> unit M" where
  "set_cancel_reason i reason = upd_session i (\<lambda>s. s\<lparr>ss_cancel_reason := Some reason\<rparr>)"

definition active_session_timeout_reason :: "env \<Rightarrow> instant \<Rightarrow> snapshot \<Rightarrow> string option" where
  "active_session_timeout_reason e now s =
     (let age_s = seconds_between now (ss_started_at s) in
      if ss_session_state s = Idle \<and> age_s > e_pre_wake_timeout_s e then Some ''pre_wake_timeout''
      else if ss_session_state s \<in> {WakeDetected, Listening, Capturing}
              \<and> age_s > e_max_active_session_s e then Some ''active_session_timeout''
      else None)"

definition cancel_timed_out_active_session :: "string \<Rightarrow> envelope option M" where
  "cancel_timed_out_active_session reason = do {
     w \<leftarrow> State_Monad.get;
     r \<leftarrow> cur_runtime;
     (case rt_active_session r of
        None \<Rightarrow> ret None
      | Some i \<Rightarrow> do {
          set_session_state Cancelled;
          set_cancel_reason i reason;
          cancelled \<leftarrow> state_event EvSessionCancelled i
            [(''reason'', PStr reason),
             (''message'', PStr ''Active voice session timed out before audio completion.''),
             (''timeout_s'', PFloat (if reason = ''pre_wake_timeout''
                then e_pre_wake_timeout_s (env w) else e_max_active_session_s (env w)))];
          persist_active_session_history i reason None None;
          release_active_session_wake_stream;
          clear_active_session_runtime;
          ret (Some cancelled) }) }"

definition expire_stale_active_sessions :: "unit M" where
  "expire_stale_active_sessions = do {
     now \<leftarrow> py_now;
     w \<leftarrow> State_Monad.get;
     for_each (\<lambda>r. do {
         v \<leftarrow> State_Monad.get;
         (case rt_active_session (rts v r) of
            None \<Rightarrow> ret ()
          | Some i \<Rightarrow>
              if \<not> rt_connection_active (rts v r) then ret ()
              else with_runtime r (
                case active_session_timeout_reason (env v) now (sess v i) of
                  None \<Rightarrow> ret ()
                | Some reason \<Rightarrow> do { cancel_timed_out_active_session reason; ret () })) })
       (map snd (endpoint_runtimes w) @ [0]) }"

definition close_socket :: "nat option \<Rightarrow> unit M" where
  "close_socket ws = (case ws of None \<Rightarrow> ret () | Some k \<Rightarrow> emit (CloseSocket k 1012))"

text \<open>
  \<open>_replace_endpoint_runtime\<close> suspends twice, while it closes the audio socket and while it closes the
  control socket: three parts, all in the context of the replaced runtime. What is done between them is
  the business of \<open>Connections\<close>.
\<close>

definition replace_begin :: "unit M" where
  "replace_begin = do {
     r \<leftarrow> cur_runtime;
     (case rt_active_session r of
        None \<Rightarrow> ret ()
      | Some i \<Rightarrow> do {
          set_session_state Cancelled;
          set_cancel_reason i ''endpoint_reconnected'';
          persist_active_session_history i ''endpoint_reconnected'' None None;
          release_active_session_wake_stream });
     cancel_followup_timeout_task;
     close_socket (rt_audio_websocket r) }"

definition replace_close :: "unit M" where
  "replace_close = do {
     r \<leftarrow> cur_runtime;
     close_socket (rt_websocket r) }"

definition replace_finish :: "nat \<Rightarrow> unit M" where
  "replace_finish state = do {
     upd_runtime (\<lambda>r. r\<lparr>rt_audio_websocket := None\<rparr>);
     upd_runtime (\<lambda>r. r\<lparr>rt_audio_connection_active := False\<rparr>);
     set_websocket None;
     upd_runtime (\<lambda>r. r\<lparr>rt_connection_active := False\<rparr>);
     clear_active_session_runtime;
     modify (unbind_endpoint state) }"

definition replace_endpoint_runtime :: "nat \<Rightarrow> unit M" where
  \<comment> \<open>when nothing happens while the sockets close\<close>
  "replace_endpoint_runtime state =
     with_runtime state (do { replace_begin; replace_close; replace_finish state })"

definition disconnect_websocket :: "unit M" where
  \<comment> \<open>the \<open>finally\<close> block of \<open>handle_websocket\<close>\<close>
  "disconnect_websocket = do {
     r \<leftarrow> cur_runtime;
     (case rt_active_session r of
        None \<Rightarrow> ret ()
      | Some i \<Rightarrow> do {
          set_session_state Cancelled;
          set_cancel_reason i ''websocket_disconnected'';
          persist_active_session_history i ''websocket_disconnected'' None None });
     release_active_session_wake_stream;
     cancel_followup_timeout_task;
     set_websocket None;
     upd_runtime (\<lambda>r. r\<lparr>rt_connection_active := False\<rparr>);
     clear_active_session_runtime }"

section \<open>Windows for enrollment and placement captures\<close>

definition window_expired :: "(pv \<Rightarrow> string) \<Rightarrow> instant \<Rightarrow> dict \<Rightarrow> bool" where
  "window_expired rp now window =
     (case parse_utc (replace_z (py_str rp (py_or (dget window ''expires_at'') (PStr [])))) of
        None \<Rightarrow> True | Some t \<Rightarrow> t \<le> now)"

definition clamp_ttl :: "int \<Rightarrow> int" where
  "clamp_ttl ttl = max 30 (min ttl 900)"

definition start_speaker_enrollment_capture_window :: "string \<Rightarrow> int \<Rightarrow> (string + dict) M" where
  "start_speaker_enrollment_capture_window endpoint ttl_seconds = do {
     w \<leftarrow> State_Monad.get;
     let endpoint_id = strip endpoint;
     (if endpoint_id = [] then ret (Inl ''endpoint_id_required'')
      else if e_privacy_mode (env w) then ret (Inl ''privacy_mode_enabled'')
      else do {
        let ttl = clamp_ttl ttl_seconds;
        now \<leftarrow> py_now;
        let window =
          [(''endpoint_id'', PStr endpoint_id), (''mode'', PStr ''speaker_id_enrollment''),
           (''started_at'', PStr (isoformat now)),
           (''expires_at'', PStr (isoformat (now + ttl * us_per_s))),
           (''ttl_seconds'', PInt ttl), (''active'', PBool True)];
        modify (\<lambda>w. w\<lparr>enrollment_windows := aput endpoint_id window (enrollment_windows w)\<rparr>);
        ret (Inr window) }) }"

definition expire_speaker_enrollment_capture_windows :: "unit M" where
  "expire_speaker_enrollment_capture_windows = do {
     now \<leftarrow> py_now;
     rp \<leftarrow> repr_env;
     modify (\<lambda>w. w\<lparr>enrollment_windows :=
       filter (\<lambda>(e, window). \<not> window_expired rp now window) (enrollment_windows w)\<rparr>) }"

definition active_speaker_enrollment_capture_window :: "string \<Rightarrow> dict option M" where
  "active_speaker_enrollment_capture_window endpoint_id = do {
     expire_speaker_enrollment_capture_windows;
     w \<leftarrow> State_Monad.get;
     ret (case aget (enrollment_windows w) endpoint_id of
       Some (x # window) \<Rightarrow> Some (x # window) | _ \<Rightarrow> None) }"

definition start_placement_test_window ::
  "string \<Rightarrow> string \<Rightarrow> string option \<Rightarrow> string option \<Rightarrow> string \<Rightarrow> string option \<Rightarrow> int \<Rightarrow> bool
    \<Rightarrow> (string + dict) M" where
  "start_placement_test_window endpoint room_name zone position_label phrase speaker ttl_seconds debug = do {
     w \<leftarrow> State_Monad.get;
     let endpoint_id = strip endpoint;
     let room = strip room_name;
     let expected_phrase = strip phrase;
     let optional = (\<lambda>x. ostr (nonempty (strip (str_or x []))));
     (if endpoint_id = [] then ret (Inl ''endpoint_id_required'')
      else if room = [] then ret (Inl ''room_required'')
      else if expected_phrase = [] then ret (Inl ''expected_phrase_required'')
      else if e_privacy_mode (env w) then ret (Inl ''privacy_mode_enabled'')
      else do {
        let ttl = clamp_ttl ttl_seconds;
        now \<leftarrow> py_now;
        u \<leftarrow> uuid_hex;
        let window =
          [(''schema_version'', PInt 1), (''test_id'', PStr (''placement-'' @ take 12 u)),
           (''endpoint_id'', PStr endpoint_id), (''room'', PStr room), (''zone'', optional zone),
           (''position_label'', optional position_label), (''expected_phrase'', PStr expected_phrase),
           (''expected_speaker_public_id'', optional speaker), (''mode'', PStr ''active''),
           (''started_at'', PStr (isoformat now)),
           (''expires_at'', PStr (isoformat (now + ttl * us_per_s))),
           (''ttl_seconds'', PInt ttl), (''active'', PBool True),
           (''debug_record_audio'', PBool debug),
           (''raw_audio_policy'', PStr (if debug then ''debug_retention_one_day''
                                        else ''discard_after_metrics''))];
        modify (\<lambda>w. w\<lparr>placement_windows := aput endpoint_id window (placement_windows w)\<rparr>);
        ret (Inr window) }) }"

definition expire_placement_test_windows :: "unit M" where
  "expire_placement_test_windows = do {
     now \<leftarrow> py_now;
     rp \<leftarrow> repr_env;
     modify (\<lambda>w. w\<lparr>placement_windows :=
       filter (\<lambda>(e, window). \<not> window_expired rp now window) (placement_windows w)\<rparr>) }"

definition active_placement_test_window :: "string \<Rightarrow> dict option M" where
  "active_placement_test_window endpoint_id = do {
     expire_placement_test_windows;
     w \<leftarrow> State_Monad.get;
     ret (case aget (placement_windows w) endpoint_id of
       Some (x # window) \<Rightarrow> Some (x # window) | _ \<Rightarrow> None) }"

fun take_reports :: "nat \<Rightarrow> dict list \<Rightarrow> dict list" where
  \<comment> \<open>the loop of \<open>list_placement_tests\<close>, \<open>n\<close> reports still to come\<close>
  "take_reports n [] = []"
| "take_reports n (s # ss) =
     (let placement = dget s ''placement_test'' in
      if is_dict placement \<and> truthy placement \<and> truthy (dget (dict_of placement) ''report'')
      then dict_of placement # (if n \<le> 1 then [] else take_reports (n - 1) ss)
      else take_reports n ss)"

definition list_placement_tests :: "nat \<Rightarrow> int \<Rightarrow> string option \<Rightarrow> dict list \<Rightarrow> dict list" where
  "list_placement_tests max_records limit endpoint_id sessions =
     take_reports (nat (max 1 (min limit 50))) (hist_list max_records 200 endpoint_id sessions)"

definition get_placement_test :: "nat \<Rightarrow> string \<Rightarrow> dict list \<Rightarrow> dict option" where
  "get_placement_test max_records test_id sessions =
     (let target = strip test_id in
      if target = [] then None
      else find (\<lambda>p. dget p ''test_id'' = PStr target)
        (list_placement_tests max_records 50 None sessions))"

definition related_placement_reports :: "nat \<Rightarrow> dict \<Rightarrow> dict list \<Rightarrow> dict list" where
  "related_placement_reports max_records test sessions =
     (let endpoint_id = (case dget test ''endpoint_id'' of PStr e \<Rightarrow> nonempty e | _ \<Rightarrow> None) in
      map (\<lambda>s. dict_of (dget (dict_of (dget s ''placement_test'')) ''report''))
        (filter (\<lambda>s.
           let p = dict_of (dget s ''placement_test''); report = dget p ''report'' in
           p \<noteq> [] \<and> dget p ''test_id'' \<noteq> dget test ''test_id''
           \<and> dget p ''room'' = dget test ''room'' \<and> dget p ''zone'' = dget test ''zone''
           \<and> dget p ''expected_phrase'' = dget test ''expected_phrase''
           \<and> is_dict report \<and> truthy report)
         (hist_list max_records 50 endpoint_id sessions)))"

section \<open>Status\<close>

definition status :: "dict M" where
  \<comment> \<open>the entries that come from the manager itself; those the services report are left out\<close>
  "status = do {
     expire_commands;
     expire_stale_active_sessions;
     w \<leftarrow> State_Monad.get;
     with_runtime (status_runtime w) (do {
       r \<leftarrow> cur_runtime;
       let active = status_visible_session w r;
       let p = project_voice_state (rt_connection_active r) active;
       let ids = connected_endpoint_ids w;
       let latest = (if e_has_history_store (env w)
                     then hist_latest_replay_eligible (rt_connected_endpoint_id r) (hist w) else None);
       let online = (\<lambda>e. rt_connection_active (rts w e) \<and> rt_websocket (rts w e) \<noteq> None);
       let rows = map (\<lambda>(e, i). (e, PDict (runtime_status_summary w (rts w i))))
             (sort_key fst (filter (\<lambda>(e, i). online i) (endpoint_runtimes w)));
       let projected = [(''connection_state'', PStr (connection_name (pr_connection_state p))),
             (''ux_state'', PStr (ux_name (pr_ux_state p))),
             (''session_state'', ostr (map_option state_name (pr_session_state p))),
             (''transport_health'', PStr (pr_transport_health p))];
       let dicts = (\<lambda>ds. PList (map PDict ds));
       now \<leftarrow> py_now;
       modify (\<lambda>w. w\<lparr>election := snd (election_status now (election w))\<rparr>);
       expire_speaker_enrollment_capture_windows;
       expire_placement_test_windows;
       v \<leftarrow> State_Monad.get;
       ret ([(''endpoint_id'', ostr (rt_connected_endpoint_id r)),
             (''connected_endpoint_ids'', PList (map PStr ids)),
             (''connection_count'', PInt (int (length ids))),
             (''endpoints'', PDict rows)] @ projected @
            [(''state_projection'', PDict projected),
             (''active_session'', (case active of None \<Rightarrow> PNone | Some s \<Rightarrow> dump_snapshot s)),
             (''last_session_id'', ostr (map_option ss_session_id active)),
             (''last_event_type'', ostr (rt_last_event_type r)),
             (''last_transcript'', ostr (rt_last_transcript r)),
             (''last_transcript_metadata'', odict (rt_last_transcript_metadata r)),
             (''last_turn_timings'', odict (rt_last_turn_timings r)),
             (''last_response'', ostr (rt_last_response r)),
             (''last_assistant'', odict (rt_last_assistant r)),
             (''last_tts'', odict (rt_last_tts r)),
             (''last_tts_playback'', odict (rt_last_tts_playback r)),
             (''tts_playback_history'', dicts (rt_tts_playback_history r)),
             (''active_playbacks'', dicts (map snd (rt_active_playbacks r))),
             (''last_playback_interrupt'', odict (rt_last_playback_interrupt r)),
             (''last_error'', odict (rt_last_error r)),
             (''last_command_ack'', odict (rt_last_command_ack r)),
             (''last_command_error'', odict (rt_last_command_error r)),
             (''commands'', dicts (map snd (command_records w))),
             (''event_diagnostics'', dicts (event_diagnostics w)),
             (''last_ui_button_pressed'', odict (last_ui_button w)),
             (''current_ui_screen'', odict (last_ui_screen w)),
             (''ui_button_history'', dicts (ui_button_history w)),
             (''wake_election'', fst (election_status now (election w))),
             (''wake_history'', dicts (wake_history w)),
             (''wake_confidence_history'', dicts (wake_confidence_history w)),
             (''speaker_enrollment_capture'', PDict
               [(''blocked'', PBool (e_privacy_mode (env w))),
                (''blocked_reason'', if e_privacy_mode (env w) then PStr ''privacy_mode_enabled'' else PNone),
                (''active_windows'', dicts (map snd (enrollment_windows v)))]),
             (''placement_tests'', PDict
               [(''blocked'', PBool (e_privacy_mode (env w))),
                (''blocked_reason'', if e_privacy_mode (env w) then PStr ''privacy_mode_enabled'' else PNone),
                (''active_windows'', dicts (map snd (placement_windows v))),
                (''recent_reports'', dicts (if e_has_history_store (env w)
                   then list_placement_tests (e_history_limit (env w)) 5 None (hist w) else []))]),
             (''supported_actions'', PDict
               [(''refresh'', PBool True), (''test_assistant_turn'', PBool True),
                (''stop_session'', PBool (active \<noteq> None)),
                (''replay_response'', PBool (ids \<noteq> [] \<and> (rt_last_tts r \<noteq> None \<or> latest \<noteq> None))),
                (''mute_endpoint'', PBool (ids \<noteq> [])), (''set_volume'', PBool (ids \<noteq> [])),
                (''send_media'', PBool (ids \<noteq> [])), (''reconnect'', PBool False)])]) }) }"

definition cancel_from_operator :: "string \<Rightarrow> (bool \<times> string \<times> dict) M" where
  "cancel_from_operator reason = do {
     w \<leftarrow> State_Monad.get;
     with_runtime (status_runtime w) (do {
       r \<leftarrow> cur_runtime;
       (case rt_active_session r of
          None \<Rightarrow> do { d \<leftarrow> status; ret (False, ''no_active_session'', d) }
        | Some i \<Rightarrow> do {
            set_session_state Cancelled;
            set_cancel_reason i reason;
            persist_active_session_history i reason None None;
            release_active_session_wake_stream;
            clear_active_session_runtime;
            d \<leftarrow> status;
            ret (True, reason, d) }) }) }"

section \<open>Requiring the active session\<close>

definition active_playback_interrupt :: "(pv \<Rightarrow> string) \<Rightarrow> string \<Rightarrow> (string \<times> dict) list \<Rightarrow> dict option" where
  "active_playback_interrupt rp endpoint_id playbacks =
     find (\<lambda>rec.
       let str = (\<lambda>k. py_str rp (py_or (dget rec k) (PStr []))) in
       dget rec ''endpoint_id'' = PStr endpoint_id
       \<and> (startswith (str ''stream_id'') ''timer-alarm-'' \<or> contains (str ''audio_url'') ''timer_alarm''
          \<or> startswith (str ''session_id'') ''timer-completed-''))
     (map snd playbacks)"

definition can_merge_playback_interrupt_event ::
  "(pv \<Rightarrow> string) \<Rightarrow> runtime \<Rightarrow> snapshot option \<Rightarrow> envelope \<Rightarrow> bool" where
  "can_merge_playback_interrupt_event rp r active event =
     (case active of None \<Rightarrow> False
      | Some s \<Rightarrow> ss_endpoint_id s = ev_endpoint_id event \<and> ss_session_state s = Idle
          \<and> active_playback_interrupt rp (ev_endpoint_id event) (rt_active_playbacks r) \<noteq> None
          \<and> ev_event_type event \<in> {EvSessionStart, EvVadSpeechStarted, EvVadSpeechEnded,
               EvAudioChunk, EvAudioEnd})"

definition require_active_session :: "envelope \<Rightarrow> (envelope + nat) M" where
  "require_active_session event = do {
     rp \<leftarrow> repr_env;
     r \<leftarrow> cur_runtime;
     (case rt_active_session r of
        None \<Rightarrow> do {
          e \<leftarrow> error_event (ev_endpoint_id event) (ev_session_id event) ''no_active_session''
            ''Start a voice session before sending session control or audio events.'' True;
          ret (Inl e) }
      | Some i \<Rightarrow> do {
          s \<leftarrow> session_at i;
          (if ev_session_id event \<noteq> None \<and> ev_session_id event \<noteq> Some (ss_session_id s)
              \<and> \<not> can_merge_playback_interrupt_event rp r (Some s) event
           then do {
             e \<leftarrow> error_event (ev_endpoint_id event) (ev_session_id event) ''session_conflict''
               ''The event session_id does not match the active voice session.'' True;
             ret (Inl e) }
           else ret (Inr i)) }) }"

section \<open>Playback\<close>

definition track_playback_lifecycle ::
  "(pv \<Rightarrow> string) \<Rightarrow> event_type \<Rightarrow> dict \<Rightarrow> (string \<times> dict) list \<Rightarrow> (string \<times> dict) list" where
  "track_playback_lifecycle rp et rec playbacks =
     (let stream_id = strip (py_str rp (py_or (dget rec ''stream_id'') (PStr []))) in
      if stream_id = [] then playbacks
      else if et \<in> {EvTtsPlaybackDownloadStarted, EvTtsPlaybackFirstAudioFrame}
        then aput stream_id rec playbacks
      else if et \<in> {EvTtsPlaybackCompleted, EvTtsPlaybackFailed, EvPlaybackStop}
        then adel stream_id playbacks
      else playbacks)"

definition stop_phrases :: "string list" where
  "stop_phrases =
     [''stop'', ''stop it'', ''stop timer'', ''stop the timer'', ''stop alarm'', ''stop the alarm'',
      ''silence timer'', ''silence the timer'', ''dismiss timer'', ''dismiss the timer'',
      ''turn off timer'', ''turn off the timer'', ''turn off alarm'', ''turn off the alarm'']"

definition is_playback_stop_phrase :: "string \<Rightarrow> bool" where
  "is_playback_stop_phrase text \<longleftrightarrow> phrase_norm text \<in> set stop_phrases"

definition turn_audio :: "runtime \<Rightarrow> snapshot \<Rightarrow> audio_summary" where
  \<comment> \<open>the \<open>VoiceTurnAudioSummary\<close> of the captured audio\<close>
  "turn_audio r s =
     \<lparr>as_endpoint_id = ss_endpoint_id s, as_session_id = ss_session_id s,
      as_chunk_count = rt_chunk_count r,
      as_sample_rate_hz = map_option af_sample_rate_hz (rt_audio_format r),
      as_encoding = map_option af_encoding (rt_audio_format r),
      as_channels = (case rt_audio_format r of None \<Rightarrow> 1 | Some f \<Rightarrow> af_channels f),
      as_audio_bytes = concat (rt_audio_chunks r),
      as_ambient_audio_bytes = (case concat (rt_ambient_audio_chunks r) of [] \<Rightarrow> None | b # bs \<Rightarrow> Some (b # bs)),
      as_endpoint_audio_metrics = endpoint_audio_metrics r\<rparr>"

definition playback_interrupt_stop_event :: "nat \<Rightarrow> envelope option M" where
  "playback_interrupt_stop_event i = do {
     rp \<leftarrow> repr_env;
     w \<leftarrow> State_Monad.get;
     r \<leftarrow> cur_runtime;
     s \<leftarrow> session_at i;
     (case active_playback_interrupt rp (ss_endpoint_id s) (rt_active_playbacks r) of
        None \<Rightarrow> ret None
      | Some playback \<Rightarrow>
          if \<not> e_has_turn_pipeline (env w) \<or> rt_audio_chunks r = [] then ret None
          else do {
            let audio = turn_audio r s;
            let transcript = e_transcribe_audio (env w) (trace w) audio;
            let matched = (str_or (tr_error transcript) [] = []
                  \<and> is_playback_stop_phrase (tr_text transcript));
            emit (TranscribeAudio audio);
            t \<leftarrow> py_now;
            let interrupt_record =
              [(''endpoint_id'', PStr (ss_endpoint_id s)), (''session_id'', PStr (ss_session_id s)),
               (''playback_session_id'', dget playback ''session_id''),
               (''stream_id'', dget playback ''stream_id''),
               (''provider_id'', PStr (tr_provider_id transcript)),
               (''model'', ostr (tr_model transcript)),
               (''confidence'', onum (tr_confidence transcript)),
               (''duration_ms'', onum (tr_duration_ms transcript)),
               (''text'', PStr (tr_text transcript)),
               (''text_chars'', PInt (int (length (tr_text transcript)))),
               (''matched'', PBool matched), (''error'', ostr (tr_error transcript)),
               (''received_at'', PStr (isoformat t))];
            upd_runtime (\<lambda>r. r\<lparr>rt_last_playback_interrupt := Some interrupt_record\<rparr>);
            record_voice_event ''playback.interrupt.transcript'' interrupt_record;
            (if \<not> matched then ret None
             else do {
               u \<leftarrow> uuid_hex;
               let request_id = ''playback_interrupt_stop_'' @ u;
               record_command request_id (ss_endpoint_id s) ''playback.stop'' ''playback.stop'' None;
               n \<leftarrow> next_sequence;
               e \<leftarrow> mk_event EvPlaybackStop (ss_endpoint_id s)
                 (Some (py_str rp (py_or (dget playback ''session_id'') (PStr (ss_session_id s))))) n
                 [(''request_id'', PStr request_id), (''reason'', PStr ''voice_stop''),
                  (''stream_id'', dget playback ''stream_id'')];
               ret (Some e) }) }) }"

section \<open>The follow-up window\<close>

definition followup_listen_timeout_ms :: int where
  "followup_listen_timeout_ms = 10000"

definition should_open_followup_window :: "runtime \<Rightarrow> snapshot option \<Rightarrow> envelope \<Rightarrow> bool" where
  "should_open_followup_window r active event =
     (case active of None \<Rightarrow> False
      | Some s \<Rightarrow> rt_pending_followup r \<noteq> None \<and> ev_session_id event = Some (ss_session_id s)
          \<and> ss_session_state s = Responding)"

definition schedule_followup_timeout :: "string \<Rightarrow> string \<Rightarrow> unit M" where
  "schedule_followup_timeout endpoint_id session_id = do {
     cancel_followup_timeout_task;
     upd_runtime (\<lambda>r. r\<lparr>rt_followup_task := Some (endpoint_id, session_id)\<rparr>) }"

definition open_followup_window :: "instant \<Rightarrow> envelope option M" where
  \<comment> \<open>\<open>None\<close> for the \<open>RuntimeError\<close> without a session or a pending follow-up\<close>
  "open_followup_window opened_at = do {
     r \<leftarrow> cur_runtime;
     (case (rt_active_session r, rt_pending_followup r) of
        (Some i, Some pending) \<Rightarrow> do {
          upd_runtime (\<lambda>r. r\<lparr>rt_audio_chunks := [], rt_ambient_audio_chunks := [], rt_chunk_count := 0\<rparr>);
          let followup = aupdate pending
            [(''state'', PStr ''listening''), (''opened_at'', PStr (isoformat opened_at)),
             (''listen_timeout_ms'', PInt followup_listen_timeout_ms)];
          upd_runtime (\<lambda>r. r\<lparr>rt_pending_followup := Some followup\<rparr>);
          update_active_session_history [(''conversation_followup'', PDict followup)];
          set_session_state Listening;
          s \<leftarrow> session_at i;
          schedule_followup_timeout (ss_endpoint_id s) (ss_session_id s);
          e \<leftarrow> state_event EvSessionState i
            [(''followup'', PDict
              [(''needed'', PBool True), (''listen_timeout_ms'', PInt followup_listen_timeout_ms),
               (''prompt'', dget followup ''prompt''), (''state'', PStr ''listening'')])];
          ret (Some e) }
      | _ \<Rightarrow> ret None) }"

definition cancel_active_followup_session :: "string \<Rightarrow> envelope option M" where
  "cancel_active_followup_session reason = do {
     r \<leftarrow> cur_runtime;
     (case rt_active_session r of
        None \<Rightarrow> ret None
      | Some i \<Rightarrow> do {
          set_session_state Cancelled;
          set_cancel_reason i reason;
          cancelled \<leftarrow> state_event EvSessionCancelled i
            [(''reason'', PStr reason), (''message'', PStr ''canceled'')];
          persist_active_session_history i reason None None;
          release_active_session_wake_stream;
          clear_active_session_runtime;
          ret (Some cancelled) }) }"

definition followup_timeout :: "string \<Rightarrow> string \<Rightarrow> unit M" where
  \<comment> \<open>the body of \<open>_followup_timeout\<close> once its sleep is over\<close>
  "followup_timeout endpoint_id session_id = do {
     w \<leftarrow> State_Monad.get;
     r \<leftarrow> cur_runtime;
     (case (rt_websocket r, rt_active_session r, rt_pending_followup r) of
        (Some ws, Some i, Some p) \<Rightarrow>
          if ss_endpoint_id (sess w i) \<noteq> endpoint_id \<or> ss_session_id (sess w i) \<noteq> session_id then ret ()
          else do {
            cancelled \<leftarrow> cancel_active_followup_session ''followup_timeout'';
            (case cancelled of None \<Rightarrow> ret () | Some e \<Rightarrow> emit (SendJson ws e)) }
      | _ \<Rightarrow> ret ()) }"

section \<open>Sending to an endpoint\<close>

definition schedule_endpoint_event :: "string \<Rightarrow> envelope \<Rightarrow> unit M" where
  "schedule_endpoint_event endpoint_id event = emit (ScheduleSend endpoint_id event)"

definition send_endpoint_event :: "string \<Rightarrow> envelope \<Rightarrow> unit M" where
  "send_endpoint_event endpoint_id event = do {
     w \<leftarrow> State_Monad.get;
     (case runtime_for_endpoint endpoint_id w of
        None \<Rightarrow> ret ()
      | Some r \<Rightarrow> (case rt_websocket (rts w r) of
            None \<Rightarrow> ret () | Some ws \<Rightarrow> emit (SendJson ws event))) }"

section \<open>Wake elections\<close>

definition wake_election_event :: "nat \<Rightarrow> decision \<Rightarrow> envelope M" where
  "wake_election_event i d = state_event EvWakeElectionResult i
     [(''election'', dump_decision d), (''stand_down'', PBool (\<not> wd_accepted d)),
      (''winner_endpoint_id'', ostr (map_option wc_endpoint_id (wd_winner d))),
      (''winner_session_id'', ostr (map_option wc_session_id (wd_winner d))),
      (''reason'', PStr (wd_reason d))]"

definition stand_down_replaced_winner :: "decision option \<Rightarrow> unit M" where
  "stand_down_replaced_winner decision = do {
     w \<leftarrow> State_Monad.get;
     (case decision of None \<Rightarrow> ret ()
      | Some d \<Rightarrow> (case (wd_replaced_winner d, wd_winner d) of
          (Some replaced, Some winner) \<Rightarrow>
            (case runtime_for_endpoint (wc_endpoint_id replaced) w of None \<Rightarrow> ret ()
             | Some r \<Rightarrow> (case rt_active_session (rts w r) of None \<Rightarrow> ret ()
               | Some i \<Rightarrow>
                   if ss_session_id (sess w i) \<noteq> wc_session_id replaced then ret ()
                   else do {
                     stand_down \<leftarrow> with_runtime r (do {
                       let replacement = \<lparr>wd_election_id = wd_election_id d, wd_accepted = False,
                         wd_reason = ''stand_down_replaced_by_better_candidate'',
                         wd_window_ms = wd_window_ms d, wd_candidate = Some replaced,
                         wd_winner = Some winner, wd_candidates = wd_candidates d,
                         wd_decided_at = wd_decided_at d, wd_replaced_winner = None\<rparr>;
                       record_wake_confidence (wc_endpoint_id replaced) (wc_session_id replaced)
                         (wc_model replaced) (wc_confidence replaced) True False
                         (Some (wd_reason replacement)) (Some (wc_source replaced))
                         (wc_chunk_index replaced) (wc_chunk_count replaced);
                       set_session_state Cancelled;
                       set_cancel_reason i (wd_reason replacement);
                       e \<leftarrow> wake_election_event i replacement;
                       persist_active_session_history i (wd_reason replacement) None None;
                       release_active_session_wake_stream;
                       clear_active_session_runtime;
                       ret e });
                     schedule_endpoint_event (wc_endpoint_id replaced) stand_down }))
        | _ \<Rightarrow> ret ())) }"

section \<open>Relations the operations satisfy\<close>

context bookkeeping
begin

lemma release_active_session_wake_stream_rel [evol]: "state_io_rel R release_active_session_wake_stream"
  unfolding release_active_session_wake_stream_def by (intro evol)

lemma close_socket_rel [evol]: "state_io_rel R (close_socket x)"
  unfolding close_socket_def by (intro evol)

lemma start_speaker_enrollment_capture_window_rel [evol]:
  "state_io_rel R (start_speaker_enrollment_capture_window a b)"
  unfolding start_speaker_enrollment_capture_window_def Let_def
  by (intro evol light) (simp add: light_parts)

lemma expire_speaker_enrollment_capture_windows_rel [evol]:
  "state_io_rel R expire_speaker_enrollment_capture_windows"
  unfolding expire_speaker_enrollment_capture_windows_def
  by (intro evol light) (simp add: light_parts)

lemma active_speaker_enrollment_capture_window_rel [evol]:
  "state_io_rel R (active_speaker_enrollment_capture_window e)"
  unfolding active_speaker_enrollment_capture_window_def by (intro evol)

lemma start_placement_test_window_rel [evol]:
  "state_io_rel R (start_placement_test_window a b c d e f g h)"
  unfolding start_placement_test_window_def Let_def
  by (intro evol light) (simp add: light_parts)

lemma expire_placement_test_windows_rel [evol]: "state_io_rel R expire_placement_test_windows"
  unfolding expire_placement_test_windows_def
  by (intro evol light) (simp add: light_parts)

lemma active_placement_test_window_rel [evol]: "state_io_rel R (active_placement_test_window e)"
  unfolding active_placement_test_window_def by (intro evol)

lemma require_active_session_rel [evol]: "state_io_rel R (require_active_session e)"
  unfolding require_active_session_def by (intro evol)

lemma playback_interrupt_stop_event_rel [evol]: "state_io_rel R (playback_interrupt_stop_event i)"
  unfolding playback_interrupt_stop_event_def Let_def by (intro evol mild) (simp_all add: mild_step_def)

lemma send_endpoint_event_rel [evol]: "state_io_rel R (send_endpoint_event a b)"
  unfolding send_endpoint_event_def by (intro evol)

lemma schedule_endpoint_event_rel [evol]: "state_io_rel R (schedule_endpoint_event a b)"
  unfolding schedule_endpoint_event_def by (intro evol)

lemma wake_election_event_rel [evol]: "state_io_rel R (wake_election_event i d)"
  unfolding wake_election_event_def by (intro evol)

end

context handling
begin

lemma cancel_followup_timeout_task_rel [evol]: "state_io_rel R cancel_followup_timeout_task"
  unfolding cancel_followup_timeout_task_def by (intro evol fair set_session_state_rel upd_session_rel) (simp_all add: fair_step_def)

lemma clear_active_session_runtime_rel [evol]: "state_io_rel R clear_active_session_runtime"
  unfolding clear_active_session_runtime_def by (intro evol fair set_session_state_rel upd_session_rel) (simp_all add: fair_step_def)

lemma set_cancel_reason_rel [evol]: "state_io_rel R (set_cancel_reason i x)"
  unfolding set_cancel_reason_def by (intro evol fair set_session_state_rel upd_session_rel) (simp_all add: fair_step_def)

lemma cancel_timed_out_active_session_rel [evol]: "state_io_rel R (cancel_timed_out_active_session x)"
  unfolding cancel_timed_out_active_session_def by (intro evol fair set_session_state_rel upd_session_rel) (simp_all add: fair_step_def)

lemma expire_stale_active_sessions_rel [evol]: "state_io_rel R expire_stale_active_sessions"
  unfolding expire_stale_active_sessions_def by (intro evol fair set_session_state_rel upd_session_rel)

lemma status_rel [evol]: "state_io_rel R status"
  unfolding status_def Let_def
  by (intro evol fair set_session_state_rel upd_session_rel light) (simp add: light_parts)

lemma cancel_from_operator_rel [evol]: "state_io_rel R (cancel_from_operator x)"
  unfolding cancel_from_operator_def by (intro evol fair set_session_state_rel upd_session_rel) (simp_all add: fair_step_def)

lemma schedule_followup_timeout_rel [evol]: "state_io_rel R (schedule_followup_timeout a b)"
  unfolding schedule_followup_timeout_def by (intro evol fair set_session_state_rel upd_session_rel) (simp_all add: fair_step_def)

lemma open_followup_window_rel [evol]: "state_io_rel R (open_followup_window t)"
  unfolding open_followup_window_def Let_def by (intro evol fair set_session_state_rel upd_session_rel) (simp_all add: fair_step_def)

lemma cancel_active_followup_session_rel [evol]: "state_io_rel R (cancel_active_followup_session x)"
  unfolding cancel_active_followup_session_def by (intro evol fair set_session_state_rel upd_session_rel) (simp_all add: fair_step_def)

lemma followup_timeout_rel [evol]: "state_io_rel R (followup_timeout a b)"
  unfolding followup_timeout_def by (intro evol fair set_session_state_rel upd_session_rel)

lemma stand_down_replaced_winner_rel [evol]: "state_io_rel R (stand_down_replaced_winner d)"
  unfolding stand_down_replaced_winner_def Let_def by (intro evol fair set_session_state_rel upd_session_rel) (simp_all add: fair_step_def)

end

lemma replace_begin_evol [evol]: "keeps replace_begin"
  unfolding replace_begin_def by (intro evol ev.set_session_state_rel) simp_all

lemma replace_close_evol [evol]: "keeps replace_close"
  unfolding replace_close_def by (intro evol)

lemma replace_finish_evol [evol]: "keeps (replace_finish r)"
  unfolding replace_finish_def by (intro evol upd_runtime_keeps) simp_all

lemma replace_endpoint_runtime_evol [evol]: "keeps (replace_endpoint_runtime r)"
  unfolding replace_endpoint_runtime_def by (intro evol)

lemma disconnect_websocket_evol [evol]: "keeps disconnect_websocket"
  unfolding disconnect_websocket_def by (intro evol ev.set_session_state_rel upd_runtime_keeps) simp_all

end
