(* ===== verification/SessionHandlers.thy ===== *)
theory SessionHandlers
  imports SessionCore
begin

text \<open>
  The handlers of the events an endpoint sends within a session: wake candidates, audio chunks,
  cancellation and pings, voice activity, command acknowledgements and errors, playback
  progress, and the touch screen. Each handler returns the events to send back.
\<close>

section \<open>Validation errors\<close>

definition reject :: "envelope \<Rightarrow> string \<Rightarrow> string \<Rightarrow> envelope list M" where
  \<comment> \<open>\<open>return [self._error_event(...)]\<close> for the event being handled\<close>
  "reject event code message = do {
     e \<leftarrow> error_event (ev_endpoint_id event) (ev_session_id event) code message True;
     ret [e] }"

section \<open>Wake candidates\<close>

definition submit_to_election :: "wake_candidate \<Rightarrow> decision M" where
  "submit_to_election c = do {
     u \<leftarrow> uuid_hex;
     w \<leftarrow> State_Monad.get;
     modify (\<lambda>w. w\<lparr>election := snd (submit_candidate u c (election w))\<rparr>);
     ret (fst (submit_candidate u c (election w))) }"

definition wake_candidate_from_payload ::
  "string \<Rightarrow> string \<Rightarrow> wake_candidate_payload \<Rightarrow> instant \<Rightarrow> wake_candidate M" where
  "wake_candidate_from_payload endpoint_id session_id p received_at = do {
     u \<leftarrow> uuid_hex;
     ret (post_init u
       \<lparr>wc_endpoint_id = endpoint_id, wc_session_id = session_id, wc_source = wp_source p,
        wc_model = wp_model p, wc_confidence = wp_confidence p, wc_received_at = received_at,
        wc_detected_at = wp_detected_at p, wc_chunk_index = wp_chunk_index p,
        wc_chunk_count = wp_chunk_count p, wc_frame_level = wp_frame_level p,
        wc_speech_peak_level = wp_speech_peak_level p,
        wc_noise_floor_level = wp_noise_floor_level p, wc_ambient_level = wp_ambient_level p,
        wc_snr_db = wp_snr_db p, wc_profile_version = wp_profile_version p,
        wc_metadata = (case wp_detection_window_ms p of None \<Rightarrow> wp_metadata p
          | Some ms \<Rightarrow> aput ''detection_window_ms'' (PInt ms) (wp_metadata p)),
        wc_candidate_id = None\<rparr>) }"

definition mark_micro_vad_accepted :: "nat \<Rightarrow> unit M" where
  "mark_micro_vad_accepted i = do {
     w \<leftarrow> State_Monad.get;
     s \<leftarrow> session_at i;
     whenM (e_has_micro_vad_recorder (env w))
       (emit (MicroVadMark (ss_endpoint_id s) (ss_session_id s))) }"

definition accept_wake_candidate :: "nat \<Rightarrow> wake_candidate \<Rightarrow> instant \<Rightarrow> decision option \<Rightarrow> envelope list M" where
  "accept_wake_candidate i c detected_at decision = do {
     w \<leftarrow> State_Monad.get;
     s \<leftarrow> session_at i;
     whenM (e_has_wake_recorder (env w))
       (emit (RecorderMarkAccepted (ss_endpoint_id s) (ss_session_id s)
         [(''model'', ostr (wc_model c)), (''confidence'', onum (wc_confidence c)),
          (''source'', PStr (wc_source c)), (''chunk_index'', oint (wc_chunk_index c)),
          (''chunk_count'', oint (wc_chunk_count c))]));
     mark_micro_vad_accepted i;
     let dumped = (case decision of None \<Rightarrow> [] | Some d \<Rightarrow> [(''election'', dump_decision d)]);
     let wake_payload =
       [(''outcome'', PStr ''accepted''), (''detected'', PBool True),
        (''endpoint_id'', PStr (ss_endpoint_id s)), (''session_id'', PStr (ss_session_id s)),
        (''model'', ostr (wc_model c)), (''confidence'', onum (wc_confidence c)),
        (''detected_at'', PStr (isoformat detected_at)), (''source'', PStr (wc_source c)),
        (''chunk_index'', oint (wc_chunk_index c)), (''chunk_count'', oint (wc_chunk_count c))]
       @ (case decision of None \<Rightarrow> [] | Some d \<Rightarrow> [(''election_id'', PStr (wd_election_id d))]) @ dumped;
     record_wake_history wake_payload;
     set_active_session_wake wake_payload;
     append_latency_point ''wake_word_detected'' ''Wake word detected'' detected_at;
     record_voice_event ''wake.accepted''
       [(''endpoint_id'', PStr (ss_endpoint_id s)), (''session_id'', PStr (ss_session_id s)),
        (''model'', ostr (wc_model c)), (''confidence'', onum (wc_confidence c)),
        (''source'', PStr (wc_source c)), (''chunk_index'', oint (wc_chunk_index c)),
        (''chunk_count'', oint (wc_chunk_count c)),
        (''election_id'', ostr (map_option wd_election_id decision))];
     set_session_state WakeDetected;
     wake_event \<leftarrow> state_event EvWakeAccepted i
       ([(''wake'', PDict [(''confidence'', onum (wc_confidence c)), (''model'', ostr (wc_model c)),
                           (''source'', PStr (wc_source c))])] @ dumped);
     set_session_state Listening;
     ret [wake_event] }"

definition handle_wake_candidate :: "envelope \<Rightarrow> envelope list M" where
  "handle_wake_candidate event = do {
     q \<leftarrow> require_active_session event;
     (case q of Inl e \<Rightarrow> ret [e]
      | Inr i \<Rightarrow> do {
          w \<leftarrow> State_Monad.get;
          s \<leftarrow> session_at i;
          (case e_v_wake (env w) (ev_payload event) of
             Inl message \<Rightarrow> reject event ''invalid_wake_candidate'' message
           | Inr p \<Rightarrow>
               if ss_session_state s \<noteq> Idle then do {
                 c \<leftarrow> wake_candidate_from_payload (ev_endpoint_id event) (ss_session_id s) p
                        (ev_timestamp event);
                 u \<leftarrow> uuid_hex;
                 e \<leftarrow> wake_election_event i
                   \<lparr>wd_election_id = ''wake_election_'' @ u, wd_accepted = False,
                    wd_reason = ''wake_already_detected'', wd_window_ms = el_window_ms (election w),
                    wd_candidate = Some c, wd_winner = None, wd_candidates = [c],
                    wd_decided_at = ev_timestamp event, wd_replaced_winner = None\<rparr>;
                 ret [e] }
               else do {
                 now \<leftarrow> py_now;
                 c \<leftarrow> wake_candidate_from_payload (ev_endpoint_id event) (ss_session_id s) p now;
                 d \<leftarrow> submit_to_election c;
                 record_wake_confidence (ev_endpoint_id event) (ss_session_id s) (wc_model c)
                   (wc_confidence c) True (wd_accepted d) (Some (wd_reason d)) (Some (wc_source c))
                   (wc_chunk_index c) (wc_chunk_count c);
                 (if \<not> wd_accepted d then do { e \<leftarrow> wake_election_event i d; ret [e] }
                  else do {
                    stand_down_replaced_winner (Some d);
                    events \<leftarrow> accept_wake_candidate i c (ev_timestamp event) (Some d);
                    e \<leftarrow> state_event EvSessionState i
                      [(''wake'', PDict
                        [(''detected'', PBool True), (''confidence'', onum (wc_confidence c)),
                         (''model'', ostr (wc_model c)), (''source'', PStr (wc_source c)),
                         (''reason'', PStr (wd_reason d)), (''election'', dump_decision d)])];
                    ret (events @ [e]) }) }) }) }"

section \<open>Audio chunks\<close>

definition history_dict :: "runtime \<Rightarrow> string \<Rightarrow> dict" where
  \<comment> \<open>an entry of the active history that is a dict; empty when there is none\<close>
  "history_dict r k = (case rt_history r of None \<Rightarrow> [] | Some h \<Rightarrow> dict_of (dget h k))"

definition is_speaker_enrollment_capture :: "runtime \<Rightarrow> bool" where
  "is_speaker_enrollment_capture r \<longleftrightarrow>
     rt_active_session r \<noteq> None
     \<and> dget (history_dict r ''wake'') ''source'' = PStr ''speaker_id_enrollment_capture''"

definition is_placement_test :: "runtime \<Rightarrow> bool" where
  "is_placement_test r \<longleftrightarrow>
     rt_active_session r \<noteq> None \<and> truthy (dget (history_dict r ''placement_test'') ''test_id'')"

definition is_ambient_reference_chunk :: "(pv \<Rightarrow> string) \<Rightarrow> runtime \<Rightarrow> snapshot \<Rightarrow> bool" where
  "is_ambient_reference_chunk rp r s \<longleftrightarrow>
     active_playback_interrupt rp (ss_endpoint_id s) (rt_active_playbacks r) = None
     \<and> (ss_session_state s = Idle
        \<or> ss_session_state s \<in> {WakeDetected, Listening}
          \<and> \<not> truthy (dget (history_dict r ''vad'') ''speech_started_at''))"

definition open_for_audio :: "session_state \<Rightarrow> bool" where
  "open_for_audio st \<longleftrightarrow> st \<in> {Idle, WakeDetected, Listening, Capturing}"

definition capture_wake :: "string \<Rightarrow> string \<Rightarrow> instant \<Rightarrow> int \<Rightarrow> nat \<Rightarrow> dict" where
  \<comment> \<open>the wake entry of a session a capture window has accepted without a wake word\<close>
  "capture_wake model source detected_at chunk_index chunk_count =
     [(''outcome'', PStr ''accepted''), (''detected'', PBool True), (''model'', PStr model),
      (''confidence'', PFloat 1), (''detected_at'', PStr (isoformat detected_at)),
      (''source'', PStr source), (''chunk_index'', PInt chunk_index),
      (''chunk_count'', PInt (int chunk_count))]"

definition accept_placement_capture :: "envelope \<Rightarrow> nat \<Rightarrow> audio_chunk_payload \<Rightarrow> dict \<Rightarrow> unit M" where
  "accept_placement_capture event i p window = do {
     r \<leftarrow> cur_runtime;
     s \<leftarrow> session_at i;
     set_active_session_wake (capture_wake ''placement_test_capture'' ''placement_test_capture''
       (ev_timestamp event) (cp_chunk_index p) (rt_chunk_count r));
     update_active_session_history [(''placement_test'', PDict (aupdate window
       [(''session_id'', PStr (ss_session_id s)), (''status'', PStr ''capturing''),
        (''first_audio_chunk_index'', PInt (cp_chunk_index p))]))];
     append_latency_point ''wake_word_detected'' ''Placement test capture accepted'' (ev_timestamp event);
     record_voice_event ''placement_test.capture.started''
       ([(''endpoint_id'', PStr (ev_endpoint_id event)), (''session_id'', PStr (ss_session_id s))]
        @ map (\<lambda>k. (k, dget window k)) [''test_id'', ''room'', ''zone'', ''position_label'']
        @ [(''chunk_index'', PInt (cp_chunk_index p)), (''chunk_count'', PInt (int (rt_chunk_count r)))]);
     set_session_state Listening }"

definition accept_enrollment_capture :: "envelope \<Rightarrow> nat \<Rightarrow> audio_chunk_payload \<Rightarrow> unit M" where
  "accept_enrollment_capture event i p = do {
     w \<leftarrow> State_Monad.get;
     r \<leftarrow> cur_runtime;
     s \<leftarrow> session_at i;
     whenM (e_has_wake_recorder (env w))
       (emit (RecorderMarkAccepted (ev_endpoint_id event) (ss_session_id s)
         [(''model'', PStr ''speaker_enrollment_capture''), (''confidence'', PFloat 1),
          (''source'', PStr ''speaker_id_enrollment_capture''),
          (''chunk_index'', PInt (cp_chunk_index p)),
          (''chunk_count'', PInt (int (rt_chunk_count r)))]));
     whenM (e_has_micro_vad_recorder (env w))
       (emit (MicroVadMark (ev_endpoint_id event) (ss_session_id s)));
     set_active_session_wake (capture_wake ''speaker_enrollment_capture''
       ''speaker_id_enrollment_capture'' (ev_timestamp event) (cp_chunk_index p) (rt_chunk_count r));
     append_latency_point ''wake_word_detected'' ''Enrollment capture accepted'' (ev_timestamp event);
     record_voice_event ''speaker_id.enrollment_capture.started''
       [(''endpoint_id'', PStr (ev_endpoint_id event)), (''session_id'', PStr (ss_session_id s)),
        (''chunk_index'', PInt (cp_chunk_index p)), (''chunk_count'', PInt (int (rt_chunk_count r)))];
     set_session_state Listening }"

definition append_audio :: "bytes option \<Rightarrow> unit M" where
  "append_audio audio = (case audio of None \<Rightarrow> ret ()
     | Some b \<Rightarrow> upd_runtime (\<lambda>r. r\<lparr>rt_audio_chunks := rt_audio_chunks r @ [b]\<rparr>))"

definition append_ambient_audio :: "bytes option \<Rightarrow> unit M" where
  "append_ambient_audio audio = (case audio of None \<Rightarrow> ret ()
     | Some b \<Rightarrow> upd_runtime (\<lambda>r. r\<lparr>rt_ambient_audio_chunks := rt_ambient_audio_chunks r @ [b]\<rparr>))"

definition chunk_audio :: "env \<Rightarrow> audio_chunk_payload \<Rightarrow> bytes option" where
  "chunk_audio e p = (case cp_payload_base64 p of None \<Rightarrow> None
     | Some t \<Rightarrow> if t = [] then None else e_b64decode e t)"

definition inspect_wake :: "envelope \<Rightarrow> nat \<Rightarrow> audio_chunk_payload \<Rightarrow> detection M" where
  "inspect_wake event i p = do {
     w \<leftarrow> State_Monad.get;
     s \<leftarrow> session_at i;
     (if ss_session_state s = Idle then do {
        emit (DetectorInspect (ev_endpoint_id event) (ss_session_id s) p);
        ret (e_inspect_chunk (env w) (trace w) (ev_endpoint_id event) (ss_session_id s) p) }
      else ret \<lparr>dt_detected = False, dt_confidence = None, dt_model = None,
                dt_reason = Some ''wake_already_detected''\<rparr>) }"

definition backend_wake_candidate ::
  "envelope \<Rightarrow> snapshot \<Rightarrow> audio_chunk_payload \<Rightarrow> detection \<Rightarrow> wake_candidate M" where
  "backend_wake_candidate event s p d = do {
     r \<leftarrow> cur_runtime;
     now \<leftarrow> py_now;
     u \<leftarrow> uuid_hex;
     ret (post_init u
       \<lparr>wc_endpoint_id = ev_endpoint_id event, wc_session_id = ss_session_id s,
        wc_source = ''backend_openwakeword'', wc_model = dt_model d,
        wc_confidence = dt_confidence d, wc_received_at = now,
        wc_detected_at = Some (ev_timestamp event), wc_chunk_index = Some (cp_chunk_index p),
        wc_chunk_count = Some (int (rt_chunk_count r)), wc_frame_level = cp_frame_level p,
        wc_speech_peak_level = cp_speech_peak_level p,
        wc_noise_floor_level = cp_noise_floor_level p, wc_ambient_level = None,
        wc_snr_db = None, wc_profile_version = None, wc_metadata = [],
        wc_candidate_id = None\<rparr>) }"

definition chunk_wake :: "envelope \<Rightarrow> nat \<Rightarrow> audio_chunk_payload \<Rightarrow> bytes option
    \<Rightarrow> (envelope list \<times> detection \<times> decision option \<times> bool) M" where
  \<comment> \<open>from \<open>inspect_chunk\<close> to the accepted wake candidate\<close>
  "chunk_wake event i p audio = do {
     rp \<leftarrow> repr_env;
     d \<leftarrow> inspect_wake event i p;
     s \<leftarrow> session_at i;
     backend \<leftarrow> (if dt_detected d \<and> ss_session_state s = Idle then do {
         c \<leftarrow> backend_wake_candidate event s p d;
         dec \<leftarrow> submit_to_election c;
         ret (Some (c, dec)) } else ret None);
     let decision = map_option snd backend;
     let wake_accepted = (case backend of None \<Rightarrow> False
         | Some (c, dec) \<Rightarrow> wd_accepted dec \<and> ss_session_state s = Idle);
     r \<leftarrow> cur_runtime;
     whenM (\<not> wake_accepted \<and> is_ambient_reference_chunk rp r s) (append_ambient_audio audio);
     record_wake_confidence (ev_endpoint_id event) (ss_session_id s) (dt_model d) (dt_confidence d)
       (dt_detected d) wake_accepted
       (case decision of None \<Rightarrow> dt_reason d | Some dec \<Rightarrow> Some (wd_reason dec))
       (Some ''backend_openwakeword'') (Some (cp_chunk_index p)) (Some (int (rt_chunk_count r)));
     events \<leftarrow> (case backend of
         Some (c, dec) \<Rightarrow> if wake_accepted then do {
             stand_down_replaced_winner (Some dec);
             accept_wake_candidate i c (ev_timestamp event) (Some dec) } else ret []
       | None \<Rightarrow> ret []);
     ret (events, d, decision, wake_accepted) }"

definition accept_audio_chunk :: "envelope \<Rightarrow> nat \<Rightarrow> audio_chunk_payload \<Rightarrow> envelope list M" where
  \<comment> \<open>\<open>_handle_audio_chunk\<close> after its guards and the validation of the payload\<close>
  "accept_audio_chunk event i p = do {
     upd_runtime (\<lambda>r. r\<lparr>rt_chunk_count := Suc (rt_chunk_count r), rt_audio_format := Some (cp_audio_format p)\<rparr>);
     update_active_session_audio p;
     rp \<leftarrow> repr_env;
     w \<leftarrow> State_Monad.get;
     let audio = chunk_audio (env w) p;
     placement \<leftarrow> active_placement_test_window (ev_endpoint_id event);
     let debug = (case placement of None \<Rightarrow> False | Some x \<Rightarrow> truthy (dget x ''debug_record_audio''));
     s \<leftarrow> session_at i;
     (case audio of None \<Rightarrow> ret ()
      | Some b \<Rightarrow> whenM (e_has_micro_vad_recorder (env w) \<and> \<not> (placement \<noteq> None \<and> \<not> debug))
          (emit (MicroVadCapture (ev_endpoint_id event) (ss_session_id s) p b)));
     enrollment \<leftarrow> active_speaker_enrollment_capture_window (ev_endpoint_id event);
     let placement_candidate = (audio \<noteq> None \<and> placement \<noteq> None \<and> open_for_audio (ss_session_state s));
     let enrollment_candidate = (audio \<noteq> None \<and> enrollment \<noteq> None \<and> open_for_audio (ss_session_state s));
     (case audio of None \<Rightarrow> ret ()
      | Some b \<Rightarrow> whenM (e_has_wake_recorder (env w)
            \<and> (ss_session_state s = Idle \<or> enrollment_candidate)
            \<and> \<not> (placement_candidate \<and> \<not> debug))
          (emit (RecorderCapture (ev_endpoint_id event) (ss_session_id s) (cp_audio_format p) b)));
     r \<leftarrow> cur_runtime;
     let enrollment_accepted = (enrollment_candidate \<and> \<not> is_speaker_enrollment_capture r);
     let placement_accepted = (placement_candidate \<and> \<not> is_placement_test r);
     (case placement of None \<Rightarrow> ret ()
      | Some window \<Rightarrow> whenM placement_accepted (accept_placement_capture event i p window));
     whenM enrollment_accepted (accept_enrollment_capture event i p);
     r \<leftarrow> cur_runtime;
     s \<leftarrow> session_at i;
     whenM (ss_session_state s = Idle
         \<and> active_playback_interrupt rp (ev_endpoint_id event) (rt_active_playbacks r) \<noteq> None)
       (append_audio audio);
     (events, d, decision, wake_accepted) \<leftarrow> chunk_wake event i p audio;
     s \<leftarrow> session_at i;
     whenM (ss_session_state s \<in> {Listening, Capturing}) (do {
       set_session_state Capturing;
       whenM (\<not> wake_accepted \<and> \<not> enrollment_accepted) (append_audio audio) });
     r \<leftarrow> cur_runtime;
     e \<leftarrow> state_event EvSessionState i
       [(''chunk_index'', PInt (cp_chunk_index p)), (''chunk_count'', PInt (int (rt_chunk_count r))),
        (''audio_format'', dump_audio_format (cp_audio_format p)),
        (''wake'', PDict
          [(''detected'', PBool (dt_detected d)), (''confidence'', onum (dt_confidence d)),
           (''model'', ostr (dt_model d)),
           (''reason'', ostr (case decision of None \<Rightarrow> dt_reason d | Some x \<Rightarrow> Some (wd_reason x))),
           (''source'', PStr ''backend_openwakeword''),
           (''election'', (case decision of None \<Rightarrow> PNone | Some x \<Rightarrow> dump_decision x))])];
     ret (events @ [e]) }"

definition handle_audio_chunk :: "envelope \<Rightarrow> envelope list M" where
  "handle_audio_chunk event = do {
     q \<leftarrow> require_active_session event;
     (case q of Inl e \<Rightarrow> ret [e]
      | Inr i \<Rightarrow> do {
          w \<leftarrow> State_Monad.get;
          s \<leftarrow> session_at i;
          (case active_session_timeout_reason (env w) (ev_timestamp event) s of
             Some reason \<Rightarrow> do {
               cancelled \<leftarrow> cancel_timed_out_active_session reason;
               ret (case cancelled of None \<Rightarrow> [] | Some e \<Rightarrow> [e]) }
           | None \<Rightarrow> (case e_v_chunk (env w) (ev_payload event) of
               Inl message \<Rightarrow> reject event ''invalid_audio_chunk'' message
             | Inr p \<Rightarrow> accept_audio_chunk event i p)) }) }"

section \<open>Session control\<close>

definition handle_session_cancel :: "envelope \<Rightarrow> envelope list M" where
  "handle_session_cancel event = do {
     rp \<leftarrow> repr_env;
     q \<leftarrow> require_active_session event;
     (case q of Inl e \<Rightarrow> ret [e]
      | Inr i \<Rightarrow> do {
          let reason = py_str rp (py_or (dget (ev_payload event) ''reason'') (PStr ''endpoint_cancelled''));
          set_session_state Cancelled;
          set_cancel_reason i reason;
          cancelled \<leftarrow> state_event EvSessionCancelled i [];
          persist_active_session_history i reason None None;
          release_active_session_wake_stream;
          clear_active_session_runtime;
          ret [cancelled] }) }"

definition handle_session_ping :: "envelope \<Rightarrow> envelope list M" where
  "handle_session_ping event = do {
     r \<leftarrow> cur_runtime;
     (if rt_active_session r = None \<and> ev_session_id event = None then ret []
      else do {
        q \<leftarrow> require_active_session event;
        (case q of Inl e \<Rightarrow> ret [e]
         | Inr i \<Rightarrow> do { e \<leftarrow> state_event EvSessionState i []; ret [e] }) }) }"

section \<open>Voice activity\<close>

definition note_event_type :: "string \<Rightarrow> unit M" where
  "note_event_type k = upd_runtime (\<lambda>r. r\<lparr>rt_last_event_type := Some k\<rparr>)"

definition handle_vad_speech_started :: "envelope \<Rightarrow> envelope list M" where
  "handle_vad_speech_started event = do {
     q \<leftarrow> require_active_session event;
     w \<leftarrow> State_Monad.get;
     (case q of Inl e \<Rightarrow> ret [e]
      | Inr i \<Rightarrow> (case e_v_vad_started (env w) (ev_payload event) of
          Inl message \<Rightarrow> reject event ''invalid_vad_speech_started'' message
        | Inr p \<Rightarrow> do {
            s \<leftarrow> session_at i;
            let source = PStr (str_or (vs_source p) ''firmware_vad'');
            let started = PStr (isoformat (ev_timestamp event));
            set_active_session_vad
              [(''speech_started_at'', started), (''level'', oint (vs_level p)), (''source'', source)];
            append_latency_point ''vad_voice_detected'' ''VAD voice detected'' (ev_timestamp event);
            note_event_type (event_name (ev_event_type event));
            record_voice_event ''vad.speech_started''
              [(''endpoint_id'', PStr (ev_endpoint_id event)), (''session_id'', PStr (ss_session_id s)),
               (''level'', oint (vs_level p)), (''source'', source), (''speech_started_at'', started)];
            e \<leftarrow> state_event EvSessionState i [];
            ret [e] })) }"

definition handle_vad_speech_ended :: "envelope \<Rightarrow> envelope list M" where
  "handle_vad_speech_ended event = do {
     q \<leftarrow> require_active_session event;
     w \<leftarrow> State_Monad.get;
     (case q of Inl e \<Rightarrow> ret [e]
      | Inr i \<Rightarrow> (case e_v_vad_ended (env w) (ev_payload event) of
          Inl message \<Rightarrow> reject event ''invalid_vad_speech_ended'' message
        | Inr p \<Rightarrow> do {
            s \<leftarrow> session_at i;
            let reason = PStr (str_or (ve_reason p) ''vad_silence'');
            let source = PStr (str_or (ve_source p) ''firmware_vad'');
            let ended = PStr (isoformat (ev_timestamp event));
            set_active_session_vad
              [(''speech_ended_at'', ended), (''speech_end_reason'', reason),
               (''speech_end_level'', oint (ve_level p)), (''speech_end_source'', source)];
            append_latency_point ''vad_silence'' ''VAD silence'' (ev_timestamp event);
            note_event_type (event_name (ev_event_type event));
            record_voice_event ''vad.speech_ended''
              [(''endpoint_id'', PStr (ev_endpoint_id event)), (''session_id'', PStr (ss_session_id s)),
               (''level'', oint (ve_level p)), (''source'', source), (''reason'', reason),
               (''speech_ended_at'', ended)];
            n \<leftarrow> next_sequence;
            u \<leftarrow> uuid_hex;
            e \<leftarrow> mk_event EvEndpointAudioFinalize (ss_endpoint_id s) (Some (ss_session_id s)) n
              [(''request_id'', PStr (''cmd_audio_finalize_'' @ u)),
               (''reason'', PStr ''backend_vad_speech_ended''),
               (''source'', PStr ''backend_vad_policy''), (''snapshot'', dump_snapshot s)];
            ret [e] })) }"

section \<open>Command replies\<close>

definition current_state_events :: "envelope list M" where
  \<comment> \<open>\<open>[self._state_event("session.state", self._active_session)] if self._active_session else []\<close>\<close>
  "current_state_events = do {
     r \<leftarrow> cur_runtime;
     (case rt_active_session r of None \<Rightarrow> ret []
      | Some i \<Rightarrow> do { e \<leftarrow> state_event EvSessionState i []; ret [e] }) }"

definition received :: "envelope \<Rightarrow> dict \<Rightarrow> instant \<Rightarrow> dict" where
  "received event payload now = aupdate
     [(''event_id'', PStr (ev_event_id event)), (''endpoint_id'', PStr (ev_endpoint_id event)),
      (''session_id'', ostr (ev_session_id event))]
     (payload @ [(''received_at'', PStr (isoformat now))])"

definition handle_command_ack :: "envelope \<Rightarrow> envelope list M" where
  "handle_command_ack event = do {
     w \<leftarrow> State_Monad.get;
     (case e_v_ack (env w) (ev_payload event) of
        Inl message \<Rightarrow> reject event ''invalid_command_ack'' message
      | Inr p \<Rightarrow> do {
          t \<leftarrow> py_now;
          upd_runtime (\<lambda>r. r\<lparr>rt_last_command_ack := Some (received event (dump_command_ack p) t)\<rparr>);
          update_command_from_ack p;
          note_event_type ''command.ack'';
          current_state_events }) }"

definition handle_command_error :: "envelope \<Rightarrow> envelope list M" where
  "handle_command_error event = do {
     w \<leftarrow> State_Monad.get;
     (case e_v_error (env w) (ev_payload event) of
        Inl message \<Rightarrow> reject event ''invalid_command_error'' message
      | Inr p \<Rightarrow> do {
          t \<leftarrow> py_now;
          upd_runtime (\<lambda>r. r\<lparr>rt_last_command_error := Some (received event (dump_command_error p) t)\<rparr>);
          update_command_from_error p;
          note_event_type ''command.error'';
          record_event_diagnostic (ce_code p) (ev_endpoint_id event) (ev_session_id event)
            (Some (event_name (ev_event_type event))) (ce_message p);
          current_state_events }) }"

section \<open>Screens\<close>

definition p4_backend_screen_layout :: "dict list \<Rightarrow> string \<Rightarrow> dict option" where
  "p4_backend_screen_layout screens screen_id =
     map_option (filter (\<lambda>kv. fst kv \<notin> {''owner'', ''conditions''}))
       (find (\<lambda>d. dget d ''id'' = PStr screen_id) screens)"

definition active_session_id :: "string option M" where
  "active_session_id = do {
     w \<leftarrow> State_Monad.get;
     r \<leftarrow> cur_runtime;
     ret (map_option (\<lambda>i. ss_session_id (sess w i)) (rt_active_session r)) }"

definition ui_screen_clear_event :: "string \<Rightarrow> string option \<Rightarrow> envelope M" where
  "ui_screen_clear_event endpoint_id mode = do {
     u \<leftarrow> uuid_hex;
     let request_id = ''ui_screen_clear_'' @ u;
     record_command request_id endpoint_id ''endpoint.ui.screen.clear'' ''endpoint.ui.screen.clear'' None;
     sid \<leftarrow> active_session_id;
     n \<leftarrow> next_sequence;
     mk_event EvEndpointUiScreenClear endpoint_id sid n
       ([(''request_id'', PStr request_id)] @
        (case mode of Some (c # m) \<Rightarrow> [(''mode'', PStr (c # m))] | _ \<Rightarrow> [])) }"

definition ui_screen_render_event :: "string \<Rightarrow> string \<Rightarrow> string \<Rightarrow> int option \<Rightarrow> envelope M" where
  \<comment> \<open>used with the fixed screen \<open>playback\<close>; the \<open>ValueError\<close> for an unknown screen is the
      layout \<open>PNone\<close>\<close>
  "ui_screen_render_event endpoint_id screen_id mode timeout_ms = do {
     u \<leftarrow> uuid_hex;
     v \<leftarrow> uuid_hex;
     w \<leftarrow> State_Monad.get;
     let request_id = ''ui_screen_'' @ u;
     let payload =
       [(''request_id'', PStr request_id), (''mode'', PStr mode), (''revision'', PStr v),
        (''layout'', odict (p4_backend_screen_layout (e_p4_screens (env w)) screen_id))]
       @ (case timeout_ms of None \<Rightarrow> [] | Some ms \<Rightarrow> [(''timeout_ms'', PInt ms)]);
     record_command request_id endpoint_id ''endpoint.ui.screen.render'' ''endpoint.ui.screen.render'' None;
     sid \<leftarrow> active_session_id;
     n \<leftarrow> next_sequence;
     mk_event EvEndpointUiScreenRender endpoint_id sid n payload }"

definition typed_record :: "envelope \<Rightarrow> dict \<Rightarrow> instant \<Rightarrow> dict" where
  "typed_record event payload now = aupdate
     [(''event_id'', PStr (ev_event_id event)),
      (''event_type'', PStr (event_name (ev_event_type event))),
      (''endpoint_id'', PStr (ev_endpoint_id event)), (''session_id'', ostr (ev_session_id event))]
     (payload @ [(''received_at'', PStr (isoformat now))])"

definition schedule_endpoint_callback :: "bool \<Rightarrow> string \<Rightarrow> dict \<Rightarrow> unit M" where
  "schedule_endpoint_callback has_handler name rec = whenM has_handler (emit (ScheduleCallback name rec))"

definition handle_ui_button_pressed :: "envelope \<Rightarrow> envelope list M" where
  "handle_ui_button_pressed event = do {
     w \<leftarrow> State_Monad.get;
     (case e_v_button (env w) (ev_payload event) of
        Inl message \<Rightarrow> reject event ''invalid_ui_button_pressed'' message
      | Inr p \<Rightarrow> do {
          t \<leftarrow> py_now;
          let rec = typed_record event (dump_ui_button p) t;
          modify (\<lambda>w. w\<lparr>last_ui_button := Some rec,
            ui_button_history := push_front 20 rec (ui_button_history w)\<rparr>);
          note_event_type (event_name (ev_event_type event));
          record_voice_event (event_name (ev_event_type event)) (adel ''event_type'' rec);
          schedule_endpoint_callback (e_has_ui_button_handler (env w)) ''ui_button'' rec;
          ret [] }) }"

definition handle_ui_screen_changed :: "envelope \<Rightarrow> envelope list M" where
  "handle_ui_screen_changed event = do {
     rp \<leftarrow> repr_env;
     let screen_id = strip (py_str rp (py_or (dget (ev_payload event) ''screen_id'') (PStr [])));
     (if screen_id = [] then reject event ''invalid_ui_screen_changed'' ''screen_id is required''
      else do {
        t \<leftarrow> py_now;
        modify (\<lambda>w. w\<lparr>last_ui_screen := Some (aupdate
          [(''event_id'', PStr (ev_event_id event)), (''endpoint_id'', PStr (ev_endpoint_id event))]
          (ev_payload event @ [(''received_at'', PStr (isoformat t))]))\<rparr>);
        note_event_type (event_name (ev_event_type event));
        ret [] }) }"

section \<open>Playback progress\<close>

definition latency_marker :: "event_type \<Rightarrow> string option" where
  "latency_marker et =
     (if et = EvTtsPlaybackFirstAudioFrame then Some ''first_audio_frame''
      else if et = EvTtsPlaybackCompleted then Some ''playback_completed''
      else if et = EvTtsPlaybackFailed then Some ''playback_failed'' else None)"

definition record_playback_in_history :: "envelope \<Rightarrow> dict \<Rightarrow> unit M" where
  \<comment> \<open>\<open>if event.session_id: ...\<close> of \<open>_handle_tts_playback_event\<close>\<close>
  "record_playback_in_history event rec = do {
     w \<leftarrow> State_Monad.get;
     (case ev_session_id event of None \<Rightarrow> ret ()
      | Some sid \<Rightarrow>
          if sid = [] \<or> \<not> e_has_history_store (env w) then ret ()
          else (case hist_get sid (hist w) of None \<Rightarrow> ret ()
            | Some persisted \<Rightarrow> upsert_persisted_session_history sid
                [(''tts_playback'', PDict rec),
                 (''latency'', (case latency_marker (ev_event_type event) of None \<Rightarrow> PNone
                    | Some m \<Rightarrow> odict (vad_latency_record (e_repr (env w)) persisted m (ev_timestamp event))))])) }"

definition playback_followup :: "envelope \<Rightarrow> envelope list M" where
  \<comment> \<open>the events \<open>_handle_tts_playback_event\<close> returns\<close>
  "playback_followup event = do {
     w \<leftarrow> State_Monad.get;
     r \<leftarrow> cur_runtime;
     (if ev_event_type event = EvTtsPlaybackCompleted
         \<and> should_open_followup_window r (map_option (sess w) (rt_active_session r)) event then do {
        e \<leftarrow> open_followup_window (ev_timestamp event);
        c \<leftarrow> ui_screen_clear_event (ev_endpoint_id event) (Some ''temporary'');
        ret (case e of None \<Rightarrow> [c] | Some x \<Rightarrow> [x, c]) }
      else if ev_event_type event = EvTtsPlaybackFailed \<and> rt_active_session r \<noteq> None
              \<and> (case rt_pending_followup r of Some (_ # _) \<Rightarrow> True | _ \<Rightarrow> False) then do {
        e \<leftarrow> cancel_active_followup_session ''tts_playback_failed'';
        c \<leftarrow> ui_screen_clear_event (ev_endpoint_id event) (Some ''temporary'');
        ret (case e of None \<Rightarrow> [c] | Some x \<Rightarrow> [x, c]) }
      else do {
        events \<leftarrow> current_state_events;
        (if ev_event_type event \<in> {EvTtsPlaybackCompleted, EvTtsPlaybackFailed, EvPlaybackStop}
         then do {
           c \<leftarrow> ui_screen_clear_event (ev_endpoint_id event) (Some ''temporary'');
           ret (events @ [c]) }
         else ret events) }) }"

definition handle_tts_playback_event :: "envelope \<Rightarrow> envelope list M" where
  "handle_tts_playback_event event = do {
     rp \<leftarrow> repr_env;
     w \<leftarrow> State_Monad.get;
     (case e_v_playback (env w) (ev_payload event) of
        Inl message \<Rightarrow> reject event ''invalid_tts_playback_event'' message
      | Inr p \<Rightarrow> do {
          t \<leftarrow> py_now;
          let rec = typed_record event (dump_playback p) t;
          upd_runtime (\<lambda>r. r\<lparr>rt_last_tts_playback := Some rec,
            rt_tts_playback_history := push_front 20 rec (rt_tts_playback_history r),
            rt_active_playbacks := track_playback_lifecycle rp (ev_event_type event) rec (rt_active_playbacks r)\<rparr>);
          schedule_endpoint_callback (e_has_endpoint_event_handler (env w)) ''endpoint_event'' rec;
          note_event_type (event_name (ev_event_type event));
          update_active_session_history [(''tts_playback'', PDict rec)];
          record_playback_in_history event rec;
          record_voice_event (event_name (ev_event_type event)) (adel ''event_type'' rec);
          whenM (ev_event_type event = EvTtsPlaybackFailed)
            (record_event_diagnostic (str_or (pp_reason p) ''tts_playback_failed'')
               (ev_endpoint_id event) (ev_session_id event) (Some (event_name (ev_event_type event)))
               (str_or (pp_message p) (str_or (pp_reason p) ''Endpoint TTS playback failed'')));
          playback_followup event }) }"

section \<open>Relations the operations satisfy\<close>

context bookkeeping
begin

lemma reject_rel [evol]: "state_io_rel R (reject a b c)"
  unfolding reject_def by (intro evol)

lemma submit_to_election_rel [evol]: "state_io_rel R (submit_to_election c)"
  unfolding submit_to_election_def
  by (intro evol light) (simp add: light_parts)

lemma wake_candidate_from_payload_rel [evol]: "state_io_rel R (wake_candidate_from_payload a b c d)"
  unfolding wake_candidate_from_payload_def by (intro evol)

lemma mark_micro_vad_accepted_rel [evol]: "state_io_rel R (mark_micro_vad_accepted i)"
  unfolding mark_micro_vad_accepted_def by (intro evol)

lemma inspect_wake_rel [evol]: "state_io_rel R (inspect_wake a b c)"
  unfolding inspect_wake_def by (intro evol)

lemma backend_wake_candidate_rel [evol]: "state_io_rel R (backend_wake_candidate a b c d)"
  unfolding backend_wake_candidate_def by (intro evol)

lemma handle_session_ping_rel [evol]: "state_io_rel R (handle_session_ping e)"
  unfolding handle_session_ping_def by (intro evol)

lemma note_event_type_rel [evol]: "state_io_rel R (note_event_type k)"
  unfolding note_event_type_def by (intro evol mild) (simp_all add: mild_step_def)

lemma handle_vad_speech_started_rel [evol]: "state_io_rel R (handle_vad_speech_started e)"
  unfolding handle_vad_speech_started_def Let_def by (intro evol)

lemma handle_vad_speech_ended_rel [evol]: "state_io_rel R (handle_vad_speech_ended e)"
  unfolding handle_vad_speech_ended_def Let_def by (intro evol)

lemma current_state_events_rel [evol]: "state_io_rel R current_state_events"
  unfolding current_state_events_def by (intro evol)

lemma handle_command_ack_rel [evol]: "state_io_rel R (handle_command_ack e)"
  unfolding handle_command_ack_def by (intro evol mild) (simp_all add: mild_step_def)

lemma handle_command_error_rel [evol]: "state_io_rel R (handle_command_error e)"
  unfolding handle_command_error_def by (intro evol mild) (simp_all add: mild_step_def)

lemma active_session_id_rel [evol]: "state_io_rel R active_session_id"
  unfolding active_session_id_def by (intro evol)

lemma ui_screen_clear_event_rel [evol]: "state_io_rel R (ui_screen_clear_event a b)"
  unfolding ui_screen_clear_event_def Let_def by (intro evol)

lemma ui_screen_render_event_rel [evol]: "state_io_rel R (ui_screen_render_event a b c d)"
  unfolding ui_screen_render_event_def Let_def by (intro evol)

lemma schedule_endpoint_callback_rel [evol]: "state_io_rel R (schedule_endpoint_callback a b c)"
  unfolding schedule_endpoint_callback_def by (intro evol)

lemma handle_ui_button_pressed_rel [evol]: "state_io_rel R (handle_ui_button_pressed e)"
  unfolding handle_ui_button_pressed_def Let_def
  by (intro evol light) (simp add: light_parts)

lemma handle_ui_screen_changed_rel [evol]: "state_io_rel R (handle_ui_screen_changed e)"
  unfolding handle_ui_screen_changed_def Let_def
  by (intro evol light) (simp add: light_parts)

lemma record_playback_in_history_rel [evol]: "state_io_rel R (record_playback_in_history a b)"
  unfolding record_playback_in_history_def by (intro evol)

end

context handling
begin

lemma accept_wake_candidate_rel [evol]: "state_io_rel R (accept_wake_candidate a b c d)"
  unfolding accept_wake_candidate_def Let_def by (intro evol fair set_session_state_rel upd_session_rel) (simp_all add: fair_step_def)

lemma handle_wake_candidate_rel [evol]: "state_io_rel R (handle_wake_candidate e)"
  unfolding handle_wake_candidate_def by (intro evol fair set_session_state_rel upd_session_rel)

lemma accept_placement_capture_rel [evol]: "state_io_rel R (accept_placement_capture a b c d)"
  unfolding accept_placement_capture_def by (intro evol fair set_session_state_rel upd_session_rel) (simp_all add: fair_step_def)

lemma accept_enrollment_capture_rel [evol]: "state_io_rel R (accept_enrollment_capture a b c)"
  unfolding accept_enrollment_capture_def by (intro evol fair set_session_state_rel upd_session_rel) (simp_all add: fair_step_def)

lemma append_audio_rel [evol]: "state_io_rel R (append_audio b)"
  unfolding append_audio_def by (intro evol fair set_session_state_rel upd_session_rel) (simp_all add: fair_step_def)

lemma append_ambient_audio_rel [evol]: "state_io_rel R (append_ambient_audio b)"
  unfolding append_ambient_audio_def by (intro evol fair set_session_state_rel upd_session_rel) (simp_all add: fair_step_def)

lemma chunk_wake_rel [evol]: "state_io_rel R (chunk_wake a b c d)"
  unfolding chunk_wake_def Let_def by (intro evol fair set_session_state_rel upd_session_rel)

lemma accept_audio_chunk_rel [evol]: "state_io_rel R (accept_audio_chunk a b c)"
  unfolding accept_audio_chunk_def Let_def by (intro evol fair set_session_state_rel upd_session_rel) (simp_all add: fair_step_def)

lemma handle_audio_chunk_rel [evol]: "state_io_rel R (handle_audio_chunk e)"
  unfolding handle_audio_chunk_def by (intro evol fair set_session_state_rel upd_session_rel)

lemma handle_session_cancel_rel [evol]: "state_io_rel R (handle_session_cancel e)"
  unfolding handle_session_cancel_def Let_def by (intro evol fair set_session_state_rel upd_session_rel) (simp_all add: fair_step_def)

lemma playback_followup_rel [evol]: "state_io_rel R (playback_followup e)"
  unfolding playback_followup_def by (intro evol fair set_session_state_rel upd_session_rel)

lemma handle_tts_playback_event_rel [evol]: "state_io_rel R (handle_tts_playback_event e)"
  unfolding handle_tts_playback_event_def Let_def by (intro evol fair set_session_state_rel upd_session_rel) (simp_all add: fair_step_def)

end

end
