(* ===== verification/PyText.thy ===== *)
theory PyText
  imports VoicePrelude
begin

text \<open>
  Text operations several components share: splitting at white space, and the substitution
  \<open>re.sub\<close> for patterns whose match at a position is determined by the text (no
  alternative has to be retried). Text is ASCII, so the word characters of \<open>\b\<close> are letters, digits and
  the underscore.
\<close>

section \<open>Words\<close>

fun split_words :: "string \<Rightarrow> string \<Rightarrow> string list" where
  "split_words acc [] = (if acc = [] then [] else [acc])"
| "split_words acc (c # s) =
     (if is_space c then (if acc = [] then split_words [] s else acc # split_words [] s)
      else split_words (acc @ [c]) s)"

text \<open>\<open>s.split()\<close>\<close>

definition words :: "string \<Rightarrow> string list" where
  "words s = split_words [] s"

definition is_digit :: "char \<Rightarrow> bool" where
  "is_digit c \<longleftrightarrow> 48 \<le> (of_char c :: nat) \<and> (of_char c :: nat) \<le> 57"

definition is_word :: "char \<Rightarrow> bool" where
  "is_word c \<longleftrightarrow> is_digit c \<or> (65 \<le> (of_char c :: nat) \<and> (of_char c :: nat) \<le> 90)
     \<or> (97 \<le> (of_char c :: nat) \<and> (of_char c :: nat) \<le> 122) \<or> c = CHR ''_''"

lemma digit_is_word [simp]: "is_digit c \<Longrightarrow> is_word c"
  by (simp add: is_word_def)

lemma split_words_nonblank: "list_all (\<lambda>c. \<not> is_space c) acc
    \<Longrightarrow> list_all (\<lambda>w. w \<noteq> [] \<and> list_all (\<lambda>c. \<not> is_space c) w) (split_words acc s)"
  by (induction acc s rule: split_words.induct) simp_all

lemma words_nonblank: "w \<in> set (words s) \<Longrightarrow> w \<noteq> [] \<and> list_all (\<lambda>c. \<not> is_space c) w"
  using split_words_nonblank [of "[]" s] by (simp add: words_def list_all_iff)

section \<open>Substitution\<close>

text \<open>
  A pattern is a function of the character before the position and of the text from the
  position on; it gives the length of its match. \<open>word_before\<close> and \<open>word_ahead\<close> are the two sides of \<open>\b\<close>.
\<close>

definition word_before :: "char option \<Rightarrow> bool" where
  "word_before prev = (case prev of None \<Rightarrow> False | Some c \<Rightarrow> is_word c)"

definition word_ahead :: "string \<Rightarrow> bool" where
  "word_ahead s = (case s of [] \<Rightarrow> False | c # _ \<Rightarrow> is_word c)"

type_synonym matcher = "char option \<Rightarrow> string \<Rightarrow> nat option"

fun sub_from :: "matcher \<Rightarrow> string \<Rightarrow> nat \<Rightarrow> char option \<Rightarrow> string \<Rightarrow> string" where
  "sub_from m rep skip prev [] = []"
| "sub_from m rep (Suc k) prev (c # s) = sub_from m rep k (Some c) s"
| "sub_from m rep 0 prev (c # s) =
     (case m prev (c # s) of
        Some (Suc k) \<Rightarrow> rep @ sub_from m rep k (Some c) s
      | _ \<Rightarrow> c # sub_from m rep 0 (Some c) s)"

definition re_sub :: "matcher \<Rightarrow> string \<Rightarrow> string \<Rightarrow> string" where
  "re_sub m rep s = sub_from m rep 0 None s"

text \<open>Where a pattern matches nowhere, the text is unchanged.\<close>

fun no_match :: "matcher \<Rightarrow> char option \<Rightarrow> string \<Rightarrow> bool" where
  "no_match m prev [] = True"
| "no_match m prev (c # s) = (m prev (c # s) = None \<and> no_match m (Some c) s)"

lemma sub_no_match: "no_match m prev s \<Longrightarrow> sub_from m rep 0 prev s = s"
  by (induction s arbitrary: prev) auto

section \<open>Base64\<close>

definition b64_char :: "nat \<Rightarrow> char" where
  "b64_char n = (if n < 26 then char_of (65 + n) else if n < 52 then char_of (71 + n)
     else if n < 62 then char_of (n - 4) else if n = 62 then CHR ''+'' else CHR ''/'')"

text \<open>\<open>base64.b64encode(data).decode("ascii")\<close>\<close>

fun b64encode :: "bytes \<Rightarrow> string" where
  "b64encode (a # b # c # r) =
     (let n = unat a * 65536 + unat b * 256 + unat c in
      [b64_char (n div 262144), b64_char (n div 4096 mod 64), b64_char (n div 64 mod 64), b64_char (n mod 64)]
      @ b64encode r)"
| "b64encode [a, b] =
     (let n = unat a * 1024 + unat b * 4 in
      [b64_char (n div 4096), b64_char (n div 64 mod 64), b64_char (n mod 64), CHR ''=''])"
| "b64encode [a] =
     (let n = unat a * 16 in [b64_char (n div 64), b64_char (n mod 64), CHR ''='', CHR ''=''])"
| "b64encode [] = []"

section \<open>Patterns of whole words\<close>

text \<open>
  What the redaction patterns share: a match starts and ends at the edges of words, is determined
  by its own characters and those edges, and contains no bracket. Replacing such matches by
  something in brackets leaves no match behind, neither of the pattern itself nor of another one
  that did not match before.
\<close>

locale whole_word_pattern =
  fixes m :: matcher
  assumes starts: "m prev s = Some n \<Longrightarrow> \<not> word_before prev \<and> word_ahead s"
    and ends: "m prev s = Some n \<Longrightarrow> 0 < n \<and> n \<le> length s \<and> is_word (s ! (n - 1)) \<and> \<not> word_ahead (drop n s)"
    and own_chars: "m prev s = Some n \<Longrightarrow> \<not> word_before prev' \<Longrightarrow> \<not> word_ahead (drop n t) \<Longrightarrow>
      take n t = take n s \<Longrightarrow> m prev' t = Some n"
    and no_bracket: "m prev s = Some n \<Longrightarrow> CHR ''['' \<notin> set (take n s) \<and> CHR '']'' \<notin> set (take n s)"
begin

lemma at_no_word: "\<not> word_ahead s \<Longrightarrow> m prev s = None"
  using starts [of prev s] by (cases "m prev s") auto

lemma no_match_past_bracket:
  "no_match m p (u @ '']'') \<Longrightarrow> no_match m (Some CHR '']'') t \<Longrightarrow> no_match m p (u @ CHR '']'' # t)"
proof (induction u arbitrary: p)
  case Nil
  then show ?case by (simp add: at_no_word word_ahead_def is_word_def is_digit_def)
next
  case (Cons c u)
  have "m p (c # u @ CHR '']'' # t) = None"
  proof (rule ccontr)
    assume "m p (c # u @ CHR '']'' # t) \<noteq> None"
    then obtain n where n: "m p (c # u @ CHR '']'' # t) = Some n" by blast
    have le: "n \<le> length (c # u)"
    proof (rule ccontr)
      assume "\<not> n \<le> length (c # u)"
      then have "CHR '']'' \<in> set (take n (c # u @ CHR '']'' # t))" by (cases n) (auto simp: take_Cons')
      with no_bracket [OF n] show False by simp
    qed
    have "word_ahead (x @ CHR '']'' # t) = word_ahead (x @ '']'')" for x
      by (cases x) (simp_all add: word_ahead_def)
    from this [of "drop n (c # u)"] ends [OF n] le have "\<not> word_ahead (drop n (c # u @ '']''))"
      by (simp flip: append_Cons)
    from own_chars [OF n _ this] starts [OF n] le have "m p (c # u @ '']'') = Some n"
      by (simp flip: append_Cons)
    with Cons.prems(1) show False by simp
  qed
  with Cons show ?case by simp
qed

end

lemma sub_skip: "k \<le> length s \<Longrightarrow>
    \<exists>q. sub_from m rep k p s = sub_from m rep 0 q (drop k s) \<and> (no_match m2 p s \<longrightarrow> no_match m2 q (drop k s))"
proof (induction k arbitrary: p s)
  case (Suc k)
  then obtain c r where s: "s = c # r" by (cases s) auto
  with Suc.IH [of r "Some c"] Suc.prems show ?case by auto
qed auto

text \<open>\<open>m\<close> is the pattern that is replaced, \<open>m2\<close> the one that is looked for afterwards.\<close>

locale two_patterns = sub: whole_word_pattern m + look: whole_word_pattern m2 for m m2 +
  fixes rep :: string and body :: string
  assumes rep_def: "rep = CHR ''['' # body @ '']''"
    and rep_clean: "no_match m2 (Some CHR ''['') (body @ '']'')"
begin

lemma until_replacement:
  assumes "CHR ''['' \<notin> set (take j (sub_from m rep 0 p s))" "j \<le> length (sub_from m rep 0 p s)"
  shows "take j (sub_from m rep 0 p s) = take j s \<and> (0 < j \<longrightarrow>
      drop j (sub_from m rep 0 p s) = sub_from m rep 0 (Some (sub_from m rep 0 p s ! (j - 1))) (drop j s))"
  using assms
proof (induction s arbitrary: j p)
  case (Cons c s)
  show ?case
  proof (cases "m p (c # s)")
    case None
    show ?thesis
    proof (cases j)
      case (Suc i)
      with None Cons.prems Cons.IH [of i "Some c"] show ?thesis by (cases i) auto
    qed simp
  next
    case (Some n)
    with sub.ends [OF Some] obtain k where "n = Suc k" by (cases n) auto
    with Some Cons.prems show ?thesis by (cases j) (simp_all add: rep_def)
  qed
qed simp

lemma emitted:
  assumes "m2 p (c # s) = None"
  shows "m2 p (c # sub_from m rep 0 (Some c) s) = None"
proof (rule ccontr)
  let ?o = "sub_from m rep 0 (Some c) s"
  assume "m2 p (c # ?o) \<noteq> None"
  then obtain n where n: "m2 p (c # ?o) = Some n" by blast
  obtain j where j: "n = Suc j" using look.ends [OF n] by (cases n) auto
  have jo: "j \<le> length ?o" "CHR ''['' \<notin> set (take j ?o)"
    using look.ends [OF n] look.no_bracket [OF n] by (simp_all add: j)
  note u = until_replacement [OF jo(2,1)]
  obtain q where q: "drop j ?o = sub_from m rep 0 (Some q) (drop j s)" "is_word q"
    using u look.ends [OF n] by (cases j) (auto simp: j)
  have "\<not> word_ahead (drop j ?o)" using look.ends [OF n] by (simp add: j)
  have "\<not> word_ahead (drop j s)"
  proof (cases "drop j s")
    case (Cons d r)
    have "m (Some q) (d # r) = None" using sub.starts [of "Some q" "d # r"] q(2)
      by (cases "m (Some q) (d # r)") (auto simp: word_before_def)
    with \<open>\<not> word_ahead (drop j ?o)\<close> q(1) Cons show ?thesis by (simp add: word_ahead_def)
  qed (simp add: word_ahead_def)
  with look.own_chars [OF n, of p "c # s"] look.starts [OF n] u have "m2 p (c # s) = Some n" by (simp add: j)
  with assms show False by simp
qed

lemma sub_clean: "m2 = m \<or> no_match m2 p s \<Longrightarrow> no_match m2 p (sub_from m rep 0 p s)"
proof (induction s arbitrary: p rule: length_induct)
  case (1 s)
  show ?case
  proof (cases s)
    case (Cons c r)
    show ?thesis
    proof (cases "m p (c # r)")
      case None
      have "m2 p (c # r) = None" using "1.prems" None Cons by auto
      moreover have "no_match m2 (Some c) (sub_from m rep 0 (Some c) r)" using 1 Cons by auto
      ultimately show ?thesis using None Cons emitted by simp
    next
      case (Some n)
      with sub.ends [OF Some] obtain k where n: "n = Suc k" by (cases n) auto
      have k: "k \<le> length r" "\<not> word_ahead (drop k r)" using sub.ends [OF Some] by (simp_all add: n)
      obtain q where q: "sub_from m rep k (Some c) r = sub_from m rep 0 q (drop k r)"
        "no_match m2 (Some c) r \<longrightarrow> no_match m2 q (drop k r)"
        using sub_skip [OF k(1), of m rep "Some c" m2] by blast
      have tail: "no_match m2 (Some CHR '']'') (sub_from m rep 0 q (drop k r))"
      proof (cases "drop k r")
        case (Cons d u)
        have d: "m q (d # u) = None" "m2 (Some CHR '']'') (d # x) = None" "m2 q (d # u) = None" for x
          using k(2) Cons by (simp_all add: sub.at_no_word look.at_no_word word_ahead_def)
        have "length u < length s" using \<open>s = c # r\<close> Cons by (metis length_Cons length_drop less_Suc_eq_le diff_le_self Suc_le_eq le_Suc_eq less_or_eq_imp_le)
        moreover have "m2 = m \<or> no_match m2 (Some d) u"
          using "1.prems" q(2) \<open>s = c # r\<close> Cons by auto
        ultimately have "no_match m2 (Some d) (sub_from m rep 0 (Some d) u)" using "1.IH" by blast
        with d Cons show ?thesis by simp
      qed simp
      have "no_match m2 p (rep @ sub_from m rep 0 q (drop k r))"
        using look.no_match_past_bracket [OF rep_clean tail]
        by (simp add: rep_def look.at_no_word word_ahead_def is_word_def is_digit_def)
      with Some n q(1) Cons show ?thesis by simp
    qed
  qed simp
qed

lemma re_sub_clean: "m2 = m \<or> no_match m2 None s \<Longrightarrow> no_match m2 None (re_sub m rep s)"
  unfolding re_sub_def by (rule sub_clean)

end

end
