(* ===== verification/Guidance.thy ===== *)
theory Guidance
  imports VoicePrelude
begin

text \<open>
  What the program says when it could not recognise a speaker or authorise an administrative
  action (\<open>voice/failure_guidance.py\<close>): the reason codes it collects, the cause it derives from
  them, and the sentence for that cause. The sentence is one of a fixed set, so nothing of the
  speaker or the audio reaches it.
\<close>

definition dedupe_step :: "string list \<Rightarrow> string \<Rightarrow> string list" where
  "dedupe_step seen v =
     (let n = strip v in if n = [] \<or> n \<in> set seen then seen else seen @ [n])"

definition dedupe :: "string list \<Rightarrow> string list" where
  "dedupe vs = foldl dedupe_step [] vs"

definition opt_dict :: "dict option \<Rightarrow> dict" where
  "opt_dict x = (case x of None \<Rightarrow> [] | Some d \<Rightarrow> d)"

definition text_field :: "(pv \<Rightarrow> string) \<Rightarrow> dict option \<Rightarrow> string \<Rightarrow> string" where
  "text_field rp d k = strip (py_str rp (py_or (dget (opt_dict d) k) (PStr [])))"

definition reason_codes :: "(pv \<Rightarrow> string) \<Rightarrow> string option \<Rightarrow> dict option \<Rightarrow> dict option \<Rightarrow> string list" where
  "reason_codes rp reason speaker quality =
     (let st = text_field rp speaker ''status''; au = text_field rp quality ''status'' in
      dedupe
       ((case reason of None \<Rightarrow> [] | Some r \<Rightarrow> if r = [] then [] else [r])
        @ (if st \<noteq> [] \<and> st \<notin> {''identified'', ''verified''} then [''speaker_status_'' @ st] else [])
        @ (case dget (opt_dict quality) ''warnings'' of
             PList ws \<Rightarrow> map (\<lambda>w. ''audio_quality_'' @ py_str rp w) (filter truthy ws)
           | _ \<Rightarrow> [])
        @ (if au \<noteq> [] \<and> au \<noteq> ''ok'' then [''audio_quality_'' @ au] else [])))"

definition primary_cause :: "string list \<Rightarrow> string" where
  "primary_cause codes =
     (let joined = join '' '' codes in
      if contains joined ''low_snr'' \<or> contains joined ''noisy'' then ''room_noisy''
      else if contains joined ''clipped'' then ''audio_clipped''
      else if contains joined ''short_audio'' \<or> contains joined ''speech_too_short'' then ''speech_too_short''
      else if contains joined ''confidence'' \<or> contains joined ''low_confidence'' then ''confidence_too_low''
      else if contains joined ''margin'' then ''margin_too_close''
      else if contains joined ''not_eligible'' \<or> contains joined ''not_configured'' then ''speaker_not_admin''
      else if contains joined ''passcode'' \<or> contains joined ''locked'' then ''passcode_failed''
      else ''speaker_not_recognized'')"

definition guidance_message :: "string \<Rightarrow> string \<Rightarrow> string" where
  "guidance_message failure_type cause =
     (let prefix = (if failure_type = ''admin_maintenance''
        then ''I could not authorize admin maintenance.'' else ''I could not recognize the speaker.'') in
      if cause = ''room_noisy'' then
        prefix @ '' The room may be too noisy. If this happens often, retrain the profile.''
      else if cause = ''audio_clipped'' then
        prefix @ '' The audio sounded clipped. Try speaking a little farther from the microphone.''
      else if cause = ''speech_too_short'' then
        prefix @ '' The speech was too short. Please try the phrase again.''
      else if cause = ''confidence_too_low'' then
        prefix @ '' The voice match was not confident enough. If this happens often, retrain the profile.''
      else if cause = ''margin_too_close'' then
        prefix @ '' The voice match was too close to another profile. If this happens often, retrain the profile.''
      else if cause = ''speaker_not_admin'' then
        prefix @ '' The speaker is not configured as an admin.''
      else if cause = ''passcode_failed'' then
        prefix @ '' The spoken passcode was not accepted.''
      else prefix @ '' Please try again.'')"

definition operator_diagnostics :: "string option \<Rightarrow> string list \<Rightarrow> dict option \<Rightarrow> dict option \<Rightarrow> dict" where
  "operator_diagnostics reason codes speaker quality =
     (let s = opt_dict speaker; q = opt_dict quality in
      [(''reason'', ostr reason), (''reason_codes'', PList (map PStr codes)),
       (''speaker_status'', dget s ''status''), (''speaker_public_id'', dget s ''speaker_public_id''),
       (''confidence_tier'', dget s ''confidence_tier''), (''audio_quality_status'', dget q ''status''),
       (''audio_quality_warnings'',
          case dget q ''warnings'' of PList ws \<Rightarrow> PList ws | _ \<Rightarrow> PList []),
       (''snr_status'', dget q ''snr_status'')])"

definition voice_failure_guidance ::
    "(pv \<Rightarrow> string) \<Rightarrow> string \<Rightarrow> string option \<Rightarrow> dict option \<Rightarrow> dict option \<Rightarrow> dict" where
  "voice_failure_guidance rp failure_type reason speaker quality =
     (let codes = reason_codes rp reason speaker quality; cause = primary_cause codes in
      [(''schema_version'', PInt 1), (''failure_type'', PStr failure_type), (''reason'', ostr reason),
       (''reason_codes'', PList (map PStr codes)), (''user_cause'', PStr cause),
       (''message'', PStr (guidance_message failure_type cause)),
       (''operator_diagnostics'', PDict (operator_diagnostics reason codes speaker quality)),
       (''sensitive_details_redacted'', PBool True)])"

section \<open>Facts\<close>

lemma dedupe_fold:
  "distinct seen \<Longrightarrow> [] \<notin> set seen \<Longrightarrow>
   distinct (foldl dedupe_step seen vs) \<and> set (foldl dedupe_step seen vs) = set seen \<union> (strip ` set vs - {[]})"
proof (induction vs arbitrary: seen)
  case (Cons v vs)
  have "distinct (dedupe_step seen v)" "[] \<notin> set (dedupe_step seen v)"
    "set (dedupe_step seen v) = set seen \<union> ({strip v} - {[]})"
    using Cons.prems by (auto simp: dedupe_step_def Let_def)
  with Cons.IH [of "dedupe_step seen v"] Cons.prems show ?case by auto
qed auto

text \<open>A list without repetitions of the stripped, non-empty values.\<close>

lemma dedupe_set: "distinct (dedupe vs)" "set (dedupe vs) = strip ` set vs - {[]}"
  using dedupe_fold [of "[]" vs] by (simp_all add: dedupe_def)

lemma guidance_message_says: "dget (voice_failure_guidance rp ty reason sp q) ''message''
    = PStr (guidance_message ty (primary_cause (reason_codes rp reason sp q)))"
  by (simp add: voice_failure_guidance_def dget_def Let_def)

end
