(* ===== verification/Placement.thy ===== *)
theory Placement
  imports PyText Guidance "HOL-Library.Sublist"
begin

text \<open>
  Reports on where an endpoint stands (\<open>voice/placement.py\<close>): how close a spoken phrase comes to the
  expected one, with the \<open>SequenceMatcher\<close> of the standard library, the report of an active test and the
  report over a long window of passive samples.
\<close>

section \<open>SequenceMatcher\<close>

text \<open>
  A character that occurs often in a long second text does not start a match
  (\<open>autojunk\<close>: more than one in a hundred from 200 characters on).
\<close>

definition popular :: "string \<Rightarrow> char \<Rightarrow> bool" where
  "popular b c \<longleftrightarrow> 200 \<le> length b \<and> length b div 100 + 1 < length (filter (\<lambda>x. x = c) b)"

text \<open>
  \<open>find_longest_match\<close> on the two slices. \<open>match_row\<close> computes \<open>newj2len\<close>, the lengths of the runs that
  end at \<open>x\<close> and each character of \<open>ys\<close>, from those of the row before.
\<close>

fun match_row :: "string \<Rightarrow> char \<Rightarrow> nat \<Rightarrow> nat list \<Rightarrow> string \<Rightarrow> nat list" where
  "match_row b x d (p # ps) (y # ys) = (if x = y \<and> \<not> popular b y then d + 1 else 0) # match_row b x p ps ys"
| "match_row b x d _ _ = []"

record match_block =
  mb_i :: nat
  mb_j :: nat
  mb_size :: nat

fun best_in_row :: "nat \<Rightarrow> nat \<Rightarrow> nat list \<Rightarrow> match_block \<Rightarrow> match_block" where
  "best_in_row i j [] best = best"
| "best_in_row i j (k # ks) best =
     best_in_row i (j + 1) ks
       (if mb_size best < k then \<lparr>mb_i = i + 1 - k, mb_j = j + 1 - k, mb_size = k\<rparr> else best)"

fun best_match :: "string \<Rightarrow> nat \<Rightarrow> nat list \<Rightarrow> string \<Rightarrow> string \<Rightarrow> match_block \<Rightarrow> match_block" where
  "best_match b i row [] ys best = best"
| "best_match b i row (x # xs) ys best =
     (let row' = match_row b x 0 row ys in best_match b (i + 1) row' xs ys (best_in_row i 0 row' best))"

fun common_prefix :: "string \<Rightarrow> string \<Rightarrow> nat" where
  "common_prefix (x # xs) (y # ys) = (if x = y then Suc (common_prefix xs ys) else 0)"
| "common_prefix _ _ = 0"

definition find_longest_match :: "string \<Rightarrow> string \<Rightarrow> string \<Rightarrow> match_block" where
  "find_longest_match b xs ys =
     (let m = best_match b 0 (replicate (length ys) 0) xs ys \<lparr>mb_i = 0, mb_j = 0, mb_size = 0\<rparr>;
          l = common_prefix (rev (take (mb_i m) xs)) (rev (take (mb_j m) ys));
          r = common_prefix (drop (mb_i m + mb_size m) xs) (drop (mb_j m + mb_size m) ys) in
      \<lparr>mb_i = mb_i m - l, mb_j = mb_j m - l, mb_size = l + mb_size m + r\<rparr>)"

lemma common_prefix_take: "take (common_prefix xs ys) xs = take (common_prefix xs ys) ys"
  "common_prefix xs ys \<le> length xs" "common_prefix xs ys \<le> length ys"
  by (induction xs ys rule: common_prefix.induct) auto

text \<open>A block marks equal slices.\<close>

definition block_of :: "string \<Rightarrow> string \<Rightarrow> match_block \<Rightarrow> bool" where
  "block_of xs ys m \<longleftrightarrow> mb_i m + mb_size m \<le> length xs \<and> mb_j m + mb_size m \<le> length ys
     \<and> take (mb_size m) (drop (mb_i m) xs) = take (mb_size m) (drop (mb_j m) ys)"


definition run_of :: "nat \<Rightarrow> string \<Rightarrow> string \<Rightarrow> bool" where
  "run_of k p q \<longleftrightarrow> k \<le> length p \<and> k \<le> length q \<and> take k p = take k q"

lemma run_of_simps [simp]: "run_of 0 p q" "run_of (Suc k) (x # p) (y # q) \<longleftrightarrow> x = y \<and> run_of k p q"
  by (auto simp: run_of_def)

text \<open>
  Row \<open>ks\<close> of the table: behind the read characters \<open>p\<close> of the first and \<open>q\<close> of the second text (the
  latest first), each entry is a run that ends at the next characters of \<open>ys\<close>.
\<close>

fun runs_end :: "string \<Rightarrow> string \<Rightarrow> nat list \<Rightarrow> string \<Rightarrow> bool" where
  "runs_end p q (k # ks) (y # ys) \<longleftrightarrow> run_of k p (y # q) \<and> runs_end p (y # q) ks ys"
| "runs_end p q [] [] \<longleftrightarrow> True"
| "runs_end _ _ _ _ \<longleftrightarrow> False"

lemma runs_end_start: "runs_end [] q (replicate (length ys) 0) ys"
  by (induction ys arbitrary: q) simp_all

lemma match_row_runs: "runs_end p q ks ys \<Longrightarrow> run_of d p q \<Longrightarrow> runs_end (x # p) q (match_row b x d ks ys) ys"
  by (induction p q ks ys arbitrary: d rule: runs_end.induct) auto

lemma run_block:
  assumes "run_of k p q"
  shows "block_of (rev p @ xs) (rev q @ ys) \<lparr>mb_i = length p - k, mb_j = length q - k, mb_size = k\<rparr>"
proof -
  have "take k (drop (length zs - k) (rev zs @ us)) = rev (take k zs)" if "k \<le> length zs" for zs us :: string
    using that by (simp add: drop_rev)
  then show ?thesis using assms by (simp add: run_of_def block_of_def)
qed

lemma best_in_row_block:
  "runs_end p q ks ys \<Longrightarrow> p \<noteq> [] \<Longrightarrow> block_of (rev p @ xs) (rev q @ ys) best \<Longrightarrow>
   block_of (rev p @ xs) (rev q @ ys) (best_in_row (length p - 1) (length q) ks best)"
proof (induction p q ks ys arbitrary: best rule: runs_end.induct)
  case (1 p q k ks y ys)
  have "block_of (rev p @ xs) (rev q @ y # ys) \<lparr>mb_i = length p - k, mb_j = Suc (length q) - k, mb_size = k\<rparr>"
    using run_block [of k p "y # q" xs ys] 1 by simp
  moreover have "Suc (length p - Suc 0) = length p" using 1 by (cases p) simp_all
  ultimately show ?case using 1 by simp
qed simp_all

lemma best_match_block:
  "runs_end p [] row ys \<Longrightarrow> block_of (rev p @ xs) ys best \<Longrightarrow>
   block_of (rev p @ xs) ys (best_match b (length p) row xs ys best)"
proof (induction xs arbitrary: p row best)
  case (Cons x xs)
  let ?row = "match_row b x 0 row ys"
  have r: "runs_end (x # p) [] ?row ys" using match_row_runs [OF Cons.prems(1)] by simp
  have "block_of (rev (x # p) @ xs) ys (best_in_row (length p) 0 ?row best)"
    using best_in_row_block [OF r, of xs best] Cons.prems(2) by simp
  then show ?case using Cons.IH [OF r] by (simp add: Let_def)
qed simp

lemma block_split:
  assumes "block_of xs ys m"
  obtains u where "xs = take (mb_i m) xs @ u @ drop (mb_i m + mb_size m) xs"
    and "ys = take (mb_j m) ys @ u @ drop (mb_j m + mb_size m) ys" and "length u = mb_size m"
proof
  let ?u = "take (mb_size m) (drop (mb_i m) xs)"
  have d: "zs = take i zs @ take k (drop i zs) @ drop (i + k) zs" for zs :: string and i k
    by (metis append_take_drop_id drop_drop add.commute)
  show "xs = take (mb_i m) xs @ ?u @ drop (mb_i m + mb_size m) xs" by (rule d)
  show "ys = take (mb_j m) ys @ ?u @ drop (mb_j m + mb_size m) ys"
    using assms d [of ys "mb_j m" "mb_size m"] by (simp add: block_of_def)
  show "length ?u = mb_size m" using assms by (auto simp: block_of_def)
qed

lemma block_intro: "xs = a @ u @ b \<Longrightarrow> ys = c @ u @ d \<Longrightarrow>
    block_of xs ys \<lparr>mb_i = length a, mb_j = length c, mb_size = length u\<rparr>"
  by (simp add: block_of_def)

lemma block_extend:
  assumes "block_of xs ys m"
    and l: "l = common_prefix (rev (take (mb_i m) xs)) (rev (take (mb_j m) ys))"
    and r: "r = common_prefix (drop (mb_i m + mb_size m) xs) (drop (mb_j m + mb_size m) ys)"
  shows "block_of xs ys \<lparr>mb_i = mb_i m - l, mb_j = mb_j m - l, mb_size = l + mb_size m + r\<rparr>"
proof -
  obtain u where u: "xs = take (mb_i m) xs @ u @ drop (mb_i m + mb_size m) xs"
    "ys = take (mb_j m) ys @ u @ drop (mb_j m + mb_size m) ys" "length u = mb_size m"
    using block_split [OF assms(1)] .
  define A B C D where abcd: "A = take (mb_i m) xs" "B = drop (mb_i m + mb_size m) xs"
    "C = take (mb_j m) ys" "D = drop (mb_j m + mb_size m) ys"
  have n: "length A = mb_i m" "length C = mb_j m" using assms(1) by (simp_all add: abcd block_of_def)
  have xs: "xs = A @ u @ B" and ys: "ys = C @ u @ D" using u by (simp_all add: abcd)
  have lr: "l = common_prefix (rev A) (rev C)" "r = common_prefix B D" using l r by (simp_all add: abcd)
  have L: "l \<le> length A" "l \<le> length C" "take l (rev A) = take l (rev C)"
    using common_prefix_take [of "rev A" "rev C"] by (simp_all add: lr)
  have R: "r \<le> length B" "r \<le> length D" "take r B = take r D"
    using common_prefix_take [of B D] by (simp_all add: lr)
  have s: "drop (length A - l) A = drop (length C - l) C"
    using L(3) by (simp add: take_rev)
  have "xs = take (length A - l) A @ (drop (length A - l) A @ u @ take r B) @ drop r B"
    unfolding xs by simp
  moreover have "ys = take (length C - l) C @ (drop (length A - l) A @ u @ take r B) @ drop r D"
    unfolding ys s R(3) by simp
  ultimately have "block_of xs ys \<lparr>mb_i = length (take (length A - l) A), mb_j = length (take (length C - l) C),
      mb_size = length (drop (length A - l) A @ u @ take r B)\<rparr>"
    by (rule block_intro)
  then show ?thesis using L R u(3) n by (simp add: min_absorb2 add.assoc)
qed

lemma find_longest_match_block: "block_of xs ys (find_longest_match b xs ys)"
proof -
  have "block_of xs ys (best_match b 0 (replicate (length ys) 0) xs ys \<lparr>mb_i = 0, mb_j = 0, mb_size = 0\<rparr>)"
    using best_match_block [OF runs_end_start, of xs ys] by (simp add: block_of_def)
  then show ?thesis unfolding find_longest_match_def Let_def by (rule block_extend) (rule refl)+
qed

text \<open>\<open>get_matching_blocks\<close>: the sum of the sizes of the blocks; the order of the queue does not change it.\<close>

function matching_size :: "string \<Rightarrow> string \<Rightarrow> string \<Rightarrow> nat" where
  "matching_size b xs ys =
     (let m = find_longest_match b xs ys; i = mb_i m; j = mb_j m; k = mb_size m in
      if k = 0 then 0
      else k + (if 0 < i \<and> 0 < j then matching_size b (take i xs) (take j ys) else 0)
        + (if i + k < length xs \<and> j + k < length ys then matching_size b (drop (i + k) xs) (drop (j + k) ys) else 0))"
  by pat_completeness auto
termination
proof (relation "measure (\<lambda>(b, xs, ys). length xs)")
  fix b xs ys and m i j k
  assume "m = find_longest_match b xs ys" "i = mb_i m" "k = mb_size m" "k \<noteq> 0"
  then show "((b, take i xs, take j ys), b, xs, ys) \<in> measure (\<lambda>(b, xs, ys). length xs)"
    using find_longest_match_block [of xs ys b] by (simp add: block_of_def)
qed auto

declare matching_size.simps [simp del]

definition match_ratio :: "string \<Rightarrow> string \<Rightarrow> rat" where
  "match_ratio a b = (if length a + length b = 0 then 1
     else 2 * of_nat (matching_size b a b) / of_nat (length a + length b))"

lemma matching_subseq: "\<exists>zs. length zs = matching_size b xs ys \<and> subseq zs xs \<and> subseq zs ys"
proof (induction b xs ys rule: matching_size.induct)
  case (1 b xs ys)
  define m where "m = find_longest_match b xs ys"
  define i j k where ijk: "i = mb_i m" "j = mb_j m" "k = mb_size m"
  note split = ijk [symmetric] m_def [symmetric]
  obtain u where u: "xs = take i xs @ u @ drop (i + k) xs" "ys = take j ys @ u @ drop (j + k) ys" "length u = k"
    using block_split [OF find_longest_match_block [of xs ys b]] unfolding split .
  show ?case
  proof (cases "k = 0")
    case True
    then show ?thesis by (subst matching_size.simps) (simp add: Let_def split)
  next
    case False
    note IH = 1 [OF m_def ijk False]
    obtain p where p: "length p = (if 0 < i \<and> 0 < j then matching_size b (take i xs) (take j ys) else 0)"
      "subseq p (take i xs)" "subseq p (take j ys)"
      using IH(1) by (cases "0 < i \<and> 0 < j") auto
    obtain q where q: "length q = (if i + k < length xs \<and> j + k < length ys
        then matching_size b (drop (i + k) xs) (drop (j + k) ys) else 0)"
      "subseq q (drop (i + k) xs)" "subseq q (drop (j + k) ys)"
      using IH(2) by (cases "i + k < length xs \<and> j + k < length ys") auto
    have "length (p @ u @ q) = matching_size b xs ys"
      using False p(1) q(1) u(3) by (subst matching_size.simps) (simp add: Let_def split)
    moreover have "subseq (p @ u @ q) xs" "subseq (p @ u @ q) ys"
      by (subst u(1), intro list_emb_append_mono p q) (simp, subst u(2), intro list_emb_append_mono p q, simp)
    ultimately show ?thesis by blast
  qed
qed

lemma matching_size_le: "matching_size b xs ys \<le> length xs" "matching_size b xs ys \<le> length ys"
  using matching_subseq [of b xs ys] by (auto dest: list_emb_length)

lemma match_ratio_unit: "0 \<le> match_ratio a b \<and> match_ratio a b \<le> 1"
  using matching_size_le [of b a b] by (simp add: match_ratio_def divide_le_eq flip: of_nat_add)

lemma match_ratio_1: "match_ratio a b = 1 \<Longrightarrow> a = b"
proof (cases "length a + length b = 0")
  case False
  assume "match_ratio a b = 1"
  with False have "(of_nat (2 * matching_size b a b) :: rat) = of_nat (length a + length b)"
    unfolding match_ratio_def by (metis divide_eq_1_iff of_nat_mult of_nat_numeral)
  then have "2 * matching_size b a b = length a + length b" by (simp only: of_nat_eq_iff)
  with matching_size_le [of b a b] have n: "matching_size b a b = length a" "length a = length b" by linarith+
  obtain zs where zs: "length zs = matching_size b a b" "subseq zs a" "subseq zs b" using matching_subseq by blast
  then have "zs = a" "zs = b" using n by (auto dest: subseq_same_length)
  then show ?thesis by simp
qed simp

section \<open>Phrases\<close>

definition normalize_phrase :: "(pv \<Rightarrow> string) \<Rightarrow> pv \<Rightarrow> string" where
  "normalize_phrase rp value = phrase_norm (py_str rp (py_or value (PStr [])))"

definition phrase_similarity :: "(pv \<Rightarrow> string) \<Rightarrow> pv \<Rightarrow> pv \<Rightarrow> rat" where
  "phrase_similarity rp expected observed =
     (let expected_text = normalize_phrase rp expected; observed_text = normalize_phrase rp observed in
      if expected_text = [] \<or> observed_text = [] then 0
      else if expected_text = observed_text then 1
      else if contains observed_text expected_text \<or> contains expected_text observed_text then
        (let shorter = min (length expected_text) (length observed_text);
             longer = max (length expected_text) (length observed_text) in
         py_round 4 (max (82 / 100) (of_nat shorter / of_nat longer)))
      else py_round 4 (match_ratio expected_text observed_text))"

text \<open>\<open>float(value)\<close> where the code catches its errors; the parameter \<open>fl\<close> reads the text of a float.\<close>

definition float_or_none :: "(string \<Rightarrow> rat option) \<Rightarrow> pv \<Rightarrow> rat option" where
  "float_or_none fl value = (case value of PStr s \<Rightarrow> fl s | _ \<Rightarrow> num_of value)"

section \<open>The report of an active test\<close>

record placement_report_input =
  pi_test :: dict
  pi_transcript :: dict
  pi_speaker_identity :: "dict option"
  pi_audio_quality :: dict
  pi_related_reports :: "dict list"

definition warning_penalty :: "string \<Rightarrow> int" where
  "warning_penalty w = (case aget [(''silent'', 80), (''missing_audio'', 80), (''unsupported_audio'', 70),
     (''clipped'', 40), (''low_snr'', 30), (''short_audio'', 25), (''low_level'', 20)] w of Some n \<Rightarrow> n | None \<Rightarrow> 5)"

definition audio_quality_score :: "dict \<Rightarrow> string list \<Rightarrow> int" where
  "audio_quality_score audio_quality warnings =
     (let score = 100 - sum_list (map warning_penalty warnings) in
      if dget audio_quality ''status'' = PStr ''ok'' \<and> warnings = [] then 100 else max 0 (min 100 score))"

record consistency =
  co_sample_count :: nat
  co_average :: rat
  co_status :: string

definition consistency_signal :: "(pv \<Rightarrow> string) \<Rightarrow> string \<Rightarrow> string \<Rightarrow> dict list \<Rightarrow> consistency" where
  "consistency_signal rp expected_phrase observed_text related_reports =
     (let similarities = phrase_similarity rp (PStr expected_phrase) (PStr observed_text)
            # map (\<lambda>report. phrase_similarity rp (PStr expected_phrase)
                     (dget (dict_of (dget report ''stt'')) ''observed_text'')) related_reports;
          avg = py_round 4 (sum_list similarities / of_nat (length similarities)) in
      \<lparr>co_sample_count = length similarities, co_average = avg,
       co_status = (if 2 \<le> length similarities \<and> 82 / 100 \<le> avg then ''stable'' else ''single_sample'')\<rparr>)"

text \<open>\<open>list.extend\<close> takes from the generator while the list grows, so a repeated warning is added once.\<close>

definition report_warnings ::
    "pv \<Rightarrow> bool \<Rightarrow> bool \<Rightarrow> bool option \<Rightarrow> string \<Rightarrow> string list \<Rightarrow> consistency \<Rightarrow> string list" where
  "report_warnings transcript_error transcript_matched speaker_expected speaker_match speaker_status
      quality_warnings consistency =
     (let w1 = (if truthy transcript_error then [''stt_failed'']
                else if \<not> transcript_matched then [''phrase_mismatch''] else []);
          w2 = (if speaker_expected \<and> speaker_match = Some False
                then [if speaker_status \<notin> {''identified'', ''verified''} then ''unknown_speaker'' else ''speaker_mismatch'']
                else []);
          w3 = fold (\<lambda>w ws. if w \<in> set ws then ws else ws @ [w]) quality_warnings (w1 @ w2) in
      w3 @ (if co_status consistency = ''single_sample'' then [''needs_more_positions''] else []))"

definition recommendation :: "int \<Rightarrow> string list \<Rightarrow> string" where
  "recommendation score warnings =
     (if ''clipped'' \<in> set warnings then ''move_endpoint_farther_or_reduce_input_gain''
      else if ''low_snr'' \<in> set warnings then ''reduce_background_noise_or_move_closer''
      else if 80 \<le> score then ''placement_good''
      else if 60 \<le> score then ''placement_usable_add_more_positions''
      else ''move_endpoint_and_repeat_test'')"

record active_scores =
  sc_similarity :: rat
  sc_matched :: bool
  sc_stt :: int
  sc_speaker_status :: string
  sc_speaker_match :: "bool option"
  sc_speaker :: "int option"
  sc_audio :: int
  sc_overall :: int
  sc_warnings :: "string list"

text \<open>The scores from which the report is built.\<close>

definition active_scores_of ::
    "(pv \<Rightarrow> string) \<Rightarrow> (string \<Rightarrow> rat option) \<Rightarrow> placement_report_input \<Rightarrow> active_scores" where
  "active_scores_of rp fl p =
     (let text = (\<lambda>d k. py_str rp (py_or (dget d k) (PStr [])));
          expected_phrase = text (pi_test p) ''expected_phrase'';
          observed_text = text (pi_transcript p) ''text'';
          similarity = phrase_similarity rp (PStr expected_phrase) (PStr observed_text);
          transcript_error = dget (pi_transcript p) ''error'';
          matched = (\<not> truthy transcript_error \<and> 82 / 100 \<le> similarity);
          stt_score = (if truthy transcript_error then 0 else round_half_even (similarity * 100));
          expected_speaker = strip (text (pi_test p) ''expected_speaker_public_id'');
          speaker = opt_dict (pi_speaker_identity p);
          observed_speaker = strip (text speaker ''speaker_public_id'');
          status = py_str rp (py_or (dget speaker ''status'')
            (PStr (if expected_speaker = [] then ''not_expected'' else ''unknown'')));
          confidence = float_or_none fl (dget speaker ''confidence'');
          (speaker_match, speaker_score) =
            (if expected_speaker = [] then (None, None)
             else if status \<notin> {''identified'', ''verified''} \<or> observed_speaker = [] then (Some False, Some 35)
             else if observed_speaker = expected_speaker then
               (Some True, Some (max 60 (round_half_even
                 ((case confidence of None \<Rightarrow> 72 / 100 | Some c \<Rightarrow> if c = 0 then 72 / 100 else c) * 100))))
             else (Some False, Some 25));
          quality_warnings = map (py_str rp) (list_of (dget (pi_audio_quality p) ''warnings''));
          audio_score = audio_quality_score (pi_audio_quality p) quality_warnings;
          overall = (case speaker_score of
              None \<Rightarrow> round_half_even (of_int stt_score * (6 / 10) + of_int audio_score * (4 / 10))
            | Some sp \<Rightarrow> round_half_even (of_int stt_score * (45 / 100) + of_int sp * (25 / 100)
                + of_int audio_score * (30 / 100))) in
      \<lparr>sc_similarity = similarity, sc_matched = matched, sc_stt = stt_score, sc_speaker_status = status,
       sc_speaker_match = speaker_match, sc_speaker = speaker_score, sc_audio = audio_score, sc_overall = overall,
       sc_warnings = report_warnings transcript_error matched (expected_speaker \<noteq> []) speaker_match status
         quality_warnings (consistency_signal rp expected_phrase observed_text (pi_related_reports p))\<rparr>)"

definition build_active_placement_report ::
    "(pv \<Rightarrow> string) \<Rightarrow> (string \<Rightarrow> rat option) \<Rightarrow> placement_report_input \<Rightarrow> dict" where
  "build_active_placement_report rp fl p =
     (let text = (\<lambda>d k. py_str rp (py_or (dget d k) (PStr [])));
          s = active_scores_of rp fl p; t = pi_transcript p; q = pi_audio_quality p;
          speaker = opt_dict (pi_speaker_identity p);
          co = consistency_signal rp (text (pi_test p) ''expected_phrase'') (text t ''text'') (pi_related_reports p) in
      [(''schema_version'', PInt 1), (''score'', PInt (max 0 (min 100 (sc_overall s)))),
       (''recommendation'', PStr (recommendation (sc_overall s) (sc_warnings s))),
       (''warnings'', PList (map PStr (sc_warnings s))),
       (''stt'', PDict
         [(''expected_phrase'', PStr (text (pi_test p) ''expected_phrase'')), (''observed_text'', PStr (text t ''text'')),
          (''similarity'', PFloat (sc_similarity s)), (''matched'', PBool (sc_matched s)), (''score'', PInt (sc_stt s)),
          (''provider_id'', dget t ''provider_id''), (''model'', dget t ''model''), (''confidence'', dget t ''confidence''),
          (''error'', dget t ''error'')]),
       (''speaker_id'', PDict
         [(''expected_speaker_public_id'', ostr (nonempty (strip (text (pi_test p) ''expected_speaker_public_id'')))),
          (''observed_speaker_public_id'', ostr (nonempty (strip (text speaker ''speaker_public_id'')))),
          (''status'', PStr (sc_speaker_status s)),
          (''matched'', (case sc_speaker_match s of None \<Rightarrow> PNone | Some b \<Rightarrow> PBool b)),
          (''score'', oint (sc_speaker s)), (''confidence'', onum (float_or_none fl (dget speaker ''confidence''))),
          (''reason'', dget speaker ''reason'')]),
       (''audio_quality'', PDict
         ((''status'', dget q ''status'') # (''score'', PInt (sc_audio s))
          # (''warnings'', PList (map (\<lambda>w. PStr (py_str rp w)) (list_of (dget q ''warnings''))))
          # map (\<lambda>k. (k, dget q k)) [''snr_db'', ''snr_status'', ''clipping_count'', ''clipping_ratio'', ''rms'',
              ''peak'', ''duration_ms'', ''source''])),
       (''consistency'', PDict
         [(''sample_count'', PInt (int (co_sample_count co))), (''average_phrase_similarity'', PFloat (co_average co)),
          (''status'', PStr (co_status co))])])"

section \<open>The report over a long window\<close>

definition mean_of :: "rat list \<Rightarrow> rat option" where
  "mean_of xs = (if xs = [] then None else Some (sum_list xs / of_nat (length xs)))"

definition max_of :: "rat list \<Rightarrow> rat option" where
  "max_of xs = (case xs of [] \<Rightarrow> None | x # ys \<Rightarrow> Some (fold max ys x))"

definition min_of :: "rat list \<Rightarrow> rat option" where
  "min_of xs = (case xs of [] \<Rightarrow> None | x # ys \<Rightarrow> Some (fold min ys x))"

text \<open>The entries of a list that have a number there.\<close>

definition numbers :: "('a \<Rightarrow> pv) \<Rightarrow> 'a list \<Rightarrow> rat list" where
  "numbers f xs = List.map_filter (\<lambda>x. num_of (f x)) xs"

definition numeric_values :: "dict list \<Rightarrow> string \<Rightarrow> rat list" where
  "numeric_values metrics key = numbers (\<lambda>m. dget m key) metrics"

definition sample_metrics :: "dict list \<Rightarrow> dict list" where
  "sample_metrics samples = List.map_filter (\<lambda>s. case dget s ''metrics'' of PDict m \<Rightarrow> Some m | _ \<Rightarrow> None) samples"

definition ratio :: "nat \<Rightarrow> nat \<Rightarrow> rat option" where
  "ratio numerator denominator = (if denominator = 0 then None else Some (of_nat numerator / of_nat denominator))"

definition speech_like :: "dict \<Rightarrow> bool" where
  "speech_like metric = (case dget metric ''speech_like_activity'' of PBool b \<Rightarrow> b
     | _ \<Rightarrow> (case num_of (dget metric ''speech_like_activity_ratio'') of Some r \<Rightarrow> 1 / 10 < r | None \<Rightarrow> False))"

definition percentile :: "rat list \<Rightarrow> rat \<Rightarrow> rat option" where
  "percentile values percent =
     (if values = [] then None
      else (let ordered = sort values; bounded = max 0 (min 100 percent) in
        if length ordered = 1 then Some (hd ordered)
        else (let rank = bounded / 100 * of_nat (length ordered - 1); low = nat (py_trunc rank);
                  upper = min (low + 1) (length ordered - 1); fraction = rank - of_nat low in
          Some (ordered ! low + (ordered ! upper - ordered ! low) * fraction))))"

text \<open>
  \<open>float(metric.get("clipping_ratio") or 0)\<close> raises for a text that is no number and for a list or a
  dict; the report is then None.
\<close>

definition clipping_of :: "(string \<Rightarrow> rat option) \<Rightarrow> dict \<Rightarrow> rat option" where
  "clipping_of fl metric = float_or_none fl (py_or (dget metric ''clipping_ratio'') (PInt 0))"

definition background_ambient :: "(string \<Rightarrow> rat option) \<Rightarrow> dict list \<Rightarrow> dict option" where
  "background_ambient fl metrics =
     (let ambient_values = numeric_values metrics ''ambient_rms'';
          ambient_metrics = filter (\<lambda>m. num_of (dget m ''ambient_rms'') \<noteq> None) metrics;
          calm = filter (\<lambda>m. \<not> speech_like m) ambient_metrics in
      if \<exists>m \<in> set calm. clipping_of fl m = None then None
      else Some
        [(''rms'', onum (map_option (py_round 6) (percentile ambient_values 20))),
         (''method'', PStr (if ambient_values \<noteq> [] then ''all_sample_p20'' else ''unavailable'')),
         (''sample_count'', PInt (int (length ambient_values))),
         (''quiet_sample_count'', PInt (int (length (filter (\<lambda>m. the (clipping_of fl m) \<le> 0) calm)))),
         (''speech_like_sample_count'', PInt (int (length (filter speech_like ambient_metrics))))])"

definition hourly_ambient :: "(pv \<Rightarrow> string) \<Rightarrow> dict list \<Rightarrow> dict list" where
  "hourly_ambient rp samples =
     (let entry = (\<lambda>sample.
            let value = num_of (dget (dict_of (dget sample ''metrics'')) ''ambient_rms'');
                observed_at = py_str rp (py_or (dget sample ''observed_at'') (PStr []));
                hour = take 2 (drop 11 observed_at) in
            case value of None \<Rightarrow> None
            | Some v \<Rightarrow> if length observed_at < 13 \<or> \<not> list_all is_digit hour then None else Some (hour, v));
          entries = List.map_filter entry samples in
      map (\<lambda>hour. let values = map snd (filter (\<lambda>e. fst e = hour) entries) in
             [(''hour'', PStr hour), (''average_rms'', PFloat (py_round 6 (the (mean_of values)))),
              (''sample_count'', PInt (int (length values)))])
        (sort (remdups (map fst entries))))"

text \<open>A sort with \<open>reverse=True\<close> keeps the order of equal keys, as a sort by the negated key does.\<close>

definition peak_noise_periods :: "dict list \<Rightarrow> dict list" where
  "peak_noise_periods samples =
     (let period = (\<lambda>sample. case dget sample ''metrics'' of
            PDict metrics \<Rightarrow>
              (let peak = num_of (dget metrics ''peak''); ambient = num_of (dget metrics ''ambient_rms'') in
               map_option (\<lambda>value. (py_round 6 value,
                 [(''observed_at'', dget sample ''observed_at''), (''peak'', PFloat (py_round 6 value)),
                  (''ambient_rms'', onum (map_option (py_round 6) ambient))]))
                 (if peak = None then ambient else peak))
          | _ \<Rightarrow> None) in
      take 3 (map snd (sort_key (\<lambda>p. - fst p) (List.map_filter period samples))))"

definition active_snr_values :: "dict list \<Rightarrow> rat list" where
  "active_snr_values reports = numbers (\<lambda>r. dget (dict_of (dget r ''audio_quality'')) ''snr_db'') reports"

record success_rate =
  su_matched :: nat
  su_total :: nat
  su_rate :: "rat option"

definition active_success_rate :: "dict list \<Rightarrow> string \<Rightarrow> success_rate" where
  "active_success_rate reports key =
     (let known = List.map_filter (\<lambda>r. case dget (dict_of (dget r key)) ''matched'' of PBool b \<Rightarrow> Some b | _ \<Rightarrow> None) reports;
          total = length known; matched = length (filter (\<lambda>b. b) known) in
      \<lparr>su_matched = matched, su_total = total, su_rate = map_option (py_round 3) (ratio matched total)\<rparr>)"

record window_stats =
  ws_average_ambient :: "rat option"
  ws_peak_noise :: "rat option"
  ws_clipping_frequency :: "rat option"
  ws_speech_like_frequency :: "rat option"
  ws_snr_average :: "rat option"
  ws_active_stt :: "rat option"
  ws_active_speaker :: "rat option"

abbreviation at_least :: "rat option \<Rightarrow> rat \<Rightarrow> bool" where
  "at_least x b \<equiv> (case x of None \<Rightarrow> False | Some v \<Rightarrow> b \<le> v)"

abbreviation below :: "rat option \<Rightarrow> rat \<Rightarrow> bool" where
  "below x b \<equiv> (case x of None \<Rightarrow> False | Some v \<Rightarrow> v < b)"

text \<open>The warnings and the score, one deduction after the other.\<close>

definition deduct :: "bool \<Rightarrow> string \<Rightarrow> int \<Rightarrow> string list \<times> int \<Rightarrow> string list \<times> int" where
  "deduct b w n p = (if b then (fst p @ [w], snd p - n) else p)"

definition window_warnings :: "window_stats \<Rightarrow> string list \<times> int" where
  "window_warnings s =
     deduct (below (ws_active_speaker s) (8 / 10)) ''active_speaker_id_inconsistent'' 10
     (deduct (below (ws_active_stt s) (8 / 10)) ''active_stt_inconsistent'' 15
     (deduct (below (ws_snr_average s) 15) ''low_snr_distribution'' 15
     (deduct (at_least (ws_speech_like_frequency s) (3 / 10)) ''frequent_background_speech_like_activity'' 10
     (deduct (at_least (ws_clipping_frequency s) (5 / 100)) ''passive_clipping'' 15
     (deduct (at_least (ws_peak_noise s) (85 / 100)) ''peak_noise_events'' 10
     (case ws_average_ambient s of
        None \<Rightarrow> ([''missing_passive_ambient''], 80)
      | Some a \<Rightarrow> if 8 / 100 \<le> a then ([''high_ambient_noise''], 80)
          else if 4 / 100 \<le> a then ([''elevated_ambient_noise''], 90) else ([], 100)))))))"

definition window_recommendation :: "string list \<Rightarrow> string" where
  "window_recommendation warnings =
     (if ''missing_passive_ambient'' \<in> set warnings then ''collect_more_passive_samples''
      else if set warnings \<inter> {''high_ambient_noise'', ''frequent_background_speech_like_activity'',
          ''low_snr_distribution''} \<noteq> {} then ''move_endpoint_or_reduce_background_noise''
      else if ''passive_clipping'' \<in> set warnings \<or> ''peak_noise_events'' \<in> set warnings
        then ''move_endpoint_farther_or_reduce_input_gain''
      else if list_ex (\<lambda>w. startswith w ''active_'') warnings then ''rerun_active_tests_from_normal_positions''
      else ''placement_good'')"

definition window_snr_values :: "dict list \<Rightarrow> dict list \<Rightarrow> rat list" where
  "window_snr_values samples reports = numeric_values (sample_metrics samples) ''snr_db'' @ active_snr_values reports"

definition window_stats_of :: "dict list \<Rightarrow> dict list \<Rightarrow> window_stats" where
  "window_stats_of samples reports =
     (let metrics = sample_metrics samples; clipping_ratios = numeric_values metrics ''clipping_ratio'' in
      \<lparr>ws_average_ambient = mean_of (numeric_values metrics ''ambient_rms''),
       ws_peak_noise = max_of (numeric_values metrics ''peak''),
       ws_clipping_frequency = ratio (length (filter (\<lambda>v. 0 < v) clipping_ratios)) (length clipping_ratios),
       ws_speech_like_frequency = ratio (length (filter speech_like metrics)) (length metrics),
       ws_snr_average = mean_of (window_snr_values samples reports),
       ws_active_stt = su_rate (active_success_rate reports ''stt''),
       ws_active_speaker = su_rate (active_success_rate reports ''speaker_id'')\<rparr>)"

definition success_dump :: "success_rate \<Rightarrow> pv" where
  "success_dump s = PDict [(''matched_count'', PInt (int (su_matched s))), (''total_count'', PInt (int (su_total s))),
     (''rate'', onum (su_rate s))]"

definition build_long_window_placement_report ::
    "(pv \<Rightarrow> string) \<Rightarrow> (string \<Rightarrow> rat option) \<Rightarrow> dict \<Rightarrow> dict list \<Rightarrow> dict list \<Rightarrow> dict option" where
  "build_long_window_placement_report rp fl window samples reports =
     map_option (\<lambda>background.
       let metrics = sample_metrics samples; s = window_stats_of samples reports;
           (warnings, score) = window_warnings s; snr = window_snr_values samples reports;
           rounded = (\<lambda>n x. onum (map_option (py_round n) x)) in
       [(''schema_version'', PInt 1), (''mode'', PStr ''long_window''),
        (''calibration_id'', dget window ''calibration_id''), (''endpoint_id'', dget window ''endpoint_id''),
        (''room'', dget window ''room''), (''zone'', dget window ''zone''),
        (''sample_count'', PInt (int (length metrics))), (''active_test_count'', PInt (int (length reports))),
        (''ambient'', PDict
          [(''average_rms'', rounded 6 (ws_average_ambient s)), (''background'', PDict background),
           (''peak'', rounded 6 (ws_peak_noise s)),
           (''hourly_average_rms'', PList (map PDict (hourly_ambient rp samples))),
           (''peak_noise_periods'', PList (map PDict (peak_noise_periods samples)))]),
        (''activity'', PDict
          [(''speech_like_count'', PInt (int (length (filter speech_like metrics)))),
           (''speech_like_frequency'', rounded 6 (ws_speech_like_frequency s)),
           (''clipping_frequency'', rounded 6 (ws_clipping_frequency s))]),
        (''snr'', PDict
          [(''count'', PInt (int (length snr))), (''average_db'', rounded 2 (ws_snr_average s)),
           (''minimum_db'', rounded 2 (min_of snr)), (''maximum_db'', rounded 2 (max_of snr))]),
        (''active_tests'', PDict
          [(''stt_success'', success_dump (active_success_rate reports ''stt'')),
           (''speaker_id_reliability'', success_dump (active_success_rate reports ''speaker_id''))]),
        (''score'', PInt (max 0 (min 100 score))), (''recommendation'', PStr (window_recommendation warnings)),
        (''warnings'', PList (map PStr warnings)),
        (''privacy'', PDict
          [(''metrics_only'', PBool True), (''stt_called_for_passive_samples'', PBool False),
           (''speaker_id_called_for_passive_samples'', PBool False), (''raw_audio_persisted'', PBool False)])])
       (background_ambient fl (sample_metrics samples))"

section \<open>Bounds\<close>

lemma round_half_even_le: "x \<le> of_int n \<Longrightarrow> round_half_even x \<le> n"
  using round_half_even_mono [of x "of_int n"] by simp

lemma round_half_even_ge: "of_int n \<le> x \<Longrightarrow> n \<le> round_half_even x"
  using round_half_even_mono [of "of_int n" x] by simp

lemma py_round_unit: "0 \<le> x \<Longrightarrow> x \<le> 1 \<Longrightarrow> 0 \<le> py_round n x \<and> py_round n x \<le> 1"
  using py_round_mono [of 0 x n] py_round_mono [of x 1 n] by simp

lemma contains_length: "contains s p \<Longrightarrow> length p \<le> length s"
  by (induction s p rule: contains.induct) (auto simp: startswith_def dest!: arg_cong [of _ _ length])

lemma contained_share: "a \<noteq> [] \<Longrightarrow> 0 \<le> max (82 / 100) (of_nat (min (length a) (length b)) / of_nat (max (length a) (length b)) :: rat)
    \<and> max (82 / 100) (of_nat (min (length a) (length b)) / of_nat (max (length a) (length b)) :: rat) \<le> 1"
  by (cases a) (auto simp: divide_le_eq)

lemma phrase_similarity_unit: "0 \<le> phrase_similarity rp e t \<and> phrase_similarity rp e t \<le> 1"
proof -
  define a b where ab: "a = normalize_phrase rp e" "b = normalize_phrase rp t"
  note m = match_ratio_unit [of a b] and c = contained_share [of a b]
  show ?thesis
    unfolding phrase_similarity_def Let_def ab [symmetric]
    using py_round_unit [OF m [THEN conjunct1] m [THEN conjunct2]]
      py_round_unit [OF c [THEN conjunct1] c [THEN conjunct2]] by (cases "a = []") simp_all
qed

text \<open>Phrases are compared after normalisation: the similarity lies between 0 and 1, it is 0 when one of
  them is empty, 1 when they are equal, and at least 0.82 when one occurs in the other. What the matcher
  counts is a common subsequence, so its ratio is 1 only for equal texts.\<close>

lemma phrase_similarity_laws:
  "let a = normalize_phrase rp e; b = normalize_phrase rp t; sim = phrase_similarity rp e t in
   0 \<le> sim \<and> sim \<le> 1 \<and> (a = [] \<or> b = [] \<longrightarrow> sim = 0) \<and> (a = b \<and> a \<noteq> [] \<longrightarrow> sim = 1)
   \<and> (a \<noteq> [] \<and> b \<noteq> [] \<and> (contains a b \<or> contains b a) \<longrightarrow> 82 / 100 \<le> sim)
   \<and> (\<exists>zs. subseq zs a \<and> subseq zs b \<and> length zs = matching_size b a b)
   \<and> (match_ratio a b = 1 \<longrightarrow> a = b)"
proof -
  define a b where ab: "a = normalize_phrase rp e" "b = normalize_phrase rp t"
  have r: "py_round 4 (82 / 100) = 82 / 100" by (simp add: py_round_def round_half_even_def)
  have c: "82 / 100 \<le> py_round 4 (max (82 / 100) x)" for x
    using py_round_mono [of "82 / 100" "max (82 / 100) x" 4] r by simp
  show ?thesis
    unfolding Let_def ab [symmetric]
    using phrase_similarity_unit [of rp e t] matching_subseq [of b a b] c match_ratio_1 [of a b]
    by (auto simp: phrase_similarity_def ab [symmetric] Let_def)
qed

text \<open>Scores of the active test.\<close>

lemma audio_quality_score_bounds: "0 \<le> audio_quality_score q ws \<and> audio_quality_score q ws \<le> 100"
  by (simp add: audio_quality_score_def Let_def)

lemma stt_score_bounds: "0 \<le> round_half_even (phrase_similarity rp e t * 100)
    \<and> round_half_even (phrase_similarity rp e t * 100) \<le> 100"
  using phrase_similarity_unit [of rp e t] by (auto intro: round_half_even_le round_half_even_ge)

lemma active_score_parts:
  "0 \<le> sc_stt (active_scores_of rp fl p)" "sc_stt (active_scores_of rp fl p) \<le> 100"
  "0 \<le> sc_audio (active_scores_of rp fl p)" "sc_audio (active_scores_of rp fl p) \<le> 100"
  "truthy (dget (pi_transcript p) ''error'') \<Longrightarrow> sc_stt (active_scores_of rp fl p) = 0"
  using stt_score_bounds audio_quality_score_bounds
  by (simp_all add: active_scores_of_def Let_def case_prod_beta)

text \<open>The speaker counts at most as much as the confidence of the lookup says.\<close>

definition speaker_of :: "placement_report_input \<Rightarrow> dict" where
  "speaker_of p = opt_dict (pi_speaker_identity p)"

lemma speaker_score_bound:
  assumes "\<forall>c. float_or_none fl (dget (speaker_of p) ''confidence'') = Some c \<longrightarrow> c \<le> 1"
  shows "pred_option (\<lambda>n. n \<le> 100) (sc_speaker (active_scores_of rp fl p))"
proof -
  have "round_half_even ((case float_or_none fl (dget (speaker_of p) ''confidence'') of
      None \<Rightarrow> 72 / 100 | Some c \<Rightarrow> if c = 0 then 72 / 100 else c) * 100) \<le> 100"
    using assms by (intro round_half_even_le) (auto split: option.split)
  then show ?thesis
    by (simp add: active_scores_of_def Let_def case_prod_beta speaker_of_def)
qed

lemma overall_of_parts: "sc_overall (active_scores_of rp fl p) =
    (let s = active_scores_of rp fl p in case sc_speaker s of
       None \<Rightarrow> round_half_even (of_int (sc_stt s) * (6 / 10) + of_int (sc_audio s) * (4 / 10))
     | Some sp \<Rightarrow> round_half_even (of_int (sc_stt s) * (45 / 100) + of_int sp * (25 / 100)
         + of_int (sc_audio s) * (30 / 100)))"
  by (simp add: active_scores_of_def Let_def case_prod_beta)

text \<open>When the transcription of an active placement test failed, the report never calls the placement good
  or usable, however good the audio is and whoever was recognised with a confidence of at most 1.\<close>

lemma failed_transcript_not_good:
  assumes "truthy (dget (pi_transcript p) ''error'')"
    and "\<forall>c. float_or_none fl (dget (speaker_of p) ''confidence'') = Some c \<longrightarrow> c \<le> 1"
  shows "dget (build_active_placement_report rp fl p) ''recommendation'' \<notin>
    {PStr ''placement_good'', PStr ''placement_usable_add_more_positions''}"
proof -
  let ?s = "active_scores_of rp fl p"
  have "sc_overall ?s \<le> 55"
    using active_score_parts [where rp = rp and fl = fl and p = p] assms speaker_score_bound [OF assms(2), of rp]
    unfolding overall_of_parts Let_def
    by (auto intro!: round_half_even_le simp: pred_option_def split: option.split)
  then show ?thesis
    by (simp add: build_active_placement_report_def Let_def recommendation_def dget_def)
qed

section \<open>The account of the window\<close>

definition window_penalty :: "string \<Rightarrow> int" where
  "window_penalty w = (case aget [(''missing_passive_ambient'', 20), (''high_ambient_noise'', 20),
     (''elevated_ambient_noise'', 10), (''peak_noise_events'', 10), (''passive_clipping'', 15),
     (''frequent_background_speech_like_activity'', 10), (''low_snr_distribution'', 15),
     (''active_stt_inconsistent'', 15), (''active_speaker_id_inconsistent'', 10)] w of Some n \<Rightarrow> n | None \<Rightarrow> 0)"

definition accounted :: "string list \<times> int \<Rightarrow> bool" where
  "accounted p \<longleftrightarrow> distinct (fst p) \<and> snd p = 100 - sum_list (map window_penalty (fst p))
     \<and> snd p \<le> 100 \<and> (snd p = 100) = (fst p = [])"

lemma accounted_deduct:
  "accounted p \<Longrightarrow> w \<notin> set (fst p) \<Longrightarrow> window_penalty w = n \<Longrightarrow> 0 < n \<Longrightarrow>
   accounted (deduct b w n p)"
  by (auto simp add: accounted_def deduct_def)

lemma deduct_low: "k + n \<le> snd p \<Longrightarrow> 0 < n \<Longrightarrow> k \<le> snd (deduct b w n p)"
  by (simp add: deduct_def)

text \<open>The score of a placement window is 100 less the penalties of the warnings it gives, each given
  once; it never falls below 5, so cutting it to the range of 0 to 100 changes nothing, and the score is
  100 exactly when there is no warning.\<close>

lemma window_score_accounts:
  "let (warnings, score) = window_warnings s in
     distinct warnings \<and> score = 100 - sum_list (map window_penalty warnings)
     \<and> 5 \<le> score \<and> max 0 (min 100 score) = score \<and> (score = 100) = (warnings = [])"
proof -
  have "accounted (window_warnings s)"
    unfolding window_warnings_def
    by (intro accounted_deduct)
      (auto simp: accounted_def window_penalty_def deduct_def split: option.splits if_splits)
  moreover have "5 \<le> snd (window_warnings s)"
    unfolding window_warnings_def by (intro deduct_low) (simp_all split: option.split)
  ultimately show ?thesis unfolding accounted_def case_prod_beta by auto
qed

section \<open>Examples\<close>

lemma phrase_similarity_laws_witness:
  "82 / 100 \<le> phrase_similarity (\<lambda>_. []) (PStr ''Light on'') (PStr ''on'')
   \<and> (\<exists>zs. subseq zs ''light on'' \<and> subseq zs ''on'' \<and> length zs = matching_size ''on'' ''light on'' ''on'')"
proof -
  have "normalize_phrase (\<lambda>_. []) (PStr ''Light on'') = ''light on''" "normalize_phrase (\<lambda>_. []) (PStr ''on'') = ''on''"
    "contains ''light on'' ''on''" by code_simp+
  then show ?thesis
    using phrase_similarity_laws [of "\<lambda>_. []" "PStr ''Light on''" "PStr ''on''"] by (simp add: Let_def)
qed

definition ex_placement :: placement_report_input where
  "ex_placement = \<lparr>pi_test = [(''expected_phrase'', PStr ''light on''), (''expected_speaker_public_id'', PStr ''ann'')],
     pi_transcript = [(''text'', PStr ''light on''), (''error'', PStr ''timeout'')],
     pi_speaker_identity = Some [(''speaker_public_id'', PStr ''ann''), (''status'', PStr ''identified''),
       (''confidence'', PFloat 1)],
     pi_audio_quality = [(''status'', PStr ''ok'')], pi_related_reports = []\<rparr>"

lemma failed_transcript_not_good_witness:
  "dget (build_active_placement_report (\<lambda>_. []) (\<lambda>_. None) ex_placement) ''recommendation'' \<notin>
    {PStr ''placement_good'', PStr ''placement_usable_add_more_positions''}"
  by (rule failed_transcript_not_good)
    (simp_all add: ex_placement_def speaker_of_def opt_dict_def dget_def float_or_none_def)

end
