(* ===== verification/AudioEnd.thy ===== *)
theory AudioEnd
  imports SessionHandlers Placement
begin

text \<open>
  The end of the audio of a session (\<open>_handle_audio_end\<close>): a session that never woke is
  cancelled; otherwise the audio goes to a custom capture, a placement test, an enrollment
  capture or the turn pipeline, and the session completes, fails, or stays open for a follow-up.
\<close>

section \<open>Shared pieces\<close>

definition finish_session :: "nat \<Rightarrow> string \<Rightarrow> dict option \<Rightarrow> dict option \<Rightarrow> unit M" where
  "finish_session i completion_reason error_state wake_recording = do {
     persist_active_session_history i completion_reason error_state wake_recording;
     release_active_session_wake_stream;
     clear_active_session_runtime }"

definition transcript_fields :: "speech_transcript \<Rightarrow> dict" where
  "transcript_fields t =
     [(''provider_id'', PStr (tr_provider_id t)), (''model'', ostr (tr_model t)),
      (''confidence'', onum (tr_confidence t)), (''duration_ms'', onum (tr_duration_ms t)),
      (''text_chars'', PInt (int (length (tr_text t)))), (''error'', ostr (tr_error t))]"

definition transcript_payload :: "speech_transcript \<Rightarrow> dict" where
  "transcript_payload t = [(''text'', PStr (tr_text t)), (''confidence'', onum (tr_confidence t))]"

definition failed_with :: "string option \<Rightarrow> bool" where
  "failed_with error \<longleftrightarrow> str_or error [] \<noteq> []"

definition set_turn_timings :: "dict \<Rightarrow> unit M" where
  "set_turn_timings d = upd_runtime (\<lambda>r. r\<lparr>rt_last_turn_timings := Some d\<rparr>)"

definition set_transcript_metadata :: "dict \<Rightarrow> unit M" where
  "set_transcript_metadata d = upd_runtime (\<lambda>r. r\<lparr>rt_last_transcript_metadata := Some d\<rparr>)"

definition set_last_transcript :: "string \<Rightarrow> unit M" where
  "set_last_transcript t = upd_runtime (\<lambda>r. r\<lparr>rt_last_transcript := Some t\<rparr>)"

definition set_last_reply :: "string option \<Rightarrow> dict \<Rightarrow> unit M" where
  "set_last_reply response assistant =
     upd_runtime (\<lambda>r. r\<lparr>rt_last_response := response, rt_last_assistant := Some assistant\<rparr>)"

definition set_last_tts :: "dict option \<Rightarrow> unit M" where
  "set_last_tts t = upd_runtime (\<lambda>r. r\<lparr>rt_last_tts := t\<rparr>)"

definition optional_recording :: "dict option \<Rightarrow> dict" where
  "optional_recording rec = (case rec of Some (x # d) \<Rightarrow> [(''wake_recording'', PDict (x # d))] | _ \<Rightarrow> [])"

definition ms_round :: "instant \<Rightarrow> instant \<Rightarrow> rat" where
  \<comment> \<open>\<open>round((b - a).total_seconds() * 1000, 2)\<close>\<close>
  "ms_round a b = py_round 2 (seconds_between b a * 1000)"

definition add_ms :: "instant \<Rightarrow> rat \<Rightarrow> instant" where
  \<comment> \<open>\<open>t + timedelta(milliseconds=ms)\<close>\<close>
  "add_ms t ms = t + round_half_even (ms * 1000)"

definition completed_event :: "nat \<Rightarrow> string \<Rightarrow> dict \<Rightarrow> envelope M" where
  "completed_event i reason extra = do {
     r \<leftarrow> cur_runtime;
     state_event EvSessionCompleted i
       ([(''completion_reason'', PStr reason), (''chunk_count'', PInt (int (rt_chunk_count r)))] @ extra) }"

definition transcribe :: "nat \<Rightarrow> speech_transcript M" where
  "transcribe i = do {
     w \<leftarrow> State_Monad.get;
     r \<leftarrow> cur_runtime;
     s \<leftarrow> session_at i;
     emit (TranscribeAudio (turn_audio r s));
     ret (e_transcribe_audio (env w) (trace w) (turn_audio r s)) }"

definition transcription_failed :: "nat \<Rightarrow> speech_transcript \<Rightarrow> dict option \<Rightarrow> envelope list M" where
  \<comment> \<open>\<open>if transcript.error:\<close> of the enrollment capture and of the turn\<close>
  "transcription_failed i t wake_recording = do {
     s \<leftarrow> session_at i;
     e \<leftarrow> error_event (ss_endpoint_id s) (Some (ss_session_id s)) ''stt_failed''
       (str_or (tr_error t) []) True;
     set_session_state Failed;
     finish_session i ''stt_failed'' (Some (ev_payload e)) wake_recording;
     ret [e] }"

section \<open>Sessions that never woke\<close>

definition audio_end_idle :: "nat \<Rightarrow> envelope list M" where
  "audio_end_idle i = do {
     w \<leftarrow> State_Monad.get;
     playback_stop \<leftarrow> playback_interrupt_stop_event i;
     let completion_reason =
       (if playback_stop \<noteq> None then ''playback_interrupt_stop'' else ''wake_not_detected'');
     set_session_state Cancelled;
     set_cancel_reason i completion_reason;
     v \<leftarrow> State_Monad.get;
     r \<leftarrow> cur_runtime;
     s \<leftarrow> session_at i;
     let wake_status = e_last_detection (env v) (trace v);
     let heard = [(''model'', dget wake_status ''model''), (''confidence'', dget wake_status ''confidence''),
       (''reason'', py_or (dget wake_status ''reason'') (PStr completion_reason)),
       (''chunk_count'', PInt (int (rt_chunk_count r)))];
     let missed = [(''outcome'', PStr ''not_detected''), (''detected'', PBool False)];
     let ids = [(''endpoint_id'', PStr (ss_endpoint_id s)), (''session_id'', PStr (ss_session_id s))];
     record_wake_history (missed @ ids @ heard);
     set_active_session_wake (missed @ heard);
     record_voice_event ''wake.not_detected'' (ids @ heard);
     cancelled \<leftarrow> state_event EvSessionCancelled i [];
     finish_session i completion_reason None None;
     ret ((case playback_stop of None \<Rightarrow> [] | Some e \<Rightarrow> [e]) @ [cancelled]) }"

section \<open>Custom captures\<close>

definition complete_custom_capture :: "nat \<Rightarrow> envelope list M" where
  "complete_custom_capture i = do {
     w \<leftarrow> State_Monad.get;
     (if \<not> e_has_turn_pipeline (env w) then ret []
      else do {
        t \<leftarrow> transcribe i;
        set_last_transcript (tr_text t);
        set_transcript_metadata (transcript_fields t @ [(''custom_capture'', PBool True)]);
        final \<leftarrow> state_event EvTranscriptFinal i (transcript_payload t);
        s \<leftarrow> session_at i;
        (closing, completion_reason) \<leftarrow>
          (if failed_with (tr_error t) then do {
             set_session_state Failed;
             e \<leftarrow> error_event (ss_endpoint_id s) (Some (ss_session_id s)) ''stt_failed''
               (str_or (tr_error t) []) True;
             ret (e, ''stt_failed'') }
           else do {
             set_session_state LocalCommand;
             set_session_state Responding;
             set_session_state Completed;
             e \<leftarrow> state_event EvSessionCompleted i [];
             ret (e, ''custom_capture_completed'') });
        persist_active_session_history i completion_reason None None;
        schedule_endpoint_callback (e_has_custom_capture_handler (env w)) ''custom_capture''
          [(''endpoint_id'', PStr (ss_endpoint_id s)), (''session_id'', PStr (ss_session_id s)),
           (''text'', PStr (tr_text t)), (''error'', ostr (tr_error t))];
        release_active_session_wake_stream;
        clear_active_session_runtime;
        ret [final, closing] }) }"

section \<open>Placement tests\<close>

definition placement_transcript :: "speech_transcript \<Rightarrow> dict" where
  "placement_transcript t = transcript_fields t @ [(''text'', PStr (tr_text t))]"

definition placement_record :: "dict \<Rightarrow> snapshot \<Rightarrow> instant \<Rightarrow> nat \<Rightarrow> dict \<Rightarrow> dict \<Rightarrow> dict \<Rightarrow> dict \<Rightarrow> dict" where
  "placement_record test s completed_at chunk_count transcript speaker quality report =
     (let debug = truthy (dget test ''debug_record_audio'') in
      aupdate test
       [(''schema_version'', PInt 1), (''mode'', PStr ''active''), (''status'', PStr ''completed''),
        (''session_id'', PStr (ss_session_id s)), (''endpoint_id'', PStr (ss_endpoint_id s)),
        (''completed_at'', PStr (isoformat completed_at)),
        (''chunk_count'', PInt (int chunk_count)),
        (''raw_audio'', PDict
          [(''persisted'', PBool False), (''debug_record_audio'', PBool debug),
           (''retention_days'', if debug then PInt 1 else PNone),
           (''reason'', PStr (if debug then ''debug_recording_not_configured'' else ''disabled_by_default''))]),
        (''transcript'', PDict transcript), (''speaker_identity'', PDict speaker),
        (''audio_quality'', PDict quality), (''report'', PDict report)])"

definition turn_audio_quality :: "env \<Rightarrow> audio_summary \<Rightarrow> dict" where
  "turn_audio_quality e a = quality_context (analyze_pcm_s16le_audio (e_math e) (Some (as_audio_bytes a))
     (as_sample_rate_hz a) (as_channels a) (as_encoding a) (as_ambient_audio_bytes a) (as_endpoint_audio_metrics a)
     default_thresholds)"

definition run_placement_test ::
  "nat \<Rightarrow> dict option \<Rightarrow> (dict \<times> speech_transcript \<times> dict \<times> dict \<times> dict) M" where
  \<comment> \<open>from the audio summary to \<open>_last_turn_timings\<close>: the record, the transcript, the speaker,
      the audio quality and the report\<close>
  "run_placement_test i window = do {
     w0 \<leftarrow> State_Monad.get;
     r \<leftarrow> cur_runtime;
     s \<leftarrow> session_at i;
     let test0 = history_dict r ''placement_test'';
     let test = (case window of None \<Rightarrow> test0 | Some x \<Rightarrow> aupdate x test0);
     stt_started \<leftarrow> py_now;
     append_latency_point ''stt_start'' ''STT start'' stt_started;
     turn_started \<leftarrow> py_now;
     t \<leftarrow> transcribe i;
     stt_ended \<leftarrow> py_now;
     append_latency_point ''stt_end'' ''STT end'' stt_ended;
     w \<leftarrow> State_Monad.get;
     emit (IdentifySpeaker (turn_audio r s));
     let quality = turn_audio_quality (env w) (turn_audio r s);
     let speaker = e_identify_speaker (env w) (trace w) (turn_audio r s);
     let transcript = placement_transcript t;
     let related = (if e_has_history_store (env w)
       then related_placement_reports (e_history_limit (env w)) test (hist w) else []);
     let report = build_active_placement_report (e_repr (env w)) (e_float_text (env w))
       \<lparr>pi_test = test, pi_transcript = transcript, pi_speaker_identity = Some speaker,
        pi_audio_quality = quality, pi_related_reports = related\<rparr>;
     completed_at \<leftarrow> py_now;
     set_last_transcript (tr_text t);
     upd_runtime (\<lambda>r. r\<lparr>rt_last_response := Some ''Placement test recorded.''\<rparr>);
     set_last_tts None;
     set_turn_timings
       [(''stt_ms'', PFloat (ms_round stt_started stt_ended)), (''assistant_ms'', PFloat 0),
        (''tts_ms'', PFloat 0), (''total_ms'', PFloat (ms_round turn_started completed_at)),
        (''speaker_id_ms'', dget speaker ''duration_ms'')];
     ret (placement_record test s completed_at (rt_chunk_count r) transcript speaker quality report,
          t, speaker, quality, report) }"

definition complete_active_placement_test :: "nat \<Rightarrow> dict option \<Rightarrow> envelope list M" where
  "complete_active_placement_test i window = do {
     (rec, t, speaker, quality, report) \<leftarrow> run_placement_test i window;
     s \<leftarrow> session_at i;
     let place = map (\<lambda>k. (k, dget rec k)) [''test_id'', ''room'', ''zone'', ''position_label''];
     let scored = map (\<lambda>k. (k, dget report k)) [''score'', ''recommendation''];
     set_transcript_metadata (transcript_fields t @
       [(''speaker_identity'', PDict speaker), (''audio_quality'', PDict quality),
        (''placement_test'', PDict (place @ scored))]);
     let reply = ''Placement test recorded.'';
     let assistant =
       [(''provider_id'', PStr ''placement_test''), (''duration_ms'', PFloat 0), (''text'', PStr reply),
        (''text_chars'', PInt (int (length reply))), (''error'', PNone), (''handled_locally'', PBool True),
        (''provider_metadata'', PDict
          [(''tts_suppressed'', PBool True), (''placement_test'', dget rec ''test_id'')])];
     set_last_reply (Some reply) assistant;
     r \<leftarrow> cur_runtime;
     update_active_session_history
       [(''transcript'', PDict (placement_transcript t)),
        (''turn_timings'', odict (rt_last_turn_timings r)), (''assistant'', PDict assistant),
        (''placement_test'', PDict rec)];
     record_voice_event ''placement_test.completed''
       ([(''endpoint_id'', PStr (ss_endpoint_id s)), (''session_id'', PStr (ss_session_id s))] @ place
        @ scored @ [(''warnings'', dget report ''warnings''), (''transcript_text'', PStr (tr_text t)),
           (''speaker_identity'', PDict speaker), (''audio_quality'', PDict quality)]);
     modify (\<lambda>w. w\<lparr>placement_windows := adel (ss_endpoint_id s) (placement_windows w)\<rparr>);
     final \<leftarrow> state_event EvTranscriptFinal i (transcript_payload t);
     set_session_state LocalCommand;
     set_session_state Completed;
     completed \<leftarrow> completed_event i ''placement_test'' [(''placement_test'', PDict rec)];
     finish_session i ''placement_test'' None None;
     ret [final, completed] }"

section \<open>Enrollment captures\<close>

definition enrollment_turn :: "nat \<Rightarrow> dict \<Rightarrow> dict option \<Rightarrow> (speech_transcript \<times> dict option) M" where
  \<comment> \<open>up to the voice event: the transcript and the wake recording with the transcript attached\<close>
  "enrollment_turn i window wake_recording = do {
     r \<leftarrow> cur_runtime;
     s \<leftarrow> session_at i;
     stt_started \<leftarrow> py_now;
     append_latency_point ''stt_start'' ''STT start'' stt_started;
     turn_started \<leftarrow> py_now;
     t \<leftarrow> transcribe i;
     stt_ended \<leftarrow> py_now;
     w \<leftarrow> State_Monad.get;
     let stt_ms = ms_round stt_started stt_ended;
     let quality = turn_audio_quality (env w) (turn_audio r s);
     ended \<leftarrow> py_now;
     let total_ms = ms_round turn_started ended;
     append_latency_point ''stt_end'' ''STT end'' stt_ended;
     let capture = map (\<lambda>k. (k, dget window k)) [''mode'', ''started_at'', ''expires_at''];
     let metadata = transcript_fields t @
       [(''audio_quality'', PDict quality), (''speaker_enrollment_capture'', PDict capture)];
     set_transcript_metadata metadata;
     let timings = [(''stt_ms'', PFloat stt_ms), (''assistant_ms'', PFloat 0), (''tts_ms'', PFloat 0),
       (''total_ms'', PFloat total_ms)];
     set_turn_timings timings;
     let transcript = metadata @ [(''text'', PStr (tr_text t))];
     update_active_session_history
       [(''transcript'', PDict transcript), (''turn_timings'', PDict timings),
        (''speaker_enrollment_capture'', PDict (capture @ [(''tts_suppressed'', PBool True)]))];
     recording \<leftarrow> attach_wake_recording_transcript wake_recording transcript;
     record_voice_event ''speaker_id.enrollment_capture.completed''
       ([(''endpoint_id'', PStr (ss_endpoint_id s)), (''session_id'', PStr (ss_session_id s))]
        @ [(''provider_id'', PStr (tr_provider_id t)), (''model'', ostr (tr_model t)),
           (''confidence'', onum (tr_confidence t)), (''duration_ms'', onum (tr_duration_ms t)),
           (''text_chars'', PInt (int (length (tr_text t)))), (''transcript_text'', PStr (tr_text t)),
           (''error'', ostr (tr_error t)), (''stt_ms'', PFloat stt_ms), (''total_ms'', PFloat total_ms),
           (''audio_quality'', PDict quality)]);
     ret (t, recording) }"

definition complete_enrollment_capture :: "nat \<Rightarrow> dict \<Rightarrow> dict option \<Rightarrow> envelope list M" where
  "complete_enrollment_capture i window wake_recording = do {
     (t, recording) \<leftarrow> enrollment_turn i window wake_recording;
     (if failed_with (tr_error t) then transcription_failed i t recording
      else do {
        final \<leftarrow> state_event EvTranscriptFinal i (transcript_payload t);
        set_last_transcript (tr_text t);
        let reply = ''Speaker enrollment capture recorded.'';
        let assistant =
          [(''provider_id'', PStr ''speaker_id_enrollment_capture''), (''duration_ms'', PFloat 0),
           (''text'', PStr reply), (''text_chars'', PInt (int (length reply))), (''error'', PNone),
           (''handled_locally'', PBool True),
           (''provider_metadata'', PDict [(''tts_suppressed'', PBool True)])];
        set_last_reply (Some reply) assistant;
        set_last_tts None;
        update_active_session_history [(''assistant'', PDict assistant)];
        set_session_state LocalCommand;
        set_session_state Completed;
        completed \<leftarrow> completed_event i ''speaker_enrollment_capture'' (optional_recording recording);
        finish_session i ''speaker_enrollment_capture'' None recording;
        ret [final, completed] }) }"

section \<open>Turns of the pipeline\<close>

definition turn_metadata :: "turn_result \<Rightarrow> dict" where
  "turn_metadata turn = transcript_fields (tu_transcript turn)
     @ (case tu_speaker_identity turn of None \<Rightarrow> [] | Some d \<Rightarrow> [(''speaker_identity'', PDict d)])
     @ (case tu_audio_quality turn of None \<Rightarrow> [] | Some d \<Rightarrow> [(''audio_quality'', PDict d)])"

definition timings_dict :: "turn_timings \<Rightarrow> dict" where
  "timings_dict t = [(''stt_ms'', PFloat (tm_stt_ms t)), (''assistant_ms'', PFloat (tm_assistant_ms t)),
     (''tts_ms'', PFloat (tm_tts_ms t)), (''total_ms'', PFloat (tm_total_ms t))]"

definition run_turn :: "nat \<Rightarrow> dict option \<Rightarrow> (turn_result \<times> dict option) M" where
  \<comment> \<open>up to the voice event \<open>transcript.final\<close>: the turn and the wake recording with the
      transcript attached\<close>
  "run_turn i wake_recording = do {
     stt_started \<leftarrow> py_now;
     append_latency_point ''stt_start'' ''STT start'' stt_started;
     w \<leftarrow> State_Monad.get;
     r \<leftarrow> cur_runtime;
     s \<leftarrow> session_at i;
     emit (CompleteTurn (turn_audio r s));
     let turn = e_complete_turn (env w) (trace w) (turn_audio r s);
     let stt_ended = add_ms stt_started (tm_stt_ms (tu_timings turn));
     let intent_done = add_ms stt_ended (tm_assistant_ms (tu_timings turn));
     let tts_ended = add_ms intent_done (tm_tts_ms (tu_timings turn));
     append_latency_point ''stt_end'' ''STT end'' stt_ended;
     append_latency_point ''intent_processing_done'' ''Intent processing done'' intent_done;
     append_latency_point ''tts_start'' ''TTS start'' intent_done;
     append_latency_point ''tts_end'' ''TTS end'' tts_ended;
     let t = tu_transcript turn;
     set_transcript_metadata (turn_metadata turn);
     let transcript = turn_metadata turn @ [(''text'', PStr (tr_text t))];
     set_turn_timings (timings_dict (tu_timings turn));
     update_active_session_history
       [(''transcript'', PDict transcript), (''turn_timings'', PDict (timings_dict (tu_timings turn)))];
     recording \<leftarrow> attach_wake_recording_transcript wake_recording transcript;
     record_voice_event ''transcript.final''
       ([(''endpoint_id'', PStr (ss_endpoint_id s)), (''session_id'', PStr (ss_session_id s)),
         (''provider_id'', PStr (tr_provider_id t)), (''model'', ostr (tr_model t)),
         (''confidence'', onum (tr_confidence t)), (''duration_ms'', onum (tr_duration_ms t)),
         (''text_chars'', PInt (int (length (tr_text t)))), (''transcript_text'', PStr (tr_text t)),
         (''error'', ostr (tr_error t))] @ timings_dict (tu_timings turn)
        @ [(''speaker_identity'', odict (tu_speaker_identity turn)),
           (''audio_quality'', odict (tu_audio_quality turn))]);
     ret (turn, recording) }"

definition assistant_dict :: "turn_result \<Rightarrow> dict" where
  "assistant_dict turn =
     (let a = tu_assistant_response turn in
      [(''provider_id'', PStr (ar_provider_id a)), (''model'', ostr (ar_model a)),
       (''duration_ms'', PFloat (tm_assistant_ms (tu_timings turn))),
       (''text'', PStr (ar_spoken_text a)),
       (''text_chars'', PInt (int (length (ar_spoken_text a)))), (''error'', ostr (ar_error a)),
       (''handled_locally'', PBool (ar_handled_locally a)),
       (''provider_latency_ms'', onum (ar_provider_latency_ms a)),
       (''provider_metadata'', odict (ar_provider_metadata a)),
       (''fallback_used'', PBool (ar_fallback_used a)),
       (''fallback_reason'', ostr (ar_fallback_reason a)),
       (''intent_latency_ms'', onum (ar_intent_latency_ms a)),
       (''conversation_followup'', odict (ar_conversation_followup a))]
      @ (case tu_speaker_identity turn of None \<Rightarrow> [] | Some d \<Rightarrow> [(''speaker_identity'', PDict d)]))"

definition answer_turn :: "nat \<Rightarrow> turn_result \<Rightarrow> envelope list M" where
  \<comment> \<open>from \<open>transcript.final\<close> to the state \<open>responding\<close>\<close>
  "answer_turn i turn = do {
     let a = tu_assistant_response turn;
     final \<leftarrow> state_event EvTranscriptFinal i (transcript_payload (tu_transcript turn));
     set_last_transcript (tr_text (tu_transcript turn));
     set_session_state (if ar_handled_locally a then LocalCommand else Routing);
     said \<leftarrow> (if ar_spoken_text a = [] then ret []
       else do { e \<leftarrow> state_event EvResponseText i [(''text'', PStr (ar_spoken_text a))]; ret [e] });
     set_last_reply (nonempty (ar_spoken_text a)) (assistant_dict turn);
     update_active_session_history [(''assistant'', PDict (assistant_dict turn))];
     set_session_state Responding;
     ret (final # said) }"

definition store_tts :: "nat \<Rightarrow> turn_result \<Rightarrow> unit M" where
  \<comment> \<open>\<open>_last_tts\<close> and the voice event \<open>tts.ready\<close>\<close>
  "store_tts i turn = do {
     s \<leftarrow> session_at i;
     let tts = tu_tts turn;
     let spoken = ar_spoken_text (tu_assistant_response turn);
     let metadata = aput ''spoken_text'' (PStr spoken) (tts_synthesis_metadata tts);
     set_last_tts (Some metadata);
     cleaned \<leftarrow> attach_tts_sidecar_turn_text tts
       (turn_metadata turn @ [(''text'', PStr (tr_text (tu_transcript turn)))]) spoken;
     let last_tts = aput ''transcript'' (PDict cleaned) metadata;
     set_last_tts (Some last_tts);
     update_active_session_history [(''tts'', PDict last_tts)];
     record_voice_event ''tts.ready''
       [(''endpoint_id'', PStr (ss_endpoint_id s)), (''session_id'', PStr (ss_session_id s)),
        (''provider_id'', PStr (ts_provider_id tts)), (''content_type'', PStr (ts_content_type tts)),
        (''stream_id'', ostr (ts_stream_id tts)), (''audio_url'', ostr (tts_endpoint_url tts)),
        (''audio_variant'', ostr (ts_audio_variant tts)),
        (''raw_sample_rate_hz'', oint (ts_raw_sample_rate_hz tts)),
        (''output_sample_rate_hz'', oint (ts_output_sample_rate_hz tts)),
        (''text_chars'', PInt (int (length spoken))), (''spoken_text'', PStr spoken),
        (''duration_ms'', PFloat (tm_tts_ms (tu_timings turn))), (''error'', ostr (ts_error tts))] }"

definition complete_session :: "nat \<Rightarrow> string \<Rightarrow> dict option \<Rightarrow> envelope list \<Rightarrow> envelope list M" where
  \<comment> \<open>the state \<open>completed\<close>, its event, and the end of the session\<close>
  "complete_session i reason recording events = do {
     set_session_state Completed;
     e \<leftarrow> completed_event i reason (optional_recording recording);
     finish_session i reason None recording;
     ret (events @ [e]) }"

definition announce_tts :: "nat \<Rightarrow> turn_result \<Rightarrow> dict option \<Rightarrow> envelope list \<Rightarrow> envelope list M" where
  \<comment> \<open>from the check of \<open>turn.tts.error\<close> on\<close>
  "announce_tts i turn recording events = do {
     s \<leftarrow> session_at i;
     let tts = tu_tts turn;
     (if failed_with (ts_error tts) then do {
        e \<leftarrow> error_event (ss_endpoint_id s) (Some (ss_session_id s)) ''tts_failed''
          (str_or (ts_error tts) []) True;
        set_session_state Failed;
        finish_session i ''tts_failed'' (Some (ev_payload e)) recording;
        ret (events @ [e]) }
      else do {
        screen \<leftarrow> ui_screen_render_event (ss_endpoint_id s) ''playback'' ''temporary'' (Some 300000);
        ready \<leftarrow> state_event EvTtsReady i
          [(''content_type'', PStr (ts_content_type tts)), (''stream_id'', ostr (ts_stream_id tts)),
           (''audio_url'', ostr (tts_endpoint_url tts))];
        t \<leftarrow> py_now;
        update_vad_latency ''tts_ready'' t;
        (case ar_conversation_followup (tu_assistant_response turn) of
           Some (x # d) \<Rightarrow> do {
             let followup = aupdate (x # d)
               [(''listen_timeout_ms'', PInt followup_listen_timeout_ms),
                (''state'', PStr ''waiting_for_tts_playback'')];
             upd_runtime (\<lambda>r. r\<lparr>rt_pending_followup := Some followup\<rparr>);
             update_active_session_history [(''conversation_followup'', PDict followup)];
             ret (events @ [screen, ready]) }
         | _ \<Rightarrow> complete_session i ''turn_completed'' recording (events @ [screen, ready])) }) }"

definition pipeline_turn :: "nat \<Rightarrow> dict option \<Rightarrow> envelope list M" where
  "pipeline_turn i wake_recording = do {
     (turn, recording) \<leftarrow> run_turn i wake_recording;
     (if failed_with (tr_error (tu_transcript turn))
      then transcription_failed i (tu_transcript turn) recording
      else do {
        events \<leftarrow> answer_turn i turn;
        let tts = tu_tts turn;
        (if str_or (ts_stream_id tts) [] = [] \<and> \<not> failed_with (ts_error tts) then do {
           set_last_tts None;
           complete_session i ''result_media_pending'' recording events }
         else do {
           store_tts i turn;
           announce_tts i turn recording events }) }) }"

section \<open>The handler\<close>

definition complete_without_pipeline :: "nat \<Rightarrow> dict option \<Rightarrow> envelope list M" where
  "complete_without_pipeline i wake_recording = do {
     set_session_state LocalCommand;
     set_session_state Responding;
     complete_session i ''turn_completed'' wake_recording [] }"

definition route_audio :: "nat \<Rightarrow> string \<Rightarrow> envelope list M" where
  \<comment> \<open>what the captured audio is used for\<close>
  "route_audio i endpoint_id = do {
     w \<leftarrow> State_Monad.get;
     (if e_has_turn_pipeline (env w) \<and> e_has_custom_capture (env w)
         \<and> e_custom_capture_active (env w) (trace w) endpoint_id
      then complete_custom_capture i
      else do {
        placement \<leftarrow> active_placement_test_window endpoint_id;
        r \<leftarrow> cur_runtime;
        (if is_placement_test r \<and> e_has_turn_pipeline (env w)
         then complete_active_placement_test i placement
         else do {
           wake_recording \<leftarrow> record_accepted_wake_session i;
           enrollment \<leftarrow> active_speaker_enrollment_capture_window endpoint_id;
           (if \<not> e_has_turn_pipeline (env w) then complete_without_pipeline i wake_recording
            else (case enrollment of
                Some window \<Rightarrow> complete_enrollment_capture i window wake_recording
              | None \<Rightarrow> pipeline_turn i wake_recording)) }) }) }"

definition audio_end_awake :: "envelope \<Rightarrow> nat \<Rightarrow> envelope list M" where
  "audio_end_awake event i = do {
     s \<leftarrow> session_at i;
     whenM (ss_session_state s = WakeDetected) (set_session_state Listening);
     whenM (dget (ev_payload event) ''reason'' = PStr ''vad_silence'') (do {
       set_active_session_vad
         [(''speech_ended_at'', PStr (isoformat (ev_timestamp event))),
          (''speech_end_reason'', PStr ''vad_silence'')];
       append_latency_point ''vad_silence'' ''VAD silence'' (ev_timestamp event) });
     update_vad_latency ''audio_end'' (ev_timestamp event);
     set_session_state Transcribing;
     route_audio i (ss_endpoint_id s) }"

definition handle_audio_end :: "envelope \<Rightarrow> envelope list M" where
  "handle_audio_end event = do {
     q \<leftarrow> require_active_session event;
     (case q of Inl e \<Rightarrow> ret [e]
      | Inr i \<Rightarrow> do {
          s \<leftarrow> session_at i;
          (if ss_session_state s = Idle then audio_end_idle i else audio_end_awake event i) }) }"

section \<open>Relations the operations satisfy\<close>

context bookkeeping
begin

lemma set_turn_timings_rel [evol]: "state_io_rel R (set_turn_timings d)"
  unfolding set_turn_timings_def by (intro evol mild) (simp_all add: mild_step_def)

lemma set_transcript_metadata_rel [evol]: "state_io_rel R (set_transcript_metadata d)"
  unfolding set_transcript_metadata_def by (intro evol mild) (simp_all add: mild_step_def)

lemma set_last_transcript_rel [evol]: "state_io_rel R (set_last_transcript d)"
  unfolding set_last_transcript_def by (intro evol mild) (simp_all add: mild_step_def)

lemma set_last_reply_rel [evol]: "state_io_rel R (set_last_reply a d)"
  unfolding set_last_reply_def by (intro evol mild) (simp_all add: mild_step_def)

lemma set_last_tts_rel [evol]: "state_io_rel R (set_last_tts d)"
  unfolding set_last_tts_def by (intro evol mild) (simp_all add: mild_step_def)

lemma completed_event_rel [evol]: "state_io_rel R (completed_event a b c)"
  unfolding completed_event_def by (intro evol)

lemma transcribe_rel [evol]: "state_io_rel R (transcribe i)"
  unfolding transcribe_def by (intro evol)

lemma run_placement_test_rel [evol]: "state_io_rel R (run_placement_test a b)"
  unfolding run_placement_test_def Let_def by (intro evol mild) (simp_all add: mild_step_def)

lemma enrollment_turn_rel [evol]: "state_io_rel R (enrollment_turn a b c)"
  unfolding enrollment_turn_def Let_def by (intro evol)

lemma run_turn_rel [evol]: "state_io_rel R (run_turn a b)"
  unfolding run_turn_def Let_def by (intro evol)

lemma store_tts_rel [evol]: "state_io_rel R (store_tts a b)"
  unfolding store_tts_def Let_def by (intro evol)

end

context handling
begin

lemma finish_session_rel [evol]: "state_io_rel R (finish_session a b c d)"
  unfolding finish_session_def by (intro evol fair set_session_state_rel upd_session_rel)

lemma transcription_failed_rel [evol]: "state_io_rel R (transcription_failed a b c)"
  unfolding transcription_failed_def by (intro evol fair set_session_state_rel upd_session_rel) (simp_all add: fair_step_def)

lemma audio_end_idle_rel [evol]: "state_io_rel R (audio_end_idle i)"
  unfolding audio_end_idle_def Let_def by (intro evol fair set_session_state_rel upd_session_rel) (simp_all add: fair_step_def)

lemma complete_custom_capture_rel [evol]: "state_io_rel R (complete_custom_capture i)"
  unfolding complete_custom_capture_def by (intro evol fair set_session_state_rel upd_session_rel) (simp_all add: fair_step_def)

lemma complete_active_placement_test_rel [evol]: "state_io_rel R (complete_active_placement_test a b)"
  unfolding complete_active_placement_test_def Let_def
  by (intro evol fair set_session_state_rel upd_session_rel light) (simp_all add: light_parts fair_step_def)

lemma complete_enrollment_capture_rel [evol]: "state_io_rel R (complete_enrollment_capture a b c)"
  unfolding complete_enrollment_capture_def Let_def by (intro evol fair set_session_state_rel upd_session_rel) (simp_all add: fair_step_def)

lemma answer_turn_rel [evol]: "state_io_rel R (answer_turn a b)"
  unfolding answer_turn_def Let_def by (intro evol fair set_session_state_rel upd_session_rel) (simp_all add: fair_step_def)

lemma complete_session_rel [evol]: "state_io_rel R (complete_session a b c d)"
  unfolding complete_session_def by (intro evol fair set_session_state_rel upd_session_rel) (simp_all add: fair_step_def)

lemma announce_tts_rel [evol]: "state_io_rel R (announce_tts a b c d)"
  unfolding announce_tts_def Let_def by (intro evol fair set_session_state_rel upd_session_rel ) (simp_all add: fair_step_def)

lemma pipeline_turn_rel [evol]: "state_io_rel R (pipeline_turn a b)"
  unfolding pipeline_turn_def Let_def by (intro evol fair set_session_state_rel upd_session_rel)

lemma complete_without_pipeline_rel [evol]: "state_io_rel R (complete_without_pipeline a b)"
  unfolding complete_without_pipeline_def by (intro evol fair set_session_state_rel upd_session_rel) simp_all

lemma route_audio_rel [evol]: "state_io_rel R (route_audio a b)"
  unfolding route_audio_def by (intro evol fair set_session_state_rel upd_session_rel)

lemma audio_end_awake_rel [evol]: "state_io_rel R (audio_end_awake a b)"
  unfolding audio_end_awake_def by (intro evol fair set_session_state_rel upd_session_rel) (simp_all add: fair_step_def)

lemma handle_audio_end_rel [evol]: "state_io_rel R (handle_audio_end e)"
  unfolding handle_audio_end_def by (intro evol fair set_session_state_rel upd_session_rel)

end

end
