(* ===== verification/Dispatch.thy ===== *)
theory Dispatch
  imports AudioEnd
begin

text \<open>
  From a message to its handler: the start of a session with the rules for replacing, merging or
  completing the one that is active, the checks every endpoint event passes, and the three
  transports (control WebSocket, HTTP upload, binary audio frames).
\<close>

section \<open>When a new session meets an active one\<close>

definition capture_merge_events :: "event_type set" where
  "capture_merge_events =
     {EvVadSpeechStarted, EvVadSpeechEnded, EvAudioChunk, EvAudioEnd, EvSessionCancel}"

text \<open>\<open>active_session\<close> as the handlers read it: the snapshot of the current runtime.\<close>

definition active_snapshot :: "snapshot option M" where
  "active_snapshot = do {
     w \<leftarrow> State_Monad.get;
     r \<leftarrow> cur_runtime;
     ret (map_option (sess w) (rt_active_session r)) }"

definition other_session_of :: "snapshot option \<Rightarrow> envelope \<Rightarrow> bool" where
  "other_session_of active event =
     (case active of None \<Rightarrow> False
      | Some s \<Rightarrow> ss_endpoint_id s = ev_endpoint_id event
          \<and> ev_session_id event \<noteq> Some (ss_session_id s))"

definition can_merge_placement_test_event :: "envelope \<Rightarrow> bool M" where
  "can_merge_placement_test_event event = do {
     r \<leftarrow> cur_runtime;
     active \<leftarrow> active_snapshot;
     (if other_session_of active event \<and> is_placement_test r then do {
        window \<leftarrow> active_placement_test_window (ev_endpoint_id event);
        ret (window \<noteq> None \<and> ev_event_type event \<in> capture_merge_events) }
      else ret False) }"

definition can_merge_speaker_enrollment_event :: "envelope \<Rightarrow> bool M" where
  "can_merge_speaker_enrollment_event event = do {
     r \<leftarrow> cur_runtime;
     active \<leftarrow> active_snapshot;
     (if other_session_of active event \<and> is_speaker_enrollment_capture r then do {
        window \<leftarrow> active_speaker_enrollment_capture_window (ev_endpoint_id event);
        ret (window \<noteq> None \<and> ev_event_type event \<in> capture_merge_events) }
      else ret False) }"

definition is_capturing :: "snapshot option \<Rightarrow> bool" where
  "is_capturing active =
     (case active of None \<Rightarrow> False | Some s \<Rightarrow> ss_session_state s \<in> {Listening, Capturing})"

definition should_complete_placement_test :: "envelope \<Rightarrow> bool M" where
  "should_complete_placement_test event = do {
     r \<leftarrow> cur_runtime;
     active \<leftarrow> active_snapshot;
     (if other_session_of active event \<and> ev_event_type event = EvSessionStart
         \<and> is_capturing active \<and> is_placement_test r then do {
        window \<leftarrow> active_placement_test_window (ev_endpoint_id event);
        ret (window \<noteq> None \<and> rt_chunk_count r > 0) }
      else ret False) }"

definition should_complete_speaker_enrollment :: "envelope \<Rightarrow> bool M" where
  "should_complete_speaker_enrollment event = do {
     r \<leftarrow> cur_runtime;
     active \<leftarrow> active_snapshot;
     (if other_session_of active event \<and> ev_event_type event = EvSessionStart
         \<and> is_capturing active \<and> is_speaker_enrollment_capture r then do {
        window \<leftarrow> active_speaker_enrollment_capture_window (ev_endpoint_id event);
        ret (window \<noteq> None \<and> rt_chunk_count r > 0) }
      else ret False) }"

definition replacement_grace_ms :: rat where
  "replacement_grace_ms = 750"

definition can_replace_active_session :: "runtime \<Rightarrow> snapshot \<Rightarrow> envelope \<Rightarrow> bool" where
  "can_replace_active_session r s event \<longleftrightarrow>
     ss_endpoint_id s = ev_endpoint_id event
     \<and> \<not> (rt_chunk_count r = 0
          \<and> seconds_between (ev_timestamp event) (ss_started_at s) * 1000 < replacement_grace_ms)
     \<and> (if ss_session_state s = Idle
        then dget (history_dict r ''wake'') ''outcome'' \<noteq> PStr ''accepted''
        else ss_session_state s \<in> {WakeDetected, Listening} \<and> rt_chunk_count r = 0)"

section \<open>Starting a session\<close>

definition alloc_session :: "snapshot \<Rightarrow> nat M" where
  \<comment> \<open>\<open>self._active_session = VoiceSessionSnapshot(...)\<close>\<close>
  "alloc_session s = do {
     w \<leftarrow> State_Monad.get;
     let i = next_sess w;
     modify (\<lambda>w. w\<lparr>sess := (sess w)(i := s), next_sess := Suc i,
       rts := (rts w)(ctx w := (rts w (ctx w))\<lparr>rt_active_session := Some i\<rparr>)\<rparr>);
     ret i }"

definition touch_wake :: "envelope \<Rightarrow> string \<Rightarrow> string \<Rightarrow> nat \<Rightarrow> envelope M" where
  \<comment> \<open>a session started by button, touch or by hand counts as woken\<close>
  "touch_wake event session_id source i = do {
     set_session_state WakeDetected;
     record_wake_history
       [(''outcome'', PStr ''accepted''), (''detected'', PBool True),
        (''endpoint_id'', PStr (ev_endpoint_id event)), (''session_id'', PStr session_id),
        (''model'', PStr source), (''confidence'', PFloat 1), (''source'', PStr source),
        (''chunk_count'', PInt 0)];
     set_active_session_wake
       [(''outcome'', PStr ''accepted''), (''detected'', PBool True), (''model'', PStr source),
        (''confidence'', PFloat 1), (''detected_at'', PStr (isoformat (ev_timestamp event))),
        (''source'', PStr source), (''chunk_count'', PInt 0)];
     append_latency_point ''wake_word_detected'' ''Wake word detected'' (ev_timestamp event);
     record_wake_confidence (ev_endpoint_id event) session_id (Some source) (Some 1) True True None
       (Some source) None (Some 0);
     record_voice_event ''wake.accepted''
       [(''endpoint_id'', PStr (ev_endpoint_id event)), (''session_id'', PStr session_id),
        (''model'', PStr source), (''confidence'', PFloat 1), (''source'', PStr source),
        (''chunk_count'', PInt 0)];
     wake_event \<leftarrow> state_event EvWakeAccepted i
       [(''wake'', PDict [(''confidence'', PFloat 1), (''model'', PStr source), (''source'', PStr source)])];
     set_session_state Listening;
     ret wake_event }"

definition fresh_snapshot :: "envelope \<Rightarrow> session_start_payload \<Rightarrow> string \<Rightarrow> snapshot" where
  "fresh_snapshot event p session_id =
     \<lparr>ss_session_id = session_id, ss_endpoint_id = ev_endpoint_id event,
      ss_session_state = Idle, ss_connection_state = Connected, ss_ux_state = UxWakeArmed,
      ss_started_at = ev_timestamp event, ss_last_updated_at = ev_timestamp event,
      ss_wake_source = sp_wake_source p, ss_cancel_reason = None,
      ss_completion_reason = None, ss_last_error = None\<rparr>"

definition greet :: "envelope \<Rightarrow> session_start_payload \<Rightarrow> string \<Rightarrow> nat \<Rightarrow> envelope list M" where
  \<comment> \<open>from the placement window to the returned events\<close>
  "greet event p session_id i = do {
     placement \<leftarrow> active_placement_test_window (ev_endpoint_id event);
     (case placement of None \<Rightarrow> ret ()
      | Some window \<Rightarrow> update_active_session_history [(''placement_test'', PDict (aupdate window
          [(''session_id'', PStr session_id), (''status'', PStr ''capturing'')]))]);
     (if sp_wake_source p \<in> {WakeButton, WakeManual, WakeTouch} then do {
        wake \<leftarrow> touch_wake event session_id (wake_source_name (sp_wake_source p)) i;
        e \<leftarrow> state_event EvSessionState i [];
        ret [wake, e] }
      else do { e \<leftarrow> state_event EvSessionState i []; ret [e] }) }"

definition open_session :: "envelope \<Rightarrow> envelope list M" where
  \<comment> \<open>\<open>_handle_session_start\<close> when no session is active\<close>
  "open_session event = do {
     w \<leftarrow> State_Monad.get;
     (case e_v_start (env w) (ev_payload event) of
        Inl message \<Rightarrow> reject event ''invalid_session_start'' message
      | Inr p \<Rightarrow> do {
          session_id \<leftarrow> (case ev_session_id event of
              Some (c # t) \<Rightarrow> ret (c # t)
            | _ \<Rightarrow> do { u \<leftarrow> uuid_hex; ret (''voice-session-'' @ take 12 u) });
          i \<leftarrow> alloc_session (fresh_snapshot event p session_id);
          upd_runtime (\<lambda>r. r\<lparr>rt_chunk_count := 0, rt_audio_chunks := [],
            rt_ambient_audio_chunks := [], rt_audio_format := Some (sp_audio_format p)\<rparr>);
          begin_active_session_history (fresh_snapshot event p session_id) p;
          greet event p session_id i }) }"

definition supersede_active_session :: "nat \<Rightarrow> unit M" where
  "supersede_active_session i = do {
     set_session_state Cancelled;
     set_cancel_reason i ''superseded_by_new_session'';
     persist_active_session_history i ''superseded_by_new_session'' None None;
     release_active_session_wake_stream;
     clear_active_session_runtime }"

definition complete_before_start :: "envelope \<Rightarrow> string \<Rightarrow> string \<Rightarrow> envelope list M" where
  \<comment> \<open>ends the active capture as if its audio had ended, then starts the new session if the
      capture is over\<close>
  "complete_before_start event session_id reason = do {
     completed \<leftarrow> handle_audio_end (event\<lparr>ev_event_type := EvAudioEnd,
       ev_session_id := Some session_id, ev_payload := [(''reason'', PStr reason)]\<rparr>);
     r \<leftarrow> cur_runtime;
     (if rt_active_session r = None then do {
        started \<leftarrow> open_session event;
        ret (completed @ started) }
      else ret completed) }"

definition handle_session_start :: "envelope \<Rightarrow> envelope list M" where
  "handle_session_start event = do {
     rp \<leftarrow> repr_env;
     r \<leftarrow> cur_runtime;
     (case rt_active_session r of
        None \<Rightarrow> open_session event
      | Some i \<Rightarrow> do {
          s \<leftarrow> session_at i;
          placement \<leftarrow> should_complete_placement_test event;
          (if placement then
             complete_before_start event (ss_session_id s) ''superseded_by_new_placement_session''
           else do {
             enrollment \<leftarrow> should_complete_speaker_enrollment event;
             (if enrollment then
                complete_before_start event (ss_session_id s) ''superseded_by_new_enrollment_session''
              else if can_merge_playback_interrupt_event rp r (Some s) event then do {
                e \<leftarrow> state_event EvSessionState i [];
                ret [e] }
              else if can_replace_active_session r s event then do {
                supersede_active_session i;
                open_session event }
              else reject event ''active_session_exists''
                ''Only one active voice session is supported for the MVP.'') }) }) }"

section \<open>Checks and dispatch\<close>

definition handlers :: "event_type \<Rightarrow> envelope \<Rightarrow> envelope list M" where
  "handlers et =
     (if et = EvSessionStart then handle_session_start
      else if et = EvAudioChunk then handle_audio_chunk
      else if et = EvAudioEnd then handle_audio_end
      else if et = EvVadSpeechStarted then handle_vad_speech_started
      else if et = EvVadSpeechEnded then handle_vad_speech_ended
      else if et = EvWakeCandidate then handle_wake_candidate
      else if et = EvSessionCancel then handle_session_cancel
      else if et = EvSessionPing then handle_session_ping
      else if et = EvCommandAck then handle_command_ack
      else if et = EvCommandError then handle_command_error
      else if et = EvEndpointUiButtonPressed then handle_ui_button_pressed
      else if et = EvEndpointUiScreenChanged then handle_ui_screen_changed
      else handle_tts_playback_event)"

definition adopt_session :: "envelope \<Rightarrow> envelope M" where
  \<comment> \<open>\<open>event.model_copy(update={"session_id": self._active_session.session_id})\<close>\<close>
  "adopt_session event = do {
     active \<leftarrow> active_snapshot;
     ret (case active of None \<Rightarrow> event | Some s \<Rightarrow> event\<lparr>ev_session_id := Some (ss_session_id s)\<rparr>) }"

definition refuse :: "envelope \<Rightarrow> string \<Rightarrow> string \<Rightarrow> bool \<Rightarrow> envelope list M" where
  "refuse event code message recoverable = do {
     e \<leftarrow> error_event (ev_endpoint_id event) (ev_session_id event) code message recoverable;
     ret [e] }"

definition dispatch_bound :: "envelope \<Rightarrow> envelope list M" where
  \<comment> \<open>after the checks: bind the endpoint, merge captures, call the handler\<close>
  "dispatch_bound event = do {
     r \<leftarrow> cur_runtime;
     whenM (rt_connected_endpoint_id r = None) (set_connected_endpoint (Some (ev_endpoint_id event)));
     placement \<leftarrow> can_merge_placement_test_event event;
     event1 \<leftarrow> (if placement then adopt_session event else ret event);
     enrollment \<leftarrow> can_merge_speaker_enrollment_event event1;
     event2 \<leftarrow> (if enrollment then adopt_session event1 else ret event1);
     handlers (ev_event_type event2) event2 }"

definition handle_endpoint_event :: "envelope \<Rightarrow> string \<Rightarrow> event_type list option \<Rightarrow> envelope list M" where
  "handle_endpoint_event event transport_name allowed = do {
     w \<leftarrow> State_Monad.get;
     r \<leftarrow> cur_runtime;
     let name = event_name (ev_event_type event);
     (if ev_direction event \<noteq> EndpointToBackend then
        refuse event ''invalid_direction''
          (''Endpoint '' @ transport_name @ '' messages must use endpoint_to_backend direction.'') True
      else if ev_event_type event \<notin> set endpoint_to_backend_events then
        refuse event ''unsupported_endpoint_event''
          (name @ '' is not accepted from endpoints.'') True
      else if (case allowed of None \<Rightarrow> False | Some l \<Rightarrow> ev_event_type event \<notin> set l) then
        refuse event ''unsupported_endpoint_transport_event''
          (name @ '' is not accepted on the '' @ transport_name @ '' transport.'') True
      else if (case aget (endpoint_runtimes w) (ev_endpoint_id event) of None \<Rightarrow> False
               | Some r' \<Rightarrow> r' \<noteq> ctx w \<and> runtime_live (rts w r')) then
        refuse event ''endpoint_already_connected''
          ''This endpoint already has an active WebSocket.'' False
      else if rt_connected_endpoint_id r \<noteq> None
              \<and> rt_connected_endpoint_id r \<noteq> Some (ev_endpoint_id event) then
        refuse event ''endpoint_conflict''
          ''This WebSocket is already bound to another endpoint.'' False
      else dispatch_bound event) }"

section \<open>Transports\<close>

definition handle_raw_message :: "string \<Rightarrow> envelope list M" where
  "handle_raw_message raw_message = do {
     w \<leftarrow> State_Monad.get;
     (case e_json_loads (env w) raw_message of
        None \<Rightarrow> do {
          let message = ''Voice WebSocket messages must be valid JSON envelopes.'';
          record_event_diagnostic ''invalid_json'' ''unknown'' None None message;
          e \<leftarrow> error_event ''unknown'' None ''invalid_json'' message True;
          ret [e] }
      | Some raw_payload \<Rightarrow> (case e_v_envelope (env w) raw_payload of
          Inl (loc, msg) \<Rightarrow> do {
            let location = join ''.'' loc;
            let message = (if location = [] then msg else location @ '': '' @ msg);
            record_event_diagnostic ''invalid_event_envelope'' (safe_endpoint_id raw_payload)
              (safe_session_id raw_payload) (safe_event_type raw_payload) message;
            e \<leftarrow> error_event (safe_endpoint_id raw_payload) (safe_session_id raw_payload)
              ''invalid_event_envelope'' message True;
            ret [e] }
        | Inr event \<Rightarrow> handle_endpoint_event event ''WebSocket'' None)) }"

definition http_audio_events :: "event_type list" where
  "http_audio_events = [EvAudioChunk]"

definition upload_ids :: "string \<Rightarrow> string option \<Rightarrow> event_type \<Rightarrow> dict" where
  "upload_ids endpoint_id session_id et =
     [(''endpoint_id'', PStr endpoint_id), (''session_id'', ostr session_id),
      (''event_type'', PStr (event_name et))]"

definition upload_rejected :: "string \<Rightarrow> string \<Rightarrow> string option \<Rightarrow> event_type \<Rightarrow> dict" where
  "upload_rejected reason endpoint_id session_id et =
     [(''accepted'', PBool False), (''status'', PStr ''rejected''), (''reason'', PStr reason)]
     @ upload_ids endpoint_id session_id et"

definition upload_result :: "envelope \<Rightarrow> envelope list \<Rightarrow> dict" where
  "upload_result event events =
     (let accepted = (\<forall>e \<in> set events. ev_event_type e \<noteq> EvSessionError) in
      [(''accepted'', PBool accepted),
       (''status'', PStr (if accepted then ''accepted'' else ''rejected''))]
      @ upload_ids (ev_endpoint_id event) (ev_session_id event) (ev_event_type event)
      @ [(''response_event_count'', PInt (int (length events)))])"

definition handle_http_audio_event :: "envelope \<Rightarrow> dict M" where
  "handle_http_audio_event event = do {
     w \<leftarrow> State_Monad.get;
     (case runtime_for_endpoint (ev_endpoint_id event) w of
        None \<Rightarrow> do {
          record_event_diagnostic ''endpoint_control_ws_unavailable'' (ev_endpoint_id event)
            (ev_session_id event) (Some (event_name (ev_event_type event)))
            ''HTTP audio upload requires an active endpoint control WebSocket.'';
          ret (upload_rejected ''endpoint_control_ws_unavailable'' (ev_endpoint_id event)
            (ev_session_id event) (ev_event_type event)) }
      | Some r \<Rightarrow> do {
          events \<leftarrow> with_runtime r (handle_endpoint_event event ''HTTP audio'' (Some http_audio_events));
          for_each (\<lambda>e. schedule_endpoint_event (ev_endpoint_id e) e) events;
          ret (upload_result event events) }) }"

definition binary_chunk_event :: "string \<Rightarrow> bytes \<Rightarrow> string \<Rightarrow> int \<Rightarrow> int \<Rightarrow> string \<Rightarrow> nat \<Rightarrow> envelope M" where
  "binary_chunk_event endpoint_id audio_bytes encoding sample_rate_hz channels session_id chunk_index = do {
     w \<leftarrow> State_Monad.get;
     u \<leftarrow> uuid_hex;
     t \<leftarrow> py_now;
     ret \<lparr>ev_event_type = EvAudioChunk, ev_event_id = ''evt_'' @ u, ev_endpoint_id = endpoint_id,
       ev_direction = EndpointToBackend, ev_session_id = Some session_id, ev_sequence = None,
       ev_timestamp = t,
       ev_payload =
         [(''chunk_index'', PInt (int chunk_index)),
          (''audio_format'', PDict [(''encoding'', PStr encoding),
            (''sample_rate_hz'', PInt sample_rate_hz), (''channels'', PInt channels)]),
          (''payload_base64'', PStr (e_b64encode (env w) audio_bytes)),
          (''contains_speech'', PBool True)]\<rparr> }"

definition handle_binary_audio_frame :: "string \<Rightarrow> bytes \<Rightarrow> string \<Rightarrow> int \<Rightarrow> int \<Rightarrow> dict M" where
  "handle_binary_audio_frame endpoint_id audio_bytes encoding sample_rate_hz channels = do {
     w \<leftarrow> State_Monad.get;
     (case runtime_for_endpoint endpoint_id w of
        None \<Rightarrow> do {
          record_event_diagnostic ''endpoint_control_ws_unavailable'' endpoint_id None
            (Some ''audio.chunk'') ''Binary audio frame requires an active endpoint control WebSocket.'';
          ret (upload_rejected ''endpoint_control_ws_unavailable'' endpoint_id None EvAudioChunk) }
      | Some r \<Rightarrow> do {
          let sid = map_option (\<lambda>i. ss_session_id (sess w i)) (rt_active_session (rts w r));
          (if audio_bytes = [] then ret (upload_rejected ''audio_payload_required'' endpoint_id sid EvAudioChunk)
           else if length audio_bytes > 64 * 1024 then
             ret (upload_rejected ''audio_payload_too_large'' endpoint_id sid EvAudioChunk)
           else (case sid of
               None \<Rightarrow> with_runtime r (do {
                 record_event_diagnostic ''endpoint_voice_session_unavailable'' endpoint_id None
                   (Some ''audio.chunk'') ''Binary audio frame arrived before an active voice session.'';
                 ret (upload_rejected ''endpoint_voice_session_unavailable'' endpoint_id None EvAudioChunk) })
             | Some session_id \<Rightarrow> do {
                 (event, events) \<leftarrow> with_runtime r (do {
                   q \<leftarrow> cur_runtime;
                   upd_runtime (\<lambda>q. q\<lparr>rt_audio_ws_chunk_index := Suc (rt_audio_ws_chunk_index q)\<rparr>);
                   event \<leftarrow> binary_chunk_event endpoint_id audio_bytes encoding sample_rate_hz channels
                     session_id (rt_audio_ws_chunk_index q);
                   events \<leftarrow> handle_endpoint_event event ''audio WebSocket'' (Some http_audio_events);
                   ret (event, events) });
                 for_each (\<lambda>e. schedule_endpoint_event (ev_endpoint_id e) e) events;
                 ret (upload_result event events) })) }) }"

section \<open>Relations the operations satisfy\<close>

context bookkeeping
begin

lemma active_snapshot_rel [evol]: "state_io_rel R active_snapshot"
  unfolding active_snapshot_def by (intro evol)

lemma can_merge_placement_test_event_rel [evol]: "state_io_rel R (can_merge_placement_test_event e)"
  unfolding can_merge_placement_test_event_def by (intro evol)

lemma can_merge_speaker_enrollment_event_rel [evol]: "state_io_rel R (can_merge_speaker_enrollment_event e)"
  unfolding can_merge_speaker_enrollment_event_def by (intro evol)

lemma should_complete_placement_test_rel [evol]: "state_io_rel R (should_complete_placement_test e)"
  unfolding should_complete_placement_test_def by (intro evol)

lemma should_complete_speaker_enrollment_rel [evol]: "state_io_rel R (should_complete_speaker_enrollment e)"
  unfolding should_complete_speaker_enrollment_def by (intro evol)

lemma adopt_session_rel [evol]: "state_io_rel R (adopt_session e)"
  unfolding adopt_session_def by (intro evol)

lemma refuse_rel [evol]: "state_io_rel R (refuse a b c d)"
  unfolding refuse_def by (intro evol)

lemma binary_chunk_event_rel [evol]: "state_io_rel R (binary_chunk_event a b c d e f g)"
  unfolding binary_chunk_event_def by (intro evol)

end

locale session_opening = handling +
  assumes alloc_session_rel:
    "ss_ux_state s = project_ux_state (ss_session_state s) \<Longrightarrow> state_io_rel R (alloc_session s)"
begin

lemma touch_wake_rel [evol]: "state_io_rel R (touch_wake a b c d)"
  unfolding touch_wake_def by (intro evol fair set_session_state_rel upd_session_rel) (simp_all add: fair_step_def)

lemma greet_rel [evol]: "state_io_rel R (greet a b c d)"
  unfolding greet_def by (intro evol)

lemma open_session_rel [evol]: "state_io_rel R (open_session e)"
  unfolding open_session_def by (intro evol fair set_session_state_rel upd_session_rel alloc_session_rel)
    (simp_all add: fair_step_def fresh_snapshot_def)

lemma supersede_active_session_rel [evol]: "state_io_rel R (supersede_active_session i)"
  unfolding supersede_active_session_def by (intro evol fair set_session_state_rel upd_session_rel) (simp_all add: fair_step_def)

lemma complete_before_start_rel [evol]: "state_io_rel R (complete_before_start a b c)"
  unfolding complete_before_start_def by (intro evol fair set_session_state_rel upd_session_rel)

lemma handle_session_start_rel [evol]: "state_io_rel R (handle_session_start e)"
  unfolding handle_session_start_def by (intro evol fair set_session_state_rel upd_session_rel)

lemma handlers_rel [evol]: "state_io_rel R (handlers et e)"
  unfolding handlers_def by (simp add: evol)

end

lemma alloc_session_run:
  "run_state (alloc_session s) w = (next_sess w, w\<lparr>sess := (sess w)(next_sess w := s),
     next_sess := Suc (next_sess w),
     rts := (rts w)(ctx w := (rts w (ctx w))\<lparr>rt_active_session := Some (next_sess w)\<rparr>)\<rparr>)"
  by (simp add: alloc_session_def Let_def)

interpretation evo: session_opening evolves
proof
  fix s :: snapshot
  assume "ss_ux_state s = project_ux_state (ss_session_state s)"
  then have "evolves w (snd (run_state (alloc_session s) w))" for w
    by (auto simp: alloc_session_run evolves_def world_parts less_Suc_eq)
  then show "keeps (alloc_session s)" by (simp add: state_io_rel_def)
qed

interpretation wio: session_opening wired
  by unfold_locales (simp add: state_io_rel_def alloc_session_run wired_def)

lemma dispatch_bound_evol [evol]: "keeps (dispatch_bound e)"
  unfolding dispatch_bound_def by (intro evol)

lemma handle_endpoint_event_evol [evol]: "keeps (handle_endpoint_event a b c)"
  unfolding handle_endpoint_event_def Let_def by (intro evol)

lemma handle_raw_message_evol [evol]: "keeps (handle_raw_message m)"
  unfolding handle_raw_message_def Let_def by (intro evol)

lemma handle_http_audio_event_evol [evol]: "keeps (handle_http_audio_event e)"
  unfolding handle_http_audio_event_def by (intro evol)

lemma handle_binary_audio_frame_evol [evol]: "keeps (handle_binary_audio_frame a b c d e)"
  unfolding handle_binary_audio_frame_def Let_def by (intro evol ev.set_session_state_rel upd_runtime_keeps) simp_all

end
