(* ===== verification/EndpointCommands.thy ===== *)
theory EndpointCommands
  imports Dispatch
begin

text \<open>
  The commands the backend pushes to an endpoint. All go through \<open>push_endpoint_command\<close>,
  which finds the live connection of the endpoint, sends the command with the next sequence
  number and records it as pending. What a command returns is the dict of the code. A lookup of
  an unknown screen raises: the operations that can raise return a sum.
\<close>

section \<open>Sending a command\<close>

definition rejected :: "pv \<Rightarrow> dict" where
  "rejected reason = [(''accepted'', PBool False), (''reason'', reason), (''status'', PStr ''failed'')]"

definition push_endpoint_command ::
  "string \<Rightarrow> event_type \<Rightarrow> string \<Rightarrow> dict \<Rightarrow> string option \<Rightarrow> string option \<Rightarrow> dict M" where
  \<comment> \<open>the pause that keeps a sound behind the screen it belongs to has no effect on the state\<close>
  "push_endpoint_command endpoint_id et command_type payload request_id session_id = do {
     w \<leftarrow> State_Monad.get;
     (case runtime_for_endpoint endpoint_id w of
        None \<Rightarrow> ret (rejected (PStr ''endpoint_not_connected''))
      | Some r \<Rightarrow> (case rt_websocket (rts w r) of
          None \<Rightarrow> ret (rejected (PStr ''endpoint_not_connected''))
        | Some ws \<Rightarrow> with_runtime r (do {
            rid \<leftarrow> (case request_id of
                Some (c # x) \<Rightarrow> ret (c # x)
              | _ \<Rightarrow> do { u \<leftarrow> uuid_hex; ret (''cmd_'' @ u) });
            active \<leftarrow> active_session_id;
            n \<leftarrow> next_sequence;
            event \<leftarrow> mk_event et endpoint_id
              (case session_id of Some (c # x) \<Rightarrow> Some (c # x) | _ \<Rightarrow> active) n
              (aupdate [(''request_id'', PStr rid)] payload);
            emit (SendJson ws event);
            whenM (command_type = ''endpoint.ui.screen.render'') (do {
              t \<leftarrow> py_now;
              modify (\<lambda>w. w\<lparr>last_ui_render_sent_at := aput endpoint_id t (last_ui_render_sent_at w)\<rparr>) });
            note_event_type (event_name et);
            rec \<leftarrow> record_command rid endpoint_id command_type (event_name et) None;
            ret [(''accepted'', PBool True), (''request_id'', PStr rid), (''status'', dget rec ''status'')] }))) }"

definition is_accepted :: "dict \<Rightarrow> bool" where
  "is_accepted result \<longleftrightarrow> truthy (dget result ''accepted'')"

definition in_endpoint_runtime :: "string \<Rightarrow> 'a M \<Rightarrow> 'a M" where
  \<comment> \<open>the switch to the endpoint's runtime at the start of a command: the recursive call finds
      that runtime current and goes on\<close>
  "in_endpoint_runtime endpoint_id m = do {
     w \<leftarrow> State_Monad.get;
     (case runtime_for_endpoint endpoint_id w of
        None \<Rightarrow> m
      | Some r \<Rightarrow> if r \<noteq> ctx w then with_runtime r m else m) }"

section \<open>Firmware updates\<close>

definition push_ota_update ::
  "string \<Rightarrow> string \<Rightarrow> string option \<Rightarrow> string option \<Rightarrow> string option \<Rightarrow> int option \<Rightarrow> string option
   \<Rightarrow> string option \<Rightarrow> string option \<Rightarrow> dict option \<Rightarrow> dict M" where
  "push_ota_update endpoint_id url version profile sha256 size_bytes algorithm key_id signature metadata = do {
     w \<leftarrow> State_Monad.get;
     (case runtime_for_endpoint endpoint_id w of
        None \<Rightarrow> ret [(''accepted'', PBool False), (''reason'', PStr ''endpoint_not_connected'')]
      | Some r \<Rightarrow> with_runtime r (do {
          u \<leftarrow> uuid_hex;
          let rid = ''cmd_'' @ u;
          let payload =
            [(''request_id'', PStr rid), (''url'', PStr url), (''version'', ostr version),
             (''profile'', ostr profile), (''sha256'', ostr sha256), (''size_bytes'', oint size_bytes),
             (''signature_algorithm'', ostr algorithm), (''signature_key_id'', ostr key_id),
             (''manifest_signature'', ostr signature)];
          active \<leftarrow> active_session_id;
          n \<leftarrow> next_sequence;
          event \<leftarrow> mk_event EvOtaUpdate endpoint_id active n
            (case metadata of None \<Rightarrow> payload
             | Some m \<Rightarrow> aupdate payload (filter (\<lambda>kv. snd kv \<noteq> PNone) m));
          (case rt_websocket (rts w r) of None \<Rightarrow> ret () | Some ws \<Rightarrow> emit (SendJson ws event));
          note_event_type ''ota.update'';
          rec \<leftarrow> record_command rid endpoint_id ''ota.update'' ''ota.update'' (Some 180);
          ret [(''accepted'', PBool True), (''request_id'', PStr rid), (''status'', dget rec ''status'')] })) }"

section \<open>Settings and screens\<close>

definition push_volume_command :: "string \<Rightarrow> int \<Rightarrow> dict M" where
  "push_volume_command endpoint_id volume_percent = do {
     result \<leftarrow> push_endpoint_command endpoint_id EvEndpointVolume ''endpoint.volume.set''
       [(''volume_percent'', PInt volume_percent)] None None;
     whenM (is_accepted result)
       (modify (\<lambda>w. w\<lparr>last_volume := aput endpoint_id volume_percent (last_volume w)\<rparr>));
     ret result }"

definition push_mute_command :: "string \<Rightarrow> bool \<Rightarrow> dict M" where
  "push_mute_command endpoint_id muted =
     push_endpoint_command endpoint_id EvEndpointMute ''endpoint.mute'' [(''muted'', PBool muted)] None None"

definition push_micro_vad_command :: "string \<Rightarrow> int option \<Rightarrow> int option \<Rightarrow> dict M" where
  "push_micro_vad_command endpoint_id pause_ms energy_threshold =
     push_endpoint_command endpoint_id EvEndpointMicroVad ''endpoint.micro_vad.set''
       (filter (\<lambda>kv. snd kv \<noteq> PNone)
         [(''pause_ms'', oint pause_ms), (''energy_threshold'', oint energy_threshold)]) None None"

definition push_startup_runtime_config :: "string \<Rightarrow> unit M" where
  "push_startup_runtime_config endpoint_id = do {
     w \<leftarrow> State_Monad.get;
     for_each (\<lambda>(et, command_type, payload). do {
         push_endpoint_command endpoint_id et command_type payload None None; ret () })
       (e_runtime_commands (env w) (trace w) endpoint_id) }"

definition push_reloaded_runtime_config :: "bool \<Rightarrow> (bool \<times> string list) M" where
  \<comment> \<open>\<open>changed\<close> is the answer of \<open>reload_if_changed\<close>\<close>
  "push_reloaded_runtime_config changed = do {
     w \<leftarrow> State_Monad.get;
     (if \<not> changed then ret (False, [])
      else do {
        for_each push_startup_runtime_config (connected_endpoint_ids w);
        ret (True, connected_endpoint_ids w) }) }"

definition push_restart_command :: "string \<Rightarrow> string \<Rightarrow> dict M" where
  "push_restart_command endpoint_id reason =
     push_endpoint_command endpoint_id EvEndpointRestart ''endpoint.restart'' [(''reason'', PStr reason)] None None"

definition push_asset_sync_command :: "string \<Rightarrow> string option \<Rightarrow> dict M" where
  "push_asset_sync_command endpoint_id manifest_version =
     push_endpoint_command endpoint_id EvEndpointAssetsSync ''endpoint.assets.sync''
       (case manifest_version of Some (c # v) \<Rightarrow> [(''manifest_version'', PStr (c # v))] | _ \<Rightarrow> []) None None"

definition push_asset_prepare_command :: "string \<Rightarrow> dict \<Rightarrow> dict M" where
  "push_asset_prepare_command endpoint_id asset = do {
     u \<leftarrow> uuid_hex;
     push_endpoint_command endpoint_id EvEndpointAssetPrepare ''endpoint.asset.prepare'' asset
       (Some (''asset_prepare_'' @ u)) None }"

definition push_screen_render :: "string \<Rightarrow> dict \<Rightarrow> dict M" where
  "push_screen_render endpoint_id payload =
     push_endpoint_command endpoint_id EvEndpointUiScreenRender ''endpoint.ui.screen.render'' payload None None"

definition push_ui_screen_command :: "string \<Rightarrow> string \<Rightarrow> int \<Rightarrow> (string + dict) M" where
  "push_ui_screen_command endpoint_id screen_id duration_seconds = do {
     w \<leftarrow> State_Monad.get;
     (case p4_backend_screen_layout (e_p4_screens (env w)) screen_id of
        None \<Rightarrow> ret (Inl (''unknown P4 screen: '' @ screen_id))
      | Some layout \<Rightarrow> do {
          u \<leftarrow> uuid_hex;
          d \<leftarrow> push_screen_render endpoint_id
            [(''mode'', PStr ''temporary''),
             (''timeout_ms'', PInt (max 1 (min duration_seconds 30) * 1000)),
             (''revision'', PStr u), (''layout'', PDict layout)];
          ret (Inr d) }) }"

definition push_ui_debug_label_command :: "string \<Rightarrow> bool \<Rightarrow> dict M" where
  "push_ui_debug_label_command endpoint_id visible =
     push_endpoint_command endpoint_id EvEndpointUiFlags ''endpoint.ui.flags''
       [(''flags'', PDict [(''screen_debug_label'', PBool visible)])] None None"

definition push_ui_screen_set_command :: "string \<Rightarrow> string \<Rightarrow> (string + dict) M" where
  "push_ui_screen_set_command endpoint_id screen_id = do {
     w \<leftarrow> State_Monad.get;
     (case p4_backend_screen_layout (e_p4_screens (env w)) screen_id of
        None \<Rightarrow> ret (Inl (''unknown P4 screen: '' @ screen_id))
      | Some layout \<Rightarrow> do {
          u \<leftarrow> uuid_hex;
          d \<leftarrow> push_screen_render endpoint_id
            [(''mode'', PStr ''persistent''), (''revision'', PStr u), (''layout'', PDict layout)];
          ret (Inr d) }) }"

definition push_ui_layout_command :: "string \<Rightarrow> dict \<Rightarrow> string \<Rightarrow> int \<Rightarrow> dict M" where
  "push_ui_layout_command endpoint_id layout mode duration_seconds = do {
     u \<leftarrow> uuid_hex;
     push_screen_render endpoint_id
       ([(''mode'', PStr mode), (''revision'', PStr u), (''layout'', PDict layout)]
        @ (if mode = ''temporary'' then [(''timeout_ms'', PInt (max 1 (min duration_seconds 300) * 1000))] else [])) }"

definition push_ui_screen_clear_command :: "string \<Rightarrow> string option \<Rightarrow> dict M" where
  "push_ui_screen_clear_command endpoint_id mode =
     push_endpoint_command endpoint_id EvEndpointUiScreenClear ''endpoint.ui.screen.clear''
       (case mode of Some (c # m) \<Rightarrow> [(''mode'', PStr (c # m))] | _ \<Rightarrow> []) None None"

definition provisioning_fields :: "(string \<times> string) list" where
  "provisioning_fields =
     [(''provisioned_endpoint_id'', ''endpoint_id''), (''display_name'', ''display_name''),
      (''backend_host'', ''backend_host''), (''http_port'', ''http_port''), (''ws_port'', ''ws_port''),
      (''use_tls'', ''use_tls''), (''wifi_ssid'', ''wifi_ssid''), (''wifi_password'', ''wifi_password'')]"

definition push_endpoint_provisioning_apply_command :: "string \<Rightarrow> dict \<Rightarrow> dict M" where
  "push_endpoint_provisioning_apply_command endpoint_id provisioning =
     push_endpoint_command endpoint_id EvEndpointProvisioningApply ''endpoint.provisioning.apply''
       (filter (\<lambda>kv. snd kv \<noteq> PNone)
         (map (\<lambda>(source_key, target). (target, dget provisioning source_key)) provisioning_fields)) None None"

definition push_endpoint_provisioning_reset_command :: "string \<Rightarrow> dict M" where
  "push_endpoint_provisioning_reset_command endpoint_id =
     push_endpoint_command endpoint_id EvEndpointProvisioningReset ''endpoint.provisioning.reset'' [] None None"

definition push_media_transfer ::
  "string \<Rightarrow> string \<Rightarrow> string \<Rightarrow> string \<Rightarrow> string \<Rightarrow> string \<Rightarrow> string \<Rightarrow> string \<Rightarrow> int \<Rightarrow> string
   \<Rightarrow> bool \<Rightarrow> bool \<Rightarrow> dict \<Rightarrow> dict M" where
  "push_media_transfer endpoint_id request_id media_type asset_id filename destination download_url
      content_type size_bytes sha256 overwrite activate metadata =
     push_endpoint_command endpoint_id EvEndpointMediaTransfer ''endpoint.media.transfer''
       [(''media_type'', PStr media_type), (''asset_id'', PStr asset_id), (''filename'', PStr filename),
        (''destination'', PStr destination), (''download_url'', PStr download_url),
        (''content_type'', PStr content_type), (''size_bytes'', PInt size_bytes),
        (''sha256'', PStr sha256), (''overwrite'', PBool overwrite), (''rewrite'', PBool overwrite),
        (''activate'', PBool activate), (''metadata'', PDict metadata)] (Some request_id) None"

definition push_storage_reformat_command :: "string \<Rightarrow> dict M" where
  "push_storage_reformat_command endpoint_id =
     push_endpoint_command endpoint_id EvEndpointStorageReformat ''endpoint.storage.reformat'' [] None None"

definition push_led_simulation_command :: "string \<Rightarrow> string \<Rightarrow> int \<Rightarrow> dict M" where
  "push_led_simulation_command endpoint_id pattern duration_ms =
     push_endpoint_command endpoint_id EvEndpointLedSimulate ''endpoint.led.simulate''
       [(''pattern'', PStr pattern), (''duration_ms'', PInt duration_ms)] None None"

section \<open>Session control\<close>

definition push_cancel_command :: "string \<Rightarrow> string \<Rightarrow> dict M" where
  "push_cancel_command endpoint_id reason = do {
     w \<leftarrow> State_Monad.get;
     result \<leftarrow> push_endpoint_command endpoint_id EvEndpointCancel ''endpoint.cancel''
       [(''reason'', PStr reason)] None None;
     (case runtime_for_endpoint endpoint_id w of
        None \<Rightarrow> ret ()
      | Some r \<Rightarrow> whenM (is_accepted result) (with_runtime r (do {
          q \<leftarrow> cur_runtime;
          (case rt_active_session q of None \<Rightarrow> ret ()
           | Some i \<Rightarrow> do {
               set_session_state Cancelled;
               set_cancel_reason i reason;
               persist_active_session_history i reason None None;
               release_active_session_wake_stream;
               clear_active_session_runtime }) })));
     ret result }"

definition push_listen_command :: "string \<Rightarrow> string \<Rightarrow> dict M" where
  "push_listen_command endpoint_id reason =
     push_endpoint_command endpoint_id EvEndpointListen ''endpoint.listen'' [(''reason'', PStr reason)] None None"

definition push_playback_stop_command :: "string \<Rightarrow> string \<Rightarrow> dict M" where
  "push_playback_stop_command endpoint_id reason =
     push_endpoint_command endpoint_id EvPlaybackStop ''playback.stop'' [(''reason'', PStr reason)] None None"

section \<open>Speech and sounds\<close>

definition synthesize_reply :: "string \<Rightarrow> string \<Rightarrow> string \<Rightarrow> string option \<Rightarrow> tts_synthesis M" where
  \<comment> \<open>the call of the pipeline with the two assignments that follow it everywhere\<close>
  "synthesize_reply endpoint_id session_id text voice = do {
     w \<leftarrow> State_Monad.get;
     let tts = e_synthesize_reply (env w) (trace w) endpoint_id session_id text voice;
     emit (SynthesizeReply endpoint_id session_id text voice);
     upd_runtime (\<lambda>r. r\<lparr>rt_last_response := Some text, rt_last_tts := Some (tts_synthesis_metadata tts)\<rparr>);
     ret tts }"

definition tts_problem :: "tts_synthesis \<Rightarrow> dict option" where
  \<comment> \<open>the two checks after a synthesis\<close>
  "tts_problem tts =
     (if failed_with (ts_error tts) then Some (rejected (ostr (ts_error tts)))
      else if str_or (ts_stream_id tts) [] = [] then Some (rejected (PStr ''tts_stream_unavailable''))
      else None)"

definition push_session_replay :: "dict \<Rightarrow> string option \<Rightarrow> dict M" where
  "push_session_replay session endpoint_id = do {
     rp \<leftarrow> repr_env;
     let target = (case endpoint_id of Some (c # e) \<Rightarrow> c # e
       | _ \<Rightarrow> py_str rp (py_or (dget session ''endpoint_id'') (PStr [])));
     let replay = dict_of (dget session ''replay'');
     let tts = dict_of (dget session ''tts'');
     let url = endpoint_tts_audio_url tts;
     let failed = (\<lambda>reason. rejected reason @ [(''endpoint_id'', PStr target)]);
     (if target = [] then ret (failed (PStr ''endpoint_id_required''))
      else if \<not> truthy (dget replay ''eligible'') then
        ret (failed (py_or (dget replay ''reason'') (PStr ''replay_not_eligible'')))
      else if \<not> truthy (dget tts ''stream_id'') \<or> \<not> truthy url then
        ret (failed (PStr ''tts_stream_unavailable''))
      else do {
        u \<leftarrow> uuid_hex;
        result \<leftarrow> push_endpoint_command target EvEndpointReplay ''endpoint.replay.session''
          [(''stream_id'', dget tts ''stream_id''), (''content_type'', dget tts ''content_type''),
           (''audio_url'', url), (''source_session_id'', dget session ''session_id'')]
          (Some (''session_replay_'' @ u)) None;
        ret (aupdate [(''endpoint_id'', PStr target)] result) }) }"

definition replay_last :: "string \<Rightarrow> dict M" where
  \<comment> \<open>the end of \<open>push_replay_command\<close>: replay what the runtime or the history has\<close>
  "replay_last endpoint_id = do {
     w \<leftarrow> State_Monad.get;
     r \<leftarrow> cur_runtime;
     let tts = (case rt_last_tts r of None \<Rightarrow> [] | Some d \<Rightarrow> d);
     (if \<not> truthy (dget tts ''stream_id'') then
        (case (if e_has_history_store (env w) then hist_latest_replay_eligible (Some endpoint_id) (hist w)
               else None) of
           None \<Rightarrow> ret (rejected (PStr ''no_replay_available''))
         | Some session \<Rightarrow> push_session_replay session (Some endpoint_id))
      else push_endpoint_command endpoint_id EvEndpointReplay ''endpoint.replay''
        [(''stream_id'', dget tts ''stream_id''), (''content_type'', dget tts ''content_type''),
         (''audio_url'', endpoint_tts_audio_url tts)] None None) }"

definition push_replay_command :: "string \<Rightarrow> dict M" where
  "push_replay_command endpoint_id = in_endpoint_runtime endpoint_id (do {
     w \<leftarrow> State_Monad.get;
     r \<leftarrow> cur_runtime;
     (if str_or (rt_last_transcript r) [] \<noteq> [] \<and> e_has_turn_pipeline (env w) then do {
        active \<leftarrow> active_session_id;
        tts \<leftarrow> synthesize_reply endpoint_id
          (case active of None \<Rightarrow> endpoint_id @ ''-replay'' | Some sid \<Rightarrow> sid)
          (''I heard '' @ str_or (rt_last_transcript r) []) None;
        (if failed_with (ts_error tts) then ret (rejected (ostr (ts_error tts)))
         else replay_last endpoint_id) }
      else replay_last endpoint_id) })"

definition push_session_replay_command :: "string \<Rightarrow> string option \<Rightarrow> dict M" where
  "push_session_replay_command session_id endpoint_id = do {
     w \<leftarrow> State_Monad.get;
     (if \<not> e_has_history_store (env w) then ret (rejected (PStr ''session_history_unavailable''))
      else (case hist_get session_id (hist w) of
          None \<Rightarrow> ret (rejected (PStr ''session_not_found''))
        | Some session \<Rightarrow> push_session_replay session endpoint_id)) }"

definition push_speak_command :: "string \<Rightarrow> string \<Rightarrow> string option \<Rightarrow> dict M" where
  "push_speak_command endpoint_id text session_id = in_endpoint_runtime endpoint_id (do {
     w \<leftarrow> State_Monad.get;
     let spoken = strip text;
     let sid = str_or session_id (endpoint_id @ ''-speak'');
     (if \<not> e_has_turn_pipeline (env w) then ret (rejected (PStr ''turn_pipeline_unavailable''))
      else if spoken = [] then ret (rejected (PStr ''speak_text_required''))
      else do {
        tts \<leftarrow> synthesize_reply endpoint_id sid spoken None;
        (case tts_problem tts of Some d \<Rightarrow> ret d
         | None \<Rightarrow> do {
             record_voice_event ''endpoint.speak.ready''
               [(''endpoint_id'', PStr endpoint_id), (''session_id'', PStr sid),
                (''provider_id'', PStr (ts_provider_id tts)), (''content_type'', PStr (ts_content_type tts)),
                (''stream_id'', ostr (ts_stream_id tts)), (''audio_url'', ostr (tts_endpoint_url tts)),
                (''audio_variant'', ostr (ts_audio_variant tts)),
                (''raw_sample_rate_hz'', oint (ts_raw_sample_rate_hz tts)),
                (''output_sample_rate_hz'', oint (ts_output_sample_rate_hz tts)),
                (''spoken_text'', PStr spoken)];
             u \<leftarrow> uuid_hex;
             push_endpoint_command endpoint_id EvEndpointReplay ''endpoint.speak''
               [(''stream_id'', ostr (ts_stream_id tts)), (''content_type'', PStr (ts_content_type tts)),
                (''audio_url'', ostr (tts_endpoint_url tts)), (''text'', PStr spoken)]
               (Some (''endpoint_speak_'' @ u)) None }) }) })"

definition play_sound_ready ::
  "string \<Rightarrow> string option \<Rightarrow> string \<Rightarrow> string \<Rightarrow> string \<Rightarrow> string \<Rightarrow> string option
   \<Rightarrow> string option \<Rightarrow> dict \<Rightarrow> bool \<Rightarrow> string \<Rightarrow> dict M" where
  \<comment> \<open>the voice event and the command of \<open>push_play_sound_command\<close>\<close>
  "play_sound_ready endpoint_id stream_id content_type url spoken sid source_event_id interaction_id
      metadata loop mic_mode = do {
     record_voice_event ''endpoint.play_sound.ready''
       [(''endpoint_id'', PStr endpoint_id), (''session_id'', PStr sid), (''command'', PStr ''ui.play_sound''),
        (''stream_id'', ostr stream_id), (''content_type'', PStr content_type),
        (''audio_url'', PStr url), (''spoken_text'', ostr (nonempty spoken)),
        (''source_event_id'', ostr source_event_id), (''interaction_id'', ostr interaction_id),
        (''loop'', PBool loop), (''mic_mode'', PStr mic_mode), (''metadata'', PDict metadata)];
     u \<leftarrow> uuid_hex;
     push_endpoint_command endpoint_id EvEndpointReplay ''endpoint.play_sound''
       ([(''stream_id'', ostr stream_id), (''content_type'', PStr content_type),
         (''audio_url'', PStr url), (''text'', ostr (nonempty spoken)),
         (''source_event_id'', ostr source_event_id), (''interaction_id'', ostr interaction_id),
         (''command'', PStr ''ui.play_sound''), (''metadata'', PDict metadata),
         (''mic_mode'', PStr mic_mode)] @ (if loop then [(''loop'', PBool True)] else []))
       (Some (''endpoint_play_sound_'' @ u)) (Some sid) }"

definition push_play_sound_command ::
  "string \<Rightarrow> string option \<Rightarrow> string option \<Rightarrow> string option \<Rightarrow> string option \<Rightarrow> string option
   \<Rightarrow> string option \<Rightarrow> string option \<Rightarrow> string option \<Rightarrow> dict option \<Rightarrow> bool \<Rightarrow> string \<Rightarrow> dict M" where
  "push_play_sound_command endpoint_id audio_url stream_id content_type text voice session_id
      source_event_id interaction_id metadata loop mic_mode = in_endpoint_runtime endpoint_id (do {
     w \<leftarrow> State_Monad.get;
     let url = strip (str_or audio_url []);
     let spoken = strip (str_or text []);
     let mode = (if mic_mode \<in> {''pause_for_playback'', ''interrupt_only''} then mic_mode
       else ''pause_for_playback'');
     let sid = str_or session_id (endpoint_id @ ''-play-sound'');
     let extra = (case metadata of None \<Rightarrow> [] | Some d \<Rightarrow> d);
     (if url = [] \<and> spoken \<noteq> [] then
        (if \<not> e_has_turn_pipeline (env w) then ret (rejected (PStr ''turn_pipeline_unavailable''))
         else do {
           tts \<leftarrow> synthesize_reply endpoint_id sid spoken voice;
           (case tts_problem tts of Some d \<Rightarrow> ret d
            | None \<Rightarrow>
                if str_or (tts_endpoint_url tts) [] = [] then
                  ret (rejected (PStr ''audio_url_or_text_required''))
                else play_sound_ready endpoint_id (ts_stream_id tts) (ts_content_type tts)
                  (str_or (tts_endpoint_url tts) []) spoken sid source_event_id interaction_id extra loop mode) })
      else if url = [] then ret (rejected (PStr ''audio_url_or_text_required''))
      else play_sound_ready endpoint_id (nonempty (str_or stream_id []))
        (str_or content_type ''audio/wav'') url spoken sid source_event_id interaction_id extra loop mode) })"

section \<open>Timers\<close>

definition originating_voice_session :: "world \<Rightarrow> string \<Rightarrow> bool" where
  "originating_voice_session w session_id \<longleftrightarrow>
     map_option (\<lambda>i. ss_session_id (sess w i)) (rt_active_session (rts w (ctx w))) = Some session_id
     \<or> e_has_history_store (env w)
       \<and> (case hist_get session_id (hist w) of None \<Rightarrow> False | Some d \<Rightarrow> is_dict (dget d ''tts''))"

definition push_timer_announcement :: "string \<Rightarrow> string \<Rightarrow> string \<Rightarrow> string option \<Rightarrow> dict M" where
  "push_timer_announcement endpoint_id session_id text source_event_id = in_endpoint_runtime endpoint_id (do {
     w \<leftarrow> State_Monad.get;
     let announcement = strip text;
     (if \<not> e_has_turn_pipeline (env w) then ret (rejected (PStr ''turn_pipeline_unavailable''))
      else if announcement = [] then ret (rejected (PStr ''announcement_text_required''))
      else if originating_voice_session w session_id then
        ret [(''accepted'', PBool True), (''reason'', PStr ''originating_voice_session_already_replies''),
             (''status'', PStr ''skipped'')]
      else do {
        tts \<leftarrow> synthesize_reply endpoint_id session_id announcement None;
        (case tts_problem tts of Some d \<Rightarrow> ret d
         | None \<Rightarrow> do {
             record_voice_event ''timer.announcement.ready''
               [(''endpoint_id'', PStr endpoint_id), (''session_id'', PStr session_id),
                (''provider_id'', PStr (ts_provider_id tts)), (''content_type'', PStr (ts_content_type tts)),
                (''stream_id'', ostr (ts_stream_id tts)), (''audio_url'', ostr (tts_endpoint_url tts)),
                (''audio_variant'', ostr (ts_audio_variant tts)),
                (''raw_sample_rate_hz'', oint (ts_raw_sample_rate_hz tts)),
                (''output_sample_rate_hz'', oint (ts_output_sample_rate_hz tts)),
                (''spoken_text'', PStr announcement), (''source_event_id'', ostr source_event_id)];
             u \<leftarrow> uuid_hex;
             push_endpoint_command endpoint_id EvEndpointReplay ''endpoint.announcement.timer''
               [(''stream_id'', ostr (ts_stream_id tts)), (''content_type'', PStr (ts_content_type tts)),
                (''audio_url'', ostr (tts_endpoint_url tts)),
                (''announcement_type'', PStr ''timer.create_succeeded''),
                (''text'', PStr announcement), (''source_event_id'', ostr source_event_id)]
               (Some (''timer_announcement_'' @ u)) (Some session_id) }) }) })"

definition due_unix_ms :: "(instant \<Rightarrow> instant) \<Rightarrow> string \<Rightarrow> dict" where
  \<comment> \<open>the \<open>due_unix_ms\<close> entry; a time without offset is local, one that does not parse is left out\<close>
  "due_unix_ms local_utc due_at =
     (case parse_iso (replace_z due_at) of
        None \<Rightarrow> []
      | Some (t, None) \<Rightarrow> [(''due_unix_ms'', PInt (ms_between (local_utc t) 0))]
      | Some (t, Some offset) \<Rightarrow> [(''due_unix_ms'', PInt (ms_between (t - offset) 0))])"

fun int_instance :: "pv \<Rightarrow> int option" where
  \<comment> \<open>\<open>isinstance(x, int)\<close>\<close>
  "int_instance (PInt i) = Some i"
| "int_instance (PBool b) = Some (if b then 1 else 0)"
| "int_instance _ = None"

definition remaining_entry :: "pv \<Rightarrow> dict" where
  "remaining_entry v = (case int_instance v of None \<Rightarrow> [] | Some i \<Rightarrow> [(''remaining_seconds'', v)])"

definition endpoint_timer_payload :: "(pv \<Rightarrow> string) \<Rightarrow> (instant \<Rightarrow> instant) \<Rightarrow> dict \<Rightarrow> dict" where
  "endpoint_timer_payload rp local_utc timer =
     (let due_at = strip (py_str rp (py_or (dget timer ''due_at'') (PStr []))) in
      [(''timer_id'', PStr (py_str rp (py_or (dget timer ''timer_id'') (PStr [])))),
       (''state'', PStr (py_str rp (py_or (dget timer ''state'') (PStr ''active'')))),
       (''label'', PStr (py_str rp (py_or (py_or (dget timer ''title'') (dget timer ''label'')) (PStr ''Timer''))))]
      @ remaining_entry (dget timer ''remaining_seconds'')
      @ (if due_at = [] then [] else due_unix_ms local_utc due_at))"

definition endpoint_timer_state :: "string \<Rightarrow> string" where
  "endpoint_timer_state state =
     (let s = lower (strip state) in
      if s \<in> {''completed'', ''done'', ''expired''} then ''finished''
      else if s \<in> {''cancelled'', ''canceled'', ''stopped'', ''inactive''} then ''cleared'' else s)"

record timer_fields =
  tf_timer_id :: string
  tf_state :: string
  tf_label :: "string option"
  tf_due_at :: "string option"
  tf_remaining :: "pv"

definition primary_timer :: "(pv \<Rightarrow> string) \<Rightarrow> dict list option \<Rightarrow> timer_fields \<Rightarrow> timer_fields" where
  \<comment> \<open>\<open>if timers:\<close> the first timer takes precedence over the arguments\<close>
  "primary_timer rp timers f =
     (case timers of
        Some (p # ps) \<Rightarrow>
          \<lparr>tf_timer_id = py_str rp (py_or (dget p ''timer_id'') (PStr (tf_timer_id f))),
           tf_state = py_str rp (py_or (dget p ''state'') (PStr (tf_state f))),
           tf_label = Some (py_str rp (py_or (py_or (py_or (dget p ''title'') (dget p ''label''))
             (ostr (tf_label f))) (PStr ''Timer''))),
           tf_due_at = nonempty (py_str rp (py_or (py_or (dget p ''due_at'') (ostr (tf_due_at f))) (PStr []))),
           tf_remaining = (case int_instance (dget p ''remaining_seconds'') of
               None \<Rightarrow> tf_remaining f | Some i \<Rightarrow> dget p ''remaining_seconds'')\<rparr>
      | _ \<Rightarrow> f)"

definition timer_payload ::
  "(pv \<Rightarrow> string) \<Rightarrow> (instant \<Rightarrow> instant) \<Rightarrow> timer_fields \<Rightarrow> string option \<Rightarrow> dict list option \<Rightarrow> dict" where
  "timer_payload rp local_utc f source_event_id timers =
     [(''timer_id'', PStr (tf_timer_id f)), (''state'', PStr (endpoint_timer_state (tf_state f))),
      (''label'', PStr (str_or (tf_label f) ''Timer'')), (''source_event_id'', ostr source_event_id)]
     @ (if tf_remaining f = PNone then [] else [(''remaining_seconds'', tf_remaining f)])
     @ (case tf_due_at f of None \<Rightarrow> [] | Some d \<Rightarrow> if d = [] then [] else due_unix_ms local_utc d)
     @ (case timers of None \<Rightarrow> []
        | Some ts \<Rightarrow> [(''timers'', PList (map (\<lambda>t. PDict (endpoint_timer_payload rp local_utc t)) (take 4 ts)))])"

definition keep_result :: "dict \<Rightarrow> (string + dict) M \<Rightarrow> (string + dict) M" where
  \<comment> \<open>a further command whose result is dropped, unless it raises\<close>
  "keep_result result m = do {
     q \<leftarrow> m;
     (case q of Inl e \<Rightarrow> ret (Inl e) | Inr _ \<Rightarrow> ret (Inr result)) }"

definition show_timer :: "string \<Rightarrow> dict \<Rightarrow> string \<Rightarrow> bool \<Rightarrow> (string + dict) M" where
  \<comment> \<open>the screen that goes with the state of the timer\<close>
  "show_timer endpoint_id result state active_timers =
     (if state = ''finished'' then do {
        first \<leftarrow> (if active_timers then push_ui_screen_set_command endpoint_id ''timer''
          else do { d \<leftarrow> push_ui_screen_clear_command endpoint_id None; ret (Inr d) });
        (case first of
           Inl e \<Rightarrow> ret (Inl e)
         | Inr _ \<Rightarrow> keep_result result (push_ui_screen_command endpoint_id ''timer_finished'' 30)) }
      else if state \<in> {''active'', ''paused''} \<or> active_timers then
        keep_result result (push_ui_screen_set_command endpoint_id ''timer'')
      else do {
        d \<leftarrow> push_ui_screen_clear_command endpoint_id None;
        ret (Inr result) })"

definition push_timer_state ::
  "string \<Rightarrow> timer_fields \<Rightarrow> string option \<Rightarrow> dict list option \<Rightarrow> (string + dict) M" where
  "push_timer_state endpoint_id f0 source_event_id timers = do {
     rp \<leftarrow> repr_env;
     w \<leftarrow> State_Monad.get;
     let f = primary_timer rp timers f0;
     u \<leftarrow> uuid_hex;
     result \<leftarrow> push_endpoint_command endpoint_id EvEndpointTimer ''endpoint.timer''
       (timer_payload rp (e_local_utc (env w)) f source_event_id timers)
       (Some (''endpoint_timer_'' @ u)) None;
     (if \<not> is_accepted result then ret (Inr result)
      else show_timer endpoint_id result (endpoint_timer_state (tf_state f))
        (case timers of Some (t # ts) \<Rightarrow> True | _ \<Rightarrow> False)) }"

section \<open>Relations the operations satisfy\<close>

context bookkeeping
begin

lemma push_endpoint_command_rel [evol]: "state_io_rel R (push_endpoint_command a b c d e f)"
  unfolding push_endpoint_command_def
  by (intro evol light) (simp add: light_parts)

lemma in_endpoint_runtime_rel [evol]: "state_io_rel R m \<Longrightarrow> state_io_rel R (in_endpoint_runtime e m)"
  unfolding in_endpoint_runtime_def by (intro evol)

lemma push_ota_update_rel [evol]: "state_io_rel R (push_ota_update a b c d e f g h i j)"
  unfolding push_ota_update_def Let_def by (intro evol)

lemma push_volume_command_rel [evol]: "state_io_rel R (push_volume_command a b)"
  unfolding push_volume_command_def
  by (intro evol light) (simp add: light_parts)

lemma push_simple_rel [evol]:
  "state_io_rel R (push_mute_command a b)" "state_io_rel R (push_micro_vad_command a c d)"
  "state_io_rel R (push_restart_command a e)" "state_io_rel R (push_asset_sync_command a f)"
  "state_io_rel R (push_screen_render a g)" "state_io_rel R (push_ui_debug_label_command a b)"
  "state_io_rel R (push_ui_screen_clear_command a f)" "state_io_rel R (push_endpoint_provisioning_apply_command a g)"
  "state_io_rel R (push_endpoint_provisioning_reset_command a)" "state_io_rel R (push_storage_reformat_command a)"
  "state_io_rel R (push_led_simulation_command a e h)" "state_io_rel R (push_listen_command a e)"
  "state_io_rel R (push_playback_stop_command a e)"
  unfolding push_mute_command_def push_micro_vad_command_def push_restart_command_def
    push_asset_sync_command_def push_screen_render_def push_ui_debug_label_command_def
    push_ui_screen_clear_command_def push_endpoint_provisioning_apply_command_def
    push_endpoint_provisioning_reset_command_def push_storage_reformat_command_def
    push_led_simulation_command_def push_listen_command_def push_playback_stop_command_def
  by (rule push_endpoint_command_rel)+

lemma push_media_transfer_rel [evol]: "state_io_rel R (push_media_transfer a b c d e f g h i j k l m)"
  unfolding push_media_transfer_def by (rule push_endpoint_command_rel)

lemma push_startup_runtime_config_rel [evol]: "state_io_rel R (push_startup_runtime_config e)"
  unfolding push_startup_runtime_config_def by (intro evol)

lemma push_reloaded_runtime_config_rel [evol]: "state_io_rel R (push_reloaded_runtime_config b)"
  unfolding push_reloaded_runtime_config_def by (intro evol)

lemma push_asset_prepare_command_rel [evol]: "state_io_rel R (push_asset_prepare_command a b)"
  unfolding push_asset_prepare_command_def by (intro evol)

lemma push_ui_screen_command_rel [evol]: "state_io_rel R (push_ui_screen_command a b c)"
  unfolding push_ui_screen_command_def by (intro evol)

lemma push_ui_screen_set_command_rel [evol]: "state_io_rel R (push_ui_screen_set_command a b)"
  unfolding push_ui_screen_set_command_def by (intro evol)

lemma push_ui_layout_command_rel [evol]: "state_io_rel R (push_ui_layout_command a b c d)"
  unfolding push_ui_layout_command_def by (intro evol)

lemma synthesize_reply_rel [evol]: "state_io_rel R (synthesize_reply a b c d)"
  unfolding synthesize_reply_def Let_def by (intro evol mild) (simp_all add: mild_step_def)

lemma push_session_replay_rel [evol]: "state_io_rel R (push_session_replay a b)"
  unfolding push_session_replay_def Let_def by (intro evol)

lemma replay_last_rel [evol]: "state_io_rel R (replay_last a)"
  unfolding replay_last_def Let_def by (intro evol)

lemma push_replay_command_rel [evol]: "state_io_rel R (push_replay_command a)"
  unfolding push_replay_command_def by (intro evol)

lemma push_session_replay_command_rel [evol]: "state_io_rel R (push_session_replay_command a b)"
  unfolding push_session_replay_command_def by (intro evol)

lemma push_speak_command_rel [evol]: "state_io_rel R (push_speak_command a b c)"
  unfolding push_speak_command_def Let_def by (intro evol)

lemma play_sound_ready_rel [evol]: "state_io_rel R (play_sound_ready a b c d e f g h i j k)"
  unfolding play_sound_ready_def by (intro evol)

lemma push_play_sound_command_rel [evol]: "state_io_rel R (push_play_sound_command a b c d e f g h i j k l)"
  unfolding push_play_sound_command_def Let_def by (intro evol)

lemma push_timer_announcement_rel [evol]: "state_io_rel R (push_timer_announcement a b c d)"
  unfolding push_timer_announcement_def Let_def by (intro evol)

lemma keep_result_rel [evol]: "state_io_rel R m \<Longrightarrow> state_io_rel R (keep_result d m)"
  unfolding keep_result_def by (intro evol)

lemma show_timer_rel [evol]: "state_io_rel R (show_timer a b c d)"
  unfolding show_timer_def by (intro evol)

lemma push_timer_state_rel [evol]: "state_io_rel R (push_timer_state a b c d)"
  unfolding push_timer_state_def Let_def by (intro evol)

end

context handling
begin

lemma push_cancel_command_rel [evol]: "state_io_rel R (push_cancel_command a b)"
  unfolding push_cancel_command_def by (intro evol fair set_session_state_rel upd_session_rel) (simp_all add: fair_step_def)

end

end
