(* ===== verification/Connections.thy ===== *)
theory Connections
  imports EndpointCommands
begin

text \<open>
  Connections and the runs of the manager: an endpoint connects (replacing its earlier
  connection), sends messages, streams audio over a second socket, disconnects; timers fire,
  scheduled events go out, operators push commands. One input is one step of the event loop.
  A connection that replaces an earlier one is suspended while that one's sockets close: it is cut
  at these points into the steps \<open>Connect\<close> and \<open>Resume\<close>, between which any other step may come. The
  messages of an endpoint are handled without suspension in the code too. The invariants of all
  reachable states are proved here.
\<close>

section \<open>Control connections\<close>

definition fresh_runtime :: "world \<Rightarrow> nat" where
  \<comment> \<open>a reference no variable and no registry entry holds\<close>
  "fresh_runtime w = Suc (fold max (map snd (endpoint_runtimes w)) (next_rt w))"

definition query_endpoint :: "string option \<Rightarrow> string option" where
  "query_endpoint endpoint_id =
     (case endpoint_id of None \<Rightarrow> None | Some e \<Rightarrow> if e = [] then None else nonempty (strip e))"

text \<open>\<open>EndpointSessionRuntime(connection_active=True, websocket=websocket)\<close>\<close>

definition adopt_runtime :: "nat \<Rightarrow> world \<Rightarrow> world" where
  "adopt_runtime ws w = w\<lparr>next_rt := fresh_runtime w,
     rts := (rts w)(fresh_runtime w := new_runtime\<lparr>rt_connection_active := True, rt_websocket := Some ws\<rparr>)\<rparr>"

definition set_up_runtime :: "nat \<Rightarrow> nat \<Rightarrow> string option \<Rightarrow> unit M" where
  "set_up_runtime r ws initial = with_runtime r (do {
     upd_runtime (\<lambda>q. q\<lparr>rt_connection_active := True\<rparr>);
     set_websocket (Some ws);
     (case initial of None \<Rightarrow> ret ()
      | Some e \<Rightarrow> do { set_connected_endpoint (Some e); push_startup_runtime_config e }) })"

definition finish_connect :: "nat \<Rightarrow> string option \<Rightarrow> unit M" where
  \<comment> \<open>\<open>handle_websocket\<close> from the new runtime up to its loop\<close>
  "finish_connect ws initial = do {
     w \<leftarrow> State_Monad.get;
     modify (adopt_runtime ws);
     set_up_runtime (fresh_runtime w) ws initial }"

text \<open>
  \<open>await self._replace_endpoint_runtime(...)\<close>: the task waits until the audio socket is closed, then
  until the control socket is, and goes on when it is resumed. A socket that is not there is not waited for.
\<close>

definition suspend_connection :: "pending_connection \<Rightarrow> unit M" where
  "suspend_connection p = modify (\<lambda>w. w\<lparr>connecting := connecting w @ [p]\<rparr>)"

definition complete_connection :: "pending_connection \<Rightarrow> unit M" where
  \<comment> \<open>both sockets are closed\<close>
  "complete_connection p = do {
     with_runtime (pc_replaced p) (replace_finish (pc_replaced p));
     finish_connect (pc_websocket p) (Some (pc_endpoint_id p)) }"

definition continue_connection :: "pending_connection \<Rightarrow> unit M" where
  \<comment> \<open>the audio socket is closed\<close>
  "continue_connection p = do {
     w \<leftarrow> State_Monad.get;
     with_runtime (pc_replaced p) replace_close;
     (if rt_websocket (rts w (pc_replaced p)) = None then complete_connection p
      else suspend_connection (p\<lparr>pc_control_closing := True\<rparr>)) }"

definition begin_connection :: "pending_connection \<Rightarrow> unit M" where
  "begin_connection p = do {
     w \<leftarrow> State_Monad.get;
     with_runtime (pc_replaced p) replace_begin;
     (if rt_audio_websocket (rts w (pc_replaced p)) = None then continue_connection p
      else suspend_connection p) }"

definition connect_websocket :: "nat \<Rightarrow> string option \<Rightarrow> unit M" where
  \<comment> \<open>\<open>handle_websocket\<close> up to its first suspension\<close>
  "connect_websocket ws endpoint_id = do {
     w \<leftarrow> State_Monad.get;
     (case query_endpoint endpoint_id of
        None \<Rightarrow> finish_connect ws None
      | Some e \<Rightarrow> (case runtime_for_endpoint e w of
          None \<Rightarrow> finish_connect ws (Some e)
        | Some r \<Rightarrow> begin_connection \<lparr>pc_websocket = ws, pc_endpoint_id = e, pc_replaced = r,
            pc_control_closing = False\<rparr>)) }"

definition resume_connection :: "nat \<Rightarrow> unit M" where
  \<comment> \<open>the socket the \<open>k\<close>-th suspended connection waits for is closed\<close>
  "resume_connection k = do {
     w \<leftarrow> State_Monad.get;
     modify (\<lambda>w. w\<lparr>connecting := take k (connecting w) @ drop (Suc k) (connecting w)\<rparr>);
     (if pc_control_closing (connecting w ! k) then complete_connection (connecting w ! k)
      else continue_connection (connecting w ! k)) }"

definition websocket_message :: "nat \<Rightarrow> nat \<Rightarrow> string \<Rightarrow> unit M" where
  \<comment> \<open>one turn of the loop of \<open>handle_websocket\<close>\<close>
  "websocket_message r ws raw_message = do {
     events \<leftarrow> with_runtime r (handle_raw_message raw_message);
     for_each (\<lambda>e. emit (SendJson ws e)) events }"

section \<open>Audio connections\<close>

definition audio_rejection :: "string \<Rightarrow> string \<Rightarrow> dict" where
  "audio_rejection reason message =
     [(''accepted'', PBool False), (''status'', PStr ''rejected''), (''reason'', PStr reason),
      (''message'', PStr message)]"

definition reject_audio_socket :: "nat \<Rightarrow> string \<Rightarrow> string \<Rightarrow> nat option M" where
  "reject_audio_socket ws reason message = do {
     emit (SendReply ws (audio_rejection reason message));
     emit (CloseSocket ws 1008);
     ret None }"

definition open_audio_websocket ::
  "nat \<Rightarrow> string option \<Rightarrow> string \<Rightarrow> int \<Rightarrow> int \<Rightarrow> nat option M" where
  \<comment> \<open>\<open>handle_audio_websocket\<close> up to its loop: the runtime whose audio socket it became\<close>
  "open_audio_websocket ws endpoint_id encoding sample_rate_hz channels = do {
     w \<leftarrow> State_Monad.get;
     (case (case endpoint_id of None \<Rightarrow> None | Some e \<Rightarrow> nonempty (strip e)) of
        None \<Rightarrow> reject_audio_socket ws ''endpoint_id_required''
          ''Audio WebSocket requires an endpoint_id query parameter.''
      | Some e \<Rightarrow>
          if encoding \<noteq> ''pcm_s16le'' \<or> sample_rate_hz < 8000 \<or> channels < 1 \<or> channels > 2 then
            reject_audio_socket ws ''invalid_audio_format''
              ''Audio WebSocket requires pcm_s16le audio with one or two channels.''
          else (case runtime_for_endpoint e w of
              None \<Rightarrow> reject_audio_socket ws ''endpoint_control_ws_unavailable''
                ''Audio WebSocket requires an active endpoint control WebSocket.''
            | Some r \<Rightarrow>
                if rt_audio_connection_active (rts w r) \<and> rt_audio_websocket (rts w r) \<noteq> None then
                  reject_audio_socket ws ''endpoint_audio_ws_already_connected''
                    ''This endpoint already has an active audio WebSocket.''
                else do {
                  with_runtime r (upd_runtime (\<lambda>q. q\<lparr>rt_audio_connection_active := True,
                    rt_audio_websocket := Some ws, rt_audio_ws_chunk_index := 0\<rparr>));
                  ret (Some r) })) }"

definition audio_websocket_frame ::
  "nat \<Rightarrow> nat \<Rightarrow> string \<Rightarrow> bytes option \<Rightarrow> string \<Rightarrow> int \<Rightarrow> int \<Rightarrow> unit M" where
  \<comment> \<open>one turn of its loop; \<open>None\<close> is a message without bytes\<close>
  "audio_websocket_frame r ws endpoint_id audio encoding sample_rate_hz channels = with_runtime r
     (case audio of
        None \<Rightarrow> emit (SendReply ws (audio_rejection ''binary_audio_required''
          ''Audio WebSocket only accepts binary PCM frames.''))
      | Some audio_bytes \<Rightarrow> do {
          result \<leftarrow> handle_binary_audio_frame endpoint_id audio_bytes encoding sample_rate_hz channels;
          whenM (\<not> is_accepted result) (emit (SendReply ws result)) })"

definition close_audio_websocket :: "nat \<Rightarrow> unit M" where
  "close_audio_websocket r = with_runtime r (upd_runtime (\<lambda>q. q\<lparr>rt_audio_websocket := None,
     rt_audio_connection_active := False\<rparr>))"

section \<open>Inputs\<close>

datatype (plugins del: size) command =
    PushOta string string "string option" "string option" "string option" "int option"
      "string option" "string option" "string option" "dict option"
  | ClearOta "string option"
  | PushVolume string int
  | PushMute string bool
  | PushMicroVad string "int option" "int option"
  | PushReloadedConfig bool
  | PushRestart string string
  | PushAssetSync string "string option"
  | PushAssetPrepare string dict
  | PushScreen string string int
  | PushDebugLabel string bool
  | PushScreenSet string string
  | PushLayout string dict string int
  | PushScreenClear string "string option"
  | PushProvisioningApply string dict
  | PushProvisioningReset string
  | PushCancel string string
  | PushListen string string
  | PushPlaybackStop string string
  | PushReplay string
  | PushSessionReplay string "string option"
  | PushSpeak string string "string option"
  | PushPlaySound string "string option" "string option" "string option" "string option"
      "string option" "string option" "string option" "string option" "dict option" bool string
  | PushTimerAnnouncement string string string "string option"
  | PushTimerState string timer_fields "string option" "dict list option"
  | PushMediaTransfer string string string string string string string string int string bool bool dict
  | PushStorageReformat string
  | PushLed string string int

primrec run_command :: "command \<Rightarrow> unit M" where
  "run_command (PushOta a b c d e f g h i j) = do { x \<leftarrow> push_ota_update a b c d e f g h i j; ret () }"
| "run_command (ClearOta e) = do { x \<leftarrow> clear_ota_commands e; ret () }"
| "run_command (PushVolume e v) = do { x \<leftarrow> push_volume_command e v; ret () }"
| "run_command (PushMute e b) = do { x \<leftarrow> push_mute_command e b; ret () }"
| "run_command (PushMicroVad e p t) = do { x \<leftarrow> push_micro_vad_command e p t; ret () }"
| "run_command (PushReloadedConfig b) = do { x \<leftarrow> push_reloaded_runtime_config b; ret () }"
| "run_command (PushRestart e s) = do { x \<leftarrow> push_restart_command e s; ret () }"
| "run_command (PushAssetSync e v) = do { x \<leftarrow> push_asset_sync_command e v; ret () }"
| "run_command (PushAssetPrepare e d) = do { x \<leftarrow> push_asset_prepare_command e d; ret () }"
| "run_command (PushScreen e s d) = do { x \<leftarrow> push_ui_screen_command e s d; ret () }"
| "run_command (PushDebugLabel e b) = do { x \<leftarrow> push_ui_debug_label_command e b; ret () }"
| "run_command (PushScreenSet e s) = do { x \<leftarrow> push_ui_screen_set_command e s; ret () }"
| "run_command (PushLayout e l m d) = do { x \<leftarrow> push_ui_layout_command e l m d; ret () }"
| "run_command (PushScreenClear e m) = do { x \<leftarrow> push_ui_screen_clear_command e m; ret () }"
| "run_command (PushProvisioningApply e d) =
     do { x \<leftarrow> push_endpoint_provisioning_apply_command e d; ret () }"
| "run_command (PushProvisioningReset e) = do { x \<leftarrow> push_endpoint_provisioning_reset_command e; ret () }"
| "run_command (PushCancel e s) = do { x \<leftarrow> push_cancel_command e s; ret () }"
| "run_command (PushListen e s) = do { x \<leftarrow> push_listen_command e s; ret () }"
| "run_command (PushPlaybackStop e s) = do { x \<leftarrow> push_playback_stop_command e s; ret () }"
| "run_command (PushReplay e) = do { x \<leftarrow> push_replay_command e; ret () }"
| "run_command (PushSessionReplay s e) = do { x \<leftarrow> push_session_replay_command s e; ret () }"
| "run_command (PushSpeak e t s) = do { x \<leftarrow> push_speak_command e t s; ret () }"
| "run_command (PushPlaySound a b c d e f g h i j k l) =
     do { x \<leftarrow> push_play_sound_command a b c d e f g h i j k l; ret () }"
| "run_command (PushTimerAnnouncement e s t i) = do { x \<leftarrow> push_timer_announcement e s t i; ret () }"
| "run_command (PushTimerState e f s ts) = do { x \<leftarrow> push_timer_state e f s ts; ret () }"
| "run_command (PushMediaTransfer a b c d e f g h i j k l m) =
     do { x \<leftarrow> push_media_transfer a b c d e f g h i j k l m; ret () }"
| "run_command (PushStorageReformat e) = do { x \<leftarrow> push_storage_reformat_command e; ret () }"
| "run_command (PushLed e p d) = do { x \<leftarrow> push_led_simulation_command e p d; ret () }"

datatype manager_input =
    Connect nat "string option"
  | Resume nat
  | Message nat nat string
  | Disconnect nat
  | HttpAudio envelope
  | AudioOpen nat "string option" string int int
  | AudioFrame nat nat string "bytes option" string int int
  | AudioClose nat
  | FollowupTimer nat string string
  | SendScheduled string envelope
  | Operator command
  | OperatorCancel string
  | OperatorStatus
  | OperatorVolume string
  | OpenEnrollment string int
  | OpenPlacement string string "string option" "string option" string "string option" int bool

text \<open>
  \<open>may_happen w x\<close>: a message or a frame arrives on the socket of its runtime, a follow-up timer
  is still pending, a scheduled event has been scheduled, a connection that is resumed is suspended.
\<close>

primrec may_happen :: "world \<Rightarrow> manager_input \<Rightarrow> bool" where
  "may_happen w (Connect ws e) = True"
| "may_happen w (Resume k) = (k < length (connecting w))"
| "may_happen w (Message r ws m) = (rt_websocket (rts w r) = Some ws)"
| "may_happen w (Disconnect r) = True"
| "may_happen w (HttpAudio ev) = True"
| "may_happen w (AudioOpen ws e enc rate ch) = True"
| "may_happen w (AudioFrame r ws e a enc rate ch) = (rt_audio_websocket (rts w r) = Some ws)"
| "may_happen w (AudioClose r) = True"
| "may_happen w (FollowupTimer r e s) = (rt_followup_task (rts w r) = Some (e, s))"
| "may_happen w (SendScheduled e ev) = (ScheduleSend e ev \<in> set (trace w))"
| "may_happen w (Operator c) = True"
| "may_happen w (OperatorCancel reason) = True"
| "may_happen w OperatorStatus = True"
| "may_happen w (OperatorVolume e) = True"
| "may_happen w (OpenEnrollment e ttl) = True"
| "may_happen w (OpenPlacement a b c d e f g h) = True"

primrec run_input :: "manager_input \<Rightarrow> unit M" where
  "run_input (Connect ws e) = connect_websocket ws e"
| "run_input (Resume k) = resume_connection k"
| "run_input (Message r ws m) = websocket_message r ws m"
| "run_input (Disconnect r) = with_runtime r disconnect_websocket"
| "run_input (HttpAudio ev) = do { d \<leftarrow> handle_http_audio_event ev; ret () }"
| "run_input (AudioOpen ws e enc rate ch) = do { r \<leftarrow> open_audio_websocket ws e enc rate ch; ret () }"
| "run_input (AudioFrame r ws e a enc rate ch) = audio_websocket_frame r ws e a enc rate ch"
| "run_input (AudioClose r) = close_audio_websocket r"
| "run_input (FollowupTimer r e s) = with_runtime r (followup_timeout e s)"
| "run_input (SendScheduled e ev) = send_endpoint_event e ev"
| "run_input (Operator c) = run_command c"
| "run_input (OperatorCancel reason) = do { x \<leftarrow> cancel_from_operator reason; ret () }"
| "run_input OperatorStatus = do { d \<leftarrow> status; ret () }"
| "run_input (OperatorVolume e) = do { d \<leftarrow> volume_status e; ret () }"
| "run_input (OpenEnrollment e ttl) = do { x \<leftarrow> start_speaker_enrollment_capture_window e ttl; ret () }"
| "run_input (OpenPlacement a b c d e f g h) = do { x \<leftarrow> start_placement_test_window a b c d e f g h; ret () }"

section \<open>Runs\<close>

definition loaded_history :: "env \<Rightarrow> dict list \<Rightarrow> bool" where
  \<comment> \<open>what the store may hold when the manager starts\<close>
  "loaded_history e h \<longleftrightarrow> length h \<le> e_history_limit e \<and> distinct (map (\<lambda>s. dget s ''session_id'') h)"

definition initial_world :: "env \<Rightarrow> int \<Rightarrow> dict list \<Rightarrow> world" where
  "initial_world e window_ms h =
     \<lparr>env = e, clock_reads = 0, uuid_reads = 0, ctx = 0, rts = (\<lambda>_. new_runtime), next_rt = 0,
      sess = (\<lambda>_. \<lparr>ss_session_id = [], ss_endpoint_id = [], ss_session_state = Idle,
        ss_connection_state = Offline, ss_ux_state = UxWakeArmed, ss_started_at = 0,
        ss_last_updated_at = 0, ss_wake_source = WakeUnknown, ss_cancel_reason = None,
        ss_completion_reason = None, ss_last_error = None\<rparr>),
      next_sess = 0, endpoint_runtimes = [], command_records = [], last_volume = [],
      event_diagnostics = [], last_ui_button = None, last_ui_screen = None,
      last_ui_render_sent_at = [], ui_button_history = [], wake_history = [],
      wake_confidence_history = [], election = init_election window_ms 50 20,
      enrollment_windows = [], placement_windows = [], hist = h, connecting = [], trace = []\<rparr>"

inductive step :: "world \<Rightarrow> manager_input \<Rightarrow> world \<Rightarrow> bool" where
  step: "may_happen w x \<Longrightarrow> snd (run_state (run_input x) w) = v \<Longrightarrow> step w x v"

inductive_cases step_cases: "step w x v"

inductive reachable :: "world \<Rightarrow> bool" where
  init: "loaded_history e h \<Longrightarrow> reachable (initial_world e window_ms h)"
| more: "reachable w \<Longrightarrow> step w x v \<Longrightarrow> reachable v"

section \<open>Every input respects the evolution\<close>

context bookkeeping
begin

lemma reject_audio_socket_rel [evol]: "state_io_rel R (reject_audio_socket a b c)"
  unfolding reject_audio_socket_def by (intro evol)

end

context handling
begin

lemma open_audio_websocket_rel [evol]: "state_io_rel R (open_audio_websocket a b c d e)"
  unfolding open_audio_websocket_def by (intro evol fair) (simp add: fair_step_def)

lemma close_audio_websocket_rel [evol]: "state_io_rel R (close_audio_websocket r)"
  unfolding close_audio_websocket_def by (intro evol fair) (simp add: fair_step_def)

lemma run_command_rel [evol]: "state_io_rel R (run_command c)"
  by (induction c) (simp_all only: run_command.simps evol)

end

lemma websocket_message_evol [evol]: "keeps (websocket_message a b c)"
  unfolding websocket_message_def by (intro evol)

lemma audio_websocket_frame_evol [evol]: "keeps (audio_websocket_frame a b c d e f g)"
  unfolding audio_websocket_frame_def by (intro evol)

definition is_connect :: "manager_input \<Rightarrow> bool" where
  "is_connect x \<longleftrightarrow> (\<exists>ws e. x = Connect ws e) \<or> (\<exists>k. x = Resume k)"

lemma run_input_evol: "\<not> is_connect x \<Longrightarrow> keeps (run_input x)"
  by (cases x) (simp_all only: run_input.simps is_connect_def, (intro evol | blast)+)

text \<open>
  A new connection takes a fresh runtime, so \<open>evolves\<close> does not hold literally. What remains of
  it, \<open>advances\<close>, is what all inputs have in common.
\<close>

definition advances :: "world \<Rightarrow> world \<Rightarrow> bool" where
  "advances v w \<longleftrightarrow>
     env w = env v \<and> ctx w = ctx v \<and> next_sess v \<le> next_sess w
     \<and> (\<exists>new. trace w = new @ trace v)
     \<and> (\<forall>i < next_sess v. session_step (sess v i) (sess w i))
     \<and> (world_ok v \<longrightarrow> world_ok w)"

lemma evolves_advances: "evolves v w \<Longrightarrow> advances v w"
  using evolves_world_ok [of v w] by (simp add: advances_def evolves_def)

lemma advances_trans:
  assumes "advances u v" "advances v w"
  shows "advances u w"
proof -
  obtain n m where "trace v = n @ trace u" "trace w = m @ trace v"
    using assms unfolding advances_def by blast
  then have t: "\<exists>new. trace w = new @ trace u" by simp
  have b: "next_sess u \<le> next_sess v" "next_sess v \<le> next_sess w"
    using assms unfolding advances_def by blast+
  have s: "session_step (sess u i) (sess w i)" if i: "i < next_sess u" for i
  proof -
    have "session_step (sess u i) (sess v i)" using assms(1) i unfolding advances_def by blast
    moreover have "session_step (sess v i) (sess w i)"
      using assms(2) i b unfolding advances_def by simp
    ultimately show ?thesis by (rule session_step_trans)
  qed
  show ?thesis unfolding advances_def using assms t b s by (simp add: advances_def)
qed

lemma le_fold_max:
  fixes x :: nat
  shows "x \<le> fold max xs x" "y \<in> set xs \<Longrightarrow> y \<le> fold max xs x"
proof (induction xs arbitrary: x)
  case (Cons z xs)
  { case 1
    show ?case using Cons.IH(1) [of "max z x"] by simp }
  { case 2
    then show ?case using Cons.IH(1) [of "max z x"] Cons.IH(2) [of "max z x"] by auto }
qed simp_all

lemma fresh_runtime: "next_rt w < fresh_runtime w" "(e, r) \<in> set (endpoint_runtimes w) \<Longrightarrow> r < fresh_runtime w"
proof -
  show "next_rt w < fresh_runtime w" by (simp add: fresh_runtime_def less_Suc_eq_le le_fold_max(1))
  assume "(e, r) \<in> set (endpoint_runtimes w)"
  then have "r \<in> set (map snd (endpoint_runtimes w))" by force
  from le_fold_max(2) [OF this, of "next_rt w"] show "r < fresh_runtime w"
    by (simp add: fresh_runtime_def)
qed

lemma adopt_runtime_advances: "advances w (adopt_runtime ws w)"
proof -
  let ?r = "fresh_runtime w"
  let ?t = "new_runtime\<lparr>rt_connection_active := True, rt_websocket := Some ws\<rparr>"
  have new: "rt_active_session ?t = None" "rt_tts_playback_history ?t = []"
    by (simp_all add: new_runtime_def)
  have "refs_ok w \<Longrightarrow> refs_ok (adopt_runtime ws w)"
    unfolding adopt_runtime_def refs_ok_def using new by (simp split: if_split)
  moreover have "registry_ok w \<Longrightarrow> registry_ok (adopt_runtime ws w)"
    unfolding adopt_runtime_def registry_ok_def using fresh_runtime(2) [of _ _ w] by fastforce
  moreover have "logs_ok w \<Longrightarrow> logs_ok (adopt_runtime ws w)"
    by (simp add: adopt_runtime_def logs_ok_def new)
  ultimately show ?thesis
    by (simp add: advances_def world_ok_def sessions_ok_def store_ok_def adopt_runtime_def)
qed

lemma set_up_runtime_evol [evol]: "keeps (set_up_runtime a b c)"
  unfolding set_up_runtime_def by (intro evol upd_runtime_keeps) simp_all

interpretation ad: evolution advances
proof
  show "advances s s" for s by (simp add: advances_def)
  show "advances s t \<Longrightarrow> advances t u \<Longrightarrow> advances s u" for s t u by (rule advances_trans)
qed

lemma keeps_advances: "keeps m \<Longrightarrow> state_io_rel advances m"
  by (simp add: state_io_rel_def evolves_advances)

lemma connecting_advances: "advances w (w\<lparr>connecting := c\<rparr>)"
  by (simp add: advances_def world_ok_def world_parts)

lemma finish_connect_advances: "state_io_rel advances (finish_connect ws initial)"
  unfolding finish_connect_def
  by (intro ad.structural keeps_advances [OF set_up_runtime_evol] adopt_runtime_advances ad.update_evol)

lemma complete_connection_advances: "state_io_rel advances (complete_connection p)"
  unfolding complete_connection_def by (intro ad.structural finish_connect_advances keeps_advances evol)

lemma continue_connection_advances: "state_io_rel advances (continue_connection p)"
  unfolding continue_connection_def suspend_connection_def
  by (intro ad.structural complete_connection_advances connecting_advances ad.update_evol keeps_advances evol)

lemma begin_connection_advances: "state_io_rel advances (begin_connection p)"
  unfolding begin_connection_def suspend_connection_def
  by (intro ad.structural continue_connection_advances connecting_advances ad.update_evol keeps_advances evol)

lemma connect_advances: "is_connect x \<Longrightarrow> state_io_rel advances (run_input x)"
  unfolding is_connect_def
  by (auto simp: connect_websocket_def resume_connection_def intro!: ad.structural ad.update_evol
      finish_connect_advances begin_connection_advances continue_connection_advances
      complete_connection_advances connecting_advances)

lemma step_advances: "step w x v \<Longrightarrow> advances w v"
proof (erule step_cases)
  assume v: "snd (run_state (run_input x) w) = v"
  have "state_io_rel advances (run_input x)"
    by (cases "is_connect x") (simp_all add: connect_advances keeps_advances run_input_evol)
  from ad.run_evol [OF this] v show ?thesis by blast
qed

lemma initial_world_ok: "loaded_history e h \<Longrightarrow> world_ok (initial_world e window_ms h)"
  by (simp add: world_ok_def world_parts initial_world_def loaded_history_def new_runtime_def)

lemma reachable_ok: "reachable w \<Longrightarrow> world_ok w"
proof (induction rule: reachable.induct)
  case (init e h window_ms)
  then show ?case by (rule initial_world_ok)
next
  case (more w x v)
  then show ?case using step_advances by (simp add: advances_def)
qed

section \<open>One live connection per endpoint\<close>

definition sole :: "world \<Rightarrow> bool" where
  \<comment> \<open>a live runtime that is bound to an endpoint is the one registered for it\<close>
  "sole w \<longleftrightarrow> (\<forall>r e. runtime_live (rts w r) \<longrightarrow> rt_connected_endpoint_id (rts w r) = Some e \<longrightarrow> e \<noteq> []
     \<longrightarrow> aget (endpoint_runtimes w) e = Some r)"

lemma sole_ctx [simp]: "sole (w\<lparr>ctx := c\<rparr>) = sole w"
  by (simp add: sole_def)

definition solo :: "world \<Rightarrow> world \<Rightarrow> bool" where
  \<comment> \<open>this is kept, no runtime becomes live, and no connection is suspended or resumed\<close>
  "solo v w \<longleftrightarrow> (sole v \<longrightarrow> sole w) \<and> connecting w = connecting v
     \<and> (\<forall>r. runtime_live (rts w r) \<longrightarrow> runtime_live (rts v r))"

lemma wired_solo: "wired v w \<Longrightarrow> solo v w"
  by (simp add: wired_def solo_def sole_def runtime_live_def)

lemma solo_if_wired: "state_io_rel wired m \<Longrightarrow> state_io_rel solo m"
  by (simp add: state_io_rel_def wired_solo)

interpretation so: session_opening solo
proof
  show "solo s s" for s by (simp add: solo_def)
  show "solo s t \<Longrightarrow> solo t u \<Longrightarrow> solo s u" for s t u by (simp add: solo_def)
  show "state_io_rel solo (modify f)" if "\<And>w. light_step w (f w)" for f
    using that by (intro solo_if_wired wi.light)
  show "state_io_rel solo (upd_runtime g)" if "\<And>r. fair_step r (g r)" for g
    using that by (intro solo_if_wired wi.fair)
  show "state_io_rel solo (upd_runtime g)" if "\<And>r. mild_step r (g r)" for g
    using that by (intro solo_if_wired wi.mild)
  show "state_io_rel solo (upsert_session rec)" for rec by (intro solo_if_wired evol)
  show "state_io_rel solo (set_session_state st)" if "st \<noteq> Idle" for st
    using that by (intro solo_if_wired wi.set_session_state_rel)
  show "state_io_rel solo (upd_session i h)"
    if "\<And>s. ss_session_state (h s) = ss_session_state s
        \<and> ss_ux_state (h s) = ss_ux_state s \<and> ss_session_id (h s) = ss_session_id s
        \<and> ss_endpoint_id (h s) = ss_endpoint_id s \<and> ss_started_at (h s) = ss_started_at s" for h i
    using that by (intro solo_if_wired wi.upd_session_rel)
  show "solo w (v\<lparr>ctx := ctx w\<rparr>)" if "solo (w\<lparr>ctx := r\<rparr>) v" for w r v
    using that by (simp add: solo_def)
  show "state_io_rel solo (alloc_session s)" if "ss_ux_state s = project_ux_state (ss_session_state s)" for s
    using that by (intro solo_if_wired wio.alloc_session_rel)
qed

text \<open>Taking a connection down.\<close>

lemma sole_go_down:
  assumes "sole w" "\<not> runtime_live t" "rt_connected_endpoint_id t = rt_connected_endpoint_id (rts w r)"
  shows "sole (w\<lparr>rts := (rts w)(r := t)\<rparr>)"
  using assms by (simp add: sole_def)

lemma set_websocket_None_solo: "state_io_rel solo (set_websocket None)"
  by (auto simp: state_io_rel_def solo_def set_websocket_def upd_runtime_def runtime_live_def
      intro!: sole_go_down)

lemma connection_inactive_solo: "state_io_rel solo (upd_runtime (\<lambda>r. r\<lparr>rt_connection_active := False\<rparr>))"
  by (auto simp: state_io_rel_def solo_def upd_runtime_def runtime_live_def intro!: sole_go_down)

lemma disconnect_websocket_solo: "state_io_rel solo disconnect_websocket"
  unfolding disconnect_websocket_def
  by (intro evol so.set_session_state_rel set_websocket_None_solo connection_inactive_solo) simp_all

text \<open>Binding an endpoint nobody else holds.\<close>

definition held_by_other :: "world \<Rightarrow> string \<Rightarrow> bool" where
  "held_by_other w e \<longleftrightarrow> (case aget (endpoint_runtimes w) e of None \<Rightarrow> False
     | Some r \<Rightarrow> r \<noteq> ctx w \<and> runtime_live (rts w r))"

lemma set_connected_endpoint_steady:
  "connecting (snd (run_state (set_connected_endpoint x) w)) = connecting w"
  "runtime_live (rts (snd (run_state (set_connected_endpoint x) w)) r) = runtime_live (rts w r)"
  by (auto simp: set_connected_endpoint_def unbind_endpoint_def upd_runtime_def bind_endpoint_def
      whenM_def runtime_live_def Let_def split: option.split)

lemma set_connected_endpoint_sole:
  assumes "sole w" "rt_connected_endpoint_id (rts w (ctx w)) = None" "\<not> held_by_other w e"
  shows "sole (snd (run_state (set_connected_endpoint (Some e)) w))"
  using assms
  by (auto simp: set_connected_endpoint_def unbind_endpoint_def upd_runtime_def bind_endpoint_def
      held_by_other_def sole_def runtime_live_def split: option.splits if_splits)

lemma dispatch_bound_solo:
  assumes h: "\<not> held_by_other w (ev_endpoint_id event)"
  shows "solo w (snd (run_state (dispatch_bound event) w))"
proof -
  define rest where "rest = (do {
     placement \<leftarrow> can_merge_placement_test_event event;
     event1 \<leftarrow> (if placement then adopt_session event else ret event);
     enrollment \<leftarrow> can_merge_speaker_enrollment_event event1;
     event2 \<leftarrow> (if enrollment then adopt_session event1 else ret event1);
     handlers (ev_event_type event2) event2 })"
  have rest: "state_io_rel solo rest" unfolding rest_def by (intro evol)
  define v where "v = (if rt_connected_endpoint_id (rts w (ctx w)) = None
     then snd (run_state (set_connected_endpoint (Some (ev_endpoint_id event))) w) else w)"
  have "solo w v"
    unfolding v_def solo_def using h set_connected_endpoint_sole by (simp add: set_connected_endpoint_steady)
  moreover have "snd (run_state (dispatch_bound event) w) = snd (run_state rest v)"
    by (simp add: dispatch_bound_def rest_def [symmetric] v_def cur_runtime_def case_prod_beta)
  ultimately show ?thesis using so.trans_R [OF _ so.run_evol [OF rest]] by simp
qed

lemma handle_endpoint_event_solo [evol]: "state_io_rel solo (handle_endpoint_event event name allowed)"
proof -
  have "solo w (snd (run_state (handle_endpoint_event event name allowed) w))" for w
  proof (cases "held_by_other w (ev_endpoint_id event)")
    case False
    have "solo w (snd (run_state (refuse event c m b) w))" for c m b
      by (rule so.run_evol [OF so.refuse_rel])
    with dispatch_bound_solo [OF False] show ?thesis
      by (simp add: handle_endpoint_event_def cur_runtime_def Let_def so.refl_R)
  next
    case True
    have "solo w (snd (run_state (refuse event c m b) w))" for c m b
      by (rule so.run_evol [OF so.refuse_rel])
    with True show ?thesis
      by (simp add: handle_endpoint_event_def cur_runtime_def Let_def held_by_other_def so.refl_R)
  qed
  then show ?thesis by (simp add: state_io_rel_def)
qed

lemma handle_raw_message_solo [evol]: "state_io_rel solo (handle_raw_message m)"
  unfolding handle_raw_message_def Let_def by (intro evol)

lemma handle_http_audio_event_solo [evol]: "state_io_rel solo (handle_http_audio_event e)"
  unfolding handle_http_audio_event_def by (intro evol)

lemma handle_binary_audio_frame_solo [evol]: "state_io_rel solo (handle_binary_audio_frame a b c d e)"
  unfolding handle_binary_audio_frame_def Let_def by (intro evol so.fair) (simp_all add: fair_step_def)

lemma websocket_message_solo [evol]: "state_io_rel solo (websocket_message a b c)"
  unfolding websocket_message_def by (intro evol)

lemma audio_websocket_frame_solo [evol]: "state_io_rel solo (audio_websocket_frame a b c d e f g)"
  unfolding audio_websocket_frame_def by (intro evol)

lemma run_input_solo: "\<not> is_connect x \<Longrightarrow> state_io_rel solo (run_input x)"
  by (cases x) (simp_all only: run_input.simps is_connect_def, (intro evol disconnect_websocket_solo | blast)+)

text \<open>
  What replacing a connection does to the wiring: the replaced runtime goes down, nothing else
  changes but its own registration.
\<close>

definition taken_down :: "nat \<Rightarrow> world \<Rightarrow> world \<Rightarrow> bool" where
  "taken_down r w v \<longleftrightarrow>
     ctx v = ctx w \<and> rt_websocket (rts v r) = None \<and> connecting v = connecting w
     \<and> (\<forall>r'. rt_connected_endpoint_id (rts v r') = rt_connected_endpoint_id (rts w r'))
     \<and> (\<forall>r'. r' \<noteq> r \<longrightarrow> runtime_live (rts v r') = runtime_live (rts w r'))
     \<and> endpoint_runtimes v = endpoint_runtimes (unbind_endpoint r w)"

lemma wired_run: "state_io_rel wired m \<Longrightarrow> run_state m w = (a, v) \<Longrightarrow> wired w v"
  by (metis snd_conv wi.run_evol)

lemma replace_finish_taken_down:
  "taken_down r w (snd (run_state (with_runtime r (replace_finish r)) w))"
proof -
  define v2 where "v2 = w\<lparr>ctx := r, rts := (rts w)(r := (rts w r)\<lparr>rt_audio_websocket := None,
    rt_audio_connection_active := False, rt_websocket := None, rt_connection_active := False\<rparr>)\<rparr>"
  obtain a3 v3 where 3: "run_state clear_active_session_runtime v2 = (a3, v3)"
    by (cases "run_state clear_active_session_runtime v2")
  have w3: "wired v2 v3" by (rule wired_run [OF wi.clear_active_session_runtime_rel 3])
  have "snd (run_state (with_runtime r (replace_finish r)) w) = (unbind_endpoint r v3)\<lparr>ctx := ctx w\<rparr>"
    using 3 by (simp add: replace_finish_def with_runtime_run set_websocket_def upd_runtime_def v2_def case_prod_beta)
  moreover have "endpoint_runtimes (unbind_endpoint r v3) = endpoint_runtimes (unbind_endpoint r w)"
    using w3 by (simp add: wired_def v2_def unbind_endpoint_def split: option.split)
  moreover have "rts (unbind_endpoint r v3) = rts v3" "connecting (unbind_endpoint r v3) = connecting v3"
    by (simp_all add: unbind_endpoint_def split: option.split)
  ultimately show ?thesis
    using w3 by (simp add: taken_down_def wired_def v2_def runtime_live_def)
qed

lemma taken_down_sole:
  assumes "taken_down r w v" "sole w"
  shows "sole v"
  unfolding sole_def
proof (intro allI impI)
  fix r' e
  assume l: "runtime_live (rts v r')" "rt_connected_endpoint_id (rts v r') = Some e" "e \<noteq> []"
  have "r' \<noteq> r" using assms(1) l by (auto simp: taken_down_def runtime_live_def)
  with assms(1) l have w: "runtime_live (rts w r')" "rt_connected_endpoint_id (rts w r') = Some e"
    by (simp_all add: taken_down_def)
  with assms(2) l have "aget (endpoint_runtimes w) e = Some r'" by (simp add: sole_def)
  with \<open>r' \<noteq> r\<close> assms(1) show "aget (endpoint_runtimes v) e = Some r'"
    by (auto simp: taken_down_def unbind_endpoint_def split: option.split)
qed

definition holds :: "world \<Rightarrow> nat \<Rightarrow> string \<Rightarrow> bool" where
  "holds w r e \<longleftrightarrow> runtime_live (rts w r) \<and> rt_connected_endpoint_id (rts w r) = Some e"

definition unheld :: "string \<Rightarrow> world \<Rightarrow> bool" where
  "unheld e w \<longleftrightarrow> (\<forall>r. \<not> holds w r e)"

definition new_holder :: "string option \<Rightarrow> world \<Rightarrow> world \<Rightarrow> bool" where
  \<comment> \<open>a runtime that holds an endpoint held it before, unless it is the endpoint \<open>x\<close>\<close>
  "new_holder x v w \<longleftrightarrow> connecting w = connecting v \<and> (\<forall>r e. holds w r e \<longrightarrow> holds v r e \<or> x = Some e)"

lemma new_holder_trans: "new_holder None u v \<Longrightarrow> new_holder x v w \<Longrightarrow> new_holder x u w"
  by (auto simp: new_holder_def)

lemma new_holder_then: "new_holder x u v \<Longrightarrow> new_holder None v w \<Longrightarrow> new_holder x u w"
  by (fastforce simp: new_holder_def)

lemma wired_holder: "wired v w \<Longrightarrow> new_holder None v w"
  by (simp add: wired_def new_holder_def holds_def runtime_live_def)

lemma taken_down_holder: "taken_down r w v \<Longrightarrow> new_holder None w v \<and> (\<forall>e. \<not> holds v r e)"
proof -
  assume td: "taken_down r w v"
  have live: "r' \<noteq> r" if "runtime_live (rts v r')" for r'
    using that td by (auto simp: taken_down_def runtime_live_def)
  with td show ?thesis by (auto simp: taken_down_def new_holder_def holds_def)
qed

lemma adopt_runtime_sole:
  assumes "sole w"
  shows "sole (adopt_runtime ws w)"
  using assms by (simp add: sole_def adopt_runtime_def new_runtime_def)

lemma adopt_runtime_holder: "new_holder None w (adopt_runtime ws w)"
  by (simp add: new_holder_def holds_def adopt_runtime_def new_runtime_def)

lemma adopt_runtime_unheld: "unheld e w \<Longrightarrow> unheld e (adopt_runtime ws w)"
  using adopt_runtime_holder [of w ws] by (auto simp: unheld_def new_holder_def)

lemma set_connected_endpoint_holder:
  "new_holder x w (snd (run_state (set_connected_endpoint x) w))"
  by (auto simp: new_holder_def holds_def set_connected_endpoint_def unbind_endpoint_def upd_runtime_def
      bind_endpoint_def whenM_def runtime_live_def Let_def split: option.splits if_splits)

lemma set_up_runtime_sole:
  assumes s: "sole w" and ok: "registry_ok w"
    and e: "\<And>e. initial = Some e \<Longrightarrow> e \<noteq> [] \<and> unheld e w"
    and n: "rt_connected_endpoint_id (rts w r) = None" "runtime_live (rts w r)"
  shows "sole (snd (run_state (set_up_runtime r ws initial) w))"
proof -
  define v where "v = w\<lparr>ctx := r, rts := (rts w)(r := (rts w r)\<lparr>rt_connection_active := True, rt_websocket := Some ws\<rparr>)\<rparr>"
  have v: "run_state (do { upd_runtime (\<lambda>q. q\<lparr>rt_connection_active := True\<rparr>); set_websocket (Some ws) }) (w\<lparr>ctx := r\<rparr>)
      = ((), v)"
    using n by (simp add: upd_runtime_def set_websocket_def v_def)
  have sv: "sole v" using s n by (simp add: sole_def v_def)
  have run: "snd (run_state (set_up_runtime r ws initial) w) = (snd (run_state (case initial of None \<Rightarrow> ret ()
        | Some e \<Rightarrow> do { set_connected_endpoint (Some e); push_startup_runtime_config e }) v))\<lparr>ctx := ctx w\<rparr>"
    using v by (simp add: set_up_runtime_def with_runtime_run case_prod_beta)
  show ?thesis
  proof (cases initial)
    case None
    with sv show ?thesis unfolding run by simp
  next
    case (Some e')
    have "\<not> held_by_other v e'"
    proof
      assume "held_by_other v e'"
      then obtain r' where r': "aget (endpoint_runtimes w) e' = Some r'" "r' \<noteq> r" "runtime_live (rts w r')"
        by (auto simp: held_by_other_def v_def split: option.splits if_splits)
      then have "(e', r') \<in> set (endpoint_runtimes w)" by (simp add: map_of_SomeD)
      with ok have "rt_connected_endpoint_id (rts w r') = Some e'" by (auto simp: registry_ok_def)
      with r' e [OF Some] show False by (simp add: unheld_def holds_def)
    qed
    then have "sole (snd (run_state (set_connected_endpoint (Some e')) v))"
      using n by (intro set_connected_endpoint_sole sv) (simp_all add: v_def)
    then have "sole (snd (run_state (push_startup_runtime_config e')
        (snd (run_state (set_connected_endpoint (Some e')) v))))"
      using so.run_evol [OF so.push_startup_runtime_config_rel] by (simp add: solo_def)
    with Some show ?thesis unfolding run by (simp add: case_prod_beta)
  qed
qed

lemma query_endpoint_nonempty: "query_endpoint x = Some e \<Longrightarrow> e \<noteq> []"
  by (auto simp: query_endpoint_def split: option.splits if_splits)

lemma push_startup_wired: "wired w (snd (run_state (push_startup_runtime_config e) w))"
  by (rule wi.run_evol [OF wi.push_startup_runtime_config_rel])

lemma set_up_runtime_holder:
  assumes n: "rt_connected_endpoint_id (rts w r) = None"
  shows "new_holder initial w (snd (run_state (set_up_runtime r ws initial) w))"
proof -
  define v where "v = w\<lparr>ctx := r, rts := (rts w)(r := (rts w r)\<lparr>rt_connection_active := True, rt_websocket := Some ws\<rparr>)\<rparr>"
  have v: "run_state (do { upd_runtime (\<lambda>q. q\<lparr>rt_connection_active := True\<rparr>); set_websocket (Some ws) }) (w\<lparr>ctx := r\<rparr>)
      = ((), v)"
    using n by (simp add: upd_runtime_def set_websocket_def v_def)
  have hv: "new_holder None w v" using n by (simp add: new_holder_def holds_def v_def)
  have run: "snd (run_state (set_up_runtime r ws initial) w) = (snd (run_state (case initial of None \<Rightarrow> ret ()
        | Some e \<Rightarrow> do { set_connected_endpoint (Some e); push_startup_runtime_config e }) v))\<lparr>ctx := ctx w\<rparr>"
    using v by (simp add: set_up_runtime_def with_runtime_run case_prod_beta)
  have ctx: "new_holder x w (u\<lparr>ctx := c\<rparr>) = new_holder x w u" for x u c
    by (simp add: new_holder_def holds_def)
  show ?thesis
  proof (cases initial)
    case None
    with hv show ?thesis unfolding run ctx by simp
  next
    case (Some e)
    let ?u = "snd (run_state (set_connected_endpoint (Some e)) v)"
    have "new_holder (Some e) w ?u" using hv set_connected_endpoint_holder by (rule new_holder_trans)
    then have "new_holder (Some e) w (snd (run_state (push_startup_runtime_config e) ?u))"
      using wired_holder [OF push_startup_wired] by (rule new_holder_then)
    with Some show ?thesis unfolding run ctx by (simp add: case_prod_beta)
  qed
qed

lemma finish_connect_holder: "new_holder initial w (snd (run_state (finish_connect ws initial) w))"
  by (simp add: finish_connect_def, rule new_holder_trans [OF adopt_runtime_holder set_up_runtime_holder])
    (simp add: adopt_runtime_def new_runtime_def)

lemma finish_connect_sole:
  fixes w :: world and ws :: nat
  assumes s: "sole w" and ok: "world_ok w" and e: "\<And>e. initial = Some e \<Longrightarrow> e \<noteq> [] \<and> unheld e w"
  defines "v \<equiv> snd (run_state (finish_connect ws initial) w)"
  shows "sole v" "new_holder initial w v"
proof -
  let ?a = "adopt_runtime ws w" and ?r = "fresh_runtime w"
  have v: "v = snd (run_state (set_up_runtime ?r ws initial) ?a)"
    by (simp add: v_def finish_connect_def)
  have n: "rt_connected_endpoint_id (rts ?a ?r) = None" "runtime_live (rts ?a ?r)"
    by (simp_all add: adopt_runtime_def new_runtime_def runtime_live_def)
  have ok': "registry_ok ?a"
    using ok adopt_runtime_advances [of w ws] by (simp add: advances_def world_ok_def)
  show "sole v" unfolding v
    using e by (intro set_up_runtime_sole adopt_runtime_sole s ok' n) (auto intro: adopt_runtime_unheld)
  show "new_holder initial w v" unfolding v_def by (rule finish_connect_holder)
qed

text \<open>
  A suspended connection is \<open>awaited\<close>: nobody else is about to take its endpoint, and nobody holds it but
  the runtime it replaces. \<open>moved_on p\<close> says where the next part of a connection leads: to its own runtime or to
  the next suspension.
\<close>

definition awaited :: "world \<Rightarrow> bool" where
  "awaited w \<longleftrightarrow> distinct (map pc_endpoint_id (connecting w))
     \<and> (\<forall>p \<in> set (connecting w). pc_endpoint_id p \<noteq> []
          \<and> (\<forall>r. holds w r (pc_endpoint_id p) \<longrightarrow> r = pc_replaced p))"

definition moved_on :: "pending_connection \<Rightarrow> world \<Rightarrow> world \<Rightarrow> bool" where
  "moved_on p w v \<longleftrightarrow> sole v \<and>
     (new_holder (Some (pc_endpoint_id p)) w v
      \<or> (\<exists>c. new_holder None (w\<lparr>connecting := connecting w @ [p\<lparr>pc_control_closing := c\<rparr>]\<rparr>) v))"

definition may_proceed :: "pending_connection \<Rightarrow> world \<Rightarrow> bool" where
  "may_proceed p w \<longleftrightarrow> sole w \<and> world_ok w \<and> pc_endpoint_id p \<noteq> []
     \<and> (\<forall>r. holds w r (pc_endpoint_id p) \<longrightarrow> r = pc_replaced p)"

lemma may_proceed_wired: "may_proceed p w \<Longrightarrow> wired w v \<Longrightarrow> world_ok v \<Longrightarrow> may_proceed p v"
  using wired_solo [of w v] wired_holder [of w v] by (auto simp: may_proceed_def solo_def new_holder_def)

lemma moved_on_wired: "wired u w \<Longrightarrow> moved_on p w v \<Longrightarrow> moved_on p u v"
  using wired_holder [of u w] by (auto simp: moved_on_def new_holder_def holds_def)

lemma complete_connection_moves:
  assumes "may_proceed p w"
  shows "moved_on p w (snd (run_state (complete_connection p) w))"
proof -
  let ?e = "pc_endpoint_id p" and ?r = "pc_replaced p"
  define u where "u = snd (run_state (with_runtime ?r (replace_finish ?r)) w)"
  have td: "taken_down ?r w u" unfolding u_def by (rule replace_finish_taken_down)
  have "keeps (with_runtime ?r (replace_finish ?r))" by (intro evol)
  from ev.run_evol [OF this, of w] assms have ok: "world_ok u"
    using evolves_world_ok by (auto simp: u_def may_proceed_def)
  have s: "sole u" using taken_down_sole [OF td] assms by (simp add: may_proceed_def)
  have "unheld ?e u"
    using taken_down_holder [OF td] assms by (auto simp: unheld_def may_proceed_def new_holder_def)
  then have e: "x \<noteq> [] \<and> unheld x u" if "Some ?e = Some x" for x using that assms by (simp add: may_proceed_def)
  note f = finish_connect_sole [OF s ok e, where ws = "pc_websocket p" and initial = "Some ?e"]
  have "new_holder (Some ?e) w (snd (run_state (finish_connect (pc_websocket p) (Some ?e)) u))"
    using taken_down_holder [OF td] f(2) by (blast intro: new_holder_trans)
  with f(1) show ?thesis by (simp add: complete_connection_def moved_on_def u_def case_prod_beta)
qed

lemma suspend_connection_moves: "sole w \<Longrightarrow> moved_on p w (w\<lparr>connecting := connecting w @ [p\<lparr>pc_control_closing := c\<rparr>]\<rparr>)"
  by (auto simp: moved_on_def new_holder_def sole_def)

lemma replace_begin_wired: "state_io_rel wired (with_runtime r replace_begin)"
  unfolding replace_begin_def by (intro evol wi.set_session_state_rel) simp_all

lemma replace_close_wired: "state_io_rel wired (with_runtime r replace_close)"
  unfolding replace_close_def by (intro evol)

lemma continue_connection_moves:
  assumes "may_proceed p w"
  shows "moved_on p w (snd (run_state (continue_connection p) w))"
proof -
  define u where "u = snd (run_state (with_runtime (pc_replaced p) replace_close) w)"
  have u: "wired w u" unfolding u_def by (rule wi.run_evol [OF replace_close_wired])
  have "keeps (with_runtime (pc_replaced p) replace_close)" by (intro evol)
  from ev.run_evol [OF this, of w] assms have "world_ok u"
    using evolves_world_ok by (auto simp: u_def may_proceed_def)
  with assms u have r: "may_proceed p u" by (rule may_proceed_wired)
  have "moved_on p u (snd (run_state (if rt_websocket (rts w (pc_replaced p)) = None then complete_connection p
      else suspend_connection (p\<lparr>pc_control_closing := True\<rparr>)) u))"
    using complete_connection_moves [OF r] suspend_connection_moves [of u p True] r
    by (simp add: suspend_connection_def may_proceed_def)
  from moved_on_wired [OF u this] show ?thesis
    by (simp add: continue_connection_def u_def case_prod_beta split: if_split)
qed

lemma begin_connection_moves:
  assumes "may_proceed p w" "\<not> pc_control_closing p"
  shows "moved_on p w (snd (run_state (begin_connection p) w))"
proof -
  define u where "u = snd (run_state (with_runtime (pc_replaced p) replace_begin) w)"
  have u: "wired w u" unfolding u_def by (rule wi.run_evol [OF replace_begin_wired])
  have "keeps (with_runtime (pc_replaced p) replace_begin)" by (intro evol)
  from ev.run_evol [OF this, of w] assms have "world_ok u"
    using evolves_world_ok by (auto simp: u_def may_proceed_def)
  with assms(1) u have r: "may_proceed p u" by (rule may_proceed_wired)
  have "p\<lparr>pc_control_closing := False\<rparr> = p" using assms(2) by simp
  then have "moved_on p u (snd (run_state (if rt_audio_websocket (rts w (pc_replaced p)) = None
      then continue_connection p else suspend_connection p) u))"
    using continue_connection_moves [OF r] suspend_connection_moves [of u p False] r
    by (simp add: suspend_connection_def may_proceed_def)
  from moved_on_wired [OF u this] show ?thesis
    by (simp add: begin_connection_def u_def case_prod_beta split: if_split)
qed

lemma moved_on_awaited:
  assumes "moved_on p w v" "awaited w" "may_proceed p w" "pc_endpoint_id p \<notin> pc_endpoint_id ` set (connecting w)"
  shows "sole v" "awaited v"
proof -
  show "sole v" using assms(1) by (simp add: moved_on_def)
  show "awaited v"
    using assms by (fastforce simp: moved_on_def awaited_def new_holder_def may_proceed_def holds_def)
qed

section \<open>Runs in which nobody takes an endpoint that is being reconnected\<close>

definition claims_endpoint :: "world \<Rightarrow> manager_input \<Rightarrow> world \<Rightarrow> string \<Rightarrow> bool" where
  \<comment> \<open>the step opens a connection for the endpoint, or binds a connection to it by its messages\<close>
  "claims_endpoint w x v e = (case x of
       Connect ws q \<Rightarrow> query_endpoint q = Some e
     | Resume k \<Rightarrow> False
     | _ \<Rightarrow> (\<exists>r. holds v r e \<and> \<not> holds w r e))"

definition contested :: "world \<Rightarrow> manager_input \<Rightarrow> world \<Rightarrow> bool" where
  "contested w x v \<longleftrightarrow> (\<exists>p \<in> set (connecting w). claims_endpoint w x v (pc_endpoint_id p))"

inductive orderly :: "world \<Rightarrow> bool" where
  \<comment> \<open>reached without a contested step\<close>
  begin_run: "loaded_history e h \<Longrightarrow> orderly (initial_world e window_ms h)"
| next_step: "orderly w \<Longrightarrow> step w x v \<Longrightarrow> \<not> contested w x v \<Longrightarrow> orderly v"

lemma orderly_reachable: "orderly w \<Longrightarrow> reachable w"
  by (induction rule: orderly.induct) (auto intro: reachable.intros)

lemma runtime_for_endpoint_sole: "sole w \<Longrightarrow> holds w r e \<Longrightarrow> e \<noteq> [] \<Longrightarrow> runtime_for_endpoint e w = Some r"
proof -
  assume "sole w" "holds w r e" "e \<noteq> []"
  then have "aget (endpoint_runtimes w) e = Some r" "runtime_live (rts w r)" by (auto simp: sole_def holds_def)
  then show ?thesis by (simp add: runtime_for_endpoint_def Let_def)
qed

lemma connect_orderly:
  fixes w :: world and ws :: nat
  assumes "sole w" "awaited w" "world_ok w"
    and n: "\<And>e. query_endpoint q = Some e \<Longrightarrow> e \<notin> pc_endpoint_id ` set (connecting w)"
  defines "v \<equiv> snd (run_state (connect_websocket ws q) w)"
  shows "sole v \<and> awaited v"
proof -
  have finish: "sole u \<and> awaited u"
    if "u = snd (run_state (finish_connect ws (query_endpoint q)) w)"
      "\<And>e. query_endpoint q = Some e \<Longrightarrow> unheld e w" for u
  proof -
    have "sole u" "new_holder (query_endpoint q) w u"
      using finish_connect_sole [OF assms(1,3), of "query_endpoint q" ws] that query_endpoint_nonempty by blast+
    then show ?thesis using assms(2) n by (fastforce simp: awaited_def new_holder_def)
  qed
  show ?thesis
  proof (cases "query_endpoint q")
    case None
    with finish [of v] show ?thesis by (simp add: v_def connect_websocket_def)
  next
    case (Some e)
    note e = query_endpoint_nonempty [OF Some]
    show ?thesis
    proof (cases "runtime_for_endpoint e w")
      case None
      then have "unheld e w" using runtime_for_endpoint_sole [OF assms(1) _ e] by (auto simp: unheld_def)
      with None Some finish [of v] show ?thesis by (simp add: v_def connect_websocket_def)
    next
      case (Some r)
      let ?p = "\<lparr>pc_websocket = ws, pc_endpoint_id = e, pc_replaced = r, pc_control_closing = False\<rparr>"
      have "may_proceed ?p w"
        using assms(1,3) e Some runtime_for_endpoint_sole [OF assms(1) _ e] by (auto simp: may_proceed_def)
      moreover have "v = snd (run_state (begin_connection ?p) w)"
        using Some \<open>query_endpoint q = Some e\<close> by (simp add: v_def connect_websocket_def)
      ultimately show ?thesis
        using moved_on_awaited [OF begin_connection_moves, of ?p w] assms(2) n [OF \<open>query_endpoint q = Some e\<close>]
        by simp
    qed
  qed
qed

lemma remove_nth_split:
  "k < length xs \<Longrightarrow> distinct (map f xs) \<Longrightarrow> f (xs ! k) \<notin> f ` set (take k xs @ drop (Suc k) xs)"
  by (subst (asm) id_take_nth_drop [of k xs]) auto

lemma resume_orderly:
  assumes "sole w" "awaited w" "world_ok w" and k: "k < length (connecting w)"
  defines "v \<equiv> snd (run_state (resume_connection k) w)"
  shows "sole v \<and> awaited v"
proof -
  let ?p = "connecting w ! k"
  let ?rest = "take k (connecting w) @ drop (Suc k) (connecting w)"
  let ?u = "w\<lparr>connecting := ?rest\<rparr>"
  have split: "connecting w = take k (connecting w) @ ?p # drop (Suc k) (connecting w)"
    using k by (rule id_take_nth_drop)
  have p: "?p \<in> set (connecting w)" using k by simp
  have d: "distinct (map pc_endpoint_id (connecting w))" using assms(2) by (simp add: awaited_def)
  have other: "pc_endpoint_id ?p \<notin> pc_endpoint_id ` set (connecting ?u)"
    using remove_nth_split [OF k d] by simp
  have "set ?rest \<subseteq> set (connecting w)" using set_take_subset set_drop_subset by fastforce
  moreover have "distinct (map pc_endpoint_id ?rest)"
    using d by (subst (asm) split) auto
  ultimately have au: "awaited ?u" using assms(2) by (auto simp: awaited_def holds_def)
  have "world_ok ?u" using assms(3) by (simp add: world_ok_def world_parts)
  then have r: "may_proceed ?p ?u"
    using assms(1,2) p by (auto simp: may_proceed_def awaited_def holds_def sole_def)
  have "v = snd (run_state (if pc_control_closing ?p then complete_connection ?p else continue_connection ?p) ?u)"
    by (simp add: v_def resume_connection_def)
  then have "moved_on ?p ?u v"
    using complete_connection_moves [OF r] continue_connection_moves [OF r] by simp
  from moved_on_awaited [OF this au r other] show ?thesis by simp
qed

lemma other_orderly:
  assumes "sole w" "awaited w" and x: "\<not> is_connect x" "\<not> contested w x v"
    and v: "snd (run_state (run_input x) w) = v"
  shows "sole v \<and> awaited v"
proof -
  have s: "solo w v" using so.run_evol [OF run_input_solo [OF x(1)]] v by blast
  have c: "claims_endpoint w x v e = (\<exists>r. holds v r e \<and> \<not> holds w r e)" for e
    using x(1) by (cases x) (auto simp: claims_endpoint_def is_connect_def)
  show ?thesis
    using s assms(1,2) x(2) by (fastforce simp: solo_def awaited_def contested_def c)
qed

lemma orderly_sole: "orderly w \<Longrightarrow> sole w \<and> awaited w"
proof (induction rule: orderly.induct)
  case (begin_run e h window_ms)
  show ?case by (simp add: sole_def awaited_def initial_world_def new_runtime_def runtime_live_def)
next
  case (next_step w x v)
  from next_step.hyps(2) have m: "may_happen w x" and v: "snd (run_state (run_input x) w) = v"
    by (auto elim: step_cases)
  have ok: "world_ok w" by (rule reachable_ok [OF orderly_reachable [OF next_step.hyps(1)]])
  consider ws q where "x = Connect ws q" | k where "x = Resume k" | "\<not> is_connect x"
    by (auto simp: is_connect_def)
  then show ?case
  proof cases
    case 1
    with next_step.hyps(3) have "query_endpoint q = Some e \<Longrightarrow> e \<notin> pc_endpoint_id ` set (connecting w)" for e
      by (auto simp: contested_def claims_endpoint_def)
    with connect_orderly [of w q ws] next_step.IH ok 1 v show ?thesis by simp
  next
    case 2
    with resume_orderly [of w k] next_step.IH ok m v show ?thesis by simp
  next
    case 3
    with other_orderly next_step.IH next_step.hyps(3) v show ?thesis by blast
  qed
qed

section \<open>What a contested step leads to\<close>

lemma set_connected_endpoint_holds:
  fixes w :: world and e :: string
  defines "v \<equiv> snd (run_state (set_connected_endpoint (Some e)) w)"
  shows "runtime_live (rts w (ctx w)) \<Longrightarrow> holds v (ctx w) e" "next_rt v = next_rt w" "ctx v = ctx w"
    "r \<noteq> ctx w \<Longrightarrow> holds v r e' = holds w r e'"
  by (simp_all add: v_def holds_def set_connected_endpoint_def unbind_endpoint_def upd_runtime_def
      bind_endpoint_def whenM_def runtime_live_def Let_def split: option.split)

lemma wired_holds: "wired v w \<Longrightarrow> holds w r e = holds v r e \<and> next_rt w = next_rt v"
  by (simp add: wired_def holds_def runtime_live_def)

lemma finish_connect_holds:
  fixes w :: world and ws :: nat and e :: string
  defines "v \<equiv> snd (run_state (finish_connect ws (Some e)) w)"
  shows "holds v (fresh_runtime w) e" "next_rt v = fresh_runtime w"
    "r \<noteq> fresh_runtime w \<Longrightarrow> holds w r e' \<Longrightarrow> holds v r e'"
proof -
  let ?r = "fresh_runtime w"
  define a where "a = (adopt_runtime ws w)\<lparr>ctx := ?r\<rparr>"
  have "run_state (do { upd_runtime (\<lambda>q. q\<lparr>rt_connection_active := True\<rparr>); set_websocket (Some ws) }) a = ((), a)"
    by (simp add: a_def adopt_runtime_def upd_runtime_def set_websocket_def new_runtime_def)
  then have v: "v = (snd (run_state (push_startup_runtime_config e)
      (snd (run_state (set_connected_endpoint (Some e)) a))))\<lparr>ctx := ctx w\<rparr>"
    by (simp add: v_def finish_connect_def set_up_runtime_def with_runtime_run case_prod_beta a_def adopt_runtime_def)
  let ?u = "snd (run_state (set_connected_endpoint (Some e)) a)"
  have u: "holds v r' e' = holds ?u r' e'" "next_rt v = next_rt ?u" for r' e'
    using wired_holds [OF push_startup_wired [of ?u e]] by (simp_all add: v holds_def)
  have a: "ctx a = ?r" "next_rt a = ?r" "runtime_live (rts a ?r)" "r' \<noteq> ?r \<Longrightarrow> holds a r' e' = holds w r' e'" for r' e'
    by (simp_all add: a_def adopt_runtime_def runtime_live_def holds_def)
  note f = set_connected_endpoint_holds [where w = a and e = e, unfolded a(1)]
  show "holds v ?r e" "next_rt v = ?r" using f(1,2) a(2,3) u by simp_all
  show "holds v r e'" if "r \<noteq> ?r" "holds w r e'" using that f(4) [of r e'] a(4) u by simp
qed

lemma complete_connection_holds:
  fixes w :: world and p :: pending_connection
  defines "v \<equiv> snd (run_state (complete_connection p) w)"
  shows "\<exists>r. holds v r (pc_endpoint_id p) \<and> next_rt w < r \<and> next_rt v = r"
    and "holds w r e \<Longrightarrow> r \<noteq> pc_replaced p \<Longrightarrow> r \<le> next_rt w \<Longrightarrow> holds v r e"
    and "connecting v = connecting w"
proof -
  define u where "u = snd (run_state (with_runtime (pc_replaced p) (replace_finish (pc_replaced p))) w)"
  have td: "taken_down (pc_replaced p) w u" unfolding u_def by (rule replace_finish_taken_down)
  have "keeps (with_runtime (pc_replaced p) (replace_finish (pc_replaced p)))" by (intro evol)
  from ev.run_evol [OF this, of w] have n: "next_rt u = next_rt w" by (simp add: u_def evolves_def)
  have v: "v = snd (run_state (finish_connect (pc_websocket p) (Some (pc_endpoint_id p))) u)"
    by (simp add: v_def complete_connection_def u_def case_prod_beta)
  note f = finish_connect_holds [where w = u and ws = "pc_websocket p" and e = "pc_endpoint_id p"]
  show "\<exists>r. holds v r (pc_endpoint_id p) \<and> next_rt w < r \<and> next_rt v = r"
    using f(1,2) fresh_runtime(1) [of u] n by (auto simp: v)
  show "holds v r e" if "holds w r e" "r \<noteq> pc_replaced p" "r \<le> next_rt w"
  proof -
    have "holds u r e" using that td by (simp add: taken_down_def holds_def)
    moreover have "r \<noteq> fresh_runtime u" using that(3) fresh_runtime(1) [of u] n by simp
    ultimately show ?thesis using f(3) by (simp add: v)
  qed
  show "connecting v = connecting w"
    using td finish_connect_holder [of "Some (pc_endpoint_id p)" u "pc_websocket p"] by (simp add: v taken_down_def new_holder_def)
qed

text \<open>
  Two connections for one endpoint that wait for the control socket of the same third: when both have
  been resumed, both are live.
\<close>

lemma contested_connections_stay_live:
  assumes ps: "connecting w = [p, q]" and c: "pc_control_closing p" "pc_control_closing q"
    and e: "pc_endpoint_id q = pc_endpoint_id p" and r: "pc_replaced q \<le> next_rt w"
  defines "v \<equiv> snd (run_state (do { run_input (Resume 0); run_input (Resume 0) }) w)"
  shows "\<exists>r r'. r \<noteq> r' \<and> holds v r (pc_endpoint_id p) \<and> holds v r' (pc_endpoint_id p)"
proof -
  let ?u1 = "snd (run_state (complete_connection p) (w\<lparr>connecting := [q]\<rparr>))"
  let ?u2 = "snd (run_state (complete_connection q) (?u1\<lparr>connecting := []\<rparr>))"
  have q: "connecting ?u1 = [q]" by (simp add: complete_connection_holds(3))
  have v: "v = ?u2" using q c by (simp add: v_def resume_connection_def ps case_prod_beta)
  obtain r1 where r1: "holds ?u1 r1 (pc_endpoint_id p)" "next_rt w < r1" "next_rt ?u1 = r1"
    using complete_connection_holds(1) [where p = p and w = "w\<lparr>connecting := [q]\<rparr>"] by auto
  then have h1: "holds ?u2 r1 (pc_endpoint_id p)"
    using r by (intro complete_connection_holds(2)) (simp_all add: holds_def)
  obtain r2 where "holds ?u2 r2 (pc_endpoint_id q)" "r1 < r2"
    using complete_connection_holds(1) [where p = q and w = "?u1\<lparr>connecting := []\<rparr>"] r1(3) by auto
  then have "r1 \<noteq> r2" "holds ?u2 r2 (pc_endpoint_id p)" using e by simp_all
  with h1 show ?thesis unfolding v by blast
qed

end
