(* ===== verification/Examples.thy ===== *)
theory Examples
  imports Dispatch
begin

text \<open>
  A concrete state of the manager, for the witnesses: services that hear nothing, a clock that
  advances by a millisecond per reading, and one connection (runtime 1 on socket 7) whose
  session \<open>s1\<close> is the active one.
\<close>

definition quiet_transcript :: speech_transcript where
  "quiet_transcript = \<lparr>tr_text = ''hello'', tr_confidence = None, tr_provider_id = ''test'',
     tr_model = None, tr_duration_ms = None, tr_error = None\<rparr>"

definition quiet_tts :: tts_synthesis where
  "quiet_tts = \<lparr>ts_content_type = ''audio/wav'', ts_stream_id = Some ''tts-1'',
     ts_audio_url = Some ''/tts/1.wav'', ts_endpoint_audio_url = None, ts_audio_urls = [],
     ts_provider_id = ''test'', ts_model_id = None, ts_voice_id = None, ts_audio_variant = None,
     ts_audio_variants = [], ts_planned_audio_variants = [], ts_pending_audio_variants = [],
     ts_conversion_policy = None, ts_raw_audio_path = None, ts_raw_sample_rate_hz = None,
     ts_audio_variant_sample_rate_hz = None, ts_audio_variant_source_sample_rate_hz = None,
     ts_output_sample_rate_hz = None, ts_variant_sample_rates_hz = [], ts_timing_breakdown_ms = [],
     ts_metadata_path = None, ts_expires_at = None, ts_ttl_seconds = None, ts_error = None\<rparr>"

definition quiet_turn :: turn_result where
  "quiet_turn = \<lparr>tu_transcript = quiet_transcript,
     tu_assistant_response = \<lparr>ar_spoken_text = ''hi'', ar_handled_locally = True,
       ar_provider_id = ''test'', ar_model = None, ar_error = None, ar_provider_latency_ms = None,
       ar_provider_metadata = None, ar_fallback_used = False, ar_fallback_reason = None,
       ar_intent_latency_ms = None, ar_conversation_followup = None\<rparr>,
     tu_tts = quiet_tts,
     tu_timings = \<lparr>tm_stt_ms = 1, tm_assistant_ms = 2, tm_tts_ms = 3, tm_total_ms = 6\<rparr>,
     tu_speaker_identity = None, tu_audio_quality = None\<rparr>"

definition pcm :: audio_format where
  "pcm = \<lparr>af_encoding = ''pcm_s16le'', af_sample_rate_hz = 16000, af_channels = 1\<rparr>"

definition ex_env :: env where
  "ex_env = \<lparr>e_clock = (\<lambda>n. 1700000000000000 + 1000 * int n), e_uuid = (\<lambda>n. nat_dec n),
     e_repr = (\<lambda>_. ''<object>''), e_json_loads = (\<lambda>_. None),
     e_v_envelope = (\<lambda>_. Inl ([], ''invalid'')),
     e_v_start = (\<lambda>_. Inr \<lparr>sp_audio_format = pcm, sp_firmware_version = None, sp_wake_source = WakeButton\<rparr>),
     e_v_chunk = (\<lambda>_. Inl ''invalid''), e_v_playback = (\<lambda>_. Inl ''invalid''),
     e_v_button = (\<lambda>_. Inl ''invalid''), e_v_vad_started = (\<lambda>_. Inl ''invalid''),
     e_v_vad_ended = (\<lambda>_. Inl ''invalid''), e_v_wake = (\<lambda>_. Inl ''invalid''),
     e_v_ack = (\<lambda>_. Inl ''invalid''), e_v_error = (\<lambda>_. Inl ''invalid''),
     e_b64decode = (\<lambda>_. None), e_b64encode = (\<lambda>_. []), e_p4_screens = [], e_local_utc = id,
     e_inspect_chunk = (\<lambda>_ _ _ _. \<lparr>dt_detected = False, dt_confidence = None, dt_model = None, dt_reason = None\<rparr>),
     e_last_detection = (\<lambda>_. []), e_complete_turn = (\<lambda>_ _. quiet_turn),
     e_transcribe_audio = (\<lambda>_ _. quiet_transcript), e_identify_speaker = (\<lambda>_ _. []),
     e_synthesize_reply = (\<lambda>_ _ _ _ _. quiet_tts), e_math = \<lparr>fm_sqrt = (\<lambda>x. x), fm_log10 = (\<lambda>x. x)\<rparr>,
     e_float_text = (\<lambda>_. None), e_read_sidecar = (\<lambda>_ _. None),
     e_save_recording = (\<lambda>_ _ _ _ _. None), e_attach_transcript = (\<lambda>_ r _. r),
     e_custom_capture_active = (\<lambda>_ _. False), e_runtime_commands = (\<lambda>_ _. []),
     e_has_turn_pipeline = True, e_has_wake_recorder = False, e_has_micro_vad_recorder = False,
     e_has_quality_log = False, e_has_history_store = False, e_history_limit = 50,
     e_has_custom_capture = False, e_has_ui_button_handler = False,
     e_has_endpoint_event_handler = False, e_has_custom_capture_handler = False,
     e_pre_wake_timeout_s = 10, e_max_active_session_s = 60, e_privacy_mode = False\<rparr>"

definition ex_session :: "session_state \<Rightarrow> snapshot" where
  "ex_session st = \<lparr>ss_session_id = ''s1'', ss_endpoint_id = ''kitchen'', ss_session_state = st,
     ss_connection_state = Connected, ss_ux_state = project_ux_state st,
     ss_started_at = 1700000000000000, ss_last_updated_at = 1700000000000000,
     ss_wake_source = WakeUnknown, ss_cancel_reason = None, ss_completion_reason = None,
     ss_last_error = None\<rparr>"

definition ex_runtime :: runtime where
  "ex_runtime = new_runtime\<lparr>rt_connection_active := True, rt_websocket := Some 7,
     rt_connected_endpoint_id := Some ''kitchen''\<rparr>"

definition ex_world :: "runtime \<Rightarrow> session_state \<Rightarrow> world" where
  "ex_world r st = \<lparr>env = ex_env, clock_reads = 0, uuid_reads = 0, ctx = 1,
     rts = (\<lambda>k. if k = 1 then r else new_runtime), next_rt = 1,
     sess = (\<lambda>_. ex_session st), next_sess = 1, endpoint_runtimes = [(''kitchen'', 1)],
     command_records = [], last_volume = [], event_diagnostics = [], last_ui_button = None,
     last_ui_screen = None, last_ui_render_sent_at = [], ui_button_history = [], wake_history = [],
     wake_confidence_history = [], election = init_election 250 50 20, enrollment_windows = [],
     placement_windows = [], hist = [], connecting = [], trace = []\<rparr>"

definition ex_busy :: "session_state \<Rightarrow> world" where
  "ex_busy st = ex_world (ex_runtime\<lparr>rt_active_session := Some 0, rt_history := Some []\<rparr>) st"

definition ex_event :: "event_type \<Rightarrow> int \<Rightarrow> envelope" where
  "ex_event et seconds = \<lparr>ev_event_type = et, ev_event_id = ''evt_1'', ev_endpoint_id = ''kitchen'',
     ev_direction = EndpointToBackend, ev_session_id = Some ''s1'', ev_sequence = None,
     ev_timestamp = 1700000000000000 + seconds * us_per_s, ev_payload = []\<rparr>"

lemma ex_busy_fields [simp]:
  "rts (ex_busy st) (Suc 0) = ex_runtime\<lparr>rt_active_session := Some 0, rt_history := Some []\<rparr>"
  "sess (ex_busy st) i = ex_session st" "env (ex_busy st) = ex_env" "ctx (ex_busy st) = Suc 0"
  by (simp_all add: ex_busy_def ex_world_def ex_runtime_def)

lemma ex_session_fields [simp]:
  "ss_session_id (ex_session st) = ''s1''" "ss_endpoint_id (ex_session st) = ''kitchen''"
  "ss_session_state (ex_session st) = st" "ss_started_at (ex_session st) = 1700000000000000"
  by (simp_all add: ex_session_def)

lemma ex_event_fields [simp]:
  "ev_session_id (ex_event et s) = Some ''s1''" "ev_event_type (ex_event et s) = et"
  "ev_endpoint_id (ex_event et s) = ''kitchen''" "ev_direction (ex_event et s) = EndpointToBackend"
  "ev_timestamp (ex_event et s) = 1700000000000000 + s * us_per_s" "ev_payload (ex_event et s) = []"
  by (simp_all add: ex_event_def)

end
