(* ===== verification/ExampleRuns.thy ===== *)
theory ExampleRuns
  imports Connections Examples
begin

text \<open>A concrete run of the manager, for the witnesses of properties of reachable states.\<close>

section \<open>A run\<close>

text \<open>The kitchen endpoint connects to a manager that has just started with an empty history.\<close>

definition ex_start :: world where
  "ex_start = initial_world ex_env 250 []"

definition ex_connected :: world where
  "ex_connected = snd (run_state (run_input (Connect 7 (Some ''kitchen''))) ex_start)"

lemma query_kitchen: "query_endpoint (Some ''kitchen'') = Some ''kitchen''"
  by code_simp

lemma ex_connected_state: "ex_connected = ex_start\<lparr>next_rt := 1,
    rts := (\<lambda>k. if k = 1 then ex_runtime else new_runtime), endpoint_runtimes := [(''kitchen'', 1)]\<rparr>"
proof -
  have "ex_connected = ex_start\<lparr>next_rt := Suc 0, rts := (rts ex_start)(Suc 0 := ex_runtime),
      endpoint_runtimes := [(''kitchen'', Suc 0)]\<rparr>"
    unfolding ex_connected_def ex_start_def
    by (simp add: connect_websocket_def query_kitchen finish_connect_def runtime_for_endpoint_def
        initial_world_def new_runtime_def adopt_runtime_def set_up_runtime_def with_runtime_run upd_runtime_def
        set_websocket_def set_connected_endpoint_def fresh_runtime_def unbind_endpoint_def bind_endpoint_def
        push_startup_runtime_config_def ex_env_def Let_def ex_runtime_def)
  also have "(rts ex_start)(Suc 0 := ex_runtime) = (\<lambda>k. if k = 1 then ex_runtime else new_runtime)"
    by (auto simp: ex_start_def initial_world_def)
  finally show ?thesis by simp
qed

lemma ex_connected_step: "step ex_start (Connect 7 (Some ''kitchen'')) ex_connected"
  by (rule step.intros) (simp_all add: ex_connected_def)

lemma ex_start_reachable: "reachable ex_start"
  unfolding ex_start_def by (rule reachable.init) (simp add: loaded_history_def)

lemma ex_connected_reachable: "reachable ex_connected"
  using ex_start_reachable ex_connected_step by (rule reachable.more)

lemma ex_connected_orderly: "orderly ex_connected"
proof (rule orderly.next_step [OF _ ex_connected_step])
  show "orderly ex_start"
    unfolding ex_start_def by (rule orderly.begin_run) (simp add: loaded_history_def)
  show "\<not> contested ex_start (Connect 7 (Some ''kitchen'')) ex_connected"
    by (simp add: contested_def ex_start_def initial_world_def)
qed

end
