(* ===== verification/SessionEnds.thy ===== *)
theory SessionEnds
  imports Examples
begin

text \<open>
  How sessions end. \<open>session_over\<close> is the abstract account of the end of a session on the
  current connection; every ending of the manager (cancellation by the endpoint, the operator
  or a timeout, disconnection, the completion or failure of a turn) refines it.
\<close>

section \<open>Abstract specification\<close>

definition idle_runtime :: "runtime \<Rightarrow> bool" where
  "idle_runtime r \<longleftrightarrow>
     rt_active_session r = None \<and> rt_chunk_count r = 0 \<and> rt_audio_chunks r = []
     \<and> rt_ambient_audio_chunks r = [] \<and> rt_audio_format r = None \<and> rt_history r = None
     \<and> rt_pending_followup r = None \<and> rt_followup_task r = None"

definition others_calm :: "world \<Rightarrow> world \<Rightarrow> bool" where
  "others_calm w v \<longleftrightarrow> (\<forall>r. r \<noteq> ctx w \<longrightarrow> mild_step (rts w r) (rts v r))"

definition session_over :: "nat \<Rightarrow> world \<Rightarrow> world \<Rightarrow> bool" where
  "session_over i w v \<longleftrightarrow>
     env v = env w \<and> ctx v = ctx w \<and> next_sess v = next_sess w \<and> sess v = sess w
     \<and> endpoint_runtimes v = endpoint_runtimes w \<and> others_calm w v
     \<and> idle_runtime (rts v (ctx w))
     \<and> (\<exists>new. trace v = new @ trace w
          \<and> DetectorClose (ss_endpoint_id (sess w i)) (ss_session_id (sess w i)) \<in> set new)"

lemma calm_refl [simp]: "calm w w"
  by (rule ca.refl_R)

lemma others_calm_if_calm: "calm w v \<Longrightarrow> others_calm w v"
  by (simp add: calm_def others_calm_def)

lemma calmD:
  assumes "calm w v"
  shows "env v = env w" "ctx v = ctx w" "sess v = sess w" "next_sess v = next_sess w"
    "endpoint_runtimes v = endpoint_runtimes w" "mild_step (rts w r) (rts v r)"
    "rt_active_session (rts v r) = rt_active_session (rts w r)"
    "rt_chunk_count (rts v r) = rt_chunk_count (rts w r)"
    "rt_audio_chunks (rts v r) = rt_audio_chunks (rts w r)"
    "rt_pending_followup (rts v r) = rt_pending_followup (rts w r)"
    "rt_followup_task (rts v r) = rt_followup_task (rts w r)"
    "rt_websocket (rts v r) = rt_websocket (rts w r)"
    "rt_connection_active (rts v r) = rt_connection_active (rts w r)"
    "rt_connected_endpoint_id (rts v r) = rt_connected_endpoint_id (rts w r)"
    "rt_history (rts v r) = None \<longleftrightarrow> rt_history (rts w r) = None"
  using assms by (simp_all add: calm_def mild_step_def)

section \<open>The pieces of an ending\<close>

text \<open>Reading the state.\<close>

lemma wp_readers:
  "wp (State_Monad.bind repr_env f) Q w = wp (f (e_repr (env w))) Q w"
  "wp (State_Monad.bind cur_runtime g) Q w = wp (g (rts w (ctx w))) Q w"
  "wp (State_Monad.bind (session_at i) h) Q w = wp (h (sess w i)) Q w"
  "wp (State_Monad.bind State_Monad.get k) Q w = wp (k w) Q w"
  by (simp_all add: wp_def repr_env_def cur_runtime_def session_at_def)

text \<open>A bookkeeping operation before the rest of a computation changes nothing that matters.\<close>

lemma wp_calm_bind:
  assumes "state_io_rel calm m" "\<And>a v. calm w v \<Longrightarrow> wp (f a) Q v"
  shows "wp (State_Monad.bind m f) Q w"
  unfolding wp_bind by (rule wp_calm [OF assms(1)]) (rule assms(2))

lemma wp_set_session_state:
  assumes "rt_active_session (rts w (ctx w)) = Some i"
  shows "wp (set_session_state st) Q w = Q () (w\<lparr>clock_reads := Suc (clock_reads w),
     sess := (sess w)(i := moved st (e_clock (env w) (clock_reads w)) (sess w i))\<rparr>)"
  by (simp add: wp_def set_session_state_run assms)

lemma wp_set_cancel_reason [wp_simps]: "wp (set_cancel_reason i reason) Q w =
    Q () (w\<lparr>sess := (sess w)(i := (sess w i)\<lparr>ss_cancel_reason := Some reason\<rparr>)\<rparr>)"
  by (simp add: wp_def set_cancel_reason_def upd_session_def)

definition release_effects :: "world \<Rightarrow> nat \<Rightarrow> ext_effect list" where
  "release_effects w i =
     (if e_has_wake_recorder (env w)
      then [RecorderClose (ss_endpoint_id (sess w i)) (ss_session_id (sess w i))] else [])
     @ [DetectorClose (ss_endpoint_id (sess w i)) (ss_session_id (sess w i))]"

lemma wp_release:
  assumes "rt_active_session (rts w (ctx w)) = Some i"
  shows "wp release_active_session_wake_stream Q w = Q () (w\<lparr>trace := release_effects w i @ trace w\<rparr>)"
  using assms
  by (simp add: wp_def release_active_session_wake_stream_def cur_runtime_def session_at_def emit_def
      release_effects_def)

definition cleared :: "runtime \<Rightarrow> runtime" where
  "cleared r = r\<lparr>rt_followup_task := None, rt_active_session := None, rt_chunk_count := 0,
     rt_audio_chunks := [], rt_ambient_audio_chunks := [], rt_audio_format := None,
     rt_history := None, rt_pending_followup := None\<rparr>"

lemma idle_cleared [simp]: "idle_runtime (cleared r)"
  by (simp add: idle_runtime_def cleared_def)

definition clear_effects :: "world \<Rightarrow> nat \<Rightarrow> ext_effect list" where
  "clear_effects w i = (if e_has_micro_vad_recorder (env w)
     then [MicroVadClose (ss_endpoint_id (sess w i)) (ss_session_id (sess w i))] else [])"

lemma wp_clear:
  assumes "rt_active_session (rts w (ctx w)) = Some i"
  shows "wp clear_active_session_runtime Q w =
    Q () (w\<lparr>trace := clear_effects w i @ trace w,
      rts := (rts w)(ctx w := cleared (rts w (ctx w)))\<rparr>)"
  using assms
  by (simp add: wp_def clear_active_session_runtime_def cancel_followup_timeout_task_def
      cur_runtime_def session_at_def emit_def upd_runtime_def cleared_def clear_effects_def)

lemma session_over_after_calm:
  assumes "calm w v" "session_over i v u"
  shows "session_over i w u"
proof -
  from assms obtain n m where t: "trace v = n @ trace w" "trace u = m @ trace v"
      "DetectorClose (ss_endpoint_id (sess v i)) (ss_session_id (sess v i)) \<in> set m"
    unfolding session_over_def calm_def by blast
  then have "\<exists>new. trace u = new @ trace w
      \<and> DetectorClose (ss_endpoint_id (sess w i)) (ss_session_id (sess w i)) \<in> set new"
    using calmD(3) [OF assms(1)] by (intro exI [of _ "m @ n"]) simp
  moreover have "others_calm w u"
    using assms unfolding others_calm_def session_over_def
    by (metis calmD(2,6) mild_step_trans)
  ultimately show ?thesis
    using assms(2) calmD [OF assms(1)] by (simp add: session_over_def)
qed

lemma release_and_clear:
  assumes "rt_active_session (rts w (ctx w)) = Some i"
  shows "wp (do { release_active_session_wake_stream; clear_active_session_runtime })
    (\<lambda>_ v. session_over i w v) w"
  using assms
  by (simp add: wp_bind wp_release wp_clear session_over_def others_calm_def release_effects_def)

lemma finish_session_over:
  assumes "rt_active_session (rts w (ctx w)) = Some i"
  shows "wp (finish_session i reason error recording) (\<lambda>_ v. session_over i w v) w"
  unfolding finish_session_def
proof (rule wp_calm_bind)
  show "state_io_rel calm (persist_active_session_history i reason error recording)" by (intro evol)
  fix a v
  assume v: "calm w v"
  have "rt_active_session (rts v (ctx v)) = Some i" using assms calmD [OF v] by simp
  from release_and_clear [OF this]
  show "wp (do { release_active_session_wake_stream; clear_active_session_runtime })
      (\<lambda>_ v. session_over i w v) v"
    by (rule wp_mono) (rule session_over_after_calm [OF v])
qed

section \<open>Following one session through a handler\<close>

text \<open>
  \<open>track i st cr w v\<close>: since \<open>w\<close> only session \<open>i\<close> has changed; it is still the active one, in
  state \<open>st\<close>, with cancel reason \<open>cr\<close>. \<open>closed\<close> is the same after the session is over.
\<close>

definition same_session :: "snapshot \<Rightarrow> snapshot \<Rightarrow> bool" where
  "same_session s t \<longleftrightarrow> ss_session_id t = ss_session_id s \<and> ss_endpoint_id t = ss_endpoint_id s
     \<and> ss_started_at t = ss_started_at s \<and> ss_wake_source t = ss_wake_source s"

definition track :: "nat \<Rightarrow> session_state \<Rightarrow> string option \<Rightarrow> world \<Rightarrow> world \<Rightarrow> bool" where
  "track i st cr w v \<longleftrightarrow>
     env v = env w \<and> ctx v = ctx w \<and> next_sess v = next_sess w
     \<and> endpoint_runtimes v = endpoint_runtimes w
     \<and> (\<forall>j. j \<noteq> i \<longrightarrow> sess v j = sess w j) \<and> same_session (sess w i) (sess v i)
     \<and> ss_session_state (sess v i) = st \<and> ss_cancel_reason (sess v i) = cr
     \<and> (\<forall>r. mild_step (rts w r) (rts v r))
     \<and> rt_active_session (rts v (ctx w)) = Some i"

definition closed :: "nat \<Rightarrow> session_state \<Rightarrow> string option \<Rightarrow> world \<Rightarrow> world \<Rightarrow> bool" where
  "closed i st cr w v \<longleftrightarrow>
     env v = env w \<and> ctx v = ctx w \<and> next_sess v = next_sess w
     \<and> endpoint_runtimes v = endpoint_runtimes w
     \<and> (\<forall>j. j \<noteq> i \<longrightarrow> sess v j = sess w j) \<and> same_session (sess w i) (sess v i)
     \<and> ss_session_state (sess v i) = st \<and> ss_cancel_reason (sess v i) = cr
     \<and> others_calm w v \<and> idle_runtime (rts v (ctx w))"

definition settle :: "session_state \<Rightarrow> session_state \<Rightarrow> session_state" where
  \<comment> \<open>where \<open>set_session_state\<close> goes\<close>
  "settle st st' = (if st = st' \<or> is_valid_transition st st' then st' else Failed)"

lemma track_start:
  "rt_active_session (rts w (ctx w)) = Some i \<Longrightarrow>
   track i (ss_session_state (sess w i)) (ss_cancel_reason (sess w i)) w w"
  by (simp add: track_def same_session_def)

lemma track_active: "track i st cr w v \<Longrightarrow> rt_active_session (rts v (ctx v)) = Some i"
  by (simp add: track_def)

lemma track_calm: "track i st cr w v \<Longrightarrow> calm v u \<Longrightarrow> track i st cr w u"
  using mild_step_trans [OF _ calmD(6) [of v u]] by (simp add: track_def calmD)

lemma wp_track_calm:
  assumes "track i st cr w v" "state_io_rel calm m" "\<And>a u. track i st cr w u \<Longrightarrow> wp (f a) Q u"
  shows "wp (State_Monad.bind m f) Q v"
  using assms(2) by (rule wp_calm_bind) (rule assms(3), rule track_calm [OF assms(1)])

lemma wp_track_set:
  assumes "track i st cr w v" "\<And>u. track i (settle st st') cr w u \<Longrightarrow> wp (f ()) Q u"
  shows "wp (State_Monad.bind (set_session_state st') f) Q v"
  unfolding wp_bind wp_set_session_state [OF track_active [OF assms(1)]]
  by (rule assms(2)) (use assms(1) in \<open>simp add: track_def moved_def settle_def same_session_def\<close>)

lemma wp_track_reason:
  assumes "track i st cr w v" "\<And>u. track i st (Some reason) w u \<Longrightarrow> wp (f ()) Q u"
  shows "wp (State_Monad.bind (set_cancel_reason i reason) f) Q v"
  unfolding wp_bind wp_set_cancel_reason
  by (rule assms(2)) (use assms(1) in \<open>simp add: track_def same_session_def\<close>)

lemma track_over: "track i st cr w v \<Longrightarrow> session_over i v u \<Longrightarrow> closed i st cr w u"
  using mild_step_trans [of "rts w r" "rts v r" "rts u r" for r]
  by (simp add: track_def session_over_def closed_def others_calm_def)

lemma wp_track_finish:
  assumes "track i st cr w v" "\<And>u. closed i st cr w u \<Longrightarrow> wp (f ()) Q u"
  shows "wp (State_Monad.bind (finish_session i reason error recording) f) Q v"
  unfolding wp_bind
  by (rule wp_mono [OF finish_session_over [OF track_active [OF assms(1)]]])
    (simp add: assms(2) [OF track_over [OF assms(1)]])

lemma wp_track_persist_release_clear:
  assumes "track i st cr w v" "\<And>u. closed i st cr w u \<Longrightarrow> wp m Q u"
  shows "wp (do { persist_active_session_history i reason error recording;
    release_active_session_wake_stream; clear_active_session_runtime; m }) Q v"
  using wp_track_finish [OF assms(1), of "\<lambda>_. m"] assms(2)
  by (simp add: finish_session_def State_Monad.bind_assoc)

lemma idle_calm: "idle_runtime (rts v r) \<Longrightarrow> calm v u \<Longrightarrow> idle_runtime (rts u r)"
  using calmD(15) [of v u r] by (auto simp: idle_runtime_def calm_def mild_step_def)

lemma closed_calm: "closed i st cr w v \<Longrightarrow> calm v u \<Longrightarrow> closed i st cr w u"
  using mild_step_trans [OF _ calmD(6) [of v u]] idle_calm [of v _ u]
  by (simp add: closed_def calmD others_calm_def)

lemma wp_closed_calm:
  assumes "closed i st cr w v" "state_io_rel calm m" "\<And>a u. closed i st cr w u \<Longrightarrow> wp (f a) Q u"
  shows "wp (State_Monad.bind m f) Q v"
  using assms(2) by (rule wp_calm_bind) (rule assms(3), rule closed_calm [OF assms(1)])

text \<open>The event a handler reports a session with.\<close>

definition reports :: "event_type \<Rightarrow> snapshot \<Rightarrow> envelope \<Rightarrow> bool" where
  "reports et s e \<longleftrightarrow> ev_event_type e = et \<and> ev_session_id e = Some (ss_session_id s)
     \<and> ev_endpoint_id e = ss_endpoint_id s \<and> ev_direction e = BackendToEndpoint"

lemma state_event_reports: "wp (state_event et i extra) (\<lambda>e v. reports et (sess w i) e) w"
  by (simp add: wp_def state_event_def session_at_def upd_runtime_def next_sequence_def cur_runtime_def
      mk_event_def uuid_hex_def py_now_def reports_def)

lemma wp_track_event:
  assumes "track i st cr w v"
    "\<And>e u. track i st cr w u \<Longrightarrow> reports et (sess w i) e \<Longrightarrow> wp (f e) Q u"
  shows "wp (State_Monad.bind (state_event et i extra) f) Q v"
proof -
  have "wp (state_event et i extra) (\<lambda>e u. calm v u \<and> reports et (sess v i) e) v"
    unfolding wp_conj
    by (intro conjI state_event_reports wp_calm [OF ca.state_event_rel])
  then show ?thesis
    unfolding wp_bind
  proof (rule wp_mono)
    fix e u
    assume e: "calm v u \<and> reports et (sess v i) e"
    have "reports et (sess w i) e" using e assms(1) by (simp add: reports_def track_def same_session_def)
    then show "wp (f e) Q u" using e by (intro assms(2) track_calm [OF assms(1)]) simp_all
  qed
qed

lemma wp_require_active_session:
  assumes "rt_active_session (rts w (ctx w)) = Some i"
    and "ev_session_id event = None \<or> ev_session_id event = Some (ss_session_id (sess w i))"
    and "wp (f (Inr i)) Q w"
  shows "wp (State_Monad.bind (require_active_session event) f) Q w"
  using assms
  by (auto simp: wp_def require_active_session_def repr_env_def cur_runtime_def session_at_def)

section \<open>Cancelled sessions\<close>

definition ended :: "nat \<Rightarrow> string \<Rightarrow> world \<Rightarrow> world \<Rightarrow> bool" where
  \<comment> \<open>session \<open>i\<close> was cancelled for the reason (or had ended already) and is closed\<close>
  "ended i reason w v \<longleftrightarrow> closed i (settle (ss_session_state (sess w i)) Cancelled) (Some reason) w v"

lemma settle_cancelled: "\<not> is_terminal st \<Longrightarrow> settle st Cancelled = Cancelled"
  using active_can_be_cancelled by (simp add: settle_def)

text \<open>The common shape of a cancellation with and without an event.\<close>

lemma wp_cancelled_event:
  assumes "rt_active_session (rts w (ctx w)) = Some i"
    and "\<And>e u. reports EvSessionCancelled (sess w i) e \<Longrightarrow> ended i reason w u \<Longrightarrow> wp (m e) Q u"
  shows "wp (do { set_session_state Cancelled; set_cancel_reason i reason;
      e \<leftarrow> state_event EvSessionCancelled i extra;
      persist_active_session_history i reason error recording;
      release_active_session_wake_stream; clear_active_session_runtime; m e }) Q w"
proof (rule wp_track_set [OF track_start [OF assms(1)]], rule wp_track_reason, assumption,
    rule wp_track_event, assumption)
  fix e u
  assume t: "track i (settle (ss_session_state (sess w i)) Cancelled) (Some reason) w u"
    and e: "reports EvSessionCancelled (sess w i) e"
  show "wp (do { persist_active_session_history i reason error recording;
      release_active_session_wake_stream; clear_active_session_runtime; m e }) Q u"
    by (rule wp_track_persist_release_clear [OF t], rule assms(2) [OF e]) (simp add: ended_def)
qed

lemma wp_cancelled_silently:
  assumes "rt_active_session (rts w (ctx w)) = Some i"
    and "\<And>u. ended i reason w u \<Longrightarrow> wp m Q u"
  shows "wp (do { set_session_state Cancelled; set_cancel_reason i reason;
      persist_active_session_history i reason error recording;
      release_active_session_wake_stream; clear_active_session_runtime; m }) Q w"
proof (rule wp_track_set [OF track_start [OF assms(1)]], rule wp_track_reason, assumption)
  fix u
  assume t: "track i (settle (ss_session_state (sess w i)) Cancelled) (Some reason) w u"
  show "wp (do { persist_active_session_history i reason error recording;
      release_active_session_wake_stream; clear_active_session_runtime; m }) Q u"
    by (rule wp_track_persist_release_clear [OF t], rule assms(2)) (simp add: ended_def)
qed

lemma cancel_timed_out_ends:
  assumes "rt_active_session (rts w (ctx w)) = Some i"
  shows "wp (cancel_timed_out_active_session reason) (\<lambda>x v.
     (\<exists>e. x = Some e \<and> reports EvSessionCancelled (sess w i) e) \<and> ended i reason w v) w"
  unfolding cancel_timed_out_active_session_def wp_readers assms option.case
  by (rule wp_cancelled_event [OF assms]) (simp add: wp_return)

lemma cancel_followup_ends:
  assumes "rt_active_session (rts w (ctx w)) = Some i"
  shows "wp (cancel_active_followup_session reason) (\<lambda>x v.
     (\<exists>e. x = Some e \<and> reports EvSessionCancelled (sess w i) e) \<and> ended i reason w v) w"
  unfolding cancel_active_followup_session_def wp_readers assms option.case
  by (rule wp_cancelled_event [OF assms]) (simp add: wp_return)

text \<open>C12. An endpoint that cancels its session gets exactly one event, \<open>session.cancelled\<close> for
  that session; the session is cancelled with the reason given (\<open>endpoint_cancelled\<close> without
  one), no other session changes, and the connection is ready for the next session.\<close>

theorem session_cancel_ends:
  assumes "rt_active_session (rts w (ctx w)) = Some i"
    and "ev_session_id event = None \<or> ev_session_id event = Some (ss_session_id (sess w i))"
  shows "wp (handle_session_cancel event) (\<lambda>events v.
     (\<exists>e. events = [e] \<and> reports EvSessionCancelled (sess w i) e)
     \<and> ended i (py_str (e_repr (env w)) (py_or (dget (ev_payload event) ''reason'')
          (PStr ''endpoint_cancelled''))) w v) w"
  unfolding handle_session_cancel_def Let_def wp_readers
  by (rule wp_require_active_session [OF assms], simp, rule wp_cancelled_event [OF assms(1)])
    (simp add: wp_return)

theorem session_cancel_ends_witness:
  "wp (handle_session_cancel (ex_event EvSessionCancel 1)) (\<lambda>events v.
     (\<exists>e. events = [e] \<and> reports EvSessionCancelled (ex_session Listening) e)
     \<and> ended 0 ''endpoint_cancelled'' (ex_busy Listening) v) (ex_busy Listening)"
  using session_cancel_ends [of "ex_busy Listening" 0 "ex_event EvSessionCancel 1"] by (simp add: dget_def py_or_def)

text \<open>An audio chunk that arrives after the session has outlived its limit is not captured:
  the session is cancelled with the reason of the limit it broke, and the endpoint is told.\<close>

lemma late_chunk_times_out:
  assumes "rt_active_session (rts w (ctx w)) = Some i"
    and "ev_session_id event = None \<or> ev_session_id event = Some (ss_session_id (sess w i))"
    and "active_session_timeout_reason (env w) (ev_timestamp event) (sess w i) = Some reason"
  shows "wp (handle_audio_chunk event) (\<lambda>events v.
     (\<exists>e. events = [e] \<and> reports EvSessionCancelled (sess w i) e)
     \<and> closed i Cancelled (Some reason) w v) w"
proof -
  have "settle (ss_session_state (sess w i)) Cancelled = Cancelled"
    using assms(3) by (intro settle_cancelled)
      (auto simp: active_session_timeout_reason_def Let_def is_terminal_def split: if_splits)
  then have e: "ended i reason w v \<longleftrightarrow> closed i Cancelled (Some reason) w v" for v
    by (simp add: ended_def)
  show ?thesis
    unfolding handle_audio_chunk_def
    apply (rule wp_require_active_session [OF assms(1,2)])
    apply (simp add: wp_readers assms(3) wp_bind [of "cancel_timed_out_active_session _"])
    apply (rule wp_mono [OF cancel_timed_out_ends [OF assms(1)]])
    apply (auto simp: wp_return e)
    done
qed

lemma late_chunk_times_out_witness:
  "wp (handle_audio_chunk (ex_event EvAudioChunk 61)) (\<lambda>events v.
     (\<exists>e. events = [e] \<and> reports EvSessionCancelled (ex_session Capturing) e)
     \<and> closed 0 Cancelled (Some ''active_session_timeout'') (ex_busy Capturing) v) (ex_busy Capturing)"
  using late_chunk_times_out [of "ex_busy Capturing" 0 "ex_event EvAudioChunk 61" "''active_session_timeout''"]
  by (simp add: active_session_timeout_reason_def seconds_between_def us_per_s_def ex_env_def)

text \<open>When the follow-up timer of a session that still waits for an answer goes off, the
  session is cancelled with \<open>followup_timeout\<close> and the endpoint receives the event.\<close>

lemma followup_timer_ends:
  assumes "rt_active_session (rts w (ctx w)) = Some i" "rt_websocket (rts w (ctx w)) = Some ws"
    and "rt_pending_followup (rts w (ctx w)) \<noteq> None"
  shows "wp (followup_timeout (ss_endpoint_id (sess w i)) (ss_session_id (sess w i))) (\<lambda>_ v.
     ended i ''followup_timeout'' w v
     \<and> (\<exists>e. reports EvSessionCancelled (sess w i) e \<and> SendJson ws e \<in> set (trace v))) w"
proof -
  have send: "ended i reason w (v\<lparr>trace := x # trace v\<rparr>) = ended i reason w v" for reason v x
    by (simp add: ended_def closed_def others_calm_def)
  from assms obtain p where p: "rt_pending_followup (rts w (ctx w)) = Some p" by blast
  show ?thesis
    unfolding followup_timeout_def wp_readers assms p option.case prod.case
    by (simp add: wp_bind, rule wp_mono [OF cancel_followup_ends [OF assms(1)]])
      (auto simp: emit_def wp_update send)
qed

lemma followup_timer_ends_witness:
  "\<exists>w. wp (followup_timeout ''kitchen'' ''s1'') (\<lambda>_ v. ended 0 ''followup_timeout'' w v
     \<and> (\<exists>e. reports EvSessionCancelled (ex_session Listening) e \<and> SendJson 7 e \<in> set (trace v))) w"
proof
  let ?w = "ex_world (ex_runtime\<lparr>rt_active_session := Some 0, rt_pending_followup := Some []\<rparr>) Listening"
  have f: "rt_active_session (rts ?w (ctx ?w)) = Some 0" "rt_websocket (rts ?w (ctx ?w)) = Some 7"
    "rt_pending_followup (rts ?w (ctx ?w)) \<noteq> None" "sess ?w 0 = ex_session Listening"
    by (simp_all add: ex_world_def ex_runtime_def)
  show "wp (followup_timeout ''kitchen'' ''s1'') (\<lambda>_ v. ended 0 ''followup_timeout'' ?w v
     \<and> (\<exists>e. reports EvSessionCancelled (ex_session Listening) e \<and> SendJson 7 e \<in> set (trace v))) ?w"
    using followup_timer_ends [OF f(1-3)] unfolding f(4) by simp
qed

text \<open>A newer session of the endpoint that replaces the active one cancels it as superseded.\<close>

lemma supersede_ends:
  assumes "rt_active_session (rts w (ctx w)) = Some i"
  shows "wp (supersede_active_session i) (\<lambda>_ v. ended i ''superseded_by_new_session'' w v) w"
  unfolding supersede_active_session_def
  using wp_cancelled_silently [OF assms, of _ "ret ()"] by (simp add: wp_return)

section \<open>Lost and replaced connections\<close>

definition went_down :: "string \<Rightarrow> world \<Rightarrow> world \<Rightarrow> bool" where
  \<comment> \<open>the connection in the context of \<open>w\<close> is gone, and the session it had is cancelled\<close>
  "went_down reason w v \<longleftrightarrow>
     (\<forall>j. rt_active_session (rts w (ctx w)) \<noteq> Some j \<longrightarrow> sess v j = sess w j)
     \<and> (\<forall>i. rt_active_session (rts w (ctx w)) = Some i \<longrightarrow>
          ss_session_state (sess v i) = settle (ss_session_state (sess w i)) Cancelled
          \<and> ss_cancel_reason (sess v i) = Some reason)
     \<and> others_calm w v \<and> idle_runtime (rts v (ctx w))
     \<and> rt_websocket (rts v (ctx w)) = None \<and> \<not> rt_connection_active (rts v (ctx w))"

definition cancel_first :: "string \<Rightarrow> unit M" where
  \<comment> \<open>what \<open>disconnect_websocket\<close> and \<open>replace_endpoint_runtime\<close> begin with\<close>
  "cancel_first reason = do {
     r \<leftarrow> cur_runtime;
     (case rt_active_session r of
        None \<Rightarrow> ret ()
      | Some i \<Rightarrow> do {
          set_session_state Cancelled;
          set_cancel_reason i reason;
          persist_active_session_history i reason None None }) }"

definition cancelled_first :: "string \<Rightarrow> world \<Rightarrow> world \<Rightarrow> bool" where
  "cancelled_first reason w v \<longleftrightarrow>
     (case rt_active_session (rts w (ctx w)) of
        None \<Rightarrow> v = w
      | Some i \<Rightarrow> track i (settle (ss_session_state (sess w i)) Cancelled) (Some reason) w v)"

lemma wp_cancel_first: "wp (cancel_first reason) (\<lambda>_ v. cancelled_first reason w v) w"
proof (cases "rt_active_session (rts w (ctx w))")
  case None
  then show ?thesis by (simp add: cancel_first_def wp_readers wp_return cancelled_first_def)
next
  case (Some i)
  note t = track_start [OF Some]
  have "wp (do { set_session_state Cancelled; set_cancel_reason i reason;
      persist_active_session_history i reason None None; ret () }) (\<lambda>_ v. cancelled_first reason w v) w"
    by (rule wp_track_set [OF t], rule wp_track_reason, assumption, rule wp_track_calm, assumption,
        intro evol) (simp add: cancelled_first_def Some wp_return)
  with Some show ?thesis by (simp add: cancel_first_def wp_readers)
qed

definition active_effects :: "(world \<Rightarrow> nat \<Rightarrow> ext_effect list) \<Rightarrow> world \<Rightarrow> ext_effect list" where
  "active_effects f w = (case rt_active_session (rts w (ctx w)) of None \<Rightarrow> [] | Some i \<Rightarrow> f w i)"

lemma wp_release_any: "wp release_active_session_wake_stream Q w =
    Q () (w\<lparr>trace := active_effects release_effects w @ trace w\<rparr>)"
  by (cases "rt_active_session (rts w (ctx w))")
    (simp_all add: wp_release active_effects_def, simp add: wp_def release_active_session_wake_stream_def cur_runtime_def)

lemma wp_clear_any: "wp clear_active_session_runtime Q w =
    Q () (w\<lparr>trace := active_effects clear_effects w @ trace w,
      rts := (rts w)(ctx w := cleared (rts w (ctx w)))\<rparr>)"
  by (cases "rt_active_session (rts w (ctx w))")
    (simp_all add: wp_clear active_effects_def, simp add: wp_def clear_active_session_runtime_def
      cancel_followup_timeout_task_def cur_runtime_def upd_runtime_def cleared_def)

lemma cancelled_first_facts:
  assumes "cancelled_first reason w v"
  shows "env v = env w" "ctx v = ctx w" "\<And>r. mild_step (rts w r) (rts v r)"
    "\<And>j. rt_active_session (rts w (ctx w)) \<noteq> Some j \<Longrightarrow> sess v j = sess w j"
    "\<And>i. rt_active_session (rts w (ctx w)) = Some i \<Longrightarrow>
       ss_session_state (sess v i) = settle (ss_session_state (sess w i)) Cancelled
       \<and> ss_cancel_reason (sess v i) = Some reason"
    "endpoint_runtimes v = endpoint_runtimes w"
  using assms by (auto simp: cancelled_first_def track_def split: option.splits)

lemma wp_wiring:
  "wp cancel_followup_timeout_task Q w =
     Q () (w\<lparr>rts := (rts w)(ctx w := (rts w (ctx w))\<lparr>rt_followup_task := None\<rparr>)\<rparr>)"
  "wp (set_websocket None) Q w = Q () (w\<lparr>rts := (rts w)(ctx w := (rts w (ctx w))\<lparr>rt_websocket := None\<rparr>)\<rparr>)"
  "wp (upd_runtime f) Q w = Q () (w\<lparr>rts := (rts w)(ctx w := f (rts w (ctx w)))\<rparr>)"
  "wp cur_runtime P w = P (rts w (ctx w)) w"
  by (simp_all add: wp_def cancel_followup_timeout_task_def upd_runtime_def set_websocket_def cur_runtime_def)

lemma cleared_fields [simp]:
  "rt_websocket (cleared r) = rt_websocket r" "rt_connection_active (cleared r) = rt_connection_active r"
  "rt_connected_endpoint_id (cleared r) = rt_connected_endpoint_id r"
  by (simp_all add: cleared_def)

lemma disconnect_body:
  "disconnect_websocket = do { cancel_first ''websocket_disconnected'';
     release_active_session_wake_stream; cancel_followup_timeout_task; set_websocket None;
     upd_runtime (\<lambda>r. r\<lparr>rt_connection_active := False\<rparr>); clear_active_session_runtime }"
  by (simp add: disconnect_websocket_def cancel_first_def State_Monad.bind_assoc)

text \<open>When the control connection of an endpoint is lost, the session it had is cancelled with
  \<open>websocket_disconnected\<close>, nothing of the capture is kept, the connection is no longer live,
  and no other connection or session is affected.\<close>

lemma disconnect_goes_down:
  "wp disconnect_websocket (\<lambda>_ v. went_down ''websocket_disconnected'' w v \<and> endpoint_runtimes v = endpoint_runtimes w) w"
  unfolding disconnect_body wp_bind
proof (rule wp_mono [OF wp_cancel_first])
  fix a v
  assume c: "cancelled_first ''websocket_disconnected'' w v"
  note f = cancelled_first_facts [OF c]
  show "wp release_active_session_wake_stream (\<lambda>_. wp cancel_followup_timeout_task (\<lambda>_.
      wp (set_websocket None) (\<lambda>_. wp (upd_runtime (\<lambda>r. r\<lparr>rt_connection_active := False\<rparr>)) (\<lambda>_.
      wp clear_active_session_runtime (\<lambda>_ v. went_down ''websocket_disconnected'' w v
        \<and> endpoint_runtimes v = endpoint_runtimes w))))) v"
    using f
    by (simp add: wp_release_any wp_clear_any wp_wiring went_down_def others_calm_def)
qed


definition take_down :: "runtime \<Rightarrow> nat \<Rightarrow> unit M" where
  \<comment> \<open>what \<open>replace_endpoint_runtime\<close> does once the session is cancelled; \<open>q\<close> is the runtime as found\<close>
  "take_down q r = do {
     cancel_followup_timeout_task;
     close_socket (rt_audio_websocket q);
     replace_close;
     replace_finish r }"

lemma replace_body:
  "replace_endpoint_runtime r = with_runtime r (do {
     q \<leftarrow> cur_runtime;
     (case rt_active_session q of
        None \<Rightarrow> ret ()
      | Some i \<Rightarrow> do {
          set_session_state Cancelled;
          set_cancel_reason i ''endpoint_reconnected'';
          persist_active_session_history i ''endpoint_reconnected'' None None;
          release_active_session_wake_stream });
     take_down q r })"
  by (simp add: replace_endpoint_runtime_def replace_begin_def take_down_def State_Monad.bind_assoc)

lemma wp_with_runtime: "wp (with_runtime r m) Q w = wp m (\<lambda>a v. Q a (v\<lparr>ctx := ctx w\<rparr>)) (w\<lparr>ctx := r\<rparr>)"
  by (simp add: wp_def with_runtime_run case_prod_beta)

definition socket_effects :: "nat option \<Rightarrow> ext_effect list" where
  "socket_effects ws = (case ws of None \<Rightarrow> [] | Some k \<Rightarrow> [CloseSocket k 1012])"

lemma wp_close_socket: "wp (close_socket ws) Q w = Q () (w\<lparr>trace := socket_effects ws @ trace w\<rparr>)"
  by (cases ws) (simp_all add: wp_def close_socket_def emit_def socket_effects_def)

lemma unbind_endpoint_same [simp]:
  "rts (unbind_endpoint r w) = rts w" "sess (unbind_endpoint r w) = sess w" "ctx (unbind_endpoint r w) = ctx w"
  "trace (unbind_endpoint r w) = trace w"
  by (simp_all add: unbind_endpoint_def split: option.split)

definition replaced :: "nat \<Rightarrow> world \<Rightarrow> world \<Rightarrow> bool" where
  "replaced r w v \<longleftrightarrow> went_down ''endpoint_reconnected'' (w\<lparr>ctx := r\<rparr>) v
     \<and> endpoint_runtimes v = endpoint_runtimes (unbind_endpoint r w)
     \<and> (\<forall>ws. rt_websocket (rts w r) = Some ws \<or> rt_audio_websocket (rts w r) = Some ws \<longrightarrow>
          CloseSocket ws 1012 \<in> set (trace v))"

lemma take_down_replaced:
  assumes "cancelled_first ''endpoint_reconnected'' (w\<lparr>ctx := r\<rparr>) v" "q = rts w r"
  shows "wp (take_down q r) (\<lambda>_ u. replaced r w (u\<lparr>ctx := c\<rparr>)) (v\<lparr>trace := new @ trace v\<rparr>)"
proof -
  note f = cancelled_first_facts [OF assms(1)]
  show ?thesis
    using f assms(2)
    by (simp add: take_down_def replace_close_def replace_finish_def wp_bind wp_wiring wp_close_socket wp_clear_any wp_update replaced_def
        went_down_def others_calm_def socket_effects_def mild_step_def unbind_endpoint_def
        split: option.split)
qed


text \<open>An endpoint that connects again takes its earlier connection down: the session there is
  cancelled with \<open>endpoint_reconnected\<close>, both its sockets are closed with code 1012, the
  registry forgets it, and no other connection or session is affected.\<close>

lemma replaced_connection_goes_down:
  "wp (replace_endpoint_runtime r) (\<lambda>_ v. replaced r w v) w"
proof -
  let ?w = "w\<lparr>ctx := r\<rparr>"
  show ?thesis
  proof (cases "rt_active_session (rts w r)")
    case None
    have "cancelled_first ''endpoint_reconnected'' ?w ?w" by (simp add: cancelled_first_def None)
    from take_down_replaced [OF this refl, of _ "[]"] None show ?thesis
      by (simp add: replace_body wp_with_runtime wp_readers)
  next
    case (Some i)
    then have active: "rt_active_session (rts ?w (ctx ?w)) = Some i" by simp
    have "wp (do { set_session_state Cancelled; set_cancel_reason i ''endpoint_reconnected'';
        persist_active_session_history i ''endpoint_reconnected'' None None;
        release_active_session_wake_stream; take_down (rts w r) r }) (\<lambda>_ v. replaced r w (v\<lparr>ctx := ctx w\<rparr>)) ?w"
    proof (rule wp_track_set [OF track_start [OF active]], rule wp_track_reason, assumption,
        rule wp_track_calm, assumption, intro evol)
      fix u
      assume "track i (settle (ss_session_state (sess ?w i)) Cancelled) (Some ''endpoint_reconnected'') ?w u"
      then have "cancelled_first ''endpoint_reconnected'' ?w u" by (simp add: cancelled_first_def Some)
      from take_down_replaced [OF this refl]
      show "wp (do { release_active_session_wake_stream; take_down (rts w r) r })
          (\<lambda>_ v. replaced r w (v\<lparr>ctx := ctx w\<rparr>)) u"
        by (simp add: wp_bind wp_release_any)
    qed
    with Some show ?thesis
      by (simp add: replace_body wp_with_runtime wp_readers State_Monad.bind_assoc)
  qed
qed

end
