(* ===== verification/TurnOutcomes.thy ===== *)
theory TurnOutcomes
  imports SessionEnds
begin

text \<open>
  What the end of the audio leads to. \<open>turn_events\<close> and \<open>outcome_of\<close> say, as functions of what
  the turn pipeline returned, which events the endpoint receives and what becomes of the session;
  \<open>pipeline_turn\<close> implements them. Whatever happens, the end of the audio closes the session or
  leaves it waiting for a spoken follow-up.
\<close>

section \<open>Following events and errors\<close>

lemma wp_track_result:
  assumes "track i st cr w v" "state_io_rel calm m" "wp m (\<lambda>a u. P a) v"
    and "\<And>a u. track i st cr w u \<Longrightarrow> P a \<Longrightarrow> wp (f a) Q u"
  shows "wp (State_Monad.bind m f) Q v"
proof -
  have "wp m (\<lambda>a u. calm v u \<and> P a) v"
    unfolding wp_conj by (intro conjI assms(3) wp_calm [OF assms(2)])
  then show ?thesis
    unfolding wp_bind by (rule wp_mono) (auto intro: assms(4) track_calm [OF assms(1)])
qed

text \<open>The error event a session ends with.\<close>

definition complains :: "string \<Rightarrow> snapshot \<Rightarrow> envelope \<Rightarrow> bool" where
  "complains code s e \<longleftrightarrow> ev_event_type e = EvSessionError \<and> ev_session_id e = Some (ss_session_id s)
     \<and> ev_direction e = BackendToEndpoint \<and> dget (ev_payload e) ''code'' = PStr code"

lemma wp_error_event: "wp (error_event endpoint (Some (ss_session_id s)) code message recoverable)
    (\<lambda>e v. complains code s e) w"
  by (simp add: wp_def error_event_def Let_def upd_runtime_def record_event_diagnostic_def next_sequence_def
      cur_runtime_def mk_event_def uuid_hex_def py_now_def complains_def dump_error_def dget_def)

lemma wp_track_complain:
  assumes "track i st cr w v"
    and "\<And>e u. track i st cr w u \<Longrightarrow> complains code (sess w i) e \<Longrightarrow> wp (f e) Q u"
  shows "wp (State_Monad.bind (error_event endpoint (Some (ss_session_id (sess v i))) code message recoverable) f) Q v"
  by (rule wp_track_result [OF assms(1) ca.error_event_rel wp_error_event], rule assms(2))
    (use assms(1) in \<open>simp_all add: complains_def track_def same_session_def\<close>)

lemma wp_track_completed:
  assumes "track i st cr w v"
    and "\<And>e u. track i st cr w u \<Longrightarrow> reports EvSessionCompleted (sess w i) e \<Longrightarrow> wp (f e) Q u"
  shows "wp (State_Monad.bind (completed_event i reason extra) f) Q v"
  unfolding completed_event_def State_Monad.bind_assoc wp_readers
  by (rule wp_track_event [OF assms(1)]) (rule assms(2))

lemma wp_track_set_last:
  assumes "track i st cr w v" "\<And>u. track i (settle st st') cr w u \<Longrightarrow> Q () u"
  shows "wp (set_session_state st') Q v"
  using wp_track_set [OF assms(1), of st' "\<lambda>_. ret ()" Q] assms(2) by (simp add: wp_return)

section \<open>A session that never woke\<close>

lemma wp_skip: "(\<And>a u. wp (f a) Q u) \<Longrightarrow> wp (State_Monad.bind m f) Q w"
  by (simp add: wp_def case_prod_beta)

lemma wp_mk_event:
  "(\<And>e u. ev_event_type e = et \<Longrightarrow> wp (f e) Q u) \<Longrightarrow> wp (State_Monad.bind (mk_event et a b c d) f) Q w"
  by (simp add: wp_def mk_event_def uuid_hex_def py_now_def)

lemma wp_playback_stop: "wp (playback_interrupt_stop_event i)
    (\<lambda>x v. \<forall>e. x = Some e \<longrightarrow> ev_event_type e = EvPlaybackStop) w"
  unfolding playback_interrupt_stop_event_def Let_def wp_readers
  by (auto simp: wp_return split: option.split) ((rule wp_mk_event | rule wp_skip | simp add: wp_return)+)

definition unwoken :: "snapshot \<Rightarrow> string \<Rightarrow> envelope list \<Rightarrow> bool" where
  "unwoken s reason events \<longleftrightarrow>
     (\<exists>e. reports EvSessionCancelled s e
       \<and> (reason = ''wake_not_detected'' \<and> events = [e]
          \<or> (\<exists>stop. ev_event_type stop = EvPlaybackStop
               \<and> reason = ''playback_interrupt_stop'' \<and> events = [stop, e])))"

text \<open>When the audio of a session ends before its wake word was heard, the session is cancelled
  with \<open>wake_not_detected\<close>, or, when the audio was a spoken stop for a running alarm, with
  \<open>playback_interrupt_stop\<close> and an event that stops the playback.\<close>

lemma unwoken_session_ends:
  assumes "rt_active_session (rts w (ctx w)) = Some i"
    and "ev_session_id event = None \<or> ev_session_id event = Some (ss_session_id (sess w i))"
    and "ss_session_state (sess w i) = Idle"
  shows "wp (handle_audio_end event) (\<lambda>events v.
     \<exists>reason. unwoken (sess w i) reason events \<and> closed i Cancelled (Some reason) w v) w"
proof -
  let ?Q = "\<lambda>events v. \<exists>reason. unwoken (sess w i) reason events \<and> closed i Cancelled (Some reason) w v"
  have t: "track i Idle (ss_cancel_reason (sess w i)) w w" using track_start [OF assms(1)] assms(3) by simp
  have s: "settle Idle Cancelled = Cancelled" by (simp add: settle_def)
  have "wp (audio_end_idle i) ?Q w"
    unfolding audio_end_idle_def Let_def wp_readers
    apply (rule wp_track_result [OF t ca.playback_interrupt_stop_event_rel wp_playback_stop])
    apply (rule wp_track_set, assumption, rule wp_track_reason, assumption, unfold wp_readers)
    apply (rule wp_track_calm, assumption, (intro evol; fail), rule wp_track_calm, assumption, (intro evol; fail),
        rule wp_track_calm, assumption, (intro evol; fail))
    apply (rule wp_track_event, assumption, rule wp_track_finish, assumption)
    apply (auto simp: wp_return s unwoken_def split: option.split)
    done
  then show ?thesis
    unfolding handle_audio_end_def
    by (intro wp_require_active_session [OF assms(1,2)]) (simp add: wp_readers assms(3))
qed


lemma unwoken_session_ends_witness:
  "wp (handle_audio_end (ex_event EvAudioEnd 1)) (\<lambda>events v. \<exists>reason. unwoken (ex_session Idle) reason events
     \<and> closed 0 Cancelled (Some reason) (ex_busy Idle) v) (ex_busy Idle)"
  using unwoken_session_ends [of "ex_busy Idle" 0 "ex_event EvAudioEnd 1"] by simp

section \<open>The ends of a turn\<close>

text \<open>
  After a turn a session is \<open>concluded\<close>, or it is still active and waits for a spoken follow-up.
\<close>

definition waits_in :: "session_state \<Rightarrow> nat \<Rightarrow> world \<Rightarrow> world \<Rightarrow> bool" where
  "waits_in st i w v \<longleftrightarrow>
     env v = env w \<and> ctx v = ctx w \<and> next_sess v = next_sess w
     \<and> endpoint_runtimes v = endpoint_runtimes w
     \<and> (\<forall>j. j \<noteq> i \<longrightarrow> sess v j = sess w j) \<and> same_session (sess w i) (sess v i)
     \<and> ss_session_state (sess v i) = st \<and> others_calm w v
     \<and> rt_active_session (rts v (ctx w)) = Some i \<and> rt_pending_followup (rts v (ctx w)) \<noteq> None"

definition is_outcome :: "session_state \<Rightarrow> bool" where
  "is_outcome st \<longleftrightarrow> st = Completed \<or> st = Failed"

definition may_wait :: "session_state \<Rightarrow> bool" where
  \<comment> \<open>a premature end of the audio fails the session, whatever comes of it\<close>
  "may_wait st \<longleftrightarrow> st = Responding \<or> st = Failed"

definition concluded :: "nat \<Rightarrow> world \<Rightarrow> world \<Rightarrow> bool" where
  "concluded i w v \<longleftrightarrow> (\<exists>st. is_outcome st \<and> closed i st (ss_cancel_reason (sess w i)) w v)"

definition settled :: "nat \<Rightarrow> world \<Rightarrow> world \<Rightarrow> bool" where
  "settled i w v \<longleftrightarrow> concluded i w v \<or> (\<exists>st. may_wait st \<and> waits_in st i w v)"

lemma settle_terminal [simp]: "is_outcome (settle st Failed)" "is_outcome (settle st Completed)"
  "may_wait (settle st Responding)"
  by (simp_all add: settle_def is_outcome_def may_wait_def)

lemma wp_track_conclude:
  assumes "track i st (ss_cancel_reason (sess w i)) w v" "is_outcome st" "\<And>u. concluded i w u \<Longrightarrow> wp (f ()) Q u"
  shows "wp (State_Monad.bind (finish_session i reason error recording) f) Q v"
  by (rule wp_track_finish [OF assms(1)], rule assms(3)) (use assms(2) in \<open>auto simp: concluded_def\<close>)

lemma complete_session_track:
  assumes "track i st cr w v"
  shows "wp (complete_session i reason recording events) (\<lambda>es u. closed i (settle st Completed) cr w u
     \<and> (\<exists>e. es = events @ [e] \<and> reports EvSessionCompleted (sess w i) e)) v"
  unfolding complete_session_def
  by (rule wp_track_set [OF assms], rule wp_track_completed, assumption, rule wp_track_finish, assumption)
    (auto simp: wp_return)

lemma transcription_failed_track:
  assumes "track i st cr w v"
  shows "wp (transcription_failed i t recording) (\<lambda>es u. closed i (settle st Failed) cr w u
     \<and> (\<exists>e. es = [e] \<and> complains ''stt_failed'' (sess w i) e)) v"
  unfolding transcription_failed_def wp_readers
  by (rule wp_track_complain [OF assms], rule wp_track_set, assumption, rule wp_track_finish, assumption)
    (auto simp: wp_return)

lemma answer_turn_track:
  assumes "track i st cr w v"
  shows "wp (answer_turn i turn) (\<lambda>es u.
     track i (settle (settle st (if ar_handled_locally (tu_assistant_response turn) then LocalCommand else Routing))
       Responding) cr w u
     \<and> (\<exists>e. reports EvTranscriptFinal (sess w i) e \<and>
          (if ar_spoken_text (tu_assistant_response turn) = [] then es = [e]
           else \<exists>e'. es = [e, e'] \<and> reports EvResponseText (sess w i) e'))) v"
proof (cases "ar_spoken_text (tu_assistant_response turn) = []")
  case True
  show ?thesis
    unfolding answer_turn_def Let_def
    apply (rule wp_track_event [OF assms], rule wp_track_calm, assumption, (intro evol; fail),
        rule wp_track_set, assumption)
    apply (simp add: True split del: if_split)
    apply (rule wp_track_calm, assumption, (intro evol; fail), rule wp_track_calm, assumption, (intro evol; fail),
        rule wp_track_set, assumption)
    apply (auto simp: wp_return)
    done
next
  case False
  show ?thesis
    unfolding answer_turn_def Let_def
    apply (rule wp_track_event [OF assms], rule wp_track_calm, assumption, (intro evol; fail),
        rule wp_track_set, assumption)
    apply (simp add: False State_Monad.bind_assoc split del: if_split)
    apply (rule wp_track_event, assumption)
    apply (rule wp_track_calm, assumption, (intro evol; fail), rule wp_track_calm, assumption, (intro evol; fail),
        rule wp_track_set, assumption)
    apply (auto simp: wp_return)
    done
qed


lemma wp_screen_render: "wp (ui_screen_render_event endpoint screen mode timeout)
    (\<lambda>e v. ev_event_type e = EvEndpointUiScreenRender) w"
proof -
  have "wp (ui_screen_render_event endpoint screen mode timeout \<bind> ret)
    (\<lambda>e v. ev_event_type e = EvEndpointUiScreenRender) w"
    unfolding ui_screen_render_event_def Let_def State_Monad.bind_assoc
    by ((rule wp_mk_event | rule wp_skip)+) (simp add: wp_return)
  then show ?thesis by simp
qed

definition wants_followup :: "turn_result \<Rightarrow> bool" where
  "wants_followup turn =
     (case ar_conversation_followup (tu_assistant_response turn) of Some (x # d) \<Rightarrow> True | _ \<Rightarrow> False)"

lemma waits_after_followup:
  assumes "track i st cr w v" "calm (v\<lparr>rts := (rts v)(ctx v := (rts v (ctx v))\<lparr>rt_pending_followup := Some p\<rparr>)\<rparr>) u"
  shows "waits_in st i w u"
proof -
  note c = calmD [OF assms(2), simplified]
  have "mild_step (rts w r) (rts u r)" if "r \<noteq> ctx w" for r
    using assms(1) that calmD(6) [OF assms(2), of r] mild_step_trans [of "rts w r" "rts v r" "rts u r"]
    by (simp add: track_def)
  then have "others_calm w u" by (simp add: others_calm_def)
  moreover have "rt_active_session (rts u (ctx w)) = Some i" "rt_pending_followup (rts u (ctx w)) = Some p"
    using assms(1) calmD(7,10) [OF assms(2), of "ctx w"] by (simp_all add: track_def)
  ultimately show ?thesis
    using assms(1) c(1-5) by (simp add: waits_in_def track_def)
qed

lemma announce_followup_track:
  assumes "track i st cr w v" "\<not> failed_with (ts_error (tu_tts turn))" "wants_followup turn"
  shows "wp (announce_tts i turn recording events) (\<lambda>es u. waits_in st i w u
     \<and> (\<exists>a b. es = events @ [a, b] \<and> ev_event_type a = EvEndpointUiScreenRender
          \<and> reports EvTtsReady (sess w i) b)) v"
proof -
  obtain x d where f: "ar_conversation_followup (tu_assistant_response turn) = Some (x # d)"
    using assms(3) by (auto simp: wants_followup_def split: option.splits list.splits)
  show ?thesis
    unfolding announce_tts_def Let_def wp_readers
    apply (simp only: assms(2) f option.case list.case if_False simp_thms)
    apply (rule wp_track_result [OF assms(1) ca.ui_screen_render_event_rel wp_screen_render])
    apply (rule wp_track_event, assumption)
    apply (rule wp_track_calm, assumption, (intro evol; fail), rule wp_track_calm, assumption, (intro evol; fail))
    apply (simp add: wp_bind [of "upd_runtime _"] wp_wiring)
    apply (rule wp_calm_bind, (intro evol; fail))
    apply (auto simp: wp_return intro: waits_after_followup)
    done
qed

lemma announce_failed_track:
  assumes "track i st cr w v" "failed_with (ts_error (tu_tts turn))"
  shows "wp (announce_tts i turn recording events) (\<lambda>es u. closed i (settle st Failed) cr w u
     \<and> (\<exists>e. es = events @ [e] \<and> complains ''tts_failed'' (sess w i) e)) v"
  unfolding announce_tts_def Let_def wp_readers
  by (simp only: assms(2) if_True, rule wp_track_complain [OF assms(1)], rule wp_track_set, assumption,
      rule wp_track_finish, assumption) (auto simp: wp_return)

lemma announce_complete_track:
  assumes "track i st cr w v" "\<not> failed_with (ts_error (tu_tts turn))" "\<not> wants_followup turn"
  shows "wp (announce_tts i turn recording events) (\<lambda>es u. closed i (settle st Completed) cr w u
     \<and> (\<exists>a b e. es = events @ [a, b, e] \<and> ev_event_type a = EvEndpointUiScreenRender
          \<and> reports EvTtsReady (sess w i) b \<and> reports EvSessionCompleted (sess w i) e)) v"
proof -
  have f: "(case ar_conversation_followup (tu_assistant_response turn) of
      Some (x # d) \<Rightarrow> k x d | _ \<Rightarrow> m) = m" for k :: "string \<times> pv \<Rightarrow> dict \<Rightarrow> envelope list M" and m
    using assms(3) by (auto simp: wants_followup_def split: option.splits list.splits)
  show ?thesis
    unfolding announce_tts_def Let_def wp_readers f
    apply (simp only: assms(2) if_False simp_thms)
    apply (rule wp_track_result [OF assms(1) ca.ui_screen_render_event_rel wp_screen_render])
    apply (rule wp_track_event, assumption)
    apply (rule wp_track_calm, assumption, (intro evol; fail), rule wp_track_calm, assumption, (intro evol; fail))
    apply (rule wp_mono, rule complete_session_track, assumption, auto)
    done
qed


section \<open>The contract of a turn\<close>

datatype turn_outcome = TurnFailed string | TurnCompleted | TurnWaits

definition media_pending :: "turn_result \<Rightarrow> bool" where
  \<comment> \<open>the spoken answer is not available yet\<close>
  "media_pending turn \<longleftrightarrow> str_or (ts_stream_id (tu_tts turn)) [] = [] \<and> \<not> failed_with (ts_error (tu_tts turn))"

definition outcome_of :: "turn_result \<Rightarrow> turn_outcome" where
  "outcome_of turn =
     (if failed_with (tr_error (tu_transcript turn)) then TurnFailed ''stt_failed''
      else if media_pending turn then TurnCompleted
      else if failed_with (ts_error (tu_tts turn)) then TurnFailed ''tts_failed''
      else if wants_followup turn then TurnWaits else TurnCompleted)"

definition turn_events :: "turn_result \<Rightarrow> event_type list" where
  "turn_events turn =
     (if failed_with (tr_error (tu_transcript turn)) then [EvSessionError]
      else [EvTranscriptFinal]
        @ (if ar_spoken_text (tu_assistant_response turn) = [] then [] else [EvResponseText])
        @ (if media_pending turn then [EvSessionCompleted]
           else if failed_with (ts_error (tu_tts turn)) then [EvSessionError]
           else [EvEndpointUiScreenRender, EvTtsReady]
             @ (if wants_followup turn then [] else [EvSessionCompleted])))"

definition implements_outcome :: "nat \<Rightarrow> world \<Rightarrow> world \<Rightarrow> envelope list \<Rightarrow> turn_outcome \<Rightarrow> bool" where
  "implements_outcome i w v events out =
     (case out of
        TurnFailed code \<Rightarrow> closed i Failed (ss_cancel_reason (sess w i)) w v
          \<and> complains code (sess w i) (last events)
      | TurnCompleted \<Rightarrow> closed i Completed (ss_cancel_reason (sess w i)) w v
          \<and> reports EvSessionCompleted (sess w i) (last events)
      | TurnWaits \<Rightarrow> waits_in Responding i w v)"

definition turn_of :: "world \<Rightarrow> nat \<Rightarrow> turn_result \<Rightarrow> bool" where
  \<comment> \<open>the pipeline's answer to the audio captured for session \<open>i\<close>\<close>
  "turn_of w i turn \<longleftrightarrow> (\<exists>t audio. turn = e_complete_turn (env w) t audio
     \<and> as_endpoint_id audio = ss_endpoint_id (sess w i) \<and> as_session_id audio = ss_session_id (sess w i)
     \<and> as_chunk_count audio = rt_chunk_count (rts w (ctx w))
     \<and> as_audio_bytes audio = concat (rt_audio_chunks (rts w (ctx w))))"

lemma turn_of_audio: "turn_of w i (e_complete_turn (env w) t (turn_audio (rts w (ctx w)) (sess w i)))"
  unfolding turn_of_def
  by (rule exI [of _ t], rule exI [of _ "turn_audio (rts w (ctx w)) (sess w i)"]) (simp add: turn_audio_def)

lemma turn_of_calm: "calm w v \<Longrightarrow> turn_of v i turn = turn_of w i turn"
  using calmD [of w v] by (simp add: turn_of_def)

lemma wp_run_turn: "wp (run_turn i recording) (\<lambda>x v. turn_of w i (fst x)) w"
proof -
  have step: "wp (State_Monad.bind m f) Q v"
    if "calm w v" "state_io_rel calm m" "\<And>a u. calm w u \<Longrightarrow> wp (f a) Q u"
    for m :: "'a M" and f :: "'a \<Rightarrow> 'b M" and Q v
    by (rule wp_calm_bind [OF that(2)], rule that(3)) (metis ca.trans_R that(1))
  show ?thesis
    unfolding run_turn_def Let_def
    apply (rule wp_calm_bind, (intro evol; fail), rule step, assumption, (intro evol; fail), unfold wp_readers)
    apply (rule wp_skip)+
    apply (simp add: wp_return)
    using turn_of_audio turn_of_calm apply metis
    done
qed


lemma wp_mono2: "wp m P s \<Longrightarrow> wp m R s \<Longrightarrow> (\<And>a t. P a t \<Longrightarrow> R a t \<Longrightarrow> Q a t) \<Longrightarrow> wp m Q s"
  by (simp add: wp_def)

lemma settle_steps [simp]:
  "settle Transcribing LocalCommand = LocalCommand" "settle Transcribing Routing = Routing"
  "settle LocalCommand Responding = Responding" "settle Routing Responding = Responding"
  "settle Responding Completed = Completed" "settle st Failed = Failed"
  "settle LocalCommand Completed = Completed" "settle Failed LocalCommand = Failed"
  "settle Failed Responding = Failed" "settle Failed Completed = Failed" "settle Failed Routing = Failed"
  by (cases st; simp add: settle_def)+

text \<open>The two halves of a transcribed turn.\<close>

definition answered :: "turn_result \<Rightarrow> envelope list \<Rightarrow> bool" where
  "answered turn es \<longleftrightarrow> map ev_event_type es = EvTranscriptFinal #
     (if ar_spoken_text (tu_assistant_response turn) = [] then [] else [EvResponseText])"

definition implements_turn :: "nat \<Rightarrow> world \<Rightarrow> turn_result \<Rightarrow> envelope list \<Rightarrow> world \<Rightarrow> bool" where
  "implements_turn i w turn events v \<longleftrightarrow>
     map ev_event_type events = turn_events turn \<and> implements_outcome i w v events (outcome_of turn)"

lemmas outcome_simps = implements_turn_def answered_def outcome_of_def turn_events_def implements_outcome_def
  reports_def complains_def

lemma answer_turn_answers:
  assumes "track i Transcribing cr w v"
  shows "wp (answer_turn i turn) (\<lambda>es u. track i Responding cr w u \<and> answered turn es) v"
  by (rule wp_mono [OF answer_turn_track [OF assms]]) (auto simp: answered_def reports_def split: if_splits)

lemma announce_tts_implements:
  assumes t: "track i Responding (ss_cancel_reason (sess w i)) w v" and es: "answered turn es"
    and ok: "\<not> failed_with (tr_error (tu_transcript turn))" and media: "\<not> media_pending turn"
  shows "wp (announce_tts i turn recording es) (implements_turn i w turn) v"
proof -
  consider (failed) "failed_with (ts_error (tu_tts turn))"
    | (waits) "\<not> failed_with (ts_error (tu_tts turn))" "wants_followup turn"
    | (finished) "\<not> failed_with (ts_error (tu_tts turn))" "\<not> wants_followup turn" by blast
  then show ?thesis
  proof cases
    case failed
    show ?thesis by (rule wp_mono [OF announce_failed_track [OF t failed]])
        (use failed ok media es in \<open>auto simp: outcome_simps\<close>)
  next
    case waits
    show ?thesis by (rule wp_mono [OF announce_followup_track [OF t waits]])
        (use waits ok media es in \<open>auto simp: outcome_simps\<close>)
  next
    case finished
    show ?thesis by (rule wp_mono [OF announce_complete_track [OF t finished]])
        (use finished ok media es in \<open>auto simp: outcome_simps\<close>)
  qed
qed

lemma answered_turn_implements:
  assumes t: "track i Transcribing (ss_cancel_reason (sess w i)) w v"
    and ok: "\<not> failed_with (tr_error (tu_transcript turn))"
  shows "wp (do {
        events \<leftarrow> answer_turn i turn;
        (if media_pending turn then do {
           set_last_tts None;
           complete_session i ''result_media_pending'' recording events }
         else do {
           store_tts i turn;
           announce_tts i turn recording events }) }) (implements_turn i w turn) v"
  unfolding wp_bind [of "answer_turn i turn"]
proof (rule wp_mono [OF answer_turn_answers [OF t]], elim conjE)
  fix es u
  assume u: "track i Responding (ss_cancel_reason (sess w i)) w u" and es: "answered turn es"
  show "wp (if media_pending turn
      then set_last_tts None \<bind> (\<lambda>_. complete_session i ''result_media_pending'' recording es)
      else store_tts i turn \<bind> (\<lambda>_. announce_tts i turn recording es)) (implements_turn i w turn) u"
  proof (cases "media_pending turn")
    case True
    have "wp (set_last_tts None \<bind> (\<lambda>_. complete_session i ''result_media_pending'' recording es))
       (implements_turn i w turn) u"
      by (rule wp_track_calm [OF u], (intro evol; fail), rule wp_mono, rule complete_session_track, assumption)
        (use True ok es in \<open>auto simp: outcome_simps\<close>)
    with True show ?thesis by simp
  next
    case False
    have "wp (store_tts i turn \<bind> (\<lambda>_. announce_tts i turn recording es)) (implements_turn i w turn) u"
      by (rule wp_track_calm [OF u], (intro evol; fail)) (rule announce_tts_implements [OF _ es ok False])
    with False show ?thesis by simp
  qed
qed

text \<open>C1. A turn: the pipeline is given exactly the audio captured for the session, and from its
  answer alone follow the events the endpoint receives, in order, and what becomes of the
  session: closed as failed when speech could not be transcribed or synthesised, closed as
  completed, or kept open in state \<open>responding\<close> for the answer to a follow-up question. No other
  session changes.\<close>

theorem pipeline_turn_implements:
  assumes "rt_active_session (rts w (ctx w)) = Some i" "ss_session_state (sess w i) = Transcribing"
  shows "wp (pipeline_turn i recording) (\<lambda>events v. \<exists>turn. turn_of w i turn
     \<and> map ev_event_type events = turn_events turn
     \<and> implements_outcome i w v events (outcome_of turn)) w"
proof -
  let ?Q = "\<lambda>events v. \<exists>turn. turn_of w i turn \<and> implements_turn i w turn events v"
  have t: "track i Transcribing (ss_cancel_reason (sess w i)) w w"
    using track_start [OF assms(1)] assms(2) by simp
  have "wp (pipeline_turn i recording) ?Q w"
    unfolding pipeline_turn_def Let_def media_pending_def [symmetric]
  proof (rule wp_track_result [OF t ca.run_turn_rel wp_run_turn], unfold case_prod_beta)
    fix x :: "turn_result \<times> dict option" and u
    assume u: "track i Transcribing (ss_cancel_reason (sess w i)) w u" and x: "turn_of w i (fst x)"
    have "wp (transcription_failed i (tu_transcript (fst x)) (snd x)) (implements_turn i w (fst x)) u"
      if "failed_with (tr_error (tu_transcript (fst x)))"
      by (rule wp_mono [OF transcription_failed_track [OF u]]) (use that in \<open>auto simp: outcome_simps\<close>)
    with answered_turn_implements [OF u, of "fst x" "snd x"]
    have "wp (if failed_with (tr_error (tu_transcript (fst x)))
        then transcription_failed i (tu_transcript (fst x)) (snd x)
        else do { events \<leftarrow> answer_turn i (fst x);
          (if media_pending (fst x) then do {
             set_last_tts None; complete_session i ''result_media_pending'' (snd x) events }
           else do { store_tts i (fst x); announce_tts i (fst x) (snd x) events }) })
       (implements_turn i w (fst x)) u" by simp
    then show "wp (if failed_with (tr_error (tu_transcript (fst x)))
        then transcription_failed i (tu_transcript (fst x)) (snd x)
        else do { events \<leftarrow> answer_turn i (fst x);
          (if media_pending (fst x) then do {
             set_last_tts None; complete_session i ''result_media_pending'' (snd x) events }
           else do { store_tts i (fst x); announce_tts i (fst x) (snd x) events }) }) ?Q u"
      by (rule wp_mono) (use x in blast)
  qed
  then show ?thesis by (simp add: implements_turn_def)
qed


theorem pipeline_turn_implements_witness:
  "wp (pipeline_turn 0 None) (\<lambda>events v. \<exists>turn. turn_of (ex_busy Transcribing) 0 turn
     \<and> map ev_event_type events = turn_events turn
     \<and> implements_outcome 0 (ex_busy Transcribing) v events (outcome_of turn)) (ex_busy Transcribing)"
  by (rule pipeline_turn_implements) simp_all

section \<open>Every end of the audio\<close>

text \<open>\<open>active_since\<close> forgets the state a tracked session is in.\<close>

definition active_since :: "nat \<Rightarrow> world \<Rightarrow> world \<Rightarrow> bool" where
  "active_since i w v \<longleftrightarrow> (\<exists>st. track i st (ss_cancel_reason (sess w i)) w v)"

named_theorems follow \<open>rules that follow an active session through a handler\<close>

lemma active_calm [follow]:
  assumes "active_since i w v" "state_io_rel calm m" "\<And>a u. active_since i w u \<Longrightarrow> wp (f a) Q u"
  shows "wp (State_Monad.bind m f) Q v"
  using assms(2) by (rule wp_calm_bind) (rule assms(3), use assms(1) in \<open>auto simp: active_since_def intro: track_calm\<close>)

lemma active_set [follow]:
  assumes "active_since i w v" "\<And>u. active_since i w u \<Longrightarrow> wp (f ()) Q u"
  shows "wp (State_Monad.bind (set_session_state st') f) Q v"
  using assms(1) unfolding active_since_def
  by (elim exE, intro wp_track_set assms(2)) (auto simp: active_since_def)

lemma active_when_set [follow]:
  assumes "active_since i w v" "\<And>u. active_since i w u \<Longrightarrow> wp (f ()) Q u"
  shows "wp (State_Monad.bind (whenM b (set_session_state st')) f) Q v"
  using active_set [OF assms(1), of f Q st'] assms by (cases b) (simp_all add: whenM_def)

lemma active_complete [follow]: "active_since i w v \<Longrightarrow> wp (complete_session i reason recording events) (\<lambda>_. settled i w) v"
  unfolding active_since_def
  by (elim exE, rule wp_mono, rule complete_session_track, assumption)
    (auto simp: settled_def concluded_def intro: settle_terminal)

lemma active_stt_failed [follow]: "active_since i w v \<Longrightarrow> wp (transcription_failed i t recording) (\<lambda>_. settled i w) v"
  unfolding active_since_def
  by (elim exE, rule wp_mono, rule transcription_failed_track, assumption)
    (auto simp: settled_def concluded_def is_outcome_def)

lemma active_finish [follow]:
  assumes "active_since i w v"
  shows "wp (do { set_session_state Completed; e \<leftarrow> completed_event i reason extra;
      finish_session i reason' error recording; ret (events e) }) (\<lambda>_. settled i w) v"
proof -
  from assms obtain st where t: "track i st (ss_cancel_reason (sess w i)) w v" by (auto simp: active_since_def)
  show ?thesis
    by (rule wp_track_set [OF t], rule wp_track_completed, assumption, rule wp_track_conclude, assumption)
      (simp_all add: wp_return settled_def)
qed

lemma answer_turn_active: "active_since i w v \<Longrightarrow> wp (answer_turn i turn) (\<lambda>_ u. \<exists>st. track i (settle st Responding) (ss_cancel_reason (sess w i)) w u) v"
  unfolding active_since_def
  by (elim exE, rule wp_mono, rule answer_turn_track, assumption) blast

lemma announce_tts_settles:
  assumes "track i (settle st Responding) (ss_cancel_reason (sess w i)) w v"
  shows "wp (announce_tts i turn recording events) (\<lambda>_. settled i w) v"
proof -
  consider (failed) "failed_with (ts_error (tu_tts turn))"
    | (waits) "\<not> failed_with (ts_error (tu_tts turn))" "wants_followup turn"
    | (finished) "\<not> failed_with (ts_error (tu_tts turn))" "\<not> wants_followup turn" by blast
  then show ?thesis
  proof cases
    case failed
    then show ?thesis by (intro wp_mono [OF announce_failed_track [OF assms]])
        (auto simp: settled_def concluded_def is_outcome_def)
  next
    case waits
    then show ?thesis by (intro wp_mono [OF announce_followup_track [OF assms]]) (auto simp: settled_def)
  next
    case finished
    then show ?thesis by (intro wp_mono [OF announce_complete_track [OF assms]])
        (auto simp: settled_def concluded_def intro: settle_terminal)
  qed
qed

lemma pipeline_turn_settles [follow]:
  assumes "active_since i w v"
  shows "wp (pipeline_turn i recording) (\<lambda>_. settled i w) v"
  unfolding pipeline_turn_def Let_def
proof (rule active_calm [OF assms], (intro evol; fail), unfold case_prod_beta)
  fix x :: "turn_result \<times> dict option" and u
  assume u: "active_since i w u"
  have "wp (answer_turn i (fst x) \<bind> f) (\<lambda>_. settled i w) u"
    if "\<And>es st u. track i (settle st Responding) (ss_cancel_reason (sess w i)) w u \<Longrightarrow> wp (f es) (\<lambda>_. settled i w) u"
    for f :: "envelope list \<Rightarrow> envelope list M"
    unfolding wp_bind by (rule wp_mono [OF answer_turn_active [OF u]]) (use that in blast)
  moreover have "wp (if media_pending (fst x) then do {
             set_last_tts None; complete_session i ''result_media_pending'' (snd x) es }
           else do { store_tts i (fst x); announce_tts i (fst x) (snd x) es }) (\<lambda>_. settled i w) t"
    if t: "track i (settle st Responding) (ss_cancel_reason (sess w i)) w t" for es st t
  proof -
    have "wp (store_tts i (fst x) \<bind> (\<lambda>_. announce_tts i (fst x) (snd x) es)) (\<lambda>_. settled i w) t"
      by (rule wp_track_calm [OF t], (intro evol; fail)) (rule announce_tts_settles)
    moreover have "active_since i w t" using t by (auto simp: active_since_def)
    then have "wp (set_last_tts None \<bind> (\<lambda>_. complete_session i ''result_media_pending'' (snd x) es)) (\<lambda>_. settled i w) t"
      by (rule active_calm, (intro evol; fail)) (rule active_complete)
    ultimately show ?thesis by simp
  qed
  ultimately show "wp (if failed_with (tr_error (tu_transcript (fst x)))
        then transcription_failed i (tu_transcript (fst x)) (snd x)
        else do { events \<leftarrow> answer_turn i (fst x);
          (if str_or (ts_stream_id (tu_tts (fst x))) [] = [] \<and> \<not> failed_with (ts_error (tu_tts (fst x))) then do {
             set_last_tts None; complete_session i ''result_media_pending'' (snd x) events }
           else do { store_tts i (fst x); announce_tts i (fst x) (snd x) events }) }) (\<lambda>_. settled i w) u"
    using active_stt_failed [OF u] by (simp add: media_pending_def)
qed


lemma placement_test_settles [follow]:
  assumes "active_since i w v"
  shows "wp (complete_active_placement_test i window) (\<lambda>_. settled i w) v"
  unfolding complete_active_placement_test_def Let_def
  apply (rule active_calm [OF assms], (intro evol; fail), unfold case_prod_beta wp_readers)
  apply (rule active_calm, assumption, (intro evol; fail), rule active_calm, assumption, (intro evol; fail), unfold wp_readers)
  apply (rule active_calm, assumption, (intro evol; fail), rule active_calm, assumption, (intro evol; fail))
  apply (rule active_calm, assumption, (intro evol ca.light; simp add: light_parts; fail))
  apply (rule active_calm, assumption, (intro evol; fail), rule active_set, assumption)
  apply (rule active_finish [where events = "\<lambda>e. [_, e]"], assumption)
  done

lemma wp_branch: "(b \<Longrightarrow> wp m Q s) \<Longrightarrow> (\<not> b \<Longrightarrow> wp n Q s) \<Longrightarrow> wp (if b then m else n) Q s"
  by simp

lemma enrollment_settles [follow]:
  assumes "active_since i w v"
  shows "wp (complete_enrollment_capture i window recording) (\<lambda>_. settled i w) v"
  unfolding complete_enrollment_capture_def Let_def
  apply (rule active_calm [OF assms], (intro evol; fail), unfold case_prod_beta)
  apply (rule wp_branch, rule active_stt_failed, assumption)
  apply (rule active_calm, assumption, (intro evol; fail), rule active_calm, assumption, (intro evol; fail))
  apply (rule active_calm, assumption, (intro evol; fail), rule active_calm, assumption, (intro evol; fail))
  apply (rule active_calm, assumption, (intro evol; fail), rule active_set, assumption)
  apply (rule active_finish [where events = "\<lambda>e. [_, e]"], assumption)
  done


lemma wp_track_release_clear:
  assumes "track i st cr w v" "\<And>u. closed i st cr w u \<Longrightarrow> wp m Q u"
  shows "wp (do { release_active_session_wake_stream; clear_active_session_runtime; m }) Q v"
proof -
  have "wp (do { release_active_session_wake_stream; clear_active_session_runtime } \<bind> (\<lambda>_. m)) Q v"
    unfolding wp_bind [of _ "\<lambda>_. m"]
    by (rule wp_mono [OF release_and_clear [OF track_active [OF assms(1)]]], rule assms(2))
      (rule track_over [OF assms(1)])
  then show ?thesis by (simp add: State_Monad.bind_assoc)
qed

lemma custom_closing:
  assumes "active_since i w v"
  shows "wp (if b then do {
             set_session_state Failed;
             e \<leftarrow> error_event endpoint session code message True;
             ret (e, failed) }
           else do {
             set_session_state LocalCommand;
             set_session_state Responding;
             set_session_state Completed;
             e \<leftarrow> state_event EvSessionCompleted i [];
             ret (e, completed) })
     (\<lambda>_ u. \<exists>st. is_outcome st \<and> track i st (ss_cancel_reason (sess w i)) w u) v"
proof -
  from assms obtain st where t: "track i st (ss_cancel_reason (sess w i)) w v" by (auto simp: active_since_def)
  show ?thesis
    apply (rule wp_branch)
     apply (rule wp_track_set [OF t], rule wp_track_calm, assumption, (intro evol; fail))
     apply (auto simp: wp_return is_outcome_def) [1]
    apply (rule wp_track_set [OF t], rule wp_track_set, assumption, rule wp_track_set, assumption,
        rule wp_track_calm, assumption, (intro evol; fail))
    apply (auto simp: wp_return intro: settle_terminal)
    done
qed

lemma custom_capture_settles:
  assumes "active_since i w v" "e_has_turn_pipeline (env w)"
  shows "wp (complete_custom_capture i) (\<lambda>_. settled i w) v"
proof -
  have "env v = env w" using assms(1) by (auto simp: active_since_def track_def)
  then show ?thesis
    unfolding complete_custom_capture_def wp_readers
    apply (simp only: assms(2) simp_thms if_False)
    apply (rule active_calm [OF assms(1)], (intro evol; fail), rule active_calm, assumption, (intro evol; fail))
    apply (rule active_calm, assumption, (intro evol; fail), rule active_calm, assumption, (intro evol; fail), unfold wp_readers)
    apply (unfold wp_bind [of "if _ then _ else _"], rule wp_mono, rule custom_closing, assumption)
    apply (elim exE conjE, unfold case_prod_beta, rule wp_track_calm, assumption, (intro evol; fail))
    apply (rule wp_track_calm, assumption, (intro evol; fail), rule wp_track_release_clear, assumption)
    apply (auto simp: wp_return settled_def concluded_def)
    done
qed

lemma complete_without_pipeline_settles [follow]:
  "active_since i w v \<Longrightarrow> wp (complete_without_pipeline i recording) (\<lambda>_. settled i w) v"
  unfolding complete_without_pipeline_def
  by (rule active_set, assumption, rule active_set, assumption, rule active_complete, assumption)

lemma route_audio_settles:
  assumes "active_since i w v"
  shows "wp (route_audio i endpoint) (\<lambda>_. settled i w) v"
proof -
  have e: "active_since i w u \<Longrightarrow> env u = env w" for u by (auto simp: active_since_def track_def)
  show ?thesis
    unfolding route_audio_def wp_readers
    apply (rule wp_branch, rule custom_capture_settles [OF assms], simp add: e [OF assms])
    apply (rule active_calm [OF assms], (intro evol; fail), unfold wp_readers)
    apply (rule wp_branch, rule placement_test_settles, assumption)
    apply (rule active_calm, assumption, (intro evol; fail), rule active_calm, assumption, (intro evol; fail))
    apply (auto split: option.split intro: follow)
    done
qed

lemma audio_end_awake_settles:
  assumes "rt_active_session (rts w (ctx w)) = Some i"
  shows "wp (audio_end_awake event i) (\<lambda>_. settled i w) w"
proof -
  have a: "active_since i w w" using track_start [OF assms] by (auto simp: active_since_def)
  show ?thesis
    unfolding audio_end_awake_def wp_readers
    by (rule active_when_set [OF a], rule active_calm, assumption, (intro evol; fail), rule active_calm, assumption,
        (intro evol; fail), rule active_set, assumption, rule route_audio_settles)
qed

text \<open>C2. Whatever the audio of a woken session was for, a custom capture, a placement test, a
  speaker enrollment or a turn, its end has one of two results. Either the session is concluded: it is
  completed or failed, and the connection is idle, with no active session, no captured audio and no
  pending follow-up. Or the session stays the active one of its connection, responding (or failed, when
  it could not move to responding), with a follow-up pending. In both cases it keeps its identity, no
  other session changes and no other connection is affected.\<close>

theorem audio_end_settles:
  assumes "rt_active_session (rts w (ctx w)) = Some i"
    and "ev_session_id event = None \<or> ev_session_id event = Some (ss_session_id (sess w i))"
    and "ss_session_state (sess w i) \<noteq> Idle"
  shows "wp (handle_audio_end event) (\<lambda>_. settled i w) w"
  unfolding handle_audio_end_def
  by (intro wp_require_active_session [OF assms(1,2)])
    (simp add: wp_readers assms(3) audio_end_awake_settles [OF assms(1)])

theorem audio_end_settles_witness:
  "wp (handle_audio_end (ex_event EvAudioEnd 1)) (\<lambda>_. settled 0 (ex_busy Capturing)) (ex_busy Capturing)"
  by (rule audio_end_settles) simp_all

text \<open>The end of the audio may come before any audio did: then the session cannot move to
  \<open>transcribing\<close> and fails, and yet, without a pipeline, the endpoint is told that the session
  has completed.\<close>

lemma premature_audio_end_fails:
  assumes "rt_active_session (rts w (ctx w)) = Some i"
    and "ev_session_id event = None \<or> ev_session_id event = Some (ss_session_id (sess w i))"
    and "ss_session_state (sess w i) \<in> {WakeDetected, Listening}" "\<not> e_has_turn_pipeline (env w)"
  shows "wp (handle_audio_end event) (\<lambda>events v. closed i Failed (ss_cancel_reason (sess w i)) w v
     \<and> (\<exists>e. events = [e] \<and> reports EvSessionCompleted (sess w i) e)) w"
proof -
  let ?Q = "\<lambda>events v. closed i Failed (ss_cancel_reason (sess w i)) w v
     \<and> (\<exists>e. events = [e] \<and> reports EvSessionCompleted (sess w i) e)"
  let ?t = "\<lambda>st. track i st (ss_cancel_reason (sess w i)) w"
  have listening: "wp (whenM (ss_session_state (sess w i) = WakeDetected) (set_session_state Listening) \<bind> f) Q w"
    if "\<And>u. ?t Listening u \<Longrightarrow> wp (f ()) Q u" for f :: "unit \<Rightarrow> envelope list M" and Q
    using assms(3) that wp_track_set [OF track_start [OF assms(1)], of Listening f Q] track_start [OF assms(1)]
    by (auto simp: whenM_def settle_def)
  have route: "wp (route_audio i endpoint) ?Q u" if t: "?t Failed u" for u endpoint
  proof -
    have np: "\<not> e_has_turn_pipeline (env u)" using assms(4) t by (simp add: track_def)
    have "wp (complete_without_pipeline i recording) ?Q v" if "?t Failed v" for v recording
      unfolding complete_without_pipeline_def
      by (rule wp_track_set [OF that], rule wp_track_set, assumption, rule wp_mono, rule complete_session_track,
          assumption) auto
    then show ?thesis
      unfolding route_audio_def wp_readers using np
      by (simp, intro wp_track_calm [OF t], intro evol, unfold wp_readers) (rule wp_track_calm, assumption, (intro evol; fail),
          rule wp_track_calm, assumption, (intro evol; fail))
  qed
  have "wp (audio_end_awake event i) ?Q w"
    unfolding audio_end_awake_def wp_readers
    by (rule listening, rule wp_track_calm, assumption, (intro evol; fail), rule wp_track_calm, assumption,
        (intro evol; fail), rule wp_track_set, assumption, rule route) (simp add: settle_def)
  then show ?thesis
    unfolding handle_audio_end_def
    by (intro wp_require_active_session [OF assms(1,2)]) (use assms(3) in \<open>auto simp: wp_readers\<close>)
qed

lemma premature_audio_end_fails_witness:
  "\<exists>w. wp (handle_audio_end (ex_event EvAudioEnd 1)) (\<lambda>events v. closed 0 Failed None w v
     \<and> (\<exists>e. events = [e] \<and> reports EvSessionCompleted (ex_session Listening) e)) w"
proof
  let ?w = "(ex_busy Listening)\<lparr>env := ex_env\<lparr>e_has_turn_pipeline := False\<rparr>\<rparr>"
  show "wp (handle_audio_end (ex_event EvAudioEnd 1)) (\<lambda>events v. closed 0 Failed None ?w v
     \<and> (\<exists>e. events = [e] \<and> reports EvSessionCompleted (ex_session Listening) e)) ?w"
    using premature_audio_end_fails [of ?w 0 "ex_event EvAudioEnd 1"] by (simp add: ex_session_def)
qed

end
