(* ===== verification/SessionStarts.thy ===== *)
theory SessionStarts
  imports TurnOutcomes
begin

text \<open>
  How sessions start: a session opened by hand listens at once, one opened for a wake word waits
  for it; a second start replaces only a session that has not captured anything, and is refused
  otherwise.
\<close>

section \<open>A session just opened\<close>

definition opened :: "envelope \<Rightarrow> session_start_payload \<Rightarrow> session_state \<Rightarrow> world \<Rightarrow> world \<Rightarrow> bool" where
  "opened event p st w v \<longleftrightarrow>
     env v = env w \<and> ctx v = ctx w \<and> endpoint_runtimes v = endpoint_runtimes w
     \<and> next_sess v = Suc (next_sess w) \<and> (\<forall>j. j \<noteq> next_sess w \<longrightarrow> sess v j = sess w j)
     \<and> (let s = sess v (next_sess w); r = rts v (ctx w) in
          ss_session_state s = st \<and> ss_endpoint_id s = ev_endpoint_id event
          \<and> (\<forall>c t. ev_session_id event = Some (c # t) \<longrightarrow> ss_session_id s = c # t)
          \<and> ss_started_at s = ev_timestamp event \<and> ss_wake_source s = sp_wake_source p
          \<and> rt_active_session r = Some (next_sess w) \<and> rt_chunk_count r = 0 \<and> rt_audio_chunks r = []
          \<and> rt_ambient_audio_chunks r = [] \<and> rt_audio_format r = Some (sp_audio_format p)
          \<and> rt_history r \<noteq> None)
     \<and> others_calm w v"

definition start_world :: "snapshot \<Rightarrow> session_start_payload \<Rightarrow> world \<Rightarrow> world" where
  \<comment> \<open>the state after the session and its history entry are there\<close>
  "start_world s p w = snd (run_state (do {
     alloc_session s;
     upd_runtime (\<lambda>r. r\<lparr>rt_chunk_count := 0, rt_audio_chunks := [], rt_ambient_audio_chunks := [],
       rt_audio_format := Some (sp_audio_format p)\<rparr>);
     begin_active_session_history s p }) w)"

lemma start_world_track:
  assumes "s = fresh_snapshot event p sid"
  shows "track (next_sess w) Idle None (start_world s p w) (start_world s p w)"
  using assms
  by (simp add: track_def start_world_def same_session_def alloc_session_def upd_runtime_def Let_def
      begin_active_session_history_def fresh_snapshot_def)

lemma start_world_runtime: "r \<noteq> ctx w \<Longrightarrow> rts (start_world s p w) r = rts w r"
  by (simp add: start_world_def alloc_session_def upd_runtime_def Let_def begin_active_session_history_def)

lemma start_world_fields [simp]:
  "env (start_world s p w) = env w" "ctx (start_world s p w) = ctx w" "next_sess (start_world s p w) = Suc (next_sess w)"
  "endpoint_runtimes (start_world s p w) = endpoint_runtimes w"
  "sess (start_world s p w) = (sess w)(next_sess w := s)"
  "rt_active_session (rts (start_world s p w) (ctx w)) = Some (next_sess w)"
  "rt_chunk_count (rts (start_world s p w) (ctx w)) = 0" "rt_audio_chunks (rts (start_world s p w) (ctx w)) = []"
  "rt_ambient_audio_chunks (rts (start_world s p w) (ctx w)) = []"
  "rt_audio_format (rts (start_world s p w) (ctx w)) = Some (sp_audio_format p)"
  "rt_history (rts (start_world s p w) (ctx w)) \<noteq> None"
  by (simp_all add: start_world_def alloc_session_def upd_runtime_def Let_def begin_active_session_history_def)

lemma start_world_opened:
  assumes "track (next_sess w) st None (start_world s p u) v" "s = fresh_snapshot event p sid" "calm w u"
    and "\<And>c t. ev_session_id event = Some (c # t) \<Longrightarrow> sid = c # t"
  shows "opened event p st w v"
proof -
  have n: "next_sess u = next_sess w" "ctx u = ctx w" using calmD [OF assms(3)] by simp_all
  have m: "mild_step (rts (start_world s p u) r) (rts v r)" for r using assms(1) by (simp add: track_def)
  have "mild_step (rts w r) (rts v r)" if "r \<noteq> ctx w" for r
    using mild_step_trans [OF calmD(6) [OF assms(3), of r]] m [of r] start_world_runtime [of r u] that n by simp
  then have o: "others_calm w v" by (simp add: others_calm_def)
  note c = m [of "ctx u", unfolded mild_step_def]
  have r: "rt_active_session (rts v (ctx w)) = Some (next_sess w)" "rt_chunk_count (rts v (ctx w)) = 0"
      "rt_audio_chunks (rts v (ctx w)) = []" "rt_ambient_audio_chunks (rts v (ctx w)) = []"
      "rt_audio_format (rts v (ctx w)) = Some (sp_audio_format p)" "rt_history (rts v (ctx w)) \<noteq> None"
    using c start_world_fields(6-11) [of s p u] unfolding n by simp_all
  have f: "sess v j = sess w j" if "j \<noteq> next_sess w" for j
    using assms(1) that calmD(3) [OF assms(3)] n by (simp add: track_def)
  have g: "same_session s (sess v (next_sess w))" "ss_session_state (sess v (next_sess w)) = st"
    using assms(1) n by (simp_all add: track_def)
  have e: "env v = env w" "ctx v = ctx w" "endpoint_runtimes v = endpoint_runtimes w" "next_sess v = Suc (next_sess w)"
    using assms(1) calmD [OF assms(3)] by (simp_all add: track_def)
  show ?thesis
    unfolding opened_def Let_def
    using e f r g o assms(4) by (simp add: same_session_def assms(2) fresh_snapshot_def)
qed


section \<open>Opening\<close>

lemma wp_alloc:
  "wp (do { i \<leftarrow> alloc_session s;
      upd_runtime (\<lambda>r. r\<lparr>rt_chunk_count := 0, rt_audio_chunks := [],
        rt_ambient_audio_chunks := [], rt_audio_format := Some (sp_audio_format p)\<rparr>);
      begin_active_session_history s p; f i }) Q w = wp (f (next_sess w)) Q (start_world s p w)"
  by (simp add: wp_def start_world_def alloc_session_def Let_def case_prod_beta)

lemma wp_open_session:
  assumes "e_v_start (env w) (ev_payload event) = Inr p"
    and "\<And>sid u. calm w u \<Longrightarrow> (\<And>c t. ev_session_id event = Some (c # t) \<Longrightarrow> sid = c # t) \<Longrightarrow>
      wp (greet event p sid (next_sess w)) Q (start_world (fresh_snapshot event p sid) p u)"
  shows "wp (open_session event) Q w"
proof -
  let ?sid = "case ev_session_id event of Some (c # t) \<Rightarrow> ret (c # t)
      | _ \<Rightarrow> do { u \<leftarrow> uuid_hex; ret (''voice-session-'' @ take 12 u) }"
  have sid: "wp ?sid (\<lambda>sid u. calm w u \<and> (\<forall>c t. ev_session_id event = Some (c # t) \<longrightarrow> sid = c # t)) w"
    unfolding wp_conj
  proof
    show "wp ?sid (\<lambda>_. calm w) w" by (rule wp_calm, intro evol) simp
    show "wp ?sid (\<lambda>sid u. \<forall>c t. ev_session_id event = Some (c # t) \<longrightarrow> sid = c # t) w"
      by (auto simp: wp_def split: option.split list.split)
  qed
  show ?thesis
    unfolding open_session_def wp_readers assms(1) sum.case wp_bind [of ?sid]
    by (rule wp_mono [OF sid]) (use calmD(4) in \<open>auto simp: wp_alloc intro!: assms(2)\<close>)
qed

lemma touch_wake_listens:
  assumes "track i Idle None w v"
  shows "wp (touch_wake event sid source i) (\<lambda>e u. track i Listening None w u \<and> reports EvWakeAccepted (sess w i) e) v"
proof -
  have s: "settle Idle WakeDetected = WakeDetected" "settle WakeDetected Listening = Listening"
    by (simp_all add: settle_def)
  show ?thesis
    unfolding touch_wake_def
    apply (rule wp_track_set [OF assms], unfold s)
    apply (rule wp_track_calm, assumption, (intro evol; fail), rule wp_track_calm, assumption, (intro evol; fail))
    apply (rule wp_track_calm, assumption, (intro evol; fail), rule wp_track_calm, assumption, (intro evol; fail))
    apply (rule wp_track_calm, assumption, (intro evol; fail), rule wp_track_event, assumption, rule wp_track_set, assumption)
    apply (simp add: s wp_return)
    done
qed

definition opened_by_hand :: "session_start_payload \<Rightarrow> bool" where
  "opened_by_hand p \<longleftrightarrow> sp_wake_source p \<in> {WakeButton, WakeManual, WakeTouch}"

definition greeting :: "session_start_payload \<Rightarrow> snapshot \<Rightarrow> envelope list \<Rightarrow> bool" where
  "greeting p s events \<longleftrightarrow>
     (if opened_by_hand p then \<exists>a b. events = [a, b] \<and> reports EvWakeAccepted s a \<and> reports EvSessionState s b
      else \<exists>e. events = [e] \<and> reports EvSessionState s e)"

lemma greeting_cong: "same_session s t \<Longrightarrow> greeting p t = greeting p s"
  by (simp add: greeting_def reports_def same_session_def fun_eq_iff)

lemma greet_opens:
  assumes "u = start_world (fresh_snapshot event p sid) p w'" "next_sess w' = i"
  shows "wp (greet event p sid i) (\<lambda>events v. track i (if opened_by_hand p then Listening else Idle) None u v
     \<and> greeting p (sess u i) events) u"
proof -
  have t: "track i Idle None u u" using start_world_track [OF refl, of w' event p sid] assms by simp
  have e: "wp (state_event EvSessionState i [] \<bind> f) Q v"
    if "track i st None u v" "\<And>x v. track i st None u v \<Longrightarrow> reports EvSessionState (sess u i) x \<Longrightarrow> wp (f x) Q v"
    for st v and f :: "envelope \<Rightarrow> envelope list M" and Q
    using that by (rule wp_track_event)
  show ?thesis
    unfolding greet_def opened_by_hand_def [symmetric]
    apply (rule wp_track_calm [OF t], (intro evol; fail), rule wp_track_calm, assumption, (intro evol; fail))
    apply (rule wp_branch, unfold wp_bind [of "touch_wake _ _ _ _"], rule wp_mono, rule touch_wake_listens, assumption)
     apply (elim conjE, rule e, assumption, simp add: wp_return greeting_def)
    apply (rule e, assumption, simp add: wp_return greeting_def)
    done
qed


lemma open_session_opens:
  assumes "e_v_start (env w) (ev_payload event) = Inr p"
  shows "wp (open_session event) (\<lambda>events v.
     opened event p (if opened_by_hand p then Listening else Idle) w v
     \<and> greeting p (sess v (next_sess w)) events) w"
proof (rule wp_open_session [OF assms])
  fix sid u
  assume u: "calm w u" and sid: "\<And>c t. ev_session_id event = Some (c # t) \<Longrightarrow> sid = c # t"
  let ?s = "fresh_snapshot event p sid"
  have n: "next_sess u = next_sess w" using calmD [OF u] by simp
  show "wp (greet event p sid (next_sess w)) (\<lambda>events v.
     opened event p (if opened_by_hand p then Listening else Idle) w v
     \<and> greeting p (sess v (next_sess w)) events) (start_world ?s p u)"
  proof (rule wp_mono [OF greet_opens [OF refl n]], elim conjE)
    fix events v
    assume t: "track (next_sess w) (if opened_by_hand p then Listening else Idle) None (start_world ?s p u) v"
      and g: "greeting p (sess (start_world ?s p u) (next_sess w)) events"
    have "same_session (sess (start_world ?s p u) (next_sess w)) (sess v (next_sess w))"
      using t unfolding track_def by blast
    then have "greeting p (sess v (next_sess w)) events" using g by (simp only: greeting_cong)
    with start_world_opened [OF t refl u sid] show "opened event p (if opened_by_hand p then Listening else Idle) w v
       \<and> greeting p (sess v (next_sess w)) events" by simp
  qed
qed

section \<open>Starting while a session is active\<close>

definition ordinary :: "runtime \<Rightarrow> bool" where
  \<comment> \<open>the active session is neither a placement test nor an enrollment capture\<close>
  "ordinary r \<longleftrightarrow> \<not> is_placement_test r \<and> \<not> is_speaker_enrollment_capture r"

lemma wp_active_snapshot:
  "rt_active_session (rts w (ctx w)) = Some i \<Longrightarrow>
   wp (State_Monad.bind active_snapshot f) Q w = wp (f (Some (sess w i))) Q w"
  by (simp add: active_snapshot_def State_Monad.bind_assoc wp_readers)

lemma wp_no_capture:
  assumes "rt_active_session (rts w (ctx w)) = Some i" "ordinary (rts w (ctx w))"
  shows "wp (State_Monad.bind (should_complete_placement_test event) f) Q w = wp (f False) Q w"
    "wp (State_Monad.bind (should_complete_speaker_enrollment event) f) Q w = wp (f False) Q w"
  using assms
  by (simp_all add: should_complete_placement_test_def should_complete_speaker_enrollment_def ordinary_def
      State_Monad.bind_assoc wp_readers wp_active_snapshot)

lemma wp_start_active:
  assumes "rt_active_session (rts w (ctx w)) = Some i" "ordinary (rts w (ctx w))"
  shows "wp (handle_session_start event) Q w =
    (if can_merge_playback_interrupt_event (e_repr (env w)) (rts w (ctx w)) (Some (sess w i)) event
     then wp (do { e \<leftarrow> state_event EvSessionState i []; ret [e] }) Q w
     else if can_replace_active_session (rts w (ctx w)) (sess w i) event
     then wp (do { supersede_active_session i; open_session event }) Q w
     else wp (reject event ''active_session_exists''
       ''Only one active voice session is supported for the MVP.'') Q w)"
  unfolding handle_session_start_def wp_readers
  by (simp add: assms(1) wp_readers wp_no_capture [OF assms])

text \<open>C8. A start without an active session opens one for the endpoint, with empty capture buffers
  and its own history entry. Opened by button, touch or hand it is woken at once and listens, and
  the endpoint is told so; otherwise it stays idle until a wake word. Nothing else changes.\<close>

theorem session_start_opens:
  assumes "rt_active_session (rts w (ctx w)) = None" "e_v_start (env w) (ev_payload event) = Inr p"
  shows "wp (handle_session_start event) (\<lambda>events v.
     opened event p (if opened_by_hand p then Listening else Idle) w v
     \<and> greeting p (sess v (next_sess w)) events) w"
  unfolding handle_session_start_def wp_readers assms(1) option.case
  by (rule open_session_opens [OF assms(2)])

theorem session_start_opens_witness:
  "\<exists>w p. wp (handle_session_start (ex_event EvSessionStart 0)) (\<lambda>events v.
     opened (ex_event EvSessionStart 0) p Listening w v \<and> greeting p (sess v (next_sess w)) events) w"
proof (intro exI)
  let ?p = "\<lparr>sp_audio_format = pcm, sp_firmware_version = None, sp_wake_source = WakeButton\<rparr>"
  have "opened_by_hand ?p" by (simp add: opened_by_hand_def)
  then show "wp (handle_session_start (ex_event EvSessionStart 0)) (\<lambda>events v.
     opened (ex_event EvSessionStart 0) ?p Listening (ex_world ex_runtime Idle) v
     \<and> greeting ?p (sess v (next_sess (ex_world ex_runtime Idle))) events) (ex_world ex_runtime Idle)"
    using session_start_opens [of "ex_world ex_runtime Idle" "ex_event EvSessionStart 0" ?p]
    by (simp add: ex_world_def ex_runtime_def new_runtime_def ex_env_def)
qed

text \<open>C9. An ordinary session (neither a placement test nor an enrollment capture) that is being captured or
  answered is protected: another start that names a session is refused with
  \<open>active_session_exists\<close> and changes no session, capture or connection. (During a placement test or an
  enrollment capture the manager treats a start differently; nothing is claimed of those.)\<close>

theorem busy_session_protected:
  assumes "rt_active_session (rts w (ctx w)) = Some i" "ordinary (rts w (ctx w))"
    and "ss_session_state (sess w i) \<in> {Capturing, Transcribing, LocalCommand, Routing, Responding}"
    and "ev_session_id event = Some sid"
  shows "wp (handle_session_start event) (\<lambda>events v. calm w v \<and> (\<exists>e. events = [e]
     \<and> ev_event_type e = EvSessionError \<and> ev_session_id e = Some sid
     \<and> dget (ev_payload e) ''code'' = PStr ''active_session_exists'')) w"
proof -
  have c: "wp (error_event (ev_endpoint_id event) (Some sid) code message True) (\<lambda>e v. calm w v
      \<and> ev_event_type e = EvSessionError \<and> ev_session_id e = Some sid \<and> dget (ev_payload e) ''code'' = PStr code) w"
    for code message
    unfolding wp_conj [of _ "\<lambda>_. calm w"]
    using wp_error_event [where w = w and code = code and message = message and endpoint = "ev_endpoint_id event"
        and recoverable = True] wp_calm [OF ca.error_event_rel]
    by (auto simp: wp_def complains_def error_event_def Let_def upd_runtime_def record_event_diagnostic_def
        next_sequence_def cur_runtime_def mk_event_def uuid_hex_def py_now_def dump_error_def dget_def
        intro: calm_refl)
  have "\<not> can_merge_playback_interrupt_event (e_repr (env w)) (rts w (ctx w)) (Some (sess w i)) event"
    "\<not> can_replace_active_session (rts w (ctx w)) (sess w i) event"
    using assms(3) by (auto simp: can_merge_playback_interrupt_event_def can_replace_active_session_def)
  then show ?thesis
    unfolding wp_start_active [OF assms(1,2)]
    by (simp add: reject_def assms(4) wp_bind wp_return) (rule wp_mono [OF c], simp add: wp_return)
qed

theorem busy_session_protected_witness:
  "wp (handle_session_start (ex_event EvSessionStart 0)) (\<lambda>events v. calm (ex_busy Capturing) v \<and> (\<exists>e. events = [e]
     \<and> ev_event_type e = EvSessionError \<and> ev_session_id e = Some ''s1''
     \<and> dget (ev_payload e) ''code'' = PStr ''active_session_exists'')) (ex_busy Capturing)"
  by (rule busy_session_protected) (simp_all add: ordinary_def is_placement_test_def is_speaker_enrollment_capture_def
      history_dict_def dget_def)

end
