(* ===== verification/CommandLife.thy ===== *)
theory CommandLife
  imports Connections SessionStarts
begin

text \<open>
  The life of a command: it is sent to the live connection of its endpoint and recorded as pending,
  the endpoint acknowledges it or reports an error, or its time runs out. Apart from a cancel no
  command touches a session.
\<close>

section \<open>Sending\<close>

definition live_socket :: "string \<Rightarrow> world \<Rightarrow> (nat \<times> nat) option" where
  "live_socket e w = (case runtime_for_endpoint e w of None \<Rightarrow> None
     | Some r \<Rightarrow> map_option (Pair r) (rt_websocket (rts w r)))"

definition addressed :: "event_type \<Rightarrow> string \<Rightarrow> dict \<Rightarrow> string option \<Rightarrow> string option \<Rightarrow> nat \<Rightarrow> world \<Rightarrow> string \<Rightarrow> envelope \<Rightarrow> bool" where
  \<comment> \<open>the event that carries the command with request id \<open>rid\<close> to runtime \<open>r\<close>\<close>
  "addressed et e payload request_id session_id r w rid ev \<longleftrightarrow>
     ev_event_type ev = et \<and> ev_endpoint_id ev = e \<and> ev_direction ev = BackendToEndpoint
     \<and> ev_session_id ev = (case session_id of Some (c # x) \<Rightarrow> Some (c # x)
          | _ \<Rightarrow> map_option (\<lambda>i. ss_session_id (sess w i)) (rt_active_session (rts w r)))
     \<and> ev_sequence ev = Some (rt_sequence (rts w r))
     \<and> ev_payload ev = aupdate [(''request_id'', PStr rid)] payload
     \<and> (\<forall>c x. request_id = Some (c # x) \<longrightarrow> rid = c # x)"

definition pending_command :: "string \<Rightarrow> string \<Rightarrow> string \<Rightarrow> event_type \<Rightarrow> dict \<Rightarrow> bool" where
  "pending_command rid e command_type et rec \<longleftrightarrow>
     dget rec ''request_id'' = PStr rid \<and> dget rec ''endpoint_id'' = PStr e
     \<and> dget rec ''command_type'' = PStr command_type \<and> dget rec ''event_type'' = PStr (event_name et)
     \<and> dget rec ''status'' = PStr ''pending'' \<and> dget rec ''terminal'' = PBool False
     \<and> (\<exists>t. dget rec ''created_at'' = PStr (isoformat t)
          \<and> dget rec ''timeout_at'' = PFloat (of_int t / 1000000 + 10))"

definition delivered :: "string \<Rightarrow> event_type \<Rightarrow> string \<Rightarrow> dict \<Rightarrow> string option \<Rightarrow> string option \<Rightarrow> nat \<Rightarrow> nat \<Rightarrow> dict
    \<Rightarrow> world \<Rightarrow> world \<Rightarrow> bool" where
  "delivered e et command_type payload request_id session_id r ws result w v \<longleftrightarrow>
     (\<exists>rid ev rec. trace v = SendJson ws ev # trace w
        \<and> addressed et e payload request_id session_id r w rid ev
        \<and> command_records v = aput rid rec (command_records w)
        \<and> pending_command rid e command_type et rec
        \<and> result = [(''accepted'', PBool True), (''request_id'', PStr rid), (''status'', PStr ''pending'')])
     \<and> rt_sequence (rts v r) = Suc (rt_sequence (rts w r)) \<and> calm w v"

lemma push_calm: "wp (push_endpoint_command e et ct payload rid sid) (\<lambda>_ v. calm w v) w"
  by (rule wp_calm, rule evol)

lemma wp_effects:
  "wp (State_Monad.bind (emit x) f) Q w = wp (f ()) Q (w\<lparr>trace := x # trace w\<rparr>)"
  "wp (State_Monad.bind (note_event_type k) f) Q w =
     wp (f ()) Q (w\<lparr>rts := (rts w)(ctx w := (rts w (ctx w))\<lparr>rt_last_event_type := Some k\<rparr>)\<rparr>)"
  "wp (State_Monad.bind uuid_hex g) R w = wp (g (e_uuid (env w) (uuid_reads w))) R (w\<lparr>uuid_reads := Suc (uuid_reads w)\<rparr>)"
  "wp (State_Monad.bind py_now h) S w = wp (h (e_clock (env w) (clock_reads w))) S (w\<lparr>clock_reads := Suc (clock_reads w)\<rparr>)"
  "wp (State_Monad.bind (modify m) f) Q w = wp (f ()) Q (m w)"
  by (simp_all add: wp_def emit_def note_event_type_def upd_runtime_def uuid_hex_def py_now_def)

lemma wp_active_session_id:
  "wp (State_Monad.bind active_session_id f) Q w =
   wp (f (map_option (\<lambda>i. ss_session_id (sess w i)) (rt_active_session (rts w (ctx w))))) Q w"
  by (simp add: wp_def active_session_id_def cur_runtime_def)

lemma wp_next_sequence:
  "wp (State_Monad.bind next_sequence f) Q w = wp (f (rt_sequence (rts w (ctx w)))) Q
     (w\<lparr>rts := (rts w)(ctx w := (rts w (ctx w))\<lparr>rt_sequence := Suc (rt_sequence (rts w (ctx w)))\<rparr>)\<rparr>)"
  by (simp add: wp_def next_sequence_def cur_runtime_def upd_runtime_def)

lemma wp_made_event:
  assumes "\<And>ev u. trace u = trace w \<Longrightarrow> command_records u = command_records w \<Longrightarrow> rts u = rts w \<Longrightarrow> ctx u = ctx w \<Longrightarrow>
    ev_event_type ev = et \<and> ev_endpoint_id ev = e \<and> ev_direction ev = BackendToEndpoint
      \<and> ev_session_id ev = sid \<and> ev_sequence ev = Some n \<and> ev_payload ev = payload \<Longrightarrow> wp (f ev) Q u"
  shows "wp (State_Monad.bind (mk_event et e sid n payload) f) Q w"
proof -
  let ?u = "w\<lparr>uuid_reads := Suc (uuid_reads w), clock_reads := Suc (clock_reads w)\<rparr>"
  let ?ev = "\<lparr>ev_event_type = et, ev_event_id = ''evt_'' @ e_uuid (env w) (uuid_reads w), ev_endpoint_id = e,
      ev_direction = BackendToEndpoint, ev_session_id = sid, ev_sequence = Some n,
      ev_timestamp = e_clock (env w) (clock_reads w), ev_payload = payload\<rparr>"
  have "wp (State_Monad.bind (mk_event et e sid n payload) f) Q w = wp (f ?ev) Q ?u"
    by (simp add: wp_def mk_event_def uuid_hex_def py_now_def)
  with assms [of ?u ?ev] show ?thesis by simp
qed

lemma wp_record_command:
  assumes "\<And>rec u. pending_command rid e ct et rec \<Longrightarrow> trace u = trace w \<Longrightarrow> rts u = rts w \<Longrightarrow>
    command_records u = aput rid rec (command_records w) \<Longrightarrow> wp (f rec) Q u"
  shows "wp (State_Monad.bind (record_command rid e ct (event_name et) None) f) Q w"
proof -
  define t where "t = e_clock (env w) (clock_reads w)"
  define rec where "rec = [(''request_id'', PStr rid), (''endpoint_id'', PStr e), (''command_type'', PStr ct),
    (''event_type'', PStr (event_name et)), (''status'', PStr ''pending''), (''terminal'', PBool False),
    (''created_at'', PStr (isoformat t)), (''updated_at'', PStr (isoformat t)),
    (''timeout_at'', PFloat (of_int t / 1000000 + 10))]"
  have "wp (State_Monad.bind (record_command rid e ct (event_name et) None) f) Q w
      = wp (f rec) Q (w\<lparr>clock_reads := Suc (clock_reads w), command_records := aput rid rec (command_records w)\<rparr>)"
    by (simp add: wp_def record_command_def py_now_def Let_def rec_def t_def)
  moreover have "pending_command rid e ct et rec"
    by (auto simp: pending_command_def rec_def dget_def)
  ultimately show ?thesis using assms by simp
qed

lemma wp_request_id:
  assumes "\<And>rid u. trace u = trace w \<Longrightarrow> command_records u = command_records w \<Longrightarrow> rts u = rts w \<Longrightarrow> ctx u = ctx w \<Longrightarrow>
    sess u = sess w \<Longrightarrow> (\<And>c x. request_id = Some (c # x) \<Longrightarrow> rid = c # x) \<Longrightarrow> wp (f rid) Q u"
  shows "wp (State_Monad.bind (case request_id of Some (c # x) \<Rightarrow> ret (c # x)
      | _ \<Rightarrow> do { u \<leftarrow> uuid_hex; ret (''cmd_'' @ u) }) f) Q w"
  by (cases request_id rule: option.exhaust [case_names None Some])
    (auto simp: State_Monad.bind_assoc wp_effects intro: assms split: list.split)

lemma wp_pause:
  "wp (State_Monad.bind (whenM b (do { t \<leftarrow> py_now;
      modify (\<lambda>w. w\<lparr>last_ui_render_sent_at := aput e t (last_ui_render_sent_at w)\<rparr>) })) f) Q w =
   wp (f ()) Q (if b then w\<lparr>clock_reads := Suc (clock_reads w), last_ui_render_sent_at :=
      aput e (e_clock (env w) (clock_reads w)) (last_ui_render_sent_at w)\<rparr> else w)"
  by (simp add: wp_def py_now_def)

text \<open>A command goes out exactly when its endpoint has a live connection: then one event is sent,
  on that connection's socket, with the next sequence number, the request id and the session given
  (or else the active one), a pending record with the timeout is filed under the request id, and no
  session changes. Otherwise the command is rejected and nothing at all changes.\<close>

lemma push_command_delivers:
  "wp (push_endpoint_command e et command_type payload request_id session_id) (\<lambda>result v.
     case live_socket e w of
       None \<Rightarrow> v = w \<and> result = rejected (PStr ''endpoint_not_connected'')
     | Some (r, ws) \<Rightarrow> delivered e et command_type payload request_id session_id r ws result w v) w"
proof (cases "live_socket e w")
  case None
  then show ?thesis
    by (auto simp: live_socket_def wp_def push_endpoint_command_def split: option.splits)
next
  case (Some p)
  obtain r ws where p: "p = (r, ws)" by (cases p)
  with Some have r: "runtime_for_endpoint e w = Some r" "rt_websocket (rts w r) = Some ws"
    by (auto simp: live_socket_def split: option.splits)
  have "wp (push_endpoint_command e et command_type payload request_id session_id) (\<lambda>result v.
      (\<exists>rid ev rec. trace v = SendJson ws ev # trace w
        \<and> addressed et e payload request_id session_id r w rid ev
        \<and> command_records v = aput rid rec (command_records w)
        \<and> pending_command rid e command_type et rec
        \<and> result = [(''accepted'', PBool True), (''request_id'', PStr rid), (''status'', PStr ''pending'')])
     \<and> rt_sequence (rts v r) = Suc (rt_sequence (rts w r))) w"
    unfolding push_endpoint_command_def wp_readers r option.case wp_with_runtime
    apply (rule wp_request_id)
    apply (simp only: wp_active_session_id wp_next_sequence wp_effects)
    apply (rule wp_made_event)
    apply (simp only: wp_effects wp_pause)
    apply (rule wp_record_command)
    subgoal premises p for rid u ev v rec v'
    proof -
      have "addressed et e payload request_id session_id r w rid ev"
        using p(1-6) p(9-11) by (simp add: addressed_def cong: option.case_cong list.case_cong)
      moreover have "dget rec ''status'' = PStr ''pending''" using p(12) by (simp add: pending_command_def)
      ultimately show ?thesis using p by (auto simp: wp_return)
    qed
    done
  then have "wp (push_endpoint_command e et command_type payload request_id session_id) (\<lambda>result v.
      delivered e et command_type payload request_id session_id r ws result w v) w"
    by (rule wp_mono2 [OF push_calm]) (simp add: delivered_def)
  then show ?thesis using Some p by simp
qed

section \<open>Only a cancel touches a session\<close>

lemma run_command_calm: "\<forall>e s. c \<noteq> PushCancel e s \<Longrightarrow> state_io_rel calm (run_command c)"
  by (cases c) (simp_all only: run_command.simps command.distinct, (intro evol | blast)+)

text \<open>An operator's command, whatever it is and whatever it answers, changes no session, no
  captured audio and no connection, unless it is the command that cancels a session.\<close>

lemma commands_leave_sessions:
  assumes "step w (Operator c) v" "\<forall>e s. c \<noteq> PushCancel e s"
  shows "sess v = sess w \<and> next_sess v = next_sess w \<and> endpoint_runtimes v = endpoint_runtimes w
     \<and> (\<forall>r. mild_step (rts w r) (rts v r))"
proof -
  have "calm w (snd (run_state (run_command c) w))"
    using run_command_calm [OF assms(2)] by (rule ca.run_evol)
  with assms(1) have "calm w v" by (auto elim: step_cases)
  then show ?thesis by (simp add: calm_def)
qed

section \<open>Acknowledgement\<close>

text \<open>An acknowledgement decides the record of its command, whatever became of the command
  before: only \<open>succeeded\<close> and \<open>unsupported\<close> close it, and \<open>accepted\<close> or \<open>started\<close> open it again
  although it had succeeded, failed or timed out. No other record changes, and an
  acknowledgement of an unknown command changes nothing.\<close>

lemma ack_decides:
  "wp (update_command_from_ack p) (\<lambda>_ v.
     case aget (command_records w) (ca_request_id p) of
       None \<Rightarrow> v = w
     | Some old \<Rightarrow> \<exists>new. command_records v = aput (ca_request_id p) new (command_records w)
         \<and> dget new ''status'' = PStr (ack_name (ca_status p))
         \<and> dget new ''terminal'' = PBool (ca_status p \<in> {AckSucceeded, AckUnsupported})
         \<and> dget new ''timeout_at'' = dget old ''timeout_at''
         \<and> calm w v) w"
proof (cases "aget (command_records w) (ca_request_id p)")
  case None
  then show ?thesis by (simp add: wp_def update_command_from_ack_def)
next
  case (Some old)
  have c: "wp (update_command_from_ack p) (\<lambda>_ v. calm w v) w" by (rule wp_calm, rule evol)
  have "wp (update_command_from_ack p) (\<lambda>_ v. \<exists>new. command_records v = aput (ca_request_id p) new (command_records w)
      \<and> dget new ''status'' = PStr (ack_name (ca_status p))
      \<and> dget new ''terminal'' = PBool (ca_status p \<in> {AckSucceeded, AckUnsupported})
      \<and> dget new ''timeout_at'' = dget old ''timeout_at'') w"
    unfolding wp_def update_command_from_ack_def
    by (simp add: Some py_now_def) (rule exI, rule conjI, rule refl, simp add: aupdate_def)
  with c show ?thesis using Some by (simp add: wp_def)
qed

section \<open>Time-outs\<close>

definition timed_out :: "instant \<Rightarrow> dict \<Rightarrow> dict \<Rightarrow> bool" where
  "timed_out now old new \<longleftrightarrow>
     (if command_expired now old
      then dget new ''status'' = PStr ''timed_out'' \<and> dget new ''terminal'' = PBool True
        \<and> dget new ''timeout_at'' = dget old ''timeout_at''
      else new = old)"

definition expire_one :: "instant \<Rightarrow> string \<times> dict \<Rightarrow> unit M" where
  "expire_one now = (\<lambda>(k, rec). whenM (command_expired now rec) (do {
     t \<leftarrow> py_now;
     modify (\<lambda>w. w\<lparr>command_records := aput k (aupdate rec
       [(''status'', PStr ''timed_out''), (''terminal'', PBool True),
        (''updated_at'', PStr (isoformat t))]) (command_records w)\<rparr>) }))"

lemma expire_one_at:
  assumes "aget (command_records w) k = Some rec"
  shows "wp (expire_one now (k, rec)) (\<lambda>_ v. (\<exists>new. aget (command_records v) k = Some new \<and> timed_out now rec new)
     \<and> (\<forall>j. j \<noteq> k \<longrightarrow> aget (command_records v) j = aget (command_records w) j)) w"
  using assms by (simp add: expire_one_def wp_def py_now_def timed_out_def aget_aput aupdate_def)

lemma expire_all:
  assumes "distinct (map fst xs)" "\<forall>(k, rec) \<in> set xs. aget (command_records w) k = Some rec"
  shows "wp (for_each (expire_one now) xs) (\<lambda>_ v.
     (\<forall>(k, rec) \<in> set xs. \<exists>new. aget (command_records v) k = Some new \<and> timed_out now rec new)
     \<and> (\<forall>j. j \<notin> fst ` set xs \<longrightarrow> aget (command_records v) j = aget (command_records w) j)) w"
  using assms
proof (induction xs arbitrary: w)
  case (Cons x xs)
  obtain k rec where x: "x = (k, rec)" by (cases x)
  obtain u where u: "run_state (expire_one now x) w = ((), u)" by (cases "run_state (expire_one now x) w") simp
  have one: "(\<exists>new. aget (command_records u) k = Some new \<and> timed_out now rec new)
      \<and> (\<forall>j. j \<noteq> k \<longrightarrow> aget (command_records u) j = aget (command_records w) j)"
    using expire_one_at [of w k rec now] Cons.prems(2) u unfolding x by (simp add: wp_def)
  have k: "k \<notin> fst ` set xs" using Cons.prems(1) x by simp
  have "\<forall>(k', rec') \<in> set xs. aget (command_records u) k' = Some rec'"
  proof (intro ballI, clarify)
    fix k' rec'
    assume m: "(k', rec') \<in> set xs"
    with k have "k' \<noteq> k" by force
    with one m Cons.prems(2) show "aget (command_records u) k' = Some rec'" by auto
  qed
  with Cons.prems(1) have r: "wp (for_each (expire_one now) xs) (\<lambda>_ v.
     (\<forall>(k, rec) \<in> set xs. \<exists>new. aget (command_records v) k = Some new \<and> timed_out now rec new)
     \<and> (\<forall>j. j \<notin> fst ` set xs \<longrightarrow> aget (command_records v) j = aget (command_records u) j)) u"
    by (intro Cons.IH) simp_all
  have e: "wp (for_each (expire_one now) (x # xs)) Q w = wp (for_each (expire_one now) xs) Q u" for Q
    using u by (simp add: wp_def)
  show ?case unfolding e by (rule wp_mono [OF r]) (use one k in \<open>auto simp: x\<close>)
qed (simp add: wp_return)

text \<open>Checking for overdue commands closes exactly the open commands whose time-out has passed,
  as \<open>timed_out\<close>; every other record stays as it was, none is added or lost, and afterwards no
  command is overdue.\<close>

lemma overdue_commands_close:
  assumes "distinct (map fst (command_records w))" "now = e_clock (env w) (clock_reads w)"
  shows "wp expire_commands (\<lambda>_ v. \<forall>k.
     (case aget (command_records w) k of
        None \<Rightarrow> aget (command_records v) k = None
      | Some old \<Rightarrow> \<exists>new. aget (command_records v) k = Some new \<and> timed_out now old new \<and> \<not> command_expired now new)) w"
proof -
  let ?u = "w\<lparr>clock_reads := Suc (clock_reads w)\<rparr>"
  have run: "wp expire_commands Q w = wp (for_each (expire_one now) (command_records w)) Q ?u" for Q
    unfolding expire_commands_def expire_one_def [symmetric] wp_effects wp_readers assms(2) by simp
  have t: "timed_out now old new \<Longrightarrow> \<not> command_expired now new" for old new
    by (auto simp: timed_out_def command_expired_def split: if_splits)
  have "\<forall>(k, rec) \<in> set (command_records w). aget (command_records ?u) k = Some rec"
    using assms(1) by auto
  from expire_all [OF assms(1) this, of now] show ?thesis
    unfolding run
  proof (rule wp_mono, intro allI)
    fix v k
    assume h: "(\<forall>(k, rec) \<in> set (command_records w). \<exists>new. aget (command_records v) k = Some new \<and> timed_out now rec new)
      \<and> (\<forall>j. j \<notin> fst ` set (command_records w) \<longrightarrow> aget (command_records v) j = aget (command_records ?u) j)"
    show "case aget (command_records w) k of None \<Rightarrow> aget (command_records v) k = None
      | Some old \<Rightarrow> \<exists>new. aget (command_records v) k = Some new \<and> timed_out now old new \<and> \<not> command_expired now new"
    proof (cases "aget (command_records w) k")
      case None
      with h have "aget (command_records v) k = aget (command_records ?u) k" by (simp add: map_of_eq_None_iff)
      with None show ?thesis by simp
    next
      case (Some old)
      then have "(k, old) \<in> set (command_records w)" by (rule map_of_SomeD)
      with h obtain new where "aget (command_records v) k = Some new" "timed_out now old new" by blast
      with Some t show ?thesis by auto
    qed
  qed
qed

definition ex_commands :: world where
  "ex_commands = (ex_busy Idle)\<lparr>command_records :=
     [(''cmd_1'', [(''status'', PStr ''pending''), (''terminal'', PBool False), (''timeout_at'', PFloat 0)]),
      (''cmd_2'', [(''status'', PStr ''succeeded''), (''terminal'', PBool True), (''timeout_at'', PFloat 0)])]\<rparr>"

lemma overdue_commands_close_witness:
  "wp expire_commands (\<lambda>_ v. \<exists>new. aget (command_records v) ''cmd_1'' = Some new
     \<and> dget new ''status'' = PStr ''timed_out'') ex_commands"
proof (rule wp_mono [OF overdue_commands_close [OF _ refl]])
  show "distinct (map fst (command_records ex_commands))" by (simp add: ex_commands_def)
next
  fix v
  assume "\<forall>k. case aget (command_records ex_commands) k of None \<Rightarrow> aget (command_records v) k = None
     | Some old \<Rightarrow> \<exists>new. aget (command_records v) k = Some new
        \<and> timed_out (e_clock (env ex_commands) (clock_reads ex_commands)) old new
        \<and> \<not> command_expired (e_clock (env ex_commands) (clock_reads ex_commands)) new"
  from this [THEN spec, of "''cmd_1''"]
  show "\<exists>new. aget (command_records v) ''cmd_1'' = Some new \<and> dget new ''status'' = PStr ''timed_out''"
    by (auto simp: ex_commands_def ex_env_def timed_out_def command_expired_def dget_def)
qed

lemma commands_leave_sessions_witness:
  "\<exists>v. step (ex_busy Capturing) (Operator (PushVolume ''kitchen'' 40)) v \<and> sess v = sess (ex_busy Capturing)"
proof (intro exI conjI)
  let ?v = "snd (run_state (run_input (Operator (PushVolume ''kitchen'' 40))) (ex_busy Capturing))"
  show s: "step (ex_busy Capturing) (Operator (PushVolume ''kitchen'' 40)) ?v" by (rule step.intros) simp_all
  show "sess ?v = sess (ex_busy Capturing)" using commands_leave_sessions [OF s] by simp
qed

end
