(* ===== verification/Admission.thy ===== *)
theory Admission
  imports CommandLife
begin

text \<open>
  What is let in: which messages reach a handler, which uploads become audio chunks, and what a
  captured chunk does.
\<close>

section \<open>Messages\<close>

definition is_error :: "envelope \<Rightarrow> bool" where
  "is_error e \<longleftrightarrow> ev_event_type e = EvSessionError \<and> ev_direction e = BackendToEndpoint"

definition one_error :: "envelope list \<Rightarrow> bool" where
  "one_error events \<longleftrightarrow> (\<exists>e. events = [e] \<and> is_error e)"

definition admissible :: "envelope \<Rightarrow> event_type list option \<Rightarrow> world \<Rightarrow> bool" where
  \<comment> \<open>from an endpoint, of a kind endpoints may send, on the connection that stands for the endpoint\<close>
  "admissible event allowed w \<longleftrightarrow>
     ev_direction event = EndpointToBackend \<and> ev_event_type event \<in> set endpoint_to_backend_events
     \<and> (\<forall>l. allowed = Some l \<longrightarrow> ev_event_type event \<in> set l)
     \<and> (\<forall>r. aget (endpoint_runtimes w) (ev_endpoint_id event) = Some r \<longrightarrow> runtime_live (rts w r) \<longrightarrow> r = ctx w)
     \<and> rt_connected_endpoint_id (rts w (ctx w)) \<in> {None, Some (ev_endpoint_id event)}"

lemma error_event_is_error: "wp (error_event a b c m r) (\<lambda>e v. is_error e) w"
  by (simp add: wp_def error_event_def Let_def upd_runtime_def record_event_diagnostic_def next_sequence_def
      cur_runtime_def mk_event_def uuid_hex_def py_now_def is_error_def)

lemma wp_error_is_error: "wp (error_event a b c m r) (\<lambda>e v. calm w v \<and> is_error e) w"
  unfolding wp_conj by (rule conjI [OF wp_calm [OF ca.error_event_rel] error_event_is_error])

lemma refuse_one_error: "wp (refuse event code message b) (\<lambda>events v. calm w v \<and> one_error events) w"
  unfolding refuse_def wp_bind
  by (rule wp_mono [OF wp_error_is_error]) (simp add: wp_return one_error_def)

lemma wp_guards:
  assumes "A \<or> B \<or> C \<or> D \<or> E" "wp a Q w" "wp b Q w" "wp c Q w" "wp d Q w" "wp e Q w"
  shows "wp (if A then a else if B then b else if C then c else if D then d else if E then e else z) Q w"
  using assms by auto

lemma inadmissible_refused:
  assumes "\<not> admissible event allowed w"
  shows "wp (handle_endpoint_event event name allowed) (\<lambda>events v. calm w v \<and> one_error events) w"
  unfolding handle_endpoint_event_def wp_readers Let_def
  by (rule wp_guards [OF _ refuse_one_error refuse_one_error refuse_one_error refuse_one_error refuse_one_error])
    (use assms in \<open>auto simp: admissible_def split: option.splits\<close>)

text \<open>C10. A message on a connection reaches a handler only if it is a valid envelope, sent by an
  endpoint, of a kind endpoints may send, for the endpoint the connection is bound to, and no other
  live connection stands for that endpoint. Anything else is answered with one error and changes no
  session, no capture and no connection.\<close>

theorem only_admissible_messages:
  assumes "\<And>payload event. e_json_loads (env w) raw_message = Some payload \<Longrightarrow>
    e_v_envelope (env w) payload = Inr event \<Longrightarrow> \<not> admissible event None w"
  shows "wp (handle_raw_message raw_message) (\<lambda>events v. calm w v \<and> one_error events) w"
proof (cases "e_json_loads (env w) raw_message")
  case None
  show ?thesis
    unfolding handle_raw_message_def wp_readers None option.case Let_def
    by (rule wp_calm_bind, intro evol, unfold wp_bind, rule wp_mono [OF wp_error_is_error])
      (use ca.trans_R in \<open>auto simp: wp_return one_error_def\<close>)
next
  case (Some payload)
  show ?thesis
  proof (cases "e_v_envelope (env w) payload")
    case (Inl e)
    show ?thesis
      unfolding handle_raw_message_def wp_readers Some option.case Inl sum.case Let_def case_prod_beta
      by (rule wp_calm_bind, intro evol, unfold wp_bind, rule wp_mono [OF wp_error_is_error])
        (use ca.trans_R in \<open>auto simp: wp_return one_error_def\<close>)
  next
    case (Inr event)
    with inadmissible_refused [OF assms [OF Some Inr]] Some show ?thesis
      unfolding handle_raw_message_def wp_readers by simp
  qed
qed

theorem only_admissible_messages_witness:
  "wp (handle_raw_message ''not json'') (\<lambda>events v. calm (ex_busy Capturing) v \<and> one_error events) (ex_busy Capturing)"
  by (rule only_admissible_messages) (simp add: ex_env_def)

section \<open>Uploads\<close>

definition turned_away :: "dict \<Rightarrow> bool" where
  "turned_away result \<longleftrightarrow> \<not> is_accepted result \<and> dget result ''status'' = PStr ''rejected''"

lemma upload_rejected_turned_away: "turned_away (upload_rejected reason e sid et)"
  by (simp add: turned_away_def upload_rejected_def is_accepted_def dget_def)

lemma wp_value: "wp (with_runtime r (do { m; ret x })) (\<lambda>d _. P d) w = P x"
  by (simp add: wp_def with_runtime_run case_prod_beta)

text \<open>Audio that is uploaded as a binary frame becomes an audio chunk only if it is not empty and at
  most 64 KiB long and its endpoint has a live connection with an active session. Otherwise the
  upload is rejected and no session, capture or connection changes.\<close>

lemma uploads_bounded:
  assumes "audio_bytes = [] \<or> 65536 < length audio_bytes \<or> runtime_for_endpoint endpoint_id w = None
    \<or> (\<exists>r. runtime_for_endpoint endpoint_id w = Some r \<and> rt_active_session (rts w r) = None)"
  shows "wp (handle_binary_audio_frame endpoint_id audio_bytes encoding rate channels) (\<lambda>result v.
     calm w v \<and> turned_away result) w"
proof (cases "runtime_for_endpoint endpoint_id w")
  case None
  show ?thesis
    unfolding handle_binary_audio_frame_def wp_readers None option.case
    by (rule wp_calm_bind, intro evol) (simp add: wp_return upload_rejected_turned_away)
next
  case (Some r)
  have c: "state_io_rel calm (with_runtime r (do {
       record_event_diagnostic a b c d e; ret x }))" for a b c d e and x :: dict
    by (intro evol)
  show ?thesis
  proof (cases "rt_active_session (rts w r)")
    case None
    have "wp (with_runtime r (do { record_event_diagnostic a b c d e;
        ret (upload_rejected k endpoint_id None EvAudioChunk) })) (\<lambda>result v. calm w v \<and> turned_away result) w"
      for a b c d e k
      unfolding wp_conj wp_value by (intro conjI wp_calm [OF c] upload_rejected_turned_away)
    with None show ?thesis
      unfolding handle_binary_audio_frame_def wp_readers Some option.case Let_def
      by (simp add: wp_return upload_rejected_turned_away)
  next
    case (Some i)
    with assms \<open>runtime_for_endpoint endpoint_id w = Some r\<close> have "audio_bytes = [] \<or> 65536 < length audio_bytes" by auto
    with \<open>runtime_for_endpoint endpoint_id w = Some r\<close> show ?thesis
      unfolding handle_binary_audio_frame_def wp_readers
      by (auto simp: wp_return Let_def upload_rejected_turned_away)
  qed
qed

lemma uploads_bounded_witness:
  "wp (handle_binary_audio_frame ''kitchen'' (replicate 65537 0) ''pcm_s16le'' 16000 1) (\<lambda>result v.
     calm (ex_busy Capturing) v \<and> turned_away result) (ex_busy Capturing)"
  by (rule uploads_bounded) simp

section \<open>A captured chunk\<close>

definition on_runtime :: "(runtime \<Rightarrow> runtime) \<Rightarrow> world \<Rightarrow> world" where
  "on_runtime f w = w\<lparr>rts := (rts w)(ctx w := f (rts w (ctx w)))\<rparr>"

lemma on_runtime_fields [simp]:
  "env (on_runtime f w) = env w" "ctx (on_runtime f w) = ctx w" "sess (on_runtime f w) = sess w"
  "next_sess (on_runtime f w) = next_sess w" "endpoint_runtimes (on_runtime f w) = endpoint_runtimes w"
  "rts (on_runtime f w) (ctx w) = f (rts w (ctx w))" "r \<noteq> ctx w \<Longrightarrow> rts (on_runtime f w) r = rts w r"
  by (simp_all add: on_runtime_def)

lemma wp_upd_runtime: "wp (State_Monad.bind (upd_runtime f) g) Q w = wp (g ()) Q (on_runtime f w)"
  by (simp add: wp_def upd_runtime_def on_runtime_def)

definition hear :: "bytes \<Rightarrow> runtime \<Rightarrow> runtime" where
  "hear b r = r\<lparr>rt_audio_chunks := rt_audio_chunks r @ [b]\<rparr>"

definition overhear :: "bytes \<Rightarrow> runtime \<Rightarrow> runtime" where
  "overhear b r = r\<lparr>rt_ambient_audio_chunks := rt_ambient_audio_chunks r @ [b]\<rparr>"

lemma track_buffer:
  assumes "track i st cr w v" "f \<in> {hear b, overhear b}"
  shows "track i st cr (on_runtime f w) (on_runtime f v)"
proof -
  have c: "ctx v = ctx w" and m: "mild_step (rts w r) (rts v r)" for r using assms(1) by (simp_all add: track_def)
  have "mild_step (f (rts w (ctx w))) (f (rts v (ctx w)))" and a: "rt_active_session (f q) = rt_active_session q" for q
    using assms(2) m [of "ctx w"] by (auto simp: mild_step_def hear_def overhear_def)
  then have "mild_step (rts (on_runtime f w) r) (rts (on_runtime f v) r)" for r
    using m [of r] c by (simp add: on_runtime_def)
  then show ?thesis using assms(1) a c by (simp add: track_def on_runtime_def)
qed

text \<open>No capture window is open.\<close>

definition no_windows :: "world \<Rightarrow> bool" where
  "no_windows w \<longleftrightarrow> placement_windows w = [] \<and> enrollment_windows w = []"

lemma wp_no_placement:
  assumes "no_windows w" "\<And>u. calm w u \<Longrightarrow> no_windows u \<Longrightarrow> wp (f None) Q u"
  shows "wp (State_Monad.bind (active_placement_test_window e) f) Q w"
proof -
  let ?u = "w\<lparr>clock_reads := Suc (clock_reads w), placement_windows := []\<rparr>"
  have "wp (State_Monad.bind (active_placement_test_window e) f) Q w = wp (f None) Q ?u"
    using assms(1) by (simp add: wp_def active_placement_test_window_def expire_placement_test_windows_def
        py_now_def repr_env_def no_windows_def)
  moreover have "calm w ?u" by (simp add: calm_def mild_step_def)
  ultimately show ?thesis using assms by (simp add: no_windows_def)
qed

lemma wp_no_enrollment:
  assumes "no_windows w" "\<And>u. calm w u \<Longrightarrow> no_windows u \<Longrightarrow> wp (f None) Q u"
  shows "wp (State_Monad.bind (active_speaker_enrollment_capture_window e) f) Q w"
proof -
  let ?u = "w\<lparr>clock_reads := Suc (clock_reads w), enrollment_windows := []\<rparr>"
  have "wp (State_Monad.bind (active_speaker_enrollment_capture_window e) f) Q w = wp (f None) Q ?u"
    using assms(1) by (simp add: wp_def active_speaker_enrollment_capture_window_def
        expire_speaker_enrollment_capture_windows_def py_now_def repr_env_def no_windows_def)
  moreover have "calm w ?u" by (simp add: calm_def mild_step_def)
  ultimately show ?thesis using assms by (simp add: no_windows_def)
qed

lemma wp_quiet:
  assumes "no_windows w" "\<And>u. calm w u \<Longrightarrow> no_windows u \<Longrightarrow> wp (f ()) Q u"
  shows "wp (State_Monad.bind (update_active_session_audio p) f) Q w"
    "wp (State_Monad.bind (whenM b (emit x)) f) Q w"
proof -
  have r: "run_state (update_active_session_audio p) w = ((), on_runtime (\<lambda>r. r\<lparr>rt_history :=
      map_option (\<lambda>h. update_endpoint_audio_metrics p (aput ''audio'' (PDict (aupdate (dict_of (dget h ''audio''))
         [(''chunk_count'', PInt (int (rt_chunk_count (rts w (ctx w))))),
          (''format'', dump_audio_format (cp_audio_format p)), (''raw_audio_persisted'', PBool False)])) h))
      (rt_history r)\<rparr>) w)"
    by (simp add: update_active_session_audio_def cur_runtime_def upd_history_def upd_runtime_def on_runtime_def)
  then have "no_windows (snd (run_state (update_active_session_audio p) w))"
    using assms(1) by (simp add: no_windows_def on_runtime_def)
  moreover have "calm w (snd (run_state (update_active_session_audio p) w))"
    by (rule ca.run_evol, rule evol)
  ultimately show "wp (State_Monad.bind (update_active_session_audio p) f) Q w"
    using assms(2) unfolding wp_bind by (simp add: wp_def)
  have "calm w (w\<lparr>trace := x # trace w\<rparr>)" by (simp add: calm_def mild_step_def)
  with assms show "wp (State_Monad.bind (whenM b (emit x)) f) Q w"
    by (simp add: wp_def emit_def no_windows_def)
qed

text \<open>A session that listens already is not inspected for its wake word again.\<close>

lemma wp_append_audio:
  assumes "track i st cr w v" "\<And>u. track i st cr (on_runtime (hear b) w) u \<Longrightarrow> wp m Q u"
  shows "wp (do { append_audio (Some b); m }) Q v"
proof -
  have "append_audio (Some b) = upd_runtime (hear b)" by (simp add: append_audio_def hear_def [abs_def])
  moreover have "wp m Q (on_runtime (hear b) v)" by (rule assms(2), rule track_buffer [OF assms(1), of _ b]) simp
  ultimately show ?thesis by (simp add: wp_upd_runtime)
qed

definition may_overhear :: "bytes \<Rightarrow> world \<Rightarrow> world \<Rightarrow> bool" where
  "may_overhear b w w' \<longleftrightarrow> w' = w \<or> w' = on_runtime (overhear b) w"

lemma wp_chunk_wake:
  assumes "track i st cr w v" "st \<noteq> Idle"
    and "\<And>d u w'. may_overhear b w w' \<Longrightarrow> track i st cr w' u \<Longrightarrow> wp (f ([], d, None, False)) Q u"
  shows "wp (State_Monad.bind (chunk_wake event i p (Some b)) f) Q v"
proof -
  have st: "ss_session_state (sess v i) = st" using assms(1) by (simp add: track_def)
  have overhear: "append_ambient_audio (Some b) = upd_runtime (overhear b)"
    by (simp add: append_ambient_audio_def overhear_def [abs_def])
  have ambient: "wp (State_Monad.bind (whenM c (append_ambient_audio (Some b))) g) Q v"
    if "\<And>u w'. may_overhear b w w' \<Longrightarrow> track i st cr w' u \<Longrightarrow> wp (g ()) Q u" for c g
  proof (cases c)
    case True
    have "wp (g ()) Q (on_runtime (overhear b) v)"
      by (rule that [OF _ track_buffer [OF assms(1), of _ b]]) (simp_all add: may_overhear_def)
    with True show ?thesis by (simp add: whenM_def overhear wp_upd_runtime)
  next
    case False
    have "wp (g ()) Q v" by (rule that [OF _ assms(1)]) (simp add: may_overhear_def)
    with False show ?thesis by (simp add: whenM_def)
  qed
  show ?thesis
    unfolding chunk_wake_def inspect_wake_def
    using st assms(2)
    apply (simp add: State_Monad.bind_assoc wp_readers Let_def)
    apply (rule ambient, rule wp_track_calm, assumption, intro evol, rule assms(3), assumption, assumption)
    done
qed

definition captured :: "nat \<Rightarrow> bytes \<Rightarrow> world \<Rightarrow> world \<Rightarrow> bool" where
  "captured i b w v \<longleftrightarrow>
     env v = env w \<and> ctx v = ctx w \<and> next_sess v = next_sess w \<and> endpoint_runtimes v = endpoint_runtimes w
     \<and> (\<forall>j. j \<noteq> i \<longrightarrow> sess v j = sess w j) \<and> same_session (sess w i) (sess v i)
     \<and> ss_session_state (sess v i) = Capturing \<and> others_calm w v
     \<and> (let r = rts w (ctx w); t = rts v (ctx w) in
          rt_active_session t = Some i \<and> rt_audio_chunks t = rt_audio_chunks r @ [b]
          \<and> rt_chunk_count t = Suc (rt_chunk_count r)
          \<and> rt_websocket t = rt_websocket r \<and> rt_connection_active t = rt_connection_active r)"

lemma track_active_state: "track i st cr w v \<Longrightarrow> ss_session_state (sess v i) = st"
  by (simp add: track_def)

lemma whenM_False: "whenM False m = ret ()"
  by (simp add: whenM_def)

lemma chunk_tail:
  assumes t: "track i st cr w v" and st: "st \<in> {Listening, Capturing}"
    and Q: "\<And>e u w'. may_overhear b w w' \<Longrightarrow> track i Capturing cr (on_runtime (hear b) w') u \<Longrightarrow>
      reports EvSessionState (sess w i) e \<Longrightarrow> Q [e] u"
  shows "wp (do {
      (events, d, decision, wake_accepted) \<leftarrow> chunk_wake event i p (Some b);
      s \<leftarrow> session_at i;
      whenM (ss_session_state s \<in> {Listening, Capturing}) (do {
        set_session_state Capturing;
        whenM (\<not> wake_accepted) (append_audio (Some b)) });
      r \<leftarrow> cur_runtime;
      e \<leftarrow> state_event EvSessionState i (extra r d decision);
      ret (events @ [e]) }) Q v"
proof (rule wp_chunk_wake [OF t])
  show "st \<noteq> Idle" using st by auto
  fix d u w'
  assume w': "may_overhear b w w'" and u: "track i st cr w' u"
  have s: "settle st Capturing = Capturing" using st by (auto simp: settle_def)
  have i: "sess w' i = sess w i" using w' by (auto simp: may_overhear_def)
  show "wp (case ([], d, None, False) of (events, d, decision, wake_accepted) \<Rightarrow> do {
      s \<leftarrow> session_at i;
      whenM (ss_session_state s \<in> {Listening, Capturing}) (do {
        set_session_state Capturing;
        whenM (\<not> wake_accepted) (append_audio (Some b)) });
      r \<leftarrow> cur_runtime;
      e \<leftarrow> state_event EvSessionState i (extra r d decision);
      ret (events @ [e]) }) Q u"
    using st track_active_state [OF u]
    apply (simp add: wp_readers whenM_def State_Monad.bind_assoc)
    apply (rule wp_track_set [OF u])
    apply (rule wp_append_audio, assumption)
    apply (simp add: wp_readers s)
    apply (rule wp_track_event, assumption)
    apply (simp add: wp_return i Q [OF w'])
    done
qed

lemma captured_if_tracked:
  assumes "may_overhear b (on_runtime (\<lambda>r. r\<lparr>rt_chunk_count := Suc (rt_chunk_count r), rt_audio_format := x\<rparr>) w) w'"
    and "track i Capturing cr (on_runtime (hear b) w') v" and "reports EvSessionState (sess w i) e"
  shows "captured i b w v \<and> (\<exists>e'. [e] = [e'] \<and> reports EvSessionState (sess w i) e')"
proof -
  have w': "env w' = env w" "ctx w' = ctx w" "next_sess w' = next_sess w" "sess w' = sess w"
      "endpoint_runtimes w' = endpoint_runtimes w" "r \<noteq> ctx w \<Longrightarrow> rts w' r = rts w r"
      "rt_audio_chunks (rts w' (ctx w)) = rt_audio_chunks (rts w (ctx w))"
      "rt_chunk_count (rts w' (ctx w)) = Suc (rt_chunk_count (rts w (ctx w)))"
      "rt_websocket (rts w' (ctx w)) = rt_websocket (rts w (ctx w))"
      "rt_connection_active (rts w' (ctx w)) = rt_connection_active (rts w (ctx w))" for r
    using assms(1) by (auto simp: may_overhear_def on_runtime_def overhear_def)
  have m: "mild_step (rts (on_runtime (hear b) w') r) (rts v r)" for r
    using assms(2) by (simp add: track_def)
  have "mild_step (rts w r) (rts v r)" if "r \<noteq> ctx w" for r
    using m [of r] that w'(2,6) by (simp add: on_runtime_def)
  then have "others_calm w v" by (simp add: others_calm_def)
  moreover have "rt_audio_chunks (rts v (ctx w)) = rt_audio_chunks (rts w (ctx w)) @ [b]"
      "rt_chunk_count (rts v (ctx w)) = Suc (rt_chunk_count (rts w (ctx w)))"
      "rt_websocket (rts v (ctx w)) = rt_websocket (rts w (ctx w))"
      "rt_connection_active (rts v (ctx w)) = rt_connection_active (rts w (ctx w))"
    using m [of "ctx w"] w' by (simp_all add: mild_step_def on_runtime_def hear_def)
  ultimately show ?thesis
    using assms(2,3) w' unfolding captured_def Let_def track_def by simp
qed

text \<open>A chunk of audio that arrives in time for a session that listens, when no capture window is
  open, is appended to the audio of the session: the session is capturing, the audio is what it was
  with the decoded chunk at its end, the count is one higher, and the endpoint is told the state.\<close>

lemma chunk_captured:
  assumes "rt_active_session (rts w (ctx w)) = Some i"
    and "ev_session_id event = None \<or> ev_session_id event = Some (ss_session_id (sess w i))"
    and "ss_session_state (sess w i) \<in> {Listening, Capturing}"
    and "active_session_timeout_reason (env w) (ev_timestamp event) (sess w i) = None"
    and "e_v_chunk (env w) (ev_payload event) = Inr p" "chunk_audio (env w) p = Some b" "no_windows w"
  shows "wp (handle_audio_chunk event) (\<lambda>events v. captured i b w v
     \<and> (\<exists>e. events = [e] \<and> reports EvSessionState (sess w i) e)) w"
proof -
  let ?f = "\<lambda>r. r\<lparr>rt_chunk_count := Suc (rt_chunk_count r), rt_audio_format := Some (cp_audio_format p)\<rparr>"
  let ?w = "on_runtime ?f w" let ?st = "ss_session_state (sess w i)"
  have t: "track i ?st (ss_cancel_reason (sess w i)) ?w ?w"
    using assms(1) track_start [of ?w i] by simp
  have n: "no_windows ?w" using assms(7) by (simp add: no_windows_def on_runtime_def)
  have idle: "(ss_session_state (sess u i) = Idle) = False" if "track i ?st cr x u" for cr x u
    using track_active_state [OF that] assms(3) by auto
  show ?thesis
    unfolding handle_audio_chunk_def
    apply (rule wp_require_active_session [OF assms(1,2)])
    apply (simp only: sum.case wp_readers assms(4,5) option.case accept_audio_chunk_def wp_upd_runtime Let_def)
    apply (rule wp_quiet(1) [OF n])
    subgoal premises u for u
    proof -
      have tu: "track i ?st (ss_cancel_reason (sess w i)) ?w u" by (rule track_calm [OF t u(1)])
      have a: "chunk_audio (env u) p = Some b" using assms(6) calmD(1) [OF u(1)] by simp
      show ?thesis
        apply (simp only: wp_readers a option.case)
        apply (rule wp_no_placement [OF u(2)])
        apply (simp only: wp_readers option.case)
        apply (rule wp_quiet(2), assumption)
        apply (rule wp_no_enrollment, assumption)
        subgoal premises q for u1 u2 u3
        proof -
          have t3: "track i ?st (ss_cancel_reason (sess w i)) ?w u3"
            using track_calm [OF track_calm [OF track_calm [OF tu]]] q by blast
          show ?thesis
            apply (simp only: wp_readers option.case simp_thms)
            apply (rule wp_track_calm [OF t3], intro evol)
            subgoal premises t4 for u4
              apply (simp only: wp_readers idle [OF t4] simp_thms whenM_False State_Monad.bind_left_identity)
              apply (rule chunk_tail [OF t4 assms(3)], rule captured_if_tracked, assumption, assumption)
              apply (simp add: reports_def)
              done
            done
        qed
        done
    qed
    done
qed

definition ex_chunk :: audio_chunk_payload where
  "ex_chunk = \<lparr>cp_chunk_index = 0, cp_audio_format = pcm, cp_payload_base64 = Some ''AQI='', cp_is_final = False,
     cp_micro_vad_chunk_index = None, cp_micro_vad_chunk_started = False, cp_micro_vad_chunk_final = False,
     cp_micro_vad_pause_ms = None, cp_frame_level = None, cp_noise_floor_level = None, cp_speech_peak_level = None, cp_pre_roll_duration_ms = None,
     cp_contains_pre_roll = False, cp_contains_speech = True\<rparr>"

definition ex_listening :: world where
  "ex_listening = (ex_busy Listening)\<lparr>env := ex_env\<lparr>e_v_chunk := (\<lambda>_. Inr ex_chunk), e_b64decode := (\<lambda>_. Some [1, 2])\<rparr>\<rparr>"

lemma chunk_captured_witness:
  "wp (handle_audio_chunk (ex_event EvAudioChunk 1)) (\<lambda>events v. captured 0 [1, 2] ex_listening v
     \<and> (\<exists>e. events = [e] \<and> reports EvSessionState (sess ex_listening 0) e)) ex_listening"
proof (rule chunk_captured)
  show "rt_active_session (rts ex_listening (ctx ex_listening)) = Some 0"
    by (simp add: ex_listening_def)
  show "e_v_chunk (env ex_listening) (ev_payload (ex_event EvAudioChunk 1)) = Inr ex_chunk"
    "chunk_audio (env ex_listening) ex_chunk = Some [1, 2]" "no_windows ex_listening"
    by (simp_all add: ex_listening_def ex_chunk_def chunk_audio_def no_windows_def ex_busy_def ex_world_def)
  show "active_session_timeout_reason (env ex_listening) (ev_timestamp (ex_event EvAudioChunk 1)) (sess ex_listening 0) = None"
    by (simp add: ex_listening_def active_session_timeout_reason_def seconds_between_def us_per_s_def ex_env_def)
qed (simp_all add: ex_listening_def)

section \<open>Wake words\<close>

definition candidate_of :: "envelope \<Rightarrow> snapshot \<Rightarrow> wake_candidate_payload \<Rightarrow> wake_candidate \<Rightarrow> bool" where
  "candidate_of event s p c \<longleftrightarrow> wc_endpoint_id c = ev_endpoint_id event \<and> wc_session_id c = ss_session_id s
     \<and> wc_chunk_index c = wp_chunk_index p
     \<and> wc_confidence c = map_option (\<lambda>x. max 0 (min 1 x)) (wp_confidence p)"

lemma wp_candidate:
  assumes "\<And>c u. calm w u \<Longrightarrow> election u = election w \<Longrightarrow> wc_endpoint_id c = e \<Longrightarrow> wc_session_id c = sid \<Longrightarrow>
      wc_chunk_index c = wp_chunk_index p \<Longrightarrow>
      wc_confidence c = map_option (\<lambda>x. max 0 (min 1 x)) (wp_confidence p) \<Longrightarrow> wp (f c) Q u"
  shows "wp (State_Monad.bind (wake_candidate_from_payload e sid p t) f) Q w"
  unfolding wake_candidate_from_payload_def State_Monad.bind_assoc wp_effects
  by (simp, rule assms) (simp_all add: calm_def mild_step_def post_init_def)

lemma wp_submit:
  assumes "\<And>x u. calm w u \<Longrightarrow> wp (f (fst (submit_candidate x c (election w)))) Q u"
  shows "wp (State_Monad.bind (submit_to_election c) f) Q w"
  unfolding submit_to_election_def State_Monad.bind_assoc wp_effects wp_readers
  by (simp, rule assms) (simp add: calm_def mild_step_def)

lemma wp_accept_wake:
  assumes "track i Idle cr w v"
    and "\<And>e u. track i Listening cr w u \<Longrightarrow> reports EvWakeAccepted (sess w i) e \<Longrightarrow> wp (f [e]) Q u"
  shows "wp (State_Monad.bind (accept_wake_candidate i c t d) f) Q v"
proof -
  have s: "settle Idle WakeDetected = WakeDetected" "settle WakeDetected Listening = Listening"
    by (simp_all add: settle_def)
  show ?thesis
    unfolding accept_wake_candidate_def State_Monad.bind_assoc Let_def wp_readers
    apply (rule wp_track_calm [OF assms(1)], (intro evol; fail), rule wp_track_calm, assumption, (intro evol; fail))
    apply (rule wp_track_calm, assumption, (intro evol; fail), rule wp_track_calm, assumption, (intro evol; fail))
    apply (rule wp_track_calm, assumption, (intro evol; fail), rule wp_track_calm, assumption, (intro evol; fail))
    apply (rule wp_track_set, assumption, unfold s, rule wp_track_event, assumption, rule wp_track_set, assumption)
    apply (simp add: s assms(2))
    done
qed

definition woken :: "envelope \<Rightarrow> nat \<Rightarrow> decision \<Rightarrow> world \<Rightarrow> envelope list \<Rightarrow> world \<Rightarrow> bool" where
  "woken event i d w events v \<longleftrightarrow>
     (if wd_accepted d then track i Listening (ss_cancel_reason (sess w i)) w v
        \<and> (\<exists>a b. events = [a, b] \<and> reports EvWakeAccepted (sess w i) a \<and> reports EvSessionState (sess w i) b)
      else calm w v \<and> (\<exists>e. events = [e] \<and> reports EvWakeElectionResult (sess w i) e))"

text \<open>A wake candidate of a session that waits for its wake word takes part in the election. If the
  election refuses it, nothing changes and the endpoint learns the result; if the election accepts
  it, and no earlier winner has to stand down, the session listens and the endpoint is told that
  the wake word was accepted.\<close>

lemma wake_candidate_decided:
  assumes "rt_active_session (rts w (ctx w)) = Some i"
    and "ev_session_id event = None \<or> ev_session_id event = Some (ss_session_id (sess w i))"
    and "ss_session_state (sess w i) = Idle" "e_v_wake (env w) (ev_payload event) = Inr p"
  shows "wp (handle_wake_candidate event) (\<lambda>events v. \<exists>c x d. candidate_of event (sess w i) p c
     \<and> d = fst (submit_candidate x c (election w))
     \<and> (wd_replaced_winner d = None \<longrightarrow> woken event i d w events v)) w"
proof -
  let ?Q = "\<lambda>events v. \<exists>c x d. candidate_of event (sess w i) p c \<and> d = fst (submit_candidate x c (election w))
     \<and> (wd_replaced_winner d = None \<longrightarrow> woken event i d w events v)"
  let ?r = "w\<lparr>clock_reads := Suc (clock_reads w)\<rparr>"
  let ?rest = "\<lambda>c d. do {
     record_wake_confidence (ev_endpoint_id event) (ss_session_id (sess w i)) (wc_model c)
       (wc_confidence c) True (wd_accepted d) (Some (wd_reason d)) (Some (wc_source c))
       (wc_chunk_index c) (wc_chunk_count c);
     (if \<not> wd_accepted d then do { e \<leftarrow> wake_election_event i d; ret [e] }
      else do {
        stand_down_replaced_winner (Some d);
        events \<leftarrow> accept_wake_candidate i c (ev_timestamp event) (Some d);
        e \<leftarrow> state_event EvSessionState i
          [(''wake'', PDict
            [(''detected'', PBool True), (''confidence'', onum (wc_confidence c)),
             (''model'', ostr (wc_model c)), (''source'', PStr (wc_source c)),
             (''reason'', PStr (wd_reason d)), (''election'', dump_decision d)])];
        ret (events @ [e]) }) }"
  have rest: "wp (?rest c d) (\<lambda>events v. wd_replaced_winner d = None \<longrightarrow> woken event i d w events v) u"
    if "track i Idle (ss_cancel_reason (sess w i)) w u" "calm w u" for c d u
  proof (cases "wd_replaced_winner d")
    case None
    have sd: "wp (State_Monad.bind (stand_down_replaced_winner (Some d)) f) Q v = wp (f ()) Q v"
      for f :: "unit \<Rightarrow> envelope list M" and Q v
      by (simp add: wp_def stand_down_replaced_winner_def None)
    show ?thesis
    proof (rule wp_calm_bind, (intro evol)[1])
      fix a v
      assume "calm u v"
      then have t: "track i Idle (ss_cancel_reason (sess w i)) w v" and c: "calm w v"
        using that ca.trans_R track_calm by blast+
      show "wp (if \<not> wd_accepted d then do { e \<leftarrow> wake_election_event i d; ret [e] } else do {
        stand_down_replaced_winner (Some d);
        events \<leftarrow> accept_wake_candidate i c (ev_timestamp event) (Some d);
        e \<leftarrow> state_event EvSessionState i
          [(''wake'', PDict
            [(''detected'', PBool True), (''confidence'', onum (wc_confidence c)),
             (''model'', ostr (wc_model c)), (''source'', PStr (wc_source c)),
             (''reason'', PStr (wd_reason d)), (''election'', dump_decision d)])];
        ret (events @ [e]) }) (\<lambda>events v. wd_replaced_winner d = None \<longrightarrow> woken event i d w events v) v"
      proof (cases "wd_accepted d")
        case True
        have "wp (do {
            events \<leftarrow> accept_wake_candidate i c (ev_timestamp event) (Some d);
            e \<leftarrow> state_event EvSessionState i x;
            ret (events @ [e]) }) (\<lambda>events v. wd_replaced_winner d = None \<longrightarrow> woken event i d w events v) v" for x
          by (rule wp_accept_wake [OF t], rule wp_track_event, assumption) (simp add: wp_return woken_def True)
        with True show ?thesis by (simp add: sd)
      next
        case False
        have "wp (wake_election_event i d) (\<lambda>e u. calm v u \<and> reports EvWakeElectionResult (sess v i) e) v"
          unfolding wp_conj wake_election_event_def
          by (intro conjI state_event_reports wp_calm [OF ca.state_event_rel])
        then have "wp (wake_election_event i d) (\<lambda>e u. woken event i d w [e] u) v"
          by (rule wp_mono) (use False c ca.trans_R calmD(3) [OF c] in \<open>auto simp: woken_def\<close>)
        with False show ?thesis by (simp add: wp_bind) (erule wp_mono, simp add: wp_return)
      qed
    qed
  next
    case (Some x)
    then show ?thesis by (simp add: wp_def)
  qed
  show ?thesis
    unfolding handle_wake_candidate_def
    apply (rule wp_require_active_session [OF assms(1,2)])
    apply (simp only: sum.case wp_readers assms(3,4) simp_thms if_False wp_effects)
    apply (rule wp_candidate, rule wp_submit)
    subgoal premises q for c u x v
    proof -
      have "calm w ?r" by (simp add: calm_def mild_step_def)
      then have v: "calm w v" using q(1,7) ca.trans_R by blast
      show ?thesis
        apply (rule wp_mono [OF rest [OF track_calm [OF _ v] v]])
         apply (use track_start [OF assms(1)] assms(3) in simp)
        apply (rule exI [of _ c], rule exI [of _ x], rule exI [of _ "fst (submit_candidate x c (election w))"])
        apply (use q in \<open>simp add: candidate_of_def\<close>)
        done
    qed
    done
qed

definition ex_wake :: wake_candidate_payload where
  "ex_wake = \<lparr>wp_source = ''micro'', wp_model = None, wp_confidence = Some (9/10), wp_chunk_index = None,
     wp_chunk_count = None, wp_detected_at = None, wp_detection_window_ms = None, wp_frame_level = None,
     wp_speech_peak_level = None, wp_noise_floor_level = None, wp_ambient_level = None, wp_snr_db = None,
     wp_profile_version = None, wp_metadata = []\<rparr>"

definition ex_waiting :: world where
  "ex_waiting = (ex_busy Idle)\<lparr>env := ex_env\<lparr>e_v_wake := (\<lambda>_. Inr ex_wake)\<rparr>\<rparr>"

lemma first_candidate_wins:
  "wd_accepted (fst (submit_candidate x c (election ex_waiting)))
   \<and> wd_replaced_winner (fst (submit_candidate x c (election ex_waiting))) = None"
  by (simp add: ex_waiting_def ex_busy_def ex_world_def init_election_def submit_candidate_def Let_def
      record_candidate_def expire_pending_def open_election_def decide_candidates_def choose_winner_def
      in_window_def record_decision_def same_candidate_def)

lemma wake_candidate_decided_witness:
  "wp (handle_wake_candidate (ex_event EvWakeCandidate 1)) (\<lambda>events v. track 0 Listening None ex_waiting v
     \<and> (\<exists>a b. events = [a, b] \<and> reports EvWakeAccepted (ex_session Idle) a
          \<and> reports EvSessionState (ex_session Idle) b)) ex_waiting"
proof (rule wp_mono [OF wake_candidate_decided [of ex_waiting 0 "ex_event EvWakeCandidate 1" ex_wake]])
qed (use first_candidate_wins in \<open>auto simp: ex_waiting_def woken_def ex_session_def\<close>)

end
