(* ===== verification/HistoryFacts.thy ===== *)
theory HistoryFacts
  imports Examples "HOL-Library.Multiset"
begin

text \<open>
  What the records of finished sessions are worth: the store as a bounded map with the latest
  session first, the points of the latency timeline, and which sessions can be replayed.
\<close>

section \<open>The store as a bounded map\<close>

text \<open>
  The contract a client of the store relies on: \<open>put\<close> makes the record the one found under its
  id, keeps what it finds under every other id unless the store was full, keeps ids distinct and
  the number of records bounded.
\<close>

locale bounded_store =
  fixes lookup :: "'k \<Rightarrow> 's \<Rightarrow> 'v option"
    and put :: "'r \<Rightarrow> 's \<Rightarrow> 's"
    and key :: "'r \<Rightarrow> 'k"
    and val :: "'r \<Rightarrow> 'v"
    and valid :: "'r \<Rightarrow> bool"
    and count :: "'s \<Rightarrow> nat"
    and limit :: nat
  assumes put_invalid: "\<not> valid r \<Longrightarrow> put r s = s"
    and lookup_put: "valid r \<Longrightarrow> lookup (key r) (put r s) = Some (val r)"
    and lookup_other: "valid r \<Longrightarrow> count s \<le> limit \<Longrightarrow> k \<noteq> key r \<Longrightarrow>
      lookup k (put r s) = lookup k s \<or> lookup k (put r s) = None \<and> count s = limit"
    and bounded: "count s \<le> limit \<Longrightarrow> count (put r s) \<le> limit"
begin

definition puts :: "'r list \<Rightarrow> 's \<Rightarrow> 's" where
  "puts rs s = fold put rs s"

lemma puts_bounded: "count s \<le> limit \<Longrightarrow> count (puts rs s) \<le> limit"
  unfolding puts_def by (induction rs arbitrary: s) (simp_all add: bounded)

text \<open>Whatever is stored after it, a record that is found is the last one stored under its id.\<close>

lemma found_is_latest:
  assumes "count s \<le> limit" "lookup k (puts rs s) = Some v"
  shows "case filter (\<lambda>q. valid q \<and> key q = k) (rev rs) of [] \<Rightarrow> lookup k s = Some v | q # _ \<Rightarrow> v = val q"
  using assms(2)
proof (induction rs arbitrary: v rule: rev_induct)
  case (snoc q rs)
  have o: "count (puts rs s) \<le> limit" by (rule puts_bounded [OF assms(1)])
  have p: "puts (rs @ [q]) s = put q (puts rs s)" by (simp add: puts_def)
  consider (invalid) "\<not> valid q" | (same) "valid q" "key q = k" | (other) "valid q" "k \<noteq> key q" by blast
  then show ?case
  proof cases
    case invalid
    with snoc.prems p put_invalid have "lookup k (puts rs s) = Some v" by simp
    with snoc.IH invalid show ?thesis by simp
  next
    case same
    with lookup_put [OF same(1), of "puts rs s"] snoc.prems p show ?thesis by simp
  next
    case other
    with lookup_other [OF other(1) o other(2)] snoc.prems p have "lookup k (puts rs s) = Some v" by auto
    with snoc.IH other show ?thesis by auto
  qed
qed (simp add: puts_def)

end

text \<open>The store of the code: what is put is the time and the record.\<close>

definition rec_id :: "(pv \<Rightarrow> string) \<Rightarrow> dict \<Rightarrow> string" where
  "rec_id rp rec = strip (py_str rp (py_or (dget rec ''session_id'') (PStr [])))"

definition stored :: "(pv \<Rightarrow> string) \<Rightarrow> instant \<times> dict \<Rightarrow> dict" where
  "stored rp = (\<lambda>(now, rec). aupdate rec
     [(''session_id'', PStr (rec_id rp rec)), (''updated_at'', PStr (isoformat now))])"

definition hist_put :: "(pv \<Rightarrow> string) \<Rightarrow> nat \<Rightarrow> instant \<times> dict \<Rightarrow> dict list \<Rightarrow> dict list" where
  "hist_put rp limit = (\<lambda>(now, rec) sessions.
     case hist_upsert rp limit now rec sessions of None \<Rightarrow> sessions | Some (_, s) \<Rightarrow> s)"

lemma find_take: "find P (take n xs) = find P xs \<or> find P (take n xs) = None"
  by (induction xs arbitrary: n) (auto simp: take_Cons' split: if_splits)

lemma find_filter: "(\<And>x. P x \<Longrightarrow> Q x) \<Longrightarrow> find P (filter Q xs) = find P xs"
  by (induction xs) auto

lemma stored_id [simp]: "dget (stored rp (t, rec)) ''session_id'' = PStr (rec_id rp rec)"
  by (simp add: stored_def aupdate_def)

lemma hist_put_valid:
  "rec_id rp rec \<noteq> [] \<Longrightarrow> hist_put rp limit (t, rec) s =
     push_front limit (stored rp (t, rec)) (filter (\<lambda>x. dget x ''session_id'' \<noteq> PStr (rec_id rp rec)) s)"
  by (simp add: hist_put_def hist_upsert_def rec_id_def [symmetric] stored_def Let_def)

interpretation hs: bounded_store hist_get "hist_put rp (Suc n)" "\<lambda>(t, rec). rec_id rp rec" "stored rp"
  "\<lambda>(t, rec). rec_id rp rec \<noteq> []" length "Suc n" for rp n
proof
  fix r :: "instant \<times> dict" and s :: "dict list" and k :: string
  obtain t rec where r: "r = (t, rec)" by (cases r)
  let ?others = "filter (\<lambda>x. dget x ''session_id'' \<noteq> PStr (rec_id rp rec)) s"
  show "hist_put rp (Suc n) r s = s" if "\<not> (case r of (t, rec) \<Rightarrow> rec_id rp rec \<noteq> [])"
    using that by (simp add: r hist_put_def hist_upsert_def rec_id_def [symmetric] Let_def)
  show "length (hist_put rp (Suc n) r s) \<le> Suc n" if "length s \<le> Suc n"
    using that by (auto simp: r hist_put_def hist_upsert_def Let_def)
  show "hist_get (case r of (t, rec) \<Rightarrow> rec_id rp rec) (hist_put rp (Suc n) r s) = Some (stored rp r)"
    if "case r of (t, rec) \<Rightarrow> rec_id rp rec \<noteq> []"
    using that by (simp add: r hist_put_valid hist_get_def push_front_def)
  show "hist_get k (hist_put rp (Suc n) r s) = hist_get k s
      \<or> hist_get k (hist_put rp (Suc n) r s) = None \<and> length s = Suc n"
    if v: "case r of (t, rec) \<Rightarrow> rec_id rp rec \<noteq> []" and l: "length s \<le> Suc n"
      and k: "k \<noteq> (case r of (t, rec) \<Rightarrow> rec_id rp rec)"
  proof -
    have g: "hist_get k (hist_put rp (Suc n) r s) = find (\<lambda>x. dget x ''session_id'' = PStr k) (take n ?others)"
      using v k by (simp add: r hist_put_valid hist_get_def push_front_def)
    have o: "find (\<lambda>x. dget x ''session_id'' = PStr k) ?others = hist_get k s"
      unfolding hist_get_def by (rule find_filter) (use k r in auto)
    show ?thesis
    proof (cases "length ?others \<le> n")
      case True
      with g o show ?thesis by simp
    next
      case False
      moreover have "length ?others \<le> length s" by simp
      ultimately have "length s = Suc n" using l by linarith
      with find_take [of "\<lambda>x. dget x ''session_id'' = PStr k" n ?others] g o show ?thesis by auto
    qed
  qed
qed

text \<open>C13. The history as a bounded map: after any sequence of writes, a record that is found under an id
  is the normalised form of the last valid record written under it (or was there before), a record
  just written is found, and never more than the limit are kept.\<close>

theorem history_keeps_latest:
  assumes "length s \<le> Suc n"
  shows "(\<forall>k v. hist_get k (fold (hist_put rp (Suc n)) recs s) = Some v \<longrightarrow>
        (case filter (\<lambda>q. (case q of (t, rec) \<Rightarrow> rec_id rp rec \<noteq> []) \<and> (case q of (t, rec) \<Rightarrow> rec_id rp rec) = k) (rev recs) of
           [] \<Rightarrow> hist_get k s = Some v | q # _ \<Rightarrow> v = stored rp q))
     \<and> (\<forall>t rec. recs \<noteq> [] \<and> last recs = (t, rec) \<and> rec_id rp rec \<noteq> [] \<longrightarrow>
          hist_get (rec_id rp rec) (fold (hist_put rp (Suc n)) recs s) = Some (stored rp (t, rec)))
     \<and> length (fold (hist_put rp (Suc n)) recs s) \<le> Suc n"
proof (intro conjI allI impI)
  fix k v
  assume "hist_get k (fold (hist_put rp (Suc n)) recs s) = Some v"
  with hs.found_is_latest [OF assms, of k rp recs v]
  show "case filter (\<lambda>q. (case q of (t, rec) \<Rightarrow> rec_id rp rec \<noteq> []) \<and> (case q of (t, rec) \<Rightarrow> rec_id rp rec) = k) (rev recs) of
           [] \<Rightarrow> hist_get k s = Some v | q # _ \<Rightarrow> v = stored rp q"
    by (simp add: hs.puts_def)
next
  fix t rec
  assume r: "recs \<noteq> [] \<and> last recs = (t, rec) \<and> rec_id rp rec \<noteq> []"
  then obtain init where "recs = init @ [(t, rec)]" by (metis append_butlast_last_id)
  with r hs.lookup_put [where r = "(t, rec)" and rp = rp and n = n]
  show "hist_get (rec_id rp rec) (fold (hist_put rp (Suc n)) recs s) = Some (stored rp (t, rec))" by simp
next
  show "length (fold (hist_put rp (Suc n)) recs s) \<le> Suc n"
    using hs.puts_bounded [OF assms] by (simp add: hs.puts_def)
qed

theorem history_keeps_latest_witness:
  "hist_get ''a'' (fold (hist_put (\<lambda>_. []) 1)
     [(0, [(''session_id'', PStr ''a'')]), (1, [(''session_id'', PStr ''b'')]), (2, [(''session_id'', PStr ''a'')])] [])
   = Some (stored (\<lambda>_. []) (2, [(''session_id'', PStr ''a'')]))"
proof -
  have i: "rec_id (\<lambda>_. []) [(''session_id'', PStr ''a'')] = ''a''" by code_simp
  show ?thesis
    using history_keeps_latest [of "[]" 0 "\<lambda>_. []" "[(0, [(''session_id'', PStr ''a'')]),
      (1, [(''session_id'', PStr ''b'')]), (2, [(''session_id'', PStr ''a'')])]",
      THEN conjunct2, THEN conjunct1, rule_format, of 2 "[(''session_id'', PStr ''a'')]"] i
    by simp
qed

section \<open>The latency timeline\<close>

definition points_of :: "dict \<Rightarrow> dict list" where
  "points_of h = map dict_of (list_of (dget h ''latency_points''))"

lemma latency_offsets_keep:
  "k \<notin> {''offset_from_vad_ms'', ''offset_from_previous_ms''} \<Longrightarrow>
   map (\<lambda>p. dget p k) (latency_offsets rp vad prev ps) = map (\<lambda>p. dget p k) ps"
  by (induction rp vad prev ps rule: latency_offsets.induct) (auto split: option.split)

definition point_rank :: "(pv \<Rightarrow> string) \<Rightarrow> dict \<Rightarrow> nat" where
  "point_rank rp p = latency_point_order (py_str rp (dget p ''key''))"

definition kept_points :: "string \<Rightarrow> dict \<Rightarrow> dict list" where
  "kept_points key h = map dict_of (filter (\<lambda>p. is_dict p \<and> dget (dict_of p) ''key'' \<noteq> PStr key)
     (list_of (dget h ''latency_points'')))"

lemma points_append_latency:
  "\<exists>f. points_of (append_latency rp key label t h) = f (sort_key (point_rank rp)
      (kept_points key h @ [[(''key'', PStr key), (''label'', PStr label), (''timestamp'', PStr (isoformat t))]]))
    \<and> (f = id \<or> (\<exists>vad. f = latency_offsets rp vad None))"
proof -
  define ps where "ps = kept_points key h @ [[(''key'', PStr key), (''label'', PStr label), (''timestamp'', PStr (isoformat t))]]"
  define vad where "vad = (case find (\<lambda>p. dget p ''key'' = PStr ''vad_voice_detected'') ps of
      None \<Rightarrow> None | Some p \<Rightarrow> parse_datetime rp (dget p ''timestamp''))"
  have "points_of (append_latency rp key label t h)
      = (case vad of None \<Rightarrow> sort_key (point_rank rp) ps | Some v \<Rightarrow> latency_offsets rp v None (sort_key (point_rank rp) ps))"
    by (simp add: append_latency_def Let_def points_of_def kept_points_def ps_def vad_def point_rank_def [abs_def] comp_def
        cong: option.case_cong)
  then show ?thesis unfolding ps_def [symmetric] by (cases vad) (auto intro: exI [of _ id])
qed

text \<open>Adding a point to the timeline of a session: the points are in the fixed order of the stages,
  the stage just added occurs once and with its time, and the points of the other stages keep their
  times, whether or not offsets from the start of speech are computed.\<close>

lemma latency_points_ordered:
  "sorted (map (point_rank rp) (points_of (append_latency rp key label t h)))
   \<and> map (\<lambda>p. dget p ''timestamp'') (filter (\<lambda>p. dget p ''key'' = PStr key) (points_of (append_latency rp key label t h)))
       = [PStr (isoformat t)]
   \<and> mset (map (\<lambda>p. (dget p ''key'', dget p ''timestamp'')) (points_of (append_latency rp key label t h)))
       = mset (map (\<lambda>p. (dget p ''key'', dget p ''timestamp'')) (kept_points key h)) + {#(PStr key, PStr (isoformat t))#}"
proof -
  let ?new = "[(''key'', PStr key), (''label'', PStr label), (''timestamp'', PStr (isoformat t))]"
  let ?ps = "sort_key (point_rank rp) (kept_points key h @ [?new])"
  let ?kt = "\<lambda>p. (dget p ''key'', dget p ''timestamp'')"
  obtain f where f: "points_of (append_latency rp key label t h) = f ?ps" "f = id \<or> (\<exists>vad. f = latency_offsets rp vad None)"
    using points_append_latency by blast
  have kt: "map ?kt (f ?ps) = map ?kt ?ps"
  proof -
    have z: "map ?kt ps = zip (map (\<lambda>p. dget p ''key'') ps) (map (\<lambda>p. dget p ''timestamp'') ps)" for ps
      by (induction ps) simp_all
    from f(2) show ?thesis unfolding z [of "f ?ps"] z [of ?ps] by (auto simp: latency_offsets_keep)
  qed
  have "map (point_rank rp) (f ?ps) = map (\<lambda>(k, _). latency_point_order (py_str rp k)) (map ?kt (f ?ps))"
    by (simp add: point_rank_def comp_def)
  also have "\<dots> = map (point_rank rp) ?ps" unfolding kt by (simp add: point_rank_def comp_def)
  finally have 1: "sorted (map (point_rank rp) (f ?ps))" by simp
  have k: "filter (\<lambda>p. dget p ''key'' = PStr key) (kept_points key h) = []"
    by (auto simp: kept_points_def filter_empty_conv)
  have "map (\<lambda>p. dget p ''timestamp'') (filter (\<lambda>p. dget p ''key'' = PStr key) ps)
      = map snd (filter (\<lambda>(k, _). k = PStr key) (map ?kt ps))" for ps
    by (induction ps) simp_all
  then have "map (\<lambda>p. dget p ''timestamp'') (filter (\<lambda>p. dget p ''key'' = PStr key) (f ?ps))
      = map (\<lambda>p. dget p ''timestamp'') (filter (\<lambda>p. dget p ''key'' = PStr key) ?ps)"
    using kt by simp
  also have "\<dots> = [PStr (isoformat t)]" using k by (simp add: filter_sort dget_def)
  finally have 2: "map (\<lambda>p. dget p ''timestamp'') (filter (\<lambda>p. dget p ''key'' = PStr key) (f ?ps)) = [PStr (isoformat t)]" .
  have "mset (map ?kt (f ?ps)) = image_mset ?kt (mset ?ps)" unfolding kt by simp
  then have 3: "mset (map ?kt (f ?ps)) = mset (map ?kt (kept_points key h)) + {#(PStr key, PStr (isoformat t))#}"
    by (simp add: dget_def)
  show ?thesis unfolding f(1) using 1 2 3 by blast
qed

section \<open>Replay\<close>

text \<open>A finished session is marked as eligible for replay if it has no error and a spoken answer with a
  stream and some address; it is found for replay only if that answer also has a general audio
  address. So a session whose answer has just the address for the endpoint is marked as eligible
  and yet never found.\<close>

lemma replay_needs_general_address:
  "(truthy (dget (replay_metadata tts err) ''eligible'') \<longleftrightarrow>
     err = None \<and> (\<exists>t. tts = Some t \<and> t \<noteq> [] \<and> \<not> truthy (dget t ''error'') \<and> truthy (dget t ''stream_id'')
       \<and> (truthy (dget t ''endpoint_audio_url'') \<or> truthy (dget t ''audio_url''))))
   \<and> (replay_eligible (aput ''replay'' (PDict (replay_metadata tts err)) (aput ''tts'' (odict tts) rec)) \<longleftrightarrow>
     truthy (dget (replay_metadata tts err) ''eligible'') \<and> (\<exists>t. tts = Some t \<and> truthy (dget t ''audio_url'')))"
proof
  show 1: "truthy (dget (replay_metadata tts err) ''eligible'') \<longleftrightarrow>
     err = None \<and> (\<exists>t. tts = Some t \<and> t \<noteq> [] \<and> \<not> truthy (dget t ''error'') \<and> truthy (dget t ''stream_id'')
       \<and> (truthy (dget t ''endpoint_audio_url'') \<or> truthy (dget t ''audio_url'')))"
    by (auto simp: replay_metadata_def Let_def dget_def endpoint_tts_audio_url_def py_or_def split: option.splits if_splits)
  show "replay_eligible (aput ''replay'' (PDict (replay_metadata tts err)) (aput ''tts'' (odict tts) rec)) \<longleftrightarrow>
     truthy (dget (replay_metadata tts err) ''eligible'') \<and> (\<exists>t. tts = Some t \<and> truthy (dget t ''audio_url''))"
    unfolding replay_eligible_def using 1 by (cases tts) (auto simp: odict_def)
qed

end
