(* ===== verification/Arbitration.thy ===== *)
theory Arbitration
  imports Admission
begin

text \<open>
  Sessions that give way: to a newer session of the same endpoint, to an endpoint that heard the
  wake word better, and to the clock.
\<close>

section \<open>A newer session\<close>

text \<open>A start replaces a session that has not captured anything when the rules allow it: the old
  session is cancelled as superseded and closed, the new one is opened, and no other session or
  connection changes.\<close>

lemma start_replaces_session:
  assumes "rt_active_session (rts w (ctx w)) = Some i" "ordinary (rts w (ctx w))"
    and "\<not> can_merge_playback_interrupt_event (e_repr (env w)) (rts w (ctx w)) (Some (sess w i)) event"
    and "can_replace_active_session (rts w (ctx w)) (sess w i) event"
    and "e_v_start (env w) (ev_payload event) = Inr p"
  shows "wp (handle_session_start event) (\<lambda>events v. \<exists>u. ended i ''superseded_by_new_session'' w u
     \<and> opened event p (if opened_by_hand p then Listening else Idle) u v
     \<and> greeting p (sess v (next_sess w)) events) w"
proof -
  let ?Q = "\<lambda>events v. \<exists>u. ended i ''superseded_by_new_session'' w u
     \<and> opened event p (if opened_by_hand p then Listening else Idle) u v
     \<and> greeting p (sess v (next_sess w)) events"
  have "wp (do { supersede_active_session i; open_session event }) ?Q w"
    unfolding wp_bind
  proof (rule wp_mono [OF supersede_ends [OF assms(1)]])
    fix u
    assume u: "ended i ''superseded_by_new_session'' w u"
    then have e: "e_v_start (env u) (ev_payload event) = Inr p" "next_sess u = next_sess w"
      using assms(5) by (simp_all add: ended_def closed_def)
    show "wp (open_session event) ?Q u"
      by (rule wp_mono [OF open_session_opens [OF e(1)]]) (use u e(2) in auto)
  qed
  then show ?thesis unfolding wp_start_active [OF assms(1,2)] using assms(3,4) by simp
qed

definition ex_second :: envelope where
  "ex_second = (ex_event EvSessionStart 5)\<lparr>ev_session_id := Some ''s2''\<rparr>"

lemma start_replaces_session_witness:
  "\<exists>p. wp (handle_session_start ex_second) (\<lambda>events v. \<exists>u. ended 0 ''superseded_by_new_session'' (ex_busy Listening) u
     \<and> opened ex_second p (if opened_by_hand p then Listening else Idle) u v
     \<and> greeting p (sess v (next_sess (ex_busy Listening))) events) (ex_busy Listening)"
proof (rule exI, rule start_replaces_session)
  show "e_v_start (env (ex_busy Listening)) (ev_payload ex_second)
      = Inr \<lparr>sp_audio_format = pcm, sp_firmware_version = None, sp_wake_source = WakeButton\<rparr>"
    by (simp add: ex_env_def)
  show "can_replace_active_session (rts (ex_busy Listening) (ctx (ex_busy Listening))) (sess (ex_busy Listening) 0) ex_second"
    by (simp add: can_replace_active_session_def ex_second_def ex_runtime_def new_runtime_def seconds_between_def
        us_per_s_def replacement_grace_ms_def)
qed (simp_all add: ordinary_def is_placement_test_def is_speaker_enrollment_capture_def history_dict_def dget_def
    can_merge_playback_interrupt_event_def)

section \<open>A better wake word\<close>

lemma stand_down_ends:
  assumes "rt_active_session (rts w (ctx w)) = Some i" "state_io_rel calm m"
  shows "wp (do { m; set_session_state Cancelled; set_cancel_reason i reason; e \<leftarrow> wake_election_event i d;
      persist_active_session_history i reason error recording; release_active_session_wake_stream;
      clear_active_session_runtime; ret e })
    (\<lambda>e v. ended i reason w v \<and> reports EvWakeElectionResult (sess w i) e) w"
  unfolding wake_election_event_def
  by (rule wp_track_calm [OF track_start [OF assms(1)] assms(2)], rule wp_track_set, assumption,
      rule wp_track_reason, assumption, rule wp_track_event, assumption, rule wp_track_persist_release_clear, assumption)
    (simp add: wp_return ended_def)

text \<open>When a candidate takes the floor from an earlier winner whose session is still active, that
  session is cancelled on its own connection, with the reason that it stands down for a better
  candidate, and the endpoint is sent the result of the election.\<close>

lemma replaced_winner_stands_down:
  assumes "wd_replaced_winner d = Some a" "wd_winner d = Some b"
    and "runtime_for_endpoint (wc_endpoint_id a) w = Some r" "rt_active_session (rts w r) = Some i"
    and "ss_session_id (sess w i) = wc_session_id a"
  shows "wp (stand_down_replaced_winner (Some d)) (\<lambda>_ v.
     ended i ''stand_down_replaced_by_better_candidate'' (w\<lparr>ctx := r\<rparr>) (v\<lparr>ctx := r\<rparr>)
     \<and> (\<exists>e. ScheduleSend (wc_endpoint_id a) e \<in> set (trace v) \<and> reports EvWakeElectionResult (sess w i) e)) w"
  unfolding stand_down_replaced_winner_def wp_readers option.case assms(1-4) prod.case Let_def
  apply (simp only: assms(5) simp_thms if_False)
  apply (subst wp_bind, subst wp_with_runtime, rule wp_mono, rule stand_down_ends)
    apply (simp add: assms(4))
   apply (rule evol)
  apply (auto simp: schedule_endpoint_event_def wp_def emit_def ended_def closed_def others_calm_def)
  done

definition ex_candidate :: "string \<Rightarrow> string \<Rightarrow> wake_candidate" where
  "ex_candidate e sid = \<lparr>wc_endpoint_id = e, wc_session_id = sid, wc_source = ''micro'', wc_model = None,
     wc_confidence = Some (1/2), wc_received_at = 0, wc_detected_at = None, wc_chunk_index = None,
     wc_chunk_count = None, wc_frame_level = None, wc_speech_peak_level = None, wc_noise_floor_level = None,
     wc_ambient_level = None, wc_snr_db = None, wc_profile_version = None, wc_metadata = [],
     wc_candidate_id = Some (''c'' @ e)\<rparr>"

definition ex_replacing :: decision where
  "ex_replacing = \<lparr>wd_election_id = ''wake_election_1'', wd_accepted = True, wd_reason = ''winner_replaced'',
     wd_window_ms = 250, wd_candidate = Some (ex_candidate ''hall'' ''s2''), wd_winner = Some (ex_candidate ''hall'' ''s2''),
     wd_candidates = [], wd_decided_at = 0, wd_replaced_winner = Some (ex_candidate ''kitchen'' ''s1'')\<rparr>"

lemma replaced_winner_stands_down_witness:
  "wp (stand_down_replaced_winner (Some ex_replacing)) (\<lambda>_ v.
     ended 0 ''stand_down_replaced_by_better_candidate'' ((ex_busy Listening)\<lparr>ctx := 1\<rparr>) (v\<lparr>ctx := 1\<rparr>)
     \<and> (\<exists>e. ScheduleSend ''kitchen'' e \<in> set (trace v) \<and> reports EvWakeElectionResult (ex_session Listening) e)) (ex_busy Listening)"
  using replaced_winner_stands_down [of ex_replacing "ex_candidate ''kitchen'' ''s1''" "ex_candidate ''hall'' ''s2''"
      "ex_busy Listening" 1 0]
  by (simp add: ex_replacing_def ex_candidate_def runtime_for_endpoint_def runtime_live_def ex_busy_def ex_world_def
      ex_runtime_def Let_def)

section \<open>The clock\<close>

lemma wp_return_fun: "wp (ret a) Q = Q a"
  by (simp add: wp_return fun_eq_iff)

lemma wp_for_each_sofar:
  assumes "\<And>x D s. I D s \<Longrightarrow> wp (f x) (\<lambda>_ t. I (insert x D) t) s" "I D s"
  shows "wp (for_each f xs) (\<lambda>_ t. I (set xs \<union> D) t) s"
  using assms(2)
proof (induction xs arbitrary: D s)
  case (Cons x xs)
  have "wp (f x) (\<lambda>_ t. I (insert x D) t) s" by (rule assms(1) [OF Cons.prems])
  moreover have "set (x # xs) \<union> D = set xs \<union> insert x D" by auto
  ultimately show ?case
    unfolding for_each.simps wp_bind by (simp only:) (erule wp_mono, erule Cons.IH)
qed (simp add: wp_return)

definition in_time :: "instant \<Rightarrow> world \<Rightarrow> nat \<Rightarrow> bool" where
  \<comment> \<open>runtime \<open>r\<close> is down, or its active session is within its limits\<close>
  "in_time now w r \<longleftrightarrow> (rt_connection_active (rts w r) \<longrightarrow>
     (\<forall>i. rt_active_session (rts w r) = Some i \<longrightarrow> active_session_timeout_reason (env w) now (sess w i) = None))"

definition own_sessions :: "world \<Rightarrow> bool" where
  "own_sessions w \<longleftrightarrow> (\<forall>r r' i. rt_active_session (rts w r) = Some i \<longrightarrow> rt_active_session (rts w r') = Some i \<longrightarrow> r = r')"

lemma in_time_ctx [simp]: "own_sessions (w\<lparr>ctx := c\<rparr>) = own_sessions w" "in_time now (w\<lparr>ctx := c\<rparr>) r = in_time now w r"
  by (simp_all add: own_sessions_def in_time_def)

lemma ended_in_time:
  assumes "own_sessions w" "rt_active_session (rts w r) = Some i" "ended i reason (w\<lparr>ctx := r\<rparr>) u"
  shows "own_sessions u \<and> in_time now u r \<and> env u = env w \<and> (\<forall>r'. in_time now w r' \<longrightarrow> in_time now u r')"
proof -
  have e: "env u = env w" "\<And>j. j \<noteq> i \<Longrightarrow> sess u j = sess w j" "rt_active_session (rts u r) = None"
    using assms(3) by (simp_all add: ended_def closed_def idle_runtime_def)
  have m: "mild_step (rts w r') (rts u r')" if "r' \<noteq> r" for r'
    using assms(3) that by (simp add: ended_def closed_def others_calm_def)
  have o: "rt_active_session (rts u r') = (if r' = r then None else rt_active_session (rts w r'))" for r'
    using m [of r'] e(3) by (simp add: mild_step_def)
  have "own_sessions u" unfolding own_sessions_def o using assms(1) by (auto simp: own_sessions_def split: if_splits)
  moreover have "in_time now u r'" if "in_time now w r'" for r'
  proof (cases "r' = r")
    case True
    then show ?thesis by (simp add: in_time_def o)
  next
    case False
    have "rt_active_session (rts w r') \<noteq> Some i" using assms(1,2) False by (auto simp: own_sessions_def)
    then show ?thesis using that m [OF False] e(1,2) False by (auto simp: in_time_def o mild_step_def)
  qed
  moreover have "in_time now u r" by (simp add: in_time_def o)
  ultimately show ?thesis using e(1) by blast
qed

text \<open>C11. Looking for stale sessions ends every one of them: afterwards no registered connection that is
  up has an active session past the limit of its state. (An active session belongs to one connection,
  as in every state of a run.)\<close>

theorem stale_sessions_expire:
  assumes "own_sessions w" "now = e_clock (env w) (clock_reads w)"
  shows "wp expire_stale_active_sessions (\<lambda>_ v. \<forall>r \<in> insert 0 (snd ` set (endpoint_runtimes w)). in_time now v r) w"
proof -
  define body where "body = (\<lambda>r. do {
         v \<leftarrow> State_Monad.get;
         (case rt_active_session (rts v r) of
            None \<Rightarrow> ret ()
          | Some i \<Rightarrow>
              if \<not> rt_connection_active (rts v r) then ret ()
              else with_runtime r (
                case active_session_timeout_reason (env v) now (sess v i) of
                  None \<Rightarrow> ret ()
                | Some reason \<Rightarrow> do { cancel_timed_out_active_session reason; ret () })) })"
  define I where "I = (\<lambda>D v. own_sessions v \<and> (\<forall>r \<in> D. in_time now v r))"
  have step: "wp (body r) (\<lambda>_ t. I (insert r D) t) v" if I: "I D v" for r D v
  proof -
    have stay: "wp (body r) (\<lambda>_ t. I (insert r D) t) v" if "wp (body r) (\<lambda>_ t. t = v) v" "in_time now v r"
      by (rule wp_mono [OF that(1)]) (use I that(2) in \<open>auto simp: I_def\<close>)
    show ?thesis
    proof (cases "rt_active_session (rts v r)")
      case None
      then show ?thesis by (intro stay) (simp_all add: body_def wp_readers wp_return in_time_def)
    next
      case (Some i)
      show ?thesis
      proof (cases "rt_connection_active (rts v r) \<and> active_session_timeout_reason (env v) now (sess v i) \<noteq> None")
        case False
        then show ?thesis using Some
          by (intro stay) (auto simp: body_def wp_readers wp_return in_time_def wp_with_runtime)
      next
        case True
        then obtain reason where t: "active_session_timeout_reason (env v) now (sess v i) = Some reason" by auto
        have "wp (cancel_timed_out_active_session reason) (\<lambda>_ u. ended i reason (v\<lparr>ctx := r\<rparr>) u) (v\<lparr>ctx := r\<rparr>)"
          by (rule wp_mono [OF cancel_timed_out_ends [of _ i]]) (use Some in simp_all)
        then have "wp (cancel_timed_out_active_session reason) (\<lambda>_ u. I (insert r D) (u\<lparr>ctx := ctx v\<rparr>)) (v\<lparr>ctx := r\<rparr>)"
        proof (rule wp_mono)
          fix u
          assume "ended i reason (v\<lparr>ctx := r\<rparr>) u"
          from ended_in_time [OF _ Some this, of now] I show "I (insert r D) (u\<lparr>ctx := ctx v\<rparr>)" by (simp add: I_def)
        qed
        then show ?thesis using Some True t
          unfolding body_def wp_readers by (simp add: wp_with_runtime wp_bind wp_return_fun)
      qed
    qed
  qed
  let ?u = "w\<lparr>clock_reads := Suc (clock_reads w)\<rparr>" and ?rs = "map snd (endpoint_runtimes w) @ [0]"
  have "wp (for_each body ?rs) (\<lambda>_ t. I (set ?rs \<union> {}) t) ?u"
    by (rule wp_for_each_sofar [where I = I], rule step, assumption)
      (use assms(1) in \<open>simp add: I_def own_sessions_def\<close>)
  then have "wp (for_each body ?rs) (\<lambda>_ v. \<forall>r \<in> insert 0 (snd ` set (endpoint_runtimes w)). in_time now v r) ?u"
    by (rule wp_mono) (auto simp: I_def)
  then show ?thesis
    unfolding expire_stale_active_sessions_def wp_effects wp_readers assms(2) [symmetric] body_def [symmetric]
    by simp
qed

definition ex_stale :: world where
  "ex_stale = (ex_busy Capturing)\<lparr>env := ex_env\<lparr>e_clock := (\<lambda>_. 1700000100000000)\<rparr>\<rparr>"

theorem stale_sessions_expire_witness:
  "\<not> in_time 1700000100000000 ex_stale 1
   \<and> wp expire_stale_active_sessions (\<lambda>_ v. in_time 1700000100000000 v 1) ex_stale"
proof
  show "\<not> in_time 1700000100000000 ex_stale 1"
    by (simp add: in_time_def ex_stale_def ex_runtime_def active_session_timeout_reason_def seconds_between_def
        us_per_s_def ex_env_def Let_def)
  have o: "own_sessions ex_stale"
    by (simp add: own_sessions_def ex_stale_def ex_busy_def ex_world_def ex_runtime_def new_runtime_def)
  have n: "1700000100000000 = e_clock (env ex_stale) (clock_reads ex_stale)" by (simp add: ex_stale_def)
  show "wp expire_stale_active_sessions (\<lambda>_ v. in_time 1700000100000000 v 1) ex_stale"
    by (rule wp_mono [OF stale_sessions_expire [OF o n]]) (simp add: ex_stale_def ex_busy_def ex_world_def)
qed

end
