(* ===== verification/AdminMaintenance.thy ===== *)
theory AdminMaintenance
  imports PyText PyTime
begin

text \<open>
  Spoken administrative actions (\<open>persistence/voice_admin_maintenance.py\<close>): the settings
  the store keeps in its file, the decision on one request, the spoken passcode and its
  redaction, and the lock after three failed codes. The file is \<open>admin_state option\<close>
  (\<open>None\<close> before the first save); every operation returns it updated. The key
  derivation function of \<open>hashlib\<close> is the parameter \<open>kdf\<close>; the clock reads of one call
  give the one instant \<open>clk\<close>. The file holds what \<open>save\<close> wrote, so a stored hash has its
  four fields.
\<close>

section \<open>Settings and decisions\<close>

definition ADMIN_MAINTENANCE_INTENT_IDS :: "string list" where
  "ADMIN_MAINTENANCE_INTENT_IDS =
    [''admin.debug.start'', ''admin.debug.stop'', ''admin.enrollment.start'',
     ''admin.enrollment.cancel'', ''admin.placement.start_active'',
     ''admin.placement.start_passive_48h'', ''admin.placement.status'', ''admin.placement.stop'',
     ''admin.privacy.status'', ''admin.privacy.purge_debug_audio'', ''admin.voice.quality.status'',
     ''admin.speaker.enrollment.status'', ''admin.passcode.rotate'']"

definition PASSCODE_ITERATIONS :: int where "PASSCODE_ITERATIONS = 210000"
definition MIN_ADMIN_CONFIDENCE :: rat where "MIN_ADMIN_CONFIDENCE = 95 / 100"
definition MIN_ADMIN_SCORE_MARGIN :: rat where "MIN_ADMIN_SCORE_MARGIN = 15 / 100"
definition MAX_FAILED_ATTEMPTS :: int where "MAX_FAILED_ATTEMPTS = 3"
definition LOCKOUT_MINUTES :: int where "LOCKOUT_MINUTES = 5"

definition PASSCODE_WORDS :: "(string \<times> string) list" where
  "PASSCODE_WORDS =
    [(''zero'', ''0''), (''oh'', ''0''), (''one'', ''1''), (''two'', ''2''), (''three'', ''3''),
     (''four'', ''4''), (''for'', ''4''), (''five'', ''5''), (''six'', ''6''), (''seven'', ''7''),
     (''eight'', ''8''), (''ate'', ''8''), (''nine'', ''9'')]"

definition BAD_AUDIO_WARNINGS :: "string set" where
  "BAD_AUDIO_WARNINGS = {''silent'', ''missing_audio'', ''unsupported_audio'', ''clipped'',
     ''short_audio'', ''low_level'', ''low_snr''}"

record passcode_hash =
  ph_algorithm :: string
  ph_iterations :: int
  ph_salt :: string
  ph_digest :: string

record admin_state =
  ad_schema_version :: int
  ad_enabled :: bool
  ad_admin_speaker_public_ids :: "string list"
  ad_enabled_intents :: "(string \<times> bool) list"
  ad_passcode_hash :: "passcode_hash option"
  ad_failed_attempts :: int
  ad_locked_until :: "string option"
  ad_updated_at :: string

type_synonym admin_file = "admin_state option"

record admin_decision =
  dc_allowed :: bool
  dc_reason :: string
  dc_intent_id :: "string option"
  dc_locked_until :: "string option"

definition decision_metadata :: "admin_decision \<Rightarrow> dict" where
  "decision_metadata d =
    [(''schema_version'', PInt 1), (''allowed'', PBool (dc_allowed d)), (''reason'', PStr (dc_reason d)),
     (''intent_id'', ostr (dc_intent_id d)), (''locked_until'', ostr (dc_locked_until d))]"

definition admin_load :: "instant \<Rightarrow> admin_file \<Rightarrow> admin_state" where
  "admin_load clk file = (case file of
     Some st \<Rightarrow> st
   | None \<Rightarrow> \<lparr>ad_schema_version = 1, ad_enabled = False, ad_admin_speaker_public_ids = [],
       ad_enabled_intents = [], ad_passcode_hash = None, ad_failed_attempts = 0,
       ad_locked_until = None, ad_updated_at = isoformat clk\<rparr>)"

definition admin_save :: "instant \<Rightarrow> admin_state \<Rightarrow> admin_state" where
  "admin_save clk st = st\<lparr>ad_updated_at := isoformat clk\<rparr>"

section \<open>The spoken passcode\<close>

definition four_digits :: "string \<Rightarrow> bool" where
  "four_digits s \<longleftrightarrow> length s = 4 \<and> list_all is_digit s"

text \<open>
  The normalised text has only words of letters and digits, so a match of
  \<open>\b\d{4}\b\<close> is a word of four digits.
\<close>

definition token_digit :: "string \<Rightarrow> string" where
  "token_digit t = (case aget PASSCODE_WORDS t of
     Some d \<Rightarrow> d | None \<Rightarrow> if list_all is_digit t \<and> length t = 1 then t else [])"

fun spoken_code :: "string list \<Rightarrow> string option" where
  "spoken_code (a # b # c # d # ts) =
     (let code = concat (map token_digit [a, b, c, d]) in
      if four_digits code then Some code else spoken_code (b # c # d # ts))"
| "spoken_code _ = None"

definition extract_spoken_passcode :: "string \<Rightarrow> string option" where
  "extract_spoken_passcode text =
     (let normalized = phrase_norm text; tokens = words normalized; digits = filter four_digits tokens in
      if normalized = [] then None
      else if digits \<noteq> [] then Some (last digits) else spoken_code tokens)"

text \<open>\<open>\b\d(?:[\s-]*\d){3}\b\<close>: \<open>run_digits k n s\<close> still needs \<open>k\<close> digits.\<close>

fun run_digits :: "nat \<Rightarrow> nat \<Rightarrow> string \<Rightarrow> nat option" where
  "run_digits 0 n s = (if word_ahead s then None else Some n)"
| "run_digits (Suc k) n [] = None"
| "run_digits (Suc k) n (c # s) =
     (if is_digit c then run_digits k (Suc n) s
      else if is_space c \<or> c = CHR ''-'' then run_digits (Suc k) (Suc n) s else None)"

fun match_digits :: matcher where
  "match_digits prev [] = None"
| "match_digits prev (c # s) =
     (if is_digit c \<and> \<not> word_before prev then run_digits 3 1 s else None)"

text \<open>
  The pattern of four number words. None of them is a prefix of another, so at most one
  alternative can match; \<open>re.IGNORECASE\<close> compares lower-case text.
\<close>

definition number_words :: "string list" where
  "number_words = sort_key (\<lambda>w. - int (length w)) (map fst PASSCODE_WORDS)"

definition number_word :: "string \<Rightarrow> nat option" where
  "number_word s = map_option length
     (find (startswith (lower s)) number_words)"

fun run_number_words :: "nat \<Rightarrow> nat \<Rightarrow> string \<Rightarrow> nat option" where
  "run_number_words 0 n s = (if word_ahead s then None else Some n)"
| "run_number_words (Suc k) n s =
     (let sp = takeWhile is_space s; r = dropWhile is_space s in
      if sp = [] then None
      else (case number_word r of None \<Rightarrow> None
            | Some w \<Rightarrow> run_number_words k (n + length sp + w) (drop w r)))"

definition match_number_words :: matcher where
  "match_number_words prev s =
     (if word_before prev then None
      else (case number_word s of None \<Rightarrow> None | Some w \<Rightarrow> run_number_words 3 w (drop w s)))"

definition redact_spoken_passcodes :: "string \<Rightarrow> string" where
  "redact_spoken_passcodes text =
     re_sub match_number_words ''[passcode]'' (re_sub match_digits ''[passcode]'' text)"

definition normalize_passcode :: "string \<Rightarrow> string option" where
  "normalize_passcode value =
     (let digits = filter is_digit value in if length digits = 4 then Some digits else None)"

type_synonym kdf = "string \<Rightarrow> string \<Rightarrow> int \<Rightarrow> string"

definition verify_passcode :: "kdf \<Rightarrow> string \<Rightarrow> passcode_hash \<Rightarrow> bool" where
  "verify_passcode kdf passcode h \<longleftrightarrow>
     ph_algorithm h = ''pbkdf2_sha256'' \<and>
     kdf passcode (ph_salt h) (if ph_iterations h = 0 then PASSCODE_ITERATIONS else ph_iterations h) = ph_digest h"

section \<open>Operations of the store\<close>

definition normalized_enabled_intents :: "(string \<times> bool) list \<Rightarrow> (string \<times> bool) list" where
  "normalized_enabled_intents raw =
     map (\<lambda>i. (i, aget raw i = Some True)) ADMIN_MAINTENANCE_INTENT_IDS"

definition parse_dt :: "string \<Rightarrow> instant option" where
  "parse_dt value = (if strip value = [] then None else parse_utc (replace_z value))"

definition clear_expired_lockout ::
    "instant \<Rightarrow> instant option \<Rightarrow> admin_state \<Rightarrow> admin_file \<Rightarrow> admin_state \<times> admin_file" where
  "clear_expired_lockout clk now st file =
     (let t = (case now of None \<Rightarrow> clk | Some n \<Rightarrow> n);
          cleared = admin_save clk (st\<lparr>ad_locked_until := None, ad_failed_attempts := 0\<rparr>) in
      case ad_locked_until st of
        None \<Rightarrow> (st, file)
      | Some s \<Rightarrow>
          if s = [] then (st, file)
          else (case parse_dt s of
              Some u \<Rightarrow> if t < u then (st, file) else (cleared, Some cleared)
            | None \<Rightarrow> (cleared, Some cleared)))"

definition speaker_rejection_reason :: "(pv \<Rightarrow> string) \<Rightarrow> dict option \<Rightarrow> string list \<Rightarrow> string option" where
  "speaker_rejection_reason rp speaker admin_ids =
     (case speaker of None \<Rightarrow> Some ''admin_speaker_missing''
      | Some sp \<Rightarrow>
        let speaker_id = strip (py_str rp (py_or (dget sp ''speaker_public_id'') (PStr []))) in
        if sp = [] then Some ''admin_speaker_missing''
        else if dget sp ''status'' \<notin> {PStr ''identified'', PStr ''verified''}
          then Some ''admin_speaker_not_identified''
        else if speaker_id = [] \<or> speaker_id \<notin> set admin_ids then Some ''admin_speaker_not_configured''
        else if dget sp ''admin_eligible'' \<noteq> PBool True then Some ''admin_speaker_not_eligible''
        else (case num_of (dget sp ''confidence'') of
            None \<Rightarrow> Some ''admin_speaker_confidence_too_low''
          | Some confidence \<Rightarrow>
            if confidence < MIN_ADMIN_CONFIDENCE then Some ''admin_speaker_confidence_too_low''
            else (case num_of (dget sp ''score_margin'') of
                None \<Rightarrow> Some ''admin_speaker_margin_too_low''
              | Some margin \<Rightarrow>
                if margin < MIN_ADMIN_SCORE_MARGIN then Some ''admin_speaker_margin_too_low'' else None)))"

definition audio_rejection_reason :: "(pv \<Rightarrow> string) \<Rightarrow> dict option \<Rightarrow> string option" where
  "audio_rejection_reason rp quality =
     (case quality of None \<Rightarrow> Some ''admin_audio_quality_missing''
      | Some q \<Rightarrow>
        if q = [] then Some ''admin_audio_quality_missing''
        else (case sort (filter (\<lambda>w. w \<in> BAD_AUDIO_WARNINGS) (map (py_str rp) (list_of (dget q ''warnings'')))) of
            [] \<Rightarrow> None | w # _ \<Rightarrow> Some (''admin_audio_quality_'' @ w)))"

record admin_request =
  rq_text :: string
  rq_intent_id :: "string option"
  rq_speaker_identity :: "dict option"
  rq_audio_quality :: "dict option"

text \<open>The checks of \<open>evaluate\<close> that come before the passcode.\<close>

definition refusal :: "(pv \<Rightarrow> string) \<Rightarrow> admin_state \<Rightarrow> admin_request \<Rightarrow> admin_decision option" where
  "refusal rp st rq =
     (let intent = strip (str_or (rq_intent_id rq) []);
          deny = (\<lambda>reason. Some \<lparr>dc_allowed = False, dc_reason = reason, dc_intent_id = Some intent,
                    dc_locked_until = None\<rparr>) in
      if \<not> ad_enabled st then deny ''admin_maintenance_disabled''
      else if intent \<notin> set ADMIN_MAINTENANCE_INTENT_IDS then deny ''admin_intent_unknown''
      else if aget (normalized_enabled_intents (ad_enabled_intents st)) intent \<noteq> Some True
        then deny ''admin_intent_disabled''
      else if str_or (ad_locked_until st) [] \<noteq> []
        then Some \<lparr>dc_allowed = False, dc_reason = ''admin_maintenance_locked'', dc_intent_id = Some intent,
               dc_locked_until = ad_locked_until st\<rparr>
      else if ad_passcode_hash st = None then deny ''admin_passcode_not_configured''
      else (case speaker_rejection_reason rp (rq_speaker_identity rq) (ad_admin_speaker_public_ids st) of
          Some reason \<Rightarrow> deny reason
        | None \<Rightarrow> (case audio_rejection_reason rp (rq_audio_quality rq) of
              Some reason \<Rightarrow> deny reason | None \<Rightarrow> None)))"

definition failed_passcode ::
    "instant \<Rightarrow> instant \<Rightarrow> admin_state \<Rightarrow> string \<Rightarrow> string \<Rightarrow> admin_decision \<times> admin_file" where
  "failed_passcode clk now st intent reason =
     (let failed = ad_failed_attempts st + 1;
          locked = (if MAX_FAILED_ATTEMPTS \<le> failed
                    then Some (isoformat (now + LOCKOUT_MINUTES * 60 * us_per_s)) else None) in
      (\<lparr>dc_allowed = False, dc_reason = (if locked = None then reason else ''admin_maintenance_locked''),
         dc_intent_id = Some intent, dc_locked_until = locked\<rparr>,
       Some (admin_save clk (st\<lparr>ad_failed_attempts := failed, ad_locked_until := locked\<rparr>))))"

definition admin_evaluate :: "kdf \<Rightarrow> (pv \<Rightarrow> string) \<Rightarrow> instant \<Rightarrow> instant option \<Rightarrow> admin_request \<Rightarrow> admin_file
    \<Rightarrow> admin_decision \<times> admin_file" where
  "admin_evaluate kdf rp clk now rq file =
     (let (st, file1) = clear_expired_lockout clk now (admin_load clk file) file;
          now_dt = (case now of None \<Rightarrow> clk | Some n \<Rightarrow> n);
          intent = strip (str_or (rq_intent_id rq) []) in
      case refusal rp st rq of
        Some d \<Rightarrow> (d, file1)
      | None \<Rightarrow>
        (case extract_spoken_passcode (rq_text rq) of
           None \<Rightarrow> failed_passcode clk now_dt st intent ''admin_passcode_missing''
         | Some passcode \<Rightarrow>
           if \<not> (case ad_passcode_hash st of None \<Rightarrow> False | Some h \<Rightarrow> verify_passcode kdf passcode h)
           then failed_passcode clk now_dt st intent ''admin_passcode_wrong''
           else (\<lparr>dc_allowed = True, dc_reason = ''admin_maintenance_allowed'', dc_intent_id = Some intent,
                    dc_locked_until = None\<rparr>,
                 if ad_failed_attempts st \<noteq> 0
                 then Some (admin_save clk (st\<lparr>ad_failed_attempts := 0, ad_locked_until := None\<rparr>))
                 else file1)))"

definition admin_status :: "string \<Rightarrow> instant \<Rightarrow> admin_file \<Rightarrow> dict \<times> admin_file" where
  "admin_status path clk file =
     (let (st, file1) = clear_expired_lockout clk None (admin_load clk file) file in
      ([(''schema_version'', PInt (ad_schema_version st)), (''enabled'', PBool (ad_enabled st)),
        (''admin_speaker_public_ids'', PList (map PStr (ad_admin_speaker_public_ids st))),
        (''enabled_intents'', PDict (map (\<lambda>(i, b). (i, PBool b))
           (normalized_enabled_intents (ad_enabled_intents st)))),
        (''passcode_configured'', PBool (ad_passcode_hash st \<noteq> None)),
        (''passcode_storage'', if ad_passcode_hash st \<noteq> None then PStr ''pbkdf2_sha256'' else PNone),
        (''failed_attempts'', PInt (ad_failed_attempts st)),
        (''locked'', PBool (str_or (ad_locked_until st) [] \<noteq> [])),
        (''locked_until'', ostr (ad_locked_until st)), (''path'', PStr path),
        (''updated_at'', PStr (ad_updated_at st))], file1))"

definition update_settings ::
    "string \<Rightarrow> instant \<Rightarrow> bool option \<Rightarrow> string list option \<Rightarrow> (string \<times> bool) list option \<Rightarrow> admin_file
     \<Rightarrow> dict \<times> admin_file" where
  "update_settings path clk enabled ids intents file =
     (let (st, _) = clear_expired_lockout clk None (admin_load clk file) file;
          st1 = (case enabled of None \<Rightarrow> st | Some b \<Rightarrow> st\<lparr>ad_enabled := b\<rparr>);
          st2 = (case ids of None \<Rightarrow> st1 | Some xs \<Rightarrow>
             st1\<lparr>ad_admin_speaker_public_ids := sort (remdups (filter (\<lambda>x. x \<noteq> []) (map strip xs)))\<rparr>);
          st3 = (case intents of None \<Rightarrow> st2 | Some d \<Rightarrow> st2\<lparr>ad_enabled_intents := normalized_enabled_intents d\<rparr>) in
      admin_status path clk (Some (admin_save clk st3)))"

text \<open>\<open>set_passcode\<close> raises a \<open>ValueError\<close>: the left side of the sum.\<close>

definition set_passcode ::
    "kdf \<Rightarrow> string \<Rightarrow> instant \<Rightarrow> string \<Rightarrow> string \<Rightarrow> admin_file \<Rightarrow> string + (dict \<times> admin_file)" where
  "set_passcode kdf path clk salt passcode file =
     (case normalize_passcode passcode of
        None \<Rightarrow> Inl ''passcode_must_be_four_digits''
      | Some normalized \<Rightarrow>
        let (st, _) = clear_expired_lockout clk None (admin_load clk file) file;
            h = \<lparr>ph_algorithm = ''pbkdf2_sha256'', ph_iterations = PASSCODE_ITERATIONS, ph_salt = salt,
                 ph_digest = kdf normalized salt PASSCODE_ITERATIONS\<rparr> in
        Inr (admin_status path clk (Some (admin_save clk
          (st\<lparr>ad_passcode_hash := Some h, ad_failed_attempts := 0, ad_locked_until := None\<rparr>)))))"

section \<open>Redaction\<close>

lemma run_digits_match:
  "run_digits k n s = Some l \<Longrightarrow> \<exists>j. l = n + j \<and> j \<le> length s \<and> (k = 0 \<longleftrightarrow> j = 0) \<and> (0 < j \<longrightarrow> is_digit (s ! (j - 1)))
     \<and> \<not> word_ahead (drop j s) \<and> (\<forall>c \<in> set (take j s). is_digit c \<or> is_space c \<or> c = CHR ''-'')
     \<and> (\<forall>t n'. take j t = take j s \<longrightarrow> \<not> word_ahead (drop j t) \<longrightarrow> run_digits k n' t = Some (n' + j))"
proof (induction k n s rule: run_digits.induct)
  case (1 n s)
  then show ?case by (intro exI [of _ 0]) (auto split: if_splits)
next
  case (3 k n c s)
  have step: "\<exists>j. l = Suc n + j \<and> j \<le> length s \<and> (0 < j \<longrightarrow> is_digit (s ! (j - 1))) \<and> (j = 0 \<longrightarrow> is_digit c)
     \<and> \<not> word_ahead (drop j s) \<and> (\<forall>d \<in> set (take j s). is_digit d \<or> is_space d \<or> d = CHR ''-'')
     \<and> (is_digit c \<or> is_space c \<or> c = CHR ''-'')
     \<and> (\<forall>t n'. take j t = take j s \<longrightarrow> \<not> word_ahead (drop j t) \<longrightarrow> run_digits (Suc k) n' (c # t) = Some (Suc n' + j))"
  proof (cases "is_digit c")
    case True
    with 3 show ?thesis by (auto 0 4)
  next
    case False
    with "3.prems" have sep: "is_space c \<or> c = CHR ''-''" by (auto split: if_splits)
    with False "3.prems" have "run_digits (Suc k) (Suc n) s = Some l" by simp
    with "3.IH"(2) [OF False sep] show ?thesis using False sep by (auto 0 4)
  qed
  then obtain j where j: "l = Suc n + j" "j \<le> length s" "0 < j \<longrightarrow> is_digit (s ! (j - 1))" "j = 0 \<longrightarrow> is_digit c"
     "\<not> word_ahead (drop j s)" "\<forall>d \<in> set (take j s). is_digit d \<or> is_space d \<or> d = CHR ''-''"
     "is_digit c \<or> is_space c \<or> c = CHR ''-''"
     "\<forall>t n'. take j t = take j s \<longrightarrow> \<not> word_ahead (drop j t) \<longrightarrow> run_digits (Suc k) n' (c # t) = Some (Suc n' + j)"
    by blast
  have "run_digits (Suc k) n' t = Some (n' + Suc j)"
    if "take (Suc j) t = take (Suc j) (c # s)" "\<not> word_ahead (drop (Suc j) t)" for t n'
    using that j(8) by (cases t) auto
  with j show ?case by (intro exI [of _ "Suc j"]) (auto simp: nth_Cons split: nat.splits)
qed simp

interpretation digits: whole_word_pattern match_digits
proof
  fix prev s n assume m: "match_digits prev s = Some n"
  then obtain c r where s: "s = c # r" "is_digit c" "\<not> word_before prev" "run_digits 3 1 r = Some n"
    by (cases s) (auto split: if_splits)
  from run_digits_match [OF s(4)] obtain j where j: "n = Suc j" "j \<le> length r" "0 < j" "is_digit (r ! (j - 1))"
    "\<not> word_ahead (drop j r)" "\<forall>c \<in> set (take j r). is_digit c \<or> is_space c \<or> c = CHR ''-''"
    "\<And>t. take j t = take j r \<Longrightarrow> \<not> word_ahead (drop j t) \<Longrightarrow> run_digits 3 1 t = Some (1 + j)"
    by auto
  show "\<not> word_before prev \<and> word_ahead s" using s by (simp add: word_ahead_def)
  show "0 < n \<and> n \<le> length s \<and> is_word (s ! (n - 1)) \<and> \<not> word_ahead (drop n s)"
    using s j by (simp add: nth_Cons')
  show "CHR ''['' \<notin> set (take n s) \<and> CHR '']'' \<notin> set (take n s)"
    using s j(1,6) by (auto simp: is_digit_def is_space_def)
  fix prev' t assume "\<not> word_before prev'" "\<not> word_ahead (drop n t)" "take n t = take n s"
  with s j(1,7) show "match_digits prev' t = Some n" by (cases t) auto
qed

text \<open>Number words are letters, and none of them begins with another.\<close>

lemma number_words_letters: "list_all (\<lambda>w. w \<noteq> [] \<and> list_all (\<lambda>c. lower_char c = c \<and> \<not> is_digit c \<and> is_word c) w) number_words"
  by code_simp

lemma number_words_prefix_free: "list_all (\<lambda>v. list_all (\<lambda>w. \<not> startswith v w \<or> v = w) number_words) number_words"
  by code_simp

lemma startswith_take: "startswith s w \<longleftrightarrow> take (length w) s = w" by (simp add: startswith_def)

lemma number_word_eq: "number_word s = Some n \<longleftrightarrow> (\<exists>w \<in> set number_words. startswith (lower s) w \<and> length w = n)"
proof
  assume "number_word s = Some n"
  then show "\<exists>w \<in> set number_words. startswith (lower s) w \<and> length w = n"
    by (auto simp: number_word_def find_Some_iff)
next
  assume "\<exists>w \<in> set number_words. startswith (lower s) w \<and> length w = n"
  then obtain w where w: "w \<in> set number_words" "startswith (lower s) w" "length w = n" by blast
  then obtain v where v: "find (startswith (lower s)) number_words = Some v"
    by (cases "find (startswith (lower s)) number_words") (auto simp: find_None_iff)
  then have v': "v \<in> set number_words" "startswith (lower s) v" by (auto simp: find_Some_iff)
  have "startswith v w \<or> startswith w v"
    using w(2) v'(2) unfolding startswith_def
    by (metis linorder_le_cases min_def take_take)
  then have "v = w" using number_words_prefix_free w(1) v'(1) by (auto simp: list_all_iff)
  with v w show "number_word s = Some n" by (simp add: number_word_def)
qed

lemma number_word_chars:
  assumes "number_word s = Some n"
  shows "0 < n" "n \<le> length s" "list_all is_word (take n s)"
    "take n t = take n s \<Longrightarrow> number_word t = Some n"
proof -
  from assms obtain w where w: "w \<in> set number_words" "take n (lower s) = w" "length w = n"
    unfolding number_word_eq startswith_def by blast
  with number_words_letters have l: "w \<noteq> []" "list_all (\<lambda>c. \<not> is_digit c \<and> is_word c) w"
    by (auto simp: list_all_iff)
  show "0 < n" using w l by auto
  show "n \<le> length s" using w by (auto simp: lower_def)
  have "is_word c" if "\<not> is_digit (lower_char c)" "is_word (lower_char c)" for c
    using that by (auto simp: is_word_def is_digit_def lower_char_def split: if_splits)
  with l(2) w(2) show "list_all is_word (take n s)" by (auto simp: lower_def take_map list_all_iff)
  show "number_word t = Some n" if "take n t = take n s"
  proof -
    have "take n (lower t) = take n (lower s)" using that by (simp add: lower_def take_map)
    with w show ?thesis by (intro number_word_eq [THEN iffD2] bexI [of _ w]) (simp_all add: startswith_def)
  qed
qed

lemma run_number_words_match:
  "run_number_words k n s = Some l \<Longrightarrow> \<exists>j. l = n + j \<and> j \<le> length s \<and> (0 < j \<longrightarrow> is_word (s ! (j - 1)))
     \<and> (0 < k \<longrightarrow> 0 < j) \<and> \<not> word_ahead (drop j s) \<and> list_all (\<lambda>c. is_word c \<or> is_space c) (take j s)
     \<and> (\<forall>t n'. take j t = take j s \<longrightarrow> \<not> word_ahead (drop j t) \<longrightarrow> run_number_words k n' t = Some (n' + j))"
proof (induction k arbitrary: n s)
  case 0
  then show ?case by (intro exI [of _ 0]) (auto split: if_splits)
next
  case (Suc k)
  define a where "a = length (takeWhile is_space s)"
  from Suc.prems obtain w where sp: "takeWhile is_space s \<noteq> []"
    and w: "number_word (dropWhile is_space s) = Some w"
    and r: "run_number_words k (n + a + w) (drop w (dropWhile is_space s)) = Some l"
    by (auto simp: Let_def a_def split: if_splits option.splits)
  define r where "r = dropWhile is_space s"
  have s: "s = takeWhile is_space s @ r" by (simp add: r_def)
  note wc = number_word_chars [OF w [folded r_def]]
  from Suc.IH [OF r [folded r_def]] obtain j where j: "l = n + a + w + j" "j \<le> length (drop w r)"
    "0 < j \<longrightarrow> is_word (drop w r ! (j - 1))" "\<not> word_ahead (drop j (drop w r))"
    "list_all (\<lambda>c. is_word c \<or> is_space c) (take j (drop w r))"
    "\<And>t n'. take j t = take j (drop w r) \<Longrightarrow> \<not> word_ahead (drop j t) \<Longrightarrow> run_number_words k n' t = Some (n' + j)"
    by blast
  let ?j = "a + w + j"
  have dr: "drop (a + i) s = drop i r" for i using s by (metis a_def append_eq_conv_conj drop_drop add.commute)
  have split: "take ?j s = takeWhile is_space s @ take w r @ take j (drop w r)"
    using s by (metis a_def take_add append_eq_conv_conj take_append length_append append.assoc add.assoc dr drop_0 add_0_right)
  have len: "length s = a + length r" using s by (metis a_def length_append)
  have nth: "s ! (a + i) = r ! i" for i
    by (subst s) (simp add: a_def nth_append_length_plus)
  have last: "is_word (s ! (?j - 1))"
  proof (cases "j = 0")
    case True
    with wc(1) have e: "?j - 1 = a + (w - 1)" by simp
    have "w - 1 < length (take w r)" using wc(1,2) by simp
    then have "is_word (take w r ! (w - 1))" using wc(3) by (simp only: list_all_length)
    with wc(1) show ?thesis unfolding e nth by simp
  next
    case False
    then have e: "?j - 1 = a + (w + (j - 1))" by simp
    from False j(3) wc(2) show ?thesis unfolding e nth by simp
  qed
  have other: "run_number_words (Suc k) n' t = Some (n' + ?j)"
    if t: "take ?j t = take ?j s" "\<not> word_ahead (drop ?j t)" for t n'
  proof -
    define u where "u = take w r @ take j (drop w r) @ drop ?j t"
    have tu: "t = takeWhile is_space s @ u" using t(1) split by (metis u_def append_take_drop_id append.assoc)
    have "\<not> is_space (hd u)" "u \<noteq> []"
    proof -
      from wc(1,2) obtain c x where "take w r = c # x" by (cases "take w r") auto
      moreover from this wc(3) have "is_word c" by simp
      then have "\<not> is_space c" by (auto simp: is_word_def is_digit_def is_space_def)
      ultimately show "\<not> is_space (hd u)" "u \<noteq> []" by (simp_all add: u_def)
    qed
    then have "takeWhile is_space u = []" "dropWhile is_space u = u" by (cases u; simp)+
    then have ws: "takeWhile is_space t = takeWhile is_space s" "dropWhile is_space t = u"
      using takeWhile_append2 [of "takeWhile is_space s" is_space u] dropWhile_append2 [of "takeWhile is_space s" is_space u]
      by (auto simp: tu [symmetric] dest: set_takeWhileD)
    have "take w u = take w r" using wc(2) by (simp add: u_def)
    from wc(4) [OF this] have nu: "number_word u = Some w" .
    have du: "drop w u = take j (drop w r) @ drop ?j t" using wc(2) by (simp add: u_def)
    have "run_number_words k (n' + a + w) (drop w u) = Some (n' + a + w + j)"
      using j(2) t(2) by (intro j(6)) (simp_all add: du)
    then show ?thesis using sp by (simp add: ws nu Let_def a_def add.assoc)
  qed
  have "list_all (\<lambda>c. is_word c \<or> is_space c) (takeWhile is_space s)" by (auto simp: list_all_iff dest: set_takeWhileD)
  then have "list_all (\<lambda>c. is_word c \<or> is_space c) (take ?j s)"
    unfolding split using wc(3) j(5) by (auto simp: list_all_iff)
  moreover have "drop ?j s = drop j (drop w r)" using dr [of "w + j"] by (simp add: ac_simps)
  then have "\<not> word_ahead (drop ?j s)" using j(4) by simp
  moreover have "l = n + ?j" "?j \<le> length s" "0 < ?j" using j(1,2) len wc(1,2) by simp_all
  ultimately show ?case using last other by blast
qed

interpretation number_words: whole_word_pattern match_number_words
proof
  fix prev s n assume m: "match_number_words prev s = Some n"
  then obtain w where w: "\<not> word_before prev" "number_word s = Some w" "run_number_words 3 w (drop w s) = Some n"
    by (auto simp: match_number_words_def split: if_splits option.splits)
  note wc = number_word_chars [OF w(2)]
  from run_number_words_match [OF w(3)] obtain j where j: "n = w + j" "j \<le> length (drop w s)"
    "is_word (drop w s ! (j - 1))" "0 < j" "\<not> word_ahead (drop j (drop w s))"
    "list_all (\<lambda>c. is_word c \<or> is_space c) (take j (drop w s))"
    "\<And>t. take j t = take j (drop w s) \<Longrightarrow> \<not> word_ahead (drop j t) \<Longrightarrow> run_number_words 3 w t = Some (w + j)"
    by auto
  have split: "take n s = take w s @ take j (drop w s)" by (simp add: j(1) take_add)
  show "\<not> word_before prev \<and> word_ahead s"
    using w(1) wc(1-3) by (cases s; cases w) (auto simp: word_ahead_def)
  show "0 < n \<and> n \<le> length s \<and> is_word (s ! (n - 1)) \<and> \<not> word_ahead (drop n s)"
    using j(1-5) wc(1,2) by (auto simp: add.commute)
  have "list_all (\<lambda>c. is_word c \<or> is_space c) (take n s)"
    unfolding split using wc(3) j(6) by (auto simp: list_all_iff)
  then show "CHR ''['' \<notin> set (take n s) \<and> CHR '']'' \<notin> set (take n s)"
    by (auto simp: list_all_iff is_word_def is_digit_def is_space_def)
  fix prev' t assume t: "\<not> word_before prev'" "\<not> word_ahead (drop n t)" "take n t = take n s"
  then have "take w t = take w s" "take j (drop w t) = take j (drop w s)"
    by (metis j(1) take_take min.absorb1 le_add1, metis j(1) drop_take diff_add_inverse)
  with wc(4) j(1) j(7) [of "drop w t"] t(1,2) show "match_number_words prev' t = Some n"
    by (simp add: match_number_words_def add.commute)
qed

interpretation dd: two_patterns match_digits match_digits "''[passcode]''" "''passcode''"
  by unfold_locales (simp, code_simp)

interpretation ww: two_patterns match_number_words match_number_words "''[passcode]''" "''passcode''"
  by unfold_locales (simp, code_simp)

interpretation wd: two_patterns match_number_words match_digits "''[passcode]''" "''passcode''"
  by unfold_locales (simp, code_simp)

text \<open>Redacted text contains neither of the two forms of a spoken code.\<close>

lemma redacted_clean:
  "no_match match_digits None (redact_spoken_passcodes text) \<and> no_match match_number_words None (redact_spoken_passcodes text)"
proof
  have "no_match match_digits None (re_sub match_digits ''[passcode]'' text)"
    by (rule dd.re_sub_clean) simp
  then show "no_match match_digits None (redact_spoken_passcodes text)"
    unfolding redact_spoken_passcodes_def by (intro wd.re_sub_clean) simp
  show "no_match match_number_words None (redact_spoken_passcodes text)"
    unfolding redact_spoken_passcodes_def by (rule ww.re_sub_clean) simp
qed

section \<open>Who may act\<close>

text \<open>A stored lock holds at \<open>t\<close> while the time in it lies ahead; a time that cannot be read does not lock.\<close>

definition locked_at :: "instant \<Rightarrow> admin_state \<Rightarrow> bool" where
  "locked_at t st \<longleftrightarrow> (case ad_locked_until st of None \<Rightarrow> False
     | Some s \<Rightarrow> s \<noteq> [] \<and> (case parse_dt s of None \<Rightarrow> False | Some u \<Rightarrow> t < u))"

definition lock_text :: "admin_state \<Rightarrow> bool" where
  "lock_text st \<longleftrightarrow> str_or (ad_locked_until st) [] \<noteq> []"

definition call_time :: "instant \<Rightarrow> instant option \<Rightarrow> instant" where
  "call_time clk now = (case now of None \<Rightarrow> clk | Some n \<Rightarrow> n)"

lemma locked_has_text: "locked_at t st \<Longrightarrow> lock_text st"
  by (auto simp: locked_at_def lock_text_def str_or_def split: option.splits)

lemma clear_keeps:
  "locked_at (call_time clk now) st \<or> \<not> lock_text st \<Longrightarrow> clear_expired_lockout clk now st file = (st, file)"
  by (auto simp: clear_expired_lockout_def locked_at_def lock_text_def call_time_def str_or_def Let_def
      split: option.splits if_splits)

lemma clear_clears:
  assumes "\<not> locked_at (call_time clk now) st" "lock_text st"
  shows "clear_expired_lockout clk now st file =
    (let c = admin_save clk (st\<lparr>ad_locked_until := None, ad_failed_attempts := 0\<rparr>) in (c, Some c))"
  using assms
  by (auto simp: clear_expired_lockout_def locked_at_def lock_text_def call_time_def str_or_def Let_def
      split: option.splits if_splits)

lemma clear_state:
  assumes "clear_expired_lockout clk now st file = (st', file')"
  shows "ad_enabled st' = ad_enabled st" "ad_enabled_intents st' = ad_enabled_intents st"
    "ad_admin_speaker_public_ids st' = ad_admin_speaker_public_ids st"
    "ad_passcode_hash st' = ad_passcode_hash st"
    "lock_text st' \<longleftrightarrow> locked_at (call_time clk now) st"
proof -
  have "ad_enabled st' = ad_enabled st \<and> ad_enabled_intents st' = ad_enabled_intents st \<and>
      ad_admin_speaker_public_ids st' = ad_admin_speaker_public_ids st \<and>
      ad_passcode_hash st' = ad_passcode_hash st \<and> (lock_text st' \<longleftrightarrow> locked_at (call_time clk now) st)"
  proof (cases "locked_at (call_time clk now) st \<or> \<not> lock_text st")
    case True
    with assms show ?thesis using locked_has_text by (auto simp: clear_keeps)
  next
    case False
    with assms show ?thesis by (auto simp: clear_clears Let_def admin_save_def lock_text_def str_or_def)
  qed
  then show "ad_enabled st' = ad_enabled st" "ad_enabled_intents st' = ad_enabled_intents st"
    "ad_admin_speaker_public_ids st' = ad_admin_speaker_public_ids st"
    "ad_passcode_hash st' = ad_passcode_hash st"
    "lock_text st' \<longleftrightarrow> locked_at (call_time clk now) st" by blast+
qed

text \<open>The speaker and the audio an administrative action needs.\<close>

definition admin_speaker :: "(pv \<Rightarrow> string) \<Rightarrow> string list \<Rightarrow> dict option \<Rightarrow> bool" where
  "admin_speaker rp ids speaker \<longleftrightarrow> (case speaker of None \<Rightarrow> False | Some sp \<Rightarrow>
     dget sp ''status'' \<in> {PStr ''identified'', PStr ''verified''} \<and>
     strip (py_str rp (py_or (dget sp ''speaker_public_id'') (PStr []))) \<in> set ids - {[]} \<and>
     dget sp ''admin_eligible'' = PBool True \<and>
     (case num_of (dget sp ''confidence'') of None \<Rightarrow> False | Some c \<Rightarrow> 95 / 100 \<le> c) \<and>
     (case num_of (dget sp ''score_margin'') of None \<Rightarrow> False | Some m \<Rightarrow> 15 / 100 \<le> m))"

definition usable_audio :: "(pv \<Rightarrow> string) \<Rightarrow> dict option \<Rightarrow> bool" where
  "usable_audio rp quality \<longleftrightarrow> (case quality of None \<Rightarrow> False | Some q \<Rightarrow>
     q \<noteq> [] \<and> BAD_AUDIO_WARNINGS \<inter> py_str rp ` set (list_of (dget q ''warnings'')) = {})"

lemma speaker_accepted: "speaker_rejection_reason rp sp ids = None \<longleftrightarrow> admin_speaker rp ids sp"
proof (cases sp)
  case (Some d)
  show ?thesis
  proof (cases "d = []")
    case True
    with Some show ?thesis by (simp add: speaker_rejection_reason_def admin_speaker_def Let_def dget_def)
  next
    case False
    with Some show ?thesis
      by (cases "num_of (dget d ''confidence'')"; cases "num_of (dget d ''score_margin'')")
        (simp_all add: speaker_rejection_reason_def admin_speaker_def MIN_ADMIN_CONFIDENCE_def
          MIN_ADMIN_SCORE_MARGIN_def Let_def not_less)
  qed
qed (simp add: speaker_rejection_reason_def admin_speaker_def)

lemma audio_accepted: "audio_rejection_reason rp q = None \<longleftrightarrow> usable_audio rp q"
proof -
  have *: "(case sort xs of [] \<Rightarrow> None | w # _ \<Rightarrow> Some (f w)) = None \<longleftrightarrow> set xs = {}"
    for xs :: "string list" and f :: "string \<Rightarrow> string"
  proof -
    have "(case ys of [] \<Rightarrow> None | w # _ \<Rightarrow> Some (f w)) = None \<longleftrightarrow> set ys = {}" for ys
      by (cases ys) simp_all
    from this [of "sort xs"] show ?thesis unfolding set_sort .
  qed
  show ?thesis
  proof (cases q)
    case (Some d)
    define ws where "ws = map (py_str rp) (list_of (dget d ''warnings''))"
    have "set (filter (\<lambda>w. w \<in> BAD_AUDIO_WARNINGS) ws) = {} \<longleftrightarrow> BAD_AUDIO_WARNINGS \<inter> set ws = {}" by auto
    with * [where xs = "filter (\<lambda>w. w \<in> BAD_AUDIO_WARNINGS) ws" and f = "\<lambda>w. ''admin_audio_quality_'' @ w"] Some
    show ?thesis
      by (cases "d = []")
        (simp_all only: audio_rejection_reason_def usable_audio_def option.case ws_def [symmetric]
          set_map [symmetric] if_True if_False option.distinct HOL.simp_thms)
  qed (simp add: audio_rejection_reason_def usable_audio_def)
qed

lemma enabled_intent: "aget (normalized_enabled_intents raw) i = Some True \<longleftrightarrow>
    i \<in> set ADMIN_MAINTENANCE_INTENT_IDS \<and> aget raw i = Some True"
proof -
  have "aget (map (\<lambda>i. (i, aget raw i = Some True)) xs) i =
      (if i \<in> set xs then Some (aget raw i = Some True) else None)" for xs
    by (induction xs) auto
  then show ?thesis by (auto simp: normalized_enabled_intents_def)
qed

lemma not_refused: "refusal rp st rq = None \<longleftrightarrow>
    ad_enabled st \<and> strip (str_or (rq_intent_id rq) []) \<in> set ADMIN_MAINTENANCE_INTENT_IDS
    \<and> aget (ad_enabled_intents st) (strip (str_or (rq_intent_id rq) [])) = Some True
    \<and> \<not> lock_text st \<and> ad_passcode_hash st \<noteq> None
    \<and> admin_speaker rp (ad_admin_speaker_public_ids st) (rq_speaker_identity rq)
    \<and> usable_audio rp (rq_audio_quality rq)"
  unfolding speaker_accepted [symmetric] audio_accepted [symmetric] lock_text_def
  by (auto simp: refusal_def Let_def enabled_intent split: option.splits)

lemma refusal_denies: "refusal rp st rq = Some d \<Longrightarrow> \<not> dc_allowed d"
  by (auto simp: refusal_def Let_def split: if_splits option.splits)

text \<open>C15. An administrative action is allowed exactly when maintenance is on, the intent is known
  and switched on, no lock holds, the speaker is identified as one of the configured
  administrators, is eligible and was recognised with confidence and margin above the two
  thresholds, the audio has none of the disqualifying warnings, and the words contain the passcode.\<close>

theorem admin_allowed_iff:
  "dc_allowed (fst (admin_evaluate kdf rp clk now rq file)) \<longleftrightarrow>
   (let st = admin_load clk file; intent = strip (str_or (rq_intent_id rq) []) in
     ad_enabled st \<and> intent \<in> set ADMIN_MAINTENANCE_INTENT_IDS
     \<and> aget (ad_enabled_intents st) intent = Some True
     \<and> \<not> locked_at (call_time clk now) st
     \<and> admin_speaker rp (ad_admin_speaker_public_ids st) (rq_speaker_identity rq)
     \<and> usable_audio rp (rq_audio_quality rq)
     \<and> (\<exists>h code. ad_passcode_hash st = Some h \<and> extract_spoken_passcode (rq_text rq) = Some code
          \<and> verify_passcode kdf code h))"
proof -
  obtain st file1 where c: "clear_expired_lockout clk now (admin_load clk file) file = (st, file1)"
    by (cases "clear_expired_lockout clk now (admin_load clk file) file")
  note s = clear_state [OF c]
  show ?thesis
    unfolding Let_def s(1-4) [symmetric] s(5) [symmetric]
    by (cases "refusal rp st rq")
      (use not_refused [of rp st rq] in \<open>auto simp: admin_evaluate_def c Let_def failed_passcode_def
         dest: refusal_denies split: option.splits\<close>)
qed

section \<open>Guessing the passcode\<close>

text \<open>A request that passes every other check has its words compared with the passcode: a guess.\<close>

definition is_guess :: "(pv \<Rightarrow> string) \<Rightarrow> instant \<Rightarrow> admin_request \<Rightarrow> admin_file \<Rightarrow> bool" where
  "is_guess rp t rq file \<longleftrightarrow> refusal rp (fst (clear_expired_lockout t None (admin_load t file) file)) rq = None"

fun admin_run :: "kdf \<Rightarrow> (pv \<Rightarrow> string) \<Rightarrow> admin_file \<Rightarrow> (instant \<times> admin_request) list \<Rightarrow> (bool \<times> admin_decision) list" where
  "admin_run kdf rp file [] = []"
| "admin_run kdf rp file ((t, rq) # rs) =
     (is_guess rp t rq file, fst (admin_evaluate kdf rp t None rq file))
     # admin_run kdf rp (snd (admin_evaluate kdf rp t None rq file)) rs"

definition guesses :: "(bool \<times> admin_decision) list \<Rightarrow> nat" where
  "guesses ds = length (filter fst ds)"

lemma guesses_simps [simp]: "guesses [] = 0" "guesses (d # ds) = (if fst d then Suc (guesses ds) else guesses ds)"
  by (simp_all add: guesses_def)

text \<open>A file under a lock that outlasts the requests answers all of them with the lock and is not changed.\<close>

lemma locked_request:
  assumes "locked_at t (admin_load t file)"
  shows "\<not> is_guess rp t rq file" "snd (admin_evaluate kdf rp t None rq file) = file"
    "\<not> dc_allowed (fst (admin_evaluate kdf rp t None rq file))"
proof -
  have c: "clear_expired_lockout t None (admin_load t file) file = (admin_load t file, file)"
    using assms by (intro clear_keeps) (simp add: call_time_def)
  have r: "refusal rp (admin_load t file) rq \<noteq> None"
    using locked_has_text [OF assms] by (auto simp: not_refused)
  show "\<not> is_guess rp t rq file" using r by (simp add: is_guess_def c)
  from r obtain d where d: "refusal rp (admin_load t file) rq = Some d" by blast
  then show "snd (admin_evaluate kdf rp t None rq file) = file"
    "\<not> dc_allowed (fst (admin_evaluate kdf rp t None rq file))"
    by (simp_all add: admin_evaluate_def c refusal_denies)
qed

lemma locked_run:
  assumes "\<And>t rq. (t, rq) \<in> set rs \<Longrightarrow> locked_at t st"
  shows "guesses (admin_run kdf rp (Some st) rs) = 0"
    "\<forall>d \<in> set (admin_run kdf rp (Some st) rs). \<not> dc_allowed (snd d)"
  using assms
proof (induction rs)
  case (Cons r rs)
  obtain t rq where r: "r = (t, rq)" by (cases r)
  { case 1
    then have "locked_at t st" using r by auto
    then have "locked_at t (admin_load t (Some st))" by (simp add: admin_load_def)
    moreover have "\<And>t rq. (t, rq) \<in> set rs \<Longrightarrow> locked_at t st" using 1 by auto
    ultimately show ?case using locked_request Cons.IH(1) by (simp add: r)
  next
    case 2
    then have "locked_at t st" using r by auto
    then have "locked_at t (admin_load t (Some st))" by (simp add: admin_load_def)
    moreover have "\<And>t rq. (t, rq) \<in> set rs \<Longrightarrow> locked_at t st" using 2 by auto
    ultimately show ?case using locked_request Cons.IH(2) by (simp add: r) }
qed simp_all

lemma locked_until_time:
  assumes "0 \<le> u" "u < 253402300800000000"
  shows "locked_at t (st\<lparr>ad_locked_until := Some (isoformat u)\<rparr>) \<longleftrightarrow> t < u"
  using assms by (simp add: locked_at_def parse_dt_def parse_utc_replace_z)

text \<open>One request on a file without a lock: nothing changes, or it was a guess that failed.\<close>

lemma open_request:
  assumes "\<not> lock_text (admin_load t file)" "\<not> dc_allowed (fst (admin_evaluate kdf rp t None rq file))"
  defines "k \<equiv> ad_failed_attempts (admin_load t file) + 1"
  shows "\<not> is_guess rp t rq file \<and> snd (admin_evaluate kdf rp t None rq file) = file
    \<or> is_guess rp t rq file \<and> snd (admin_evaluate kdf rp t None rq file) =
        Some (admin_save t ((admin_load t file)\<lparr>ad_failed_attempts := k, ad_locked_until :=
          if 3 \<le> k then Some (isoformat (t + 300000000)) else None\<rparr>))"
proof -
  have c: "clear_expired_lockout t None (admin_load t file) file = (admin_load t file, file)"
    using assms(1) by (intro clear_keeps) simp
  show ?thesis
    using assms(2)
    by (cases "refusal rp (admin_load t file) rq")
      (auto simp: is_guess_def admin_evaluate_def c Let_def failed_passcode_def k_def MAX_FAILED_ATTEMPTS_def
         LOCKOUT_MINUTES_def us_per_s_def split: option.splits if_splits)
qed

lemma open_run:
  assumes "\<And>t rq. (t, rq) \<in> set rs \<Longrightarrow> t0 \<le> t \<and> t < t0 + 300000000"
    and "0 \<le> t0" "t0 < 253402300000000000"
    and "\<And>d. d \<in> set (admin_run kdf rp file rs) \<Longrightarrow> \<not> dc_allowed (snd d)"
    and "\<And>t. \<not> lock_text (admin_load t file)" "\<And>t. 0 \<le> ad_failed_attempts (admin_load t file)"
  shows "int (guesses (admin_run kdf rp file rs)) \<le> max 1 (3 - ad_failed_attempts (admin_load t0 file))"
  using assms(1,4-)
proof (induction rs arbitrary: "file")
  case (Cons r rs)
  obtain t rq where r: "r = (t, rq)" by (cases r)
  define file' where "file' = snd (admin_evaluate kdf rp t None rq file)"
  define k where "k = ad_failed_attempts (admin_load t file) + 1"
  have t: "t0 \<le> t" "t < t0 + 300000000" using Cons.prems(1) [of t rq] by (simp_all add: r)
  have k: "ad_failed_attempts (admin_load t0 file) + 1 = k" by (cases "file") (simp_all add: admin_load_def k_def)
  have denied: "\<not> dc_allowed (fst (admin_evaluate kdf rp t None rq file))"
    using Cons.prems(2) [of "(is_guess rp t rq file, fst (admin_evaluate kdf rp t None rq file))"] by (simp add: r)
  have rest: "\<And>d. d \<in> set (admin_run kdf rp file' rs) \<Longrightarrow> \<not> dc_allowed (snd d)"
    using Cons.prems(2) by (simp add: r file'_def)
  have times: "\<And>t rq. (t, rq) \<in> set rs \<Longrightarrow> t0 \<le> t \<and> t < t0 + 300000000"
    by (rule Cons.prems(1) [OF list.set_intros(2)])
  from open_request [OF Cons.prems(3) denied]
  consider (quiet) "\<not> is_guess rp t rq file" "file' = file"
    | (third) "is_guess rp t rq file" "3 \<le> k" "file' = Some (admin_save t ((admin_load t file)\<lparr>ad_failed_attempts := k,
          ad_locked_until := Some (isoformat (t + 300000000))\<rparr>))"
    | (failed) "is_guess rp t rq file" "k < 3" "file' = Some (admin_save t ((admin_load t file)\<lparr>ad_failed_attempts := k,
          ad_locked_until := None\<rparr>))"
    by (cases "3 \<le> k") (auto simp: k_def file'_def)
  then show ?case
  proof cases
    case quiet
    have "int (guesses (admin_run kdf rp file rs)) \<le> max 1 (3 - ad_failed_attempts (admin_load t0 file))"
      by (rule Cons.IH [OF times _ Cons.prems(3,4)]) (use rest quiet in auto)
    with quiet show ?thesis by (simp add: r file'_def)
  next
    case third
    have "guesses (admin_run kdf rp file' rs) = 0"
      unfolding third(3)
    proof (rule locked_run)
      fix t' rq' assume "(t', rq') \<in> set rs"
      with times t assms(2,3) locked_until_time [of "t + 300000000" t']
      show "locked_at t' (admin_save t ((admin_load t file)\<lparr>ad_failed_attempts := k,
          ad_locked_until := Some (isoformat (t + 300000000))\<rparr>))"
        by (fastforce simp: admin_save_def locked_at_def)
    qed
    with third show ?thesis by (simp add: r file'_def)
  next
    case failed
    have "int (guesses (admin_run kdf rp file' rs)) \<le> max 1 (3 - ad_failed_attempts (admin_load t0 file'))"
      using failed(3) Cons.prems(4) [of t]
      by (intro Cons.IH times rest) (auto simp: admin_load_def admin_save_def lock_text_def str_or_def k_def)
    also have "ad_failed_attempts (admin_load t0 file') = k"
      using failed(3) by (simp add: admin_load_def admin_save_def)
    finally show ?thesis using failed k by (simp add: r file'_def)
  qed
qed simp

text \<open>C16. Whoever does not say the right passcode within five minutes has at most three guesses in them,
  however many requests they make and whatever lock was in force before.\<close>

theorem guessing_bounded:
  assumes "\<forall>(t, rq) \<in> set rs. t0 \<le> t \<and> t < t0 + 300000000" and "0 \<le> t0" "t0 < 253402300000000000"
    and "\<forall>d \<in> set (admin_run kdf rp file rs). \<not> dc_allowed (snd d)"
    and "0 \<le> ad_failed_attempts (admin_load t0 file)"
  shows "guesses (admin_run kdf rp file rs) \<le> 3"
proof -
  have f: "0 \<le> ad_failed_attempts (admin_load t file)" for t
    using assms(5) by (cases "file") (simp_all add: admin_load_def)
  show ?thesis
  proof (cases "lock_text (admin_load t0 file)")
    case False
    then have "\<not> lock_text (admin_load t file)" for t by (cases "file") (simp_all add: admin_load_def lock_text_def)
    from open_run [OF _ assms(2,3) _ this f] assms(1,4)
    have "int (guesses (admin_run kdf rp file rs)) \<le> max 1 (3 - ad_failed_attempts (admin_load t0 file))" by blast
    with f [of t0] show ?thesis by linarith
  next
    case True
    then obtain st where st: "file = Some st" by (cases "file") (auto simp: admin_load_def lock_text_def str_or_def)
    with True have lt: "lock_text st" by (simp add: admin_load_def)
    show ?thesis
      using assms(1,4) unfolding st
    proof (induction rs)
      case (Cons r rs)
      obtain t rq where r: "r = (t, rq)" by (cases r)
      define c where "c = admin_save t (st\<lparr>ad_locked_until := None, ad_failed_attempts := 0\<rparr>)"
      show ?case
      proof (cases "locked_at t st")
        case True
        then have "locked_at t (admin_load t (Some st))" by (simp add: admin_load_def)
        note l = locked_request [OF this]
        from Cons.IH Cons.prems l show ?thesis by (simp add: r)
      next
        case False
        have cl: "clear_expired_lockout t None (admin_load t (Some st)) (Some st) = (c, Some c)"
          using clear_clears [of t None st "Some st"] False lt by (simp add: call_time_def admin_load_def c_def Let_def)
        have cc: "clear_expired_lockout t None (admin_load t (Some c)) (Some c) = (c, Some c)"
          by (simp add: clear_expired_lockout_def admin_load_def c_def admin_save_def)
        have same: "admin_run kdf rp (Some st) (r # rs) = admin_run kdf rp (Some c) (r # rs)"
          by (simp add: r is_guess_def admin_evaluate_def cl cc)
        have "int (guesses (admin_run kdf rp (Some c) (r # rs))) \<le> max 1 (3 - ad_failed_attempts (admin_load t0 (Some c)))"
          using Cons.prems same assms(2,3)
          by (intro open_run) (auto simp: admin_load_def c_def admin_save_def lock_text_def str_or_def)
        with same show ?thesis by (simp add: admin_load_def c_def admin_save_def)
      qed
    qed simp
  qed
qed

text \<open>A configured store with \<open>k\<close> failed attempts, an eligible speaker, and what they say.\<close>

definition ex_admin :: "int \<Rightarrow> string option \<Rightarrow> string \<Rightarrow> admin_state" where
  "ex_admin k l u = \<lparr>ad_schema_version = 1, ad_enabled = True, ad_admin_speaker_public_ids = [''ann''],
     ad_enabled_intents = [(''admin.debug.start'', True)],
     ad_passcode_hash = Some \<lparr>ph_algorithm = ''pbkdf2_sha256'', ph_iterations = 210000, ph_salt = ''s'',
       ph_digest = ''4711s''\<rparr>,
     ad_failed_attempts = k, ad_locked_until = l, ad_updated_at = u\<rparr>"

definition ex_admin_request :: "string \<Rightarrow> admin_request" where
  "ex_admin_request said = \<lparr>rq_text = said, rq_intent_id = Some ''admin.debug.start'',
     rq_speaker_identity = Some [(''status'', PStr ''identified''), (''speaker_public_id'', PStr ''ann''),
       (''admin_eligible'', PBool True), (''confidence'', PFloat 1), (''score_margin'', PFloat 1)],
     rq_audio_quality = Some [(''warnings'', PList [])]\<rparr>"

definition ex_kdf :: kdf where "ex_kdf code salt n = code @ salt"

lemma ex_open: "refusal (\<lambda>_. []) (ex_admin k None u) (ex_admin_request said) = None"
proof -
  have "strip ''admin.debug.start'' = ''admin.debug.start''" "strip ''ann'' = ''ann''" by code_simp+
  then show ?thesis
    by (simp add: not_refused ex_admin_def ex_admin_request_def str_or_def lock_text_def admin_speaker_def
        usable_audio_def dget_def py_or_def ADMIN_MAINTENANCE_INTENT_IDS_def)
qed

lemma ex_load [simp]: "admin_load t (Some (ex_admin k l u)) = ex_admin k l u"
  by (simp add: admin_load_def)

lemma ex_clear [simp]: "clear_expired_lockout t None (ex_admin k None u) x = (ex_admin k None u, x)"
  by (simp add: clear_expired_lockout_def ex_admin_def)

text \<open>A guess against that store, and a request under its lock.\<close>

lemma ex_guess:
  "admin_evaluate ex_kdf (\<lambda>_. []) t None (ex_admin_request said) (Some (ex_admin k None u)) =
    (if extract_spoken_passcode said = Some ''4711'' then
       (\<lparr>dc_allowed = True, dc_reason = ''admin_maintenance_allowed'',
          dc_intent_id = Some (strip ''admin.debug.start''), dc_locked_until = None\<rparr>,
        Some (ex_admin 0 None (if k \<noteq> 0 then isoformat t else u)))
     else failed_passcode t t (ex_admin k None u) (strip ''admin.debug.start'')
       (if extract_spoken_passcode said = None then ''admin_passcode_missing'' else ''admin_passcode_wrong''))"
proof -
  have v: "verify_passcode ex_kdf c \<lparr>ph_algorithm = ''pbkdf2_sha256'', ph_iterations = 210000, ph_salt = ''s'',
       ph_digest = ''4711s''\<rparr> \<longleftrightarrow> c = ''4711''" for c
    using append_same_eq [of c "''s''" "''4711''"] by (simp add: verify_passcode_def ex_kdf_def)
  show ?thesis
    using v by (cases "extract_spoken_passcode said")
      (simp_all add: admin_evaluate_def ex_open Let_def, simp_all add: ex_admin_def ex_admin_request_def str_or_def admin_save_def)
qed

lemma ex_is_guess [simp]: "is_guess (\<lambda>_. []) t (ex_admin_request said) (Some (ex_admin k None u))"
  by (simp add: is_guess_def ex_open)

lemma ex_failed: "failed_passcode t t (ex_admin k None u) i r =
   (\<lparr>dc_allowed = False, dc_reason = (if 2 \<le> k then ''admin_maintenance_locked'' else r), dc_intent_id = Some i,
      dc_locked_until = (if 2 \<le> k then Some (isoformat (t + 300000000)) else None)\<rparr>,
    Some (ex_admin (k + 1) (if 2 \<le> k then Some (isoformat (t + 300000000)) else None) (isoformat t)))"
  by (simp add: failed_passcode_def MAX_FAILED_ATTEMPTS_def LOCKOUT_MINUTES_def us_per_s_def admin_save_def ex_admin_def Let_def)

lemma ex_locked: "0 \<le> w \<Longrightarrow> w < 253402300800000000 \<Longrightarrow> t < w \<Longrightarrow> locked_at t (ex_admin k (Some (isoformat w)) u)"
  using locked_until_time [of w t "ex_admin k None u"] by (simp add: ex_admin_def)

text \<open>Three wrong codes, then the right one under the lock and again five minutes after it.\<close>

lemma ex_said: "extract_spoken_passcode ''debug 0000'' = Some ''0000''"
  "extract_spoken_passcode ''debug one two three four'' = Some ''1234''"
  "extract_spoken_passcode ''debug'' = None" "extract_spoken_passcode ''debug four seven one one'' = Some ''4711''"
  by code_simp+

lemma ex_admin_run:
  "map (\<lambda>(g, d). (g, dc_allowed d)) (admin_run ex_kdf (\<lambda>_. []) (Some (ex_admin 0 None []))
     [(1000000, ex_admin_request ''debug 0000''), (2000000, ex_admin_request ''debug one two three four''),
      (3000000, ex_admin_request ''debug''), (4000000, ex_admin_request ''debug four seven one one'')])
   = [(True, False), (True, False), (True, False), (False, False)]"
proof -
  have "locked_at 4000000 (admin_load 4000000 (Some (ex_admin 3 (Some (isoformat 303000000)) (isoformat 3000000))))"
    by (simp add: ex_locked)
  from locked_request [OF this] show ?thesis by (simp add: ex_guess ex_failed ex_said)
qed

theorem guessing_bounded_witness:
  "guesses (admin_run ex_kdf (\<lambda>_. []) (Some (ex_admin 0 None []))
     [(1000000, ex_admin_request ''debug 0000''), (2000000, ex_admin_request ''debug one two three four''),
      (3000000, ex_admin_request ''debug''), (4000000, ex_admin_request ''debug four seven one one'')]) \<le> 3"
proof (rule guessing_bounded [of _ 1000000])
  have "list_all (\<lambda>d. \<not> snd d) (map (\<lambda>(g, d). (g, dc_allowed d)) (admin_run ex_kdf (\<lambda>_. []) (Some (ex_admin 0 None []))
     [(1000000, ex_admin_request ''debug 0000''), (2000000, ex_admin_request ''debug one two three four''),
      (3000000, ex_admin_request ''debug''), (4000000, ex_admin_request ''debug four seven one one'')]))"
    by (simp only: ex_admin_run) simp
  then show "\<forall>d \<in> set (admin_run ex_kdf (\<lambda>_. []) (Some (ex_admin 0 None []))
     [(1000000, ex_admin_request ''debug 0000''), (2000000, ex_admin_request ''debug one two three four''),
      (3000000, ex_admin_request ''debug''), (4000000, ex_admin_request ''debug four seven one one'')]). \<not> dc_allowed (snd d)"
    by (simp only: list_all_iff list.set_map ball_simps case_prod_beta snd_conv)
qed (simp_all, simp add: ex_admin_def)

text \<open>The passcode that was set last is the one that is accepted, and setting it lifts the lock.\<close>

lemma set_passcode_accepted:
  assumes "normalize_passcode code = Some digits"
  shows "\<exists>d st h. set_passcode kdf path clk salt code file = Inr (d, Some st) \<and> ad_passcode_hash st = Some h
    \<and> verify_passcode kdf digits h \<and> \<not> locked_at t st \<and> ad_failed_attempts st = 0"
proof -
  obtain st f where c: "clear_expired_lockout clk None (admin_load clk file) file = (st, f)"
    by (cases "clear_expired_lockout clk None (admin_load clk file) file")
  show ?thesis
    using assms
    by (simp add: set_passcode_def c Let_def, simp add: admin_status_def admin_load_def admin_save_def
        clear_expired_lockout_def verify_passcode_def PASSCODE_ITERATIONS_def locked_at_def)
qed

end
