(* ===== verification/SpokenCodes.thy ===== *)
theory SpokenCodes
  imports AdminMaintenance
begin

text \<open>
  What the redaction of \<open>voice_admin_maintenance.py\<close> promises about spoken passcodes, said without its
  patterns: which texts are codes, that the codes in a text are replaced and the rest of it is kept, and
  that no code is left. Which accepted codes it misses is said at the end.
\<close>

section \<open>Codes and their redaction\<close>

text \<open>
  What a spoken code is, apart from the patterns: four digits with nothing but blanks and hyphens
  between them, or four number words with blanks between them, in whole words of the text.
\<close>

definition digit_code :: "string \<Rightarrow> bool" where
  "digit_code u \<longleftrightarrow> u \<noteq> [] \<and> is_digit (hd u) \<and> is_digit (last u) \<and> length (filter is_digit u) = 4
     \<and> list_all (\<lambda>c. is_digit c \<or> is_space c \<or> c = CHR ''-'') u"

definition said_number :: "string \<Rightarrow> bool" where
  "said_number u \<longleftrightarrow> lower u \<in> fst ` set PASSCODE_WORDS"

fun said_numbers :: "string list \<Rightarrow> string list \<Rightarrow> string \<Rightarrow> bool" where
  \<comment> \<open>the words, the gaps before them, and what they are together\<close>
  "said_numbers [] [] u = (u = [])"
| "said_numbers (w # ws) (g # gs) u =
     (said_number w \<and> g \<noteq> [] \<and> list_all is_space g \<and> (\<exists>v. u = g @ w @ v \<and> said_numbers ws gs v))"
| "said_numbers _ _ u = False"

definition word_code :: "string \<Rightarrow> bool" where
  "word_code u \<longleftrightarrow> (\<exists>w ws gs v. u = w @ v \<and> said_number w \<and> length ws = 3 \<and> said_numbers ws gs v)"

definition occurs :: "(string \<Rightarrow> bool) \<Rightarrow> string \<Rightarrow> bool" where
  "occurs code text \<longleftrightarrow> (\<exists>u v w. text = u @ v @ w \<and> code v
     \<and> \<not> (u \<noteq> [] \<and> is_word (last u)) \<and> \<not> word_ahead w)"

text \<open>\<open>replaced_codes code s t\<close>: \<open>t\<close> is \<open>s\<close> with some codes in it replaced by \<open>[passcode]\<close>.\<close>

inductive replaced_codes :: "(string \<Rightarrow> bool) \<Rightarrow> string \<Rightarrow> string \<Rightarrow> bool" for code where
  rc_end: "replaced_codes code [] []"
| rc_keep: "replaced_codes code s t \<Longrightarrow> replaced_codes code (c # s) (c # t)"
| rc_code: "code u \<Longrightarrow> replaced_codes code s t \<Longrightarrow> replaced_codes code (u @ s) (''[passcode]'' @ t)"

text \<open>What the redaction promises: codes are replaced, everything else is kept, and no code is left.\<close>

definition codes_redacted :: "string \<Rightarrow> string \<Rightarrow> bool" where
  "codes_redacted heard t \<longleftrightarrow>
     (\<exists>s. replaced_codes digit_code heard s \<and> replaced_codes word_code s t)
     \<and> \<not> occurs digit_code t \<and> \<not> occurs word_code t"

lemma run_digits_code:
  "list_all (\<lambda>c. is_digit c \<or> is_space c \<or> c = CHR ''-'') u \<Longrightarrow> length (filter is_digit u) = k \<Longrightarrow>
   (u \<noteq> [] \<longrightarrow> is_digit (last u)) \<Longrightarrow> \<not> word_ahead s \<Longrightarrow> run_digits k n (u @ s) = Some (n + length u)"
proof (induction u arbitrary: k n)
  case (Cons c u)
  show ?case
  proof (cases "is_digit c")
    case True
    with Cons.prems obtain k' where k: "k = Suc k'" "length (filter is_digit u) = k'" by auto
    then show ?thesis using Cons.IH [of k' "Suc n"] Cons.prems True by (auto split: if_splits)
  next
    case False
    have "u \<noteq> []" using Cons.prems(3) False by auto
    then have "filter is_digit u \<noteq> []" using Cons.prems(3) by (auto simp: filter_empty_conv)
    then obtain k' where k: "k = Suc k'" using Cons.prems(2) False by (cases k) auto
    then show ?thesis using Cons.IH [of k "Suc n"] Cons.prems False \<open>u \<noteq> []\<close> by auto
  qed
qed simp

lemma match_digits_code:
  assumes "digit_code u" "\<not> word_before p" "\<not> word_ahead s"
  shows "match_digits p (u @ s) \<noteq> None"
proof -
  from assms(1) obtain c v where u: "u = c # v" "is_digit c" by (cases u) (auto simp: digit_code_def)
  with assms(1) have v: "list_all (\<lambda>c. is_digit c \<or> is_space c \<or> c = CHR ''-'') v"
    "length (filter is_digit v) = 3" "v \<noteq> [] \<longrightarrow> is_digit (last v)"
    by (auto simp: digit_code_def split: if_splits)
  from run_digits_code [OF v assms(3)] u assms(2) show ?thesis by simp
qed

lemma run_digits_count:
  "run_digits k n s = Some l \<Longrightarrow> \<exists>j. l = n + j \<and> length (filter is_digit (take j s)) = k"
proof (induction k n s rule: run_digits.induct)
  case (1 n s)
  then show ?case by (intro exI [of _ 0]) (auto split: if_splits)
next
  case (3 k n c s)
  show ?case
  proof (cases "is_digit c")
    case True
    with 3 obtain j where "l = Suc n + j" "length (filter is_digit (take j s)) = k" by auto
    with True show ?thesis by (intro exI [of _ "Suc j"]) simp
  next
    case False
    with "3.prems" have "is_space c \<or> c = CHR ''-''" by (auto split: if_splits)
    with False 3 obtain j where "l = Suc n + j" "length (filter is_digit (take j s)) = Suc k" by auto
    with False show ?thesis by (intro exI [of _ "Suc j"]) simp
  qed
qed simp

lemma digit_code_matched:
  assumes m: "match_digits p s = Some n"
  shows "digit_code (take n s)"
proof -
  from m obtain c r where s: "s = c # r" "is_digit c" "run_digits 3 1 r = Some n"
    by (cases s) (auto split: if_splits)
  from run_digits_match [OF s(3)] obtain j where j: "n = Suc j" "j \<le> length r" "0 < j" "is_digit (r ! (j - 1))"
    "\<forall>c \<in> set (take j r). is_digit c \<or> is_space c \<or> c = CHR ''-''"
    by auto
  have "length (filter is_digit (take j r)) = 3" using run_digits_count [OF s(3)] j(1) by auto
  moreover have ne: "take j r \<noteq> []" using j(2,3) by auto
  moreover have "last (take j r) = r ! (j - 1)" using j(2,3) by (simp add: last_conv_nth [OF ne])
  ultimately show ?thesis using s(1,2) j by (simp add: digit_code_def list_all_iff)
qed

lemma said_number_word:
  "said_number w \<longleftrightarrow> lower w \<in> set number_words"
  by (simp add: said_number_def number_words_def)

lemma number_word_said: "said_number w \<Longrightarrow> number_word (w @ s) = Some (length w)"
  by (auto simp: number_word_eq said_number_word startswith_def lower_def intro: bexI [of _ "lower w"])

lemma said_number_matched: "number_word s = Some n \<Longrightarrow> said_number (take n s)"
  by (auto simp: number_word_eq said_number_word startswith_def lower_def take_map)

lemma run_number_words_code:
  "said_numbers ws gs u \<Longrightarrow> \<not> word_ahead s \<Longrightarrow> run_number_words (length ws) n (u @ s) = Some (n + length u)"
proof (induction ws gs u arbitrary: n rule: said_numbers.induct)
  case (2 w ws g gs u)
  from "2.prems"(1) obtain v where v: "u = g @ w @ v" "said_numbers ws gs v" "said_number w" "g \<noteq> []" "list_all is_space g"
    by auto
  have "w \<noteq> []" "\<not> is_space (hd w)"
    using number_word_chars(1-3) [OF number_word_said [OF v(3), of "[]"]]
    by (cases w, auto simp: is_word_def is_digit_def is_space_def)+
  then have "takeWhile is_space (w @ v @ s) = []" "dropWhile is_space (w @ v @ s) = w @ v @ s" by (cases w; simp)+
  then have "takeWhile is_space (u @ s) = g" "dropWhile is_space (u @ s) = w @ v @ s"
    using v(1,5) takeWhile_append2 [of g is_space "w @ v @ s"] dropWhile_append2 [of g is_space "w @ v @ s"]
    by (auto simp: list_all_iff)
  then show ?case using v "2.IH" [OF v(2) "2.prems"(2)] by (simp add: number_word_said Let_def)
qed auto

lemma match_word_code:
  assumes "word_code u" "\<not> word_before p" "\<not> word_ahead s"
  shows "match_number_words p (u @ s) \<noteq> None"
proof -
  from assms(1) obtain w ws gs v where u: "u = w @ v" "said_number w" "length ws = 3" "said_numbers ws gs v"
    by (auto simp: word_code_def)
  from run_number_words_code [OF u(4) assms(3), of "length w"] u assms(2) show ?thesis
    by (simp add: match_number_words_def number_word_said)
qed

lemma said_numbers_matched:
  "run_number_words k n s = Some l \<Longrightarrow> \<exists>j ws gs. l = n + j \<and> j \<le> length s \<and> length ws = k \<and> said_numbers ws gs (take j s)"
proof (induction k arbitrary: n s)
  case 0
  then show ?case by (intro exI [of _ 0] exI [of _ "[]"]) (auto split: if_splits)
next
  case (Suc k)
  define g where "g = takeWhile is_space s"
  define r where "r = dropWhile is_space s"
  have s: "s = g @ r" by (simp add: g_def r_def)
  from Suc.prems obtain w where w: "g \<noteq> []" "number_word r = Some w"
    "run_number_words k (n + length g + w) (drop w r) = Some l"
    by (auto simp: Let_def g_def r_def split: if_splits option.splits)
  from Suc.IH [OF w(3)] obtain j ws gs where j: "l = n + length g + w + j" "j \<le> length (drop w r)" "length ws = k"
    "said_numbers ws gs (take j (drop w r))" by blast
  have "w \<le> length r" by (rule number_word_chars(2) [OF w(2)])
  moreover have "take (length g + w + j) s = g @ take w r @ take j (drop w r)"
    by (simp add: s take_add)
  moreover have "list_all is_space g" by (auto simp: g_def list_all_iff dest: set_takeWhileD)
  ultimately show ?case
    using w(1) j said_number_matched [OF w(2)]
    by (intro exI [of _ "length g + w + j"] exI [of _ "take w r # ws"] exI [of _ "g # gs"]) (auto simp: s)
qed

lemma word_code_matched:
  assumes "match_number_words p s = Some n"
  shows "word_code (take n s)"
proof -
  from assms obtain w where w: "number_word s = Some w" "run_number_words 3 w (drop w s) = Some n"
    by (auto simp: match_number_words_def split: if_splits option.splits)
  from said_numbers_matched [OF w(2)] obtain j ws gs where "n = w + j" "length ws = 3"
    "said_numbers ws gs (take j (drop w s))" by blast
  with said_number_matched [OF w(1)] show ?thesis by (fastforce simp: word_code_def take_add)
qed

lemma no_match_occurs:
  assumes code: "\<And>p u s. code u \<Longrightarrow> \<not> word_before p \<Longrightarrow> \<not> word_ahead s \<Longrightarrow> m p (u @ s) \<noteq> None"
    and nonempty: "\<not> code []" and none: "no_match m None text"
  shows "\<not> occurs code text"
proof
  have at: "no_match m p (u @ s) \<Longrightarrow> no_match m (if u = [] then p else Some (last u)) s" for p u s
    by (induction u arbitrary: p) (auto split: if_splits)
  assume "occurs code text"
  then obtain u v w where t: "text = u @ v @ w" "code v" "\<not> (u \<noteq> [] \<and> is_word (last u))" "\<not> word_ahead w"
    by (auto simp: occurs_def)
  let ?p = "if u = [] then None else Some (last u)"
  have "no_match m ?p (v @ w)" using none at [of None u "v @ w"] by (simp add: t(1))
  moreover have "m ?p (v @ w) \<noteq> None" using t(3) by (intro code t) (auto simp: word_before_def)
  ultimately show False using nonempty t(2) by (cases v) auto
qed

lemma sub_replaces:
  assumes m: "\<And>p s n. m p s = Some n \<Longrightarrow> code (take n s) \<and> n \<le> length s"
  shows "k \<le> length s \<Longrightarrow> replaced_codes code (drop k s) (sub_from m ''[passcode]'' k p s)"
proof (induction s arbitrary: k p)
  case Nil
  then show ?case by (simp add: replaced_codes.rc_end)
next
  case (Cons c s)
  show ?case
  proof (cases k)
    case (Suc j)
    with Cons show ?thesis by simp
  next
    case 0
    show ?thesis
    proof (cases "\<exists>j. m p (c # s) = Some (Suc j)")
      case True
      then obtain j where j: "m p (c # s) = Some (Suc j)" by blast
      with m [OF j] Cons.IH [of j "Some c"]
      have "replaced_codes code (take (Suc j) (c # s) @ drop j s) (''[passcode]'' @ sub_from m ''[passcode]'' j (Some c) s)"
        by (intro replaced_codes.rc_code) simp_all
      with j 0 show ?thesis by simp
    next
      case False
      then have "sub_from m ''[passcode]'' 0 p (c # s) = c # sub_from m ''[passcode]'' 0 (Some c) s"
        by (simp split: option.split nat.split)
      with Cons.IH [of 0 "Some c"] 0 show ?thesis by (simp add: replaced_codes.rc_keep)
    qed
  qed
qed

lemma re_sub_replaces:
  assumes "\<And>p s n. m p s = Some n \<Longrightarrow> code (take n s) \<and> n \<le> length s"
  shows "replaced_codes code s (re_sub m ''[passcode]'' s)"
  using sub_replaces [of m code 0 s None, OF assms] by (simp add: re_sub_def)

lemma word_code_nonempty: "\<not> word_code []"
proof
  assume "word_code []"
  then show False using match_word_code [of "[]" None "[]"] number_words.ends by (fastforce simp: word_ahead_def word_before_def)
qed

lemma redacted_codes: "codes_redacted heard (redact_spoken_passcodes heard)"
proof -
  note clean = redacted_clean [of heard]
  have "\<not> occurs digit_code (redact_spoken_passcodes heard)"
    using clean match_digits_code by (intro no_match_occurs [where m = match_digits]) (simp_all add: digit_code_def)
  moreover have "\<not> occurs word_code (redact_spoken_passcodes heard)"
    using clean match_word_code by (intro no_match_occurs [where m = match_number_words]) (simp_all add: word_code_nonempty)
  moreover have "replaced_codes digit_code heard (re_sub match_digits ''[passcode]'' heard)"
    using digit_code_matched digits.ends by (intro re_sub_replaces) blast
  moreover have "replaced_codes word_code s (re_sub match_number_words ''[passcode]'' s)" for s
    using word_code_matched number_words.ends by (intro re_sub_replaces) blast
  ultimately show ?thesis unfolding codes_redacted_def redact_spoken_passcodes_def by blast
qed

section \<open>Examples\<close>

text \<open>
  A code spoken with commas, or as digits and words mixed, is accepted by the node but is not redacted: it
  is neither a \<open>digit_code\<close> nor a \<open>word_code\<close>.
\<close>

lemma accepted_codes_survive_redaction:
  "extract_spoken_passcode ''start debug 4, 7, 1, 1'' = Some ''4711''
   \<and> redact_spoken_passcodes ''start debug 4, 7, 1, 1'' = ''start debug 4, 7, 1, 1''
   \<and> extract_spoken_passcode ''start debug four 7 one 1'' = Some ''4711''
   \<and> redact_spoken_passcodes ''start debug four 7 one 1'' = ''start debug four 7 one 1''"
  by code_simp

lemma spoken_codes_redacted:
  "redact_spoken_passcodes ''start debug 4 7-11 now'' = ''start debug [passcode] now''
   \<and> redact_spoken_passcodes ''Four seven one ate'' = ''[passcode]''"
  by code_simp

end
