(* ===== verification/ProfileReview.thy ===== *)
theory ProfileReview
  imports PyTime
begin

text \<open>
  Candidates for learning a speaker profile (\<open>persistence/speaker_profile_review.py\<close>): what may
  enter the store, how sensitive fields are removed from the evidence, the one review of a
  candidate, and the invariant of the store. The JSON file is \<open>review_file\<close> (\<open>None\<close> before the first
  save); random identifiers and the clock are arguments. A \<open>ValueError\<close> is the left side of the sum.
\<close>

definition REVIEWABLE_STATUSES :: "string set" where "REVIEWABLE_STATUSES = {''pending''}"
definition TERMINAL_STATUSES :: "string set" where
  "TERMINAL_STATUSES = {''approved'', ''rejected'', ''discarded''}"
definition MIN_REVIEW_CONFIDENCE :: rat where "MIN_REVIEW_CONFIDENCE = 85 / 100"
definition MIN_REVIEW_SCORE_MARGIN :: rat where "MIN_REVIEW_SCORE_MARGIN = 8 / 100"
definition SENSITIVE_KEYS :: "string list" where
  "SENSITIVE_KEYS = [''audio'', ''audio_base64'', ''audio_bytes'', ''embedding'', ''embeddings'',
     ''biometric_template'', ''biometric_templates'', ''passcode'', ''raw_audio'', ''values'', ''voiceprint'']"

record learning_candidate =
  cd_candidate_id :: string
  cd_status :: string
  cd_profile_id :: "string option"
  cd_speaker_public_id :: string
  cd_display_name :: "string option"
  cd_session_id :: "string option"
  cd_endpoint_id :: "string option"
  cd_created_at :: string
  cd_updated_at :: string
  cd_evidence :: dict
  cd_sample :: "dict option"
  cd_review :: "dict option"

record review_state =
  rv_schema_version :: int
  rv_candidates :: "learning_candidate list"
  rv_updated_at :: string

type_synonym review_file = "review_state option"

definition candidate_dump :: "learning_candidate \<Rightarrow> dict" where
  "candidate_dump c =
    [(''candidate_id'', PStr (cd_candidate_id c)), (''status'', PStr (cd_status c)),
     (''profile_id'', ostr (cd_profile_id c)), (''speaker_public_id'', PStr (cd_speaker_public_id c)),
     (''display_name'', ostr (cd_display_name c)), (''session_id'', ostr (cd_session_id c)),
     (''endpoint_id'', ostr (cd_endpoint_id c)), (''created_at'', PStr (cd_created_at c)),
     (''updated_at'', PStr (cd_updated_at c)), (''evidence'', PDict (cd_evidence c)),
     (''sample'', odict (cd_sample c)), (''review'', odict (cd_review c))]"

section \<open>Sanitising\<close>

fun sanitize_value :: "pv \<Rightarrow> pv" and sanitize_mapping :: "dict \<Rightarrow> dict" and sanitize_list :: "pv list \<Rightarrow> pv list" where
  "sanitize_value (PDict d) = PDict (sanitize_mapping d)"
| "sanitize_value (PList xs) = PList (sanitize_list xs)"
| "sanitize_value v = v"
| "sanitize_mapping [] = []"
| "sanitize_mapping ((k, v) # d) =
     (if lower k \<in> set SENSITIVE_KEYS then sanitize_mapping d
      else (k, sanitize_value v) # sanitize_mapping d)"
| "sanitize_list [] = []"
| "sanitize_list (v # vs) = sanitize_value v # sanitize_list vs"

definition or_empty :: "dict option \<Rightarrow> dict" where
  "or_empty d = (case d of None \<Rightarrow> [] | Some e \<Rightarrow> e)"

definition candidate_passes_guardrails :: "dict \<Rightarrow> bool" where
  "candidate_passes_guardrails evidence =
     (case (num_of (dget evidence ''confidence''), num_of (dget evidence ''score_margin'')) of
        (Some confidence, Some margin) \<Rightarrow>
          MIN_REVIEW_CONFIDENCE \<le> confidence \<and> MIN_REVIEW_SCORE_MARGIN \<le> margin
          \<and> truthy (dget evidence ''learning_eligible'')
      | _ \<Rightarrow> False)"

text \<open>A sample is kept only under the one-day retention policy; \<open>uid\<close> names one without a name.\<close>

definition sanitized_sample :: "(pv \<Rightarrow> string) \<Rightarrow> string \<Rightarrow> dict option \<Rightarrow> dict option" where
  "sanitized_sample rp uid sample =
     (let d = or_empty sample; field = (\<lambda>k. strip (py_str rp (py_or (dget d k) (PStr []))));
          policy = field ''raw_audio_policy''; audio = field ''audio_base64'' in
      if d = [] \<or> policy \<noteq> ''debug_retention_one_day'' \<or> audio = [] then None
      else Some
        [(''sample_id'', PStr (py_str rp (py_or (dget d ''sample_id'') (PStr (''profile-learning-'' @ uid))))),
         (''audio_base64'', PStr audio), (''sample_rate_hz'', dget d ''sample_rate_hz''),
         (''encoding'', dget d ''encoding''), (''phrase_set_version'', dget d ''phrase_set_version''),
         (''phrase_id'', dget d ''phrase_id''), (''phrase_text'', dget d ''phrase_text''),
         (''phrase_status'', PStr ''accepted''), (''raw_audio_policy'', PStr policy),
         (''expires_at'', dget d ''expires_at'')])"

section \<open>Operations\<close>

definition review_load :: "instant \<Rightarrow> review_file \<Rightarrow> review_state" where
  "review_load clk file = (case file of Some st \<Rightarrow> st
     | None \<Rightarrow> \<lparr>rv_schema_version = 1, rv_candidates = [], rv_updated_at = isoformat clk\<rparr>)"

definition review_save :: "instant \<Rightarrow> review_state \<Rightarrow> review_state" where
  "review_save clk st = st\<lparr>rv_updated_at := isoformat clk\<rparr>"

record candidate_input =
  ci_speaker_public_id :: string
  ci_display_name :: "string option"
  ci_profile_id :: "string option"
  ci_session_id :: "string option"
  ci_endpoint_id :: "string option"
  ci_evidence :: "dict option"
  ci_sample :: "dict option"

definition add_candidate ::
    "(pv \<Rightarrow> string) \<Rightarrow> nat \<Rightarrow> instant \<Rightarrow> string \<Rightarrow> string \<Rightarrow> candidate_input \<Rightarrow> review_file
     \<Rightarrow> (string + dict) \<times> review_file" where
  "add_candidate rp max_candidates clk uid1 uid2 inp file =
     (let speaker = strip (ci_speaker_public_id inp); evidence = sanitize_mapping (or_empty (ci_evidence inp)) in
      if speaker = [] then (Inl ''speaker_public_id_required'', file)
      else if \<not> candidate_passes_guardrails evidence
        then (Inl ''profile_learning_candidate_guardrail_failed'', file)
      else
        let st = review_load clk file in
        case find (\<lambda>c. cd_status c = ''pending'' \<and> (cd_session_id c, cd_speaker_public_id c)
              = (ci_session_id inp, speaker)) (rv_candidates st) of
          Some existing \<Rightarrow> (Inr (candidate_dump existing), file)
        | None \<Rightarrow>
          let candidate = \<lparr>cd_candidate_id = ''profile-learning-'' @ uid1, cd_status = ''pending'',
                cd_profile_id = ci_profile_id inp, cd_speaker_public_id = speaker,
                cd_display_name = ci_display_name inp, cd_session_id = ci_session_id inp,
                cd_endpoint_id = ci_endpoint_id inp, cd_created_at = isoformat clk,
                cd_updated_at = isoformat clk, cd_evidence = evidence,
                cd_sample = sanitized_sample rp uid2 (ci_sample inp), cd_review = None\<rparr> in
          (Inr (candidate_dump candidate),
           Some (review_save clk (st\<lparr>rv_candidates := push_front (max 1 max_candidates) candidate (rv_candidates st)\<rparr>))))"

text \<open>
  The loop of \<open>mark_reviewed\<close>: the candidates with the review in place, and the last one reviewed.
\<close>

fun review_each :: "string \<Rightarrow> (learning_candidate \<Rightarrow> learning_candidate) \<Rightarrow> learning_candidate list
    \<Rightarrow> learning_candidate option \<Rightarrow> string + (learning_candidate list \<times> learning_candidate option)" where
  "review_each cid upd [] seen = Inr ([], seen)"
| "review_each cid upd (c # cs) seen =
     (if cd_candidate_id c \<noteq> cid
      then (case review_each cid upd cs seen of
          Inl e \<Rightarrow> Inl e | Inr (ds, r) \<Rightarrow> Inr (c # ds, r))
      else if cd_status c \<notin> REVIEWABLE_STATUSES then Inl ''profile_learning_candidate_already_reviewed''
      else (case review_each cid upd cs (Some (upd c)) of
          Inl e \<Rightarrow> Inl e | Inr (ds, r) \<Rightarrow> Inr (upd c # ds, r)))"

definition mark_reviewed ::
    "instant \<Rightarrow> string \<Rightarrow> string \<Rightarrow> string option \<Rightarrow> string option \<Rightarrow> dict option \<Rightarrow> review_file
     \<Rightarrow> (string + dict) \<times> review_file" where
  "mark_reviewed clk cid decision reviewed_by reason result file =
     (let normalized = lower (strip decision) in
      if normalized \<notin> TERMINAL_STATUSES then (Inl ''unsupported_profile_learning_review_decision'', file)
      else
        let st = review_load clk file;
            review = [(''decision'', PStr normalized),
              (''reviewed_by'', ostr (nonempty (strip (str_or reviewed_by [])))),
              (''reason'', ostr (nonempty (strip (str_or reason [])))),
              (''reviewed_at'', PStr (isoformat clk)),
              (''result'', PDict (sanitize_mapping (or_empty result)))];
            upd = (\<lambda>c. c\<lparr>cd_status := normalized, cd_updated_at := isoformat clk, cd_review := Some review\<rparr>) in
        case review_each cid upd (rv_candidates st) None of
          Inl e \<Rightarrow> (Inl e, file)
        | Inr (_, None) \<Rightarrow> (Inl ''profile_learning_candidate_not_found'', file)
        | Inr (cs, Some c) \<Rightarrow> (Inr (candidate_dump c), Some (review_save clk (st\<lparr>rv_candidates := cs\<rparr>))))"

definition list_candidates :: "instant \<Rightarrow> string option \<Rightarrow> review_file \<Rightarrow> dict list" where
  "list_candidates clk status file =
     (let cs = map candidate_dump (rv_candidates (review_load clk file)) in
      case status of None \<Rightarrow> cs
      | Some s \<Rightarrow> if s = [] then cs else filter (\<lambda>c. dget c ''status'' = PStr (lower (strip s))) cs)"

definition get_candidate :: "instant \<Rightarrow> string \<Rightarrow> review_file \<Rightarrow> string + dict" where
  "get_candidate clk cid file =
     (case find (\<lambda>c. cd_candidate_id c = strip cid) (rv_candidates (review_load clk file)) of
        None \<Rightarrow> Inl ''profile_learning_candidate_not_found'' | Some c \<Rightarrow> Inr (candidate_dump c))"

section \<open>The store under any use\<close>

text \<open>No sensitive key at any depth.\<close>

fun clean_value :: "pv \<Rightarrow> bool" and clean_mapping :: "dict \<Rightarrow> bool" and clean_list :: "pv list \<Rightarrow> bool" where
  "clean_value (PDict d) = clean_mapping d"
| "clean_value (PList xs) = clean_list xs"
| "clean_value v = True"
| "clean_mapping [] = True"
| "clean_mapping ((k, v) # d) = (lower k \<notin> set SENSITIVE_KEYS \<and> clean_value v \<and> clean_mapping d)"
| "clean_list [] = True"
| "clean_list (v # vs) = (clean_value v \<and> clean_list vs)"

lemma sanitize_clean: "clean_value (sanitize_value v)" "clean_mapping (sanitize_mapping d)" "clean_list (sanitize_list vs)"
  by (induction v and d and vs rule: sanitize_value_sanitize_mapping_sanitize_list.induct) simp_all

text \<open>Sanitising removes nothing else.\<close>

lemma sanitize_of_clean: "clean_value v \<Longrightarrow> sanitize_value v = v" "clean_mapping d \<Longrightarrow> sanitize_mapping d = d"
  "clean_list vs \<Longrightarrow> sanitize_list vs = vs"
  by (induction v and d and vs rule: sanitize_value_sanitize_mapping_sanitize_list.induct) simp_all

definition pending_keys :: "learning_candidate list \<Rightarrow> (string option \<times> string) list" where
  "pending_keys cs = map (\<lambda>c. (cd_session_id c, cd_speaker_public_id c)) (filter (\<lambda>c. cd_status c = ''pending'') cs)"

definition candidate_ok :: "learning_candidate \<Rightarrow> bool" where
  "candidate_ok c \<longleftrightarrow> clean_mapping (cd_evidence c) \<and> candidate_passes_guardrails (cd_evidence c)
     \<and> cd_speaker_public_id c \<noteq> []
     \<and> (cd_status c = ''pending'' \<and> cd_review c = None
        \<or> (\<exists>r. cd_status c \<in> TERMINAL_STATUSES \<and> cd_review c = Some r \<and> dget r ''decision'' = PStr (cd_status c)))"

definition review_ok :: "nat \<Rightarrow> learning_candidate list \<Rightarrow> bool" where
  "review_ok n cs \<longleftrightarrow> length cs \<le> n \<and> list_all candidate_ok cs \<and> distinct (pending_keys cs)"

datatype review_op =
    AddCandidate instant string string candidate_input
  | MarkReviewed instant string string "string option" "string option" "dict option"

fun review_step :: "(pv \<Rightarrow> string) \<Rightarrow> nat \<Rightarrow> review_op \<Rightarrow> review_file \<Rightarrow> review_file" where
  "review_step rp n (AddCandidate clk u v inp) file = snd (add_candidate rp n clk u v inp file)"
| "review_step rp n (MarkReviewed clk cid decision by reason result) file =
     snd (mark_reviewed clk cid decision by reason result file)"

definition candidates_of :: "review_file \<Rightarrow> learning_candidate list" where
  "candidates_of file = (case file of None \<Rightarrow> [] | Some st \<Rightarrow> rv_candidates st)"

lemma load_candidates [simp]: "rv_candidates (review_load clk file) = candidates_of file"
  by (cases "file") (simp_all add: review_load_def candidates_of_def)

lemma pending_keys_take: "distinct (pending_keys cs) \<Longrightarrow> distinct (pending_keys (take n cs))"
  using map_append [of "\<lambda>c. (cd_session_id c, cd_speaker_public_id c)"
      "filter (\<lambda>c. cd_status c = ''pending'') (take n cs)" "filter (\<lambda>c. cd_status c = ''pending'') (drop n cs)"]
  by (metis (no_types, lifting) append_take_drop_id distinct_append filter_append pending_keys_def)

lemma add_keeps: "review_ok (max 1 n) (candidates_of file) \<Longrightarrow>
    review_ok (max 1 n) (candidates_of (snd (add_candidate rp n clk u v inp file)))"
proof -
  assume ok: "review_ok (max 1 n) (candidates_of file)"
  let ?sp = "strip (ci_speaker_public_id inp)" and ?ev = "sanitize_mapping (or_empty (ci_evidence inp))"
  let ?dup = "\<lambda>c. cd_status c = ''pending'' \<and> (cd_session_id c, cd_speaker_public_id c) = (ci_session_id inp, ?sp)"
  show ?thesis
  proof (cases "?sp = [] \<or> \<not> candidate_passes_guardrails ?ev \<or> find ?dup (candidates_of file) \<noteq> None")
    case True
    then have "snd (add_candidate rp n clk u v inp file) = file"
      unfolding add_candidate_def Let_def by (auto split: option.splits)
    with ok show ?thesis by simp
  next
    case False
    then obtain c where c: "candidates_of (snd (add_candidate rp n clk u v inp file))
        = push_front (max 1 n) c (candidates_of file)"
      and f: "cd_status c = ''pending''" "cd_review c = None" "cd_evidence c = ?ev" "cd_speaker_public_id c = ?sp"
        "cd_session_id c = ci_session_id inp"
      by (simp add: add_candidate_def Let_def candidates_of_def [of "Some _"] review_save_def)
    have "candidate_ok c" using f False by (simp add: candidate_ok_def sanitize_clean)
    moreover have "distinct (pending_keys (c # candidates_of file))"
      using False ok f by (auto simp: pending_keys_def review_ok_def find_None_iff)
    moreover have "x \<in> set (take (max 1 n) (c # candidates_of file)) \<Longrightarrow> x = c \<or> x \<in> set (candidates_of file)" for x
      by (drule in_set_takeD) simp
    ultimately show ?thesis
      using ok pending_keys_take [of "c # candidates_of file" "max 1 n"] unfolding c push_front_def review_ok_def list_all_iff
      by auto
  qed
qed

lemma review_each_keeps:
  assumes "review_each cid upd cs seen = Inr (ds, r)"
    and "\<And>c. cd_status (upd c) \<noteq> ''pending''" "\<And>c. cd_status c = ''pending'' \<Longrightarrow> candidate_ok c \<Longrightarrow> candidate_ok (upd c)"
    and "list_all candidate_ok cs" "distinct (pending_keys cs)"
  shows "length ds = length cs \<and> list_all candidate_ok ds \<and> distinct (pending_keys ds)
    \<and> set (pending_keys ds) \<subseteq> set (pending_keys cs)"
  using assms(1,4,5)
proof (induction cs arbitrary: seen ds)
  case (Cons c cs)
  show ?case
  proof (cases "cd_candidate_id c = cid")
    case False
    with Cons.prems obtain es where "review_each cid upd cs seen = Inr (es, r)" "ds = c # es"
      by (auto split: sum.splits)
    with Cons.IH [of seen es] Cons.prems show ?thesis by (auto simp: pending_keys_def split: if_splits)
  next
    case True
    with Cons.prems obtain es where es: "review_each cid upd cs (Some (upd c)) = Inr (es, r)" "ds = upd c # es"
      and "cd_status c = ''pending''" by (auto simp: REVIEWABLE_STATUSES_def split: sum.splits if_splits)
    with Cons.IH [OF es(1)] Cons.prems assms(2) [of c] assms(3) [of c] show ?thesis
      by (auto simp: pending_keys_def)
  qed
qed (simp add: pending_keys_def)

lemma mark_keeps: "review_ok n (candidates_of file) \<Longrightarrow>
    review_ok n (candidates_of (snd (mark_reviewed clk cid decision rb reason result file)))"
proof -
  assume ok: "review_ok n (candidates_of file)"
  let ?d = "lower (strip decision)"
  define review where "review = [(''decision'', PStr ?d),
              (''reviewed_by'', ostr (nonempty (strip (str_or rb [])))),
              (''reason'', ostr (nonempty (strip (str_or reason [])))),
              (''reviewed_at'', PStr (isoformat clk)),
              (''result'', PDict (sanitize_mapping (or_empty result)))]"
  define upd :: "learning_candidate \<Rightarrow> learning_candidate" where
    "upd = (\<lambda>c. c\<lparr>cd_status := ?d, cd_updated_at := isoformat clk, cd_review := Some review\<rparr>)"
  have m: "mark_reviewed clk cid decision rb reason result file =
     (if ?d \<notin> TERMINAL_STATUSES then (Inl ''unsupported_profile_learning_review_decision'', file)
      else case review_each cid upd (candidates_of file) None of
          Inl e \<Rightarrow> (Inl e, file)
        | Inr (_, None) \<Rightarrow> (Inl ''profile_learning_candidate_not_found'', file)
        | Inr (cs, Some c) \<Rightarrow> (Inr (candidate_dump c), Some (review_save clk ((review_load clk file)\<lparr>rv_candidates := cs\<rparr>))))"
    unfolding mark_reviewed_def Let_def upd_def review_def load_candidates by simp
  show ?thesis
  proof (cases "?d \<in> TERMINAL_STATUSES")
    case True
    have n: "cd_status (upd c) \<noteq> ''pending''" for c using True by (auto simp: upd_def TERMINAL_STATUSES_def)
    have k: "candidate_ok c \<Longrightarrow> candidate_ok (upd c)" for c
      using True by (auto simp: candidate_ok_def upd_def review_def dget_def)
    show ?thesis
    proof (cases "review_each cid upd (candidates_of file) None")
      case (Inr p)
      obtain cs r where p: "p = (cs, r)" by (cases p)
      from review_each_keeps [OF Inr [unfolded p] n k] ok
      have "review_ok n cs" by (auto simp: review_ok_def)
      with ok True show ?thesis
        unfolding m Inr p by (cases r) (simp_all add: candidates_of_def [of "Some _"] review_save_def)
    qed (use ok True m in simp)
  qed (use ok m in simp)
qed

text \<open>C17. However the store is used, it holds at most its limit of candidates; each has evidence above
  the two thresholds with no sensitive field at any depth, is pending without a review or carries the
  one decision it was reviewed with, and no two pending ones belong to the same session and speaker.\<close>

theorem review_store_invariant:
  "review_ok (max 1 n) (candidates_of (fold (review_step rp n) ops None))"
proof -
  have "review_ok (max 1 n) (candidates_of file) \<Longrightarrow>
      review_ok (max 1 n) (candidates_of (fold (review_step rp n) ops file))" for "file"
  proof (induction ops arbitrary: "file")
    case (Cons op ops)
    have "review_ok (max 1 n) (candidates_of (review_step rp n op file))"
      using add_keeps [OF Cons.prems] mark_keeps [OF Cons.prems] by (cases op) (simp_all only: review_step.simps)
    from Cons.IH [OF this] show ?case by simp
  qed simp
  then show ?thesis by (simp add: candidates_of_def review_ok_def pending_keys_def)
qed

text \<open>A candidate that has its review keeps it: a second decision is an error that changes nothing.\<close>

lemma reviewed_once:
  assumes "c \<in> set (candidates_of file)" "cd_candidate_id c = cid" "cd_status c \<noteq> ''pending''"
  shows "\<exists>e. mark_reviewed clk cid decision rb reason result file = (Inl e, file)"
proof -
  have "\<exists>e. review_each cid upd cs seen = Inl e" if "c \<in> set cs" for cs upd seen
    using that
  proof (induction cs arbitrary: seen)
    case (Cons a cs)
    show ?case
    proof (cases "c = a")
      case True
      with assms(2,3) show ?thesis by (simp add: REVIEWABLE_STATUSES_def)
    next
      case False
      with Cons.prems have "c \<in> set cs" by simp
      from Cons.IH [OF this, of seen] Cons.IH [OF this, of "Some (upd a)"] show ?thesis by auto
    qed
  qed simp
  with assms(1) show ?thesis unfolding mark_reviewed_def Let_def load_candidates
    by (metis (no_types, lifting) old.sum.simps(5))
qed

end
