(* ===== verification/TurnPolicy.thy ===== *)
theory TurnPolicy
  imports SessionState Guidance AdminMaintenance AudioQuality ProfileReview
begin

text \<open>
  The policies of the turn pipeline (\<open>voice/pipeline.py\<close>, from \<open>_normalize_speaker_identity_policy\<close>
  on, and \<open>speaker_confidence_tier\<close> of \<open>voice/metric_schemas.py\<close>): which identity a request needs, what
  an endpoint may hear, who may override that, which response is an administrative action, and
  what may be learned about a speaker. All of them are pure functions.
\<close>

section \<open>Values of a turn\<close>

definition PROFILE_LEARNING_MIN_SCORE_MARGIN :: rat where "PROFILE_LEARNING_MIN_SCORE_MARGIN = 8 / 100"
definition PROFILE_LEARNING_AUDIO_DISQUALIFYING_WARNINGS :: "string set" where
  "PROFILE_LEARNING_AUDIO_DISQUALIFYING_WARNINGS =
     {''clipped'', ''low_snr'', ''missing_audio'', ''short_audio'', ''silent'', ''unsupported_audio''}"
definition ENDPOINT_AUDIENCE_MODES :: "string set" where
  "ENDPOINT_AUDIENCE_MODES = {''general'', ''child_safe'', ''teen_safe'', ''adult_unrestricted''}"
definition RESULT_MEDIA_COMMANDS :: "string set" where
  "RESULT_MEDIA_COMMANDS = {''weather.current'', ''weather.forecast'', ''weather.hourly''}"

record speaker_identity =
  si_status :: string
  si_policy :: string
  si_active :: bool
  si_profile_id :: "string option"
  si_speaker_public_id :: "string option"
  si_display_name :: "string option"
  si_confidence :: "rat option"
  si_score :: "rat option"
  si_score_margin :: "rat option"
  si_provider :: "string option"
  si_model_id :: "string option"
  si_age_band :: "string option"
  si_age_restriction_class :: "string option"
  si_admin_eligible :: bool
  si_learning_consent :: bool
  si_learning_eligible :: bool
  si_learning_eligibility_reason :: "string option"
  si_learning_eligibility :: "dict option"
  si_reason :: "string option"
  si_duration_ms :: "rat option"
  si_error :: "string option"

text \<open>\<open>SpeakerIdentityResult(status=..., policy=..., active=..., reason=...)\<close> with the defaults of the rest.\<close>

definition speaker_result :: "string \<Rightarrow> string \<Rightarrow> bool \<Rightarrow> string option \<Rightarrow> speaker_identity" where
  "speaker_result status policy active reason =
     \<lparr>si_status = status, si_policy = policy, si_active = active, si_profile_id = None,
      si_speaker_public_id = None, si_display_name = None, si_confidence = None, si_score = None,
      si_score_margin = None, si_provider = None, si_model_id = None, si_age_band = None,
      si_age_restriction_class = None, si_admin_eligible = False, si_learning_consent = False,
      si_learning_eligible = False, si_learning_eligibility_reason = None, si_learning_eligibility = None,
      si_reason = reason, si_duration_ms = None, si_error = None\<rparr>"

definition speaker_confidence_tier :: "rat option \<Rightarrow> string" where
  "speaker_confidence_tier confidence = (case confidence of None \<Rightarrow> ''none''
     | Some c \<Rightarrow>
       if 95 / 100 \<le> c then ''very_high'' else if 85 / 100 \<le> c then ''high''
       else if 7 / 10 \<le> c then ''medium'' else if 0 < c then ''low'' else ''none'')"

definition speaker_context :: "speaker_identity \<Rightarrow> dict" where
  "speaker_context s =
    [(''schema_version'', PInt 1), (''status'', PStr (si_status s)), (''policy'', PStr (si_policy s)),
     (''active'', PBool (si_active s)), (''profile_id'', ostr (si_profile_id s)),
     (''speaker_public_id'', ostr (si_speaker_public_id s)), (''display_name'', ostr (si_display_name s)),
     (''confidence'', onum (si_confidence s)),
     (''confidence_tier'', PStr (speaker_confidence_tier (si_confidence s))),
     (''score'', onum (si_score s)), (''score_margin'', onum (si_score_margin s)),
     (''provider'', ostr (si_provider s)), (''model_id'', ostr (si_model_id s)),
     (''age_band'', ostr (si_age_band s)), (''age_restriction_class'', ostr (si_age_restriction_class s)),
     (''admin_eligible'', PBool (si_admin_eligible s)), (''learning_consent'', PBool (si_learning_consent s)),
     (''learning_eligible'', PBool (si_learning_eligible s)),
     (''learning_eligibility_reason'', ostr (si_learning_eligibility_reason s)),
     (''learning_eligibility'', odict (si_learning_eligibility s)), (''reason'', ostr (si_reason s)),
     (''duration_ms'', onum (si_duration_ms s)), (''error'', ostr (si_error s))]"

text \<open>
  \<open>AssistantTurnResponse\<close>: the record the session manager reads, extended with the fields only
  the pipeline uses.
\<close>

record turn_response = assistant_response +
  rs_endpoint_id :: string
  rs_session_id :: string
  rs_heard_text :: string
  rs_reply_text :: string
  rs_command :: "string option"
  rs_device_state :: string

text \<open>A response the pipeline makes itself: spoken, handled locally, without a provider call.\<close>

definition local_response ::
    "string \<Rightarrow> string \<Rightarrow> string \<Rightarrow> string \<Rightarrow> string \<Rightarrow> string \<Rightarrow> dict \<Rightarrow> dict \<Rightarrow> turn_response" where
  "local_response endpoint_id session_id heard reply command provider metadata followup =
     \<lparr>ar_spoken_text = reply, ar_handled_locally = True, ar_provider_id = provider, ar_model = None,
      ar_error = None, ar_provider_latency_ms = None, ar_provider_metadata = Some metadata,
      ar_fallback_used = False, ar_fallback_reason = None, ar_intent_latency_ms = None,
      ar_conversation_followup = Some followup, rs_endpoint_id = endpoint_id, rs_session_id = session_id,
      rs_heard_text = heard, rs_reply_text = reply, rs_command = Some command, rs_device_state = ''speaking''\<rparr>"

section \<open>Speaker identity\<close>

definition normalize_speaker_identity_policy :: "string option \<Rightarrow> string" where
  "normalize_speaker_identity_policy value =
     (let policy = lower (strip (str_or value [])) in
      if policy \<in> {''not_required'', ''use_if_ready'', ''required'', ''forbidden''} then policy
      else ''use_if_ready'')"

definition text_requires_speaker_identity :: "string \<Rightarrow> bool" where
  "text_requires_speaker_identity normalized_text \<longleftrightarrow> normalized_text \<noteq> [] \<and>
     list_ex (contains normalized_text)
       [''my calendar'', ''my schedule'', ''my email'', ''my emails'', ''my inbox'', ''my messages'',
        ''my reminders'', ''my account'', ''my profile'', ''my personal'', ''what is on my calendar'',
        ''whats on my calendar'']"

definition speaker_identity_policy ::
    "bool \<Rightarrow> string \<Rightarrow> string \<Rightarrow> string option \<Rightarrow> dict option \<Rightarrow> string" where
  "speaker_identity_policy enabled policy_default text command metadata =
     (let raw_policy = (case metadata of None \<Rightarrow> PNone | Some m \<Rightarrow> dget m ''speaker_identity_policy'');
          cmd = lower (strip (str_or command [])) in
      if \<not> enabled then ''forbidden''
      else (case raw_policy of
          PStr p \<Rightarrow> normalize_speaker_identity_policy (Some p)
        | _ \<Rightarrow>
          if list_ex (startswith cmd) [''timer.'', ''endpoint.'', ''playback.''] \<or> cmd = ''voice.time.query''
          then ''not_required''
          else if text_requires_speaker_identity (phrase_norm text) then ''required''
          else policy_default))"

definition identified :: "speaker_identity \<Rightarrow> bool" where
  "identified s \<longleftrightarrow> si_status s \<in> {''identified'', ''verified''}"

definition speaker_identity_blocks_required_policy :: "string \<Rightarrow> speaker_identity option \<Rightarrow> bool" where
  "speaker_identity_blocks_required_policy policy speaker \<longleftrightarrow>
     policy = ''required'' \<and>
     (case speaker of None \<Rightarrow> True
      | Some s \<Rightarrow> \<not> identified s \<or> str_or (si_speaker_public_id s) [] = [])"

definition speaker_identity_clarification_response ::
    "(pv \<Rightarrow> string) \<Rightarrow> string \<Rightarrow> string \<Rightarrow> string \<Rightarrow> speaker_identity option \<Rightarrow> audio_quality \<Rightarrow> turn_response" where
  "speaker_identity_clarification_response rp endpoint_id session_id transcript speaker quality =
     (let reason = (case speaker of None \<Rightarrow> Some ''speaker_identity_required'' | Some s \<Rightarrow> si_reason s);
          status = (case speaker of None \<Rightarrow> ''missing'' | Some s \<Rightarrow> si_status s);
          guidance = voice_failure_guidance rp ''speaker_identity'' reason
            (map_option speaker_context speaker) (Some (quality_context quality));
          reply = py_str rp (dget guidance ''message'') in
      local_response endpoint_id session_id transcript reply ''speaker.identity.required'' ''speaker_id_policy''
        [(''speaker_identity_policy'', PStr ''required''), (''speaker_identity_status'', PStr status),
         (''speaker_identity_reason'', ostr reason), (''failure_guidance'', PDict guidance)]
        [(''type'', PStr ''speaker_identity_required''), (''status'', PStr status), (''reason'', ostr reason)])"

section \<open>Audience\<close>

definition metadata_flag :: "dict option \<Rightarrow> string \<Rightarrow> bool" where
  "metadata_flag metadata key = (case metadata of None \<Rightarrow> False
     | Some m \<Rightarrow> (case dget m key of PBool b \<Rightarrow> b
         | _ \<Rightarrow> truthy (dget (dict_of (dget m ''audience_policy'')) key)))"

record endpoint_policy =
  ep_audience_mode :: string
  ep_adult_override_enabled :: bool

definition normalized_endpoint_audience_policy :: "(pv \<Rightarrow> string) \<Rightarrow> dict \<Rightarrow> endpoint_policy" where
  "normalized_endpoint_audience_policy rp value =
     (let mode = lower (strip (py_str rp (py_or (dget value ''audience_mode'') (PStr ''general'')))) in
      \<lparr>ep_audience_mode = (if mode \<in> ENDPOINT_AUDIENCE_MODES then mode else ''general''),
       ep_adult_override_enabled = truthy (dget value ''adult_override_enabled'')\<rparr>)"

definition audience_rank :: "string \<Rightarrow> nat" where
  "audience_rank c = (if c = ''child'' then 2 else if c = ''teen'' then 1 else 0)"

definition stricter_audience_class :: "string \<Rightarrow> string option \<Rightarrow> string" where
  "stricter_audience_class endpoint_mode age_band =
     (let mode = lower (strip endpoint_mode); band = lower (strip (str_or age_band ''unknown''));
          by_endpoint = (if mode = ''child_safe'' then ''child'' else if mode = ''teen_safe'' then ''teen'' else ''general'');
          by_speaker = (if band = ''child'' then ''child'' else if band = ''teen'' then ''teen'' else ''general'') in
      if audience_rank by_speaker \<le> audience_rank by_endpoint then by_endpoint else by_speaker)"

definition restricted_terms :: "(string \<times> string list) list" where
  "restricted_terms =
    [(''restricted_adult_content'', ['' sex '', '' sexual '', '' porn '', '' nude '', '' explicit adult '']),
     (''restricted_violent_content'', ['' kill '', '' murder '', '' weapon '', '' gun '', '' bomb '', '' torture '']),
     (''restricted_illegal_content'', ['' buy drugs '', '' steal '', '' break into '', '' hack '', '' bypass password '']),
     (''restricted_self_harm_instruction'', ['' how to self harm '', '' suicide method '', '' hurt myself '']),
     (''restricted_admin_action'', ['' start debug '', '' debug mode '', '' voice enrollment '', '' voice enrolment '',
        '' purge logs '', '' delete logs '', '' pass code '', '' passcode '', '' privacy mode ''])]"

definition restricted_content_reason :: "string \<Rightarrow> string option \<Rightarrow> dict option \<Rightarrow> string option" where
  "restricted_content_reason text command metadata =
     (let cmd = lower (strip (str_or command [])); normalized = phrase_norm text in
      if list_ex (startswith cmd) [''admin.'', ''debug.'', ''privacy.'', ''profile.purge'', ''voice.speaker.enroll'']
      then Some ''restricted_admin_action''
      else if metadata_flag metadata ''admin_maintenance_action'' then Some ''restricted_admin_action''
      else if normalized = [] then None
      else map_option fst (find (\<lambda>(reason, terms). list_ex (contains ('' '' @ normalized @ '' '')) terms) restricted_terms))"

definition adult_admin_override_allowed ::
    "endpoint_policy \<Rightarrow> speaker_identity option \<Rightarrow> dict option \<Rightarrow> string \<Rightarrow> bool" where
  "adult_admin_override_allowed policy speaker metadata reason \<longleftrightarrow>
     (case speaker of None \<Rightarrow> False
      | Some s \<Rightarrow>
        ep_adult_override_enabled policy \<and> si_age_band s = Some ''adult'' \<and> si_admin_eligible s \<and>
        speaker_confidence_tier (si_confidence s) \<in> {''high'', ''very_high''} \<and>
        (reason \<noteq> ''restricted_admin_action'' \<and> \<not> metadata_flag metadata ''admin_maintenance_action''
         \<or> metadata_flag metadata ''admin_passcode_verified''))"

record audience_decision =
  au_blocked :: bool
  au_reason :: "string option"
  au_audience_class :: string
  au_endpoint_audience_mode :: string
  au_override_applied :: bool

definition audience_policy_decision ::
    "endpoint_policy \<Rightarrow> string \<Rightarrow> string option \<Rightarrow> dict option \<Rightarrow> speaker_identity option \<Rightarrow> audience_decision" where
  "audience_policy_decision policy text command metadata speaker =
     (let cls = stricter_audience_class (ep_audience_mode policy) (Option.bind speaker si_age_band);
          pass = \<lparr>au_blocked = False, au_reason = None, au_audience_class = cls,
            au_endpoint_audience_mode = ep_audience_mode policy, au_override_applied = False\<rparr> in
      if cls = ''general'' then pass
      else (case restricted_content_reason text command metadata of
          None \<Rightarrow> pass
        | Some reason \<Rightarrow>
          if adult_admin_override_allowed policy speaker metadata reason then pass\<lparr>au_override_applied := True\<rparr>
          else pass\<lparr>au_blocked := True, au_reason := Some reason\<rparr>))"

definition audience_policy_refusal_response :: "string \<Rightarrow> string \<Rightarrow> string \<Rightarrow> audience_decision \<Rightarrow> turn_response" where
  "audience_policy_refusal_response endpoint_id session_id transcript d =
     (let cls = (if au_audience_class d = [] then ''general'' else au_audience_class d);
          reply = (if cls = ''child''
            then ''I can't help with that from this endpoint. Please ask your grown-up to help.''
            else ''I can't help with that from this endpoint.'') in
      local_response endpoint_id session_id transcript reply ''voice.audience_policy.refused'' ''audience_policy''
        [(''audience_policy'', PDict [(''schema_version'', PInt 1), (''blocked'', PBool True),
           (''reason'', ostr (au_reason d)), (''audience_class'', PStr cls),
           (''endpoint_audience_mode'', PStr (au_endpoint_audience_mode d)), (''override_applied'', PBool False)])]
        [(''type'', PStr ''audience_policy_refusal''), (''reason'', ostr (au_reason d)), (''audience_class'', PStr cls)])"

section \<open>Administrative actions\<close>

definition admin_maintenance_intent_id :: "(pv \<Rightarrow> string) \<Rightarrow> turn_response \<Rightarrow> string option" where
  "admin_maintenance_intent_id rp response =
     (let command = strip (str_or (rs_command response) []);
          metadata = opt_dict (ar_provider_metadata response);
          voice_intent = dict_of (dget metadata ''voice_intent'');
          intent_id = strip (py_str rp (py_or (dget voice_intent ''intent_id'') (PStr [])));
          marked = (\<lambda>k. truthy (dget (dict_of (dget voice_intent k)) ''admin_maintenance_action'')) in
      if startswith command ''admin.'' then Some command
      else if startswith intent_id ''admin.'' then Some intent_id
      else if marked ''metadata'' \<or> marked ''constraints''
        then (if intent_id \<noteq> [] then Some intent_id else nonempty command)
      else None)"

definition admin_maintenance_refusal_response ::
    "(pv \<Rightarrow> string) \<Rightarrow> string \<Rightarrow> string \<Rightarrow> string \<Rightarrow> admin_decision \<Rightarrow> turn_response" where
  "admin_maintenance_refusal_response rp endpoint_id session_id transcript d =
     (let guidance = voice_failure_guidance rp ''admin_maintenance'' (Some (dc_reason d)) None None;
          reply = py_str rp (dget guidance ''message'') in
      local_response endpoint_id session_id transcript reply ''voice.admin_maintenance.refused''
        ''admin_maintenance_policy''
        [(''admin_maintenance'', PDict (decision_metadata d)), (''admin_passcode_verified'', PBool False),
         (''failure_guidance'', PDict guidance)]
        [(''type'', PStr ''admin_maintenance_refusal''), (''reason'', PStr (dc_reason d)),
         (''intent_id'', ostr (dc_intent_id d))])"

definition assistant_response_with_admin_maintenance_metadata ::
    "turn_response \<Rightarrow> admin_decision \<Rightarrow> string \<Rightarrow> turn_response" where
  "assistant_response_with_admin_maintenance_metadata response d heard =
     response\<lparr>rs_heard_text := heard,
       ar_provider_metadata := Some (aput ''admin_passcode_verified'' (PBool True)
         (aput ''admin_maintenance'' (PDict (decision_metadata d)) (opt_dict (ar_provider_metadata response))))\<rparr>"

section \<open>Learning about a speaker\<close>

definition learning_reasons :: "speaker_identity \<Rightarrow> audio_quality \<Rightarrow> string \<Rightarrow> dict option \<Rightarrow> string list" where
  "learning_reasons s quality policy metadata =
     (if policy = ''forbidden'' \<or> metadata_flag metadata ''profile_learning_forbidden'' then [''route_forbids_learning''] else [])
     @ (if \<not> identified s \<or> str_or (si_speaker_public_id s) [] = [] then [''speaker_not_identified''] else [])
     @ (if speaker_confidence_tier (si_confidence s) \<notin> {''high'', ''very_high''} then [''confidence_below_high''] else [])
     @ (case si_score_margin s of None \<Rightarrow> [''missing_score_margin'']
        | Some m \<Rightarrow> if m < PROFILE_LEARNING_MIN_SCORE_MARGIN then [''score_margin_too_low''] else [])
     @ (if \<not> si_learning_consent s then [''missing_learning_consent''] else [])
     @ (if si_reason s = Some ''clarification_guess'' then [''clarification_guess''] else [])
     @ (case filter (\<lambda>w. w \<in> PROFILE_LEARNING_AUDIO_DISQUALIFYING_WARNINGS) (aq_warnings quality) of
          [] \<Rightarrow> [] | w # _ \<Rightarrow> [''audio_quality_'' @ w])"

definition learning_decision :: "bool \<Rightarrow> string \<Rightarrow> string list \<Rightarrow> bool \<Rightarrow> speaker_identity \<Rightarrow> audio_quality \<Rightarrow> string \<Rightarrow> dict" where
  "learning_decision eligible reason reasons consent s quality policy =
    [(''schema_version'', PInt 1), (''eligible'', PBool eligible), (''reason'', PStr reason),
     (''reasons'', PList (map PStr reasons)), (''automatic_learning_enabled'', PBool False),
     (''requires_operator_review'', PBool True),
     (''confidence_tier'', PStr (speaker_confidence_tier (si_confidence s))),
     (''required_confidence_tier'', PStr ''high''), (''score_margin'', onum (si_score_margin s)),
     (''min_score_margin'', PFloat PROFILE_LEARNING_MIN_SCORE_MARGIN),
     (''consent_allows_learning'', PBool consent), (''route_policy'', PStr policy),
     (''audio_quality_status'', PStr (aq_status quality)),
     (''audio_quality_warnings'', PList (map PStr (aq_warnings quality)))]"

definition profile_learning_eligibility_decision ::
    "speaker_identity \<Rightarrow> audio_quality \<Rightarrow> string \<Rightarrow> dict option \<Rightarrow> dict" where
  "profile_learning_eligibility_decision s quality policy metadata =
     (let reasons = learning_reasons s quality policy metadata in
      learning_decision (reasons = [])
        (case reasons of [] \<Rightarrow> ''eligible_for_operator_review'' | r # _ \<Rightarrow> r) reasons (si_learning_consent s) s quality policy)"

definition profile_learning_privacy_mode_decision :: "speaker_identity \<Rightarrow> audio_quality \<Rightarrow> string \<Rightarrow> dict" where
  "profile_learning_privacy_mode_decision s quality policy =
     learning_decision False ''privacy_mode_enabled'' [''privacy_mode_enabled''] False s quality policy"

definition speaker_identity_with_learning_policy ::
    "bool \<Rightarrow> speaker_identity option \<Rightarrow> audio_quality \<Rightarrow> string \<Rightarrow> dict option \<Rightarrow> speaker_identity option" where
  "speaker_identity_with_learning_policy privacy speaker quality policy metadata =
     map_option (\<lambda>s.
       let d = (if privacy then profile_learning_privacy_mode_decision s quality policy
                else profile_learning_eligibility_decision s quality policy metadata) in
       s\<lparr>si_learning_eligible := truthy (dget d ''eligible''),
         si_learning_eligibility_reason := Some (case dget d ''reason'' of PStr r \<Rightarrow> r | _ \<Rightarrow> []),
         si_learning_eligibility := Some d\<rparr>) speaker"

section \<open>Facts\<close>

text \<open>A restricted request on an endpoint for children or teenagers, or by one, is blocked unless an adult overrides.\<close>

lemma audience_blocks: "au_blocked (audience_policy_decision policy text command metadata speaker) \<longleftrightarrow>
   stricter_audience_class (ep_audience_mode policy) (Option.bind speaker si_age_band) \<noteq> ''general'' \<and>
   (\<exists>reason. restricted_content_reason text command metadata = Some reason
     \<and> \<not> adult_admin_override_allowed policy speaker metadata reason)"
  by (auto simp: audience_policy_decision_def Let_def split: option.splits)

lemma refusal_is_not_admin: "admin_maintenance_intent_id rp (audience_policy_refusal_response e s t d) = None"
  by (simp add: admin_maintenance_intent_id_def audience_policy_refusal_response_def local_response_def Let_def
      str_or_def opt_dict_def dget_def py_or_def startswith_def strip_def is_space_def)

lemma admin_refusal_is_not_admin: "admin_maintenance_intent_id rp (admin_maintenance_refusal_response rp' e s t d) = None"
  by (simp add: admin_maintenance_intent_id_def admin_maintenance_refusal_response_def local_response_def Let_def
      str_or_def opt_dict_def dget_def py_or_def startswith_def strip_def is_space_def)

lemma clarification_is_not_admin:
  "admin_maintenance_intent_id rp (speaker_identity_clarification_response rp' e s t sp q) = None"
  by (simp add: admin_maintenance_intent_id_def speaker_identity_clarification_response_def local_response_def Let_def
      str_or_def opt_dict_def dget_def py_or_def startswith_def strip_def is_space_def)

lemma metadata_keeps_intent: "admin_maintenance_intent_id rp
    (assistant_response_with_admin_maintenance_metadata r d h) = admin_maintenance_intent_id rp r"
  by (simp add: admin_maintenance_intent_id_def assistant_response_with_admin_maintenance_metadata_def Let_def
      opt_dict_def)

lemma heard_keeps_intent [simp]: "admin_maintenance_intent_id rp (r\<lparr>rs_heard_text := h\<rparr>) = admin_maintenance_intent_id rp r"
  "admin_maintenance_intent_id rp (r\<lparr>ar_spoken_text := h\<rparr>) = admin_maintenance_intent_id rp r"
  by (simp_all add: admin_maintenance_intent_id_def)

text \<open>In privacy mode nobody is eligible for learning.\<close>

lemma privacy_not_eligible: "speaker_identity_with_learning_policy True speaker quality policy metadata = Some s \<Longrightarrow>
    \<not> si_learning_eligible s"
  by (auto simp: speaker_identity_with_learning_policy_def profile_learning_privacy_mode_decision_def
      learning_decision_def dget_def Let_def)

lemma learning_policy_keeps: "speaker_identity_with_learning_policy privacy speaker quality policy metadata = Some s \<Longrightarrow>
    \<exists>t. speaker = Some t \<and> si_status s = si_status t \<and> si_speaker_public_id s = si_speaker_public_id t
      \<and> si_age_band s = si_age_band t"
  by (auto simp: speaker_identity_with_learning_policy_def Let_def)

end
