(* ===== verification/TurnPipeline.thy ===== *)
theory TurnPipeline
  imports TurnPolicy
begin

text \<open>
  One turn of the pipeline (\<open>VoiceTurnPipeline.complete_turn\<close> in \<open>voice/pipeline.py\<close>): from the audio
  of a session to the answer, its speech and the records of who spoke. The adapters for speech to text and
  text to speech, the assistant, the speaker service and the providers of endpoint settings are parameters
  in \<open>pipe_env\<close>; each may answer differently every time, so an answer is a function of the calls made so far,
  which \<open>tw_calls\<close> lists newest first. The two stores the pipeline writes, for
  administrative maintenance and for profile reviews, are part of the state with their own models.

  The speaker lookup runs on another thread: its result is computed when it is submitted, and every
  \<open>future.result\<close> asks the parameter \<open>pe_ready\<close> whether it is there in time. An assistant or adapter
  that raises ends the turn with its exception and is not modelled; exceptions the code catches are.
  The fields of \<open>pipe_env\<close> are the attributes after \<open>__init__\<close>, with the default policy normalised.
\<close>

section \<open>State and parameters\<close>

record assistant_request =
  ask_endpoint_id :: string
  ask_session_id :: string
  ask_text :: string
  ask_speaker_identity :: "dict option"
  ask_speaker_identity_policy :: string
  ask_speaker_personalization_enabled :: bool

datatype turn_call =
    PerfCounter
  | IdentifyCall dict
  | PollSpeaker bool
  | Transcribe audio_summary
  | FallbackTranscribe audio_summary speech_transcript bool
  | MatchIntent string
  | NoSpeech string
  | HandleTurn assistant_request
  | ReadPolicy string
  | ReadProfile string
  | EvaluateAdmin admin_request
  | EnqueueCandidate candidate_input
  | Synthesize string "string option"
  | VoiceEvent string dict

type_synonym calls = "turn_call list"

record turn_world =
  tw_calls :: calls
  tw_admin :: admin_file
  tw_reviews :: review_file

type_synonym 'a T = "(turn_world, 'a) state"

record pipe_env =
  pe_repr :: "pv \<Rightarrow> string"
  pe_float_text :: "string \<Rightarrow> rat option"
  pe_math :: float_math
  pe_kdf :: kdf
  pe_perf :: "calls \<Rightarrow> rat"
  pe_now :: "calls \<Rightarrow> instant"
  pe_uuid :: "calls \<Rightarrow> nat \<Rightarrow> string"
  pe_wav :: "audio_summary \<Rightarrow> bytes"
  pe_identify :: "calls \<Rightarrow> dict \<Rightarrow> string + dict"
  pe_ready :: "calls \<Rightarrow> bool \<Rightarrow> bool"
  pe_transcribe :: "calls \<Rightarrow> audio_summary \<Rightarrow> speech_transcript"
  pe_fallback :: "(calls \<Rightarrow> audio_summary \<Rightarrow> speech_transcript \<Rightarrow> bool \<Rightarrow> speech_transcript option) option"
  pe_match_policy :: "calls \<Rightarrow> string \<Rightarrow> string option"
  pe_no_speech :: "calls \<Rightarrow> string \<Rightarrow> turn_response"
  pe_handle_turn :: "calls \<Rightarrow> assistant_request \<Rightarrow> turn_response"
  pe_audience_policy :: "calls \<Rightarrow> string \<Rightarrow> dict option"
  pe_quality_profile :: "calls \<Rightarrow> string \<Rightarrow> dict option"
  pe_synthesize :: "calls \<Rightarrow> string \<Rightarrow> string option \<Rightarrow> tts_synthesis"
  pe_endpoint_voices :: "(string \<times> string) list"
  pe_speaker_client :: bool
  pe_speaker_id_enabled :: bool
  pe_speaker_id_policy_default :: string
  pe_speaker_id_endpoint_scope :: "string list"
  pe_personalization_enabled :: bool
  pe_privacy_mode :: bool
  pe_audience_policies :: "(string \<times> dict) list"
  pe_no_speech_statuses :: "string list"
  pe_admin_store :: bool
  pe_review_limit :: "nat option"
  pe_audio_retention :: bool

text \<open>The result of a turn; \<open>session_view\<close> is what the session manager reads of it.\<close>

record voice_turn_result =
  to_transcript :: speech_transcript
  to_response :: turn_response
  to_tts :: tts_synthesis
  to_timings :: turn_timings
  to_speaker_id_ms :: "rat option"
  to_speaker_identity :: "speaker_identity option"
  to_audio_quality :: audio_quality

definition session_view :: "voice_turn_result \<Rightarrow> turn_result" where
  "session_view t =
    \<lparr>tu_transcript = to_transcript t, tu_assistant_response = assistant_response.truncate (to_response t),
     tu_tts = to_tts t, tu_timings = to_timings t,
     tu_speaker_identity = map_option speaker_context (to_speaker_identity t),
     tu_audio_quality = Some (quality_context (to_audio_quality t))\<rparr>"

section \<open>Calls\<close>

text \<open>A call is logged and answered from the calls before it.\<close>

definition ask :: "turn_call \<Rightarrow> (calls \<Rightarrow> 'a) \<Rightarrow> 'a T" where
  "ask c f = do {
     w \<leftarrow> State_Monad.get;
     modify (tw_calls_update (\<lambda>cs. c # cs));
     ret (f (tw_calls w)) }"

definition perf_counter :: "pipe_env \<Rightarrow> rat T" where
  "perf_counter E = ask PerfCounter (pe_perf E)"

definition voice_event :: "string \<Rightarrow> dict \<Rightarrow> unit T" where
  "voice_event ty d = ask (VoiceEvent ty d) (\<lambda>_. ())"

text \<open>\<open>round((time.perf_counter() - started_at) * 1000, 2)\<close>\<close>

definition elapsed_ms :: "pipe_env \<Rightarrow> rat \<Rightarrow> rat T" where
  "elapsed_ms E started = do { t \<leftarrow> perf_counter E; ret (py_round 2 ((t - started) * 1000)) }"

section \<open>Endpoint settings\<close>

definition endpoint_audience_policy :: "pipe_env \<Rightarrow> string \<Rightarrow> endpoint_policy T" where
  "endpoint_audience_policy E ep = do {
     provided \<leftarrow> ask (ReadPolicy ep) (\<lambda>cs. pe_audience_policy E cs ep);
     ret (normalized_endpoint_audience_policy (pe_repr E)
       (case provided of Some d \<Rightarrow> d | None \<Rightarrow> opt_dict (aget (pe_audience_policies E) ep))) }"

definition audio_quality_profile :: "pipe_env \<Rightarrow> string \<Rightarrow> dict T" where
  "audio_quality_profile E ep = do {
     p \<leftarrow> ask (ReadProfile ep) (\<lambda>cs. pe_quality_profile E cs ep); ret (opt_dict p) }"

definition thresholds_of :: "dict \<Rightarrow> audio_thresholds" where
  "thresholds_of p =
     (let v = (\<lambda>k d. case num_of (dget p k) of Some x \<Rightarrow> x | None \<Rightarrow> d) in
      \<lparr>th_min_duration_ms = v ''min_duration_ms'' 300,
       th_active_sample_threshold = v ''active_sample_threshold'' (1 / 100),
       th_silent_peak_threshold = v ''silent_peak_threshold'' (1 / 1000),
       th_silent_rms_threshold = v ''silent_rms_threshold'' (5 / 10000),
       th_low_level_rms_threshold = v ''low_level_rms_threshold'' (15 / 1000),
       th_clipping_ratio_threshold = v ''clipping_ratio_threshold'' (1 / 100),
       th_min_snr_db = v ''min_snr_db'' 15\<rparr>)"

fun split_on :: "char \<Rightarrow> string \<Rightarrow> string list" where
  "split_on sep [] = [[]]"
| "split_on sep (c # s) = (if c = sep then [] # split_on sep s
     else (case split_on sep s of [] \<Rightarrow> [[c]] | w # ws \<Rightarrow> (c # w) # ws))"

definition audio_quality_no_speech_statuses :: "pipe_env \<Rightarrow> string \<Rightarrow> string list T" where
  "audio_quality_no_speech_statuses E ep = do {
     profile \<leftarrow> audio_quality_profile E ep;
     let statuses = filter (\<lambda>s. s \<noteq> []) (map strip
       (case dget profile ''no_speech_statuses'' of
          PStr s \<Rightarrow> split_on (CHR '','') s
        | PList xs \<Rightarrow> map (py_str (pe_repr E)) xs
        | _ \<Rightarrow> []));
     ret (if statuses = [] then pe_no_speech_statuses E else statuses) }"

definition audio_quality_blocks_assistant :: "pipe_env \<Rightarrow> audio_quality \<Rightarrow> string \<Rightarrow> bool T" where
  "audio_quality_blocks_assistant E quality ep = do {
     statuses \<leftarrow> audio_quality_no_speech_statuses E ep; ret (aq_status quality \<in> set statuses) }"

section \<open>Who is speaking\<close>

definition py_float :: "pipe_env \<Rightarrow> pv \<Rightarrow> rat option" where
  "py_float E v = (case v of PStr s \<Rightarrow> pe_float_text E s | _ \<Rightarrow> num_of v)"

definition speaker_identity_result_from_response :: "pipe_env \<Rightarrow> dict \<Rightarrow> string \<Rightarrow> rat \<Rightarrow> speaker_identity" where
  "speaker_identity_result_from_response E response policy duration_ms =
     (let text = py_str (pe_repr E); match = dict_of (dget response ''match'');
          opt = (\<lambda>d k. if truthy (dget d k) then Some (text (dget d k)) else None) in
      \<lparr>si_status = lower (strip (text (py_or (dget response ''status'') (PStr ''unknown'')))),
       si_policy = policy, si_active = True, si_profile_id = opt match ''profile_id'',
       si_speaker_public_id = opt match ''speaker_public_id'', si_display_name = opt match ''display_name'',
       si_confidence = py_float E (dget match ''confidence''), si_score = py_float E (dget match ''score''),
       si_score_margin = py_float E (dget match ''score_margin''), si_provider = opt match ''provider'',
       si_model_id = opt match ''model_id'', si_age_band = opt match ''age_band'',
       si_age_restriction_class = opt match ''age_restriction_class'',
       si_admin_eligible = truthy (dget match ''admin_eligible''),
       si_learning_consent = truthy (dget match ''learning_consent''),
       si_learning_eligible = truthy (dget match ''learning_eligible''),
       si_learning_eligibility_reason = opt match ''learning_eligibility_reason'',
       si_learning_eligibility = (case dget match ''learning_eligibility'' of PDict d \<Rightarrow> Some d | _ \<Rightarrow> None),
       si_reason = opt response ''reason'', si_duration_ms = Some duration_ms, si_error = None\<rparr>)"

definition record_speaker_identity_event :: "audio_summary \<Rightarrow> speaker_identity \<Rightarrow> unit T" where
  "record_speaker_identity_event audio r = voice_event
     (if identified r then ''speaker_id.identified'' else ''speaker_id.unavailable'')
     [(''endpoint_id'', PStr (as_endpoint_id audio)), (''session_id'', PStr (as_session_id audio)),
      (''status'', PStr (si_status r)), (''policy'', PStr (si_policy r)),
      (''speaker_public_id'', ostr (si_speaker_public_id r)), (''display_name'', ostr (si_display_name r)),
      (''confidence'', onum (si_confidence r)), (''score'', onum (si_score r)),
      (''score_margin'', onum (si_score_margin r)), (''provider'', ostr (si_provider r)),
      (''model_id'', ostr (si_model_id r)), (''reason'', ostr (si_reason r)),
      (''duration_ms'', onum (si_duration_ms r)), (''error'', ostr (si_error r)),
      (''learning_consent'', PBool (si_learning_consent r)), (''learning_eligible'', PBool (si_learning_eligible r)),
      (''learning_eligibility_reason'', ostr (si_learning_eligibility_reason r)),
      (''learning_eligibility'', odict (si_learning_eligibility r)), (''privacy_class'', PStr ''biometric''),
      (''contains_biometric_template'', PBool False), (''contains_raw_audio'', PBool False)]"

definition identify_request :: "pipe_env \<Rightarrow> audio_summary \<Rightarrow> bytes \<Rightarrow> dict" where
  "identify_request E audio wav =
    [(''schema_version'', PInt 1), (''request_id'', PStr (''speaker-identify-'' @ as_session_id audio)),
     (''audio'', PDict
       [(''sample_id'', PStr (as_session_id audio @ ''-turn'')), (''audio_base64'', PStr (b64encode wav)),
        (''sample_rate_hz'', oint (as_sample_rate_hz audio)), (''encoding'', PStr ''wav'')])]"

definition run_identify_speaker :: "pipe_env \<Rightarrow> audio_summary \<Rightarrow> speaker_identity T" where
  "run_identify_speaker E audio = do {
     started \<leftarrow> perf_counter E;
     let policy = pe_speaker_id_policy_default E;
     let wav = pe_wav E audio;
     let req = identify_request E audio wav;
     let unavailable = speaker_result ''unavailable'' policy False;
     if \<not> pe_speaker_client E then ret (speaker_result ''unavailable'' ''forbidden'' False (Some ''client_not_configured''))
     else if wav = [] then do {
       ms \<leftarrow> elapsed_ms E started;
       let r = (unavailable (Some ''no_audio''))\<lparr>si_duration_ms := Some ms\<rparr>;
       record_speaker_identity_event audio r;
       ret r }
     else do {
       response \<leftarrow> ask (IdentifyCall req) (\<lambda>cs. pe_identify E cs req);
       ms \<leftarrow> elapsed_ms E started;
       let r = (case response of
           Inl err \<Rightarrow> (unavailable (Some ''service_error''))\<lparr>si_duration_ms := Some ms, si_error := Some err\<rparr>
         | Inr d \<Rightarrow> speaker_identity_result_from_response E d policy ms);
       record_speaker_identity_event audio r;
       ret r } }"

definition out_of_scope :: "pipe_env \<Rightarrow> audio_summary \<Rightarrow> bool" where
  "out_of_scope E audio \<longleftrightarrow>
     pe_speaker_id_endpoint_scope E \<noteq> [] \<and> as_endpoint_id audio \<notin> set (pe_speaker_id_endpoint_scope E)"

definition identify_speaker :: "pipe_env \<Rightarrow> audio_summary \<Rightarrow> speaker_identity T" where
  "identify_speaker E audio =
     (let policy = pe_speaker_id_policy_default E in
      if \<not> pe_speaker_id_enabled E then ret (speaker_result ''disabled'' policy False (Some ''disabled''))
      else if pe_privacy_mode E then ret (speaker_result ''skipped'' policy False (Some ''privacy_mode_enabled''))
      else if out_of_scope E audio then ret (speaker_result ''skipped'' policy False (Some ''endpoint_out_of_scope''))
      else run_identify_speaker E audio)"

definition start_speaker_identity :: "pipe_env \<Rightarrow> audio_summary \<Rightarrow> speaker_identity option T" where
  "start_speaker_identity E audio =
     (if \<not> pe_speaker_id_enabled E \<or> \<not> pe_speaker_client E \<or> pe_privacy_mode E \<or> out_of_scope E audio
      then ret None else do { r \<leftarrow> run_identify_speaker E audio; ret (Some r) })"

definition speaker_identity_for_policy ::
    "pipe_env \<Rightarrow> audio_summary \<Rightarrow> speaker_identity option \<Rightarrow> string \<Rightarrow> speaker_identity option
     \<Rightarrow> speaker_identity option T" where
  "speaker_identity_for_policy E audio future raw_policy current =
     (let policy = normalize_speaker_identity_policy (Some raw_policy);
          settled = (case current of None \<Rightarrow> None | Some s \<Rightarrow> if si_status s = ''pending'' then None else Some s);
          answer = (\<lambda>status active reason. ret (Some (speaker_result status policy active (Some reason)))) in
      if policy = ''forbidden'' then answer ''skipped'' False ''policy_forbidden''
      else if pe_privacy_mode E then answer ''skipped'' False ''privacy_mode_enabled''
      else if \<not> pe_speaker_id_enabled E then answer ''disabled'' False ''disabled''
      else if out_of_scope E audio then answer ''skipped'' False ''endpoint_out_of_scope''
      else (case settled of
          Some s \<Rightarrow> ret (Some (s\<lparr>si_policy := policy\<rparr>))
        | None \<Rightarrow> (case future of
            None \<Rightarrow> answer ''unavailable'' False ''not_started''
          | Some r \<Rightarrow> do {
              ready \<leftarrow> ask (PollSpeaker (policy = ''required'')) (\<lambda>cs. pe_ready E cs (policy = ''required''));
              if ready then ret (Some (r\<lparr>si_policy := policy\<rparr>))
              else if policy = ''required'' then answer ''timeout'' True ''timeout''
              else answer ''pending'' True ''not_ready'' })))"

definition identity_policy :: "pipe_env \<Rightarrow> string \<Rightarrow> string option \<Rightarrow> dict option \<Rightarrow> string" where
  "identity_policy E text command metadata =
     speaker_identity_policy (pe_speaker_id_enabled E) (pe_speaker_id_policy_default E) text command metadata"

definition local_intent_speaker_identity_policy :: "pipe_env \<Rightarrow> string \<Rightarrow> string option T" where
  "local_intent_speaker_identity_policy E text =
     (if text = [] then ret None
      else do {
        policy \<leftarrow> ask (MatchIntent text) (\<lambda>cs. pe_match_policy E cs text);
        ret (case policy of None \<Rightarrow> None
          | Some p \<Rightarrow> if strip p = [] then None else Some (normalize_speaker_identity_policy (Some p))) })"

definition speaker_identity_for_audience_override ::
    "pipe_env \<Rightarrow> audio_summary \<Rightarrow> speaker_identity option \<Rightarrow> string \<Rightarrow> string option \<Rightarrow> dict option
     \<Rightarrow> speaker_identity option \<Rightarrow> speaker_identity option T" where
  "speaker_identity_for_audience_override E audio future text command metadata current = do {
     policy \<leftarrow> endpoint_audience_policy E (as_endpoint_id audio);
     if ep_audience_mode policy \<notin> {''child_safe'', ''teen_safe''} \<or> \<not> ep_adult_override_enabled policy then ret current
     else if restricted_content_reason text command metadata = None then ret current
     else if (case current of None \<Rightarrow> False | Some s \<Rightarrow> identified s) then ret current
     else speaker_identity_for_policy E audio future ''required'' current }"

definition audience_decision_for ::
    "pipe_env \<Rightarrow> audio_summary \<Rightarrow> string \<Rightarrow> string option \<Rightarrow> dict option \<Rightarrow> speaker_identity option
     \<Rightarrow> audience_decision T" where
  "audience_decision_for E audio text command metadata speaker = do {
     policy \<leftarrow> endpoint_audience_policy E (as_endpoint_id audio);
     ret (audience_policy_decision policy text command metadata speaker) }"

section \<open>The answer\<close>

definition build_request :: "pipe_env \<Rightarrow> audio_summary \<Rightarrow> string \<Rightarrow> string \<Rightarrow> speaker_identity option \<Rightarrow> assistant_request" where
  "build_request E audio text policy speaker =
     \<lparr>ask_endpoint_id = as_endpoint_id audio, ask_session_id = as_session_id audio,
      ask_text = (if text = [] then '' '' else text),
      ask_speaker_identity = (case speaker of None \<Rightarrow> None
        | Some s \<Rightarrow> if identified s \<and> policy \<noteq> ''forbidden'' \<and> (policy = ''required'' \<or> pe_personalization_enabled E)
            then Some (speaker_context s) else None),
      ask_speaker_identity_policy = policy,
      ask_speaker_personalization_enabled = pe_personalization_enabled E\<rparr>"

text \<open>
  The block \<open>complete_turn\<close> runs on the transcript and again on the fallback transcript: the
  identity policy, the identity, and what the audience may hear, before the assistant is asked.
\<close>

record judgement =
  jd_policy :: string
  jd_speaker :: "speaker_identity option"
  jd_audience :: audience_decision

definition judge :: "pipe_env \<Rightarrow> audio_summary \<Rightarrow> speaker_identity option \<Rightarrow> audio_quality \<Rightarrow> string
    \<Rightarrow> speaker_identity option \<Rightarrow> judgement T" where
  "judge E audio future quality text current = do {
     local_policy \<leftarrow> local_intent_speaker_identity_policy E text;
     let policy = str_or local_policy (identity_policy E text None None);
     s1 \<leftarrow> speaker_identity_for_policy E audio future policy current;
     s2 \<leftarrow> speaker_identity_for_audience_override E audio future text None None s1;
     let s3 = speaker_identity_with_learning_policy (pe_privacy_mode E) s2 quality policy None;
     audience \<leftarrow> audience_decision_for E audio text None None s3;
     ret \<lparr>jd_policy = policy, jd_speaker = s3, jd_audience = audience\<rparr> }"

definition clarify :: "pipe_env \<Rightarrow> audio_summary \<Rightarrow> string \<Rightarrow> speaker_identity option \<Rightarrow> audio_quality \<Rightarrow> turn_response" where
  "clarify E audio text speaker quality =
     speaker_identity_clarification_response (pe_repr E) (as_endpoint_id audio) (as_session_id audio) text speaker quality"

definition answer_if_permitted :: "pipe_env \<Rightarrow> audio_summary \<Rightarrow> audio_quality \<Rightarrow> string \<Rightarrow> judgement \<Rightarrow> turn_response T" where
  "answer_if_permitted E audio quality text j =
     (let req = build_request E audio text (jd_policy j) (jd_speaker j) in
      if au_blocked (jd_audience j) then ret (audience_policy_refusal_response (as_endpoint_id audio)
          (as_session_id audio) text (jd_audience j))
      else if speaker_identity_blocks_required_policy (jd_policy j) (jd_speaker j)
        then ret (clarify E audio text (jd_speaker j) quality)
      else ask (HandleTurn req) (\<lambda>cs. pe_handle_turn E cs req))"

definition heard_by_assistant :: "speech_transcript \<Rightarrow> turn_response \<Rightarrow> speech_transcript" where
  "heard_by_assistant t r = (if rs_heard_text r \<noteq> tr_text t then t\<lparr>tr_text := rs_heard_text r\<rparr> else t)"

definition stt_event :: "audio_summary \<Rightarrow> speech_transcript \<Rightarrow> rat \<Rightarrow> dict" where
  "stt_event audio t stt_ms =
    [(''endpoint_id'', PStr (as_endpoint_id audio)), (''session_id'', PStr (as_session_id audio)),
     (''provider_id'', PStr (tr_provider_id t)), (''model'', ostr (tr_model t)),
     (''confidence'', onum (tr_confidence t)), (''duration_ms'', onum (tr_duration_ms t)),
     (''text_chars'', PInt (int (length (tr_text t)))),
     (''transcript_text'', PStr (redact_spoken_passcodes (tr_text t))), (''error'', ostr (tr_error t)),
     (''chunk_count'', PInt (int (as_chunk_count audio))), (''stt_ms'', PFloat stt_ms)]"

definition failed_transcript :: "speech_transcript \<Rightarrow> bool" where
  "failed_transcript t \<longleftrightarrow> str_or (tr_error t) [] \<noteq> []"

section \<open>The turn in stages\<close>

record turn_state =
  tn_transcript :: speech_transcript
  tn_stt_ms :: rat
  tn_response :: turn_response
  tn_policy :: string
  tn_speaker :: "speaker_identity option"

text \<open>The transcript, and the lookup of the speaker started beside it.\<close>

definition hear_turn :: "pipe_env \<Rightarrow> audio_summary \<Rightarrow> audio_quality
    \<Rightarrow> (speaker_identity option \<times> speech_transcript \<times> rat) T" where
  "hear_turn E audio quality = do {
     future \<leftarrow> start_speaker_identity E audio;
     started \<leftarrow> perf_counter E;
     t \<leftarrow> ask (Transcribe audio) (\<lambda>cs. pe_transcribe E cs audio);
     stt_ms \<leftarrow> elapsed_ms E started;
     voice_event (if failed_transcript t then ''stt.failed'' else ''stt.completed'')
       (stt_event audio t stt_ms @ [(''audio_quality'', PDict (quality_context quality))]);
     ret (future, t, stt_ms) }"

definition first_answer :: "pipe_env \<Rightarrow> audio_summary \<Rightarrow> audio_quality \<Rightarrow> speaker_identity option
    \<Rightarrow> speech_transcript \<Rightarrow> rat \<Rightarrow> (turn_state \<times> bool) T" where
  "first_answer E audio quality future t stt_ms = do {
     j \<leftarrow> judge E audio future quality (tr_text t) None;
     silent \<leftarrow> audio_quality_blocks_assistant E quality (as_endpoint_id audio);
     r \<leftarrow> (if silent then let reason = ''audio_quality_'' @ aq_status quality in
              ask (NoSpeech reason) (\<lambda>cs. pe_no_speech E cs reason)
           else answer_if_permitted E audio quality (tr_text t) j);
     ret (\<lparr>tn_transcript = heard_by_assistant t r, tn_stt_ms = stt_ms, tn_response = r,
           tn_policy = jd_policy j, tn_speaker = jd_speaker j\<rparr>,
          \<not> silent \<and> \<not> au_blocked (jd_audience j)
          \<and> \<not> speaker_identity_blocks_required_policy (jd_policy j) (jd_speaker j)) }"

text \<open>A second engine may transcribe again; then everything is judged and answered anew.\<close>

definition fallback_answer :: "pipe_env \<Rightarrow> audio_summary \<Rightarrow> audio_quality \<Rightarrow> speaker_identity option
    \<Rightarrow> bool \<Rightarrow> turn_state \<Rightarrow> turn_state T" where
  "fallback_answer E audio quality future permitted s =
     (case pe_fallback E of
        None \<Rightarrow> ret s
      | Some transcribe_again \<Rightarrow>
        if \<not> permitted then ret s
        else do {
          started \<leftarrow> perf_counter E;
          let matched = (str_or (rs_command (tn_response s)) [] \<noteq> []);
          fallback \<leftarrow> ask (FallbackTranscribe audio (tn_transcript s) matched)
            (\<lambda>cs. transcribe_again cs audio (tn_transcript s) matched);
          case fallback of
            None \<Rightarrow> ret s
          | Some t \<Rightarrow> do {
              ms \<leftarrow> elapsed_ms E started;
              voice_event (if failed_transcript t then ''stt.fallback.failed'' else ''stt.fallback.completed'')
                (stt_event audio t ms @ [(''primary_model'', ostr (tr_model (tn_transcript s))),
                  (''primary_text'', PStr (redact_spoken_passcodes (tr_text (tn_transcript s))))]);
              j \<leftarrow> judge E audio future quality (tr_text t) (tn_speaker s);
              r \<leftarrow> answer_if_permitted E audio quality (tr_text t) j;
              ret \<lparr>tn_transcript = heard_by_assistant t r, tn_stt_ms = py_round 2 (tn_stt_ms s + ms),
                tn_response = r, tn_policy = jd_policy j, tn_speaker = jd_speaker j\<rparr> } })"

text \<open>The policy is settled again with the command and metadata of the answer.\<close>

definition settle_identity :: "pipe_env \<Rightarrow> audio_summary \<Rightarrow> audio_quality \<Rightarrow> speaker_identity option
    \<Rightarrow> turn_state \<Rightarrow> turn_state T" where
  "settle_identity E audio quality future s = do {
     let text = tr_text (tn_transcript s);
     let r = tn_response s;
     let policy = identity_policy E text (rs_command r) (ar_provider_metadata r);
     s1 \<leftarrow> (if policy = tn_policy s then ret s
            else do {
              sp \<leftarrow> speaker_identity_for_policy E audio future policy (tn_speaker s);
              ret (s\<lparr>tn_policy := policy, tn_speaker := sp,
                tn_response := (if speaker_identity_blocks_required_policy policy sp
                  then clarify E audio text sp quality else r)\<rparr>) });
     sp \<leftarrow> speaker_identity_for_audience_override E audio future text (rs_command (tn_response s1))
       (ar_provider_metadata (tn_response s1)) (tn_speaker s1);
     ret (s1\<lparr>tn_speaker := speaker_identity_with_learning_policy (pe_privacy_mode E) sp quality (tn_policy s1)
       (ar_provider_metadata (tn_response s1))\<rparr>) }"

definition admin_maintenance_decision :: "pipe_env \<Rightarrow> string \<Rightarrow> turn_response \<Rightarrow> speaker_identity option
    \<Rightarrow> audio_quality \<Rightarrow> admin_decision option T" where
  "admin_maintenance_decision E text r speaker quality =
     (case admin_maintenance_intent_id (pe_repr E) r of
        None \<Rightarrow> ret None
      | Some intent \<Rightarrow>
        if \<not> pe_admin_store E then ret (Some \<lparr>dc_allowed = False, dc_reason = ''admin_maintenance_store_unavailable'',
            dc_intent_id = Some intent, dc_locked_until = None\<rparr>)
        else do {
          w \<leftarrow> State_Monad.get;
          let rq = \<lparr>rq_text = text, rq_intent_id = Some intent,
                rq_speaker_identity = map_option speaker_context speaker,
                rq_audio_quality = Some (quality_context quality)\<rparr>;
          let p = admin_evaluate (pe_kdf E) (pe_repr E) (pe_now E (tw_calls w)) None rq (tw_admin w);
          ask (EvaluateAdmin rq) (\<lambda>_. ());
          modify (tw_admin_update (\<lambda>_. snd p));
          ret (Some (fst p)) })"

definition authorize_admin :: "pipe_env \<Rightarrow> audio_summary \<Rightarrow> audio_quality \<Rightarrow> turn_state \<Rightarrow> turn_state T" where
  "authorize_admin E audio quality s = do {
     d \<leftarrow> admin_maintenance_decision E (tr_text (tn_transcript s)) (tn_response s) (tn_speaker s) quality;
     ret (case d of None \<Rightarrow> s
       | Some d \<Rightarrow>
         let redacted = redact_spoken_passcodes (tr_text (tn_transcript s)) in
         s\<lparr>tn_transcript := (tn_transcript s)\<lparr>tr_text := redacted\<rparr>,
           tn_response := (if \<not> dc_allowed d
             then admin_maintenance_refusal_response (pe_repr E) (as_endpoint_id audio) (as_session_id audio) redacted d
             else assistant_response_with_admin_maintenance_metadata (tn_response s) d redacted)\<rparr>) }"

text \<open>The last word of the audience policy, and the redaction of what was heard.\<close>

definition apply_audience :: "pipe_env \<Rightarrow> audio_summary \<Rightarrow> turn_state \<Rightarrow> turn_state T" where
  "apply_audience E audio s = do {
     let text = tr_text (tn_transcript s);
     let redacted = redact_spoken_passcodes text;
     d \<leftarrow> audience_decision_for E audio text (rs_command (tn_response s)) (ar_provider_metadata (tn_response s)) (tn_speaker s);
     let r = (if au_blocked d then audience_policy_refusal_response (as_endpoint_id audio) (as_session_id audio) redacted d
              else tn_response s);
     ret (s\<lparr>tn_transcript := (tn_transcript s)\<lparr>tr_text := redacted\<rparr>, tn_response := r\<lparr>rs_heard_text := redacted\<rparr>\<rparr>) }"

definition learning_evidence :: "speaker_identity \<Rightarrow> audio_quality \<Rightarrow> turn_response \<Rightarrow> speech_transcript \<Rightarrow> dict" where
  "learning_evidence sp quality r t =
    [(''schema_version'', PInt 1), (''learning_eligible'', PBool True),
     (''learning_eligibility_reason'', ostr (si_learning_eligibility_reason sp)),
     (''learning_eligibility'', odict (si_learning_eligibility sp)),
     (''speaker_public_id'', ostr (si_speaker_public_id sp)), (''display_name'', ostr (si_display_name sp)),
     (''profile_id'', ostr (si_profile_id sp)), (''confidence'', onum (si_confidence sp)),
     (''score'', onum (si_score sp)), (''score_margin'', onum (si_score_margin sp)),
     (''confidence_tier'', PStr (speaker_confidence_tier (si_confidence sp))),
     (''provider'', ostr (si_provider sp)), (''model_id'', ostr (si_model_id sp)),
     (''audio_quality'', PDict (quality_context quality)),
     (''intent'', PDict [(''command'', ostr (rs_command r)), (''provider_id'', PStr (ar_provider_id r)),
        (''handled_locally'', PBool (ar_handled_locally r))]),
     (''transcript'', PDict [(''text'', PStr (redact_spoken_passcodes (tr_text t))),
        (''text_chars'', PInt (int (length (tr_text t)))), (''provider_id'', PStr (tr_provider_id t)),
        (''model'', ostr (tr_model t)), (''confidence'', onum (tr_confidence t))]),
     (''automatic_learning_enabled'', PBool False), (''requires_operator_review'', PBool True)]"

definition learning_sample :: "pipe_env \<Rightarrow> calls \<Rightarrow> audio_summary \<Rightarrow> dict option" where
  "learning_sample E cs audio =
     (if pe_audio_retention E \<and> as_audio_bytes audio \<noteq> [] then Some
       [(''sample_id'', PStr (as_session_id audio @ ''-profile-learning'')),
        (''audio_base64'', PStr (b64encode (as_audio_bytes audio))),
        (''sample_rate_hz'', oint (as_sample_rate_hz audio)), (''encoding'', ostr (as_encoding audio)),
        (''raw_audio_policy'', PStr ''debug_retention_one_day''),
        (''expires_at'', PStr (isoformat (pe_now E cs + us_per_day)))]
      else None)"

definition enqueue_profile_learning_candidate :: "pipe_env \<Rightarrow> audio_summary \<Rightarrow> audio_quality \<Rightarrow> turn_state \<Rightarrow> unit T" where
  "enqueue_profile_learning_candidate E audio quality s =
     (case (pe_review_limit E, tn_speaker s) of
        (Some limit, Some sp) \<Rightarrow>
          if \<not> si_learning_eligible sp \<or> str_or (si_speaker_public_id sp) [] = [] then ret ()
          else do {
            w \<leftarrow> State_Monad.get;
            let cs = tw_calls w;
            let inp = \<lparr>ci_speaker_public_id = str_or (si_speaker_public_id sp) [], ci_display_name = si_display_name sp,
                  ci_profile_id = si_profile_id sp, ci_session_id = Some (as_session_id audio),
                  ci_endpoint_id = Some (as_endpoint_id audio),
                  ci_evidence = Some (learning_evidence sp quality (tn_response s) (tn_transcript s)),
                  ci_sample = learning_sample E cs audio\<rparr>;
            ask (EnqueueCandidate inp) (\<lambda>_. ());
            modify (tw_reviews_update (\<lambda>f. snd (add_candidate (pe_repr E) limit (pe_now E cs)
              (pe_uuid E cs 0) (pe_uuid E cs 1) inp f))) }
      | _ \<Rightarrow> ret ())"

definition result_media_tts :: tts_synthesis where
  "result_media_tts = \<lparr>ts_content_type = ''audio/wav'', ts_stream_id = None, ts_audio_url = None,
     ts_endpoint_audio_url = None, ts_audio_urls = [], ts_provider_id = ''result_media'', ts_model_id = None,
     ts_voice_id = None, ts_audio_variant = None, ts_audio_variants = [], ts_planned_audio_variants = [],
     ts_pending_audio_variants = [], ts_conversion_policy = None, ts_raw_audio_path = None,
     ts_raw_sample_rate_hz = None, ts_audio_variant_sample_rate_hz = None,
     ts_audio_variant_source_sample_rate_hz = None, ts_output_sample_rate_hz = None,
     ts_variant_sample_rates_hz = [], ts_timing_breakdown_ms = [], ts_metadata_path = None, ts_expires_at = None,
     ts_ttl_seconds = None, ts_error = None\<rparr>"

text \<open>A result shown as media is not spoken.\<close>

definition speak_answer :: "pipe_env \<Rightarrow> audio_summary \<Rightarrow> turn_response \<Rightarrow> (turn_response \<times> tts_synthesis \<times> rat) T" where
  "speak_answer E audio r =
     (if ar_handled_locally r \<and> str_or (rs_command r) [] \<in> RESULT_MEDIA_COMMANDS
      then ret (r\<lparr>ar_spoken_text := []\<rparr>, result_media_tts, 0)
      else do {
        started \<leftarrow> perf_counter E;
        let voice = aget (pe_endpoint_voices E) (as_endpoint_id audio);
        tts \<leftarrow> ask (Synthesize (ar_spoken_text r) voice) (\<lambda>cs. pe_synthesize E cs (ar_spoken_text r) voice);
        ms \<leftarrow> elapsed_ms E started;
        ret (r, tts, ms) })"

definition analyze_turn_audio :: "pipe_env \<Rightarrow> audio_summary \<Rightarrow> audio_quality T" where
  "analyze_turn_audio E audio = do {
     profile \<leftarrow> audio_quality_profile E (as_endpoint_id audio);
     ret (analyze_pcm_s16le_audio (pe_math E) (Some (as_audio_bytes audio)) (as_sample_rate_hz audio)
       (as_channels audio) (as_encoding audio) (as_ambient_audio_bytes audio) (as_endpoint_audio_metrics audio)
       (thresholds_of profile)) }"

definition complete_turn :: "pipe_env \<Rightarrow> audio_summary \<Rightarrow> voice_turn_result T" where
  "complete_turn E audio = do {
     turn_started \<leftarrow> perf_counter E;
     quality \<leftarrow> analyze_turn_audio E audio;
     (future, t, stt_ms) \<leftarrow> hear_turn E audio quality;
     assistant_started \<leftarrow> perf_counter E;
     (s1, permitted) \<leftarrow> first_answer E audio quality future t stt_ms;
     s2 \<leftarrow> fallback_answer E audio quality future permitted s1;
     s3 \<leftarrow> settle_identity E audio quality future s2;
     s4 \<leftarrow> authorize_admin E audio quality s3;
     s5 \<leftarrow> apply_audience E audio s4;
     enqueue_profile_learning_candidate E audio quality s5;
     assistant_ms \<leftarrow> elapsed_ms E assistant_started;
     (r, tts, tts_ms) \<leftarrow> speak_answer E audio (tn_response s5);
     total_ms \<leftarrow> elapsed_ms E turn_started;
     ret \<lparr>to_transcript = tn_transcript s5, to_response = r, to_tts = tts,
       to_timings = \<lparr>tm_stt_ms = tn_stt_ms s5, tm_assistant_ms = assistant_ms, tm_tts_ms = tts_ms,
         tm_total_ms = total_ms\<rparr>,
       to_speaker_id_ms = Option.bind (tn_speaker s5) si_duration_ms,
       to_speaker_identity = tn_speaker s5, to_audio_quality = quality\<rparr> }"

section \<open>Other operations\<close>

definition transcribe_audio :: "pipe_env \<Rightarrow> audio_summary \<Rightarrow> speech_transcript T" where
  "transcribe_audio E audio = do {
     started \<leftarrow> perf_counter E;
     t \<leftarrow> ask (Transcribe audio) (\<lambda>cs. pe_transcribe E cs audio);
     ms \<leftarrow> elapsed_ms E started;
     voice_event (if failed_transcript t then ''stt.failed'' else ''stt.completed'')
       (stt_event audio t ms @ [(''interrupt_only'', PBool True)]);
     ret t }"

definition pipeline_synthesize_reply :: "pipe_env \<Rightarrow> string \<Rightarrow> string \<Rightarrow> string option \<Rightarrow> tts_synthesis T" where
  "pipeline_synthesize_reply E endpoint_id text voice =
     (let v = (case voice of Some x \<Rightarrow> if x = [] then aget (pe_endpoint_voices E) endpoint_id else Some x
               | None \<Rightarrow> aget (pe_endpoint_voices E) endpoint_id) in
      ask (Synthesize text v) (\<lambda>cs. pe_synthesize E cs text v))"

definition update_endpoint_voices :: "(string \<times> string) list \<Rightarrow> pipe_env \<Rightarrow> pipe_env" where
  "update_endpoint_voices voices E = E\<lparr>pe_endpoint_voices := voices\<rparr>"

definition engine_status :: "pipe_env \<Rightarrow> string \<Rightarrow> dict \<Rightarrow> string \<Rightarrow> dict" where
  "engine_status E role status fallback_implementation =
     (let provider = py_str (pe_repr E) (py_or (py_or (dget status ''provider'') (PStr fallback_implementation)) (PStr ''unknown''));
          flag = (\<lambda>k. PBool (case aget status k of None \<Rightarrow> True | Some v \<Rightarrow> truthy v));
          health = [(''engine_role'', PStr role), (''active_implementation'', PStr provider), (''provider'', PStr provider),
            (''model'', py_or (dget status ''model'') (dget status ''model_id'')), (''healthy'', flag ''healthy''),
            (''configured'', flag ''configured''), (''last_error'', py_or (dget status ''last_error'') (dget status ''error''))] in
      aput ''implementation_health'' (PDict health) (aput ''implementation'' (PStr provider)
        (aput ''engine_role'' (PStr role) status)))"

text \<open>\<open>status\<close>, with the reports of the assistant and the two adapters.\<close>

definition pipeline_status :: "pipe_env \<Rightarrow> dict \<Rightarrow> dict \<Rightarrow> dict \<Rightarrow> dict" where
  "pipeline_status E assistant stt tts0 =
     (let named = truthy (dget tts0 ''model'') \<or> truthy (dget tts0 ''model_id'') \<or> truthy (dget tts0 ''voice'');
          tts = (case pe_endpoint_voices E of
              (_, v) # _ \<Rightarrow> if \<not> named \<and> v \<noteq> [] then aput ''model'' (PStr v) tts0 else tts0
            | [] \<Rightarrow> tts0);
          engine = (\<lambda>role s. PDict (engine_status E role s (py_str (pe_repr E) (py_or (dget s ''provider'') (PStr ''unknown'')))));
          private = pe_privacy_mode E in
      [(''assistant'', PDict assistant), (''stt'', engine ''stt_engine'' stt), (''tts'', engine ''tts_engine'' tts),
       (''endpoint_voices'', PDict (map (\<lambda>(e, v). (e, PStr v)) (pe_endpoint_voices E))),
       (''speaker_id'', PDict
         [(''enabled'', PBool (pe_speaker_id_enabled E \<and> \<not> private)),
          (''configured_enabled'', PBool (pe_speaker_id_enabled E)),
          (''policy_default'', PStr (pe_speaker_id_policy_default E)),
          (''endpoint_scope'', PList (map PStr (sort (remdups (pe_speaker_id_endpoint_scope E))))),
          (''personalization_enabled'', PBool (pe_personalization_enabled E)),
          (''configured'', PBool (pe_speaker_client E)),
          (''blocked_reason'', if private then PStr ''privacy_mode_enabled'' else PNone)]),
       (''profile_learning_review'', PDict
         [(''configured'', PBool (pe_review_limit E \<noteq> None)), (''automatic_learning_enabled'', PBool False),
          (''audio_retention_enabled'', PBool (pe_audio_retention E))]),
       (''privacy_mode'', PDict
         [(''enabled'', PBool private), (''speaker_id_lookup_blocked'', PBool private),
          (''profile_learning_eligibility_blocked'', PBool private)]),
       (''endpoint_audience_policies'', PDict (map (\<lambda>(e, p). (e, PDict p)) (pe_audience_policies E)))])"

end
