(* ===== verification/TurnSafety.thy ===== *)
theory TurnSafety
  imports TurnPipeline SpokenCodes
begin

text \<open>
  What a whole turn guarantees: who authorises an administrative action, that privacy mode keeps
  the speaker unknown, that an endpoint for children never passes restricted requests on, that audio
  without speech is not answered, and that spoken passcodes do not leave the turn in the forms the
  redaction knows.
\<close>

section \<open>Results and calls of an operation\<close>

text \<open>\<open>yields F m\<close>: every run of \<open>m\<close> has a result in \<open>F\<close> and moves the state along the relation.\<close>

context evolution begin

definition yields :: "('a \<Rightarrow> bool) \<Rightarrow> ('s, 'a) state \<Rightarrow> bool" where
  "yields F m \<longleftrightarrow> (\<forall>s. F (fst (run_state m s)) \<and> R s (snd (run_state m s)))"

lemma yields_ret: "F a \<Longrightarrow> yields F (ret a)"
  by (simp add: yields_def refl_R)

lemma yields_get: "(\<And>s. F s) \<Longrightarrow> yields F State_Monad.get"
  by (simp add: yields_def refl_R)

lemma yields_bind:
  "yields G m \<Longrightarrow> (\<And>a. G a \<Longrightarrow> yields F (f a)) \<Longrightarrow> yields F (State_Monad.bind m f)"
  by (auto simp: yields_def case_prod_beta intro: trans_R)

lemma yields_if: "(b \<Longrightarrow> yields F m) \<Longrightarrow> (\<not> b \<Longrightarrow> yields F n) \<Longrightarrow> yields F (if b then m else n)"
  by simp

lemma yields_option:
  "(x = None \<Longrightarrow> yields F m) \<Longrightarrow> (\<And>y. x = Some y \<Longrightarrow> yields F (f y)) \<Longrightarrow>
   yields F (case x of None \<Rightarrow> m | Some y \<Rightarrow> f y)"
  by (cases x) simp_all

lemma yields_pair: "(\<And>a b. x = (a, b) \<Longrightarrow> yields F (f a b)) \<Longrightarrow> yields F (case x of (a, b) \<Rightarrow> f a b)"
  by (cases x) simp

lemma yields_let: "yields F (f x) \<Longrightarrow> yields F (let y = x in f y)"
  by simp

lemma yields_mono: "yields G m \<Longrightarrow> (\<And>a. G a \<Longrightarrow> F a) \<Longrightarrow> yields F m"
  by (simp add: yields_def)

lemma wp_yields: "yields F m \<Longrightarrow> (\<And>a t. F a \<Longrightarrow> R s t \<Longrightarrow> Q a t) \<Longrightarrow> wp m Q s"
  by (simp add: yields_def wp_def)

lemmas yields_structural = yields_if yields_option yields_pair yields_let

end

text \<open>
  The relation: calls are only added, all of them satisfy \<open>P\<close>, and a store changes only with
  the call that stands for its operation.
\<close>

definition adds :: "(turn_call \<Rightarrow> bool) \<Rightarrow> turn_world \<Rightarrow> turn_world \<Rightarrow> bool" where
  "adds P s t \<longleftrightarrow> (\<exists>new. tw_calls t = new @ tw_calls s \<and> list_all P new
     \<and> (tw_admin t = tw_admin s \<or> (\<exists>rq. EvaluateAdmin rq \<in> set new))
     \<and> (tw_reviews t = tw_reviews s \<or> (\<exists>inp. EnqueueCandidate inp \<in> set new)))"

interpretation calls: evolution "adds P" for P
proof
  fix s t u
  show "adds P s s" by (simp add: adds_def)
  assume "adds P s t" "adds P t u"
  then obtain a b where a: "tw_calls t = a @ tw_calls s" "list_all P a"
      "tw_admin t = tw_admin s \<or> (\<exists>rq. EvaluateAdmin rq \<in> set a)"
      "tw_reviews t = tw_reviews s \<or> (\<exists>inp. EnqueueCandidate inp \<in> set a)"
    and b: "tw_calls u = b @ tw_calls t" "list_all P b"
      "tw_admin u = tw_admin t \<or> (\<exists>rq. EvaluateAdmin rq \<in> set b)"
      "tw_reviews u = tw_reviews t \<or> (\<exists>inp. EnqueueCandidate inp \<in> set b)"
    unfolding adds_def by blast
  then show "adds P s u" unfolding adds_def by (intro exI [of _ "b @ a"]) auto
qed

abbreviation gives :: "(turn_call \<Rightarrow> bool) \<Rightarrow> ('a \<Rightarrow> bool) \<Rightarrow> 'a T \<Rightarrow> bool" where
  "gives P F m \<equiv> evolution.yields (adds P) F m"

abbreviation any :: "'a \<Rightarrow> bool" where "any \<equiv> \<lambda>_. True"

lemma gives_ask: "P c \<Longrightarrow> (\<And>cs. F (f cs)) \<Longrightarrow> gives P F (ask c f)"
  by (simp add: calls.yields_def ask_def adds_def)

lemmas gives_rules = calls.yields_structural gives_ask calls.yields_ret

text \<open>Reading the clock and recording events.\<close>

definition harmless :: "(turn_call \<Rightarrow> bool) \<Rightarrow> bool" where
  "harmless P \<longleftrightarrow> P PerfCounter \<and> (\<forall>ty d. P (VoiceEvent ty d)) \<and> (\<forall>ep. P (ReadPolicy ep) \<and> P (ReadProfile ep))
     \<and> (\<forall>text. P (MatchIntent text)) \<and> (\<forall>a. P (Transcribe a)) \<and> (\<forall>text v. P (Synthesize text v)) \<and> (\<forall>r. P (NoSpeech r))"

lemma gives_perf: "harmless P \<Longrightarrow> gives P any (perf_counter E)"
  by (simp add: perf_counter_def gives_ask harmless_def)

lemma gives_elapsed: "harmless P \<Longrightarrow> gives P any (elapsed_ms E t)"
  unfolding elapsed_ms_def by (rule calls.yields_bind [OF gives_perf]) (auto intro: calls.yields_ret)

lemma gives_event: "harmless P \<Longrightarrow> gives P any (voice_event ty d)"
  by (simp add: voice_event_def gives_ask harmless_def)

lemma gives_policy: "harmless P \<Longrightarrow> (\<And>cs. F (normalized_endpoint_audience_policy (pe_repr E)
      (case pe_audience_policy E cs ep of Some d \<Rightarrow> d | None \<Rightarrow> opt_dict (aget (pe_audience_policies E) ep))))
    \<Longrightarrow> gives P F (endpoint_audience_policy E ep)"
  unfolding endpoint_audience_policy_def
  by (rule calls.yields_bind [where G = "\<lambda>x. \<exists>cs. x = pe_audience_policy E cs ep"])
    (auto intro!: gives_ask calls.yields_ret simp: harmless_def)

lemma gives_profile: "harmless P \<Longrightarrow> (\<And>cs. F (opt_dict (pe_quality_profile E cs ep))) \<Longrightarrow> gives P F (audio_quality_profile E ep)"
  unfolding audio_quality_profile_def
  by (rule calls.yields_bind [where G = "\<lambda>x. \<exists>cs. x = pe_quality_profile E cs ep"])
    (auto intro!: gives_ask calls.yields_ret simp: harmless_def)

lemma gives_analyze: "harmless P \<Longrightarrow> gives P any (analyze_turn_audio E audio)"
  unfolding analyze_turn_audio_def
  by (rule calls.yields_bind [OF gives_profile [where F = any]]) (auto intro: calls.yields_ret)

lemma gives_statuses: "harmless P \<Longrightarrow> gives P any (audio_quality_no_speech_statuses E ep)"
  unfolding audio_quality_no_speech_statuses_def
  by (rule calls.yields_bind [OF gives_profile [where F = any]]) (auto intro!: calls.yields_ret calls.yields_let)

lemma gives_blocks: "harmless P \<Longrightarrow> gives P any (audio_quality_blocks_assistant E quality ep)"
  unfolding audio_quality_blocks_assistant_def
  by (rule calls.yields_bind [OF gives_statuses]) (auto intro!: calls.yields_ret)

lemma gives_local_policy: "harmless P \<Longrightarrow> gives P any (local_intent_speaker_identity_policy E text)"
  unfolding local_intent_speaker_identity_policy_def
  by (intro gives_rules; (rule TrueI)?)
    (auto intro!: calls.yields_bind [OF gives_ask [where F = any]] calls.yields_ret simp: harmless_def)

lemma gives_event_for: "harmless P \<Longrightarrow> gives P any (record_speaker_identity_event audio r)"
  unfolding record_speaker_identity_event_def by (rule gives_event)

lemma gives_identify:
  assumes "harmless P" "\<And>d. P (IdentifyCall d)"
  shows "gives P any (run_identify_speaker E audio)"
  unfolding run_identify_speaker_def
  by (intro gives_rules calls.yields_bind [OF gives_perf] calls.yields_bind [OF gives_elapsed]
      calls.yields_bind [OF gives_event_for] calls.yields_bind [OF gives_ask [where F = any]] TrueI assms)

lemma gives_start:
  assumes "harmless P" "pe_privacy_mode E \<or> (\<forall>d. P (IdentifyCall d))"
  shows "gives P (\<lambda>f. pe_privacy_mode E \<longrightarrow> f = None) (start_speaker_identity E audio)"
  using assms unfolding start_speaker_identity_def
  by (auto intro!: gives_rules calls.yields_bind [OF gives_identify])

text \<open>An identity that names nobody, as privacy mode gives.\<close>

definition nobody :: "speaker_identity option \<Rightarrow> bool" where
  "nobody sp \<longleftrightarrow> (case sp of None \<Rightarrow> True | Some s \<Rightarrow> \<not> identified s \<and> si_speaker_public_id s = None \<and> si_age_band s = None)"

lemma nobody_result [simp]: "nobody (Some (speaker_result ''skipped'' p a r))"
  by (simp add: nobody_def speaker_result_def identified_def)

lemma gives_for_policy:
  assumes "harmless P" "pe_privacy_mode E \<or> (\<forall>b. P (PollSpeaker b))"
  shows "gives P (\<lambda>sp. pe_privacy_mode E \<longrightarrow> nobody sp) (speaker_identity_for_policy E audio future policy current)"
  using assms unfolding speaker_identity_for_policy_def Let_def
  by (intro gives_rules calls.yields_bind [OF gives_ask [where F = any]]) auto

lemma gives_override:
  assumes "harmless P" "pe_privacy_mode E \<or> (\<forall>b. P (PollSpeaker b))" "pe_privacy_mode E \<longrightarrow> nobody current"
  shows "gives P (\<lambda>sp. pe_privacy_mode E \<longrightarrow> nobody sp)
    (speaker_identity_for_audience_override E audio future text command metadata current)"
  unfolding speaker_identity_for_audience_override_def
  by (rule calls.yields_bind [OF gives_policy [where F = any]])
    (use assms in \<open>auto intro!: gives_rules gives_for_policy\<close>)

lemma nobody_learning: "nobody (speaker_identity_with_learning_policy p sp q pol md) = nobody sp"
  by (cases sp) (simp_all add: nobody_def speaker_identity_with_learning_policy_def identified_def Let_def)

text \<open>What is known of a judgement of \<open>text\<close>: its audience decision is the one for some policy the endpoint had.\<close>

definition policy_at :: "pipe_env \<Rightarrow> calls \<Rightarrow> audio_summary \<Rightarrow> endpoint_policy" where
  "policy_at E cs audio = normalized_endpoint_audience_policy (pe_repr E)
     (case pe_audience_policy E cs (as_endpoint_id audio) of Some d \<Rightarrow> d
      | None \<Rightarrow> opt_dict (aget (pe_audience_policies E) (as_endpoint_id audio)))"

definition judged :: "pipe_env \<Rightarrow> audio_summary \<Rightarrow> string \<Rightarrow> judgement \<Rightarrow> bool" where
  "judged E audio text j \<longleftrightarrow> (pe_privacy_mode E \<longrightarrow> nobody (jd_speaker j)) \<and>
     (\<exists>cs. jd_audience j = audience_policy_decision (policy_at E cs audio) text None None (jd_speaker j))"

lemma gives_decision:
  assumes "harmless P"
  shows "gives P (\<lambda>d. \<exists>cs. d = audience_policy_decision (policy_at E cs audio) text command metadata sp)
    (audience_decision_for E audio text command metadata sp)"
  unfolding audience_decision_for_def
  by (rule calls.yields_bind [OF gives_policy [OF assms, where F = "\<lambda>p. \<exists>cs. p = policy_at E cs audio"]])
    (auto simp: policy_at_def intro!: calls.yields_ret)

lemma gives_judge:
  assumes "harmless P" "pe_privacy_mode E \<or> (\<forall>b. P (PollSpeaker b))"
  shows "gives P (judged E audio text) (judge E audio future quality text current)"
  unfolding judge_def
  by (rule calls.yields_bind [OF gives_local_policy [OF assms(1)]], rule calls.yields_let,
      rule calls.yields_bind [OF gives_for_policy [OF assms]],
      rule calls.yields_bind [OF gives_override [OF assms]], assumption, rule calls.yields_let,
      rule calls.yields_bind [OF gives_decision [OF assms(1)]])
    (auto simp: judged_def nobody_learning intro!: calls.yields_ret)

text \<open>
  An answer reaches the assistant only past the audience decision and the required identity;
  \<open>asks\<close> says what must hold of a request made for \<open>text\<close>.
\<close>

definition asks :: "(turn_call \<Rightarrow> bool) \<Rightarrow> pipe_env \<Rightarrow> audio_summary \<Rightarrow> bool" where
  "asks P E audio \<longleftrightarrow> (\<forall>text j. judged E audio text j \<longrightarrow> \<not> au_blocked (jd_audience j) \<longrightarrow>
     P (HandleTurn (build_request E audio text (jd_policy j) (jd_speaker j))))"

lemma gives_answer:
  assumes "judged E audio text j" "asks P E audio"
  shows "gives P any (answer_if_permitted E audio quality text j)"
  using assms unfolding answer_if_permitted_def Let_def
  by (intro gives_rules) (auto simp: asks_def)

lemma gives_first:
  assumes "harmless P" "pe_privacy_mode E \<or> (\<forall>b. P (PollSpeaker b))" "asks P E audio"
  shows "gives P (\<lambda>(s, b). pe_privacy_mode E \<longrightarrow> nobody (tn_speaker s)) (first_answer E audio quality future t ms)"
  unfolding first_answer_def
  by (rule calls.yields_bind [OF gives_judge [OF assms(1,2)]], rule calls.yields_bind [OF gives_blocks [OF assms(1)]],
      rule calls.yields_bind [where G = any])
    (use assms in \<open>auto intro!: calls.yields_ret gives_rules gives_answer simp: judged_def harmless_def\<close>)

lemma gives_fallback:
  assumes "harmless P" "pe_privacy_mode E \<or> (\<forall>b. P (PollSpeaker b))"
    and "pe_privacy_mode E \<longrightarrow> nobody (tn_speaker s)"
    and "\<not> permitted \<or> asks P E audio \<and> (\<forall>a t b. P (FallbackTranscribe a t b))"
  shows "gives P (\<lambda>s. pe_privacy_mode E \<longrightarrow> nobody (tn_speaker s)) (fallback_answer E audio quality future permitted s)"
  unfolding fallback_answer_def
  by (intro calls.yields_option calls.yields_if calls.yields_bind [OF gives_perf [OF assms(1)]] calls.yields_let
      calls.yields_bind [OF gives_ask [where F = any]] calls.yields_bind [OF gives_elapsed [OF assms(1)]]
      calls.yields_bind [OF gives_event [OF assms(1)]] calls.yields_bind [OF gives_judge [OF assms(1,2)]]
      calls.yields_bind [OF gives_answer] calls.yields_ret)
    (use assms in \<open>auto simp: judged_def\<close>)

lemma gives_settle:
  assumes "harmless P" "pe_privacy_mode E \<or> (\<forall>b. P (PollSpeaker b))" "pe_privacy_mode E \<longrightarrow> nobody (tn_speaker s)"
  shows "gives P (\<lambda>s. pe_privacy_mode E \<longrightarrow> nobody (tn_speaker s) \<and> (\<forall>sp. tn_speaker s = Some sp \<longrightarrow> \<not> si_learning_eligible sp))
    (settle_identity E audio quality future s)"
  unfolding settle_identity_def
  by (intro calls.yields_let, rule calls.yields_bind [where G = "\<lambda>s. pe_privacy_mode E \<longrightarrow> nobody (tn_speaker s)"],
      intro calls.yields_if calls.yields_ret calls.yields_bind [OF gives_for_policy [OF assms(1,2)]])
    (use assms in \<open>auto intro!: calls.yields_bind [OF gives_override [OF assms(1,2)]] calls.yields_ret
       simp: nobody_learning dest: privacy_not_eligible\<close>)

lemma gives_admin:
  assumes "\<forall>rq. P (EvaluateAdmin rq)"
  shows "gives P any (admin_maintenance_decision E text r speaker quality)"
  using assms
  by (auto simp: admin_maintenance_decision_def calls.yields_def adds_def ask_def Let_def split: option.splits)

lemma gives_authorize:
  assumes "\<forall>rq. P (EvaluateAdmin rq)"
  shows "gives P (\<lambda>s'. tn_speaker s' = tn_speaker s) (authorize_admin E audio quality s)"
  unfolding authorize_admin_def
  by (rule calls.yields_bind [OF gives_admin [OF assms]]) (auto intro!: calls.yields_ret simp: Let_def split: option.splits)

text \<open>The final audience decision, on the text before its redaction.\<close>

definition permitted_answer :: "pipe_env \<Rightarrow> audio_summary \<Rightarrow> speech_transcript \<Rightarrow> turn_response \<Rightarrow> speaker_identity option \<Rightarrow> bool" where
  "permitted_answer E audio t r sp \<longleftrightarrow> rs_heard_text r = tr_text t \<and>
     (\<exists>text cs. tr_text t = redact_spoken_passcodes text \<and>
       (rs_command r = Some ''voice.audience_policy.refused'' \<or>
        \<not> au_blocked (audience_policy_decision (policy_at E cs audio) text (rs_command r) (ar_provider_metadata r) sp)))"

lemma gives_apply:
  assumes "harmless P"
  shows "gives P (\<lambda>s'. tn_speaker s' = tn_speaker s \<and> permitted_answer E audio (tn_transcript s') (tn_response s') (tn_speaker s'))
    (apply_audience E audio s)"
  unfolding apply_audience_def
  by (intro calls.yields_let, rule calls.yields_bind [OF gives_decision [OF assms]], intro calls.yields_let calls.yields_ret)
    (auto simp: permitted_answer_def audience_policy_refusal_response_def local_response_def Let_def)

lemma gives_enqueue:
  assumes "(\<forall>sp. tn_speaker s = Some sp \<longrightarrow> \<not> si_learning_eligible sp) \<or> (\<forall>inp. P (EnqueueCandidate inp))"
  shows "gives P any (enqueue_profile_learning_candidate E audio quality s)"
  using assms
  by (auto simp: enqueue_profile_learning_candidate_def calls.yields_def adds_def ask_def Let_def split: option.splits)

lemma gives_speak:
  assumes "harmless P"
  shows "gives P (\<lambda>(r', tts, ms). rs_command r' = rs_command r \<and> rs_heard_text r' = rs_heard_text r
      \<and> ar_provider_metadata r' = ar_provider_metadata r) (speak_answer E audio r)"
  unfolding speak_answer_def
  by (intro calls.yields_if calls.yields_ret calls.yields_let calls.yields_bind [OF gives_perf [OF assms]]
      calls.yields_bind [OF gives_ask [where F = any]] calls.yields_bind [OF gives_elapsed [OF assms]])
    (use assms in \<open>auto simp: harmless_def\<close>)

lemma gives_hear:
  assumes "harmless P" "pe_privacy_mode E \<or> (\<forall>d. P (IdentifyCall d))"
  shows "gives P any (hear_turn E audio quality)"
  unfolding hear_turn_def
  by (intro calls.yields_let calls.yields_bind [OF gives_start [OF assms]] calls.yields_bind [OF gives_perf [OF assms(1)]]
      calls.yields_bind [OF gives_ask [where F = any]] calls.yields_bind [OF gives_elapsed [OF assms(1)]]
      calls.yields_bind [OF gives_event [OF assms(1)]] calls.yields_ret)
    (use assms in \<open>auto simp: harmless_def\<close>)

section \<open>The whole turn\<close>

text \<open>
  The stages in their order. What the first answer establishes is a premise, so that the
  theorems below can say more about it than \<open>gives_first\<close>.
\<close>

lemma gives_complete_turn:
  assumes h: "harmless P" and id: "pe_privacy_mode E \<or> (\<forall>b. P (PollSpeaker b)) \<and> (\<forall>d. P (IdentifyCall d))"
    and admin: "\<forall>rq. P (EvaluateAdmin rq)" and learn: "pe_privacy_mode E \<or> (\<forall>inp. P (EnqueueCandidate inp))"
    and quality: "gives P Q (analyze_turn_audio E audio)"
    and first: "\<And>quality future t ms. Q quality \<Longrightarrow>
      gives P (\<lambda>(s, b). (pe_privacy_mode E \<longrightarrow> nobody (tn_speaker s)) \<and> (\<not> b \<or> asks P E audio \<and> (\<forall>a t b. P (FallbackTranscribe a t b))))
        (first_answer E audio quality future t ms)"
  shows "gives P (\<lambda>out. (pe_privacy_mode E \<longrightarrow> nobody (to_speaker_identity out)) \<and>
      permitted_answer E audio (to_transcript out) (to_response out) (to_speaker_identity out))
    (complete_turn E audio)"
  unfolding complete_turn_def
  by (rule calls.yields_bind [OF gives_perf [OF h]], rule calls.yields_bind [OF quality],
      rule calls.yields_bind [OF gives_hear [OF h]], (use id in blast), intro calls.yields_pair,
      rule calls.yields_bind [OF gives_perf [OF h]], rule calls.yields_bind [OF first], assumption, intro calls.yields_pair,
      rule calls.yields_bind [OF gives_fallback [OF h]], (use id in blast), simp, simp,
      rule calls.yields_bind [OF gives_settle [OF h]], (use id in blast), assumption,
      rule calls.yields_bind [OF gives_authorize [OF admin]], rule calls.yields_bind [OF gives_apply [OF h]],
      rule calls.yields_bind [OF gives_enqueue], (use learn in force),
      rule calls.yields_bind [OF gives_elapsed [OF h]], rule calls.yields_bind [OF gives_speak [OF h]],
      intro calls.yields_pair, rule calls.yields_bind [OF gives_elapsed [OF h]])
    (auto intro!: calls.yields_ret simp: permitted_answer_def)

lemma gives_run: "gives P F m \<Longrightarrow> run_state m s = (a, t) \<Longrightarrow> F a \<and> adds P s t"
  by (metis calls.yields_def fst_conv snd_conv)

definition private_call :: "turn_call \<Rightarrow> bool" where
  "private_call c = (case c of IdentifyCall _ \<Rightarrow> False | EnqueueCandidate _ \<Rightarrow> False
     | HandleTurn rq \<Rightarrow> ask_speaker_identity rq = None | _ \<Rightarrow> True)"

text \<open>C18. In privacy mode a turn never asks the speaker service, never tells the assistant who
  speaks, reports nobody as the speaker, and stores no candidate for learning a profile.\<close>

theorem privacy_mode_keeps_speaker_unknown:
  assumes "pe_privacy_mode E" "run_state (complete_turn E audio) w = (out, w')"
  shows "nobody (to_speaker_identity out) \<and> tw_reviews w' = tw_reviews w
    \<and> (\<exists>new. tw_calls w' = new @ tw_calls w \<and> list_all private_call new)"
proof -
  have h: "harmless private_call" by (simp add: harmless_def private_call_def)
  have a: "asks private_call E audio"
    using assms(1) by (auto simp: asks_def judged_def private_call_def build_request_def nobody_def split: option.splits)
  have "gives private_call (\<lambda>out. (pe_privacy_mode E \<longrightarrow> nobody (to_speaker_identity out)) \<and>
      permitted_answer E audio (to_transcript out) (to_response out) (to_speaker_identity out)) (complete_turn E audio)"
    by (rule gives_complete_turn [OF h _ _ _ gives_analyze [OF h]], use assms(1) in blast,
        simp add: private_call_def, use assms(1) in blast, rule calls.yields_mono [OF gives_first [OF h _ a]])
      (use assms(1) a in \<open>auto simp: private_call_def\<close>)
  from gives_run [OF this assms(2)] assms(1) show ?thesis
    by (auto simp: adds_def private_call_def list_all_iff)
qed

text \<open>An endpoint for children or teenagers on which no adult may override.\<close>

definition guarded_endpoint :: "endpoint_policy \<Rightarrow> bool" where
  "guarded_endpoint p \<longleftrightarrow> ep_audience_mode p \<in> {''child_safe'', ''teen_safe''} \<and> \<not> ep_adult_override_enabled p"

lemma guarded_blocks:
  assumes "guarded_endpoint p"
  shows "au_blocked (audience_policy_decision p text c m sp) \<longleftrightarrow> restricted_content_reason text c m \<noteq> None"
proof -
  have "lower (strip ''child_safe'') = ''child_safe''" "lower (strip ''teen_safe'') = ''teen_safe''" by code_simp+
  then have "stricter_audience_class (ep_audience_mode p) band \<noteq> ''general''" for band
    using assms by (auto simp: stricter_audience_class_def guarded_endpoint_def Let_def audience_rank_def)
  then show ?thesis
    using assms by (auto simp: audience_blocks adult_admin_override_allowed_def guarded_endpoint_def split: option.splits)
qed

definition guarded_call :: "turn_call \<Rightarrow> bool" where
  "guarded_call c = (case c of HandleTurn rq \<Rightarrow> restricted_content_reason (ask_text rq) None None = None | _ \<Rightarrow> True)"

text \<open>C19. On an endpoint for children or teenagers without an adult override the assistant is
  never asked a restricted question, and the turn ends with an answer that is not restricted or
  with the refusal.\<close>

theorem guarded_endpoint_refuses:
  assumes "\<forall>cs. guarded_endpoint (policy_at E cs audio)" "run_state (complete_turn E audio) w = (out, w')"
  shows "(\<exists>new. tw_calls w' = new @ tw_calls w \<and> list_all guarded_call new)
    \<and> (\<exists>text. tr_text (to_transcript out) = redact_spoken_passcodes text \<and>
        (rs_command (to_response out) = Some ''voice.audience_policy.refused''
         \<or> restricted_content_reason text (rs_command (to_response out)) (ar_provider_metadata (to_response out)) = None))"
proof -
  have h: "harmless guarded_call" by (simp add: harmless_def guarded_call_def)
  have blank: "restricted_content_reason '' '' None None = None" by code_simp
  have a: "asks guarded_call E audio"
    using assms(1) blank
    by (auto simp: asks_def judged_def guarded_call_def build_request_def guarded_blocks)
  have "gives guarded_call (\<lambda>out. (pe_privacy_mode E \<longrightarrow> nobody (to_speaker_identity out)) \<and>
      permitted_answer E audio (to_transcript out) (to_response out) (to_speaker_identity out)) (complete_turn E audio)"
    by (rule gives_complete_turn [OF h _ _ _ gives_analyze [OF h]], simp_all add: guarded_call_def,
        rule calls.yields_mono [OF gives_first [OF h _ a]]) (use a in \<open>auto simp: guarded_call_def\<close>)
  from gives_run [OF this assms(2)] assms(1) show ?thesis
    by (auto simp: adds_def permitted_answer_def guarded_blocks)
qed

text \<open>C20. What the endpoint is told was heard is the transcript of the turn, and no passcode of the two
  redacted forms is in it: no four digits with only blanks or hyphens between them, and no four number
  words with blanks between them, as whole words. (A code with commas, or of digits and words mixed, is
  accepted but not redacted; nothing is claimed of those.)\<close>

theorem turn_redacts_passcodes:
  "let out = fst (run_state (complete_turn E audio) w); heard = rs_heard_text (to_response out) in
   heard = tr_text (to_transcript out) \<and> \<not> occurs digit_code heard \<and> \<not> occurs word_code heard"
proof -
  have h: "harmless any" by (simp add: harmless_def)
  have a: "asks any E audio" by (simp add: asks_def)
  have "gives any (\<lambda>out. (pe_privacy_mode E \<longrightarrow> nobody (to_speaker_identity out)) \<and>
      permitted_answer E audio (to_transcript out) (to_response out) (to_speaker_identity out)) (complete_turn E audio)"
    by (rule gives_complete_turn [OF h _ _ _ gives_analyze [OF h]], simp_all,
        rule calls.yields_mono [OF gives_first [OF h _ a]]) (use a in auto)
  then have "permitted_answer E audio (to_transcript out) (to_response out) (to_speaker_identity out)"
    if "out = fst (run_state (complete_turn E audio) w)" for out
    using that by (simp add: calls.yields_def)
  then show ?thesis unfolding Let_def permitted_answer_def using redacted_codes by (metis codes_redacted_def)
qed

section \<open>Audio without speech\<close>

definition unasked_call :: "turn_call \<Rightarrow> bool" where
  "unasked_call c = (case c of HandleTurn _ \<Rightarrow> False | FallbackTranscribe _ _ _ \<Rightarrow> False | _ \<Rightarrow> True)"

lemma gives_default_statuses:
  assumes "harmless P" "\<forall>cs. pe_quality_profile E cs ep = None"
  shows "gives P (\<lambda>b. b = (aq_status quality \<in> set (pe_no_speech_statuses E))) (audio_quality_blocks_assistant E quality ep)"
proof -
  have "gives P (\<lambda>st. st = pe_no_speech_statuses E) (audio_quality_no_speech_statuses E ep)"
    unfolding audio_quality_no_speech_statuses_def
    by (rule calls.yields_bind [OF gives_profile [OF assms(1), where F = "\<lambda>p. p = []"]])
      (use assms(2) in \<open>auto intro!: calls.yields_ret calls.yields_let simp: opt_dict_def dget_def\<close>)
  then show ?thesis
    unfolding audio_quality_blocks_assistant_def
    by (rule calls.yields_bind) (auto intro!: calls.yields_ret)
qed

text \<open>C21. When the analysis of the audio, with the default settings, has one of the statuses that
  mean no speech, the turn asks neither the assistant nor the fallback engine.\<close>

theorem silence_is_not_answered:
  assumes "\<forall>cs. pe_quality_profile E cs (as_endpoint_id audio) = None"
    and "aq_status (analyze_pcm_s16le_audio (pe_math E) (Some (as_audio_bytes audio)) (as_sample_rate_hz audio)
       (as_channels audio) (as_encoding audio) (as_ambient_audio_bytes audio) (as_endpoint_audio_metrics audio)
       (thresholds_of [])) \<in> set (pe_no_speech_statuses E)"
  shows "\<exists>new. tw_calls (snd (run_state (complete_turn E audio) w)) = new @ tw_calls w \<and> list_all unasked_call new"
proof -
  let ?q = "analyze_pcm_s16le_audio (pe_math E) (Some (as_audio_bytes audio)) (as_sample_rate_hz audio)
       (as_channels audio) (as_encoding audio) (as_ambient_audio_bytes audio) (as_endpoint_audio_metrics audio)
       (thresholds_of [])"
  have h: "harmless unasked_call" by (simp add: harmless_def unasked_call_def)
  have q: "gives unasked_call (\<lambda>q. q = ?q) (analyze_turn_audio E audio)"
    unfolding analyze_turn_audio_def
    by (rule calls.yields_bind [OF gives_profile [OF h, where F = "\<lambda>p. p = []"]])
      (use assms(1) in \<open>auto intro!: calls.yields_ret simp: opt_dict_def\<close>)
  have f: "gives unasked_call (\<lambda>(s, b). (pe_privacy_mode E \<longrightarrow> nobody (tn_speaker s))
        \<and> (\<not> b \<or> asks unasked_call E audio \<and> (\<forall>a t b. unasked_call (FallbackTranscribe a t b)))) (first_answer E audio ?q future t ms)" for future t ms
    unfolding first_answer_def
    by (rule calls.yields_bind [OF gives_judge [OF h]], simp add: unasked_call_def,
        rule calls.yields_bind [OF gives_default_statuses [OF h assms(1)]], rule calls.yields_bind [where G = any])
      (use assms(2) in \<open>auto intro!: calls.yields_ret gives_rules simp: judged_def unasked_call_def\<close>)
  have "gives unasked_call (\<lambda>out. (pe_privacy_mode E \<longrightarrow> nobody (to_speaker_identity out)) \<and>
      permitted_answer E audio (to_transcript out) (to_response out) (to_speaker_identity out)) (complete_turn E audio)"
    by (rule gives_complete_turn [OF h _ _ _ q]) (use f in \<open>auto simp: unasked_call_def\<close>)
  then show ?thesis by (simp add: calls.yields_def adds_def) blast
qed

section \<open>Administrative actions\<close>

definition no_admin_call :: "turn_call \<Rightarrow> bool" where
  "no_admin_call c = (case c of EvaluateAdmin _ \<Rightarrow> False | _ \<Rightarrow> True)"

lemma no_admin_keeps: "adds no_admin_call s t \<Longrightarrow> tw_admin t = tw_admin s"
  by (auto simp: adds_def no_admin_call_def list_all_iff)

lemma no_admin_harmless: "harmless no_admin_call" by (simp add: harmless_def no_admin_call_def)

lemma adds_calls: "adds P s t \<Longrightarrow> set (tw_calls s) \<subseteq> set (tw_calls t)"
  by (auto simp: adds_def)

text \<open>The store, as the turn found it, allowed this intent for this speaker and this audio.\<close>

definition authorized :: "pipe_env \<Rightarrow> admin_file \<Rightarrow> calls \<Rightarrow> speaker_identity option \<Rightarrow> audio_quality \<Rightarrow> string \<Rightarrow> bool" where
  "authorized E file cs speaker quality intent \<longleftrightarrow> pe_admin_store E \<and>
     (\<exists>clk rq. rq_intent_id rq = Some intent \<and> rq_speaker_identity rq = map_option speaker_context speaker
       \<and> rq_audio_quality rq = Some (quality_context quality) \<and> EvaluateAdmin rq \<in> set cs
       \<and> dc_allowed (fst (admin_evaluate (pe_kdf E) (pe_repr E) clk None rq file)))"

lemma authorized_mono: "authorized E file cs sp q i \<Longrightarrow> set cs \<subseteq> set cs' \<Longrightarrow> authorized E file cs' sp q i"
  unfolding authorized_def by blast

lemma wp_authorize:
  "wp (authorize_admin E audio quality s) (\<lambda>s' t. tn_speaker s' = tn_speaker s \<and>
     (\<forall>intent. admin_maintenance_intent_id (pe_repr E) (tn_response s') = Some intent \<longrightarrow>
        authorized E (tw_admin w) (tw_calls t) (tn_speaker s) quality intent)) w"
proof (cases "admin_maintenance_intent_id (pe_repr E) (tn_response s)")
  case None
  then show ?thesis by (simp add: authorize_admin_def admin_maintenance_decision_def wp_simps)
next
  case (Some intent)
  show ?thesis
  proof (cases "pe_admin_store E")
    case False
    with Some show ?thesis
      by (simp add: authorize_admin_def admin_maintenance_decision_def wp_simps Let_def admin_refusal_is_not_admin)
  next
    case True
    define rq where "rq = \<lparr>rq_text = tr_text (tn_transcript s), rq_intent_id = Some intent,
      rq_speaker_identity = map_option speaker_context (tn_speaker s), rq_audio_quality = Some (quality_context quality)\<rparr>"
    define d where "d = fst (admin_evaluate (pe_kdf E) (pe_repr E) (pe_now E (tw_calls w)) None rq (tw_admin w))"
    have "dc_allowed d \<Longrightarrow> EvaluateAdmin rq \<in> set cs \<Longrightarrow> authorized E (tw_admin w) cs (tn_speaker s) quality intent" for cs
      using True unfolding authorized_def d_def
      by (intro conjI exI [of _ "pe_now E (tw_calls w)"] exI [of _ rq]) (simp_all add: rq_def)
    with Some True show ?thesis
      by (simp add: authorize_admin_def admin_maintenance_decision_def wp_simps ask_def Let_def rq_def [symmetric]
          d_def [symmetric] admin_refusal_is_not_admin metadata_keeps_intent)
  qed
qed

lemma same_intent:
  assumes "rs_command r' = rs_command r" "ar_provider_metadata r' = ar_provider_metadata r"
  shows "admin_maintenance_intent_id rp r' = admin_maintenance_intent_id rp r"
  using assms by (simp add: admin_maintenance_intent_id_def)

text \<open>A response that is an administrative action has its authorisation among the calls.\<close>

definition ready :: "pipe_env \<Rightarrow> admin_file \<Rightarrow> audio_quality \<Rightarrow> turn_response \<Rightarrow> speaker_identity option \<Rightarrow> turn_world \<Rightarrow> bool" where
  "ready E file quality r speaker w \<longleftrightarrow> (\<forall>intent.
     admin_maintenance_intent_id (pe_repr E) r = Some intent \<longrightarrow> authorized E file (tw_calls w) speaker quality intent)"

lemma ready_mono: "ready E file q r sp s \<Longrightarrow> adds P s t \<Longrightarrow> ready E file q r sp t"
  unfolding ready_def using authorized_mono adds_calls by blast

lemma wp_before: "gives no_admin_call F m \<Longrightarrow> tw_admin s = x \<Longrightarrow>
    (\<And>a t. F a \<Longrightarrow> tw_admin t = x \<Longrightarrow> wp (f a) Q t) \<Longrightarrow> wp (State_Monad.bind m f) Q s"
  unfolding wp_bind by (erule calls.wp_yields) (auto dest: no_admin_keeps)

lemma wp_after: "gives P F m \<Longrightarrow> ready E x q r sp s \<Longrightarrow>
    (\<And>a t. F a \<Longrightarrow> ready E x q r sp t \<Longrightarrow> wp (f a) Q t) \<Longrightarrow> wp (State_Monad.bind m f) Q s"
  unfolding wp_bind by (erule calls.wp_yields) (auto dest: ready_mono)

lemma wp_then: "wp m R s \<Longrightarrow> (\<And>a t. R a t \<Longrightarrow> wp (f a) Q t) \<Longrightarrow> wp (State_Monad.bind m f) Q s"
  unfolding wp_bind by (rule wp_mono)

lemma wp_pair: "(\<And>a b. x = (a, b) \<Longrightarrow> wp (f a b) Q s) \<Longrightarrow> wp (case x of (a, b) \<Rightarrow> f a b) Q s"
  by (cases x) simp

lemma wp_authorize_ready:
  "tw_admin w = file \<Longrightarrow> wp (authorize_admin E audio quality s) (\<lambda>s' t. ready E file quality (tn_response s') (tn_speaker s') t) w"
  by (rule wp_mono [OF wp_authorize]) (auto simp: ready_def)

lemma wp_apply_ready:
  assumes "ready E file quality (tn_response s) (tn_speaker s) w"
  shows "wp (apply_audience E audio s) (\<lambda>s' t. ready E file quality (tn_response s') (tn_speaker s') t) w"
proof -
  have "gives no_admin_call (\<lambda>s'. tn_speaker s' = tn_speaker s \<and>
     (admin_maintenance_intent_id (pe_repr E) (tn_response s') = None
      \<or> admin_maintenance_intent_id (pe_repr E) (tn_response s') = admin_maintenance_intent_id (pe_repr E) (tn_response s)))
     (apply_audience E audio s)"
    unfolding apply_audience_def
    by (intro calls.yields_let, rule calls.yields_bind [OF gives_decision [OF no_admin_harmless]], intro calls.yields_let calls.yields_ret)
      (auto simp: refusal_is_not_admin)
  then show ?thesis
    by (rule calls.wp_yields) (use assms in \<open>auto simp: ready_def intro: authorized_mono [OF _ adds_calls]\<close>)
qed

text \<open>The stages before the authorisation leave the store alone, and those after it keep the call.\<close>

lemma wp_turn_authorized:
  "wp (complete_turn E audio) (\<lambda>out t. ready E (tw_admin w) (to_audio_quality out) (to_response out) (to_speaker_identity out) t) w"
proof -
  note h = no_admin_harmless
  have p: "pe_privacy_mode E \<or> (\<forall>b. no_admin_call (PollSpeaker b))" "pe_privacy_mode E \<or> (\<forall>d. no_admin_call (IdentifyCall d))"
    "\<forall>a t b. no_admin_call (FallbackTranscribe a t b)" "\<forall>i. no_admin_call (EnqueueCandidate i)"
    by (simp_all add: no_admin_call_def)
  have a: "asks no_admin_call E audio" by (simp add: asks_def no_admin_call_def)
  note before = wp_before [where x = "tw_admin w"]
  note after = wp_after [where P = no_admin_call]
  show ?thesis
    unfolding complete_turn_def
    by (rule before [OF gives_perf [OF h]], rule refl, rule before [OF gives_analyze [OF h]], assumption,
        rule before [OF gives_hear [OF h p(2)]], assumption, intro wp_pair,
        rule before [OF gives_perf [OF h]], assumption, rule before [OF gives_first [OF h p(1) a]], assumption,
        intro wp_pair, rule before [OF gives_fallback [OF h p(1)]], simp, (use a p(3) in blast), assumption,
        rule before [OF gives_settle [OF h p(1)]], assumption, assumption,
        rule wp_then [OF wp_authorize_ready], assumption, rule wp_then [OF wp_apply_ready], assumption,
        rule after [OF gives_enqueue], (use p(4) in blast), assumption,
        rule after [OF gives_elapsed [OF h]], assumption, rule after [OF gives_speak [OF h]], assumption, intro wp_pair,
        rule after [OF gives_elapsed [OF h]], assumption)
      (auto simp: wp_return ready_def dest: same_intent [where rp = "pe_repr E"])
qed

text \<open>C22. When the answer of a turn is an administrative action, the maintenance store has allowed
  exactly this intent, for the identity and the audio quality the turn reports, in the state it had
  when the turn began.\<close>

theorem admin_action_authorized:
  assumes "admin_maintenance_intent_id (pe_repr E) (to_response (fst (run_state (complete_turn E audio) w))) = Some intent"
  shows "let out = fst (run_state (complete_turn E audio) w) in
    authorized E (tw_admin w) (tw_calls (snd (run_state (complete_turn E audio) w)))
      (to_speaker_identity out) (to_audio_quality out) intent"
  using wp_turn_authorized [of E audio w] assms by (simp add: wp_def ready_def Let_def)

section \<open>A turn in the kitchen\<close>

text \<open>
  The theorems on a concrete turn: Ann, an administrator with the passcode 4711, asks for the debug
  mode. Each stage is followed with the rules above; the whole turn is not evaluated.
\<close>

definition ex_answer :: turn_response where
  "ex_answer = \<lparr>ar_spoken_text = ''Debug started.'', ar_handled_locally = True, ar_provider_id = ''local'',
     ar_model = None, ar_error = None, ar_provider_latency_ms = None, ar_provider_metadata = None,
     ar_fallback_used = False, ar_fallback_reason = None, ar_intent_latency_ms = None,
     ar_conversation_followup = None, rs_endpoint_id = ''kitchen'', rs_session_id = ''s1'',
     rs_heard_text = ''start debug four seven one one'', rs_reply_text = ''Debug started.'',
     rs_command = Some ''admin.debug.start'', rs_device_state = ''speaking''\<rparr>"

definition ex_transcript :: speech_transcript where
  "ex_transcript = \<lparr>tr_text = ''start debug four seven one one'', tr_confidence = None, tr_provider_id = ''local'',
     tr_model = None, tr_duration_ms = None, tr_error = None\<rparr>"

definition ex_speaker_reply :: dict where
  "ex_speaker_reply = [(''status'', PStr ''identified''), (''match'', PDict [(''speaker_public_id'', PStr ''ann''),
     (''confidence'', PFloat 1), (''score_margin'', PFloat 1), (''admin_eligible'', PBool True)])]"

text \<open>A kitchen endpoint on which Ann asks for the debug mode, with her passcode.\<close>

definition ex_pipe :: pipe_env where
  "ex_pipe = \<lparr>pe_repr = (\<lambda>_. []), pe_float_text = (\<lambda>_. None),
     pe_math = \<lparr>fm_sqrt = (\<lambda>x. x), fm_log10 = (\<lambda>x. x)\<rparr>, pe_kdf = ex_kdf, pe_perf = (\<lambda>_. 0), pe_now = (\<lambda>_. 0),
     pe_uuid = (\<lambda>_ _. []), pe_wav = as_audio_bytes, pe_identify = (\<lambda>_ _. Inr ex_speaker_reply),
     pe_ready = (\<lambda>_ _. True), pe_transcribe = (\<lambda>_ _. ex_transcript), pe_fallback = None,
     pe_match_policy = (\<lambda>_ _. None), pe_no_speech = (\<lambda>_ _. ex_answer), pe_handle_turn = (\<lambda>_ _. ex_answer),
     pe_audience_policy = (\<lambda>_ _. None), pe_quality_profile = (\<lambda>_ _. None),
     pe_synthesize = (\<lambda>_ _ _. result_media_tts), pe_endpoint_voices = [], pe_speaker_client = True,
     pe_speaker_id_enabled = True, pe_speaker_id_policy_default = ''use_if_ready'',
     pe_speaker_id_endpoint_scope = [], pe_personalization_enabled = False, pe_privacy_mode = False,
     pe_audience_policies = [], pe_no_speech_statuses = [''missing_audio'', ''silent''], pe_admin_store = True,
     pe_review_limit = None, pe_audio_retention = False\<rparr>"

definition ex_turn_audio :: "bytes \<Rightarrow> audio_summary" where
  "ex_turn_audio b = \<lparr>as_endpoint_id = ''kitchen'', as_session_id = ''s1'', as_chunk_count = 1,
     as_sample_rate_hz = Some 10, as_encoding = Some ''pcm_s16le'', as_channels = 1, as_audio_bytes = b,
     as_ambient_audio_bytes = None, as_endpoint_audio_metrics = None\<rparr>"

definition ex_turn :: turn_world where
  "ex_turn = \<lparr>tw_calls = [], tw_admin = Some (ex_admin 0 None []), tw_reviews = None\<rparr>"


text \<open>What the parts of the turn compute there.\<close>

lemma ex_policies:
  "identity_policy ex_pipe (tr_text ex_transcript) None None = ''use_if_ready''
   \<and> identity_policy ex_pipe (tr_text ex_transcript) (Some ''admin.debug.start'') None = ''use_if_ready''
   \<and> normalize_speaker_identity_policy (Some ''use_if_ready'') = ''use_if_ready''"
  by code_simp

lemma ex_general: "audience_policy_decision (normalized_endpoint_audience_policy (\<lambda>_. []) []) text c m sp
   = \<lparr>au_blocked = False, au_reason = None, au_audience_class = ''general'',
      au_endpoint_audience_mode = ''general'', au_override_applied = False\<rparr>" if "Option.bind sp si_age_band = None"
proof -
  have "normalized_endpoint_audience_policy (\<lambda>_. []) [] = \<lparr>ep_audience_mode = ''general'', ep_adult_override_enabled = False\<rparr>"
    "stricter_audience_class ''general'' None = ''general''" by code_simp+
  then show ?thesis using that by (simp add: audience_policy_decision_def Let_def)
qed

definition ex_quality :: audio_quality where
  "ex_quality = analyze_pcm_s16le_audio (pe_math ex_pipe) (Some [0, 64, 0, 64, 0, 64]) (Some 10) 1 (Some ''pcm_s16le'')
     None None (thresholds_of [])"

lemma ex_quality_ok: "aq_status ex_quality = ''ok'' \<and> aq_warnings ex_quality = []"
  by code_simp
lemma ex_said_code: "extract_spoken_passcode (tr_text ex_transcript) = Some ''4711''" by code_simp
lemma ex_ident: "speaker_identity_result_from_response ex_pipe ex_speaker_reply ''use_if_ready'' 0 = 
  (speaker_result ''identified'' ''use_if_ready'' True None)\<lparr>si_speaker_public_id := Some ''ann'', si_confidence := Some 1, si_score_margin := Some 1, si_admin_eligible := True, si_duration_ms := Some 0\<rparr>" by code_simp


lemma ex_fields [simp]:
  "pe_repr ex_pipe = (\<lambda>_. [])"
  "pe_float_text ex_pipe = (\<lambda>_. None)"
  "pe_math ex_pipe = \<lparr>fm_sqrt = (\<lambda>x. x), fm_log10 = (\<lambda>x. x)\<rparr>"
  "pe_kdf ex_pipe = ex_kdf"
  "pe_perf ex_pipe = (\<lambda>_. 0)"
  "pe_now ex_pipe = (\<lambda>_. 0)"
  "pe_uuid ex_pipe = (\<lambda>_ _. [])"
  "pe_wav ex_pipe = as_audio_bytes"
  "pe_identify ex_pipe = (\<lambda>_ _. Inr ex_speaker_reply)"
  "pe_ready ex_pipe = (\<lambda>_ _. True)"
  "pe_transcribe ex_pipe = (\<lambda>_ _. ex_transcript)"
  "pe_fallback ex_pipe = None"
  "pe_match_policy ex_pipe = (\<lambda>_ _. None)"
  "pe_no_speech ex_pipe = (\<lambda>_ _. ex_answer)"
  "pe_handle_turn ex_pipe = (\<lambda>_ _. ex_answer)"
  "pe_audience_policy ex_pipe = (\<lambda>_ _. None)"
  "pe_quality_profile ex_pipe = (\<lambda>_ _. None)"
  "pe_synthesize ex_pipe = (\<lambda>_ _ _. result_media_tts)"
  "pe_endpoint_voices ex_pipe = []"
  "pe_speaker_client ex_pipe = True"
  "pe_speaker_id_enabled ex_pipe = True"
  "pe_speaker_id_policy_default ex_pipe = ''use_if_ready''"
  "pe_speaker_id_endpoint_scope ex_pipe = []"
  "pe_personalization_enabled ex_pipe = False"
  "pe_privacy_mode ex_pipe = False"
  "pe_audience_policies ex_pipe = []"
  "pe_no_speech_statuses ex_pipe = [''missing_audio'', ''silent'']"
  "pe_admin_store ex_pipe = True"
  "pe_review_limit ex_pipe = None"
  "pe_audio_retention ex_pipe = False"
  by (simp_all add: ex_pipe_def)

lemma ex_audio_fields [simp]:
  "as_endpoint_id (ex_turn_audio b) = ''kitchen''" "as_session_id (ex_turn_audio b) = ''s1''"
  "as_audio_bytes (ex_turn_audio b) = b" "as_sample_rate_hz (ex_turn_audio b) = Some 10" "as_channels (ex_turn_audio b) = 1"
  "as_encoding (ex_turn_audio b) = Some ''pcm_s16le''" "as_ambient_audio_bytes (ex_turn_audio b) = None"
  "as_endpoint_audio_metrics (ex_turn_audio b) = None"
  by (simp_all add: ex_turn_audio_def)

lemma run_ask [simp]: "run_state (ask c f) w = (f (tw_calls w), w\<lparr>tw_calls := c # tw_calls w\<rparr>)"
  by (simp add: ask_def)

lemma ex_clock [simp]: "run_state (elapsed_ms ex_pipe 0) w = (0, w\<lparr>tw_calls := PerfCounter # tw_calls w\<rparr>)"
  "run_state (perf_counter ex_pipe) w = (0, w\<lparr>tw_calls := PerfCounter # tw_calls w\<rparr>)"
  by (simp_all add: elapsed_ms_def perf_counter_def)

definition ex_ann :: speaker_identity where
  "ex_ann = (speaker_result ''identified'' ''use_if_ready'' True None)
     \<lparr>si_speaker_public_id := Some ''ann'', si_confidence := Some 1, si_score_margin := Some 1,
      si_admin_eligible := True, si_duration_ms := Some 0\<rparr>"

lemma ex_ann_fields [simp]: "si_age_band ex_ann = None" "identified ex_ann" "si_status ex_ann = ''identified''"
  "ex_ann\<lparr>si_policy := ''use_if_ready''\<rparr> = ex_ann" "si_speaker_public_id ex_ann = Some ''ann''"
  by (simp_all add: ex_ann_def speaker_result_def identified_def)

lemma ex_response [simp]: "rs_command ex_answer = Some ''admin.debug.start''" "ar_provider_metadata ex_answer = None"
  "rs_heard_text ex_answer = tr_text ex_transcript" "ar_handled_locally ex_answer"
  by (simp_all add: ex_answer_def ex_transcript_def)

lemma ex_analyze: "fst (run_state (analyze_turn_audio ex_pipe (ex_turn_audio [0, 64, 0, 64, 0, 64])) w) = ex_quality"
  by (simp add: analyze_turn_audio_def audio_quality_profile_def ex_quality_def opt_dict_def)

lemma ex_hear: "fst (run_state (hear_turn ex_pipe (ex_turn_audio [0, 64, 0, 64, 0, 64]) q) w) = (Some ex_ann, ex_transcript, 0)"
  by (simp add: hear_turn_def start_speaker_identity_def run_identify_speaker_def out_of_scope_def Let_def
    record_speaker_identity_event_def voice_event_def ex_ident ex_ann_def)

definition annish :: "speaker_identity option \<Rightarrow> bool" where
  "annish sp \<longleftrightarrow> (\<exists>s. sp = Some s \<and> s\<lparr>si_learning_eligible := False, si_learning_eligibility_reason := None,
     si_learning_eligibility := None\<rparr> = ex_ann)"

lemma annish_ex_ann: "annish (Some ex_ann)"
proof -
  have "ex_ann\<lparr>si_learning_eligible := False, si_learning_eligibility_reason := None, si_learning_eligibility := None\<rparr> = ex_ann"
    by (simp add: ex_ann_def speaker_result_def)
  then show ?thesis unfolding annish_def by blast
qed

lemma annish_learning: "annish sp \<Longrightarrow> annish (speaker_identity_with_learning_policy p sp q pol md)"
proof -
  assume "annish sp"
  then obtain s where s: "sp = Some s" "s\<lparr>si_learning_eligible := False, si_learning_eligibility_reason := None,
     si_learning_eligibility := None\<rparr> = ex_ann" unfolding annish_def by blast
  obtain l r d where "speaker_identity_with_learning_policy p sp q pol md = Some (s\<lparr>si_learning_eligible := l,
      si_learning_eligibility_reason := r, si_learning_eligibility := d\<rparr>)"
    unfolding s(1) speaker_identity_with_learning_policy_def Let_def option.map(2) by blast
  moreover have "s\<lparr>si_learning_eligible := l, si_learning_eligibility_reason := r, si_learning_eligibility := d\<rparr>
      \<lparr>si_learning_eligible := False, si_learning_eligibility_reason := None, si_learning_eligibility := None\<rparr> = ex_ann"
    using s(2) by simp
  ultimately show ?thesis unfolding annish_def by blast
qed

lemma annish_ann:
  assumes "annish sp"
  obtains s where "sp = Some s" "si_age_band s = None" "identified s" "si_speaker_public_id s = Some ''ann''"
    "si_confidence s = Some 1" "si_score_margin s = Some 1" "si_admin_eligible s" "si_status s = ''identified''"
proof -
  obtain s where s: "sp = Some s" "s\<lparr>si_learning_eligible := False, si_learning_eligibility_reason := None,
     si_learning_eligibility := None\<rparr> = ex_ann" using assms by (auto simp: annish_def)
  note f = arg_cong [OF s(2)]
  show thesis
    by (rule that [OF s(1)])
      (use f [where f = si_age_band] f [where f = si_status] f [where f = si_speaker_public_id] f [where f = si_confidence] f [where f = si_score_margin]
         f [where f = si_admin_eligible] in \<open>simp_all add: ex_ann_def speaker_result_def identified_def\<close>)
qed

lemma annish_age: "annish sp \<Longrightarrow> Option.bind sp si_age_band = None"
  by (elim annish_ann) simp


definition everyone :: endpoint_policy where
  "everyone = \<lparr>ep_audience_mode = ''general'', ep_adult_override_enabled = False\<rparr>"

lemma ex_policy_read: "gives no_admin_call (\<lambda>p. p = everyone) (endpoint_audience_policy ex_pipe ep)"
proof -
  have "normalized_endpoint_audience_policy (\<lambda>_. []) [] = everyone" by code_simp
  then show ?thesis by (intro gives_policy no_admin_harmless) (simp add: opt_dict_def)
qed

lemma ex_override: "gives no_admin_call (\<lambda>sp. sp = cur)
    (speaker_identity_for_audience_override ex_pipe (ex_turn_audio b) f text c m cur)"
  unfolding speaker_identity_for_audience_override_def
  by (rule calls.yields_bind [OF ex_policy_read]) (simp add: everyone_def calls.yields_ret)

lemma ex_decision: "gives no_admin_call (\<lambda>d. annish sp \<longrightarrow> \<not> au_blocked d) (audience_decision_for ex_pipe (ex_turn_audio b) text c m sp)"
proof -
  have "stricter_audience_class ''general'' None = ''general''" by code_simp
  then show ?thesis unfolding audience_decision_for_def
    by (intro calls.yields_bind [OF ex_policy_read] calls.yields_ret impI)
      (simp add: audience_policy_decision_def annish_age everyone_def Let_def)
qed

lemma ex_judge: "gives no_admin_call (\<lambda>j. jd_policy j = ''use_if_ready'' \<and> annish (jd_speaker j) \<and> \<not> au_blocked (jd_audience j))
    (judge ex_pipe (ex_turn_audio b) (Some ex_ann) q (tr_text ex_transcript) None)"
proof -
  have l: "gives no_admin_call (\<lambda>p. p = None) (local_intent_speaker_identity_policy ex_pipe u)" for u
    unfolding local_intent_speaker_identity_policy_def
    by (intro calls.yields_if calls.yields_ret calls.yields_bind [OF gives_ask [where F = "\<lambda>p. p = None"]]) (simp_all add: no_admin_call_def)
  have f: "gives no_admin_call (\<lambda>sp. sp = Some ex_ann)
      (speaker_identity_for_policy ex_pipe (ex_turn_audio b) (Some ex_ann) ''use_if_ready'' None)"
    using ex_policies unfolding speaker_identity_for_policy_def Let_def out_of_scope_def
    by simp (intro calls.yields_bind [OF gives_ask [where F = "\<lambda>r. r"]], auto intro: calls.yields_ret simp: no_admin_call_def)
  show ?thesis
    unfolding judge_def using ex_policies
    by (intro calls.yields_bind [OF l] calls.yields_let; simp add: str_or_def)
      (rule calls.yields_bind [OF f], rule calls.yields_bind [OF ex_override], intro calls.yields_let,
       rule calls.yields_bind [OF ex_decision], auto intro!: calls.yields_ret simp: annish_learning annish_ex_ann)
qed


definition good :: "turn_state \<Rightarrow> bool" where
  "good s \<longleftrightarrow> tn_transcript s = ex_transcript \<and> tn_response s = ex_answer \<and> tn_policy s = ''use_if_ready'' \<and> annish (tn_speaker s)"

lemma ex_first: "gives no_admin_call (\<lambda>(s, b). good s)
    (first_answer ex_pipe (ex_turn_audio b) ex_quality (Some ex_ann) ex_transcript 0)"
proof -
  have q: "gives no_admin_call (\<lambda>b. \<not> b) (audio_quality_blocks_assistant ex_pipe ex_quality ep)" for ep
    by (rule calls.yields_mono [OF gives_default_statuses [OF no_admin_harmless]]) (simp_all add: ex_quality_ok)
  show ?thesis
    unfolding first_answer_def
    by (rule calls.yields_bind [OF ex_judge], rule calls.yields_bind [OF q], rule calls.yields_bind [where G = "\<lambda>r. r = ex_answer"])
      (auto intro!: gives_ask calls.yields_ret simp: answer_if_permitted_def Let_def no_admin_call_def good_def
        speaker_identity_blocks_required_policy_def heard_by_assistant_def)
qed

lemma ex_settle: "good s \<Longrightarrow> gives no_admin_call good
    (settle_identity ex_pipe (ex_turn_audio b) q (Some ex_ann) s)"
  using ex_policies unfolding settle_identity_def good_def
  by (simp add: ex_policies) (intro calls.yields_bind [OF ex_override] calls.yields_ret; simp add: annish_learning)

lemma ex_allowed:
  assumes "annish sp"
  shows "dc_allowed (fst (admin_evaluate ex_kdf (\<lambda>_. []) t None
    \<lparr>rq_text = tr_text ex_transcript, rq_intent_id = Some ''admin.debug.start'',
     rq_speaker_identity = map_option speaker_context sp, rq_audio_quality = Some (quality_context ex_quality)\<rparr>
    (Some (ex_admin 0 None u))))" (is "dc_allowed (fst (admin_evaluate _ _ _ _ ?rq _))")
proof -
  obtain s where s: "sp = Some s" "si_speaker_public_id s = Some ''ann''" "si_confidence s = Some 1"
      "si_score_margin s = Some 1" "si_admin_eligible s" "si_status s = ''identified''"
    using assms by (elim annish_ann) blast
  have i: "strip ''admin.debug.start'' = ''admin.debug.start'' \<and> strip ''ann'' = ''ann''
      \<and> ''admin.debug.start'' \<in> set ADMIN_MAINTENANCE_INTENT_IDS" by code_simp
  have "refusal (\<lambda>_. []) (ex_admin 0 None u) ?rq = None"
    using i ex_quality_ok unfolding not_refused
    by (simp add: s ex_admin_def str_or_def lock_text_def admin_speaker_def speaker_context_def dget_def py_or_def
       usable_audio_def quality_context_def Let_def ostr_def onum_def)
  moreover have "verify_passcode ex_kdf ''4711'' \<lparr>ph_algorithm = ''pbkdf2_sha256'', ph_iterations = 210000,
      ph_salt = ''s'', ph_digest = ''4711s''\<rparr>"
    by (simp add: verify_passcode_def ex_kdf_def)
  ultimately show ?thesis
    using ex_said_code by (simp add: admin_evaluate_def Let_def, simp add: ex_admin_def)
qed


lemma ex_is_admin: "admin_maintenance_intent_id rp ex_answer = Some ''admin.debug.start''"
proof -
  have "strip ''admin.debug.start'' = ''admin.debug.start''" by code_simp
  then show ?thesis by (simp add: admin_maintenance_intent_id_def str_or_def Let_def startswith_def)
qed

definition done_so_far :: "turn_state \<Rightarrow> bool" where
  "done_so_far s \<longleftrightarrow> annish (tn_speaker s) \<and> admin_maintenance_intent_id (\<lambda>_. []) (tn_response s) = Some ''admin.debug.start''"

lemma ex_authorize: "good s \<Longrightarrow> tw_admin w = Some (ex_admin 0 None []) \<Longrightarrow>
    wp (authorize_admin ex_pipe (ex_turn_audio b) ex_quality s) (\<lambda>s' t. done_so_far s') w"
  by (simp add: authorize_admin_def admin_maintenance_decision_def wp_simps ask_def Let_def good_def ex_is_admin
      ex_allowed done_so_far_def metadata_keeps_intent)

lemma ex_apply: "done_so_far s \<Longrightarrow> gives no_admin_call done_so_far (apply_audience ex_pipe (ex_turn_audio b) s)"
proof -
  assume s: "done_so_far s"
  show ?thesis
    unfolding apply_audience_def
    by (intro calls.yields_let, rule calls.yields_bind [OF ex_decision], intro calls.yields_let calls.yields_ret)
      (use s in \<open>simp add: done_so_far_def\<close>)
qed


lemma ex_turn_is_admin: "wp (complete_turn ex_pipe (ex_turn_audio [0, 64, 0, 64, 0, 64]))
    (\<lambda>out t. admin_maintenance_intent_id (\<lambda>_. []) (to_response out) = Some ''admin.debug.start'') ex_turn"
proof -
  note h = no_admin_harmless
  let ?a = "ex_turn_audio [0, 64, 0, 64, 0, 64]"
  have q: "gives no_admin_call (\<lambda>q. q = ex_quality) (analyze_turn_audio ex_pipe ?a)"
    using gives_analyze [OF h, of ex_pipe ?a] ex_analyze by (simp add: calls.yields_def)
  have e: "gives no_admin_call (\<lambda>(f, t, ms). f = Some ex_ann \<and> t = ex_transcript \<and> ms = 0) (hear_turn ex_pipe ?a q)" for q
    using gives_hear [OF h, of ex_pipe ?a] ex_hear by (simp add: calls.yields_def no_admin_call_def)
  have start: "tw_admin ex_turn = Some (ex_admin 0 None [])" by (simp add: ex_turn_def)
  note before = wp_before [where x = "Some (ex_admin 0 None [])"]
  have fb: "fallback_answer ex_pipe ?a q f b s = ret s" for q f b s by (simp add: fallback_answer_def)
  have free: "gives no_admin_call F m \<Longrightarrow> (\<And>a t. F a \<Longrightarrow> wp (f a) Q t) \<Longrightarrow> wp (State_Monad.bind m f) Q s" for F m f Q s
    unfolding wp_bind by (erule calls.wp_yields) auto
  show ?thesis
    unfolding complete_turn_def fb
    by (rule before [OF gives_perf [OF h] start],
        rule before [OF q], assumption, rule before [OF e], assumption,
        intro wp_pair, rule before [OF gives_perf [OF h]], assumption,
        clarsimp simp del: ex_fields,
        rule before [OF ex_first], assumption,
        intro wp_pair, rule before [OF ex_settle], simp, assumption,
        rule wp_then [OF ex_authorize], assumption, assumption,
        rule free [OF ex_apply], assumption, rule free [OF gives_enqueue], simp add: no_admin_call_def,
        rule free [OF gives_elapsed [OF h]], rule free [OF gives_speak [OF h]], intro wp_pair, rule free [OF gives_elapsed [OF h]])
      (auto simp: wp_return done_so_far_def dest: same_intent [where rp = "\<lambda>_. []"])
qed

theorem admin_action_authorized_witness:
  "let out = fst (run_state (complete_turn ex_pipe (ex_turn_audio [0, 64, 0, 64, 0, 64])) ex_turn) in
    authorized ex_pipe (tw_admin ex_turn) (tw_calls (snd (run_state (complete_turn ex_pipe (ex_turn_audio [0, 64, 0, 64, 0, 64])) ex_turn)))
      (to_speaker_identity out) (to_audio_quality out) ''admin.debug.start''"
  by (rule admin_action_authorized) (use ex_turn_is_admin in \<open>simp add: wp_def\<close>)

theorem privacy_mode_keeps_speaker_unknown_witness:
  "let E = ex_pipe\<lparr>pe_privacy_mode := True\<rparr>; run = run_state (complete_turn E (ex_turn_audio [])) ex_turn in
    nobody (to_speaker_identity (fst run)) \<and> tw_reviews (snd run) = tw_reviews ex_turn
    \<and> (\<exists>new. tw_calls (snd run) = new @ tw_calls ex_turn \<and> list_all private_call new)"
  unfolding Let_def by (rule privacy_mode_keeps_speaker_unknown) simp_all

theorem guarded_endpoint_refuses_witness:
  "let E = ex_pipe\<lparr>pe_audience_policy := (\<lambda>_ _. Some [(''audience_mode'', PStr ''child_safe'')])\<rparr>;
       run = run_state (complete_turn E (ex_turn_audio [0, 64])) ex_turn in
    (\<exists>new. tw_calls (snd run) = new @ tw_calls ex_turn \<and> list_all guarded_call new)
    \<and> (\<exists>heard. tr_text (to_transcript (fst run)) = redact_spoken_passcodes heard \<and>
        (rs_command (to_response (fst run)) = Some ''voice.audience_policy.refused''
         \<or> restricted_content_reason heard (rs_command (to_response (fst run))) (ar_provider_metadata (to_response (fst run))) = None))"
proof -
  have "guarded_endpoint (normalized_endpoint_audience_policy (\<lambda>_. []) [(''audience_mode'', PStr ''child_safe'')])"
    by code_simp
  then show ?thesis
    unfolding Let_def by (intro guarded_endpoint_refuses) (simp_all add: policy_at_def)
qed

theorem silence_is_not_answered_witness:
  "\<exists>new. tw_calls (snd (run_state (complete_turn ex_pipe (ex_turn_audio [])) ex_turn)) = new @ tw_calls ex_turn
    \<and> list_all unasked_call new"
proof -
  have "aq_status (analyze_pcm_s16le_audio (pe_math ex_pipe) (Some []) (Some 10) 1 (Some ''pcm_s16le'') None None (thresholds_of []))
    \<in> set (pe_no_speech_statuses ex_pipe)" by code_simp
  then show ?thesis by (intro silence_is_not_answered) simp_all
qed

end
