(* ===== verification/Calibration.thy ===== *)
theory Calibration
  imports Placement PyTime
begin

text \<open>
  Windows in which an endpoint sends passive samples of its surroundings
  (\<open>persistence/voice_placement_calibration.py\<close>): what a window may ask for, which samples are taken, and how
  long they are kept. The file is the record it holds, or None before it is written first; within an operation
  the clock is read once. The number fields of a stored window are those \<open>start_window\<close> put there.
\<close>

section \<open>State\<close>

record calibration =
  ca_schema_version :: int
  ca_windows :: "dict list"
  ca_samples :: "dict list"
  ca_updated_at :: string

type_synonym calibration_file = "calibration option"

definition parse_window_time :: "pv \<Rightarrow> instant option" where
  "parse_window_time value = (case value of PStr s \<Rightarrow> if strip s = [] then None else parse_utc (replace_z s) | _ \<Rightarrow> None)"

definition calibration_load :: "instant \<Rightarrow> calibration_file \<Rightarrow> calibration" where
  "calibration_load clk file = (case file of Some c \<Rightarrow> c
     | None \<Rightarrow> \<lparr>ca_schema_version = 1, ca_windows = [], ca_samples = [], ca_updated_at = isoformat clk\<rparr>)"

definition calibration_save :: "instant \<Rightarrow> calibration \<Rightarrow> calibration" where
  "calibration_save clk c = c\<lparr>ca_updated_at := isoformat clk\<rparr>"

text \<open>\<open>int(window.get(key) or default)\<close>\<close>

definition int_field :: "dict \<Rightarrow> string \<Rightarrow> int \<Rightarrow> int" where
  "int_field d k n = (case num_of (py_or (dget d k) (PInt n)) of Some x \<Rightarrow> py_trunc x | None \<Rightarrow> n)"

definition is_active :: "dict \<Rightarrow> bool" where
  "is_active w \<longleftrightarrow> dget w ''status'' = PStr ''active''"

definition has_id :: "string \<Rightarrow> dict \<Rightarrow> bool" where
  "has_id target d \<longleftrightarrow> dget d ''calibration_id'' = PStr target"

definition complete_window :: "instant \<Rightarrow> dict \<Rightarrow> dict" where
  "complete_window now w =
     (case parse_window_time (dget w ''ends_at'') of
        Some ends_at \<Rightarrow>
          if is_active w \<and> ends_at \<le> now then
            aput ''next_sample_due_at'' PNone (aput ''completed_at'' (PStr (isoformat ends_at))
              (aput ''status'' (PStr ''completed'') w))
          else w
      | None \<Rightarrow> w)"

definition complete_expired_windows :: "instant \<Rightarrow> calibration \<Rightarrow> calibration" where
  "complete_expired_windows now c = c\<lparr>ca_windows := map (complete_window now) (ca_windows c)\<rparr>"

section \<open>Windows\<close>

record window_request =
  wr_endpoint_id :: string
  wr_room :: string
  wr_zone :: "string option"
  wr_duration_hours :: rat
  wr_sample_interval_seconds :: int
  wr_retention_days :: int
  wr_debug_record_audio :: bool

definition window_of :: "instant \<Rightarrow> string \<Rightarrow> window_request \<Rightarrow> dict" where
  "window_of now uid rq =
     (let hours = max 1 (min (if wr_duration_hours rq = 0 then 24 else wr_duration_hours rq) 48);
          interval = max 60 (min (if wr_sample_interval_seconds rq = 0 then 600 else wr_sample_interval_seconds rq) 3600);
          retention = max 1 (min (if wr_retention_days rq = 0 then 3 else wr_retention_days rq) 14);
          debug = wr_debug_record_audio rq in
      [(''schema_version'', PInt 1), (''calibration_id'', PStr (''placement-cal-'' @ uid)),
       (''endpoint_id'', PStr (strip (wr_endpoint_id rq))), (''room'', PStr (strip (wr_room rq))),
       (''zone'', ostr (nonempty (strip (str_or (wr_zone rq) [])))), (''mode'', PStr ''passive_ambient''),
       (''status'', PStr ''active''), (''started_at'', PStr (isoformat now)),
       (''ends_at'', PStr (isoformat (now + round_half_even (hours * 3600 * of_int us_per_s)))),
       (''duration_hours'', PFloat hours), (''sample_interval_seconds'', PInt interval),
       (''next_sample_due_at'', PStr (isoformat now)), (''retention_days'', PInt retention),
       (''sample_count'', PInt 0), (''last_sample_at'', PNone), (''debug_record_audio'', PBool debug),
       (''raw_audio_policy'', PStr (if \<not> debug then ''discard_after_metrics'' else ''debug_retention_one_day'')),
       (''metrics_only'', PBool True)])"

definition start_window :: "nat \<Rightarrow> instant \<Rightarrow> string \<Rightarrow> window_request \<Rightarrow> calibration_file
    \<Rightarrow> (string + dict) \<times> calibration_file" where
  "start_window max_windows now uid rq file =
     (if strip (wr_endpoint_id rq) = [] then (Inl ''endpoint_id_required'', file)
      else if strip (wr_room rq) = [] then (Inl ''room_required'', file)
      else
        let window = window_of now uid rq;
            c = complete_expired_windows now (calibration_load now file);
            others = filter (\<lambda>w. \<not> has_id (''placement-cal-'' @ uid) w) (ca_windows c) in
        (Inr window, Some (calibration_save now
          (c\<lparr>ca_windows := push_front (max 1 max_windows) window others\<rparr>))))"

definition cancel_one :: "instant \<Rightarrow> dict \<Rightarrow> dict" where
  "cancel_one now w = aput ''next_sample_due_at'' PNone (aput ''cancelled_at'' (PStr (isoformat now))
     (aput ''status'' (PStr ''cancelled'') w))"

definition cancel_window :: "instant \<Rightarrow> string \<Rightarrow> calibration_file \<Rightarrow> dict option \<times> calibration_file" where
  "cancel_window now calibration_id file =
     (let target = strip calibration_id; c = calibration_load now file;
          found = filter (has_id target) (ca_windows c) in
      if target = [] \<or> found = [] then (None, file)
      else (Some (cancel_one now (last found)),
        Some (calibration_save now (c\<lparr>ca_windows :=
          map (\<lambda>w. if has_id target w then cancel_one now w else w) (ca_windows c)\<rparr>))))"

section \<open>Samples\<close>

definition METRIC_KEYS :: "string list" where
  "METRIC_KEYS = [''ambient_rms'', ''ambient_level_db'', ''peak'', ''peak_db'', ''clipping_count'', ''clipping_ratio'',
     ''speech_like_activity_ratio'', ''snr_db'', ''sample_duration_ms'']"

definition sanitize_metrics :: "dict \<Rightarrow> dict option" where
  "sanitize_metrics metrics =
     (let numbers = List.map_filter (\<lambda>k. map_option (\<lambda>x. (k, PFloat (py_round 6 x))) (num_of (dget metrics k))) METRIC_KEYS;
          flag = (case dget metrics ''speech_like_activity'' of PBool b \<Rightarrow> [(''speech_like_activity'', PBool b)] | _ \<Rightarrow> []) in
      if numbers @ flag = [] then None else Some (numbers @ flag))"

text \<open>\<open>cleanup\<close> on a given calibration: windows past their end are completed, samples past their retention dropped.\<close>

definition retention_of :: "dict option \<Rightarrow> int" where
  "retention_of window = max 1 (case window of Some w \<Rightarrow> if w = [] then 3 else int_field w ''retention_days'' 3 | None \<Rightarrow> 3)"

definition windows_by_id :: "(pv \<Rightarrow> string) \<Rightarrow> dict list \<Rightarrow> (string \<times> dict) list" where
  "windows_by_id rp windows = fold (\<lambda>w d. aput (py_str rp (dget w ''calibration_id'')) w d) windows []"

definition sample_kept :: "(pv \<Rightarrow> string) \<Rightarrow> instant \<Rightarrow> dict list \<Rightarrow> dict \<Rightarrow> bool" where
  "sample_kept rp now windows sample \<longleftrightarrow>
     now - retention_of (aget (windows_by_id rp windows) (py_str rp (dget sample ''calibration_id''))) * us_per_day
     \<le> (case parse_window_time (dget sample ''observed_at'') of Some t \<Rightarrow> t | None \<Rightarrow> now)"

definition calibration_cleanup :: "(pv \<Rightarrow> string) \<Rightarrow> instant \<Rightarrow> calibration \<Rightarrow> calibration" where
  "calibration_cleanup rp now c =
     (let d = complete_expired_windows now c in
      d\<lparr>ca_samples := filter (sample_kept rp now (ca_windows d)) (ca_samples d)\<rparr>)"

text \<open>\<open>cleanup\<close> of the stored calibration, which is written when something changed.\<close>

definition calibration_refresh :: "(pv \<Rightarrow> string) \<Rightarrow> instant \<Rightarrow> calibration_file \<Rightarrow> calibration \<times> calibration_file" where
  "calibration_refresh rp now file =
     (let loaded = calibration_load now file; updated = calibration_cleanup rp now loaded in
      if ca_windows updated \<noteq> ca_windows loaded \<or> length (ca_samples updated) < length (ca_samples loaded)
      then (calibration_save now updated, Some (calibration_save now updated))
      else (updated, file))"

definition take_sample :: "instant \<Rightarrow> instant \<Rightarrow> dict \<Rightarrow> dict \<Rightarrow> dict" where
  "take_sample now observed_dt sample w =
     (let next_due = observed_dt + int_field w ''sample_interval_seconds'' 600 * us_per_s;
          due = (case parse_window_time (dget w ''ends_at'') of None \<Rightarrow> True | Some ends_at \<Rightarrow> next_due < ends_at) in
      aput ''next_sample_due_at'' (if due then PStr (isoformat next_due) else PNone)
        (aput ''last_sample_at'' (dget sample ''observed_at'')
          (aput ''sample_count'' (PInt (int_field w ''sample_count'' 0 + 1)) w)))"

definition sample_of :: "instant \<Rightarrow> string \<Rightarrow> instant \<Rightarrow> string \<Rightarrow> dict \<Rightarrow> dict \<Rightarrow> dict" where
  "sample_of now uid observed_dt target w m =
    [(''schema_version'', PInt 1), (''sample_id'', PStr (''placement-sample-'' @ uid)),
     (''calibration_id'', PStr target), (''endpoint_id'', dget w ''endpoint_id''), (''room'', dget w ''room''),
     (''zone'', dget w ''zone''), (''observed_at'', PStr (isoformat observed_dt)),
     (''received_at'', PStr (isoformat now)), (''metrics'', PDict m),
     (''privacy'', PDict
       [(''metrics_only'', PBool True),
        (''raw_audio'', PDict [(''persisted'', PBool False), (''policy'', dget w ''raw_audio_policy'')]),
        (''stt'', PDict [(''called'', PBool False)]), (''speaker_id'', PDict [(''called'', PBool False)])])]"

definition record_sample :: "(pv \<Rightarrow> string) \<Rightarrow> nat \<Rightarrow> instant \<Rightarrow> string \<Rightarrow> string \<Rightarrow> pv \<Rightarrow> pv \<Rightarrow> calibration_file
    \<Rightarrow> (string + dict) \<times> calibration_file" where
  "record_sample rp max_samples now uid calibration_id metrics observed_at file =
     (let target = strip calibration_id;
          observed_dt = (case parse_window_time observed_at of Some t \<Rightarrow> t | None \<Rightarrow> now);
          c = complete_expired_windows now (calibration_load now file) in
      if target = [] then (Inl ''calibration_id_required'', file)
      else (case find (has_id target) (ca_windows c) of
          None \<Rightarrow> (Inl ''calibration_not_found'', file)
        | Some w \<Rightarrow>
          if \<not> is_active w then (Inl ''calibration_not_active'', file)
          else (case (case metrics of PDict m \<Rightarrow> sanitize_metrics m | _ \<Rightarrow> None) of
              None \<Rightarrow> (Inl ''metrics_required'', file)
            | Some m \<Rightarrow>
              let sample = sample_of now uid observed_dt target w m;
                  windows = map (\<lambda>x. if has_id target x then take_sample now observed_dt sample w else x) (ca_windows c);
                  samples = push_front (max 1 max_samples) sample (ca_samples c) in
              (Inr sample, Some (calibration_save now
                (calibration_cleanup rp now (c\<lparr>ca_windows := windows, ca_samples := samples\<rparr>)))))))"

section \<open>Reading\<close>

definition same_endpoint :: "string option \<Rightarrow> dict \<Rightarrow> bool" where
  "same_endpoint endpoint_id d \<longleftrightarrow> (case endpoint_id of None \<Rightarrow> True
     | Some e \<Rightarrow> e = [] \<or> dget d ''endpoint_id'' = PStr e)"

definition calibration_status :: "(pv \<Rightarrow> string) \<Rightarrow> string \<Rightarrow> instant \<Rightarrow> string option \<Rightarrow> calibration_file \<Rightarrow> dict \<times> calibration_file" where
  "calibration_status rp path now endpoint_id file =
     (let (c, file') = calibration_refresh rp now file;
          windows = filter (same_endpoint endpoint_id) (ca_windows c) in
      ([(''enabled'', PBool True), (''path'', PStr path),
        (''active_windows'', PList (map PDict (filter is_active windows))),
        (''recent_windows'', PList (map PDict (take 10 windows))),
        (''sample_count'', PInt (int (length (filter (same_endpoint endpoint_id) (ca_samples c))))),
        (''updated_at'', PStr (ca_updated_at c))], file'))"

definition get_window :: "(pv \<Rightarrow> string) \<Rightarrow> instant \<Rightarrow> string \<Rightarrow> calibration_file \<Rightarrow> dict option \<times> calibration_file" where
  "get_window rp now calibration_id file =
     (let target = strip calibration_id in
      if target = [] then (None, file)
      else (let (c, file') = calibration_refresh rp now file in (find (has_id target) (ca_windows c), file')))"

definition list_samples :: "(pv \<Rightarrow> string) \<Rightarrow> instant \<Rightarrow> string \<Rightarrow> int \<Rightarrow> calibration_file \<Rightarrow> dict list \<times> calibration_file" where
  "list_samples rp now calibration_id limit file =
     (let target = strip calibration_id in
      if target = [] then ([], file)
      else (let (c, file') = calibration_refresh rp now file in
        (take (nat (max 1 (min limit 5000))) (filter (has_id target) (ca_samples c)), file')))"

section \<open>What the store holds\<close>

definition calibration_of :: "calibration_file \<Rightarrow> calibration" where
  "calibration_of file = calibration_load 0 file"

text \<open>
  What a window says of the place, and what a sample may consist of: nothing but its identifiers, the place
  of its window, two times, at least one measurement (numbers under the known names, and the flag for speech)
  and the statement that no audio was kept and neither speech to text nor speaker identification was called.
\<close>

definition audio_policies :: "string set" where
  "audio_policies = {''discard_after_metrics'', ''debug_retention_one_day''}"

definition window_ok :: "dict \<Rightarrow> bool" where
  "window_ok w \<longleftrightarrow> (\<exists>ep. dget w ''endpoint_id'' = PStr ep) \<and> (\<exists>room. dget w ''room'' = PStr room)
     \<and> (\<exists>zone. dget w ''zone'' = ostr zone) \<and> (\<exists>policy \<in> audio_policies. dget w ''raw_audio_policy'' = PStr policy)"

definition metric_value :: "pv \<Rightarrow> bool" where
  "metric_value v = (case v of PFloat _ \<Rightarrow> True | PBool _ \<Rightarrow> True | _ \<Rightarrow> False)"

definition metrics_ok :: "dict \<Rightarrow> bool" where
  "metrics_ok m \<longleftrightarrow> m \<noteq> [] \<and> set (map fst m) \<subseteq> insert ''speech_like_activity'' (set METRIC_KEYS)
     \<and> list_all (\<lambda>(k, v). metric_value v) m"

definition sample_ok :: "dict \<Rightarrow> bool" where
  "sample_ok s \<longleftrightarrow> (\<exists>sid cid ep room zone observed received m policy.
     s = [(''schema_version'', PInt 1), (''sample_id'', PStr (''placement-sample-'' @ sid)),
       (''calibration_id'', PStr cid), (''endpoint_id'', PStr ep), (''room'', PStr room), (''zone'', ostr zone),
       (''observed_at'', PStr (isoformat observed)), (''received_at'', PStr (isoformat received)), (''metrics'', PDict m),
       (''privacy'', PDict [(''metrics_only'', PBool True),
          (''raw_audio'', PDict [(''persisted'', PBool False), (''policy'', PStr policy)]),
          (''stt'', PDict [(''called'', PBool False)]), (''speaker_id'', PDict [(''called'', PBool False)])])]
     \<and> metrics_ok m \<and> policy \<in> audio_policies)"

definition window_ids :: "dict list \<Rightarrow> pv list" where
  "window_ids ws = map (\<lambda>w. dget w ''calibration_id'') ws"

definition calibration_ok :: "nat \<Rightarrow> nat \<Rightarrow> calibration \<Rightarrow> bool" where
  "calibration_ok mw ms c \<longleftrightarrow> length (ca_windows c) \<le> mw \<and> distinct (window_ids (ca_windows c))
     \<and> list_all window_ok (ca_windows c) \<and> length (ca_samples c) \<le> ms \<and> list_all sample_ok (ca_samples c)"

lemma window_ids_complete [simp]: "window_ids (map (complete_window now) ws) = window_ids ws"
  by (simp add: window_ids_def complete_window_def split: option.split)

lemma window_ok_steps [simp]:
  "window_ok (complete_window now w) = window_ok w" "window_ok (cancel_one now w) = window_ok w"
  "window_ok (take_sample now t sample w) = window_ok w"
  by (simp_all add: window_ok_def complete_window_def cancel_one_def take_sample_def Let_def split: option.split)

lemma window_of_ok: "window_ok (window_of now uid rq)"
  by (simp add: window_ok_def window_of_def dget_def Let_def audio_policies_def) blast

lemma windows_ok_push: "window_ok w \<Longrightarrow> list_all window_ok ws \<Longrightarrow> list_all window_ok (push_front n w (filter P ws))"
  by (cases n) (auto simp: push_front_def list_all_iff dest: in_set_takeD)

lemma windows_ok_map: "(\<And>w. window_ok (f w) = window_ok w) \<Longrightarrow>
    list_all window_ok (map (\<lambda>w. if P w then f w else w) ws) = list_all window_ok ws"
  by (induction ws) simp_all

lemma calibration_ok_complete [simp]: "calibration_ok mw ms (complete_expired_windows now c) = calibration_ok mw ms c"
  by (simp add: calibration_ok_def complete_expired_windows_def list.pred_map o_def)

lemma calibration_ok_save [simp]: "calibration_ok mw ms (calibration_save now c) = calibration_ok mw ms c"
  by (simp add: calibration_ok_def calibration_save_def)

lemma calibration_ok_cleanup: "calibration_ok mw ms c \<Longrightarrow> calibration_ok mw ms (calibration_cleanup rp now c)"
  by (auto simp: calibration_ok_def calibration_cleanup_def complete_expired_windows_def Let_def list_all_iff
      intro: order_trans [OF length_filter_le])

lemma calibration_ok_load [simp]: "calibration_ok mw ms (calibration_load now file) = calibration_ok mw ms (calibration_of file)"
  by (cases "file") (simp_all add: calibration_load_def calibration_of_def calibration_ok_def)

lemma calibration_of_Some [simp]: "calibration_of (Some c) = c"
  by (simp add: calibration_of_def calibration_load_def)

lemma set_map_filterD: "y \<in> set (List.map_filter f xs) \<Longrightarrow> \<exists>x \<in> set xs. f x = Some y"
  by (auto simp: List.map_filter_def)

lemma sanitize_metrics_ok: "sanitize_metrics m = Some d \<Longrightarrow> metrics_ok d"
proof -
  assume s: "sanitize_metrics m = Some d"
  define f where "f = (\<lambda>k. map_option (\<lambda>x. (k, PFloat (py_round 6 x))) (num_of (dget m k)))"
  define g where "g = (case dget m ''speech_like_activity'' of PBool b \<Rightarrow> [(''speech_like_activity'', PBool b)] | _ \<Rightarrow> [])"
  have d: "d \<noteq> []" "d = List.map_filter f METRIC_KEYS @ g"
    using s unfolding sanitize_metrics_def Let_def f_def [symmetric] g_def [symmetric] by (metis option.distinct(1) option.inject)+
  have "fst p \<in> set METRIC_KEYS \<and> metric_value (snd p)" if "p \<in> set (List.map_filter f METRIC_KEYS)" for p
    using set_map_filterD [OF that] by (auto simp: f_def metric_value_def)
  moreover have "fst p = ''speech_like_activity'' \<and> metric_value (snd p)" if "p \<in> set g" for p
    using that by (cases "dget m ''speech_like_activity''") (simp_all add: g_def metric_value_def)
  ultimately show ?thesis unfolding metrics_ok_def list_all_iff using d by fastforce
qed

lemma window_ids_push:
  assumes "distinct (window_ids ws)" "dget w ''calibration_id'' = PStr i"
  shows "distinct (window_ids (push_front n w (filter (\<lambda>x. \<not> has_id i x) ws)))"
proof -
  have "distinct (window_ids (w # filter (\<lambda>x. \<not> has_id i x) ws))"
    using assms distinct_map_filter [of "\<lambda>w. dget w ''calibration_id''"] by (auto simp: window_ids_def has_id_def)
  then show ?thesis
    by (simp add: push_front_def window_ids_def take_map [symmetric] distinct_take del: take_Cons)
qed

lemma start_keeps:
  assumes "calibration_ok (max 1 n) ms (calibration_of file)"
  shows "calibration_ok (max 1 n) ms (calibration_of (snd (start_window n now uid rq file)))"
proof (cases "strip (wr_endpoint_id rq) = [] \<or> strip (wr_room rq) = []")
  case True
  then show ?thesis using assms by (auto simp: start_window_def Let_def)
next
  case False
  let ?c = "complete_expired_windows now (calibration_load now file)" and ?i = "''placement-cal-'' @ uid"
  have "calibration_ok (max 1 n) ms ?c" using assms by simp
  moreover have "dget (window_of now uid rq) ''calibration_id'' = PStr ?i" by (simp add: window_of_def dget_def Let_def)
  ultimately show ?thesis
    using False window_ids_push [of "ca_windows ?c" "window_of now uid rq" ?i "max 1 n"]
      windows_ok_push [OF window_of_ok, where ws = "ca_windows ?c" and n = "max 1 n" and P = "\<lambda>w. \<not> has_id ?i w"]
    by (simp add: start_window_def Let_def del: calibration_ok_complete calibration_ok_load) (simp add: calibration_ok_def del: One_nat_def)
qed

lemma cancel_keeps: "calibration_ok mw ms (calibration_of file) \<Longrightarrow> calibration_ok mw ms (calibration_of (snd (cancel_window now i file)))"
proof -
  assume ok: "calibration_ok mw ms (calibration_of file)"
  have "window_ids (map (\<lambda>w. if has_id t w then cancel_one now w else w) ws) = window_ids ws" for t ws
    by (simp add: window_ids_def cancel_one_def)
  moreover have "calibration_ok mw ms (calibration_load now file)" using ok by simp
  ultimately show ?thesis
    using ok by (auto simp: cancel_window_def Let_def calibration_ok_def calibration_save_def windows_ok_map simp del: calibration_ok_load)
qed

lemma refresh_keeps: "calibration_ok mw ms (calibration_of file) \<Longrightarrow>
    calibration_ok mw ms (calibration_of (snd (calibration_refresh rp now file)))"
  using calibration_ok_cleanup [of mw ms "calibration_load now file" rp now] by (simp add: calibration_refresh_def Let_def)

text \<open>When a sample is taken, and what then becomes of the store.\<close>

lemma record_sample_taken:
  assumes "record_sample rp ms now uid i metrics obs file = (Inr s, file')"
  obtains w m where "find (has_id (strip i)) (ca_windows (complete_expired_windows now (calibration_load now file))) = Some w"
    and "is_active w" "metrics_ok m" "s = sample_of now uid (case parse_window_time obs of Some t \<Rightarrow> t | None \<Rightarrow> now) (strip i) w m"
    and "file' = Some (calibration_save now (calibration_cleanup rp now (complete_expired_windows now (calibration_load now file)
      \<lparr>ca_windows := map (\<lambda>x. if has_id (strip i) x
          then take_sample now (case parse_window_time obs of Some t \<Rightarrow> t | None \<Rightarrow> now) s w else x)
          (ca_windows (complete_expired_windows now (calibration_load now file))),
        ca_samples := push_front (max 1 ms) s (ca_samples (complete_expired_windows now (calibration_load now file)))\<rparr>)))"
proof -
  let ?c = "complete_expired_windows now (calibration_load now file)"
  from assms obtain d w m where "metrics = PDict d" and m: "sanitize_metrics d = Some m"
    and w: "find (has_id (strip i)) (ca_windows ?c) = Some w" "is_active w" and i: "strip i \<noteq> []"
    unfolding record_sample_def Let_def by (auto split: if_splits option.splits pv.splits)
  with assms show thesis
    by (intro that [OF w sanitize_metrics_ok [OF m]]; (drule sym)?) (auto simp: record_sample_def Let_def simp del: One_nat_def)
qed

lemma record_sample_refused: "record_sample rp ms now uid i metrics obs file = (Inl e, file') \<Longrightarrow> file' = file"
  by (auto simp: record_sample_def Let_def split: if_splits option.splits)

lemma sample_of_ok: "metrics_ok m \<Longrightarrow> window_ok w \<Longrightarrow> sample_ok (sample_of now uid t i w m)"
  by (auto simp: sample_ok_def sample_of_def window_ok_def)

lemma record_keeps:
  assumes "calibration_ok mw (max 1 n) (calibration_of file)"
  shows "calibration_ok mw (max 1 n) (calibration_of (snd (record_sample rp n now uid i metrics obs file)))"
proof (cases "record_sample rp n now uid i metrics obs file")
  case (Pair r f')
  show ?thesis
  proof (cases r)
    case (Inl e)
    with record_sample_refused [OF Pair [unfolded Inl]] assms show ?thesis by (simp only: Pair snd_conv)
  next
    case (Inr s)
    let ?c = "complete_expired_windows now (calibration_load now file)"
    have ok: "calibration_ok mw (max 1 n) ?c" using assms by simp
    obtain w m where w: "find (has_id (strip i)) (ca_windows ?c) = Some w" and m: "metrics_ok m"
      and s: "s = sample_of now uid (case parse_window_time obs of Some t \<Rightarrow> t | None \<Rightarrow> now) (strip i) w m"
      and f: "f' = Some (calibration_save now (calibration_cleanup rp now (?c
      \<lparr>ca_windows := map (\<lambda>x. if has_id (strip i) x
          then take_sample now (case parse_window_time obs of Some t \<Rightarrow> t | None \<Rightarrow> now) s w else x) (ca_windows ?c),
        ca_samples := push_front (max 1 n) s (ca_samples ?c)\<rparr>)))"
      using record_sample_taken [OF Pair [unfolded Inr]] by blast
    have id: "has_id (strip i) w" using w by (simp add: find_Some_iff) blast
    have "window_ids (map (\<lambda>x. if has_id (strip i) x then take_sample now t s w else x) ws) = window_ids ws" for t ws
      using id by (auto simp: window_ids_def take_sample_def has_id_def Let_def)
    moreover have wok: "window_ok w" using ok w by (auto simp: calibration_ok_def list_all_iff find_Some_iff)
    have "\<forall>x \<in> set (ca_windows ?c). window_ok x" using ok unfolding calibration_ok_def list_all_iff by blast
    then have "list_all window_ok (map (\<lambda>x. if has_id (strip i) x then take_sample now t s w else x) (ca_windows ?c))" for t
      unfolding list_all_iff using wok by auto
    moreover have "list_all sample_ok (push_front k s (ca_samples ?c))" for k
      using sample_of_ok [OF m wok] ok by (auto simp: s push_front_def calibration_ok_def list_all_iff take_Cons split: nat.split dest: in_set_takeD)
    ultimately have "calibration_ok mw (max 1 n) (?c\<lparr>ca_windows := map (\<lambda>x. if has_id (strip i) x
          then take_sample now (case parse_window_time obs of Some t \<Rightarrow> t | None \<Rightarrow> now) s w else x) (ca_windows ?c),
        ca_samples := push_front (max 1 n) s (ca_samples ?c)\<rparr>)"
      using ok unfolding calibration_ok_def by (simp del: max.bounded_iff)
    from calibration_ok_cleanup [OF this, of rp now] show ?thesis by (simp add: Pair f)
  qed
qed

datatype calibration_op =
    StartWindow instant string window_request
  | CancelWindow instant string
  | RecordSample instant string string pv pv
  | Refresh instant

fun calibration_step :: "(pv \<Rightarrow> string) \<Rightarrow> nat \<Rightarrow> nat \<Rightarrow> calibration_op \<Rightarrow> calibration_file \<Rightarrow> calibration_file" where
  "calibration_step rp mw ms (StartWindow now uid rq) f = snd (start_window mw now uid rq f)"
| "calibration_step rp mw ms (CancelWindow now i) f = snd (cancel_window now i f)"
| "calibration_step rp mw ms (RecordSample now uid i m obs) f = snd (record_sample rp ms now uid i m obs f)"
| "calibration_step rp mw ms (Refresh now) f = snd (calibration_refresh rp now f)"

text \<open>C23. However the calibration store is used, it holds at most its limits of windows and samples, no two
  windows have the same id, and a sample consists of exactly these fields: its identifiers, the endpoint,
  room and zone, the two times, the measurements (numbers under the known names and the flag for
  speech, at least one of them), and the statement that no audio was persisted and that neither speech to text nor
  speaker identification was called. There is no field for audio or for words.\<close>

theorem calibration_store_invariant:
  "calibration_ok (max 1 mw) (max 1 ms) (calibration_of (fold (calibration_step rp mw ms) ops None))"
proof -
  have "calibration_ok (max 1 mw) (max 1 ms) (calibration_of f) \<Longrightarrow>
      calibration_ok (max 1 mw) (max 1 ms) (calibration_of (calibration_step rp mw ms op f))" for f op
    by (cases op) (simp_all only: calibration_step.simps start_keeps cancel_keeps record_keeps refresh_keeps)
  then have "calibration_ok (max 1 mw) (max 1 ms) (calibration_of f) \<Longrightarrow>
      calibration_ok (max 1 mw) (max 1 ms) (calibration_of (fold (calibration_step rp mw ms) ops f))" for f
    by (induction ops arbitrary: f) simp_all
  then show ?thesis by (simp add: calibration_of_def calibration_load_def calibration_ok_def window_ids_def)
qed

lemma complete_window_open:
  assumes "is_active (complete_window now w)"
  shows "complete_window now w = w \<and> (\<forall>t. parse_window_time (dget w ''ends_at'') = Some t \<longrightarrow> now < t)"
  using assms by (auto simp: complete_window_def is_active_def split: option.splits if_splits)

text \<open>A sample is taken only for a window that the store holds as active and whose end has not passed; in
  all other cases the answer is an error and the file is untouched.\<close>

lemma sample_needs_open_window:
  assumes ok: "calibration_ok mw n (calibration_of file)"
  shows "case record_sample rp ms now uid i metrics obs file of
     (Inl e, file') \<Rightarrow> file' = file
       \<and> e \<in> {''calibration_id_required'', ''calibration_not_found'', ''calibration_not_active'', ''metrics_required''}
   | (Inr s, file') \<Rightarrow> sample_ok s \<and> (\<exists>w \<in> set (ca_windows (calibration_of file)). has_id (strip i) w \<and> is_active w
       \<and> pred_option (\<lambda>t. now < t) (parse_window_time (dget w ''ends_at'')))"
proof (cases "record_sample rp ms now uid i metrics obs file")
  case (Pair r f')
  show ?thesis
  proof (cases r)
    case (Inl e)
    have "e \<in> {''calibration_id_required'', ''calibration_not_found'', ''calibration_not_active'', ''metrics_required''}"
      using Pair Inl by (auto simp: record_sample_def Let_def split: if_splits option.splits)
    with record_sample_refused [OF Pair [unfolded Inl]] show ?thesis unfolding Pair Inl by simp
  next
    case (Inr s)
    obtain w m where "find (has_id (strip i)) (ca_windows (complete_expired_windows now (calibration_load now file))) = Some w"
      and a: "is_active w" and m: "metrics_ok m"
      and s: "s = sample_of now uid (case parse_window_time obs of Some t \<Rightarrow> t | None \<Rightarrow> now) (strip i) w m"
      using record_sample_taken [OF Pair [unfolded Inr]] by blast
    then have w: "find (has_id (strip i)) (map (complete_window now) (ca_windows (calibration_load now file))) = Some w"
      by (simp add: complete_expired_windows_def)
    have "ca_windows (calibration_load now file) = ca_windows (calibration_of file)"
      by (cases "file") (simp_all add: calibration_load_def calibration_of_def)
    moreover have "w \<in> set (map (complete_window now) (ca_windows (calibration_load now file)))" "has_id (strip i) w"
      using w by (auto simp: find_Some_iff)
    ultimately obtain v where v: "v \<in> set (ca_windows (calibration_of file))" "w = complete_window now v" by auto
    with complete_window_open [of now v] a have "w = v" "pred_option (\<lambda>t. now < t) (parse_window_time (dget v ''ends_at''))"
      by (auto simp: pred_option_def)
    then show ?thesis unfolding Pair Inr using v a \<open>has_id (strip i) w\<close> sample_of_ok [OF m] ok s by (auto simp: calibration_ok_def list_all_iff)
  qed
qed

text \<open>Cleaning up twice at the same time changes nothing more.\<close>

lemma complete_window_idem [simp]: "complete_window now (complete_window now w) = complete_window now w"
  by (auto simp: complete_window_def is_active_def split: option.split)

lemma calibration_cleanup_idem: "calibration_cleanup rp now (calibration_cleanup rp now c) = calibration_cleanup rp now c"
  by (simp add: calibration_cleanup_def complete_expired_windows_def Let_def o_def)

end
