(* ===== verification/ObservationLog.thy ===== *)
theory ObservationLog
  imports TurnPolicy
begin

text \<open>
  The log of voice quality observations (\<open>persistence/voice_quality_observation_log.py\<close>): one record per
  completed turn in a file per day, kept for a calendar month, and the check that no audio, embedding or
  passcode is in it. The same check of \<open>voice/metric_schemas.py\<close> is modelled beside it. A file is the list of
  its records; the JSON text of a line is not modelled. Days count as in \<open>PyTime\<close>; \<open>tz\<close> is the offset
  of local time. A file name is a date only in the form with hyphens, the one the log writes.
\<close>

section \<open>Sensitive fields\<close>

definition FORBIDDEN_OBSERVATION_FIELDS :: "string set" where
  "FORBIDDEN_OBSERVATION_FIELDS = {''audio_base64'', ''audio_bytes'', ''audio_payload'', ''biometric_template'',
     ''embedding'', ''embeddings'', ''passcode'', ''pin'', ''raw_audio'', ''speaker_embedding'', ''voiceprint''}"

definition FORBIDDEN_METRIC_FIELDS :: "string set" where
  "FORBIDDEN_METRIC_FIELDS = {''audio_base64'', ''audio_bytes'', ''audio_payload'', ''biometric_template'',
     ''embedding'', ''embeddings'', ''passcode'', ''pin'', ''raw_audio'', ''speaker_embedding'', ''voiceprint''}"

definition sub_path :: "string \<Rightarrow> string \<Rightarrow> string" where
  "sub_path pre key = (if pre \<noteq> [] then pre @ ''.'' @ key else key)"

definition index_path :: "string \<Rightarrow> nat \<Rightarrow> string" where
  "index_path pre i = pre @ ''['' @ nat_dec i @ '']''"

text \<open>\<open>_find_forbidden_metric_paths\<close>: the paths of all forbidden keys.\<close>

fun find_forbidden_metric_paths :: "string \<Rightarrow> pv \<Rightarrow> string list"
  and forbidden_in_fields :: "string \<Rightarrow> dict \<Rightarrow> string list"
  and forbidden_in_items :: "string \<Rightarrow> nat \<Rightarrow> pv list \<Rightarrow> string list" where
  "find_forbidden_metric_paths pre (PDict d) = forbidden_in_fields pre d"
| "find_forbidden_metric_paths pre (PList xs) = forbidden_in_items pre 0 xs"
| "find_forbidden_metric_paths pre _ = []"
| "forbidden_in_fields pre [] = []"
| "forbidden_in_fields pre ((k, v) # d) =
     (if lower k \<in> FORBIDDEN_METRIC_FIELDS then [sub_path pre k] else [])
     @ find_forbidden_metric_paths (sub_path pre k) v @ forbidden_in_fields pre d"
| "forbidden_in_items pre i [] = []"
| "forbidden_in_items pre i (v # xs) =
     find_forbidden_metric_paths (index_path pre i) v @ forbidden_in_items pre (i + 1) xs"

definition SENSITIVE_ERROR :: string where
  "SENSITIVE_ERROR = ''metric_payload_contains_sensitive_fields: ''"

text \<open>The \<open>ValueError\<close> of the check, or None.\<close>

definition raise_for :: "string list \<Rightarrow> string option" where
  "raise_for matches = (if matches = [] then None else Some (SENSITIVE_ERROR @ join '', '' matches))"

definition metric_payload_check :: "pv \<Rightarrow> string option" where
  "metric_payload_check payload = raise_for (find_forbidden_metric_paths [] payload)"

text \<open>\<open>s.split(", ")\<close> and \<open>s.split(": ", 1)[-1]\<close>\<close>

fun split_comma :: "string \<Rightarrow> string list" where
  "split_comma (c # d # s) = (if c = CHR '','' \<and> d = CHR '' '' then [] # split_comma s
     else (case split_comma (d # s) of w # ws \<Rightarrow> (c # w) # ws | [] \<Rightarrow> [[c]]))"
| "split_comma s = [s]"

fun after_colon :: "string \<Rightarrow> string option" where
  "after_colon (c # d # s) = (if c = CHR '':'' \<and> d = CHR '' '' then Some s else after_colon (d # s))"
| "after_colon s = None"

text \<open>The check of the log recurses through its own exceptions and takes their text apart again.\<close>

definition caught :: "string option \<Rightarrow> string list" where
  "caught e = (case e of None \<Rightarrow> []
     | Some msg \<Rightarrow> split_comma (case after_colon msg of Some s \<Rightarrow> s | None \<Rightarrow> msg))"

fun assert_metric_payload_redacted :: "string \<Rightarrow> pv \<Rightarrow> string option"
  and matches_in_fields :: "string \<Rightarrow> dict \<Rightarrow> string list"
  and matches_in_items :: "string \<Rightarrow> nat \<Rightarrow> pv list \<Rightarrow> string list" where
  "assert_metric_payload_redacted pre (PDict d) = raise_for (matches_in_fields pre d)"
| "assert_metric_payload_redacted pre (PList xs) = raise_for (matches_in_items pre 0 xs)"
| "assert_metric_payload_redacted pre _ = None"
| "matches_in_fields pre [] = []"
| "matches_in_fields pre ((k, v) # d) =
     (if lower k \<in> FORBIDDEN_OBSERVATION_FIELDS then [sub_path pre k] else [])
     @ caught (assert_metric_payload_redacted (sub_path pre k) v) @ matches_in_fields pre d"
| "matches_in_items pre i [] = []"
| "matches_in_items pre i (v # xs) =
     caught (assert_metric_payload_redacted (index_path pre i) v) @ matches_in_items pre (i + 1) xs"

section \<open>The two checks agree\<close>

lemma split_comma_nonempty [simp]: "split_comma s \<noteq> []"
  by (induction s rule: split_comma.induct) (auto split: list.split)

lemma join_Cons: "xs \<noteq> [] \<Longrightarrow> join sep (x # xs) = x @ sep @ join sep xs"
  by (cases xs) simp_all

lemma join_first: "join sep ((c # w) # ws) = c # join sep (w # ws)"
  by (cases ws) simp_all

lemma join_split_comma [simp]: "join '', '' (split_comma s) = s"
proof (induction s rule: split_comma.induct)
  case (1 c d s)
  show ?case
  proof (cases "c = CHR '','' \<and> d = CHR '' ''")
    case True
    with 1 show ?thesis by (simp add: join_Cons)
  next
    case False
    obtain w ws where w: "split_comma (d # s) = w # ws" by (cases "split_comma (d # s)") simp_all
    have "split_comma (c # d # s) = (c # w) # ws" using False w by auto
    with 1(2) [OF False] show ?thesis by (simp only: join_first w)
  qed
qed simp_all

lemma join_append: "xs \<noteq> [] \<Longrightarrow> ys \<noteq> [] \<Longrightarrow> join sep (xs @ ys) = join sep xs @ sep @ join sep ys"
  by (induction xs rule: list_nonempty_induct) (simp_all add: join_Cons)

text \<open>Lists of paths that lead to the same text.\<close>

definition same_text :: "string list \<Rightarrow> string list \<Rightarrow> bool" where
  "same_text xs ys \<longleftrightarrow> (xs = [] \<longleftrightarrow> ys = []) \<and> join '', '' xs = join '', '' ys"

lemma same_text_refl [simp]: "same_text xs xs"
  by (simp add: same_text_def)

lemma same_text_append: "same_text xs ys \<Longrightarrow> same_text us vs \<Longrightarrow> same_text (xs @ us) (ys @ vs)"
  unfolding same_text_def by (cases "ys = []"; cases "vs = []") (simp_all add: join_append)

lemma after_colon_error: "after_colon (SENSITIVE_ERROR @ s) = Some s"
  by (simp add: SENSITIVE_ERROR_def)

lemma same_text_caught: "same_text xs ys \<Longrightarrow> same_text (caught (raise_for xs)) ys"
  by (simp add: same_text_def caught_def raise_for_def after_colon_error)

lemma same_raise: "same_text xs ys \<Longrightarrow> raise_for xs = raise_for ys"
  by (simp add: same_text_def raise_for_def)

definition agrees :: "string \<Rightarrow> pv \<Rightarrow> bool" where
  "agrees pre v \<longleftrightarrow> (\<exists>xs. assert_metric_payload_redacted pre v = raise_for xs \<and> same_text xs (find_forbidden_metric_paths pre v))"

lemma agrees_caught: "agrees pre v \<Longrightarrow>
    same_text (caught (assert_metric_payload_redacted pre v)) (find_forbidden_metric_paths pre v)"
  by (auto simp: agrees_def intro: same_text_caught)

lemma agrees_parts:
  "same_text (matches_in_fields pre d) (forbidden_in_fields pre d) \<Longrightarrow> agrees pre (PDict d)"
  "same_text (matches_in_items pre 0 xs) (forbidden_in_items pre 0 xs) \<Longrightarrow> agrees pre (PList xs)"
  "agrees pre PNone" "agrees pre (PBool b)" "agrees pre (PInt i)" "agrees pre (PFloat x)" "agrees pre (PStr s)"
  by (auto simp: agrees_def raise_for_def [of "[]"] intro: exI [of _ "[]"])

lemma same_fields: "FORBIDDEN_OBSERVATION_FIELDS = FORBIDDEN_METRIC_FIELDS"
  by (simp add: FORBIDDEN_OBSERVATION_FIELDS_def FORBIDDEN_METRIC_FIELDS_def)

lemma checks_agree:
  "agrees pre v"
  "same_text (matches_in_fields pre d) (forbidden_in_fields pre d)"
  "same_text (matches_in_items pre i vs) (forbidden_in_items pre i vs)"
  by (induction pre v and pre d and pre i vs
      rule: find_forbidden_metric_paths_forbidden_in_fields_forbidden_in_items.induct)
    (simp_all add: agrees_parts same_text_append agrees_caught same_fields)

lemma check_passes: "assert_metric_payload_redacted [] v = None \<Longrightarrow> find_forbidden_metric_paths [] v = []"
  using checks_agree(1) [of "[]" v] by (auto simp: agrees_def raise_for_def same_text_def split: if_splits)

section \<open>The log\<close>

record observation_log =
  ol_enabled :: bool
  ol_directory :: string
  ol_transcript_mode :: string
  ol_files :: "(string \<times> dict list) list"
  ol_latest_cleanup :: "dict option"

definition new_observation_log :: "string \<Rightarrow> bool \<Rightarrow> string \<Rightarrow> (string \<times> dict list) list \<Rightarrow> observation_log" where
  "new_observation_log directory enabled transcript_mode files =
     \<lparr>ol_enabled = enabled, ol_directory = directory,
      ol_transcript_mode = (if lower (strip transcript_mode) = ''full'' then ''full'' else ''redacted''),
      ol_files = files, ol_latest_cleanup = None\<rparr>"

definition observed_speaker :: "dict option \<Rightarrow> (pv \<Rightarrow> string) \<Rightarrow> pv" where
  "observed_speaker speaker rp =
     (case speaker of None \<Rightarrow> PNone
      | Some sp \<Rightarrow> if sp = [] then PNone else
        let policy = py_str rp (py_or (dget sp ''policy'') (PStr [])); allowed = (policy \<noteq> ''forbidden'');
            confidence = num_of (dget sp ''confidence'') in
        PDict [(''schema_version'', PInt 1), (''status'', dget sp ''status''), (''policy'', ostr (nonempty policy)),
          (''speaker_public_id'', if allowed then dget sp ''speaker_public_id'' else PNone),
          (''display_name'', if allowed then dget sp ''display_name'' else PNone), (''score'', dget sp ''score''),
          (''confidence'', onum confidence),
          (''confidence_tier'', py_or (dget sp ''confidence_tier'') (PStr (speaker_confidence_tier confidence))),
          (''score_margin'', dget sp ''score_margin''), (''reason'', dget sp ''reason''),
          (''provider'', dget sp ''provider''), (''model_id'', dget sp ''model_id'')])"

definition ambient_noise :: "dict option \<Rightarrow> dict" where
  "ambient_noise quality =
     (let q = opt_dict quality in
      if q = [] then [(''status'', PStr ''unavailable''), (''reason'', PStr ''missing_audio_quality'')]
      else [(''status'', py_or (dget q ''snr_status'') (PStr ''unavailable'')), (''reason'', dget q ''snr_reason''),
        (''ambient_rms'', dget q ''ambient_rms''), (''ambient_peak'', dget q ''ambient_peak''),
        (''ambient_duration_ms'', dget q ''ambient_duration_ms''), (''snr_db'', dget q ''snr_db''),
        (''source'', dget q ''source''), (''classification'', PStr ''unavailable'')])"

text \<open>\<open>clk\<close> is the text of the local time the log reads, for a session without a time and for \<open>recorded_at\<close>.\<close>

definition record_from_session :: "(pv \<Rightarrow> string) \<Rightarrow> string \<Rightarrow> string \<Rightarrow> dict \<Rightarrow> dict" where
  "record_from_session rp clk transcript_mode session =
     (let transcript = dict_of (dget session ''transcript'');
          sub = (\<lambda>k. case dget transcript k of PDict d \<Rightarrow> Some d | _ \<Rightarrow> None);
          quality = sub ''audio_quality''; speaker = sub ''speaker_identity'';
          text = py_str rp (py_or (dget transcript ''text'') (PStr []));
          version = (\<lambda>d. dget (opt_dict d) ''schema_version'') in
      [(''schema_version'', PInt 1), (''feature'', PStr ''voice_quality_observation_log''),
       (''observed_at'', py_or (py_or (py_or (dget session ''completed_at'') (dget session ''updated_at''))
          (dget session ''started_at'')) (PStr clk)),
       (''recorded_at'', PStr clk), (''endpoint_id'', dget session ''endpoint_id''), (''session_id'', dget session ''session_id''),
       (''stt'', PDict
         [(''text'', if transcript_mode = ''full'' then PStr text else PNone), (''transcript_mode'', PStr transcript_mode),
          (''transcript_chars'', PInt (int (length text))), (''provider_id'', dget transcript ''provider_id''),
          (''model'', dget transcript ''model''), (''confidence'', dget transcript ''confidence''),
          (''error'', dget transcript ''error'')]),
       (''speaker_identity'', observed_speaker speaker rp), (''ambient_noise'', PDict (ambient_noise quality)),
       (''audio_quality'', odict quality),
       (''source_versions'', PDict
         [(''observation_schema'', PInt 1), (''audio_quality_schema'', version quality),
          (''speaker_identity_schema'', version speaker)]),
       (''privacy'', PDict
         [(''derived_data_only'', PBool True), (''transcript_mode'', PStr transcript_mode),
          (''raw_audio_persisted'', PBool False), (''embeddings_persisted'', PBool False),
          (''biometric_templates_persisted'', PBool False)])])"

text \<open>\<open>_parse_datetime(value).date()\<close>: a time without a zone is taken as local.\<close>

definition observed_day :: "(instant \<Rightarrow> int) \<Rightarrow> pv \<Rightarrow> int option" where
  "observed_day tz value =
     (case value of
        PStr s \<Rightarrow> if strip s = [] then None else map_option (\<lambda>(t, off).
          (case off of None \<Rightarrow> t | Some z \<Rightarrow> (t - z) + tz (t - z)) div us_per_day + epoch_day) (parse_iso (replace_z s))
      | _ \<Rightarrow> None)"

definition write_session_observation :: "(pv \<Rightarrow> string) \<Rightarrow> (instant \<Rightarrow> int) \<Rightarrow> string \<Rightarrow> int \<Rightarrow> dict \<Rightarrow> observation_log
    \<Rightarrow> (string + dict option) \<times> observation_log" where
  "write_session_observation rp tz clk today session lg =
     (let record = record_from_session rp clk (ol_transcript_mode lg) session in
      if \<not> ol_enabled lg then (Inr None, lg)
      else case assert_metric_payload_redacted [] (PDict record) of
        Some e \<Rightarrow> (Inl e, lg)
      | None \<Rightarrow>
        let day = (case observed_day tz (dget record ''observed_at'') of Some d \<Rightarrow> d | None \<Rightarrow> today);
            name = iso_date day @ ''.jsonl'';
            lines = (case aget (ol_files lg) name of Some rs \<Rightarrow> rs | None \<Rightarrow> []) in
        (Inr (Some [(''record'', PDict record), (''path'', PStr (ol_directory lg @ ''/'' @ name))]),
         lg\<lparr>ol_files := aput name (lines @ [record]) (ol_files lg)\<rparr>))"

definition subtract_one_calendar_month :: "int \<Rightarrow> int" where
  "subtract_one_calendar_month day =
     (case ymd_of_day day of (y, m, d) \<Rightarrow>
        let (year, month) = (if m - 1 = 0 then (y - 1, 12) else (y, m - 1)) in
        day_of_ymd year month (min d (days_in_month (is_leap year) month)))"

definition date_from_filename :: "string \<Rightarrow> int option" where
  "date_from_filename name =
     (if endswith name ''.jsonl'' then parse_date (take (length name - 6) name) else None)"

definition is_outdated :: "int \<Rightarrow> string \<Rightarrow> bool" where
  "is_outdated cutoff name \<longleftrightarrow> (case date_from_filename name of None \<Rightarrow> False | Some d \<Rightarrow> d < cutoff)"

definition observation_cleanup :: "int \<Rightarrow> observation_log \<Rightarrow> dict \<times> observation_log" where
  "observation_cleanup today lg =
     (let cutoff = subtract_one_calendar_month today;
          removed = filter (is_outdated cutoff) (sort (map fst (ol_files lg)));
          result = [(''policy'', PStr ''one_calendar_month''), (''current_date'', PStr (iso_date today)),
            (''cutoff_date'', PStr (iso_date cutoff)),
            (''removed_files'', PList (map (\<lambda>n. PStr (ol_directory lg @ ''/'' @ n)) removed)),
            (''removed_count'', PInt (int (length removed)))] in
      (result, lg\<lparr>ol_files := filter (\<lambda>f. \<not> is_outdated cutoff (fst f)) (ol_files lg), ol_latest_cleanup := Some result\<rparr>))"

definition observation_status :: "observation_log \<Rightarrow> dict" where
  "observation_status lg =
     (let files = filter (\<lambda>f. endswith (fst f) ''.jsonl'') (sort_key fst (ol_files lg)) in
      [(''enabled'', PBool (ol_enabled lg)), (''directory'', PStr (ol_directory lg)),
       (''transcript_mode'', PStr (ol_transcript_mode lg)), (''retention_policy'', PStr ''one_calendar_month''),
       (''latest_file'', if files = [] then PNone else PStr (ol_directory lg @ ''/'' @ fst (last files))),
       (''file_count'', PInt (int (length files))),
       (''record_count'', PInt (int (sum_list (map (\<lambda>f. length (snd f)) files)))),
       (''latest_cleanup'', odict (ol_latest_cleanup lg))])"

section \<open>What the log holds\<close>

text \<open>C24. The check of the observation log, which recurses through its own exceptions, and the check of the
  metric schemas, which collects paths, raise for the same payloads and with the same text.\<close>

theorem redaction_checks_agree:
  "assert_metric_payload_redacted [] payload = metric_payload_check payload"
  using checks_agree(1) [of "[]" payload] same_raise by (auto simp: metric_payload_check_def agrees_def)

lemma month_length: "1 \<le> m \<Longrightarrow> m \<le> 12 \<Longrightarrow> 28 \<le> days_in_month leap m \<and> days_in_month leap m \<le> 31"
  by (cases leap; auto simp: days_in_month_def month_start_def Let_def; presburger)

lemma subtract_month_bounds:
  "28 \<le> day - subtract_one_calendar_month day" "day - subtract_one_calendar_month day \<le> 31"
proof -
  obtain y m d where ymd: "ymd_of_day day = (y, m, d)" by (cases "ymd_of_day day")
  note r = ymd_of_day [OF ymd]
  have "28 \<le> day - subtract_one_calendar_month day \<and> day - subtract_one_calendar_month day \<le> 31"
  proof (cases "m = 1")
    case True
    have "days_in_month l 1 = 31 \<and> days_in_month l 12 = 31 \<and> month_start l 12 = (if l then 335 else 334)
        \<and> month_start l 1 = 0" for l
      by (simp add: days_in_month_def month_start_def Let_def)
    with True r days_in_year [of "y - 1"] show ?thesis
      by (simp add: subtract_one_calendar_month_def ymd day_of_ymd_def min_def split: if_splits)
  next
    case False
    have "days_in_month (is_leap y) (m - 1) = month_start (is_leap y) m - month_start (is_leap y) (m - 1)"
      by (simp add: days_in_month_def)
    moreover have "subtract_one_calendar_month day
        = day_of_ymd y (m - 1) (min d (days_in_month (is_leap y) (m - 1)))"
      using False by (simp add: subtract_one_calendar_month_def ymd Let_def)
    ultimately show ?thesis
      using False r month_length [of "m - 1" "is_leap y"] month_length [of m "is_leap y"]
      unfolding r(1) [symmetric] day_of_ymd_def by (auto simp: min_def)
  qed
  then show "28 \<le> day - subtract_one_calendar_month day" "day - subtract_one_calendar_month day \<le> 31" by blast+
qed

text \<open>The retention of one calendar month reaches back 28 to 31 days; a clean-up removes the files of days
  before that and no other file, and doing it again on the same day removes nothing.\<close>

lemma cleanup_keeps_a_month:
  "let cutoff = subtract_one_calendar_month today; lg' = snd (observation_cleanup today lg) in
   28 \<le> today - cutoff \<and> today - cutoff \<le> 31
   \<and> set (ol_files lg') = {f \<in> set (ol_files lg). \<not> is_outdated cutoff (fst f)}
   \<and> dget (fst (observation_cleanup today lg')) ''removed_count'' = PInt 0"
  using subtract_month_bounds [of today]
  by (auto simp: observation_cleanup_def Let_def dget_def filter_empty_conv)

definition clean_record :: "string \<Rightarrow> dict \<Rightarrow> bool" where
  "clean_record mode r \<longleftrightarrow> forbidden_in_fields [] r = []
     \<and> (mode \<noteq> ''full'' \<longrightarrow> dget (dict_of (dget r ''stt'')) ''text'' = PNone)"

definition clean_log :: "observation_log \<Rightarrow> bool" where
  "clean_log lg \<longleftrightarrow> list_all (\<lambda>f. list_all (clean_record (ol_transcript_mode lg)) (snd f)) (ol_files lg)"

lemma clean_write: "clean_log lg \<Longrightarrow> clean_log (snd (write_session_observation rp tz clk today session lg))"
proof -
  let ?r = "record_from_session rp clk (ol_transcript_mode lg) session"
  assume clean: "clean_log lg"
  show ?thesis
  proof (cases "ol_enabled lg \<and> assert_metric_payload_redacted [] (PDict ?r) = None")
    case True
    then have "forbidden_in_fields [] ?r = []" using check_passes [of "PDict ?r"] by simp
    moreover have "ol_transcript_mode lg \<noteq> ''full'' \<longrightarrow> dget (dict_of (dget ?r ''stt'')) ''text'' = PNone"
      by (simp add: record_from_session_def Let_def dget_def)
    ultimately have r: "clean_record (ol_transcript_mode lg) ?r" by (simp add: clean_record_def)
    have l: "list_all (clean_record (ol_transcript_mode lg)) rs" if "aget (ol_files lg) n = Some rs" for n rs
      using clean map_of_SomeD [OF that] by (auto simp: clean_log_def list_all_iff)
    show ?thesis
      using True clean r l unfolding write_session_observation_def Let_def clean_log_def list_all_iff
      by (auto split: option.splits dest!: set_aput [THEN subsetD])
  qed (use clean in \<open>auto simp: write_session_observation_def Let_def split: option.splits\<close>)
qed

datatype observation_op = WriteSession string int dict | CleanUp int

fun observation_step :: "(pv \<Rightarrow> string) \<Rightarrow> (instant \<Rightarrow> int) \<Rightarrow> observation_op \<Rightarrow> observation_log \<Rightarrow> observation_log" where
  "observation_step rp tz (WriteSession clk today session) lg = snd (write_session_observation rp tz clk today session lg)"
| "observation_step rp tz (CleanUp today) lg = snd (observation_cleanup today lg)"

text \<open>Two sessions that differ in nothing but the words that were heard, of the same length.\<close>

definition reworded_session :: "dict \<Rightarrow> dict \<Rightarrow> bool" where
  "reworded_session session session' \<longleftrightarrow> (\<exists>transcript said said'.
     dget session ''transcript'' = PDict transcript \<and> dget transcript ''text'' = PStr said \<and> length said' = length said
     \<and> session' = aput ''transcript'' (PDict (aput ''text'' (PStr said') transcript)) session)"

inductive reworded :: "observation_op \<Rightarrow> observation_op \<Rightarrow> bool" where
  same_op: "reworded op op"
| other_words: "reworded_session session session' \<Longrightarrow> reworded (WriteSession clk today session) (WriteSession clk today session')"

lemma reworded_record:
  assumes "reworded_session session session'" "mode \<noteq> ''full''"
  shows "record_from_session rp clk mode session' = record_from_session rp clk mode session"
proof -
  from assms(1) obtain transcript said said' where w: "dget session ''transcript'' = PDict transcript"
    "dget transcript ''text'' = PStr said" "length said' = length said"
    "session' = aput ''transcript'' (PDict (aput ''text'' (PStr said') transcript)) session"
    by (auto simp: reworded_session_def)
  have "length (py_str rp (py_or (PStr u) (PStr []))) = length u" for u by (simp add: py_or_def)
  with w assms(2) show ?thesis by (simp add: record_from_session_def Let_def)
qed

lemma reworded_step:
  assumes "reworded op op'" "ol_transcript_mode lg \<noteq> ''full''"
  shows "observation_step rp tz op' lg = observation_step rp tz op lg"
  using assms by (cases rule: reworded.cases) (simp_all add: write_session_observation_def reworded_record)

lemma mode_kept: "ol_transcript_mode (observation_step rp tz op lg) = ol_transcript_mode lg"
  by (cases op) (simp_all add: write_session_observation_def observation_cleanup_def Let_def split: option.split)

lemma reworded_fold:
  "list_all2 reworded ops ops' \<Longrightarrow> ol_transcript_mode lg \<noteq> ''full'' \<Longrightarrow>
   fold (observation_step rp tz) ops' lg = fold (observation_step rp tz) ops lg"
  by (induction arbitrary: lg rule: list_all2_induct) (simp_all add: reworded_step mode_kept)

text \<open>C25. Whatever sessions are written to a log that starts empty, no record in it has a forbidden field at any
  depth, and unless the log was set up to keep full transcripts, the log tells nothing of what was said but
  its length: with other words of the same length in any of the sessions it would be the same log.\<close>

theorem observations_are_clean:
  assumes "list_all2 reworded ops ops'"
  shows "clean_log (fold (observation_step rp tz) ops (new_observation_log directory enabled mode []))
     \<and> (lower (strip mode) = ''full'' \<or> fold (observation_step rp tz) ops' (new_observation_log directory enabled mode []) = fold (observation_step rp tz) ops (new_observation_log directory enabled mode []))"
proof
  have "clean_log lg \<Longrightarrow> clean_log (observation_step rp tz op lg)" for op lg
    by (cases op) (auto simp: clean_write, auto simp: clean_log_def observation_cleanup_def Let_def list_all_iff)
  then have "clean_log lg \<Longrightarrow> clean_log (fold (observation_step rp tz) ops lg)" for lg
    by (induction ops arbitrary: lg) simp_all
  then show "clean_log (fold (observation_step rp tz) ops (new_observation_log directory enabled mode []))"
    by (simp add: clean_log_def new_observation_log_def)
  show "lower (strip mode) = ''full'' \<or> fold (observation_step rp tz) ops' (new_observation_log directory enabled mode []) = fold (observation_step rp tz) ops (new_observation_log directory enabled mode [])"
    using reworded_fold [OF assms(1), of "new_observation_log directory enabled mode []"] by (auto simp: new_observation_log_def)
qed

definition ex_observed :: "string \<Rightarrow> observation_op" where
  "ex_observed said = WriteSession ''2026-05-01T10:00:00+00:00'' 0
     [(''session_id'', PStr ''s1''), (''transcript'', PDict [(''text'', PStr said)])]"

theorem observations_are_clean_witness:
  "clean_log (fold (observation_step (\<lambda>_. []) (\<lambda>_. 0)) [ex_observed ''yes''] (new_observation_log ''logs'' True ''redacted'' []))
   \<and> fold (observation_step (\<lambda>_. []) (\<lambda>_. 0)) [ex_observed ''now''] (new_observation_log ''logs'' True ''redacted'' [])
     = fold (observation_step (\<lambda>_. []) (\<lambda>_. 0)) [ex_observed ''yes''] (new_observation_log ''logs'' True ''redacted'' [])"
proof -
  have "reworded_session [(''session_id'', PStr ''s1''), (''transcript'', PDict [(''text'', PStr ''yes'')])]
      [(''session_id'', PStr ''s1''), (''transcript'', PDict [(''text'', PStr ''now'')])]"
    by (simp add: reworded_session_def dget_def)
  then have "list_all2 reworded [ex_observed ''yes''] [ex_observed ''now'']"
    by (simp add: ex_observed_def reworded.other_words)
  moreover have "lower (strip ''redacted'') \<noteq> ''full''" by code_simp
  ultimately show ?thesis
    using observations_are_clean [where ops = "[ex_observed ''yes'']" and ops' = "[ex_observed ''now'']"
      and rp = "\<lambda>_. []" and tz = "\<lambda>_. 0" and directory = "''logs''" and enabled = True and mode = "''redacted''"]
    by blast
qed

end
