(* ===== verification/ManagerReports.thy ===== *)
theory ManagerReports
  imports SessionCore Calibration ObservationLog
begin

text \<open>
  What \<open>VoiceSessionManager\<close> reports beside the sessions: the audio quality of each endpoint over the stored
  history, the passive placement calibrations with the report over their window, and the observation log. The
  calibration store and the log are the states of their own theories; a voice event is returned with the answer.
\<close>

section \<open>Audio quality per endpoint\<close>

record quality_group =
  gr_endpoint_id :: string
  gr_sample_count :: nat
  gr_ok_count :: nat
  gr_warning_count :: nat
  gr_status_counts :: "(string \<times> nat) list"
  gr_warning_counts :: "(string \<times> nat) list"
  gr_snr_values :: "rat list"
  gr_latest_observed_at :: pv
  gr_latest_session_id :: pv
  gr_latest_status :: string
  gr_latest_warnings :: "string list"

definition new_group :: "string \<Rightarrow> quality_group" where
  "new_group endpoint_id =
     \<lparr>gr_endpoint_id = endpoint_id, gr_sample_count = 0, gr_ok_count = 0, gr_warning_count = 0, gr_status_counts = [],
      gr_warning_counts = [], gr_snr_values = [], gr_latest_observed_at = PNone, gr_latest_session_id = PNone,
      gr_latest_status = [], gr_latest_warnings = []\<rparr>"

definition count_up :: "string \<Rightarrow> (string \<times> nat) list \<Rightarrow> (string \<times> nat) list" where
  "count_up k d = aput k ((case aget d k of Some n \<Rightarrow> n | None \<Rightarrow> 0) + 1) d"

definition group_session :: "(pv \<Rightarrow> string) \<Rightarrow> dict \<Rightarrow> dict \<Rightarrow> quality_group \<Rightarrow> quality_group" where
  "group_session rp session quality g =
     (let status = py_str rp (py_or (dget quality ''status'') (PStr ''unknown''));
          warnings = map (py_str rp) (filter truthy (list_of (dget quality ''warnings'')));
          observed_at = py_or (py_or (dget session ''completed_at'') (dget session ''updated_at'')) (dget session ''started_at'');
          text = (\<lambda>v. py_str rp (py_or v (PStr [])));
          newer = (gr_latest_observed_at g = PNone \<or> text (gr_latest_observed_at g) < text observed_at) in
      g\<lparr>gr_sample_count := gr_sample_count g + 1,
        gr_status_counts := count_up status (gr_status_counts g),
        gr_ok_count := gr_ok_count g + (if status = ''ok'' \<and> warnings = [] then 1 else 0),
        gr_warning_count := gr_warning_count g + (if warnings \<noteq> [] \<or> status \<notin> {''ok'', ''unknown''} then 1 else 0),
        gr_warning_counts := fold count_up warnings (gr_warning_counts g),
        gr_snr_values := gr_snr_values g @ (case num_of (dget quality ''snr_db'') of None \<Rightarrow> [] | Some x \<Rightarrow> [x]),
        gr_latest_observed_at := (if newer then observed_at else gr_latest_observed_at g),
        gr_latest_session_id := (if newer then dget session ''session_id'' else gr_latest_session_id g),
        gr_latest_status := (if newer then status else gr_latest_status g),
        gr_latest_warnings := (if newer then warnings else gr_latest_warnings g)\<rparr>)"

definition session_quality :: "dict \<Rightarrow> dict option" where
  "session_quality session =
     (case dget (dict_of (dget session ''transcript'')) ''audio_quality'' of PDict q \<Rightarrow> Some q | _ \<Rightarrow> None)"

definition quality_endpoint :: "(pv \<Rightarrow> string) \<Rightarrow> dict \<Rightarrow> string" where
  "quality_endpoint rp session =
     (let e = strip (py_str rp (py_or (dget session ''endpoint_id'') (PStr ''unknown''))) in
      if e = [] then ''unknown'' else e)"

fun quality_groups :: "(pv \<Rightarrow> string) \<Rightarrow> dict list \<Rightarrow> (string \<times> quality_group) list \<Rightarrow> (string \<times> quality_group) list" where
  "quality_groups rp [] gs = gs"
| "quality_groups rp (s # ss) gs =
     (case session_quality s of
        None \<Rightarrow> quality_groups rp ss gs
      | Some q \<Rightarrow>
        let e = quality_endpoint rp s; g = (case aget gs e of Some g \<Rightarrow> g | None \<Rightarrow> new_group e) in
        quality_groups rp ss (aput e (group_session rp s q g) gs))"

definition rounded_ratio :: "nat \<Rightarrow> nat \<Rightarrow> rat" where
  "rounded_ratio numerator denominator =
     (if denominator = 0 then 0 else py_round 3 (of_nat numerator / of_nat denominator))"

definition numeric_summary :: "rat list \<Rightarrow> dict" where
  "numeric_summary values =
     (let rounded = (\<lambda>x. onum (map_option (py_round 2) x)) in
      [(''available'', PBool (values \<noteq> [])), (''count'', PInt (int (length values))),
       (''avg'', rounded (mean_of values)), (''min'', rounded (min_of values)), (''max'', rounded (max_of values))])"

definition endpoint_audio_quality_recommendation :: "nat \<Rightarrow> nat \<Rightarrow> string set \<Rightarrow> string \<Rightarrow> string set \<Rightarrow> string" where
  "endpoint_audio_quality_recommendation sample_count ok_count warnings latest_status latest =
     (if sample_count = 0 then ''no_recent_audio''
      else if ''clipped'' \<in> warnings \<or> latest_status = ''clipped'' then ''check_microphone_gain''
      else if ''low_snr'' \<in> warnings \<or> ''low_snr'' \<in> latest then ''reduce_background_noise_or_move_endpoint''
      else if ''silent'' \<in> warnings \<or> ''low_level'' \<in> warnings \<or> latest_status \<in> {''silent'', ''low_level''}
        then ''check_microphone_distance_or_gain''
      else if ''short_audio'' \<in> warnings \<or> ''short_audio'' \<in> latest then ''check_vad_timeout_or_prompt_length''
      else if 8 / 10 \<le> rounded_ratio ok_count sample_count then ''audio_path_healthy''
      else ''monitor_endpoint_audio'')"

definition group_recommendation :: "quality_group \<Rightarrow> string" where
  "group_recommendation g = endpoint_audio_quality_recommendation (gr_sample_count g) (gr_ok_count g)
     (set (map fst (gr_warning_counts g))) (gr_latest_status g) (set (gr_latest_warnings g))"

definition endpoint_audio_quality_summary :: "quality_group \<Rightarrow> dict" where
  "endpoint_audio_quality_summary g =
     (let counts = (\<lambda>d. PDict (map (\<lambda>(k, n). (k, PInt (int n))) (sort_key fst d))) in
      [(''endpoint_id'', PStr (gr_endpoint_id g)), (''sample_count'', PInt (int (gr_sample_count g))),
       (''ok_count'', PInt (int (gr_ok_count g))), (''warning_count'', PInt (int (gr_warning_count g))),
       (''ok_rate'', PFloat (rounded_ratio (gr_ok_count g) (gr_sample_count g))),
       (''warning_rate'', PFloat (rounded_ratio (gr_warning_count g) (gr_sample_count g))),
       (''status_counts'', counts (gr_status_counts g)), (''warning_counts'', counts (gr_warning_counts g)),
       (''snr_db'', PDict (numeric_summary (gr_snr_values g))),
       (''latest'', PDict
         [(''observed_at'', gr_latest_observed_at g), (''session_id'', gr_latest_session_id g),
          (''status'', PStr (gr_latest_status g)), (''warnings'', PList (map PStr (gr_latest_warnings g)))]),
       (''recommendation'', PStr (group_recommendation g))])"

text \<open>\<open>sort\<close> with \<open>reverse=True\<close>: equal keys keep their order.\<close>

definition sort_down :: "('a \<Rightarrow> string) \<Rightarrow> 'a list \<Rightarrow> 'a list" where
  "sort_down f xs = rev (sort_key f (rev xs))"

definition endpoint_audio_quality_stats :: "(pv \<Rightarrow> string) \<Rightarrow> bool \<Rightarrow> nat \<Rightarrow> int \<Rightarrow> string option \<Rightarrow> dict list \<Rightarrow> dict" where
  "endpoint_audio_quality_stats rp has_store max_records limit endpoint_id stored =
     (let bounded = max 1 (min limit 500) in
      if \<not> has_store then
        [(''schema_version'', PInt 1), (''enabled'', PBool False), (''source'', PStr ''voice_session_history''),
         (''window'', PDict [(''session_limit'', PInt bounded), (''observed_session_count'', PInt 0)]),
         (''endpoints'', PList []), (''endpoint_count'', PInt 0)]
      else
        let sessions = hist_list max_records bounded endpoint_id stored;
            groups = map snd (quality_groups rp sessions []);
            endpoints = sort_down (\<lambda>g. py_str rp (py_or (gr_latest_observed_at g) (PStr []))) groups in
        [(''schema_version'', PInt 1), (''enabled'', PBool True), (''source'', PStr ''voice_session_history''),
         (''window'', PDict
           [(''session_limit'', PInt bounded), (''scanned_session_count'', PInt (int (length sessions))),
            (''observed_session_count'', PInt (int (length (List.map_filter session_quality sessions))))]),
         (''endpoints'', PList (map (\<lambda>g. PDict (endpoint_audio_quality_summary g)) endpoints)),
         (''endpoint_count'', PInt (int (length endpoints)))])"

section \<open>Passive placement calibration\<close>

record placement_store =
  pl_max_windows :: nat
  pl_max_samples :: nat
  pl_path :: string

type_synonym voice_events = "(string \<times> dict) list"

definition start_passive_placement_calibration ::
    "bool \<Rightarrow> placement_store option \<Rightarrow> instant \<Rightarrow> string \<Rightarrow> window_request \<Rightarrow> calibration_file
     \<Rightarrow> (string + dict) \<times> calibration_file \<times> voice_events" where
  "start_passive_placement_calibration privacy store now uid rq file =
     (if privacy then (Inl ''privacy_mode_enabled'', file, [])
      else case store of
        None \<Rightarrow> (Inl ''placement_calibration_store_unavailable'', file, [])
      | Some st \<Rightarrow>
        (case start_window (pl_max_windows st) now uid rq file of
           (Inl e, file') \<Rightarrow> (Inl e, file', [])
         | (Inr window, file') \<Rightarrow> (Inr window, file', [(''placement_calibration.started'',
             map (\<lambda>k. (k, dget window k)) [''endpoint_id'', ''calibration_id'', ''room'', ''zone'', ''duration_hours'',
               ''sample_interval_seconds''])])))"

definition cancel_passive_placement_calibration ::
    "placement_store option \<Rightarrow> instant \<Rightarrow> string \<Rightarrow> calibration_file \<Rightarrow> dict option \<times> calibration_file \<times> voice_events" where
  "cancel_passive_placement_calibration store now calibration_id file =
     (if store = None then (None, file, [])
      else (case cancel_window now calibration_id file of
          (None, file') \<Rightarrow> (None, file', [])
        | (Some window, file') \<Rightarrow> (Some window, file', [(''placement_calibration.cancelled'',
            map (\<lambda>k. (k, dget window k)) [''endpoint_id'', ''calibration_id'', ''room'', ''zone''])])))"

definition record_passive_placement_sample ::
    "(pv \<Rightarrow> string) \<Rightarrow> bool \<Rightarrow> placement_store option \<Rightarrow> instant \<Rightarrow> string \<Rightarrow> string \<Rightarrow> pv \<Rightarrow> pv \<Rightarrow> calibration_file
     \<Rightarrow> (string + dict) \<times> calibration_file \<times> voice_events" where
  "record_passive_placement_sample rp privacy store now uid calibration_id metrics observed_at file =
     (if privacy then (Inl ''privacy_mode_enabled'', file, [])
      else case store of
        None \<Rightarrow> (Inl ''placement_calibration_store_unavailable'', file, [])
      | Some st \<Rightarrow>
        (case record_sample rp (pl_max_samples st) now uid calibration_id metrics observed_at file of
           (Inl e, file') \<Rightarrow> (Inl e, file', [])
         | (Inr sample, file') \<Rightarrow> (Inr sample, file', [(''placement_calibration.sample.recorded'',
             map (\<lambda>k. (k, dget sample k)) [''endpoint_id'', ''calibration_id'', ''sample_id'']
             @ [(''metrics'', PList (map (\<lambda>(k, v). PStr k) (dict_of (dget sample ''metrics''))))])])))"

definition blocked_fields :: "bool \<Rightarrow> dict" where
  "blocked_fields privacy = [(''blocked'', PBool privacy),
     (''blocked_reason'', if privacy then PStr ''privacy_mode_enabled'' else PNone)]"

definition passive_placement_calibration_status ::
    "(pv \<Rightarrow> string) \<Rightarrow> bool \<Rightarrow> placement_store option \<Rightarrow> instant \<Rightarrow> string option \<Rightarrow> calibration_file \<Rightarrow> dict \<times> calibration_file" where
  "passive_placement_calibration_status rp privacy store now endpoint_id file =
     (case store of
        None \<Rightarrow> ((''enabled'', PBool False) # blocked_fields privacy
          @ [(''active_windows'', PList []), (''recent_windows'', PList []), (''sample_count'', PInt 0)], file)
      | Some st \<Rightarrow>
        (let (status, file') = calibration_status rp (pl_path st) now endpoint_id file in
         (status @ blocked_fields privacy, file')))"

definition active_placement_reports_for_window :: "(pv \<Rightarrow> string) \<Rightarrow> bool \<Rightarrow> nat \<Rightarrow> dict \<Rightarrow> dict list \<Rightarrow> dict list" where
  "active_placement_reports_for_window rp has_history max_records window stored =
     (let endpoint_id = nonempty (py_str rp (py_or (dget window ''endpoint_id'') (PStr [])));
          tests = (if has_history then list_placement_tests max_records 50 endpoint_id stored else []) in
      List.map_filter (\<lambda>p. if dget p ''room'' \<noteq> dget window ''room'' \<or> dget p ''zone'' \<noteq> dget window ''zone'' then None
        else (case dget p ''report'' of PDict (x # report) \<Rightarrow> Some (x # report) | _ \<Rightarrow> None)) tests)"

text \<open>None inside: no such window; Inl: the report raised.\<close>

definition passive_placement_report ::
    "(pv \<Rightarrow> string) \<Rightarrow> (string \<Rightarrow> rat option) \<Rightarrow> placement_store option \<Rightarrow> bool \<Rightarrow> nat \<Rightarrow> instant \<Rightarrow> string \<Rightarrow> dict list
     \<Rightarrow> calibration_file \<Rightarrow> (string + dict option) \<times> calibration_file" where
  "passive_placement_report rp fl store has_history max_records now calibration_id stored file =
     (if store = None then (Inr None, file)
      else (case get_window rp now calibration_id file of
          (None, file') \<Rightarrow> (Inr None, file')
        | (Some window, file') \<Rightarrow>
          (let (samples, file'') = list_samples rp now calibration_id 5000 file';
               reports = active_placement_reports_for_window rp has_history max_records window stored in
           (case build_long_window_placement_report rp fl window samples reports of
              None \<Rightarrow> Inl ''ValueError'' | Some r \<Rightarrow> Inr (Some r), file''))))"

definition cleanup_passive_placement_calibrations ::
    "(pv \<Rightarrow> string) \<Rightarrow> placement_store option \<Rightarrow> instant \<Rightarrow> calibration_file \<Rightarrow> dict \<times> calibration_file" where
  "cleanup_passive_placement_calibrations rp store now file =
     (case store of
        None \<Rightarrow> ([(''enabled'', PBool False), (''status'', PStr ''unavailable'')], file)
      | Some st \<Rightarrow>
        (let (before, file1) = calibration_status rp (pl_path st) now None file;
             (after_model, file2) = calibration_refresh rp now file1;
             (after, file3) = calibration_status rp (pl_path st) now None file2 in
         ([(''enabled'', PBool True), (''status'', PStr ''ok''), (''sample_count_before'', dget before ''sample_count''),
           (''sample_count_after'', dget after ''sample_count''), (''updated_at'', PStr (ca_updated_at after_model))], file3)))"

section \<open>The observation log\<close>

definition voice_quality_observation_status :: "bool \<Rightarrow> observation_log option \<Rightarrow> dict" where
  "voice_quality_observation_status privacy lg =
     (case lg of
        None \<Rightarrow> (''enabled'', PBool False) # blocked_fields privacy
          @ [(''retention_policy'', PStr ''one_calendar_month'')]
      | Some l \<Rightarrow> observation_status l @ blocked_fields privacy)"

definition cleanup_voice_quality_observations :: "int \<Rightarrow> observation_log option \<Rightarrow> dict \<times> observation_log option" where
  "cleanup_voice_quality_observations today lg =
     (case lg of
        None \<Rightarrow> ([(''enabled'', PBool False), (''status'', PStr ''unavailable''),
          (''retention_policy'', PStr ''one_calendar_month'')], None)
      | Some l \<Rightarrow>
        (let (result, l') = observation_cleanup today l in
         ([(''enabled'', PBool (ol_enabled l)), (''status'', PStr ''ok'')] @ result, Some l')))"

section \<open>Properties\<close>

text \<open>Counting by status.\<close>

lemma count_up_sum: "sum_list (map snd (count_up k d)) = sum_list (map snd d) + 1"
  unfolding count_up_def by (induction d) auto

definition observed_at_endpoint :: "(pv \<Rightarrow> string) \<Rightarrow> string \<Rightarrow> dict \<Rightarrow> bool" where
  "observed_at_endpoint rp e s \<longleftrightarrow> session_quality s \<noteq> None \<and> quality_endpoint rp s = e"

definition group_ok :: "string \<times> quality_group \<Rightarrow> bool" where
  "group_ok p \<longleftrightarrow> gr_endpoint_id (snd p) = fst p \<and> 0 < gr_sample_count (snd p)
     \<and> gr_ok_count (snd p) + gr_warning_count (snd p) \<le> gr_sample_count (snd p)
     \<and> sum_list (map snd (gr_status_counts (snd p))) = gr_sample_count (snd p)"

definition samples_at :: "(string \<times> quality_group) list \<Rightarrow> string \<Rightarrow> nat" where
  "samples_at gs e = (case aget gs e of Some g \<Rightarrow> gr_sample_count g | None \<Rightarrow> 0)"

lemma group_session_counts:
  "gr_endpoint_id (group_session rp s q g) = gr_endpoint_id g"
  "gr_sample_count (group_session rp s q g) = gr_sample_count g + 1"
  "gr_ok_count (group_session rp s q g) + gr_warning_count (group_session rp s q g)
     \<le> gr_ok_count g + gr_warning_count g + 1"
  "sum_list (map snd (gr_status_counts (group_session rp s q g))) = sum_list (map snd (gr_status_counts g)) + 1"
  unfolding group_session_def Let_def by (simp_all add: count_up_sum)

lemma group_session_ok:
  assumes "list_all group_ok gs"
  shows "group_ok (e, group_session rp s q (case aget gs e of Some g \<Rightarrow> g | None \<Rightarrow> new_group e))"
proof (cases "aget gs e")
  case None
  then show ?thesis
    using group_session_counts(3) [of rp s q "new_group e"] by (simp add: group_ok_def group_session_counts(1,2,4)) (simp add: new_group_def)
next
  case (Some g)
  with map_of_SomeD [OF Some] assms have "group_ok (e, g)" by (auto simp: list_all_iff)
  with Some group_session_counts(3) [of rp s q g] show ?thesis by (simp add: group_ok_def group_session_counts(1,2,4))
qed

lemma list_all_aput: "list_all P d \<Longrightarrow> P (k, v) \<Longrightarrow> list_all P (aput k v d)"
  by (induction d) auto

lemma quality_groups_laws:
  assumes "list_all group_ok gs" "distinct (map fst gs)"
  shows "list_all group_ok (quality_groups rp ss gs) \<and> distinct (map fst (quality_groups rp ss gs))
    \<and> (\<forall>e. samples_at (quality_groups rp ss gs) e = samples_at gs e + length (filter (observed_at_endpoint rp e) ss))"
  using assms
proof (induction ss arbitrary: gs)
  case (Cons s ss)
  show ?case
  proof (cases "session_quality s")
    case None
    with Cons show ?thesis by (simp add: observed_at_endpoint_def)
  next
    case (Some q)
    let ?e = "quality_endpoint rp s"
    let ?g = "case aget gs ?e of Some g \<Rightarrow> g | None \<Rightarrow> new_group ?e"
    have "list_all group_ok (aput ?e (group_session rp s q ?g) gs)"
      using Cons.prems(1) group_session_ok [OF Cons.prems(1), of ?e rp s q] by (rule list_all_aput)
    moreover have "samples_at (aput ?e (group_session rp s q ?g) gs) e = samples_at gs e + (if e = ?e then 1 else 0)" for e
      by (auto simp: samples_at_def group_session_counts(2) new_group_def split: option.split)
    ultimately show ?thesis
      using Cons.IH [of "aput ?e (group_session rp s q ?g) gs"] Cons.prems(2) Some
      by (simp add: Let_def observed_at_endpoint_def)
  qed
qed (simp add: samples_at_def)

text \<open>The groups of the audio quality report count every observed session at exactly one endpoint: an
  endpoint's samples are the sessions with its name, its statuses add up to them, and the sessions in order
  and those with a warning are disjoint among them.\<close>

lemma quality_stats_account:
  "let gs = quality_groups rp ss [] in
   distinct (map fst gs) \<and> samples_at gs e = length (filter (observed_at_endpoint rp e) ss)
   \<and> list_all group_ok gs"
  using quality_groups_laws [of "[]" rp ss] by (simp add: Let_def samples_at_def)

text \<open>In privacy mode no passive calibration is started and no sample taken, and the store is as before.\<close>

lemma privacy_blocks_calibration:
  "start_passive_placement_calibration True store now uid rq file = (Inl ''privacy_mode_enabled'', file, [])
   \<and> record_passive_placement_sample rp True store now uid cid metrics obs file = (Inl ''privacy_mode_enabled'', file, [])"
  by (simp add: start_passive_placement_calibration_def record_passive_placement_sample_def)

end
