(* ===== verification/Regex.thy ===== *)
theory Regex
  imports PyText
begin

text \<open>
  Regular expressions of Python's \<open>re\<close>, for the constructs the sources use: literals, \<open>\s\<close>,
  \<open>\d\<close>, the dot, \<open>\b\<close>, \<open>^\<close>, \<open>$\<close>, ordered alternatives, greedy and lazy repetition and named groups.
  A position in a text is the character before it and the rest of the text; \<open>ms\<close> lists the ends of
  all matches of a pattern from a position in the order in which \<open>re\<close> would try them, so
  that its head is the match \<open>re\<close> reports. The relation \<open>mt\<close> says what a match is, without an
  order; the two agree, and every search terminates, whatever the pattern.
\<close>

section \<open>Patterns\<close>

datatype rx =
    RLit string
  | RSpace
  | RDigit
  | RDot
  | RBound
  | RStart
  | REnd
  | RSeq rx rx
  | RAlt rx rx
  | ROpt rx
  | RStar bool rx
  | RGrp string rx

text \<open>\<open>r+\<close> (greedy) and \<open>r+?\<close> (lazy), \<open>\s+\<close>, words with \<open>\s+\<close> between them, ordered choice.\<close>

definition RPlus :: "bool \<Rightarrow> rx \<Rightarrow> rx" where
  "RPlus g r = RSeq r (RStar g r)"

definition sp :: rx where
  "sp = RPlus True RSpace"

fun rseq :: "rx list \<Rightarrow> rx" where
  "rseq [] = RLit []"
| "rseq [r] = r"
| "rseq (r # q # rs) = RSeq r (rseq (q # rs))"

fun ralt :: "rx list \<Rightarrow> rx" where
  "ralt [] = RLit []"
| "ralt [r] = r"
| "ralt (r # q # rs) = RAlt r (ralt (q # rs))"

definition one_of :: "string list \<Rightarrow> rx" where
  "one_of ws = ralt (map RLit ws)"

fun phrase :: "string list \<Rightarrow> rx" where
  "phrase [] = RLit []"
| "phrase [w] = RLit w"
| "phrase (w # v # ws) = RSeq (RLit w) (RSeq sp (phrase (v # ws)))"

section \<open>Matching\<close>

type_synonym captures = "(string \<times> string) list"
type_synonym pos = "char option \<times> string \<times> captures"

abbreviation rest :: "pos \<Rightarrow> string" where
  "rest t \<equiv> fst (snd t)"

fun eat :: "string \<Rightarrow> char option \<Rightarrow> string \<Rightarrow> (char option \<times> string) option" where
  "eat [] p s = Some (p, s)"
| "eat (x # w) p [] = None"
| "eat (x # w) p (c # s) = (if x = c then eat w (Some c) s else None)"

definition one_char :: "(char \<Rightarrow> bool) \<Rightarrow> pos \<Rightarrow> pos list" where
  "one_char f t = (case t of (p, s, c) \<Rightarrow> (case s of [] \<Rightarrow> [] | x # s' \<Rightarrow> if f x then [(Some x, s', c)] else []))"

definition here :: "bool \<Rightarrow> pos \<Rightarrow> pos list" where
  "here b t = (if b then [t] else [])"

fun at_bound :: "pos \<Rightarrow> bool" where
  "at_bound (p, s, c) \<longleftrightarrow> word_before p \<noteq> word_ahead s"

fun at_end :: "pos \<Rightarrow> bool" where
  "at_end (p, s, c) \<longleftrightarrow> s = [] \<or> s = [char_of (10 :: nat)]"

fun rep :: "nat \<Rightarrow> bool \<Rightarrow> (pos \<Rightarrow> pos list) \<Rightarrow> pos \<Rightarrow> pos list" where
  "rep 0 g f t = [t]"
| "rep (Suc n) g f t =
     (let more = concat (map (rep n g f) (filter (\<lambda>u. length (rest u) < length (rest t)) (f t)))
      in if g then more @ [t] else t # more)"

definition grouped :: "string \<Rightarrow> pos \<Rightarrow> pos \<Rightarrow> pos" where
  "grouped name t u = (case u of (p, s, c) \<Rightarrow>
     (p, s, aput name (take (length (rest t) - length s) (rest t)) c))"

primrec ms :: "rx \<Rightarrow> pos \<Rightarrow> pos list" where
  "ms (RLit w) t = (case t of (p, s, c) \<Rightarrow> (case eat w p s of None \<Rightarrow> [] | Some (p', s') \<Rightarrow> [(p', s', c)]))"
| "ms RSpace t = one_char is_space t"
| "ms RDigit t = one_char is_digit t"
| "ms RDot t = one_char (\<lambda>x. x \<noteq> char_of (10 :: nat)) t"
| "ms RBound t = here (at_bound t) t"
| "ms RStart t = here (fst t = None) t"
| "ms REnd t = here (at_end t) t"
| "ms (RSeq r q) t = concat (map (ms q) (ms r t))"
| "ms (RAlt r q) t = ms r t @ ms q t"
| "ms (ROpt r) t = ms r t @ [t]"
| "ms (RStar g r) t = rep (length (rest t)) g (ms r) t"
| "ms (RGrp name r) t = map (grouped name t) (ms r t)"

definition first_of :: "pos list \<Rightarrow> pos option" where
  "first_of l = (case l of [] \<Rightarrow> None | t # _ \<Rightarrow> Some t)"

text \<open>\<open>re.match(r, s)\<close>: the captures of the match, if there is one.\<close>

definition re_match :: "rx \<Rightarrow> string \<Rightarrow> captures option" where
  "re_match r s = map_option (snd \<circ> snd) (first_of (ms r (None, s, [])))"

definition matches :: "rx \<Rightarrow> string \<Rightarrow> bool" where
  "matches r s \<longleftrightarrow> re_match r s \<noteq> None"

definition group :: "string \<Rightarrow> captures \<Rightarrow> string" where
  "group name c = (case aget c name of None \<Rightarrow> [] | Some s \<Rightarrow> s)"

text \<open>
  \<open>r.finditer(s)\<close>: the captures of all matches from left to right. A match may begin only where the
  previous one ended; \<open>skip\<close> counts the characters of the last match that are still to be passed.
\<close>

fun find_from :: "rx \<Rightarrow> nat \<Rightarrow> char option \<Rightarrow> string \<Rightarrow> captures list" where
  "find_from r skip p [] = (if skip = 0 then (case first_of (ms r (p, [], [])) of None \<Rightarrow> [] | Some t \<Rightarrow> [snd (snd t)]) else [])"
| "find_from r (Suc k) p (c # s) = find_from r k (Some c) s"
| "find_from r 0 p (c # s) =
     (case first_of (ms r (p, c # s, [])) of
        None \<Rightarrow> find_from r 0 (Some c) s
      | Some t \<Rightarrow> snd (snd t) # find_from r (length s - length (rest t)) (Some c) s)"

definition finditer :: "rx \<Rightarrow> string \<Rightarrow> captures list" where
  "finditer r s = find_from r 0 None s"

section \<open>What a match is\<close>

inductive mt :: "rx \<Rightarrow> pos \<Rightarrow> pos \<Rightarrow> bool" where
  mt_lit: "mt (RLit w) (p, w @ s, c) (if w = [] then p else Some (last w), s, c)"
| mt_space: "is_space x \<Longrightarrow> mt RSpace (p, x # s, c) (Some x, s, c)"
| mt_digit: "is_digit x \<Longrightarrow> mt RDigit (p, x # s, c) (Some x, s, c)"
| mt_dot: "x \<noteq> char_of (10 :: nat) \<Longrightarrow> mt RDot (p, x # s, c) (Some x, s, c)"
| mt_bound: "at_bound t \<Longrightarrow> mt RBound t t"
| mt_start: "mt RStart (None, s, c) (None, s, c)"
| mt_end: "at_end t \<Longrightarrow> mt REnd t t"
| mt_seq: "mt r t u \<Longrightarrow> mt q u v \<Longrightarrow> mt (RSeq r q) t v"
| mt_left: "mt r t u \<Longrightarrow> mt (RAlt r q) t u"
| mt_right: "mt q t u \<Longrightarrow> mt (RAlt r q) t u"
| mt_none: "mt (ROpt r) t t"
| mt_some: "mt r t u \<Longrightarrow> mt (ROpt r) t u"
| mt_stop: "mt (RStar g r) t t"
| mt_more: "mt r t u \<Longrightarrow> length (rest u) < length (rest t) \<Longrightarrow> mt (RStar g r) u v \<Longrightarrow> mt (RStar g r) t v"
| mt_group: "mt r t u \<Longrightarrow> mt (RGrp name r) t (grouped name t u)"

inductive_simps mt_simps [simp]:
  "mt RSpace t u" "mt RDigit t u" "mt RDot t u" "mt RBound t u" "mt RStart t u" "mt REnd t u"
  "mt (RSeq r q) t u" "mt (RAlt r q) t u" "mt (ROpt r) t u" "mt (RGrp name r) t u" "mt (RLit w) t u"

lemma eat_append: "eat w p (w @ s) = Some (if w = [] then p else Some (last w), s)"
  by (induction w arbitrary: p) auto

lemma eat_Some: "eat w p s = Some (q, s') \<Longrightarrow> s = w @ s' \<and> q = (if w = [] then p else Some (last w))"
  by (induction w p s rule: eat.induct) (auto split: if_splits)

lemma set_one_char: "u \<in> set (one_char f t) \<longleftrightarrow> (\<exists>p x s c. t = (p, x # s, c) \<and> f x \<and> u = (Some x, s, c))"
  by (auto simp: one_char_def split: prod.splits list.splits if_splits)

lemma set_rep_Suc: "set (rep (Suc n) g f t) =
    insert t {v. \<exists>u \<in> set (f t). length (rest u) < length (rest t) \<and> v \<in> set (rep n g f u)}"
  by (auto simp: Let_def simp del: split_paired_Ex)

lemma rep_sound:
  assumes "\<And>t u. u \<in> set (f t) \<Longrightarrow> mt r t u"
  shows "u \<in> set (rep n g f t) \<Longrightarrow> mt (RStar g r) t u"
proof (induction n arbitrary: t)
  case 0
  then show ?case by (simp add: mt_stop)
next
  case (Suc n)
  have "u = t \<or> (\<exists>v. v \<in> set (f t) \<and> length (rest v) < length (rest t) \<and> u \<in> set (rep n g f v))"
    using Suc.prems by (auto simp: Let_def split: if_splits)
  then show ?case using Suc.IH assms by (blast intro: mt_stop mt_more)
qed

lemma rep_complete:
  assumes "\<And>t u. mt r t u \<Longrightarrow> u \<in> set (f t)" and "mt q t u" and "q = RStar g r"
  shows "length (rest t) \<le> n \<Longrightarrow> u \<in> set (rep n g f t)"
  using assms(2,3)
proof (induction q t u arbitrary: n rule: mt.induct)
  case (mt_stop g' r' t)
  then show ?case by (cases n) (auto simp: Let_def)
next
  case (mt_more r' t u g' v)
  from mt_more obtain k where n: "n = Suc k" by (cases n) auto
  have "u \<in> set (f t)" using mt_more assms(1) by simp
  moreover have "v \<in> set (rep k g f u)" using mt_more n by simp
  ultimately have "\<exists>w \<in> set (f t). length (rest w) < length (rest t) \<and> v \<in> set (rep k g f w)"
    using mt_more.hyps(2) by blast
  then show ?case by (simp only: n set_rep_Suc) blast
qed simp_all

text \<open>
  The matcher finds exactly the matches. It is a function by structural recursion, so every search
  ends.
\<close>

lemma ms_mt: "u \<in> set (ms r t) \<longleftrightarrow> mt r t u"
proof (induction r arbitrary: t u)
  case (RLit w)
  obtain p s c where t: "t = (p, s, c)" by (cases t) auto
  show ?case
    by (auto simp: t eat_append split: option.splits prod.splits dest: eat_Some eat_Some [OF sym])
next
  case (RStar g r)
  show ?case
  proof
    assume "u \<in> set (ms (RStar g r) t)"
    then show "mt (RStar g r) t u" using rep_sound [of "ms r" r] RStar by auto
  next
    assume "mt (RStar g r) t u"
    from rep_complete [OF _ this refl order_refl, of "ms r"] RStar
    show "u \<in> set (ms (RStar g r) t)" by simp
  qed
next
  case (RSeq r q)
  have "u \<in> set (ms (RSeq r q) t) \<longleftrightarrow> (\<exists>v. v \<in> set (ms r t) \<and> u \<in> set (ms q v))"
    by (simp del: split_paired_Ex) blast
  then show ?case by (simp add: RSeq del: ms.simps)
next
  case (RGrp name r)
  have "u \<in> set (ms (RGrp name r) t) \<longleftrightarrow> (\<exists>v. u = grouped name t v \<and> v \<in> set (ms r t))"
    by (simp add: image_iff del: split_paired_Ex) blast
  then show ?case by (auto simp add: RGrp simp del: ms.simps)
qed (auto simp: set_one_char here_def)

lemma matches_iff: "matches r s \<longleftrightarrow> (\<exists>t. mt r (None, s, []) t)"
proof -
  have "matches r s \<longleftrightarrow> ms r (None, s, []) \<noteq> []"
    by (auto simp: matches_def re_match_def first_of_def split: list.splits)
  also have "\<dots> \<longleftrightarrow> (\<exists>t. t \<in> set (ms r (None, s, [])))"
    by (cases "ms r (None, s, [])") auto
  finally show ?thesis by (simp add: ms_mt)
qed

section \<open>The first match\<close>

text \<open>
  \<open>goes r t u\<close>: the match \<open>re\<close> reports for \<open>r\<close> at \<open>t\<close> ends at \<open>u\<close>. The rules follow the search as long as
  it does not have to go back.
\<close>

definition goes :: "rx \<Rightarrow> pos \<Rightarrow> pos \<Rightarrow> bool" where
  "goes r t u \<longleftrightarrow> first_of (ms r t) = Some u"

lemma goesI: "ms r t = u # l \<Longrightarrow> goes r t u"
  by (simp add: goes_def first_of_def)

lemma goesE: "goes r t u \<Longrightarrow> (\<And>l. ms r t = u # l \<Longrightarrow> P) \<Longrightarrow> P"
  by (auto simp: goes_def first_of_def split: list.splits)

lemma goes_seq: "goes r t u \<Longrightarrow> goes q u v \<Longrightarrow> goes (RSeq r q) t v"
  by (elim goesE) (rule goesI, simp)

lemma goes_left: "goes r t u \<Longrightarrow> goes (RAlt r q) t u"
  by (elim goesE) (rule goesI, simp)

lemma goes_right: "ms r t = [] \<Longrightarrow> goes q t u \<Longrightarrow> goes (RAlt r q) t u"
  by (elim goesE) (rule goesI, simp)

lemma goes_some: "goes r t u \<Longrightarrow> goes (ROpt r) t u"
  by (elim goesE) (rule goesI, simp)

lemma goes_none: "ms r t = [] \<Longrightarrow> goes (ROpt r) t t"
  by (rule goesI) simp

lemma goes_group: "goes r t u \<Longrightarrow> goes (RGrp name r) t (grouped name t u)"
  by (elim goesE) (rule goesI, simp)

lemma ms_seq_stuck: "ms r t = [] \<Longrightarrow> ms (RSeq r q) t = []"
  by simp

lemma goes_run:
  assumes "\<And>x p s c. f (p, x # s, c) = (if P x then [(Some x, s, c)] else [])" "\<And>p c. f (p, [], c) = []"
    and "list_all P w" "\<not> (case s of [] \<Rightarrow> False | x # _ \<Rightarrow> P x)" "length (w @ s) \<le> n"
  shows "\<exists>l. rep n True f (p, w @ s, c) = (if w = [] then p else Some (last w), s, c) # l"
  using assms(3-)
proof (induction w arbitrary: p n)
  case Nil
  with assms(1,2) show ?case by (cases n; cases s) (auto simp: Let_def)
next
  case (Cons x w)
  obtain k where n: "n = Suc k" using Cons.prems by (cases n) auto
  from Cons.IH [of k "Some x"] Cons.prems n
  obtain l where "rep k True f (Some x, w @ s, c) = (if w = [] then Some x else Some (last w), s, c) # l" by auto
  with Cons.prems show ?case by (simp add: n assms(1) Let_def)
qed

lemma goes_plus:
  assumes "r = RDigit \<and> P = is_digit \<or> r = RSpace \<and> P = is_space" "w \<noteq> []" "list_all P w"
    and "\<not> (case s of [] \<Rightarrow> False | x # _ \<Rightarrow> P x)"
  shows "goes (RPlus True r) (p, w @ s, c) (Some (last w), s, c)"
proof -
  obtain x w' where w: "w = x # w'" using assms(2) by (cases w) auto
  have "\<exists>l. rep (length (w' @ s)) True (ms r) (Some x, w' @ s, c) = (if w' = [] then Some x else Some (last w'), s, c) # l"
    by (rule goes_run [where P = P]) (use assms w in \<open>auto simp: one_char_def\<close>)
  with assms w show ?thesis by (auto simp: RPlus_def one_char_def intro!: goesI)
qed

end
