(* ===== verification/BuiltinIntents.thy ===== *)
theory BuiltinIntents
  imports AdminMaintenance
begin

text \<open>
  The intents the voice node is shipped with (the first thousand lines of
  \<open>assistant/intent_registry.py\<close>): for each its record, with the definition, constraints and metadata
  the code writes down. A percent sign stands for the backslash in the texts of patterns; \<open>rw\<close> puts
  it back. The payload dicts have one set of keys, that of the record \<open>intent_record\<close>
  (\<open>VoiceIntentRecord\<close>).
\<close>

section \<open>Records and text\<close>

record intent_record =
  ir_intent_id :: string
  ir_intent_name :: "string option"
  ir_service_id :: string
  ir_owner_service :: "string option"
  ir_owner_client_id :: "string option"
  ir_version :: string
  ir_status :: string
  ir_privacy_class :: string
  ir_access_scope :: string
  ir_definition :: dict
  ir_constraints :: dict
  ir_metadata :: dict
  ir_reviews :: "dict list"
  ir_usage :: dict
  ir_created_at :: string
  ir_updated_at :: string

definition backslash :: char where
  "backslash = char_of (92 :: nat)"

definition rw :: "string \<Rightarrow> string" where
  "rw s = map (\<lambda>c. if c = CHR ''%'' then backslash else c) s"

text \<open>\<open>s.title()\<close>: letters after a non-letter become capitals, all others small.\<close>

definition is_letter :: "char \<Rightarrow> bool" where
  "is_letter c \<longleftrightarrow> (65 \<le> (of_char c :: nat) \<and> (of_char c :: nat) \<le> 90)
     \<or> (97 \<le> (of_char c :: nat) \<and> (of_char c :: nat) \<le> 122)"

definition upper_char :: "char \<Rightarrow> char" where
  "upper_char c = (if 97 \<le> (of_char c :: nat) \<and> (of_char c :: nat) \<le> 122
     then char_of ((of_char c :: nat) - 32) else c)"

fun title_from :: "bool \<Rightarrow> string \<Rightarrow> string" where
  "title_from inside [] = []"
| "title_from inside (c # s) = (if inside then lower_char c else upper_char c) # title_from (is_letter c) s"

definition title :: "string \<Rightarrow> string" where
  "title s = title_from False s"

text \<open>\<open>re.escape(s)\<close> and \<open>s.replace(old, new)\<close>\<close>

definition re_escape :: "string \<Rightarrow> string" where
  "re_escape s = concat (map (\<lambda>c. if c \<in> set ''()[]{}?*+-|^$.&~# '' \<or> c = backslash \<or> (9 \<le> (of_char c :: nat) \<and> (of_char c :: nat) \<le> 13)
     then [backslash, c] else [c]) s)"

definition replace_text :: "string \<Rightarrow> string \<Rightarrow> string \<Rightarrow> string" where
  "replace_text old new s = re_sub (\<lambda>_ t. if startswith t old then Some (length old) else None) new s"

section \<open>The built-in intents\<close>

definition timer_intent_definition :: "dict" where
  "timer_intent_definition =
    [(''utterance_examples'', PList [PStr ''set a timer for 5 minutes'',
        PStr ''start a 10 minute timer'',
        PStr ''timer for one hour'',
        PStr ''five minutes timer'']),
     (''patterns'', PList [PStr (rw ''^(?:please%s+)?(?:set|start|create|make)%s+(?:a%s+|an%s+)?timer%s+(?:for|of)%s+(?P<duration>.+)$''),
        PStr (rw ''^(?:please%s+)?timer%s+(?:for|of)%s+(?P<duration>.+)$''),
        PStr (rw ''^(?:please%s+)?(?:set|start|create|make)%s+(?:a%s+|an%s+)?(?P<duration>.+?)%s+timer$''),
        PStr (rw ''^(?:please%s+)?(?P<duration>.+?)%s+timer$'')]),
     (''slots'', PDict [(''duration_seconds'', PDict [(''type'', PStr ''integer''), (''minimum'', PInt 1)]),
       (''duration_text'', PDict [(''type'', PStr ''string'')]),
       (''duration_hhmmss'', PDict [(''type'', PStr ''string'')]),
       (''requested_at'', PDict [(''type'', PStr ''datetime'')])]),
     (''extraction'', PDict [(''required'', PDict [(''duration_seconds'', PDict [(''type'', PStr ''integer''),
           (''source'', PStr ''duration_seconds''),
           (''minimum'', PInt 1)]),
         (''duration_text'', PDict [(''type'', PStr ''string''), (''source'', PStr ''duration_text'')]),
         (''duration_hhmmss'', PDict [(''type'', PStr ''string''), (''source'', PStr ''duration_hhmmss'')]),
         (''requested_at'', PDict [(''type'', PStr ''datetime''), (''source'', PStr ''system_time'')])])]),
     (''dispatch'', PDict [(''type'', PStr ''domain_event''),
       (''command'', PStr ''timer.create''),
       (''event_type'', PStr ''timer.create_requested'')]),
     (''response'', PDict [(''reply_template'', PStr ''Setting timer for {duration_text}.'')]),
     (''reply'', PDict [(''text_template'', PStr ''Setting timer for {duration_text}.''),
       (''audio'', PDict [(''mode'', PStr ''none''), (''ttl_seconds'', PInt 3600)])]),
     (''matcher'', PDict [(''type'', PStr ''builtin_timer'')])]"

definition built_in_timer_intent :: "string \<Rightarrow> intent_record" where
  "built_in_timer_intent now =
    \<lparr>ir_intent_id = ''timer.create'',
     ir_intent_name = Some ''Create timer'',
     ir_service_id = ''voice.local_intents'',
     ir_owner_service = Some ''hexevoice'',
     ir_owner_client_id = None,
     ir_version = ''v1'',
     ir_status = ''active'',
     ir_privacy_class = ''internal'',
     ir_access_scope = ''service'',
     ir_definition = timer_intent_definition,
     ir_constraints = [(''requires_operational_mqtt'', PBool True),
       (''dispatch_side_effect'', PStr ''timer.create_requested'')],
     ir_metadata = [(''builtin'', PBool True), (''family'', PStr ''timer'')],
     ir_reviews = [],
     ir_usage = [],
     ir_created_at = now,
     ir_updated_at = now\<rparr>"

definition built_in_timer_new_intent :: "string \<Rightarrow> intent_record" where
  "built_in_timer_new_intent now =
    \<lparr>ir_intent_id = ''timer.new'',
     ir_intent_name = Some ''Start new timer interaction'',
     ir_service_id = ''voice.local_intents'',
     ir_owner_service = Some ''hexevoice'',
     ir_owner_client_id = None,
     ir_version = ''v1'',
     ir_status = ''active'',
     ir_privacy_class = ''internal'',
     ir_access_scope = ''service'',
     ir_definition = [(''utterance_examples'', PList [PStr ''new timer'', PStr ''set a new timer'']),
       (''patterns'', PList [PStr (rw ''^(?:please%s+)?(?:new%s+timer|set%s+(?:a%s+)?new%s+timer)$'')]),
       (''slots'', PDict []),
       (''dispatch'', PDict [(''type'', PStr ''local_response''), (''command'', PStr ''timer.new'')]),
       (''response'', PDict [(''reply_template'', PStr ''How long should the timer be?'')]),
       (''reply'', PDict [(''text_template'', PStr ''How long should the timer be?''),
         (''audio'', PDict [(''mode'', PStr ''none''), (''ttl_seconds'', PInt 3600)])]),
       (''matcher'', PDict [(''type'', PStr ''exact_example'')])],
     ir_constraints = [(''requires_operational_mqtt'', PBool False), (''dispatch_side_effect'', PStr ''none'')],
     ir_metadata = [(''builtin'', PBool True), (''family'', PStr ''timer''), (''owned_by'', PStr ''voice_node'')],
     ir_reviews = [],
     ir_usage = [],
     ir_created_at = now,
     ir_updated_at = now\<rparr>"

definition timer_status_intent_definition :: "dict" where
  "timer_status_intent_definition =
    [(''utterance_examples'', PList [PStr ''how much time is left on the timer'',
        PStr ''how long left on the timer'',
        PStr ''what is the timer status'',
        PStr ''timer status'']),
     (''patterns'', PList [PStr (rw ''^(?:please%s+)?(?:how%s+much%s+time|how%s+long)%s+(?:is%s+)?left%s+(?:on|for)%s+(?:the%s+)?timer$''),
        PStr (rw ''^(?:please%s+)?(?:what(?:\\'s|%s+is)%s+)?(?:the%s+)?timer%s+status$''),
        PStr (rw ''^(?:please%s+)?(?:time%s+left|remaining%s+time)%s+(?:on|for)%s+(?:the%s+)?timer$'')]),
     (''slots'', PDict [(''scope'', PDict [(''type'', PStr ''string'')]),
       (''requested_at'', PDict [(''type'', PStr ''datetime'')])]),
     (''extraction'', PDict [(''required'', PDict [(''scope'', PDict [(''type'', PStr ''string''), (''source'', PStr ''scope'')]),
         (''requested_at'', PDict [(''type'', PStr ''datetime''), (''source'', PStr ''system_time'')])])]),
     (''dispatch'', PDict [(''type'', PStr ''domain_event''),
       (''command'', PStr ''timer.status''),
       (''event_type'', PStr ''timer.status_requested'')]),
     (''response'', PDict [(''reply_template'', PStr ''Checking the timer.'')]),
     (''reply'', PDict [(''text_template'', PStr ''Checking the timer.''),
       (''audio'', PDict [(''mode'', PStr ''none''), (''ttl_seconds'', PInt 3600)])]),
     (''matcher'', PDict [(''type'', PStr ''builtin_timer_status'')])]"

definition built_in_timer_status_intent :: "string \<Rightarrow> intent_record" where
  "built_in_timer_status_intent now =
    \<lparr>ir_intent_id = ''timer.status'',
     ir_intent_name = Some ''Timer status'',
     ir_service_id = ''voice.local_intents'',
     ir_owner_service = Some ''hexevoice'',
     ir_owner_client_id = None,
     ir_version = ''v1'',
     ir_status = ''active'',
     ir_privacy_class = ''internal'',
     ir_access_scope = ''service'',
     ir_definition = timer_status_intent_definition,
     ir_constraints = [(''requires_operational_mqtt'', PBool True),
       (''dispatch_side_effect'', PStr ''timer.status_requested'')],
     ir_metadata = [(''builtin'', PBool True), (''family'', PStr ''timer'')],
     ir_reviews = [],
     ir_usage = [],
     ir_created_at = now,
     ir_updated_at = now\<rparr>"

definition timer_control_intent_definition :: "string \<Rightarrow> dict" where
  "timer_control_intent_definition action =
    (let (examples, patterns, reply) = (if action = ''stop'' then
       ([''stop the timer'',
         ''stop timer'',
         ''dismiss the timer'',
         ''turn off the timer alarm'',
         ''stop''],
        [rw ''^(?:please%s+)?(?:stop|dismiss|silence)%s+(?:the%s+)?timer(?:%s+alarm)?$'',
         rw ''^(?:please%s+)?turn%s+off%s+(?:the%s+)?timer(?:%s+alarm)?$'',
         ''^stop$''],
        ''Stopping the timer.'')
      else
       ([''cancel the timer'', ''cancel timer'', ''delete the timer'', ''clear the timer''],
        [rw ''^(?:please%s+)?(?:cancel|delete|clear)%s+(?:the%s+)?timer$'',
         rw ''^(?:please%s+)?(?:cancel|delete|clear)%s+my%s+timer$''],
        ''Cancelling the timer.''));
       event_type = ''timer.'' @ action @ ''_requested'' in
    [(''utterance_examples'', PList (map PStr examples)),
     (''patterns'', PList (map PStr patterns)),
     (''slots'', PDict [(''action'', PDict [(''type'', PStr ''string'')]),
       (''scope'', PDict [(''type'', PStr ''string'')]),
       (''requested_at'', PDict [(''type'', PStr ''datetime'')])]),
     (''extraction'', PDict [(''required'', PDict [(''action'', PDict [(''type'', PStr ''string''), (''source'', PStr ''action'')]),
         (''scope'', PDict [(''type'', PStr ''string''), (''source'', PStr ''scope'')]),
         (''requested_at'', PDict [(''type'', PStr ''datetime''), (''source'', PStr ''system_time'')])])]),
     (''dispatch'', PDict [(''type'', PStr ''domain_event''),
       (''command'', PStr (''timer.'' @ action)),
       (''event_type'', PStr event_type)]),
     (''response'', PDict [(''reply_template'', PStr reply)]),
     (''reply'', PDict [(''text_template'', PStr reply),
       (''audio'', PDict [(''mode'', PStr ''none''), (''ttl_seconds'', PInt 3600)])]),
     (''matcher'', PDict [(''type'', PStr ''builtin_timer_control''), (''action'', PStr action)])])"

definition built_in_timer_control_intent :: "string \<Rightarrow> string \<Rightarrow> intent_record" where
  "built_in_timer_control_intent action now =
    \<lparr>ir_intent_id = ''timer.'' @ action,
     ir_intent_name = Some (title action @ '' timer''),
     ir_service_id = ''voice.local_intents'',
     ir_owner_service = Some ''hexevoice'',
     ir_owner_client_id = None,
     ir_version = ''v1'',
     ir_status = ''active'',
     ir_privacy_class = ''internal'',
     ir_access_scope = ''service'',
     ir_definition = timer_control_intent_definition action,
     ir_constraints = [(''requires_operational_mqtt'', PBool True),
       (''dispatch_side_effect'', PStr (''timer.'' @ action @ ''_requested'')),
       (''short_intent_scope'', PStr (if action = ''stop'' then ''global'' else ''followup''))],
     ir_metadata = [(''builtin'', PBool True), (''family'', PStr ''timer'')],
     ir_reviews = [],
     ir_usage = [],
     ir_created_at = now,
     ir_updated_at = now\<rparr>"

definition timer_adjust_time_intent_definition :: "dict" where
  "timer_adjust_time_intent_definition =
    [(''utterance_examples'', PList [PStr ''add 5 minutes to the timer'',
        PStr ''add five minutes'',
        PStr ''remove 2 minutes from the timer'',
        PStr ''take two minutes off the timer'',
        PStr ''extend the timer by 10 minutes'']),
     (''patterns'', PList [PStr (rw ''^(?:please%s+)?extend%s+(?:the%s+)?timer%s+by%s+(?P<duration>.+)$''),
        PStr (rw ''^(?:please%s+)?add%s+(?P<duration>.+?)(?:%s+(?:to|onto)%s+(?:the%s+)?timer)?$''),
        PStr (rw ''^(?:please%s+)?(?:remove|subtract)%s+(?P<duration>.+?)(?:%s+from%s+(?:the%s+)?timer)?$''),
        PStr (rw ''^(?:please%s+)?take%s+(?P<duration>.+?)%s+off%s+(?:the%s+)?timer$'')]),
     (''slots'', PDict [(''delta_seconds'', PDict [(''type'', PStr ''integer'')]),
       (''delta_text'', PDict [(''type'', PStr ''string'')]),
       (''delta_hhmmss'', PDict [(''type'', PStr ''string'')]),
       (''direction'', PDict [(''type'', PStr ''string'')]),
       (''scope'', PDict [(''type'', PStr ''string'')]),
       (''requested_at'', PDict [(''type'', PStr ''datetime'')])]),
     (''extraction'', PDict [(''required'', PDict [(''delta_seconds'', PDict [(''type'', PStr ''integer''), (''source'', PStr ''delta_seconds'')]),
         (''delta_text'', PDict [(''type'', PStr ''string''), (''source'', PStr ''delta_text'')]),
         (''delta_hhmmss'', PDict [(''type'', PStr ''string''), (''source'', PStr ''delta_hhmmss'')]),
         (''direction'', PDict [(''type'', PStr ''string''), (''source'', PStr ''direction'')]),
         (''scope'', PDict [(''type'', PStr ''string''), (''source'', PStr ''scope'')]),
         (''requested_at'', PDict [(''type'', PStr ''datetime''), (''source'', PStr ''system_time'')])])]),
     (''dispatch'', PDict [(''type'', PStr ''domain_event''),
       (''command'', PStr ''timer.adjust_time''),
       (''event_type'', PStr ''timer.adjust_time_requested'')]),
     (''response'', PDict [(''reply_template'', PStr ''Updating the timer.'')]),
     (''reply'', PDict [(''text_template'', PStr ''Updating the timer.''),
       (''audio'', PDict [(''mode'', PStr ''none''), (''ttl_seconds'', PInt 3600)])]),
     (''matcher'', PDict [(''type'', PStr ''builtin_timer_adjust_time'')])]"

definition built_in_timer_adjust_time_intent :: "string \<Rightarrow> intent_record" where
  "built_in_timer_adjust_time_intent now =
    \<lparr>ir_intent_id = ''timer.adjust_time'',
     ir_intent_name = Some ''Adjust timer time'',
     ir_service_id = ''voice.local_intents'',
     ir_owner_service = Some ''hexevoice'',
     ir_owner_client_id = None,
     ir_version = ''v1'',
     ir_status = ''active'',
     ir_privacy_class = ''internal'',
     ir_access_scope = ''service'',
     ir_definition = timer_adjust_time_intent_definition,
     ir_constraints = [(''requires_operational_mqtt'', PBool True),
       (''dispatch_side_effect'', PStr ''timer.adjust_time_requested'')],
     ir_metadata = [(''builtin'', PBool True), (''family'', PStr ''timer'')],
     ir_reviews = [],
     ir_usage = [],
     ir_created_at = now,
     ir_updated_at = now\<rparr>"

definition timer_snooze_intent_definition :: "dict" where
  "timer_snooze_intent_definition =
    [(''utterance_examples'', PList [PStr ''snooze five minutes'',
        PStr ''snooze the timer for 10 minutes'',
        PStr ''snooze alarm for two minutes'',
        PStr ''remind me again in five minutes'']),
     (''patterns'', PList [PStr (rw ''^(?:please%s+)?snooze(?:%s+(?:the%s+)?(?:timer|alarm))?(?:%s+for)?%s+(?P<duration>.+)$''),
        PStr (rw ''^(?:please%s+)?remind%s+me%s+again%s+in%s+(?P<duration>.+)$'')]),
     (''slots'', PDict [(''duration_seconds'', PDict [(''type'', PStr ''integer''), (''minimum'', PInt 1)]),
       (''duration_text'', PDict [(''type'', PStr ''string'')]),
       (''duration_hhmmss'', PDict [(''type'', PStr ''string'')]),
       (''scope'', PDict [(''type'', PStr ''string'')]),
       (''requested_at'', PDict [(''type'', PStr ''datetime'')])]),
     (''extraction'', PDict [(''required'', PDict [(''duration_seconds'', PDict [(''type'', PStr ''integer''),
           (''source'', PStr ''duration_seconds''),
           (''minimum'', PInt 1)]),
         (''duration_text'', PDict [(''type'', PStr ''string''), (''source'', PStr ''duration_text'')]),
         (''duration_hhmmss'', PDict [(''type'', PStr ''string''), (''source'', PStr ''duration_hhmmss'')]),
         (''scope'', PDict [(''type'', PStr ''string''), (''source'', PStr ''scope'')]),
         (''requested_at'', PDict [(''type'', PStr ''datetime''), (''source'', PStr ''system_time'')])])]),
     (''dispatch'', PDict [(''type'', PStr ''domain_event''),
       (''command'', PStr ''timer.snooze''),
       (''event_type'', PStr ''timer.snooze_requested'')]),
     (''response'', PDict [(''reply_template'', PStr ''Snoozing timer for {duration_text}.'')]),
     (''reply'', PDict [(''text_template'', PStr ''Snoozing timer for {duration_text}.''),
       (''audio'', PDict [(''mode'', PStr ''none''), (''ttl_seconds'', PInt 3600)])]),
     (''matcher'', PDict [(''type'', PStr ''builtin_timer_snooze'')])]"

definition built_in_timer_snooze_intent :: "string \<Rightarrow> intent_record" where
  "built_in_timer_snooze_intent now =
    \<lparr>ir_intent_id = ''timer.snooze'',
     ir_intent_name = Some ''Snooze timer'',
     ir_service_id = ''voice.local_intents'',
     ir_owner_service = Some ''hexevoice'',
     ir_owner_client_id = None,
     ir_version = ''v1'',
     ir_status = ''active'',
     ir_privacy_class = ''internal'',
     ir_access_scope = ''service'',
     ir_definition = timer_snooze_intent_definition,
     ir_constraints = [(''requires_operational_mqtt'', PBool True),
       (''dispatch_side_effect'', PStr ''timer.snooze_requested'')],
     ir_metadata = [(''builtin'', PBool True), (''family'', PStr ''timer'')],
     ir_reviews = [],
     ir_usage = [],
     ir_created_at = now,
     ir_updated_at = now\<rparr>"

definition time_query_intent_definition :: "dict" where
  "time_query_intent_definition =
    [(''utterance_examples'', PList [PStr ''what is the time'',
        PStr ''what time is it'',
        PStr ''tell me the time'',
        PStr ''current time'']),
     (''patterns'', PList [PStr (rw ''^(?:please%s+)?(?:what%s+is%s+the%s+time|what%s+time%s+is%s+it|tell%s+me%s+the%s+time|current%s+time)$'')]),
     (''slots'', PDict [(''time_text'', PDict [(''type'', PStr ''string'')]),
       (''timezone'', PDict [(''type'', PStr ''string'')]),
       (''requested_at'', PDict [(''type'', PStr ''datetime'')])]),
     (''extraction'', PDict [(''optional'', PDict [(''requested_at'', PDict [(''type'', PStr ''datetime''), (''source'', PStr ''system_time'')])])]),
     (''dispatch'', PDict [(''type'', PStr ''local_response''), (''command'', PStr ''voice.time.query'')]),
     (''response'', PDict [(''reply_template'', PStr ''It is {time_text}.'')]),
     (''reply'', PDict [(''text_template'', PStr ''It is {time_text}.''),
       (''audio'', PDict [(''mode'', PStr ''none''), (''ttl_seconds'', PInt 3600)])]),
     (''matcher'', PDict [(''type'', PStr ''builtin_time_query'')])]"

definition date_query_intent_definition :: "dict" where
  "date_query_intent_definition =
    [(''utterance_examples'', PList [PStr ''what is the date'',
        PStr ''what is the date today'',
        PStr ''what date is it today'',
        PStr ''what is today\\'s date'',
        PStr ''what day is it'',
        PStr ''current date'']),
     (''patterns'', PList [PStr (rw ''^(?:please%s+)?(?:what%s+is%s+(?:the%s+)?date(?:%s+today)?|what%s+date%s+is%s+it(?:%s+today)?|what(?:\\'s|%s+is)%s+today(?:\\'s)?%s+date|what%s+is%s+today(?:\\'s)?%s+date|what%s+day%s+is%s+it|current%s+date|tell%s+me%s+(?:the%s+)?date)$'')]),
     (''slots'', PDict [(''date_text'', PDict [(''type'', PStr ''string'')]),
       (''date_iso'', PDict [(''type'', PStr ''string'')]),
       (''timezone'', PDict [(''type'', PStr ''string'')]),
       (''requested_at'', PDict [(''type'', PStr ''datetime'')])]),
     (''extraction'', PDict [(''optional'', PDict [(''requested_at'', PDict [(''type'', PStr ''datetime''), (''source'', PStr ''system_time'')])])]),
     (''dispatch'', PDict [(''type'', PStr ''local_response''), (''command'', PStr ''voice.date.query'')]),
     (''response'', PDict [(''reply_template'', PStr ''Today is {date_text}.'')]),
     (''reply'', PDict [(''text_template'', PStr ''Today is {date_text}.''),
       (''audio'', PDict [(''mode'', PStr ''none''), (''ttl_seconds'', PInt 3600)])]),
     (''matcher'', PDict [(''type'', PStr ''builtin_date_query'')])]"

definition confirmation_intent_definition :: "string \<Rightarrow> dict" where
  "confirmation_intent_definition response =
    (let (examples, pattern, command, reply_template) = (if response = ''yes'' then
       ([''yes'', ''yeah'', ''yep'', ''correct'', ''confirm'', ''do it''],
        rw ''^(?:yes|yeah|yep|correct|confirm|do%s+it)$'',
        ''voice.confirm.yes'',
        ''{yes_reply_text}'')
      else
       ([''no'', ''nope'', ''cancel'', ''do not'', ''don\\'t''],
        rw ''^(?:no|nope|cancel|do%s+not|don\\'t)$'',
        ''voice.confirm.no'',
        ''{no_reply_text}'')) in
    [(''utterance_examples'', PList (map PStr examples)),
     (''patterns'', PList [PStr pattern]),
     (''slots'', PDict [(''response'', PDict [(''type'', PStr ''string'')]),
       (''pending_intent_id'', PDict [(''type'', PStr ''string'')]),
       (''pending_command'', PDict [(''type'', PStr ''string'')]),
       (''requested_at'', PDict [(''type'', PStr ''datetime'')])]),
     (''dispatch'', PDict [(''type'', PStr ''local_response''), (''command'', PStr command)]),
     (''response'', PDict [(''reply_template'', PStr reply_template)]),
     (''reply'', PDict [(''text_template'', PStr reply_template),
       (''audio'', PDict [(''mode'', PStr ''none''), (''ttl_seconds'', PInt 3600)])]),
     (''matcher'', PDict [(''type'', PStr ''builtin_confirmation''), (''response'', PStr response)])])"

definition built_in_confirmation_intent :: "string \<Rightarrow> string \<Rightarrow> intent_record" where
  "built_in_confirmation_intent response now =
    (let intent_id = ''voice.confirm.'' @ response in
    \<lparr>ir_intent_id = intent_id,
     ir_intent_name = Some (if response = ''yes'' then ''Confirm yes'' else ''Confirm no''),
     ir_service_id = ''voice.local_intents'',
     ir_owner_service = Some ''hexevoice'',
     ir_owner_client_id = None,
     ir_version = ''v1'',
     ir_status = ''active'',
     ir_privacy_class = ''internal'',
     ir_access_scope = ''service'',
     ir_definition = confirmation_intent_definition response,
     ir_constraints = [(''requires_operational_mqtt'', PBool False),
       (''dispatch_side_effect'', PStr ''pending_followup_response''),
       (''requires_pending_followup'', PBool True)],
     ir_metadata = [(''builtin'', PBool True),
       (''family'', PStr ''conversation''),
       (''owned_by'', PStr ''voice_node'')],
     ir_reviews = [],
     ir_usage = [],
     ir_created_at = now,
     ir_updated_at = now\<rparr>)"

definition built_in_time_query_intent :: "string \<Rightarrow> intent_record" where
  "built_in_time_query_intent now =
    \<lparr>ir_intent_id = ''voice.time.query'',
     ir_intent_name = Some ''What is the time'',
     ir_service_id = ''voice.local_intents'',
     ir_owner_service = Some ''hexevoice'',
     ir_owner_client_id = None,
     ir_version = ''v1'',
     ir_status = ''active'',
     ir_privacy_class = ''internal'',
     ir_access_scope = ''service'',
     ir_definition = time_query_intent_definition,
     ir_constraints = [(''requires_operational_mqtt'', PBool False), (''dispatch_side_effect'', PStr ''none'')],
     ir_metadata = [(''builtin'', PBool True),
       (''family'', PStr ''voice_node''),
       (''owned_by'', PStr ''voice_node'')],
     ir_reviews = [],
     ir_usage = [],
     ir_created_at = now,
     ir_updated_at = now\<rparr>"

definition built_in_date_query_intent :: "string \<Rightarrow> intent_record" where
  "built_in_date_query_intent now =
    \<lparr>ir_intent_id = ''voice.date.query'',
     ir_intent_name = Some ''What is the date'',
     ir_service_id = ''voice.local_intents'',
     ir_owner_service = Some ''hexevoice'',
     ir_owner_client_id = None,
     ir_version = ''v1'',
     ir_status = ''active'',
     ir_privacy_class = ''internal'',
     ir_access_scope = ''service'',
     ir_definition = date_query_intent_definition,
     ir_constraints = [(''requires_operational_mqtt'', PBool False), (''dispatch_side_effect'', PStr ''none'')],
     ir_metadata = [(''builtin'', PBool True),
       (''family'', PStr ''voice_node''),
       (''owned_by'', PStr ''voice_node'')],
     ir_reviews = [],
     ir_usage = [],
     ir_created_at = now,
     ir_updated_at = now\<rparr>"

record endpoint_control_config =
  ec_name :: string
  ec_examples :: "string list"
  ec_patterns :: "string list"
  ec_command :: string
  ec_reply :: string

definition endpoint_control_definitions :: "(string \<times> endpoint_control_config) list" where
  "endpoint_control_definitions =
    [(''playback.stop'', \<lparr>ec_name = ''Stop playback'',
       ec_examples = [''stop playback'', ''stop talking'', ''silence yourself'', ''stop audio''],
       ec_patterns = [rw ''^(?:please%s+)?(?:stop|silence)%s+(?:playback|talking|audio|sound)$'',
          rw ''^(?:please%s+)?be%s+quiet$''],
       ec_command = ''playback.stop'', ec_reply = ''Stopping playback.''\<rparr>),
     (''playback.repeat'', \<lparr>ec_name = ''Repeat playback'',
       ec_examples = [''repeat that'', ''say that again'', ''replay response''],
       ec_patterns = [rw ''^(?:please%s+)?(?:repeat%s+that|say%s+that%s+again|replay%s+(?:that|response))$''],
       ec_command = ''playback.repeat'', ec_reply = ''Repeating that.''\<rparr>),
     (''endpoint.volume.set'', \<lparr>ec_name = ''Set endpoint volume'',
       ec_examples = [''set volume to 60 percent'', ''volume 40'', ''set your volume to fifty percent''],
       ec_patterns = [rw ''^(?:please%s+)?(?:set%s+)?(?:your%s+)?volume%s+(?:to%s+)?(?P<volume_text>.+?)(?:%s+percent)?$''],
       ec_command = ''endpoint.volume.set'', ec_reply = ''Setting volume to {volume_percent} percent.''\<rparr>),
     (''endpoint.volume.adjust'', \<lparr>ec_name = ''Adjust endpoint volume'',
       ec_examples = [''turn it up'', ''turn volume down'', ''lower volume by 10'', ''raise volume 5''],
       ec_patterns = [rw ''^(?:please%s+)?(?P<direction>turn%s+it%s+up|turn%s+it%s+down|turn%s+volume%s+up|turn%s+volume%s+down)$'',
          rw ''^(?:please%s+)?(?P<direction>raise|lower|increase|decrease|volume%s+up|volume%s+down)(?:%s+(?:volume%s+)?(?:by%s+)?(?P<delta_text>.+?))?$''],
       ec_command = ''endpoint.volume.adjust'', ec_reply = ''Adjusting volume.''\<rparr>),
     (''endpoint.mute'', \<lparr>ec_name = ''Mute endpoint'',
       ec_examples = [''mute yourself'', ''mute endpoint'', ''mute speaker''],
       ec_patterns = [rw ''^(?:please%s+)?mute(?:%s+(?:yourself|endpoint|speaker))?$''],
       ec_command = ''endpoint.mute'', ec_reply = ''Muting.''\<rparr>),
     (''endpoint.unmute'', \<lparr>ec_name = ''Unmute endpoint'',
       ec_examples = [''unmute yourself'', ''unmute endpoint'', ''turn sound back on''],
       ec_patterns = [rw ''^(?:please%s+)?unmute(?:%s+(?:yourself|endpoint|speaker))?$'',
          rw ''^(?:please%s+)?turn%s+(?:the%s+)?sound%s+back%s+on$''],
       ec_command = ''endpoint.unmute'', ec_reply = ''Unmuting.''\<rparr>),
     (''endpoint.identify'', \<lparr>ec_name = ''Identify endpoint'',
       ec_examples = [''identify yourself'', ''identify this device'', ''flash the device''],
       ec_patterns = [rw ''^(?:please%s+)?identify(?:%s+(?:yourself|this%s+device|endpoint))?$'',
          rw ''^(?:please%s+)?flash%s+(?:the%s+)?(?:device|endpoint)$''],
       ec_command = ''endpoint.identify'', ec_reply = ''Identifying this endpoint.''\<rparr>),
     (''endpoint.settings.open'', \<lparr>ec_name = ''Open endpoint settings'',
       ec_examples = [''open settings'', ''show device settings'', ''open configuration''],
       ec_patterns = [rw ''^(?:please%s+)?(?:open|show)%s+(?:(?:device|endpoint)%s+)?(?:settings|configuration)$''],
       ec_command = ''endpoint.settings.open'', ec_reply = ''Opening settings.''\<rparr>)]"

definition endpoint_control_intent_definition :: "string \<Rightarrow> endpoint_control_config \<Rightarrow> dict" where
  "endpoint_control_intent_definition intent_id config =
    (let slots0 = [(''requested_at'', PDict [(''type'', PStr ''datetime'')])];
         extraction0 = [(''optional'', PDict [(''requested_at'', PDict [(''type'', PStr ''datetime''), (''source'', PStr ''system_time'')])])];
         slots1 = (if intent_id = ''endpoint.volume.set''
           then aput ''volume_percent'' (PDict [(''type'', PStr ''integer''), (''minimum'', PInt 0), (''maximum'', PInt 100)]) slots0
           else slots0);
         extraction1 = (if intent_id = ''endpoint.volume.set''
           then aput ''required'' (PDict [(''volume_percent'', PDict [(''type'', PStr ''integer''), (''source'', PStr ''volume_percent''), (''minimum'', PInt 0)])]) extraction0
           else extraction0);
         slots = (if intent_id = ''endpoint.volume.adjust''
           then aput ''direction'' (PDict [(''type'', PStr ''string'')]) (aput ''delta_percent'' (PDict [(''type'', PStr ''integer'')]) slots1)
           else slots1);
         extraction = (if intent_id = ''endpoint.volume.adjust''
           then aput ''required'' (PDict [(''delta_percent'', PDict [(''type'', PStr ''integer''), (''source'', PStr ''delta_percent'')]),
             (''direction'', PDict [(''type'', PStr ''string''), (''source'', PStr ''direction'')])]) extraction1
           else extraction1) in
    [(''utterance_examples'', PList (map PStr (ec_examples config))),
     (''patterns'', PList (map PStr (ec_patterns config))),
     (''slots'', PDict slots),
     (''extraction'', PDict extraction),
     (''dispatch'', PDict [(''type'', PStr ''local_endpoint_command''), (''command'', PStr (ec_command config))]),
     (''response'', PDict [(''reply_template'', PStr (ec_reply config))]),
     (''reply'', PDict [(''text_template'', PStr (ec_reply config)),
       (''audio'', PDict [(''mode'', PStr ''none''), (''ttl_seconds'', PInt 3600)])]),
     (''matcher'', PDict [(''type'', PStr ''builtin_endpoint_control''), (''command'', PStr (ec_command config))])])"

definition endpoint_control_names :: "(string \<times> string) list" where
  "endpoint_control_names =
   [(''playback.stop'', ''Stop playback''),
    (''playback.repeat'', ''Repeat playback''),
    (''endpoint.volume.set'', ''Set endpoint volume''),
    (''endpoint.volume.adjust'', ''Adjust endpoint volume''),
    (''endpoint.mute'', ''Mute endpoint''),
    (''endpoint.unmute'', ''Unmute endpoint''),
    (''endpoint.identify'', ''Identify endpoint''),
    (''endpoint.settings.open'', ''Open endpoint settings'')]"

definition built_in_endpoint_control_intent :: "string \<Rightarrow> endpoint_control_config \<Rightarrow> string \<Rightarrow> string \<Rightarrow> intent_record" where
  "built_in_endpoint_control_intent intent_id config name now =
    (let definition' = endpoint_control_intent_definition intent_id config; command = ec_command config in
    \<lparr>ir_intent_id = intent_id,
     ir_intent_name = Some name,
     ir_service_id = ''voice.local_intents'',
     ir_owner_service = Some ''hexevoice'',
     ir_owner_client_id = None,
     ir_version = ''v1'',
     ir_status = ''active'',
     ir_privacy_class = ''internal'',
     ir_access_scope = ''service'',
     ir_definition = definition',
     ir_constraints = [(''requires_operational_mqtt'', PBool False),
       (''dispatch_side_effect'', PStr command),
       (''short_intent_scope'', PStr ''followup'')],
     ir_metadata = [(''builtin'', PBool True),
       (''family'', PStr (if startswith command ''endpoint.'' then ''endpoint'' else ''playback'')),
       (''owned_by'', PStr ''voice_node'')],
     ir_reviews = [],
     ir_usage = [],
     ir_created_at = now,
     ir_updated_at = now\<rparr>)"

definition test_followup_intent_definition :: "dict" where
  "test_followup_intent_definition =
    [(''utterance_examples'', PList [PStr ''test follow up'',
        PStr ''test followup'',
        PStr ''test conversation'',
        PStr ''follow up test'']),
     (''patterns'', PList [PStr (rw ''^(?:please%s+)?(?:test%s+follow%s+up|test%s+followup|test%s+conversation|follow%s+up%s+test)$'')]),
     (''slots'', PDict [(''requested_at'', PDict [(''type'', PStr ''datetime'')])]),
     (''extraction'', PDict [(''optional'', PDict [(''requested_at'', PDict [(''type'', PStr ''datetime''), (''source'', PStr ''system_time'')])])]),
     (''dispatch'', PDict [(''type'', PStr ''local_response''), (''command'', PStr ''voice.debug.followup'')]),
     (''response'', PDict [(''reply_template'', PStr ''Follow-up test started.'')]),
     (''reply'', PDict [(''text_template'', PStr ''Should I complete the follow-up test?''),
       (''audio'', PDict [(''mode'', PStr ''none''), (''ttl_seconds'', PInt 3600)])]),
     (''followup'', PDict [(''required'', PBool True),
       (''prompt'', PStr ''Should I complete the follow-up test?''),
       (''yes_reply_text'', PStr ''Follow-up test completed.''),
       (''no_reply_text'', PStr ''Follow-up test canceled.''),
       (''ttl_seconds'', PInt 30),
       (''context'', PDict [(''purpose'', PStr ''operator_followup_test'')])]),
     (''matcher'', PDict [(''type'', PStr ''exact_example'')])]"

definition built_in_test_followup_intent :: "string \<Rightarrow> intent_record" where
  "built_in_test_followup_intent now =
    \<lparr>ir_intent_id = ''voice.debug.followup'',
     ir_intent_name = Some ''Test follow-up'',
     ir_service_id = ''voice.local_intents'',
     ir_owner_service = Some ''hexevoice'',
     ir_owner_client_id = None,
     ir_version = ''v1'',
     ir_status = ''active'',
     ir_privacy_class = ''internal'',
     ir_access_scope = ''service'',
     ir_definition = test_followup_intent_definition,
     ir_constraints = [(''requires_operational_mqtt'', PBool False), (''dispatch_side_effect'', PStr ''none'')],
     ir_metadata = [(''builtin'', PBool True), (''family'', PStr ''debug''), (''owned_by'', PStr ''voice_node'')],
     ir_reviews = [],
     ir_usage = [],
     ir_created_at = now,
     ir_updated_at = now\<rparr>"

definition ADMIN_MAINTENANCE_INTENT_CONFIG :: "(string \<times> string \<times> string \<times> string) list" where
  "ADMIN_MAINTENANCE_INTENT_CONFIG =
    [(''admin.debug.start'', ''Start debug'', ''admin debug start'',
      ''Starting admin debug mode.''),
     (''admin.debug.stop'', ''Stop debug'', ''admin debug stop'',
      ''Stopping admin debug mode.''),
     (''admin.enrollment.start'', ''Start voice enrollment'', ''admin enrollment start'',
      ''Starting voice enrollment.''),
     (''admin.enrollment.cancel'', ''Cancel voice enrollment'', ''admin enrollment cancel'',
      ''Cancelling voice enrollment.''),
     (''admin.placement.start_active'', ''Start active placement test'', ''admin placement active'',
      ''Starting active placement test.''),
     (''admin.placement.start_passive_48h'', ''Start 48 hour placement calibration'', ''admin placement forty eight hour'',
      ''Starting 48 hour placement calibration.''),
     (''admin.placement.status'', ''Placement status'', ''admin placement status'',
      ''Checking placement status.''),
     (''admin.placement.stop'', ''Stop placement calibration'', ''admin placement stop'',
      ''Stopping placement calibration.''),
     (''admin.privacy.status'', ''Privacy status'', ''admin privacy status'',
      ''Checking privacy status.''),
     (''admin.privacy.purge_debug_audio'', ''Purge debug audio'', ''admin purge debug audio'',
      ''Debug audio purge requires dashboard confirmation.''),
     (''admin.voice.quality.status'', ''Voice quality status'', ''admin voice quality status'',
      ''Checking voice quality status.''),
     (''admin.speaker.enrollment.status'', ''Speaker enrollment status'', ''admin speaker enrollment status'',
      ''Checking speaker enrollment status.''),
     (''admin.passcode.rotate'', ''Rotate admin passcode'', ''admin passcode rotate'',
      ''Passcode rotation requires dashboard confirmation.'')]"

definition admin_maintenance_intent_definition :: "string \<Rightarrow> string \<Rightarrow> string \<Rightarrow> dict" where
  "admin_maintenance_intent_definition intent_id example reply =
    (let action_words = replace_text (rw ''% '') (rw ''%s+'') (re_escape example);
         passcode_suffix = rw ''(?:%s+(?:pass%s*code|passcode|code)%s+(?:%d{4}|(?:zero|oh|one|two|three|four|for|five|six|seven|eight|ate|nine)(?:%s+(?:zero|oh|one|two|three|four|for|five|six|seven|eight|ate|nine)){3}))?'' in
    [(''utterance_examples'', PList [PStr example, PStr (example @ '' passcode 1234''), PStr (example @ '' code one two three four'')]),
     (''patterns'', PList [PStr (rw ''^(?:please%s+)?'' @ action_words @ passcode_suffix @ ''$'')]),
     (''slots'', PDict [(''requested_at'', PDict [(''type'', PStr ''datetime'')])]),
     (''extraction'', PDict [(''optional'', PDict [(''requested_at'', PDict [(''type'', PStr ''datetime''), (''source'', PStr ''system_time'')])])]),
     (''dispatch'', PDict [(''type'', PStr ''admin_maintenance''), (''command'', PStr intent_id)]),
     (''response'', PDict [(''reply_template'', PStr reply)]),
     (''reply'', PDict [(''text_template'', PStr reply),
       (''audio'', PDict [(''mode'', PStr ''none''), (''ttl_seconds'', PInt 3600)])]),
     (''matcher'', PDict [(''type'', PStr ''exact_example'')])])"

definition built_in_admin_maintenance_intent :: "string \<Rightarrow> string \<Rightarrow> string \<Rightarrow> string \<Rightarrow> string \<Rightarrow> intent_record" where
  "built_in_admin_maintenance_intent intent_id intent_name example reply now =
    \<lparr>ir_intent_id = intent_id,
     ir_intent_name = Some intent_name,
     ir_service_id = ''voice.local_intents'',
     ir_owner_service = Some ''hexevoice'',
     ir_owner_client_id = None,
     ir_version = ''v1'',
     ir_status = ''disabled'',
     ir_privacy_class = ''admin_maintenance'',
     ir_access_scope = ''admin'',
     ir_definition = admin_maintenance_intent_definition intent_id example reply,
     ir_constraints = [(''requires_operational_mqtt'', PBool False),
       (''dispatch_side_effect'', PStr intent_id),
       (''speaker_identity_policy'', PStr ''required''),
       (''admin_maintenance_action'', PBool True)],
     ir_metadata = [(''builtin'', PBool True),
       (''family'', PStr ''admin_maintenance''),
       (''owned_by'', PStr ''voice_node''),
       (''identity_classification'', PStr ''admin_maintenance''),
       (''speaker_identity_policy'', PStr ''required''),
       (''admin_maintenance_action'', PBool True)],
     ir_reviews = [],
     ir_usage = [],
     ir_created_at = now,
     ir_updated_at = now\<rparr>"


section \<open>Lists of them\<close>

definition BUILT_IN_ENDPOINT_CONTROL_INTENT_IDS :: "string list" where
  "BUILT_IN_ENDPOINT_CONTROL_INTENT_IDS =
    [''playback.stop'', ''playback.repeat'', ''endpoint.volume.set'', ''endpoint.volume.adjust'',
     ''endpoint.mute'', ''endpoint.unmute'', ''endpoint.identify'', ''endpoint.settings.open'']"

text \<open>The two tables have an entry for every id, so the look-ups succeed.\<close>

definition endpoint_control_intents :: "string \<Rightarrow> intent_record list" where
  "endpoint_control_intents now = concat (map (\<lambda>i.
     case (aget endpoint_control_definitions i, aget endpoint_control_names i) of
       (Some config, Some name) \<Rightarrow> [built_in_endpoint_control_intent i config name now]
     | _ \<Rightarrow> []) BUILT_IN_ENDPOINT_CONTROL_INTENT_IDS)"

definition admin_maintenance_intents :: "string \<Rightarrow> intent_record list" where
  "admin_maintenance_intents now = concat (map (\<lambda>i.
     case aget ADMIN_MAINTENANCE_INTENT_CONFIG i of
       Some (name, example, reply) \<Rightarrow> [built_in_admin_maintenance_intent i name example reply now]
     | None \<Rightarrow> []) ADMIN_MAINTENANCE_INTENT_IDS)"

definition built_in_intents :: "string \<Rightarrow> intent_record list" where
  "built_in_intents now =
    [built_in_timer_intent now, built_in_timer_new_intent now, built_in_timer_status_intent now,
     built_in_timer_control_intent ''stop'' now, built_in_timer_control_intent ''cancel'' now,
     built_in_timer_adjust_time_intent now, built_in_timer_snooze_intent now,
     built_in_time_query_intent now, built_in_date_query_intent now]
    @ endpoint_control_intents now
    @ [built_in_test_followup_intent now, built_in_confirmation_intent ''yes'' now,
       built_in_confirmation_intent ''no'' now]
    @ admin_maintenance_intents now"

lemma built_in_intent_ids: "map ir_intent_id (built_in_intents now) =
    [''timer.create'', ''timer.new'', ''timer.status'', ''timer.stop'', ''timer.cancel'',
     ''timer.adjust_time'', ''timer.snooze'', ''voice.time.query'', ''voice.date.query'']
    @ BUILT_IN_ENDPOINT_CONTROL_INTENT_IDS
    @ [''voice.debug.followup'', ''voice.confirm.yes'', ''voice.confirm.no'']
    @ ADMIN_MAINTENANCE_INTENT_IDS"
  by (simp add: built_in_intents_def endpoint_control_intents_def admin_maintenance_intents_def
      built_in_timer_intent_def built_in_timer_new_intent_def built_in_timer_status_intent_def
      built_in_timer_control_intent_def built_in_timer_adjust_time_intent_def built_in_timer_snooze_intent_def
      built_in_time_query_intent_def built_in_date_query_intent_def built_in_test_followup_intent_def
      built_in_confirmation_intent_def built_in_endpoint_control_intent_def built_in_admin_maintenance_intent_def
      BUILT_IN_ENDPOINT_CONTROL_INTENT_IDS_def endpoint_control_definitions_def endpoint_control_names_def
      ADMIN_MAINTENANCE_INTENT_IDS_def ADMIN_MAINTENANCE_INTENT_CONFIG_def Let_def)

lemma built_in_ids_distinct: "distinct (map ir_intent_id (built_in_intents now))"
  unfolding built_in_intent_ids BUILT_IN_ENDPOINT_CONTROL_INTENT_IDS_def ADMIN_MAINTENANCE_INTENT_IDS_def by simp

end
