(* ===== verification/IntentRegistry.thy ===== *)
theory IntentRegistry
  imports BuiltinIntents
begin

text \<open>
  The registry of spoken intents (the second part of \<open>assistant/intent_registry.py\<close>): how
  far an intent depends on knowing the speaker, the checks of a record, the file of the store and
  the operations of \<open>VoiceIntentRegistry\<close>. The registry's state is \<open>intent_state\<close>; every
  operation gives an error or the new state. The file holds the records that were saved, so
  reading it is \<open>load_or_create\<close> of an \<open>intent_state option\<close>. The clock reads of one call give
  the one text \<open>now\<close>; \<open>rp\<close> is the text of floats and nested values.
\<close>

section \<open>Speaker identity policies\<close>

definition ACTIVE_INTENT_STATES :: "string list" where
  "ACTIVE_INTENT_STATES = [''active'']"

definition KNOWN_INTENT_STATES :: "string list" where
  "KNOWN_INTENT_STATES = [''active'', ''restricted'', ''review_due'', ''probation'', ''disabled'', ''retired'', ''expired'']"

definition SPEAKER_IDENTITY_POLICIES :: "string list" where
  "SPEAKER_IDENTITY_POLICIES = [''not_required'', ''use_if_ready'', ''required'', ''forbidden'']"

definition PERSONAL_INTENT_PRIVACY_CLASSES :: "string list" where
  "PERSONAL_INTENT_PRIVACY_CLASSES = [''personal'', ''private'', ''sensitive'', ''biometric'']"

definition PERSONAL_INTENT_ACCESS_SCOPES :: "string list" where
  "PERSONAL_INTENT_ACCESS_SCOPES = [''personal'', ''profile'', ''user'']"

definition PERSONAL_INTENT_HINTS :: "string list" where
  "PERSONAL_INTENT_HINTS = [''calendar'', ''contact'', ''contacts'', ''email'', ''finance'', ''health'',
     ''message'', ''messages'', ''personal'', ''profile'']"

definition normalize_intent_speaker_policy :: "string \<Rightarrow> string" where
  "normalize_intent_speaker_policy value =
     (let policy = lower (strip value) in
      if policy \<in> set SPEAKER_IDENTITY_POLICIES then policy else ''use_if_ready'')"

text \<open>\<open>c.get(k)\<close> when it is a text that is not blank and names a policy\<close>

definition policy_entry :: "dict \<Rightarrow> string \<Rightarrow> string option" where
  "policy_entry c k = (case dget c k of
     PStr value \<Rightarrow>
       if strip value = [] then None else
       if normalize_intent_speaker_policy value = lower (strip value)
       then Some (normalize_intent_speaker_policy value) else None
   | _ \<Rightarrow> None)"

fun first_some :: "'a option list \<Rightarrow> 'a option" where
  "first_some [] = None"
| "first_some (None # xs) = first_some xs"
| "first_some (Some x # xs) = Some x"

definition POLICY_KEYS :: "string list" where
  "POLICY_KEYS = [''speaker_identity_policy'', ''speaker_policy'', ''identity_policy'']"

definition explicit_speaker_identity_policy :: "intent_record \<Rightarrow> string option" where
  "explicit_speaker_identity_policy r = first_some (concat (map (\<lambda>c. map (policy_entry c) POLICY_KEYS)
     [ir_metadata r, ir_constraints r, ir_definition r]))"


definition intent_command :: "(pv \<Rightarrow> string) \<Rightarrow> intent_record \<Rightarrow> string" where
  "intent_command rp r =
     (let dispatch = dict_of (dget (ir_definition r) ''dispatch'') in
      lower (strip (py_str rp (py_or (dget dispatch ''command'') (PStr (ir_intent_id r))))))"

definition intent_looks_personal :: "(pv \<Rightarrow> string) \<Rightarrow> intent_record \<Rightarrow> bool" where
  "intent_looks_personal rp r =
     (if lower (strip (ir_privacy_class r)) \<in> set PERSONAL_INTENT_PRIVACY_CLASSES then True
      else if lower (strip (ir_access_scope r)) \<in> set PERSONAL_INTENT_ACCESS_SCOPES then True
      else
        let searchable = join '' '' (map lower
              [ir_intent_id r, ir_service_id r, str_or (ir_owner_service r) [], str_or (ir_intent_name r) [],
               intent_command rp r])
        in list_ex (contains searchable) PERSONAL_INTENT_HINTS)"

definition no_identity_commands :: "string list" where
  "no_identity_commands = [''voice.date.query'', ''voice.time.query'', ''voice.confirm.yes'', ''voice.confirm.no'']"

definition resolve_intent_speaker_identity_policy :: "(pv \<Rightarrow> string) \<Rightarrow> intent_record \<Rightarrow> string" where
  "resolve_intent_speaker_identity_policy rp r =
     (case explicit_speaker_identity_policy r of
        Some policy \<Rightarrow> policy
      | None \<Rightarrow>
          if dget (ir_metadata r) ''builtin'' = PBool True then ''not_required''
          else
            let command = intent_command rp r in
            if startswith command ''timer.'' \<or> startswith command ''endpoint.'' \<or> startswith command ''playback.''
               \<or> command \<in> set no_identity_commands then ''not_required''
            else if intent_looks_personal rp r then ''required''
            else ''use_if_ready'')"

definition intent_record_with_speaker_identity_policy :: "(pv \<Rightarrow> string) \<Rightarrow> intent_record \<Rightarrow> intent_record" where
  "intent_record_with_speaker_identity_policy rp r =
     r\<lparr>ir_metadata := aput ''speaker_identity_policy''
         (PStr (resolve_intent_speaker_identity_policy rp r)) (ir_metadata r)\<rparr>"

section \<open>The checks of a record\<close>

datatype intent_error =
    Duplicate_intent_id
  | Intent_id_not_registered
  | Unsupported_intent_status string
  | Invalid_record
  | Not_a_number

text \<open>
  \<open>_validate_definition\<close>: a key that is present and not null must have the right type. Keys of a JSON
  object are texts.
\<close>

definition none_or :: "(pv \<Rightarrow> bool) \<Rightarrow> pv \<Rightarrow> bool" where
  "none_or p v \<longleftrightarrow> v = PNone \<or> p v"

fun is_list :: "pv \<Rightarrow> bool" where
  "is_list (PList xs) = True"
| "is_list _ = False"

definition section_ok :: "pv \<Rightarrow> bool" where
  "section_ok v \<longleftrightarrow> none_or is_dict v \<and> list_all (\<lambda>(k, s). strip k \<noteq> [] \<and> is_dict s) (dict_of v)"

definition extraction_ok :: "pv \<Rightarrow> bool" where
  "extraction_ok v \<longleftrightarrow> none_or (\<lambda>e. is_dict e \<and> section_ok (dget (dict_of e) ''required'')
     \<and> section_ok (dget (dict_of e) ''optional'')) v"

definition conversation_ok :: "pv \<Rightarrow> bool" where
  "conversation_ok v \<longleftrightarrow> none_or (\<lambda>e. is_dict e \<and> none_or is_dict (dget (dict_of e) ''followup'')) v"

definition validate_definition :: "dict \<Rightarrow> bool" where
  "validate_definition d \<longleftrightarrow>
     none_or is_dict (dget d ''dispatch'') \<and> none_or is_list (dget d ''patterns'')
     \<and> none_or is_list (dget d ''utterance_examples'') \<and> extraction_ok (dget d ''extraction'')
     \<and> none_or is_dict (dget d ''reply'') \<and> none_or is_dict (dget d ''followup'')
     \<and> conversation_ok (dget d ''conversation'')"

text \<open>The lengths are checked before the validators strip the texts.\<close>

definition sized :: "nat \<Rightarrow> string \<Rightarrow> bool" where
  "sized n s \<longleftrightarrow> 1 \<le> length s \<and> length s \<le> n"

definition opt_sized :: "nat \<Rightarrow> string option \<Rightarrow> bool" where
  "opt_sized n s \<longleftrightarrow> (case s of None \<Rightarrow> True | Some t \<Rightarrow> length t \<le> n)"

definition normal_record :: "intent_record \<Rightarrow> intent_record" where
  "normal_record r = r\<lparr>ir_intent_id := strip (ir_intent_id r), ir_service_id := strip (ir_service_id r),
     ir_version := strip (ir_version r), ir_status := lower (strip (strip (ir_status r))),
     ir_privacy_class := strip (ir_privacy_class r), ir_access_scope := strip (ir_access_scope r)\<rparr>"

definition model_validate :: "intent_record \<Rightarrow> intent_error + intent_record" where
  "model_validate r =
     (if sized 120 (ir_intent_id r) \<and> opt_sized 160 (ir_intent_name r) \<and> sized 160 (ir_service_id r)
         \<and> opt_sized 160 (ir_owner_service r) \<and> opt_sized 160 (ir_owner_client_id r) \<and> sized 80 (ir_version r)
         \<and> list_all (\<lambda>s. strip s \<noteq> []) [ir_intent_id r, ir_service_id r, ir_version r, ir_status r,
              ir_privacy_class r, ir_access_scope r]
         \<and> lower (strip (strip (ir_status r))) \<in> set KNOWN_INTENT_STATES
         \<and> validate_definition (ir_definition r)
      then Inr (normal_record r) else Inl Invalid_record)"

section \<open>The store\<close>

record intent_state =
  is_schema_version :: string
  is_intents :: "intent_record list"
  is_updated_at :: "string option"

definition VOICE_INTENT_SCHEMA_VERSION :: string where
  "VOICE_INTENT_SCHEMA_VERSION = ''1.0''"

definition store_save :: "string \<Rightarrow> intent_state \<Rightarrow> intent_state" where
  "store_save now st = st\<lparr>is_updated_at := Some now\<rparr>"

fun validate_all :: "intent_record list \<Rightarrow> intent_error + intent_record list" where
  "validate_all [] = Inr []"
| "validate_all (r # rs) =
     (case model_validate r of Inl e \<Rightarrow> Inl e
      | Inr r' \<Rightarrow> (case validate_all rs of Inl e \<Rightarrow> Inl e | Inr rs' \<Rightarrow> Inr (r' # rs')))"

text \<open>
  A missing built-in intent is appended in the order of the list; the ids that are looked for are those of
  the file, which do not change while intents are appended.
\<close>

definition seed_builtin_intents :: "string \<Rightarrow> intent_state \<Rightarrow> bool \<times> intent_state" where
  "seed_builtin_intents now st =
     (let existing = map ir_intent_id (is_intents st);
          missing = filter (\<lambda>b. ir_intent_id b \<notin> set existing) (built_in_intents now)
      in (missing \<noteq> [], st\<lparr>is_intents := is_intents st @ missing\<rparr>))"

definition normalize_speaker_identity_policies :: "(pv \<Rightarrow> string) \<Rightarrow> intent_state \<Rightarrow> bool \<times> intent_state" where
  "normalize_speaker_identity_policies rp st =
     (let normalized = map (intent_record_with_speaker_identity_policy rp) (is_intents st);
          changed = list_ex (\<lambda>(n, r). ir_metadata n \<noteq> ir_metadata r) (zip normalized (is_intents st))
      in (changed, if changed then st\<lparr>is_intents := normalized\<rparr> else st))"

text \<open>What is in memory then, and the file: it is written only when something was added or changed.\<close>

definition load_or_create :: "(pv \<Rightarrow> string) \<Rightarrow> string \<Rightarrow> intent_state option
    \<Rightarrow> intent_error + intent_state \<times> intent_state option" where
  "load_or_create rp now file = (case file of
     None \<Rightarrow>
       (case validate_all (built_in_intents now) of Inl e \<Rightarrow> Inl e
        | Inr rs \<Rightarrow>
            let st = store_save now (snd (normalize_speaker_identity_policies rp
              \<lparr>is_schema_version = VOICE_INTENT_SCHEMA_VERSION, is_intents = rs, is_updated_at = Some now\<rparr>))
            in Inr (st, Some st))
   | Some payload \<Rightarrow>
       (case validate_all (is_intents payload) of Inl e \<Rightarrow> Inl e
        | Inr rs \<Rightarrow>
            let (seeded, st1) = seed_builtin_intents now (payload\<lparr>is_intents := rs\<rparr>);
                (normalized, st2) = normalize_speaker_identity_policies rp st1
            in Inr (if seeded \<or> normalized then (store_save now st2, Some (store_save now st2)) else (st2, file))))"

section \<open>The registry\<close>

text \<open>\<open>VoiceIntentRegistry\<close>: the state in memory and the file behind it.\<close>

record intent_registry =
  rg_state :: intent_state
  rg_file :: "intent_state option"

type_synonym 'a registry_result = "(intent_error + 'a) \<times> intent_registry"

definition open_registry :: "(pv \<Rightarrow> string) \<Rightarrow> string \<Rightarrow> intent_state option \<Rightarrow> intent_error + intent_registry" where
  "open_registry rp now file = (case load_or_create rp now file of Inl e \<Rightarrow> Inl e
     | Inr (st, written) \<Rightarrow> Inr \<lparr>rg_state = st, rg_file = written\<rparr>)"

definition find_intent :: "string \<Rightarrow> intent_registry \<Rightarrow> intent_record option" where
  "find_intent intent_id rg = find (\<lambda>r. ir_intent_id r = strip intent_id) (is_intents (rg_state rg))"

definition replace_intent :: "intent_record \<Rightarrow> intent_registry \<Rightarrow> intent_registry" where
  "replace_intent replacement rg = rg\<lparr>rg_state := (rg_state rg)\<lparr>is_intents :=
     map (\<lambda>r. if ir_intent_id r = ir_intent_id replacement then replacement else r) (is_intents (rg_state rg))\<rparr>\<rparr>"

definition save_registry :: "string \<Rightarrow> intent_registry \<Rightarrow> unit registry_result" where
  "save_registry now rg = (case validate_all (is_intents (rg_state rg)) of
     Inl e \<Rightarrow> (Inl e, rg)
   | Inr rs \<Rightarrow> let st = store_save now ((rg_state rg)\<lparr>is_intents := rs\<rparr>) in
       (Inr (), rg\<lparr>rg_state := st, rg_file := Some st\<rparr>))"

record intent_snapshot =
  sn_configured :: bool
  sn_schema_version :: string
  sn_registered_count :: nat
  sn_active_count :: nat
  sn_updated_at :: "string option"
  sn_intents :: "intent_record list"

definition active_intents :: "intent_registry \<Rightarrow> intent_record list" where
  "active_intents rg = filter (\<lambda>r. ir_status r \<in> set ACTIVE_INTENT_STATES) (is_intents (rg_state rg))"

definition registry_snapshot :: "intent_registry \<Rightarrow> intent_snapshot" where
  "registry_snapshot rg =
     (let intents = is_intents (rg_state rg) in
      \<lparr>sn_configured = True, sn_schema_version = is_schema_version (rg_state rg),
       sn_registered_count = length intents,
       sn_active_count = length (filter (\<lambda>r. ir_status r \<in> set ACTIVE_INTENT_STATES) intents),
       sn_updated_at = is_updated_at (rg_state rg), sn_intents = intents\<rparr>)"

definition get_intent :: "string \<Rightarrow> intent_registry \<Rightarrow> intent_error + intent_record" where
  "get_intent intent_id rg = (case find_intent intent_id rg of
     None \<Rightarrow> Inl Intent_id_not_registered | Some r \<Rightarrow> Inr r)"

text \<open>
  The keyword arguments of \<open>register_intent\<close> are a record without the fields it sets itself, given as an
  \<open>intent_record\<close> whose reviews, usage and times are not looked at.
\<close>

definition register_intent ::
    "(pv \<Rightarrow> string) \<Rightarrow> string \<Rightarrow> intent_record \<Rightarrow> intent_registry \<Rightarrow> unit registry_result" where
  "register_intent rp now args rg =
     (let existing = find_intent (ir_intent_id args) rg in
      if \<exists>e \<in> set_option existing. ir_status e \<noteq> ''retired'' then (Inl Duplicate_intent_id, rg)
      else
        let payload = args\<lparr>ir_version := (if ir_version args = [] then ''v1'' else ir_version args),
              ir_reviews := [], ir_usage := [], ir_created_at := now, ir_updated_at := now\<rparr>
        in case model_validate payload of Inl e \<Rightarrow> (Inl e, rg)
           | Inr valid \<Rightarrow>
               let new = intent_record_with_speaker_identity_policy rp valid;
                   intents = is_intents (rg_state rg);
                   intents' = (case existing of
                       None \<Rightarrow> intents @ [new]
                     | Some _ \<Rightarrow> map (\<lambda>r. if ir_intent_id r = ir_intent_id args then new else r) intents)
               in save_registry now (rg\<lparr>rg_state := (rg_state rg)\<lparr>is_intents := intents'\<rparr>\<rparr>))"

record intent_update =
  up_intent_name :: "string option"
  up_service_id :: "string option"
  up_owner_service :: "string option"
  up_owner_client_id :: "string option"
  up_version :: "string option"
  up_privacy_class :: "string option"
  up_access_scope :: "string option"
  up_definition :: "dict option"
  up_constraints :: "dict option"
  up_metadata :: "dict option"

definition or_keep :: "'a option \<Rightarrow> 'a \<Rightarrow> 'a" where
  "or_keep x y = (case x of None \<Rightarrow> y | Some v \<Rightarrow> v)"

definition updated_record :: "string \<Rightarrow> intent_update \<Rightarrow> intent_record \<Rightarrow> intent_record" where
  "updated_record now u r = r\<lparr>
     ir_intent_name := (case up_intent_name u of None \<Rightarrow> ir_intent_name r | v \<Rightarrow> v),
     ir_service_id := or_keep (up_service_id u) (ir_service_id r),
     ir_owner_service := (case up_owner_service u of None \<Rightarrow> ir_owner_service r | v \<Rightarrow> v),
     ir_owner_client_id := (case up_owner_client_id u of None \<Rightarrow> ir_owner_client_id r | v \<Rightarrow> v),
     ir_version := or_keep (up_version u) (ir_version r),
     ir_privacy_class := or_keep (up_privacy_class u) (ir_privacy_class r),
     ir_access_scope := or_keep (up_access_scope u) (ir_access_scope r),
     ir_definition := or_keep (up_definition u) (ir_definition r),
     ir_constraints := or_keep (up_constraints u) (ir_constraints r),
     ir_metadata := or_keep (up_metadata u) (ir_metadata r),
     ir_updated_at := now\<rparr>"

text \<open>The checked copy is thrown away; the record that is stored is normalised when it is saved.\<close>

definition update_intent ::
    "(pv \<Rightarrow> string) \<Rightarrow> string \<Rightarrow> string \<Rightarrow> intent_update \<Rightarrow> intent_registry \<Rightarrow> unit registry_result" where
  "update_intent rp now intent_id u rg =
     (case find_intent intent_id rg of
        None \<Rightarrow> (Inl Intent_id_not_registered, rg)
      | Some r \<Rightarrow>
          let replacement = updated_record now u r in
          (case model_validate replacement of
             Inl e \<Rightarrow> (Inl e, rg)
           | Inr _ \<Rightarrow>
               save_registry now (replace_intent (intent_record_with_speaker_identity_policy rp replacement) rg)))"

text \<open>\<open>list(x or [])\<close> and \<open>int(x or 0)\<close>; an integer in a text may have blanks around it and a sign.\<close>

fun py_list :: "pv \<Rightarrow> pv list option" where
  "py_list (PList xs) = Some xs"
| "py_list (PDict d) = Some (map (PStr \<circ> fst) d)"
| "py_list (PStr s) = Some (map (\<lambda>c. PStr [c]) s)"
| "py_list _ = None"

definition text_int :: "string \<Rightarrow> int option" where
  "text_int s = (case strip s of
     [] \<Rightarrow> None
   | c # r \<Rightarrow>
       if c = CHR ''-'' then (if r = [] then None else map_option (\<lambda>n. - int n) (undec_from 0 r))
       else if c = CHR ''+'' then (if r = [] then None else map_option int (undec_from 0 r))
       else map_option int (undec_from 0 (c # r)))"

fun py_int :: "pv \<Rightarrow> int option" where
  "py_int (PInt i) = Some i"
| "py_int (PBool b) = Some (if b then 1 else 0)"
| "py_int (PFloat r) = Some (py_trunc r)"
| "py_int (PStr s) = text_int s"
| "py_int _ = None"

definition newest :: "nat \<Rightarrow> 'a list \<Rightarrow> 'a list" where
  "newest n xs = drop (length xs - n) xs"

definition transition_intent ::
    "string \<Rightarrow> string \<Rightarrow> string \<Rightarrow> string option \<Rightarrow> intent_registry \<Rightarrow> unit registry_result" where
  "transition_intent now intent_id status reason rg =
     (case find_intent intent_id rg of
        None \<Rightarrow> (Inl Intent_id_not_registered, rg)
      | Some r \<Rightarrow>
          let status' = lower (strip status) in
          if status' \<notin> set KNOWN_INTENT_STATES then (Inl (Unsupported_intent_status status'), rg)
          else case py_list (py_or (dget (ir_metadata r) ''lifecycle_transitions'') (PList [])) of
            None \<Rightarrow> (Inl Invalid_record, rg)
          | Some transitions \<Rightarrow>
              let entry = PDict [(''status'', PStr status'), (''reason'', ostr reason), (''changed_at'', PStr now)];
                  metadata = aput ''lifecycle_transitions'' (PList (newest 20 (transitions @ [entry]))) (ir_metadata r)
              in save_registry now (replace_intent
                   (r\<lparr>ir_status := status', ir_metadata := metadata, ir_updated_at := now\<rparr>) rg))"

definition review_intent ::
    "string \<Rightarrow> string \<Rightarrow> string option \<Rightarrow> string option \<Rightarrow> string option \<Rightarrow> intent_registry \<Rightarrow> unit registry_result" where
  "review_intent now intent_id reviewed_by review_reason status rg =
     (case find_intent intent_id rg of
        None \<Rightarrow> (Inl Intent_id_not_registered, rg)
      | Some r \<Rightarrow>
          let entry = [(''reviewed_by'', ostr reviewed_by), (''review_reason'', ostr review_reason),
                (''status'', ostr status), (''reviewed_at'', PStr now)];
              reviewed = r\<lparr>ir_reviews := newest 20 (ir_reviews r @ [entry]), ir_updated_at := now\<rparr>;
              status' = lower (strip (str_or status []))
          in if str_or status [] = [] then save_registry now (replace_intent reviewed rg)
             else if status' \<notin> set KNOWN_INTENT_STATES then (Inl (Unsupported_intent_status status'), rg)
             else save_registry now (replace_intent (reviewed\<lparr>ir_status := status'\<rparr>) rg))"

definition usage_after :: "string \<Rightarrow> string \<Rightarrow> string option \<Rightarrow> int \<Rightarrow> dict \<Rightarrow> dict" where
  "usage_after now status reason n usage =
     (let u = aput ''last_matched_at'' (PStr now) (aput ''last_match_status'' (PStr status)
            (aput ''match_count'' (PInt (max n 0 + 1)) usage))
      in if str_or reason [] = [] then u else aput ''last_reason'' (ostr reason) u)"

definition record_usage ::
    "string \<Rightarrow> string \<Rightarrow> string \<Rightarrow> string option \<Rightarrow> intent_registry \<Rightarrow> unit registry_result" where
  "record_usage now intent_id status reason rg =
     (case find_intent intent_id rg of
        None \<Rightarrow> (Inr (), rg)
      | Some r \<Rightarrow>
          (case py_int (py_or (dget (ir_usage r) ''match_count'') (PInt 0)) of
             None \<Rightarrow> (Inl Not_a_number, rg)
           | Some n \<Rightarrow> save_registry now (replace_intent
               (r\<lparr>ir_usage := usage_after now status reason n (ir_usage r), ir_updated_at := now\<rparr>) rg)))"

section \<open>Checked records\<close>

lemma hd_dropWhile_is: "dropWhile P xs \<noteq> [] \<Longrightarrow> \<not> P (hd (dropWhile P xs))"
  by (rule hd_dropWhile)

lemma dropWhile_edge: "dropWhile P xs = xs \<longleftrightarrow> xs = [] \<or> \<not> P (hd xs)"
  by (cases xs) (auto dest: arg_cong [where f = length] simp: length_dropWhile_le le_imp_less_Suc
      order.strict_implies_not_eq)

lemma strip_edges: "strip s = [] \<or> \<not> is_space (hd (strip s)) \<and> \<not> is_space (last (strip s))"
proof -
  let ?a = "dropWhile is_space s" and ?b = "dropWhile is_space (rev (dropWhile is_space s))"
  have "\<not> is_space (last (strip s))" if "strip s \<noteq> []"
    using that hd_dropWhile [of is_space "rev ?a"] by (simp add: strip_def last_rev)
  moreover have "\<not> is_space (hd (strip s))" if "strip s \<noteq> []"
  proof -
    obtain w where w: "rev ?a = w @ ?b" by (metis takeWhile_dropWhile_id)
    then have "?a = strip s @ rev w" unfolding strip_def by (metis rev_append rev_rev_ident)
    then have "hd (strip s) = hd ?a" "?a \<noteq> []" using that by auto
    then show ?thesis using hd_dropWhile [of is_space s] by simp
  qed
  ultimately show ?thesis by blast
qed

lemma strip_strip [simp]: "strip (strip s) = strip s"
proof (cases "strip s = []")
  case False
  with strip_edges [of s] have "dropWhile is_space (strip s) = strip s" "dropWhile is_space (rev (strip s)) = rev (strip s)"
    by (simp_all add: dropWhile_edge hd_rev)
  then show ?thesis by (simp add: strip_def)
next
  case True
  have "strip [] = []" by (simp add: strip_def)
  with True show ?thesis by simp
qed

lemma length_strip: "length (strip s) \<le> length s"
  unfolding strip_def by (metis length_dropWhile_le length_rev order.trans)

lemma sized_strip: "sized n s \<Longrightarrow> strip s \<noteq> [] \<Longrightarrow> sized n (strip s)"
  using length_strip [of s] by (cases "strip s") (auto simp: sized_def)

lemma known_normal: "s \<in> set KNOWN_INTENT_STATES \<Longrightarrow> lower s = s \<and> strip s = s \<and> s \<noteq> []"
  by (auto simp: KNOWN_INTENT_STATES_def lower_def lower_char_def strip_def is_space_def)

definition valid_record :: "intent_record \<Rightarrow> bool" where
  "valid_record r \<longleftrightarrow> model_validate r = Inr r"

lemma model_validate_valid: "model_validate r = Inr r' \<Longrightarrow> r' = normal_record r \<and> valid_record r'"
  using known_normal [of "lower (strip (ir_status r))"]
  by (auto simp: model_validate_def valid_record_def normal_record_def sized_strip split: if_splits)

lemma validate_all_valid: "validate_all rs = Inr rs' \<Longrightarrow> rs' = map normal_record rs \<and> list_all valid_record rs'"
  by (induction rs arbitrary: rs') (auto split: sum.splits dest: model_validate_valid)

lemma validate_all_id: "list_all valid_record rs \<Longrightarrow> validate_all rs = Inr rs"
  by (induction rs) (auto simp: valid_record_def)

lemma normal_record_id: "normal_record r = r \<longleftrightarrow>
    strip (ir_intent_id r) = ir_intent_id r \<and> strip (ir_service_id r) = ir_service_id r
    \<and> strip (ir_version r) = ir_version r \<and> lower (strip (ir_status r)) = ir_status r
    \<and> strip (ir_privacy_class r) = ir_privacy_class r \<and> strip (ir_access_scope r) = ir_access_scope r"
  by (cases r) (simp add: normal_record_def)

lemmas valid_record_iff = valid_record_def [unfolded model_validate_def]

lemma valid_record_eq: "valid_record r \<longleftrightarrow> normal_record r = r
    \<and> sized 120 (ir_intent_id r) \<and> opt_sized 160 (ir_intent_name r) \<and> sized 160 (ir_service_id r)
    \<and> opt_sized 160 (ir_owner_service r) \<and> opt_sized 160 (ir_owner_client_id r) \<and> sized 80 (ir_version r)
    \<and> ir_privacy_class r \<noteq> [] \<and> ir_access_scope r \<noteq> []
    \<and> ir_status r \<in> set KNOWN_INTENT_STATES \<and> validate_definition (ir_definition r)"
proof -
  have "sized n [] = False" for n by (simp add: sized_def)
  moreover have "lower (strip s) = s \<Longrightarrow> s \<in> set KNOWN_INTENT_STATES \<Longrightarrow> strip s \<noteq> []" for s
    by (auto simp: lower_def dest: known_normal)
  moreover have "strip [] = []" by (simp add: strip_def)
  ultimately show ?thesis unfolding valid_record_iff normal_record_id by (auto simp: normal_record_id)
qed

lemma valid_record_fields [simp]:
  "valid_record (r\<lparr>ir_metadata := m\<rparr>) = valid_record r" "valid_record (r\<lparr>ir_reviews := v\<rparr>) = valid_record r"
  "valid_record (r\<lparr>ir_usage := u\<rparr>) = valid_record r" "valid_record (r\<lparr>ir_updated_at := t\<rparr>) = valid_record r"
  by (simp_all add: valid_record_eq normal_record_id)

lemma valid_record_status: "valid_record r \<Longrightarrow> s \<in> set KNOWN_INTENT_STATES \<Longrightarrow> valid_record (r\<lparr>ir_status := s\<rparr>)"
  by (simp add: valid_record_eq normal_record_id known_normal)

section \<open>Policies\<close>

lemma policy_normal: "p \<in> set SPEAKER_IDENTITY_POLICIES \<Longrightarrow> lower (strip p) = p \<and> strip p \<noteq> []"
proof -
  have "list_all (\<lambda>p. lower (strip p) = p \<and> strip p \<noteq> []) SPEAKER_IDENTITY_POLICIES" by code_simp
  then show "p \<in> set SPEAKER_IDENTITY_POLICIES \<Longrightarrow> ?thesis" by (simp add: list_all_iff)
qed

lemma normalize_policy_known: "normalize_intent_speaker_policy v \<in> set SPEAKER_IDENTITY_POLICIES"
  by (simp add: normalize_intent_speaker_policy_def Let_def) (simp add: SPEAKER_IDENTITY_POLICIES_def)

lemma policy_entry_known: "policy_entry c k = Some p \<Longrightarrow> p \<in> set SPEAKER_IDENTITY_POLICIES"
  using normalize_policy_known by (auto simp: policy_entry_def split: pv.splits if_splits)

lemma first_some_in: "first_some xs = Some x \<Longrightarrow> Some x \<in> set xs"
  by (induction xs rule: first_some.induct) auto

lemma explicit_policy_known:
  "explicit_speaker_identity_policy r = Some p \<Longrightarrow> p \<in> set SPEAKER_IDENTITY_POLICIES"
proof -
  assume "explicit_speaker_identity_policy r = Some p"
  then obtain c k where "policy_entry c k = Some p"
    unfolding explicit_speaker_identity_policy_def by (auto dest!: first_some_in)
  then show ?thesis by (rule policy_entry_known)
qed

lemma resolved_policy_known: "resolve_intent_speaker_identity_policy rp r \<in> set SPEAKER_IDENTITY_POLICIES"
  by (auto simp: resolve_intent_speaker_identity_policy_def Let_def dest: explicit_policy_known split: option.splits)
    (simp_all add: SPEAKER_IDENTITY_POLICIES_def)

text \<open>\<open>declares r p\<close>: the metadata of the record name its policy.\<close>

definition declares :: "intent_record \<Rightarrow> string \<Rightarrow> bool" where
  "declares r p \<longleftrightarrow> p \<in> set SPEAKER_IDENTITY_POLICIES \<and> dget (ir_metadata r) ''speaker_identity_policy'' = PStr p"

lemma declares_explicit: "declares r p \<Longrightarrow> explicit_speaker_identity_policy r = Some p"
  using policy_normal [of p]
  by (auto simp: declares_def explicit_speaker_identity_policy_def POLICY_KEYS_def policy_entry_def
      normalize_intent_speaker_policy_def)

lemma declares_resolve: "declares r p \<Longrightarrow> resolve_intent_speaker_identity_policy rp r = p"
  by (simp add: resolve_intent_speaker_identity_policy_def declares_explicit)

lemma with_policy_declares:
  "declares (intent_record_with_speaker_identity_policy rp r) (resolve_intent_speaker_identity_policy rp r)"
  by (simp add: declares_def intent_record_with_speaker_identity_policy_def resolved_policy_known)

lemma with_policy_stable: "declares r p \<Longrightarrow> dget (ir_metadata (intent_record_with_speaker_identity_policy rp r)) ''speaker_identity_policy'' = PStr p"
  by (simp add: declares_resolve intent_record_with_speaker_identity_policy_def)

lemma aput_same: "aget d k = Some v \<Longrightarrow> aput k v d = d"
  by (induction k v d rule: aput.induct) auto

lemma with_policy_id: "declares r p \<Longrightarrow> intent_record_with_speaker_identity_policy rp r = r"
proof -
  assume d: "declares r p"
  then have "aget (ir_metadata r) ''speaker_identity_policy'' = Some (PStr p)"
    by (auto simp: declares_def dget_def split: option.splits)
  then show ?thesis
    by (simp add: intent_record_with_speaker_identity_policy_def declares_resolve [OF d] aput_same)
qed

section \<open>The invariant of the registry\<close>

definition intents_settled :: "intent_record list \<Rightarrow> bool" where
  "intents_settled rs \<longleftrightarrow> distinct (map ir_intent_id rs) \<and> list_all (\<lambda>r. valid_record r \<and> (\<exists>p. declares r p)) rs"

definition intents_ok :: "intent_registry \<Rightarrow> bool" where
  "intents_ok rg \<longleftrightarrow> intents_settled (is_intents (rg_state rg)) \<and> rg_file rg = Some (rg_state rg)"

text \<open>Records a save will accept without changing their ids or policies.\<close>

definition acceptable :: "intent_record \<Rightarrow> bool" where
  "acceptable r \<longleftrightarrow> model_validate r = Inr (normal_record r) \<and> strip (ir_intent_id r) = ir_intent_id r \<and> (\<exists>p. declares r p)"

lemma valid_acceptable: "valid_record r \<Longrightarrow> declares r p \<Longrightarrow> acceptable r"
  unfolding acceptable_def
  by (metis model_validate_valid normal_record_id valid_record_def)

lemma normal_declares [simp]: "declares (normal_record r) = declares r"
  by (simp add: declares_def normal_record_def fun_eq_iff)

lemma validate_all_acceptable: "list_all acceptable rs \<Longrightarrow> validate_all rs = Inr (map normal_record rs)"
  by (induction rs) (auto simp: acceptable_def)

lemma acceptable_settled:
  assumes "distinct (map ir_intent_id rs)" "list_all acceptable rs"
  shows "intents_settled (map normal_record rs)"
proof -
  have "ir_intent_id (normal_record r) = ir_intent_id r" if "r \<in> set rs" for r
    using assms(2) that by (auto simp: list_all_iff acceptable_def normal_record_def)
  then have "map ir_intent_id (map normal_record rs) = map ir_intent_id rs" by simp
  moreover have "list_all (\<lambda>r. valid_record r \<and> (\<exists>p. declares r p)) (map normal_record rs)"
    using assms(2) by (auto simp: list_all_iff acceptable_def dest: model_validate_valid)
  ultimately show ?thesis using assms(1) unfolding intents_settled_def by metis
qed

lemma save_registry_ok:
  assumes "distinct (map ir_intent_id (is_intents (rg_state rg)))" "list_all acceptable (is_intents (rg_state rg))"
  shows "fst (save_registry now rg) = Inr ()" "intents_ok (snd (save_registry now rg))"
    "is_intents (rg_state (snd (save_registry now rg))) = map normal_record (is_intents (rg_state rg))"
  using acceptable_settled [OF assms] validate_all_acceptable [OF assms(2)]
  by (simp_all add: save_registry_def intents_ok_def store_save_def Let_def)

lemma settled_acceptable: "intents_settled rs \<Longrightarrow> list_all acceptable rs"
  by (auto simp: intents_settled_def list_all_iff intro: valid_acceptable)

lemma find_intent_Some: "find_intent i rg = Some r \<Longrightarrow> r \<in> set (is_intents (rg_state rg)) \<and> ir_intent_id r = strip i"
  by (auto simp: find_intent_def find_Some_iff)

lemma save_replacement:
  assumes "intents_ok rg" "acceptable n" "r \<in> set (is_intents (rg_state rg))" "ir_intent_id n = ir_intent_id r"
  shows "fst (save_registry now (replace_intent n rg)) = Inr ()"
    "intents_ok (snd (save_registry now (replace_intent n rg)))"
    "is_intents (rg_state (snd (save_registry now (replace_intent n rg)))) =
       map (\<lambda>q. if ir_intent_id q = ir_intent_id n then normal_record n else q) (is_intents (rg_state rg))"
proof -
  let ?rs = "is_intents (rg_state rg)" and ?rs' = "is_intents (rg_state (replace_intent n rg))"
  have s: "intents_settled ?rs" using assms(1) by (simp add: intents_ok_def)
  have rs': "?rs' = map (\<lambda>q. if ir_intent_id q = ir_intent_id n then n else q) ?rs"
    by (simp add: replace_intent_def)
  then have "map ir_intent_id ?rs' = map ir_intent_id ?rs" by auto
  then have d: "distinct (map ir_intent_id ?rs')" using s by (simp add: intents_settled_def)
  have a: "list_all acceptable ?rs'"
    using settled_acceptable [OF s] assms(2) by (auto simp: rs' list_all_iff)
  note save_registry_ok [OF d a, of now]
  moreover have "normal_record q = q" if "q \<in> set ?rs" for q
    using s that by (auto simp: intents_settled_def list_all_iff valid_record_eq)
  ultimately show "fst (save_registry now (replace_intent n rg)) = Inr ()"
    "intents_ok (snd (save_registry now (replace_intent n rg)))"
    "is_intents (rg_state (snd (save_registry now (replace_intent n rg)))) =
       map (\<lambda>q. if ir_intent_id q = ir_intent_id n then normal_record n else q) ?rs"
    by (simp_all add: rs')
qed

end
