(* ===== verification/BuiltinChecks.thy ===== *)
theory BuiltinChecks
  imports IntentRegistry
begin

text \<open>
  Every built-in intent passes the checks of its record, so that creating or seeding the store cannot fail.
\<close>

section \<open>Records\<close>

lemmas built_in_defs =
  built_in_timer_intent_def built_in_timer_new_intent_def built_in_timer_status_intent_def
  built_in_timer_control_intent_def built_in_timer_adjust_time_intent_def built_in_timer_snooze_intent_def
  built_in_time_query_intent_def built_in_date_query_intent_def built_in_test_followup_intent_def
  built_in_confirmation_intent_def built_in_endpoint_control_intent_def built_in_admin_maintenance_intent_def

lemmas built_in_definition_defs =
  timer_intent_definition_def timer_status_intent_definition_def timer_control_intent_definition_def
  timer_adjust_time_intent_definition_def timer_snooze_intent_definition_def time_query_intent_definition_def
  date_query_intent_definition_def test_followup_intent_definition_def confirmation_intent_definition_def
  endpoint_control_intent_definition_def admin_maintenance_intent_definition_def

definition record_check :: "intent_record \<Rightarrow> bool" where
  "record_check r \<longleftrightarrow>
     list_all (\<lambda>s. strip s = s \<and> s \<noteq> []) [ir_intent_id r, ir_service_id r, ir_version r, ir_privacy_class r, ir_access_scope r]
     \<and> length (ir_intent_id r) \<le> 120 \<and> opt_sized 160 (ir_intent_name r) \<and> length (ir_service_id r) \<le> 160
     \<and> opt_sized 160 (ir_owner_service r) \<and> opt_sized 160 (ir_owner_client_id r) \<and> length (ir_version r) \<le> 80
     \<and> ir_status r \<in> set KNOWN_INTENT_STATES \<and> validate_definition (ir_definition r)"

lemma record_check: "record_check r \<Longrightarrow> valid_record r"
  by (auto simp: record_check_def valid_record_eq normal_record_id known_normal sized_def Suc_le_eq)

lemma strip_hd [simp]: "\<not> is_space c \<Longrightarrow> strip (c # s) \<noteq> []"
  by (simp add: strip_def dropWhile_append)

lemmas definition_checks = validate_definition_def none_or_def dget_def extraction_ok_def section_ok_def conversation_ok_def

lemma fixed_definitions_ok:
  "validate_definition timer_intent_definition" "validate_definition timer_status_intent_definition"
  "validate_definition timer_adjust_time_intent_definition"
  "validate_definition timer_snooze_intent_definition" "validate_definition time_query_intent_definition"
  "validate_definition date_query_intent_definition" "validate_definition test_followup_intent_definition"
  "validate_definition (ir_definition (built_in_timer_new_intent now))"
  by code_simp+

lemma spoken_definitions_ok:
  "validate_definition (timer_control_intent_definition action)" 
  "validate_definition (confirmation_intent_definition response)"
  by (simp_all add: timer_control_intent_definition_def confirmation_intent_definition_def split_def Let_def definition_checks is_space_def)

lemma admin_definition_ok:
  "validate_definition (admin_maintenance_intent_definition intent_id example reply)"
  by (simp add: admin_maintenance_intent_definition_def Let_def definition_checks is_space_def)

lemma endpoint_definition_ok:
  "validate_definition (endpoint_control_intent_definition intent_id config)"
  by (simp add: endpoint_control_intent_definition_def Let_def definition_checks is_space_def)
definition built_in_texts :: "string list" where
  "built_in_texts = [''voice.local_intents'', ''v1'', ''internal'', ''service'', ''admin_maintenance'', ''admin'',
     ''timer.create'', ''timer.new'', ''timer.status'', ''timer.stop'', ''timer.cancel'',
     ''timer.adjust_time'', ''timer.snooze'', ''voice.time.query'', ''voice.date.query'',
     ''voice.debug.followup'', ''voice.confirm.yes'', ''voice.confirm.no'']
    @ BUILT_IN_ENDPOINT_CONTROL_INTENT_IDS @ ADMIN_MAINTENANCE_INTENT_IDS"

lemma built_in_texts_ok: "list_all (\<lambda>s. strip s = s \<and> s \<noteq> [] \<and> length s \<le> 80) built_in_texts"
  by code_simp

lemmas built_in_definitions_ok =
  fixed_definitions_ok spoken_definitions_ok admin_definition_ok endpoint_definition_ok

text \<open>What a record needs of its texts; the ids and the shared texts are looked up in one list.\<close>

lemma record_check_texts:
  assumes "{ir_intent_id r, ir_service_id r, ir_version r, ir_privacy_class r, ir_access_scope r} \<subseteq> set built_in_texts"
    and "ir_intent_name r = Some n" "length n \<le> 160" "ir_owner_service r = Some ''hexevoice''" "ir_owner_client_id r = None"
    and "ir_status r \<in> set [''active'', ''disabled'']" "validate_definition (ir_definition r)"
  shows "record_check r"
proof -
  have "strip s = s \<and> s \<noteq> [] \<and> length s \<le> 80" if "s \<in> set built_in_texts" for s
    using built_in_texts_ok that by (auto simp: list_all_iff)
  moreover have "ir_status r \<in> set KNOWN_INTENT_STATES" using assms(6) by (auto simp: KNOWN_INTENT_STATES_def)
  ultimately show ?thesis using assms by (fastforce simp: record_check_def opt_sized_def)
qed

lemma shared_texts:
  "{''voice.local_intents'', ''v1'', ''internal'', ''service'', ''admin_maintenance'', ''admin''} \<subseteq> set built_in_texts"
  by (simp add: built_in_texts_def)

lemma listed_ids: "i \<in> set BUILT_IN_ENDPOINT_CONTROL_INTENT_IDS \<or> i \<in> set ADMIN_MAINTENANCE_INTENT_IDS
    \<Longrightarrow> i \<in> set built_in_texts"
  by (simp only: built_in_texts_def set_append) blast

lemma own_texts:
  "{''timer.create'', ''timer.new'', ''timer.status'', ''timer.stop'', ''timer.cancel'', ''timer.adjust_time'',
    ''timer.snooze'', ''voice.time.query'', ''voice.date.query'', ''voice.debug.followup'', ''voice.confirm.yes'',
    ''voice.confirm.no''} \<subseteq> set built_in_texts"
  by (simp add: built_in_texts_def)

lemma fixed_intents_checked:
  "list_all record_check [built_in_timer_intent now, built_in_timer_new_intent now, built_in_timer_status_intent now,
     built_in_timer_control_intent ''stop'' now, built_in_timer_control_intent ''cancel'' now,
     built_in_timer_adjust_time_intent now, built_in_timer_snooze_intent now,
     built_in_time_query_intent now, built_in_date_query_intent now,
     built_in_test_followup_intent now, built_in_confirmation_intent ''yes'' now,
     built_in_confirmation_intent ''no'' now]"
proof -
  have t: "title ''stop'' = ''Stop''" "title ''cancel'' = ''Cancel''" by code_simp+
  have new: "validate_definition (ir_definition (built_in_timer_new_intent now))" by (rule built_in_definitions_ok)
  note facts = shared_texts own_texts t built_in_definitions_ok
  have "record_check (built_in_timer_new_intent now)"
    by (rule record_check_texts [where n = "''Start new timer interaction''", OF _ _ _ _ _ _ new]) (use shared_texts own_texts in \<open>simp_all add: built_in_timer_new_intent_def\<close>)
  moreover have "record_check (built_in_timer_intent now)"
    by (rule record_check_texts [where n = "''Create timer''"]) (use facts in \<open>simp_all add: built_in_timer_intent_def\<close>)
  moreover have "record_check (built_in_timer_status_intent now)"
    by (rule record_check_texts [where n = "''Timer status''"]) (use facts in \<open>simp_all add: built_in_timer_status_intent_def\<close>)
  moreover have "record_check (built_in_timer_control_intent ''stop'' now)"
    by (rule record_check_texts [where n = "''Stop timer''"]) (use facts in \<open>simp_all add: built_in_timer_control_intent_def\<close>)
  moreover have "record_check (built_in_timer_control_intent ''cancel'' now)"
    by (rule record_check_texts [where n = "''Cancel timer''"]) (use facts in \<open>simp_all add: built_in_timer_control_intent_def\<close>)
  moreover have "record_check (built_in_timer_adjust_time_intent now)"
    by (rule record_check_texts [where n = "''Adjust timer time''"]) (use facts in \<open>simp_all add: built_in_timer_adjust_time_intent_def\<close>)
  moreover have "record_check (built_in_timer_snooze_intent now)"
    by (rule record_check_texts [where n = "''Snooze timer''"]) (use facts in \<open>simp_all add: built_in_timer_snooze_intent_def\<close>)
  moreover have "record_check (built_in_time_query_intent now)"
    by (rule record_check_texts [where n = "''What is the time''"]) (use facts in \<open>simp_all add: built_in_time_query_intent_def\<close>)
  moreover have "record_check (built_in_date_query_intent now)"
    by (rule record_check_texts [where n = "''What is the date''"]) (use facts in \<open>simp_all add: built_in_date_query_intent_def\<close>)
  moreover have "record_check (built_in_test_followup_intent now)"
    by (rule record_check_texts [where n = "''Test follow-up''"]) (use facts in \<open>simp_all add: built_in_test_followup_intent_def\<close>)
  moreover have "record_check (built_in_confirmation_intent ''yes'' now)"
    by (rule record_check_texts [where n = "''Confirm yes''"]) (use facts in \<open>simp_all add: built_in_confirmation_intent_def Let_def\<close>)
  moreover have "record_check (built_in_confirmation_intent ''no'' now)"
    by (rule record_check_texts [where n = "''Confirm no''"]) (use facts in \<open>simp_all add: built_in_confirmation_intent_def Let_def\<close>)
  ultimately show ?thesis by simp
qed

lemma endpoint_intents_checked: "list_all record_check (endpoint_control_intents now)"
proof -
  have n: "list_all (\<lambda>(i, n). length n \<le> 160) endpoint_control_names" by code_simp
  have "record_check (built_in_endpoint_control_intent i c n now)"
    if "i \<in> set BUILT_IN_ENDPOINT_CONTROL_INTENT_IDS" "aget endpoint_control_names i = Some n" for i c n
  proof (rule record_check_texts [where n = n])
    show "length n \<le> 160" using n map_of_SomeD [OF that(2)] by (auto simp: list_all_iff)
  qed (use shared_texts listed_ids that(1) built_in_definitions_ok in \<open>simp_all add: built_in_endpoint_control_intent_def Let_def\<close>)
  then show ?thesis
    by (auto simp: list_all_iff endpoint_control_intents_def split: option.splits)
qed

lemma admin_intents_checked: "list_all record_check (admin_maintenance_intents now)"
proof -
  have n: "list_all (\<lambda>(i, n, e, r). length n \<le> 160) ADMIN_MAINTENANCE_INTENT_CONFIG" by code_simp
  have "record_check (built_in_admin_maintenance_intent i n e r now)"
    if "i \<in> set ADMIN_MAINTENANCE_INTENT_IDS" "aget ADMIN_MAINTENANCE_INTENT_CONFIG i = Some (n, e, r)" for i n e r
  proof (rule record_check_texts [where n = n])
    show "length n \<le> 160" using n map_of_SomeD [OF that(2)] by (auto simp: list_all_iff)
  qed (use shared_texts listed_ids that(1) built_in_definitions_ok in \<open>simp_all add: built_in_admin_maintenance_intent_def\<close>)
  then show ?thesis
    by (auto simp: list_all_iff admin_maintenance_intents_def split: option.splits)
qed

lemma built_in_valid: "list_all valid_record (built_in_intents now)"
  using fixed_intents_checked endpoint_intents_checked admin_intents_checked
  by (auto simp: built_in_intents_def list_all_iff intro: record_check)

end
