(* ===== verification/RegistryRuns.thy ===== *)
theory RegistryRuns
  imports BuiltinChecks
begin

text \<open>
  What the intent registry guarantees over all its runs: the invariant of the reachable
  registries, restarts included, and the abstract view of a registry as a map from ids to statuses.
\<close>

section \<open>Opening the store\<close>

lemma unchanged_in_zip: "\<not> list_ex (\<lambda>(n, r). f n \<noteq> f r) (zip (map w rs) rs) \<Longrightarrow> \<forall>r \<in> set rs. f (w r) = f r"
  by (induction rs) auto

lemma normalized_policies:
  "intents_settled (is_intents (snd (normalize_speaker_identity_policies rp st)))"
  "map ir_intent_id (is_intents (snd (normalize_speaker_identity_policies rp st))) = map ir_intent_id (is_intents st)"
  if "distinct (map ir_intent_id (is_intents st))" "list_all valid_record (is_intents st)"
proof -
  let ?w = "intent_record_with_speaker_identity_policy rp" and ?rs = "is_intents st"
  have w: "ir_intent_id (?w r) = ir_intent_id r" "valid_record (?w r) = valid_record r" for r
    by (simp_all add: intent_record_with_speaker_identity_policy_def)
  have same: "?w r = r" if "ir_metadata (?w r) = ir_metadata r" for r
    using that by (cases r) (simp add: intent_record_with_speaker_identity_policy_def)
  have "is_intents (snd (normalize_speaker_identity_policies rp st)) = map ?w ?rs"
  proof (cases "list_ex (\<lambda>(n, r). ir_metadata n \<noteq> ir_metadata r) (zip (map ?w ?rs) ?rs)")
    case False
    from unchanged_in_zip [OF this] have "map ?w ?rs = ?rs" using same by (simp add: map_idI)
    then show ?thesis by (simp add: normalize_speaker_identity_policies_def Let_def)
  qed (simp add: normalize_speaker_identity_policies_def Let_def)
  then show "intents_settled (is_intents (snd (normalize_speaker_identity_policies rp st)))"
    "map ir_intent_id (is_intents (snd (normalize_speaker_identity_policies rp st))) = map ir_intent_id ?rs"
    using that with_policy_declares by (auto simp: intents_settled_def w list_all_iff comp_def)
qed

lemma open_fresh: "\<exists>rg. open_registry rp now None = Inr rg \<and> intents_ok rg
    \<and> map ir_intent_id (is_intents (rg_state rg)) = map ir_intent_id (built_in_intents now)"
  using normalized_policies [of "\<lparr>is_schema_version = VOICE_INTENT_SCHEMA_VERSION,
      is_intents = built_in_intents now, is_updated_at = Some now\<rparr>" rp] built_in_ids_distinct built_in_valid
  by (simp add: open_registry_def load_or_create_def validate_all_id intents_ok_def store_save_def Let_def)

lemma seeded_intents:
  assumes "distinct (map ir_intent_id (is_intents st))" "list_all valid_record (is_intents st)"
  shows "distinct (map ir_intent_id (is_intents (snd (seed_builtin_intents now st))))"
    "list_all valid_record (is_intents (snd (seed_builtin_intents now st)))"
proof -
  have "distinct (map ir_intent_id (filter P (built_in_intents now)))" for P
    using built_in_ids_distinct by (rule distinct_map_filter)
  then show "distinct (map ir_intent_id (is_intents (snd (seed_builtin_intents now st))))"
    using assms(1) by (auto simp: seed_builtin_intents_def Let_def) (metis image_eqI)
  show "list_all valid_record (is_intents (snd (seed_builtin_intents now st)))"
    using assms(2) built_in_valid by (auto simp: seed_builtin_intents_def Let_def list_all_iff)
qed

lemma unchanged_when_loaded:
  "seed_builtin_intents now st = (False, st') \<Longrightarrow> st' = st"
  "normalize_speaker_identity_policies rp st = (False, st') \<Longrightarrow> st' = st"
  by (auto simp: seed_builtin_intents_def normalize_speaker_identity_policies_def Let_def split: if_splits)

lemma open_settled:
  assumes "intents_settled (is_intents payload)"
  shows "\<exists>rg. open_registry rp now (Some payload) = Inr rg \<and> intents_ok rg"
proof -
  have v: "distinct (map ir_intent_id (is_intents payload))" "list_all valid_record (is_intents payload)"
    using assms by (auto simp: intents_settled_def list_all_iff)
  note s = seeded_intents [OF v, of now]
  obtain b st where st: "seed_builtin_intents now payload = (b, st)" by force
  obtain c u where u: "normalize_speaker_identity_policies rp st = (c, u)" by force
  have settled: "intents_settled (is_intents u)" using normalized_policies(1) [of st rp] s st u by simp
  show ?thesis
  proof (cases "b \<or> c")
    case True
    with settled show ?thesis
      by (simp add: open_registry_def load_or_create_def validate_all_id v st u intents_ok_def store_save_def)
  next
    case False
    then have "u = payload" using unchanged_when_loaded(1) [of now payload st] unchanged_when_loaded(2) [of rp st u] st u by simp
    with False settled show ?thesis
      by (simp add: open_registry_def load_or_create_def validate_all_id v st u intents_ok_def)
  qed
qed

section \<open>Calls\<close>

datatype registry_call =
    Register intent_record
  | Update string intent_update
  | Transition string string "string option"
  | Review string "string option" "string option" "string option"
  | Usage string string "string option"

fun run_call :: "(pv \<Rightarrow> string) \<Rightarrow> string \<Rightarrow> registry_call \<Rightarrow> intent_registry \<Rightarrow> unit registry_result" where
  "run_call rp now (Register args) rg = register_intent rp now args rg"
| "run_call rp now (Update i u) rg = update_intent rp now i u rg"
| "run_call rp now (Transition i status reason) rg = transition_intent now i status reason rg"
| "run_call rp now (Review i by why status) rg = review_intent now i by why status rg"
| "run_call rp now (Usage i status reason) rg = record_usage now i status reason rg"

lemma settled_find:
  "intents_ok rg \<Longrightarrow> find_intent i rg = Some r \<Longrightarrow>
   r \<in> set (is_intents (rg_state rg)) \<and> ir_intent_id r = strip i \<and> valid_record r \<and> (\<exists>p. declares r p)"
  using find_intent_Some [of i rg r] by (auto simp: intents_ok_def intents_settled_def list_all_iff)

text \<open>What a change of one record leaves behind when the new record is acceptable.\<close>

definition changed_to :: "intent_record \<Rightarrow> intent_registry \<Rightarrow> unit registry_result \<Rightarrow> bool" where
  "changed_to n rg res \<longleftrightarrow> fst res = Inr () \<and> intents_ok (snd res)
     \<and> is_intents (rg_state (snd res)) =
         map (\<lambda>q. if ir_intent_id q = ir_intent_id n then normal_record n else q) (is_intents (rg_state rg))"

lemma save_changed:
  assumes "intents_ok rg" "find_intent i rg = Some r" "acceptable n" "ir_intent_id n = ir_intent_id r"
  shows "changed_to n rg (save_registry now (replace_intent n rg))"
  using save_replacement [OF assms(1,3) _ assms(4)] settled_find [OF assms(1,2)] by (simp add: changed_to_def)

lemma acceptable_update:
  assumes "valid_record r" "model_validate (updated_record now u r) = Inr v"
  shows "acceptable (intent_record_with_speaker_identity_policy rp (updated_record now u r))"
proof -
  let ?n = "updated_record now u r" and ?w = "intent_record_with_speaker_identity_policy rp (updated_record now u r)"
  have "model_validate ?w = Inr (normal_record ?w)"
    using assms(2) by (auto simp: model_validate_def intent_record_with_speaker_identity_policy_def split: if_splits)
  moreover have "strip (ir_intent_id ?w) = ir_intent_id ?w"
    using assms(1) by (simp add: intent_record_with_speaker_identity_policy_def updated_record_def valid_record_eq normal_record_id)
  ultimately show ?thesis using with_policy_declares acceptable_def by blast
qed

lemma update_intent_ok:
  assumes "intents_ok rg"
  shows "(\<exists>e. update_intent rp now i u rg = (Inl e, rg)) \<or>
    (\<exists>r. find_intent i rg = Some r \<and> changed_to (intent_record_with_speaker_identity_policy rp (updated_record now u r)) rg
       (update_intent rp now i u rg))"
proof (cases "find_intent i rg")
  case (Some r)
  show ?thesis
  proof (cases "model_validate (updated_record now u r)")
    case (Inr v)
    have "valid_record r" using settled_find [OF assms Some] by simp
    note a = acceptable_update [OF this Inr, of rp]
    have "ir_intent_id (intent_record_with_speaker_identity_policy rp (updated_record now u r)) = ir_intent_id r"
      by (simp add: intent_record_with_speaker_identity_policy_def updated_record_def)
    from save_changed [OF assms Some a this] show ?thesis using Some Inr by (simp add: update_intent_def)
  qed (simp add: update_intent_def Some)
qed (simp add: update_intent_def)

lemma transition_intent_ok:
  assumes "intents_ok rg"
  shows "(\<exists>e. transition_intent now i status reason rg = (Inl e, rg)) \<or>
    (\<exists>r m. find_intent i rg = Some r \<and> lower (strip status) \<in> set KNOWN_INTENT_STATES \<and>
       changed_to (r\<lparr>ir_status := lower (strip status), ir_metadata := m, ir_updated_at := now\<rparr>) rg
         (transition_intent now i status reason rg))"
proof (cases "find_intent i rg")
  case (Some r)
  then obtain p where r: "valid_record r" "declares r p" using settled_find [OF assms] by blast
  show ?thesis
  proof (cases "lower (strip status) \<in> set KNOWN_INTENT_STATES")
    case True
    show ?thesis
    proof (cases "py_list (py_or (dget (ir_metadata r) ''lifecycle_transitions'') (PList []))")
      case None
      then show ?thesis using Some True by (simp add: transition_intent_def)
    next
      case (Some ts)
      let ?m = "aput ''lifecycle_transitions'' (PList (newest 20 (ts @ [PDict [(''status'', PStr (lower (strip status))),
        (''reason'', ostr reason), (''changed_at'', PStr now)]]))) (ir_metadata r)"
      let ?n = "r\<lparr>ir_status := lower (strip status), ir_metadata := ?m, ir_updated_at := now\<rparr>"
      have "valid_record ?n" using valid_record_status [OF r(1) True] by (simp add: valid_record_eq normal_record_id)
      moreover have "declares ?n p" using r(2) by (simp add: declares_def)
      ultimately have "acceptable ?n" by (rule valid_acceptable)
      from save_changed [OF assms \<open>find_intent i rg = Some r\<close> this, of now] show ?thesis
        using Some True \<open>find_intent i rg = Some r\<close> by (auto simp: transition_intent_def Let_def)
    qed
  qed (simp add: transition_intent_def Some)
qed (simp add: transition_intent_def)

lemma review_intent_ok:
  assumes "intents_ok rg"
  shows "(\<exists>e. review_intent now i by_whom why status rg = (Inl e, rg)) \<or>
    (\<exists>r n. find_intent i rg = Some r \<and> ir_intent_id n = ir_intent_id r \<and> ir_metadata n = ir_metadata r
       \<and> ir_status n = (if str_or status [] = [] then ir_status r else lower (strip (str_or status [])))
       \<and> ir_status n \<in> set KNOWN_INTENT_STATES
       \<and> changed_to n rg (review_intent now i by_whom why status rg))"
proof (cases "find_intent i rg")
  case (Some r)
  then obtain p where r: "valid_record r" "declares r p" using settled_find [OF assms] by blast
  let ?e = "[(''reviewed_by'', ostr by_whom), (''review_reason'', ostr why), (''status'', ostr status), (''reviewed_at'', PStr now)]"
  let ?n = "r\<lparr>ir_reviews := newest 20 (ir_reviews r @ [?e]), ir_updated_at := now\<rparr>"
  let ?s = "lower (strip (str_or status []))"
  show ?thesis
  proof (cases "str_or status [] = []")
    case True
    have "acceptable ?n" using r by (intro valid_acceptable [where p = p]) (simp_all add: declares_def)
    from save_changed [OF assms Some this, of now] show ?thesis
      using True Some r(1) by (auto simp: review_intent_def Let_def valid_record_eq)
  next
    case False
    show ?thesis
    proof (cases "?s \<in> set KNOWN_INTENT_STATES")
      case known: True
      have "valid_record (?n\<lparr>ir_status := ?s\<rparr>)" using r known by (intro valid_record_status) simp_all
      moreover have "declares (?n\<lparr>ir_status := ?s\<rparr>) p" using r(2) by (simp add: declares_def)
      ultimately have "acceptable (?n\<lparr>ir_status := ?s\<rparr>)" by (rule valid_acceptable)
      from save_changed [OF assms Some this, of now] show ?thesis
        using False Some known by (auto simp: review_intent_def Let_def)
    qed (use False Some in \<open>simp add: review_intent_def Let_def\<close>)
  qed
qed (simp add: review_intent_def)

lemma record_usage_ok:
  assumes "intents_ok rg"
  shows "(\<exists>e. record_usage now i status reason rg = (Inl e, rg)) \<or> record_usage now i status reason rg = (Inr (), rg) \<or>
    (\<exists>r u. find_intent i rg = Some r \<and> changed_to (r\<lparr>ir_usage := u, ir_updated_at := now\<rparr>) rg (record_usage now i status reason rg))"
proof (cases "find_intent i rg")
  case (Some r)
  then obtain p where r: "valid_record r" "declares r p" using settled_find [OF assms] by blast
  show ?thesis
  proof (cases "py_int (py_or (dget (ir_usage r) ''match_count'') (PInt 0))")
    case None
    then show ?thesis using \<open>find_intent i rg = Some r\<close> by (simp add: record_usage_def)
  next
    case (Some n)
    have "acceptable (r\<lparr>ir_usage := u, ir_updated_at := now\<rparr>)" for u
      using r by (intro valid_acceptable [where p = p]) (simp_all add: declares_def)
    from save_changed [OF assms \<open>find_intent i rg = Some r\<close> this, where now = now]
    show ?thesis using Some \<open>find_intent i rg = Some r\<close> by (auto simp: record_usage_def)
  qed
qed (simp add: record_usage_def)

lemma map_same_key: "(\<And>q. q \<in> set xs \<Longrightarrow> P q \<Longrightarrow> f n = f q) \<Longrightarrow> map f (map (\<lambda>q. if P q then n else q) xs) = map f xs"
  by (induction xs) auto

lemma register_intent_ok:
  assumes "intents_ok rg"
  shows "(\<exists>e. register_intent rp now args rg = (Inl e, rg)) \<or>
    fst (register_intent rp now args rg) = Inr () \<and> intents_ok (snd (register_intent rp now args rg)) \<and>
    (\<exists>n. ir_intent_id n = strip (ir_intent_id args) \<and> valid_record n \<and> ir_status n = lower (strip (strip (ir_status args)))
      \<and> is_intents (rg_state (snd (register_intent rp now args rg))) =
        (case find_intent (ir_intent_id args) rg of None \<Rightarrow> is_intents (rg_state rg) @ [n]
         | Some e \<Rightarrow> map (\<lambda>q. if ir_intent_id q = ir_intent_id args then n else q) (is_intents (rg_state rg))))"
proof -
  let ?rs = "is_intents (rg_state rg)" and ?found = "find_intent (ir_intent_id args) rg"
  let ?p = "args\<lparr>ir_version := (if ir_version args = [] then ''v1'' else ir_version args),
    ir_reviews := [], ir_usage := [], ir_created_at := now, ir_updated_at := now\<rparr>"
  have s: "intents_settled ?rs" using assms by (simp add: intents_ok_def)
  show ?thesis
  proof (cases "\<exists>e \<in> set_option ?found. ir_status e \<noteq> ''retired''")
    case True
    then show ?thesis by (simp add: register_intent_def)
  next
    case False
    note fresh = this
    show ?thesis
    proof (cases "model_validate ?p")
      case (Inl e)
      then show ?thesis using fresh by (simp add: register_intent_def Let_def)
    next
      case (Inr v)
      let ?n = "intent_record_with_speaker_identity_policy rp v"
      let ?rs' = "case ?found of None \<Rightarrow> ?rs @ [?n]
        | Some _ \<Rightarrow> map (\<lambda>q. if ir_intent_id q = ir_intent_id args then ?n else q) ?rs"
      have v: "v = normal_record ?p" "valid_record v" using model_validate_valid [OF Inr] by auto
      then have n: "ir_intent_id ?n = strip (ir_intent_id args)" "valid_record ?n" "acceptable ?n"
        "ir_status ?n = lower (strip (strip (ir_status args)))"
        using valid_acceptable [OF _ with_policy_declares, of rp v]
        by (simp_all add: intent_record_with_speaker_identity_policy_def normal_record_def)
      have ids: "strip (ir_intent_id q) = ir_intent_id q \<and> normal_record q = q" if "q \<in> set ?rs" for q
        using s that by (auto simp: intents_settled_def list_all_iff valid_record_eq normal_record_id)
      have "distinct (map ir_intent_id ?rs')"
      proof (cases ?found)
        case None
        then have "strip (ir_intent_id args) \<notin> set (map ir_intent_id ?rs)"
          by (auto simp: find_intent_def find_None_iff)
        then show ?thesis using None n s by (simp add: intents_settled_def)
      next
        case (Some e)
        have "map ir_intent_id (map (\<lambda>q. if ir_intent_id q = ir_intent_id args then ?n else q) ?rs) = map ir_intent_id ?rs"
          by (rule map_same_key) (use ids n(1) in \<open>metis\<close>)
        moreover have "distinct (map ir_intent_id ?rs)" using s by (simp add: intents_settled_def)
        ultimately show ?thesis unfolding Some option.case by (rule ssubst)
      qed
      moreover have "list_all acceptable ?rs'"
        using settled_acceptable [OF s] n(3) by (auto simp: list_all_iff split: option.splits)
      moreover have "map normal_record ?rs' = ?rs'"
        using ids n(2) by (auto simp: valid_record_eq split: option.splits intro!: map_idI)
      moreover have "register_intent rp now args rg = save_registry now (rg\<lparr>rg_state := (rg_state rg)\<lparr>is_intents := ?rs'\<rparr>\<rparr>)"
        using fresh Inr by (simp add: register_intent_def Let_def)
      ultimately show ?thesis
        using save_registry_ok [of "rg\<lparr>rg_state := (rg_state rg)\<lparr>is_intents := ?rs'\<rparr>\<rparr>" now] n by auto
    qed
  qed
qed

section \<open>Runs\<close>

lemma call_ok:
  assumes "intents_ok rg"
  shows "intents_ok (snd (run_call rp now call rg))"
    "fst (run_call rp now call rg) = Inl e \<Longrightarrow> snd (run_call rp now call rg) = rg"
proof -
  have "intents_ok (snd (run_call rp now call rg)) \<and> (\<forall>e. fst (run_call rp now call rg) = Inl e \<longrightarrow> snd (run_call rp now call rg) = rg)"
  proof (cases call)
    case (Register args)
    then show ?thesis using register_intent_ok [OF assms, of rp now args] assms by auto
  next
    case (Update i u)
    then show ?thesis using update_intent_ok [OF assms, of rp now i u] assms by (auto simp: changed_to_def)
  next
    case (Transition i s r)
    then show ?thesis using transition_intent_ok [OF assms, of now i s r] assms by (auto simp: changed_to_def)
  next
    case (Review i b w s)
    then show ?thesis using review_intent_ok [OF assms, of now i b w s] assms by (auto simp: changed_to_def)
  next
    case (Usage i s r)
    then show ?thesis using record_usage_ok [OF assms, of now i s r] assms by (auto simp: changed_to_def)
  qed
  then show "intents_ok (snd (run_call rp now call rg))"
    "fst (run_call rp now call rg) = Inl e \<Longrightarrow> snd (run_call rp now call rg) = rg" by auto
qed

inductive registry_reachable :: "(pv \<Rightarrow> string) \<Rightarrow> intent_registry \<Rightarrow> bool" for rp where
  first_start: "open_registry rp now None = Inr rg \<Longrightarrow> registry_reachable rp rg"
| called: "registry_reachable rp rg \<Longrightarrow> registry_reachable rp (snd (run_call rp now call rg))"
| restarted: "registry_reachable rp rg \<Longrightarrow> open_registry rp now (rg_file rg) = Inr rg' \<Longrightarrow> registry_reachable rp rg'"

lemma registry_reachable_ok: "registry_reachable rp rg \<Longrightarrow> intents_ok rg"
proof (induction rule: registry_reachable.induct)
  case (first_start now rg)
  then show ?case using open_fresh [of rp now] by auto
next
  case (called rg now call)
  then show ?case by (simp add: call_ok)
next
  case (restarted rg now rg')
  then have "intents_settled (is_intents (rg_state rg))" "rg_file rg = Some (rg_state rg)" by (auto simp: intents_ok_def)
  with open_settled [of "rg_state rg" rp now] restarted.hyps(2) show ?case by auto
qed

section \<open>The map of statuses\<close>

definition status_of :: "intent_registry \<Rightarrow> string \<Rightarrow> string option" where
  "status_of rg i = map_option ir_status (find (\<lambda>r. ir_intent_id r = i) (is_intents (rg_state rg)))"

text \<open>
  What each call does to the map when it succeeds. A retired id can be registered anew, but only under its own
  spelling: with blanks around it the call succeeds and changes nothing.
\<close>

definition set_status :: "string \<Rightarrow> string \<Rightarrow> (string \<Rightarrow> string option) \<Rightarrow> string \<Rightarrow> string option" where
  "set_status i s m = (\<lambda>j. if j = i then Some s else m j)"

fun status_step :: "registry_call \<Rightarrow> (string \<Rightarrow> string option) \<Rightarrow> string \<Rightarrow> string option" where
  "status_step (Register args) m =
     (if m (strip (ir_intent_id args)) = None \<or> strip (ir_intent_id args) = ir_intent_id args
      then set_status (strip (ir_intent_id args)) (lower (strip (ir_status args))) m else m)"
| "status_step (Update i u) m = m"
| "status_step (Transition i s reason) m = set_status (strip i) (lower (strip s)) m"
| "status_step (Review i by_whom why s) m =
     (if str_or s [] = [] then m else set_status (strip i) (lower (strip (str_or s []))) m)"
| "status_step (Usage i s reason) m = m"

lemma find_map_same: "(\<And>q. q \<in> set xs \<Longrightarrow> ir_intent_id (f q) = ir_intent_id q) \<Longrightarrow>
    find (\<lambda>r. ir_intent_id r = i) (map f xs) = map_option f (find (\<lambda>r. ir_intent_id r = i) xs)"
  by (induction xs) auto

lemma find_append: "find P (xs @ ys) = (case find P xs of None \<Rightarrow> find P ys | Some x \<Rightarrow> Some x)"
  by (induction xs) auto

lemma changed_status:
  assumes "intents_ok rg" "find_intent i rg = Some r" "ir_intent_id n = ir_intent_id r" "changed_to n rg res"
  shows "status_of (snd res) = (\<lambda>j. if j = strip i then Some (ir_status (normal_record n)) else status_of rg j)"
proof -
  let ?rs = "is_intents (rg_state rg)"
  have n: "ir_intent_id n = strip i" "strip (ir_intent_id n) = ir_intent_id n"
    using settled_find [OF assms(1,2)] assms(3) by (auto simp: valid_record_eq normal_record_id)
  have f: "find (\<lambda>r. ir_intent_id r = j) (map (\<lambda>q. if ir_intent_id q = ir_intent_id n then normal_record n else q) ?rs) =
     map_option (\<lambda>q. if ir_intent_id q = ir_intent_id n then normal_record n else q) (find (\<lambda>r. ir_intent_id r = j) ?rs)" for j
    by (rule find_map_same) (simp add: normal_record_def n(2))
  have other: "ir_intent_id q = j" if "find (\<lambda>r. ir_intent_id r = j) ?rs = Some q" for q j
    using that by (auto simp: find_Some_iff)
  show ?thesis
  proof
    fix j
    show "status_of (snd res) j = (if j = strip i then Some (ir_status (normal_record n)) else status_of rg j)"
    proof (cases "find (\<lambda>r. ir_intent_id r = j) ?rs")
      case None
      then have "j \<noteq> strip i" using assms(2) by (auto simp: find_intent_def)
      then show ?thesis using None f [of j] assms(4) by (simp add: status_of_def changed_to_def)
    next
      case (Some q)
      then show ?thesis using other [OF Some] f [of j] assms(4) n(1) by (simp add: status_of_def changed_to_def)
    qed
  qed
qed

lemma known_strip: "s \<in> set KNOWN_INTENT_STATES \<Longrightarrow> lower (strip s) = s"
  by (simp add: known_normal)

lemma register_status:
  assumes "intents_ok rg" "fst (register_intent rp now args rg) = Inr ()"
  shows "status_of (snd (register_intent rp now args rg)) = status_step (Register args) (status_of rg)"
proof -
  let ?rs = "is_intents (rg_state rg)" and ?i = "strip (ir_intent_id args)"
  obtain n where n: "ir_intent_id n = ?i" "ir_status n = lower (strip (ir_status args))"
    "is_intents (rg_state (snd (register_intent rp now args rg))) =
        (case find_intent (ir_intent_id args) rg of None \<Rightarrow> ?rs @ [n]
         | Some e \<Rightarrow> map (\<lambda>q. if ir_intent_id q = ir_intent_id args then n else q) ?rs)"
    using register_intent_ok [OF assms(1), of rp now args] assms(2) by auto
  have ids: "strip (ir_intent_id q) = ir_intent_id q" if "q \<in> set ?rs" for q
    using assms(1) that by (auto simp: intents_ok_def intents_settled_def list_all_iff valid_record_eq normal_record_id)
  have known: "status_of rg ?i = map_option ir_status (find_intent (ir_intent_id args) rg)"
    by (simp add: status_of_def find_intent_def)
  show ?thesis
  proof (cases "find_intent (ir_intent_id args) rg")
    case None
    then show ?thesis using n known
      by (auto simp: status_of_def set_status_def find_append find_intent_def fun_eq_iff split: option.splits)
  next
    case (Some e)
    note e = this
    show ?thesis
    proof (cases "?i = ir_intent_id args")
      case True
      have f: "find (\<lambda>r. ir_intent_id r = j) (map (\<lambda>q. if ir_intent_id q = ir_intent_id args then n else q) ?rs) =
         map_option (\<lambda>q. if ir_intent_id q = ir_intent_id args then n else q) (find (\<lambda>r. ir_intent_id r = j) ?rs)" for j
        by (rule find_map_same) (simp add: n(1) True)
      have other: "ir_intent_id q = j" if "find (\<lambda>r. ir_intent_id r = j) ?rs = Some q" for q j
        using that by (auto simp: find_Some_iff)
      have "status_of (snd (register_intent rp now args rg)) j = set_status ?i (lower (strip (ir_status args))) (status_of rg) j" for j
      proof (cases "find (\<lambda>r. ir_intent_id r = j) ?rs")
        case None
        then have "j \<noteq> ?i" using e by (auto simp: find_intent_def)
        then show ?thesis using None f [of j] n(3) e by (simp add: status_of_def set_status_def)
      next
        case (Some q)
        then show ?thesis using other [OF Some] f [of j] n e True by (simp add: status_of_def set_status_def)
      qed
      then show ?thesis using True by auto
    next
      case False
      have "map (\<lambda>q. if ir_intent_id q = ir_intent_id args then n else q) ?rs = ?rs"
        using ids False by (intro map_idI) (metis (full_types))
      then have "status_of (snd (register_intent rp now args rg)) = status_of rg"
        using n(3) e by (simp add: status_of_def fun_eq_iff)
      moreover have "status_of rg ?i \<noteq> None" using known e by simp
      ultimately show ?thesis using False by auto
    qed
  qed
qed

lemma call_status:
  assumes "intents_ok rg" "fst (run_call rp now call rg) = Inr ()"
  shows "status_of (snd (run_call rp now call rg)) = status_step call (status_of rg)"
proof (cases call)
  case (Register args)
  with assms register_status show ?thesis by simp
next
  case (Update i u)
  then obtain r where r: "find_intent i rg = Some r"
    "changed_to (intent_record_with_speaker_identity_policy rp (updated_record now u r)) rg (update_intent rp now i u rg)"
    using update_intent_ok [OF assms(1), of rp now i u] assms(2) by auto
  have "lower (strip (ir_status r)) = ir_status r"
    using settled_find [OF assms(1) r(1)] by (auto simp: valid_record_eq normal_record_id)
  moreover have "status_of rg (strip i) = Some (ir_status r)"
    using r(1) by (simp add: status_of_def find_intent_def)
  ultimately show ?thesis
    using changed_status [OF assms(1) r(1) _ r(2)] Update
    by (auto simp: intent_record_with_speaker_identity_policy_def updated_record_def normal_record_def)
next
  case (Transition i s reason)
  then obtain r m where r: "find_intent i rg = Some r" "lower (strip s) \<in> set KNOWN_INTENT_STATES"
    "changed_to (r\<lparr>ir_status := lower (strip s), ir_metadata := m, ir_updated_at := now\<rparr>) rg (transition_intent now i s reason rg)"
    using transition_intent_ok [OF assms(1), of now i s reason] assms(2) by auto
  have "ir_status (normal_record (r\<lparr>ir_status := lower (strip s), ir_metadata := m, ir_updated_at := now\<rparr>)) = lower (strip s)"
    using known_normal [OF r(2)] by (simp add: normal_record_def)
  then show ?thesis
    using changed_status [OF assms(1) r(1) _ r(3)] Transition by (auto simp: set_status_def)
next
  case (Review i by_whom why s)
  then obtain r n where r: "find_intent i rg = Some r" "ir_intent_id n = ir_intent_id r"
    "ir_status n = (if str_or s [] = [] then ir_status r else lower (strip (str_or s [])))"
    "ir_status n \<in> set KNOWN_INTENT_STATES" "changed_to n rg (review_intent now i by_whom why s rg)"
    using review_intent_ok [OF assms(1), of now i by_whom why s] assms(2) by auto
  have "status_of rg (strip i) = Some (ir_status r)" using r(1) by (simp add: status_of_def find_intent_def)
  then show ?thesis
    using changed_status [OF assms(1) r(1,2,5)] Review r(3) known_normal [OF r(4)]
    by (auto simp: set_status_def normal_record_def)
next
  case (Usage i s reason)
  consider "record_usage now i s reason rg = (Inr (), rg)"
    | r u where "find_intent i rg = Some r" "changed_to (r\<lparr>ir_usage := u, ir_updated_at := now\<rparr>) rg (record_usage now i s reason rg)"
    using record_usage_ok [OF assms(1), of now i s reason] assms(2) Usage by auto
  then show ?thesis
  proof cases
    case 1
    then show ?thesis using Usage by simp
  next
    case (2 r u)
    have "lower (strip (ir_status r)) = ir_status r"
      using settled_find [OF assms(1) 2(1)] by (auto simp: valid_record_eq normal_record_id)
    moreover have "status_of rg (strip i) = Some (ir_status r)" using 2(1) by (simp add: status_of_def find_intent_def)
    ultimately show ?thesis using changed_status [OF assms(1) 2(1) _ 2(2)] Usage by (auto simp: normal_record_def)
  qed
qed

section \<open>Properties\<close>

text \<open>C26. In every registry the program can reach, through any calls and restarts, no two intents share an id,
  every record passes its own checks unchanged, its metadata name the speaker policy the resolver
  gives, which is one of the four known ones, and the file holds exactly what is in memory.\<close>

theorem registry_invariant:
  assumes "registry_reachable rp rg"
  shows "distinct (map ir_intent_id (is_intents (rg_state rg)))
    \<and> (\<forall>r \<in> set (is_intents (rg_state rg)). model_validate r = Inr r
        \<and> resolve_intent_speaker_identity_policy rp r \<in> set SPEAKER_IDENTITY_POLICIES
        \<and> dget (ir_metadata r) ''speaker_identity_policy'' = PStr (resolve_intent_speaker_identity_policy rp r))
    \<and> rg_file rg = Some (rg_state rg)"
proof -
  have d: "dget (ir_metadata r) ''speaker_identity_policy'' = PStr (resolve_intent_speaker_identity_policy rp r)"
    if "declares r p" for r p
    using that declares_resolve [OF that] by (simp add: declares_def)
  show ?thesis
    using registry_reachable_ok [OF assms] resolved_policy_known d
    by (auto simp: intents_ok_def intents_settled_def list_all_iff valid_record_def)
qed

lemma registry_invariant_witness:
  "\<exists>rg. registry_reachable (\<lambda>_. []) rg \<and> rg_file rg = Some (rg_state rg)"
  using open_fresh [of "\<lambda>_. []" "''2026-01-01T00:00:00+00:00''"] registry_invariant registry_reachable.first_start
  by blast

text \<open>C27. The registry implements a map from ids to statuses: a call that fails leaves memory and file as they
  were, and a call that succeeds changes the map as its abstract step says. Updates and usage never change
  a status, and a retired id registered anew under a padded spelling is silently ignored.\<close>

theorem registry_refines_status_map:
  assumes "registry_reachable rp rg"
  shows "(case fst (run_call rp now call rg) of
      Inl e \<Rightarrow> snd (run_call rp now call rg) = rg
    | Inr _ \<Rightarrow> status_of (snd (run_call rp now call rg)) = status_step call (status_of rg))"
  using call_ok(2) [OF registry_reachable_ok [OF assms]] call_status [OF registry_reachable_ok [OF assms]]
  by (auto split: sum.splits)

lemma registry_refines_status_map_witness:
  "\<exists>rg. registry_reachable (\<lambda>_. []) rg \<and>
     (case fst (run_call (\<lambda>_. []) [] (Transition ''timer.create'' ''Disabled '' None) rg) of
        Inl e \<Rightarrow> snd (run_call (\<lambda>_. []) [] (Transition ''timer.create'' ''Disabled '' None) rg) = rg
      | Inr _ \<Rightarrow> status_of (snd (run_call (\<lambda>_. []) [] (Transition ''timer.create'' ''Disabled '' None) rg)) =
          status_step (Transition ''timer.create'' ''Disabled '' None) (status_of rg))"
  using open_fresh [of "\<lambda>_. []" "[]"] registry_refines_status_map registry_reachable.first_start
  by blast

text \<open>The policy of an intent is fixed when it is registered: an update that does not replace the
  metadata keeps it, also when the new privacy class or definition would require the speaker to be known.\<close>

lemma update_keeps_policy:
  assumes "registry_reachable rp rg" "find_intent i rg = Some r" "up_metadata u = None"
    and "fst (update_intent rp now i u rg) = Inr ()"
  shows "\<exists>r'. find_intent i (snd (update_intent rp now i u rg)) = Some r'
    \<and> ir_privacy_class r' = strip (or_keep (up_privacy_class u) (ir_privacy_class r))
    \<and> resolve_intent_speaker_identity_policy rp r' = resolve_intent_speaker_identity_policy rp r"
proof -
  let ?n = "intent_record_with_speaker_identity_policy rp (updated_record now u r)"
  note ok = registry_reachable_ok [OF assms(1)]
  obtain p where r: "ir_intent_id r = strip i" "valid_record r" "declares r p"
    using settled_find [OF ok assms(2)] by blast
  have c: "changed_to ?n rg (update_intent rp now i u rg)"
    using update_intent_ok [OF ok, of rp now i u] assms(2,4) by auto
  have p: "declares (updated_record now u r) p" using r(3) assms(3) by (simp add: declares_def updated_record_def or_keep_def)
  then have p': "declares (normal_record ?n) p" by (simp add: with_policy_id)
  have id: "ir_intent_id ?n = strip i" by (simp add: intent_record_with_speaker_identity_policy_def updated_record_def r(1))
  have "find (\<lambda>q. ir_intent_id q = strip i) (is_intents (rg_state (snd (update_intent rp now i u rg)))) = Some (normal_record ?n)"
  proof -
    have "find (\<lambda>q. ir_intent_id q = strip i) (map (\<lambda>q. if ir_intent_id q = strip i then normal_record ?n else q) xs) =
        map_option (\<lambda>q. if ir_intent_id q = strip i then normal_record ?n else q) (find (\<lambda>q. ir_intent_id q = strip i) xs)" for xs
      by (rule find_map_same) (simp add: normal_record_def id)
    then show ?thesis using c assms(2) r(1) by (simp add: changed_to_def id find_intent_def)
  qed
  then show ?thesis
    using declares_resolve [OF r(3)] declares_resolve [OF p']
    by (simp add: find_intent_def normal_record_def intent_record_with_speaker_identity_policy_def updated_record_def)
qed

lemma update_keeps_policy_witness:
  "\<exists>rg r u. registry_reachable (\<lambda>_. []) rg \<and> find_intent ''voice.time.query'' rg = Some r
     \<and> (\<exists>r'. find_intent ''voice.time.query'' (snd (update_intent (\<lambda>_. []) [] ''voice.time.query'' u rg)) = Some r'
       \<and> ir_privacy_class r' = ''personal''
       \<and> resolve_intent_speaker_identity_policy (\<lambda>_. []) r' = resolve_intent_speaker_identity_policy (\<lambda>_. []) r)"
proof -
  let ?i = "''voice.time.query''"
  let ?u = "\<lparr>up_intent_name = None, up_service_id = None, up_owner_service = None, up_owner_client_id = None,
    up_version = None, up_privacy_class = Some ''personal'', up_access_scope = None, up_definition = None,
    up_constraints = None, up_metadata = None\<rparr>"
  obtain rg where rg: "open_registry (\<lambda>_. []) [] None = Inr rg"
    "map ir_intent_id (is_intents (rg_state rg)) = map ir_intent_id (built_in_intents [])"
    using open_fresh by blast
  then have reach: "registry_reachable (\<lambda>_. []) rg" using registry_reachable.first_start by blast
  have i: "strip ?i = ?i" "strip ''personal'' = ''personal''" by code_simp+
  have "?i \<in> set (map ir_intent_id (is_intents (rg_state rg)))" unfolding rg(2) built_in_intent_ids by simp
  then obtain r where r: "find_intent ?i rg = Some r"
    by (cases "find_intent ?i rg") (auto simp: find_intent_def find_None_iff i)
  have v: "valid_record r" using settled_find [OF registry_reachable_ok [OF reach] r] by blast
  have "model_validate (updated_record [] ?u r) = Inr (normal_record (updated_record [] ?u r))"
    using v i by (auto simp: valid_record_def model_validate_def updated_record_def or_keep_def split: if_splits)
  then have "fst (update_intent (\<lambda>_. []) [] ?i ?u rg) = Inr ()"
    using r update_intent_ok [OF registry_reachable_ok [OF reach], of "\<lambda>_. []" "[]" ?i ?u]
      save_changed [OF registry_reachable_ok [OF reach] r acceptable_update [OF v], of "[]" ?u]
    by (auto simp: update_intent_def changed_to_def intent_record_with_speaker_identity_policy_def updated_record_def)
  from update_keeps_policy [OF reach r _ this] show ?thesis using reach r i
    by (intro exI [of _ rg] exI [of _ r] exI [of _ ?u]) (simp add: or_keep_def)
qed

end
