(* ===== verification/IntentText.thy ===== *)
theory IntentText
  imports Regex IntentRegistry
begin

text \<open>
  What spoken words mean (the functions of \<open>assistant/intents.py\<close> below the class): the patterns of
  requests, durations and volumes, the words the node answers with. A pattern reads as in
  the source: \<open>sp\<close> is \<open>\s+\<close>, \<open>please\<close> the optional first word, \<open>opt_words\<close> an optional group of
  words with its blank, \<open>phrase\<close> words with \<open>\s+\<close> between them.
\<close>

section \<open>Normalised text\<close>

definition strip_of :: "(char \<Rightarrow> bool) \<Rightarrow> string \<Rightarrow> string" where
  "strip_of f s = rev (dropWhile f (rev (dropWhile f s)))"

text \<open>\<open>re.sub(r"\s+", " ", s)\<close>\<close>

fun collapse_space :: "bool \<Rightarrow> string \<Rightarrow> string" where
  "collapse_space inside [] = []"
| "collapse_space inside (c # s) =
     (if is_space c then (if inside then collapse_space True s else CHR '' '' # collapse_space True s)
      else c # collapse_space False s)"

definition end_mark :: "char \<Rightarrow> bool" where
  "end_mark c \<longleftrightarrow> c \<in> set '' .!?''"

definition normalize_text :: "string \<Rightarrow> string" where
  "normalize_text s = strip_of end_mark (collapse_space False
     (map (\<lambda>c. if c = CHR ''-'' then CHR '' '' else c) (lower (strip s))))"

section \<open>Requests\<close>

definition opt_words :: "string list \<Rightarrow> rx" where
  "opt_words ws = ROpt (RSeq (one_of ws) sp)"

definition please :: rx where
  "please = opt_words [''please'']"

text \<open>\<open>^(?:please\s+)? ... $\<close>\<close>

definition request :: "rx list \<Rightarrow> rx" where
  "request rs = rseq (RStart # please # rs @ [REnd])"

definition after_sp :: "rx \<Rightarrow> rx" where
  "after_sp r = ROpt (RSeq sp r)"

definition the_timer :: rx where
  "the_timer = rseq [opt_words [''the''], RLit ''timer'']"

definition is_confirmation_response :: "string \<Rightarrow> string \<Rightarrow> bool" where
  "is_confirmation_response s response =
     (if response = ''yes'' then
        matches (rseq [RStart, ralt [one_of [''yes'', ''yeah'', ''yep'', ''correct'', ''confirm''], phrase [''do'', ''it'']], REnd]) s
      else if response = ''no'' then
        matches (rseq [RStart, ralt [one_of [''no'', ''nope'', ''cancel''], phrase [''do'', ''not''], RLit ''don\\'t''], REnd]) s
      else False)"

definition SHORT_INTENT_UTTERANCES :: "string list" where
  "SHORT_INTENT_UTTERANCES = [''yes'', ''yeah'', ''yep'', ''correct'', ''confirm'', ''no'', ''nope'', ''cancel'', ''stop'', ''ok'', ''okay'']"

definition is_short_intent_utterance :: "string \<Rightarrow> bool" where
  "is_short_intent_utterance s \<longleftrightarrow> s \<in> set SHORT_INTENT_UTTERANCES"

definition is_time_query :: "string \<Rightarrow> bool" where
  "is_time_query = matches (request [ralt [phrase [''what'', ''is'', ''the'', ''time''], phrase [''what'', ''time'', ''is'', ''it''],
     phrase [''tell'', ''me'', ''the'', ''time''], phrase [''current'', ''time'']]])"

definition is_date_query :: "string \<Rightarrow> bool" where
  "is_date_query = matches (request [ralt
     [rseq [phrase [''what'', ''is''], sp, opt_words [''the''], RLit ''date'', after_sp (RLit ''today'')],
      rseq [phrase [''what'', ''date'', ''is'', ''it''], after_sp (RLit ''today'')],
      rseq [RLit ''what'', RAlt (RLit ''\\'s'') (RSeq sp (RLit ''is'')), sp, RLit ''today'', ROpt (RLit ''\\'s''), sp, RLit ''date''],
      rseq [phrase [''what'', ''is'', ''today''], ROpt (RLit ''\\'s''), sp, RLit ''date''],
      phrase [''what'', ''day'', ''is'', ''it''],
      phrase [''current'', ''date''],
      rseq [phrase [''tell'', ''me''], sp, opt_words [''the''], RLit ''date'']]])"

definition is_timer_status_query :: "string \<Rightarrow> bool" where
  "is_timer_status_query = matches (request [ralt
     [rseq [ralt [phrase [''how'', ''much'', ''time''], phrase [''how'', ''long'']], sp, opt_words [''is''], RLit ''left'', sp,
        one_of [''on'', ''for''], sp, the_timer],
      rseq [ROpt (rseq [RLit ''what'', RAlt (RLit ''\\'s'') (RSeq sp (RLit ''is'')), sp]), opt_words [''the''], phrase [''timer'', ''status'']],
      rseq [ralt [phrase [''time'', ''left''], phrase [''remaining'', ''time'']], sp, one_of [''on'', ''for''], sp, the_timer]]])"

definition is_timer_stop_request :: "string \<Rightarrow> bool" where
  "is_timer_stop_request = matches (request [ralt
     [rseq [one_of [''stop'', ''dismiss'', ''silence''], sp, the_timer, after_sp (RLit ''alarm'')],
      rseq [phrase [''turn'', ''off''], sp, the_timer, after_sp (RLit ''alarm'')],
      RLit ''stop'']])"

definition is_timer_cancel_request :: "string \<Rightarrow> bool" where
  "is_timer_cancel_request = matches (request
     [one_of [''cancel'', ''delete'', ''clear''], sp, opt_words [''the'', ''my''], RLit ''timer''])"

definition is_playback_stop_request :: "string \<Rightarrow> bool" where
  "is_playback_stop_request = matches (request [ralt
     [rseq [one_of [''stop'', ''silence''], sp, one_of [''playback'', ''talking'', ''audio'', ''sound'']],
      phrase [''be'', ''quiet'']]])"

definition is_playback_repeat_request :: "string \<Rightarrow> bool" where
  "is_playback_repeat_request = matches (request [ralt
     [phrase [''repeat'', ''that''], phrase [''say'', ''that'', ''again''],
      rseq [RLit ''replay'', sp, one_of [''that'', ''response'']]]])"

definition is_mute_request :: "string \<Rightarrow> bool" where
  "is_mute_request = matches (request [RLit ''mute'', after_sp (one_of [''yourself'', ''endpoint'', ''speaker''])])"

definition is_unmute_request :: "string \<Rightarrow> bool" where
  "is_unmute_request = matches (request [ralt
     [rseq [RLit ''unmute'', after_sp (one_of [''yourself'', ''endpoint'', ''speaker''])],
      rseq [RLit ''turn'', sp, opt_words [''the''], phrase [''sound'', ''back'', ''on'']]]])"

definition is_identify_request :: "string \<Rightarrow> bool" where
  "is_identify_request = matches (request [ralt
     [rseq [RLit ''identify'', after_sp (ralt [RLit ''yourself'', phrase [''this'', ''device''], RLit ''endpoint''])],
      rseq [RLit ''flash'', sp, opt_words [''the''], one_of [''device'', ''endpoint'']]]])"

section \<open>Numbers and volumes\<close>

definition NUMBER_WORDS :: "(string \<times> rat) list" where
  "NUMBER_WORDS = [(''zero'', 0), (''a'', 1), (''an'', 1), (''one'', 1), (''two'', 2), (''three'', 3), (''four'', 4),
     (''five'', 5), (''six'', 6), (''seven'', 7), (''eight'', 8), (''nine'', 9), (''ten'', 10), (''eleven'', 11),
     (''twelve'', 12), (''thirteen'', 13), (''fourteen'', 14), (''fifteen'', 15), (''sixteen'', 16), (''seventeen'', 17),
     (''eighteen'', 18), (''nineteen'', 19), (''twenty'', 20), (''thirty'', 30), (''forty'', 40), (''fifty'', 50),
     (''sixty'', 60), (''half'', 1/2)]"

text \<open>\<open>re.split(r"\s+", text.strip())\<close> of a text that is not blank: its words.\<close>

fun sum_number_words :: "rat \<Rightarrow> bool \<Rightarrow> string list \<Rightarrow> int option" where
  "sum_number_words amount consumed [] = (if consumed then Some (py_trunc amount) else None)"
| "sum_number_words amount consumed (w # ws) =
     (if w = ''and'' \<or> w = ''a'' then sum_number_words amount consumed ws
      else case aget NUMBER_WORDS w of
        None \<Rightarrow> None
      | Some v \<Rightarrow> sum_number_words (amount + v) True ws)"

definition parse_number_words :: "string \<Rightarrow> int option" where
  "parse_number_words s = sum_number_words 0 False (words s)"

definition matcher_of :: "rx \<Rightarrow> matcher" where
  "matcher_of r p s = map_option (\<lambda>t. length s - length (rest t)) (first_of (ms r (p, s, [])))"

definition parse_volume_number :: "string \<Rightarrow> int option" where
  "parse_volume_number s =
     (let cleaned = strip (re_sub (matcher_of (rseq [RBound, RLit ''percent'', RBound])) [] (lower (strip s))) in
      if cleaned = [] then None
      else if list_all is_digit cleaned then map_option int (undec_from 0 cleaned)
      else parse_number_words cleaned)"

definition extract_volume_percent :: "string \<Rightarrow> int option" where
  "extract_volume_percent s =
     (case re_match (request [opt_words [''set''], opt_words [''your''], RLit ''volume'', sp, opt_words [''to''],
         RGrp ''volume_text'' (RPlus False RDot), after_sp (RLit ''percent'')]) s of
        None \<Rightarrow> None
      | Some c \<Rightarrow> map_option (\<lambda>value. max 0 (min 100 value)) (parse_volume_number (group ''volume_text'' c)))"

definition extract_volume_delta :: "string \<Rightarrow> (string \<times> int) option" where
  "extract_volume_delta s =
     (if matches (request [ralt [phrase [''turn'', ''it'', ''up''], phrase [''turn'', ''volume'', ''up''], phrase [''volume'', ''up'']]]) s
      then Some (''up'', 10)
      else if matches (request [ralt [phrase [''turn'', ''it'', ''down''], phrase [''turn'', ''volume'', ''down''], phrase [''volume'', ''down'']]]) s
      then Some (''down'', -10)
      else case re_match (request [RGrp ''direction'' (one_of [''raise'', ''lower'', ''increase'', ''decrease'']),
             after_sp (RLit ''volume''), after_sp (RLit ''by''), after_sp (RGrp ''delta_text'' (RPlus False RDot))]) s of
        None \<Rightarrow> None
      | Some c \<Rightarrow>
          let direction = (if group ''direction'' c \<in> {''lower'', ''decrease''} then ''down'' else ''up'');
              number = parse_volume_number (str_or (aget c ''delta_text'') ''10'');
              delta = (case number of None \<Rightarrow> 10 | Some n \<Rightarrow> if n = 0 then 10 else n)
          in Some (direction, if direction = ''up'' then delta else - delta))"

section \<open>Durations\<close>

definition units_rx :: rx where
  "units_rx = ralt
     [RSeq (RLit ''hour'') (ROpt (RLit ''s'')), RSeq (RLit ''hr'') (ROpt (RLit ''s'')), RLit ''hr'', RLit ''h'',
      RSeq (RLit ''minute'') (ROpt (RLit ''s'')), RSeq (RLit ''min'') (ROpt (RLit ''s'')), RLit ''min'', RLit ''man\\'s'', RLit ''mans'',
      RLit ''m'', RSeq (RLit ''second'') (ROpt (RLit ''s'')), RSeq (RLit ''sec'') (ROpt (RLit ''s'')), RLit ''sec'', RLit ''s'']"

definition ones_words :: "string list" where
  "ones_words = [''one'', ''two'', ''three'', ''four'', ''five'', ''six'', ''seven'', ''eight'', ''nine'']"

definition decimal_rx :: rx where
  "decimal_rx = RSeq (RPlus True RDigit) (ROpt (RSeq (RLit ''.'') (RPlus True RDigit)))"

definition tens_rx :: "string \<Rightarrow> rx" where
  "tens_rx w = RSeq (RLit w) (after_sp (one_of ones_words))"

definition number_rx :: rx where
  "number_rx = ralt
     ([decimal_rx, RLit ''a'', RLit ''an'', RLit ''half''] @ map RLit ones_words @ [RLit ''ten'',
       RLit ''eleven'', RLit ''twelve'', RLit ''thirteen'', RLit ''fourteen'', RLit ''fifteen'', RLit ''sixteen'',
       RLit ''seventeen'', RLit ''eighteen'', RLit ''nineteen'',
       tens_rx ''twenty'', tens_rx ''thirty'', tens_rx ''forty'', tens_rx ''fifty'', RLit ''sixty''])"

definition duration_part_rx :: rx where
  "duration_part_rx = rseq [RBound, RGrp ''number'' number_rx, RStar True RSpace, RGrp ''unit'' units_rx, RBound]"

definition UNIT_SECONDS :: "(string \<times> int) list" where
  "UNIT_SECONDS = [(''h'', 3600), (''hr'', 3600), (''hrs'', 3600), (''hour'', 3600), (''hours'', 3600), (''m'', 60), (''min'', 60),
     (''mins'', 60), (''minute'', 60), (''minutes'', 60), (''man\\'s'', 60), (''mans'', 60), (''s'', 1), (''sec'', 1), (''secs'', 1),
     (''second'', 1), (''seconds'', 1)]"

text \<open>\<open>float(s)\<close> of digits with an optional fraction\<close>

definition decimal_value :: "string \<Rightarrow> rat option" where
  "decimal_value s =
     (let whole = takeWhile is_digit s; tail = dropWhile is_digit s in
      if whole = [] then None else
      case tail of
        [] \<Rightarrow> map_option of_nat (undec_from 0 whole)
      | c # f \<Rightarrow> if c = CHR ''.'' \<and> f \<noteq> [] \<and> list_all is_digit f
          then map_option (\<lambda>n. of_nat n / 10 ^ length f) (undec_from 0 (whole @ f)) else None)"

text \<open>
  The group holds a decimal number or words of the table, so neither look-up fails; the sum skips what is
  not in the table.
\<close>

definition parse_number :: "string \<Rightarrow> rat" where
  "parse_number s = (case decimal_value s of
     Some v \<Rightarrow> v
   | None \<Rightarrow> sum_list (map (\<lambda>w. case aget NUMBER_WORDS w of None \<Rightarrow> 0 | Some v \<Rightarrow> v) (words s)))"

definition part_seconds :: "captures \<Rightarrow> rat" where
  "part_seconds c = parse_number (group ''number'' c)
     * of_int (case aget UNIT_SECONDS (group ''unit'' c) of None \<Rightarrow> 0 | Some n \<Rightarrow> n)"

definition parse_duration_seconds :: "string \<Rightarrow> int option" where
  "parse_duration_seconds s =
     (let total_seconds = sum_list (map part_seconds (finditer duration_part_rx s)) in
      if total_seconds \<le> 0 then None else Some (round_half_even total_seconds))"

definition two_digits :: "int \<Rightarrow> string" where
  "two_digits n = (if n < 10 then CHR ''0'' # int_dec n else int_dec n)"

definition format_duration_hhmmss :: "int \<Rightarrow> string" where
  "format_duration_hhmmss duration_seconds =
     (let seconds = max 0 duration_seconds; hours = seconds div 3600; remainder = seconds mod 3600;
          minutes = remainder div 60; secs = remainder mod 60
      in two_digits hours @ '':'' @ two_digits minutes @ '':'' @ two_digits secs)"

definition format_unit :: "int \<Rightarrow> string \<Rightarrow> string" where
  "format_unit value unit = int_dec value @ '' '' @ unit @ (if value = 1 then [] else ''s'')"

definition duration_parts :: "int \<Rightarrow> string list" where
  "duration_parts amount =
     (let hours = amount div 3600; remaining = amount mod 3600; minutes = remaining div 60; seconds = remaining mod 60;
          parts = (if hours \<noteq> 0 then [format_unit hours ''hour''] else [])
            @ (if minutes \<noteq> 0 then [format_unit minutes ''minute''] else [])
      in parts @ (if seconds \<noteq> 0 \<or> parts = [] then [format_unit seconds ''second''] else []))"

definition format_duration :: "int \<Rightarrow> string" where
  "format_duration amount =
     (let parts = duration_parts amount in
      if length parts = 1 then hd parts
      else join '', '' (butlast parts) @ '' and '' @ last parts)"

text \<open>\<open>re.split(r, s, maxsplit=1)[0]\<close>: the text before the first match\<close>

fun before_first :: "rx \<Rightarrow> char option \<Rightarrow> string \<Rightarrow> string" where
  "before_first r p [] = []"
| "before_first r p (c # s) = (if ms r (p, c # s, []) \<noteq> [] then [] else c # before_first r (Some c) s)"

definition trim_duration_tail :: "string \<Rightarrow> string" where
  "trim_duration_tail s = strip_of end_mark
     (before_first (rseq [sp, one_of [''called'', ''named'', ''labelled'', ''labeled''], sp]) None s)"

definition duration_rx :: "bool \<Rightarrow> rx" where
  "duration_rx greedy = RGrp ''duration'' (RPlus greedy RDot)"

text \<open>The first pattern of the list that matches gives the duration.\<close>

fun first_duration :: "rx list \<Rightarrow> string \<Rightarrow> string option" where
  "first_duration [] s = None"
| "first_duration (r # rs) s =
     (case re_match r s of Some c \<Rightarrow> Some (trim_duration_tail (group ''duration'' c)) | None \<Rightarrow> first_duration rs s)"

definition set_words :: "string list" where
  "set_words = [''set'', ''start'', ''create'', ''make'']"

definition extract_timer_duration_text :: "string \<Rightarrow> string option" where
  "extract_timer_duration_text = first_duration
     [request [one_of set_words, sp, opt_words [''a'', ''an''], RLit ''timer'', sp, one_of [''for'', ''of''], sp, duration_rx True],
      request [RLit ''timer'', sp, one_of [''for'', ''of''], sp, duration_rx True],
      request [one_of set_words, sp, opt_words [''a'', ''an''], duration_rx False, sp, RLit ''timer''],
      request [duration_rx False, sp, RLit ''timer'']]"

fun first_adjustment :: "(string \<times> rx) list \<Rightarrow> string \<Rightarrow> (string \<times> string) option" where
  "first_adjustment [] s = None"
| "first_adjustment ((direction, r) # rs) s =
     (case re_match r s of Some c \<Rightarrow> Some (direction, trim_duration_tail (group ''duration'' c))
      | None \<Rightarrow> first_adjustment rs s)"

definition extract_timer_adjustment :: "string \<Rightarrow> (string \<times> string) option" where
  "extract_timer_adjustment = first_adjustment
     [(''add'', request [RLit ''extend'', sp, the_timer, sp, RLit ''by'', sp, duration_rx True]),
      (''add'', request [RLit ''add'', sp, duration_rx False, after_sp (rseq [one_of [''to'', ''onto''], sp, the_timer])]),
      (''remove'', request [one_of [''remove'', ''subtract''], sp, duration_rx False, after_sp (rseq [RLit ''from'', sp, the_timer])]),
      (''remove'', request [RLit ''take'', sp, duration_rx False, sp, RLit ''off'', sp, the_timer])]"

definition extract_timer_snooze_duration_text :: "string \<Rightarrow> string option" where
  "extract_timer_snooze_duration_text = first_duration
     [request [RLit ''snooze'', after_sp (rseq [opt_words [''the''], one_of [''timer'', ''alarm'']]), after_sp (RLit ''for''), sp, duration_rx True],
      request [phrase [''remind'', ''me'', ''again'', ''in''], sp, duration_rx True]]"

section \<open>Clock and calendar\<close>

definition CLOCK_WORDS :: "(int \<times> string) list" where
  "CLOCK_WORDS = [(1, ''one''), (2, ''two''), (3, ''three''), (4, ''four''), (5, ''five''), (6, ''six''), (7, ''seven''),
     (8, ''eight''), (9, ''nine''), (10, ''ten''), (11, ''eleven''), (12, ''twelve''), (13, ''thirteen''), (14, ''fourteen''),
     (15, ''fifteen''), (16, ''sixteen''), (17, ''seventeen''), (18, ''eighteen''), (19, ''nineteen''), (20, ''twenty''),
     (30, ''thirty''), (40, ''forty''), (50, ''fifty'')]"

definition format_clock_number :: "int \<Rightarrow> string" where
  "format_clock_number value = (case aget CLOCK_WORDS value of
     Some w \<Rightarrow> w
   | None \<Rightarrow>
       (case (aget CLOCK_WORDS (value div 10 * 10), aget CLOCK_WORDS (value mod 10)) of
          (Some t, Some u) \<Rightarrow> t @ '' '' @ u
        | _ \<Rightarrow> int_dec value))"

text \<open>A local time is the reading of the local clock, in microseconds like an instant.\<close>

definition format_clock_time :: "instant \<Rightarrow> string" where
  "format_clock_time local =
     (let minutes = local mod us_per_day div us_per_s div 60;
          hour24 = minutes div 60; minute = minutes mod 60;
          hour = (if hour24 mod 12 = 0 then 12 else hour24 mod 12);
          period = (if hour24 < 12 then ''AM'' else ''PM'');
          hour_text = format_clock_number hour
      in if minute = 0 then hour_text @ '' '' @ period
         else if minute < 10 then hour_text @ '' oh '' @ format_clock_number minute @ '' '' @ period
         else hour_text @ '' '' @ format_clock_number minute @ '' '' @ period)"

definition WEEKDAYS :: "string list" where
  "WEEKDAYS = [''Monday'', ''Tuesday'', ''Wednesday'', ''Thursday'', ''Friday'', ''Saturday'', ''Sunday'']"

definition MONTHS :: "string list" where
  "MONTHS = [''January'', ''February'', ''March'', ''April'', ''May'', ''June'', ''July'', ''August'', ''September'',
     ''October'', ''November'', ''December'']"

definition local_day :: "instant \<Rightarrow> int" where
  "local_day local = local div us_per_day + epoch_day"

definition format_calendar_date :: "instant \<Rightarrow> string" where
  "format_calendar_date local =
     (case ymd_of_day (local_day local) of (y, m, d) \<Rightarrow>
        WEEKDAYS ! nat (local_day local mod 7) @ '', '' @ MONTHS ! nat (m - 1) @ '' '' @ int_dec d @ '', '' @ int_dec y)"

end
