(* ===== verification/Durations.thy ===== *)
theory Durations
  imports IntentText
begin

text \<open>
  Durations spoken and heard: what \<open>format_duration\<close> says, \<open>parse_duration_seconds\<close> understands.
  The proof follows the search of \<open>finditer\<close>: each part of the text is one match, and nothing
  matches between two parts.
\<close>

section \<open>Digits\<close>

lemma spoken_digit_char: "n < 10 \<Longrightarrow> char_digit (digit_char n) = Some n"
  by (simp add: char_digit_def digit_char_def)

lemma is_digit_digit: "n < 10 \<Longrightarrow> is_digit (digit_char n)"
  by (simp add: is_digit_def digit_char_def)

lemma nat_dec_digits: "list_all is_digit (nat_dec n) \<and> nat_dec n \<noteq> [] \<and> undec_from 0 (nat_dec n) = Some n"
proof (induction n rule: less_induct)
  case (less n)
  show ?case
  proof (cases "n < 10")
    case True
    then show ?thesis by (simp add: nat_dec.simps [of n] spoken_digit_char is_digit_digit)
  next
    case False
    with less [of "n div 10"] show ?thesis
      by (simp add: nat_dec.simps [of n] undec_from_append spoken_digit_char is_digit_digit)
  qed
qed

lemma decimal_value_nat_dec: "decimal_value (nat_dec n) = Some (of_nat n)"
proof -
  have "takeWhile is_digit (nat_dec n) = nat_dec n" "dropWhile is_digit (nat_dec n) = []"
    using nat_dec_digits [of n] by (auto simp: list_all_iff)
  with nat_dec_digits [of n] show ?thesis
    unfolding decimal_value_def Let_def \<open>takeWhile is_digit (nat_dec n) = nat_dec n\<close> \<open>dropWhile is_digit (nat_dec n) = []\<close>
    by simp
qed

section \<open>One part\<close>

lemma digit_not_space: "is_digit x \<Longrightarrow> \<not> is_space x"
  by (auto simp: is_digit_def is_space_def)

lemma goes_number:
  assumes "list_all is_digit ds" "ds \<noteq> []"
  shows "goes (RGrp ''number'' number_rx) (p, ds @ CHR '' '' # s, c) (Some (last ds), CHR '' '' # s, aput ''number'' ds c)"
proof -
  have "goes (RPlus True RDigit) (p, ds @ CHR '' '' # s, c) (Some (last ds), CHR '' '' # s, c)"
    by (rule goes_plus [where P = is_digit]) (use assms in \<open>auto simp: is_digit_def\<close>)
  then have "goes decimal_rx (p, ds @ CHR '' '' # s, c) (Some (last ds), CHR '' '' # s, c)"
    unfolding decimal_rx_def by (rule goes_seq) (rule goes_none, simp)
  then have "goes number_rx (p, ds @ CHR '' '' # s, c) (Some (last ds), CHR '' '' # s, c)"
    unfolding number_rx_def by (simp add: goes_left)
  from goes_group [OF this, of "''number''"] show ?thesis by (simp add: grouped_def)
qed

lemma goes_blank:
  assumes "\<not> (case s of [] \<Rightarrow> False | x # _ \<Rightarrow> is_space x)"
  shows "goes (RStar True RSpace) (p, CHR '' '' # s, c) (Some CHR '' '', s, c)"
proof -
  have "\<exists>l. rep (length ('' '' @ s)) True (ms RSpace) (p, '' '' @ s, c) = (if '' '' = [] then p else Some (last '' ''), s, c) # l"
    by (rule goes_run [where P = is_space]) (use assms in \<open>auto simp: one_char_def is_space_def\<close>)
  then show ?thesis by (auto intro: goesI)
qed

definition unit_names :: "(string \<times> int) list" where
  "unit_names = [(''hour'', 3600), (''minute'', 60), (''second'', 1)]"

lemma goes_unit:
  assumes "(u, k) \<in> set unit_names" "\<not> word_ahead s" "e = [] \<or> e = ''s''"
  shows "goes (RSeq (RGrp ''unit'' units_rx) RBound) (p, u @ e @ s, c) (Some (last (u @ e)), s, aput ''unit'' (u @ e) c)"
    "is_word (last (u @ e))" "\<not> (case u @ e @ s of [] \<Rightarrow> False | x # _ \<Rightarrow> is_space x)" "aget UNIT_SECONDS (u @ e) = Some k"
proof -
  have w: "is_word (last (u @ e))" using assms(1,3) by (auto simp: unit_names_def is_word_def)
  have "\<exists>l. ms units_rx (p, u @ e @ s, c) = (Some (last (u @ e)), s, c) # l"
    using assms by (cases s) (auto simp: unit_names_def units_rx_def word_ahead_def is_word_def)
  then have "goes units_rx (p, u @ e @ s, c) (Some (last (u @ e)), s, c)" by (auto intro: goesI)
  from goes_group [OF this, of "''unit''"]
  have "goes (RGrp ''unit'' units_rx) (p, u @ e @ s, c) (Some (last (u @ e)), s, aput ''unit'' (u @ e) c)"
    by (simp add: grouped_def)
  then show "goes (RSeq (RGrp ''unit'' units_rx) RBound) (p, u @ e @ s, c) (Some (last (u @ e)), s, aput ''unit'' (u @ e) c)"
    by (rule goes_seq) (rule goesI, use w assms(2) in \<open>simp add: here_def word_before_def\<close>)
  show "is_word (last (u @ e))" by (rule w)
  show "\<not> (case u @ e @ s of [] \<Rightarrow> False | x # _ \<Rightarrow> is_space x)" "aget UNIT_SECONDS (u @ e) = Some k"
    using assms(1,3) by (auto simp: unit_names_def is_space_def UNIT_SECONDS_def)
qed

lemma goes_part:
  assumes "(u, k) \<in> set unit_names" "\<not> word_ahead s" "e = [] \<or> e = ''s''" "list_all is_digit ds" "ds \<noteq> []" "\<not> word_before p"
  shows "goes duration_part_rx (p, ds @ CHR '' '' # u @ e @ s, [])
    (Some (last (u @ e)), s, [(''number'', ds), (''unit'', u @ e)])"
proof -
  have b: "goes RBound (p, ds @ CHR '' '' # u @ e @ s, []) (p, ds @ CHR '' '' # u @ e @ s, [])"
    using assms(4-6) by (cases ds) (auto intro!: goesI simp: here_def word_ahead_def)
  from goes_unit(1) [OF assms(1-3), of "Some CHR '' ''" "[(''number'', ds)]"]
  show ?thesis
    unfolding duration_part_rx_def rseq.simps
    by (intro goes_seq [OF b] goes_seq [OF goes_number [OF assms(4,5)]]
        goes_seq [OF goes_blank [OF goes_unit(3) [OF assms(1-3)]]]) simp
qed

section \<open>The search\<close>

lemma find_skip: "k \<le> length s \<Longrightarrow> find_from r k p s = find_from r 0 (if k = 0 then p else Some (s ! (k - 1))) (drop k s)"
proof (induction k arbitrary: p s)
  case (Suc k)
  then obtain c t where s: "s = c # t" by (cases s) auto
  with Suc.IH [of t "Some c"] Suc.prems show ?case by (cases k) auto
qed simp

lemma find_match:
  assumes "goes r (p, w @ s, []) (q, s, c)" "w \<noteq> []"
  shows "find_from r 0 p (w @ s) = c # find_from r 0 (Some (last w)) s"
proof -
  obtain x v where w: "w = x # v" using assms(2) by (cases w) auto
  have "find_from r (length v) (Some x) (v @ s) = find_from r 0 (Some (last w)) s"
    using find_skip [of "length v" "v @ s" r "Some x"] by (cases v rule: rev_cases) (auto simp: w nth_append)
  with assms w show ?thesis by (simp add: goes_def)
qed

lemma find_no_match: "ms r (p, x # s, []) = [] \<Longrightarrow> find_from r 0 p (x # s) = find_from r 0 (Some x) s"
  by (simp add: first_of_def)

lemma parts_value:
  assumes "(u, k) \<in> set unit_names" "\<not> word_ahead s" "0 \<le> v" "\<not> word_before p"
  shows "\<exists>q. is_word q \<and> map part_seconds (find_from duration_part_rx 0 p (format_unit v u @ s)) =
    of_int (v * k) # map part_seconds (find_from duration_part_rx 0 (Some q) s)"
proof -
  let ?e = "if v = 1 then [] else ''s''" and ?ds = "nat_dec (nat v)"
  have e: "?e = [] \<or> ?e = ''s''" by simp
  have shape: "format_unit v u @ s = (?ds @ CHR '' '' # u @ ?e) @ s"
    using assms(3) by (simp add: format_unit_def int_dec_def)
  have ds: "list_all is_digit ?ds" "?ds \<noteq> []" using nat_dec_digits by auto
  have "goes duration_part_rx (p, (?ds @ CHR '' '' # u @ ?e) @ s, [])
      (Some (last (u @ ?e)), s, [(''number'', ?ds), (''unit'', u @ ?e)])"
    using goes_part [OF assms(1,2) e ds assms(4)] by simp
  from find_match [OF this]
  have "find_from duration_part_rx 0 p (format_unit v u @ s) =
      [(''number'', ?ds), (''unit'', u @ ?e)] # find_from duration_part_rx 0 (Some (last (u @ ?e))) s"
    using assms(1) by (auto simp: shape unit_names_def)
  moreover have "part_seconds [(''number'', ?ds), (''unit'', u @ ?e)] = of_int (v * k)"
    using goes_unit(4) [OF assms(1,2) e] assms(3)
    by (simp add: part_seconds_def group_def parse_number_def decimal_value_nat_dec)
  moreover have "is_word (last (u @ ?e))" using goes_unit(2) [OF assms(1,2) e] .
  ultimately show ?thesis by auto
qed

lemma no_number: "\<not> is_digit x \<Longrightarrow> x \<notin> set ''ahotfsen'' \<Longrightarrow> ms number_rx (p, x # s, c) = []"
  by (auto simp: number_rx_def decimal_rx_def RPlus_def one_char_def ones_words_def tens_rx_def)

lemma no_match_punct: "\<not> is_digit x \<Longrightarrow> x \<notin> set ''ahotfsen'' \<Longrightarrow> ms duration_part_rx (p, x # s, c) = []"
  by (simp add: duration_part_rx_def no_number here_def)

lemma between_commas:
  assumes "is_word q"
  shows "find_from duration_part_rx 0 (Some q) ('', '' @ s) = find_from duration_part_rx 0 (Some CHR '' '') s"
  by (simp add: no_match_punct is_digit_def first_of_def)

lemma between_and:
  assumes "is_word q"
  shows "find_from duration_part_rx 0 (Some q) ('' and '' @ s) = find_from duration_part_rx 0 (Some CHR '' '') s"
proof -
  have a: "ms duration_part_rx (Some CHR '' '', CHR ''a'' # CHR ''n'' # CHR ''d'' # CHR '' '' # s, []) = []"
    by (simp add: duration_part_rx_def number_rx_def decimal_rx_def RPlus_def one_char_def here_def ones_words_def tens_rx_def
        is_digit_def is_space_def units_rx_def grouped_def)
  have n: "ms duration_part_rx (Some CHR ''a'', CHR ''n'' # CHR ''d'' # CHR '' '' # s, []) = []"
    "ms duration_part_rx (Some CHR ''n'', CHR ''d'' # CHR '' '' # s, []) = []"
    by (simp_all add: duration_part_rx_def here_def word_before_def word_ahead_def is_word_def)
  show ?thesis by (simp add: no_match_punct is_digit_def first_of_def a n)
qed

lemma nothing_left: "find_from duration_part_rx 0 (Some q) [] = []"
  by (simp add: duration_part_rx_def number_rx_def decimal_rx_def RPlus_def one_char_def here_def ones_words_def tens_rx_def
      first_of_def)

section \<open>Whole durations\<close>

type_synonym part = "int \<times> string \<times> int"

definition part_text :: "part \<Rightarrow> string" where
  "part_text x = format_unit (fst x) (fst (snd x))"

definition part_value :: "part \<Rightarrow> rat" where
  "part_value x = of_int (fst x * snd (snd x))"

definition part_ok :: "part \<Rightarrow> bool" where
  "part_ok x \<longleftrightarrow> snd x \<in> set unit_names \<and> 0 \<le> fst x"

declare find_from.simps [simp del]

lemma part_step:
  assumes "part_ok x" "\<not> word_ahead s" "\<not> word_before p"
  shows "\<exists>q. is_word q \<and> map part_seconds (find_from duration_part_rx 0 p (part_text x @ s)) =
    part_value x # map part_seconds (find_from duration_part_rx 0 (Some q) s)"
  using parts_value [of "fst (snd x)" "snd (snd x)" s "fst x" p] assms
  by (simp add: part_ok_def part_text_def part_value_def)

lemma edges: "\<not> word_ahead ('', '' @ s)" "\<not> word_ahead ('' and '' @ s)" "\<not> word_ahead []"
  "\<not> word_before None" "\<not> word_before (Some CHR '' '')"
  by (simp_all add: word_ahead_def word_before_def is_word_def is_digit_def)

lemma joined_value:
  assumes "xs \<noteq> []" "list_all part_ok xs" "\<not> word_ahead s" "\<not> word_before p"
  shows "\<exists>q. is_word q \<and> map part_seconds (find_from duration_part_rx 0 p (join '', '' (map part_text xs) @ s)) =
    map part_value xs @ map part_seconds (find_from duration_part_rx 0 (Some q) s)"
  using assms
proof (induction xs arbitrary: p rule: induct_list012)
  case (2 x)
  then show ?case using part_step [of x s p] by simp
next
  case (3 x y xs)
  let ?t = "join '', '' (map part_text (y # xs)) @ s"
  have ok: "part_ok x" "list_all part_ok (y # xs)" using "3.prems"(2) by simp_all
  obtain q where q: "is_word q" "map part_seconds (find_from duration_part_rx 0 p (part_text x @ '', '' @ ?t)) =
      part_value x # map part_seconds (find_from duration_part_rx 0 (Some q) ('', '' @ ?t))"
    using part_step [OF ok(1) edges(1) [of ?t] "3.prems"(4)] by (elim exE conjE) (rule that)
  obtain q' where q': "is_word q'" "map part_seconds (find_from duration_part_rx 0 (Some CHR '' '') ?t) =
      map part_value (y # xs) @ map part_seconds (find_from duration_part_rx 0 (Some q') s)"
    using "3.IH"(2) [OF list.distinct(2) ok(2) "3.prems"(3) edges(5)] by (elim exE conjE) (rule that)
  have "join '', '' (map part_text (x # y # xs)) @ s = part_text x @ '', '' @ ?t" by simp
  moreover have "map part_seconds (find_from duration_part_rx 0 p (part_text x @ '', '' @ ?t)) =
      part_value x # map part_value (y # xs) @ map part_seconds (find_from duration_part_rx 0 (Some q') s)"
    by (simp only: q(2) between_commas [OF q(1)] q'(2))
  ultimately show ?case using q'(1) by (simp only: list.map append_Cons) blast
qed simp

definition spoken :: "string list \<Rightarrow> string" where
  "spoken ts = (if length ts = 1 then hd ts else join '', '' (butlast ts) @ '' and '' @ last ts)"

lemma spoken_value:
  assumes "xs \<noteq> []" "list_all part_ok xs"
  shows "map part_seconds (finditer duration_part_rx (spoken (map part_text xs))) = map part_value xs"
proof (cases "length xs = 1")
  case True
  then obtain x where x: "xs = [x]" by (auto simp: length_Suc_conv)
  obtain q where "map part_seconds (find_from duration_part_rx 0 None (part_text x @ [])) =
      part_value x # map part_seconds (find_from duration_part_rx 0 (Some q) [])"
    using part_step [of x "[]" None] assms(2) edges by (auto simp: x)
  then show ?thesis by (simp add: x spoken_def finditer_def nothing_left)
next
  case False
  with assms(1) obtain ys y where xs: "xs = ys @ [y]" "ys \<noteq> []" by (cases xs rule: rev_cases) auto
  have ok: "list_all part_ok ys" "part_ok y" using assms(2) by (auto simp: xs)
  obtain q where q: "is_word q" "map part_seconds (find_from duration_part_rx 0 None (join '', '' (map part_text ys) @ '' and '' @ part_text y)) =
      map part_value ys @ map part_seconds (find_from duration_part_rx 0 (Some q) ('' and '' @ part_text y))"
    using joined_value [OF xs(2) ok(1) edges(2) [of "part_text y"] edges(4)] by (elim exE conjE) (rule that)
  obtain q' where "map part_seconds (find_from duration_part_rx 0 (Some CHR '' '') (part_text y)) =
      part_value y # map part_seconds (find_from duration_part_rx 0 (Some q') [])"
    using part_step [OF ok(2) edges(3,5)] by auto
  moreover have "spoken (map part_text xs) = join '', '' (map part_text ys) @ '' and '' @ part_text y"
    using xs(2) by (simp add: xs(1) spoken_def)
  ultimately show ?thesis
    using q(2) by (simp only: finditer_def between_and [OF q(1)] nothing_left xs(1)) simp
qed

definition parts_from :: "int \<Rightarrow> int \<Rightarrow> int \<Rightarrow> part list" where
  "parts_from h m s = (if h \<noteq> 0 then [(h, ''hour'', 3600)] else []) @ (if m \<noteq> 0 then [(m, ''minute'', 60)] else [])
     @ (if s \<noteq> 0 \<or> h = 0 \<and> m = 0 then [(s, ''second'', 1)] else [])"

definition parts_of :: "int \<Rightarrow> part list" where
  "parts_of n = parts_from (n div 3600) (n mod 3600 div 60) (n mod 3600 mod 60)"

lemma texts_from: "map part_text (parts_from h m s) =
    (let parts = (if h \<noteq> 0 then [format_unit h ''hour''] else []) @ (if m \<noteq> 0 then [format_unit m ''minute''] else [])
     in parts @ (if s \<noteq> 0 \<or> parts = [] then [format_unit s ''second''] else []))"
  by (simp add: parts_from_def part_text_def)

lemma duration_parts_of: "duration_parts n = map part_text (parts_of n)"
  unfolding duration_parts_def parts_of_def texts_from Let_def by (rule refl)

lemma parts_from_ok: "0 \<le> h \<Longrightarrow> 0 \<le> m \<Longrightarrow> 0 \<le> s \<Longrightarrow> list_all part_ok (parts_from h m s) \<and> parts_from h m s \<noteq> []
    \<and> sum_list (map part_value (parts_from h m s)) = of_int (h * 3600 + m * 60 + s)"
  by (simp add: parts_from_def part_ok_def part_value_def unit_names_def)

lemma parts_of_ok:
  assumes "0 \<le> n"
  shows "list_all part_ok (parts_of n) \<and> parts_of n \<noteq> [] \<and> sum_list (map part_value (parts_of n)) = of_int n"
proof -
  have "n div 3600 * 3600 + n mod 3600 div 60 * 60 + n mod 3600 mod 60 = n" by simp
  moreover have "0 \<le> n div 3600" "0 \<le> n mod 3600 div 60" "0 \<le> n mod 3600 mod 60"
    using assms by (simp_all add: pos_imp_zdiv_nonneg_iff)
  ultimately show ?thesis using parts_from_ok unfolding parts_of_def by metis
qed

lemma parse_parts:
  assumes "0 < n"
  shows "parse_duration_seconds (spoken (map part_text (parts_of n))) = Some n"
proof -
  have ok: "parts_of n \<noteq> []" "list_all part_ok (parts_of n)" "sum_list (map part_value (parts_of n)) = of_int n"
    using parts_of_ok [of n] assms by simp_all
  show ?thesis
    unfolding parse_duration_seconds_def Let_def spoken_value [OF ok(1,2)] ok(3)
    using assms by simp
qed

text \<open>C28. A duration the node speaks is understood as the same number of seconds: what \<open>format_duration\<close> says for
  any positive number, \<open>parse_duration_seconds\<close> reads back exactly.\<close>

theorem duration_round_trip:
  assumes "0 < n"
  shows "parse_duration_seconds (format_duration n) = Some n"
  using parse_parts [OF assms] by (simp add: format_duration_def duration_parts_of spoken_def Let_def)

lemma duration_round_trip_witness:
  "parse_duration_seconds (format_duration 3725) = Some 3725 \<and> format_duration 3725 = ''1 hour, 2 minutes and 5 seconds''"
  using duration_round_trip [of 3725] by (simp, code_simp)

text \<open>Fractions are another matter: a number word directly before the unit is all that counts.\<close>

lemma half_an_hour: "parse_duration_seconds ''half an hour'' = Some 3600"
  by code_simp

lemma one_and_a_half_hours: "parse_duration_seconds ''one and a half hours'' = Some 1800"
  by code_simp

section \<open>Volumes\<close>

lemma number_words_nonneg: "aget NUMBER_WORDS w = Some v \<Longrightarrow> 0 \<le> v"
proof -
  have "list_all (\<lambda>p. 0 \<le> snd p) NUMBER_WORDS" by (simp add: NUMBER_WORDS_def)
  then show "aget NUMBER_WORDS w = Some v \<Longrightarrow> 0 \<le> v"
    using map_of_SomeD [of NUMBER_WORDS w v] by (auto simp: list_all_iff)
qed

lemma sum_number_words_nonneg: "0 \<le> t \<Longrightarrow> sum_number_words t b ws = Some n \<Longrightarrow> 0 \<le> n"
  by (induction t b ws rule: sum_number_words.induct)
    (auto simp: py_trunc_def split: if_splits option.splits dest: number_words_nonneg)

lemma parse_volume_nonneg: "parse_volume_number s = Some n \<Longrightarrow> 0 \<le> n"
  by (auto simp: parse_volume_number_def Let_def parse_number_words_def split: if_splits
      dest: sum_number_words_nonneg [rotated])

text \<open>A volume that was understood lies between 0 and 100, and a change of volume goes where its direction
  says: never zero, louder only for "up" and softer only for "down", whatever number was spoken.\<close>

lemma volumes_bounded:
  "(case extract_volume_percent s of None \<Rightarrow> True | Some v \<Rightarrow> 0 \<le> v \<and> v \<le> 100)
   \<and> (case extract_volume_delta s of None \<Rightarrow> True
      | Some (direction, delta) \<Rightarrow> (direction = ''up'' \<and> 0 < delta) \<or> (direction = ''down'' \<and> delta < 0))"
proof -
  have "0 < delta" if "delta = (case parse_volume_number t of None \<Rightarrow> 10 | Some n \<Rightarrow> if n = 0 then 10 else n)" for t delta
    using that parse_volume_nonneg [of t] by (auto split: option.splits if_splits intro: order.not_eq_order_implies_strict)
  then show ?thesis
    by (auto simp: extract_volume_percent_def extract_volume_delta_def Let_def split: option.splits if_splits)
qed

end
