(* ===== verification/IntentFinder.thy ===== *)
theory IntentFinder
  imports IntentText
begin

text \<open>
  \<open>LocalIntentFinder\<close> of \<open>assistant/intents.py\<close>: which command, if any, a text asks for. With a registry the
  active intents are tried in order, and every attempt that counts is noted in the registry;
  without one the built-in commands are tried. Every operation returns the registry it leaves
  behind and an exception, no match or a match. Parameters are the local time zone, the syntax of patterns (\<open>re\<close>
  compiles the pattern texts of intents, \<open>None\<close> is \<open>re.error\<close>), the parts of \<open>str.format\<close>
  beyond plain names, and \<open>float\<close> of a text.
\<close>

section \<open>Values\<close>

record finder_env =
  fe_zone :: "instant \<Rightarrow> int \<times> string option"
  fe_compile :: "string \<Rightarrow> rx option"
  fe_format :: "string \<Rightarrow> dict \<Rightarrow> string option option"
  fe_float :: "string \<Rightarrow> rat option"
  fe_rp :: "pv \<Rightarrow> string"

datatype crash = Value_error string | Type_error | Index_error | Registry_error intent_error

record local_match =
  lm_intent :: string
  lm_command :: string
  lm_slots :: dict
  lm_reply_text :: string
  lm_provider_id :: string
  lm_intent_name :: "string option"
  lm_service_id :: "string option"
  lm_version :: "string option"
  lm_definition :: "dict option"
  lm_dispatch :: "dict option"
  lm_reply :: "dict option"
  lm_conversation_followup :: "dict option"
  lm_constraints :: "dict option"
  lm_metadata :: "dict option"
  lm_speaker_identity_policy :: "string option"

type_synonym finder_state = "intent_registry option"
type_synonym 'a finding = "(crash + 'a) \<times> finder_state"

definition plain_match :: "string \<Rightarrow> string \<Rightarrow> dict \<Rightarrow> string \<Rightarrow> local_match" where
  "plain_match intent command slots reply =
     \<lparr>lm_intent = intent, lm_command = command, lm_slots = slots, lm_reply_text = reply,
      lm_provider_id = ''local_pattern'', lm_intent_name = None, lm_service_id = None, lm_version = None,
      lm_definition = None, lm_dispatch = None, lm_reply = None, lm_conversation_followup = None,
      lm_constraints = None, lm_metadata = None, lm_speaker_identity_policy = None\<rparr>"

definition local_time :: "finder_env \<Rightarrow> instant \<Rightarrow> instant" where
  "local_time e t = t + fst (fe_zone e t)"

definition zone_name :: "finder_env \<Rightarrow> instant \<Rightarrow> string" where
  "zone_name e t = str_or (snd (fe_zone e t)) []"

section \<open>The built-in commands\<close>

definition find_timer_create :: "string \<Rightarrow> instant \<Rightarrow> local_match option" where
  "find_timer_create s requested_at =
     (case extract_timer_adjustment s of Some _ \<Rightarrow> None | None \<Rightarrow>
       (case extract_timer_duration_text s of None \<Rightarrow> None | Some duration_text \<Rightarrow>
         (case parse_duration_seconds duration_text of None \<Rightarrow> None | Some duration_seconds \<Rightarrow>
           let formatted_duration = format_duration duration_seconds in
           Some (plain_match ''timer.create'' ''timer.create''
             [(''duration_seconds'', PInt duration_seconds),
              (''duration_hhmmss'', PStr (format_duration_hhmmss duration_seconds)),
              (''duration_text'', PStr formatted_duration),
              (''requested_at'', PStr (isoformat requested_at))]
             (''Setting timer for '' @ formatted_duration @ ''.'')))))"

definition find_time_query :: "finder_env \<Rightarrow> string \<Rightarrow> instant \<Rightarrow> local_match option" where
  "find_time_query e s requested_at =
     (if \<not> is_time_query s then None else
      let time_text = format_clock_time (local_time e requested_at) in
      Some (plain_match ''voice.time.query'' ''voice.time.query''
        [(''time_text'', PStr time_text), (''timezone'', PStr (zone_name e requested_at)),
         (''requested_at'', PStr (isoformat requested_at))]
        (''It is '' @ time_text @ ''.'')))"

definition find_date_query :: "finder_env \<Rightarrow> string \<Rightarrow> instant \<Rightarrow> local_match option" where
  "find_date_query e s requested_at =
     (if \<not> is_date_query s then None else
      let date_text = format_calendar_date (local_time e requested_at) in
      Some (plain_match ''voice.date.query'' ''voice.date.query''
        [(''date_text'', PStr date_text), (''date_iso'', PStr (iso_date (local_day (local_time e requested_at)))),
         (''timezone'', PStr (zone_name e requested_at)), (''requested_at'', PStr (isoformat requested_at))]
        (''Today is '' @ date_text @ ''.'')))"

definition find_timer_status :: "string \<Rightarrow> instant \<Rightarrow> local_match option" where
  "find_timer_status s requested_at =
     (if \<not> is_timer_status_query s then None else
      Some (plain_match ''timer.status'' ''timer.status''
        [(''scope'', PStr ''active_for_endpoint''), (''requested_at'', PStr (isoformat requested_at))]
        ''Checking the timer.''))"

definition find_timer_control :: "string \<Rightarrow> string \<Rightarrow> instant \<Rightarrow> local_match option" where
  "find_timer_control s action requested_at =
     (let act = lower (strip action);
          found = (\<lambda>reply. plain_match (''timer.'' @ act) (''timer.'' @ act)
            [(''action'', PStr act), (''scope'', PStr ''active_for_endpoint''), (''requested_at'', PStr (isoformat requested_at))] reply)
      in if act = ''stop'' then (if is_timer_stop_request s then Some (found ''Stopping the timer.'') else None)
         else if act = ''cancel'' then (if is_timer_cancel_request s then Some (found ''Cancelling the timer.'') else None)
         else None)"

definition find_timer_adjust_time :: "string \<Rightarrow> instant \<Rightarrow> local_match option" where
  "find_timer_adjust_time s requested_at =
     (case extract_timer_adjustment s of None \<Rightarrow> None | Some (direction, duration_text) \<Rightarrow>
       (case parse_duration_seconds duration_text of None \<Rightarrow> None | Some duration_seconds \<Rightarrow>
         let signed_seconds = (if direction = ''add'' then duration_seconds else - duration_seconds) in
         Some (plain_match ''timer.adjust_time'' ''timer.adjust_time''
           [(''delta_seconds'', PInt signed_seconds),
            (''delta_hhmmss'', PStr (format_duration_hhmmss duration_seconds)),
            (''delta_text'', PStr (format_duration duration_seconds)),
            (''direction'', PStr direction), (''scope'', PStr ''active_for_endpoint''),
            (''requested_at'', PStr (isoformat requested_at))]
           ''Updating the timer.'')))"

definition find_timer_snooze :: "string \<Rightarrow> instant \<Rightarrow> local_match option" where
  "find_timer_snooze s requested_at =
     (case extract_timer_snooze_duration_text s of None \<Rightarrow> None | Some duration_text \<Rightarrow>
       (case parse_duration_seconds duration_text of None \<Rightarrow> None | Some duration_seconds \<Rightarrow>
         let formatted_duration = format_duration duration_seconds in
         Some (plain_match ''timer.snooze'' ''timer.snooze''
           [(''duration_seconds'', PInt duration_seconds),
            (''duration_hhmmss'', PStr (format_duration_hhmmss duration_seconds)),
            (''duration_text'', PStr formatted_duration), (''scope'', PStr ''active_for_endpoint''),
            (''requested_at'', PStr (isoformat requested_at))]
           (''Snoozing timer for '' @ formatted_duration @ ''.''))))"

definition find_endpoint_control :: "string \<Rightarrow> string \<Rightarrow> instant \<Rightarrow> local_match option" where
  "find_endpoint_control s command requested_at =
     (let slots = [(''requested_at'', PStr (isoformat requested_at))];
          say = (\<lambda>reply. Some (plain_match command command slots reply))
      in if command = ''playback.stop'' then (if is_playback_stop_request s then say ''Stopping playback.'' else None)
         else if command = ''playback.repeat'' then (if is_playback_repeat_request s then say ''Repeating that.'' else None)
         else if command = ''endpoint.volume.set'' then
           (case extract_volume_percent s of None \<Rightarrow> None
            | Some volume \<Rightarrow> Some (plain_match command command (aput ''volume_percent'' (PInt volume) slots)
                (''Setting volume to '' @ int_dec volume @ '' percent.'')))
         else if command = ''endpoint.volume.adjust'' then
           (case extract_volume_delta s of None \<Rightarrow> None
            | Some (direction, delta) \<Rightarrow> Some (plain_match command command
                (aput ''delta_percent'' (PInt delta) (aput ''direction'' (PStr direction) slots)) ''Adjusting volume.''))
         else if command = ''endpoint.mute'' then (if is_mute_request s then say ''Muting.'' else None)
         else if command = ''endpoint.unmute'' then (if is_unmute_request s then say ''Unmuting.'' else None)
         else if command = ''endpoint.identify'' then (if is_identify_request s then say ''Identifying this endpoint.'' else None)
         else None)"

section \<open>Slots\<close>

definition is_missing :: "pv \<Rightarrow> bool" where
  "is_missing v \<longleftrightarrow> v = PNone \<or> v = PStr []"

text \<open>
  \<open>int(v)\<close> and \<open>float(v)\<close> with the exception they raise; \<open>rp\<close> of a text is its \<open>repr\<close>. The
  first component of an error says whether it is a \<open>ValueError\<close>.
\<close>

definition int_or_error :: "finder_env \<Rightarrow> pv \<Rightarrow> crash + int" where
  "int_or_error e v = (case py_int v of
     Some i \<Rightarrow> Inr i
   | None \<Rightarrow> (case v of PStr s \<Rightarrow> Inl (Value_error (''invalid literal for int() with base 10: '' @ fe_rp e v)) | _ \<Rightarrow> Inl Type_error))"

definition float_or_error :: "finder_env \<Rightarrow> pv \<Rightarrow> crash + rat" where
  "float_or_error e v = (case num_of v of
     Some x \<Rightarrow> Inr x
   | None \<Rightarrow> (case v of
       PStr s \<Rightarrow> (case fe_float e s of Some x \<Rightarrow> Inr x | None \<Rightarrow> Inl (Value_error (''could not convert string to float: '' @ fe_rp e v)))
     | _ \<Rightarrow> Inl Type_error))"

text \<open>Numbers are equal by value; other values by structure.\<close>

definition py_eq :: "pv \<Rightarrow> pv \<Rightarrow> bool" where
  "py_eq a b = (case (num_of a, num_of b) of (Some x, Some y) \<Rightarrow> x = y | _ \<Rightarrow> a = b)"

definition check_enum :: "string \<Rightarrow> dict \<Rightarrow> pv \<Rightarrow> crash + pv" where
  "check_enum field_name schema value = (case dget schema ''enum'' of
     PList xs \<Rightarrow> if xs \<noteq> [] \<and> \<not> list_ex (py_eq value) xs then Inl (Value_error (field_name @ '':not_in_enum'')) else Inr value
   | _ \<Rightarrow> Inr value)"

text \<open>The minimum is read only after the value is a number; what it raises is not the field's own message.\<close>

definition above_minimum :: "string \<Rightarrow> dict \<Rightarrow> (pv \<Rightarrow> crash + 'a::linorder) \<Rightarrow> 'a \<Rightarrow> crash + unit" where
  "above_minimum field_name schema read value =
     (if dget schema ''minimum'' = PNone then Inr ()
      else case read (dget schema ''minimum'') of
        Inl e \<Rightarrow> Inl e
      | Inr minimum \<Rightarrow> if value < minimum then Inl (Value_error (field_name @ '':below_minimum'')) else Inr ())"

definition coerce_value :: "finder_env \<Rightarrow> string \<Rightarrow> pv \<Rightarrow> dict \<Rightarrow> crash + pv" where
  "coerce_value e field_name value schema =
     (let field_type = lower (strip (py_str (fe_rp e) (py_or (dget schema ''type'') (PStr [])))) in
      if field_type = ''integer'' \<or> field_type = ''int'' then
        (case int_or_error e value of
           Inl _ \<Rightarrow> Inl (Value_error (field_name @ '':invalid_integer''))
         | Inr i \<Rightarrow> (case above_minimum field_name schema (int_or_error e) i of Inl x \<Rightarrow> Inl x | Inr _ \<Rightarrow> Inr (PInt i)))
      else if field_type = ''number'' \<or> field_type = ''float'' then
        (case float_or_error e value of
           Inl _ \<Rightarrow> Inl (Value_error (field_name @ '':invalid_number''))
         | Inr x \<Rightarrow> (case above_minimum field_name schema (float_or_error e) x of Inl y \<Rightarrow> Inl y | Inr _ \<Rightarrow> Inr (PFloat x)))
      else if field_type = ''string'' \<or> field_type = ''datetime'' then
        let s = py_str (fe_rp e) value;
            long_enough = (if dget schema ''min_length'' = PNone then Inr ()
              else case int_or_error e (dget schema ''min_length'') of
                Inl x \<Rightarrow> Inl x
              | Inr n \<Rightarrow> if int (length s) < n then Inl (Value_error (field_name @ '':too_short'')) else Inr ())
        in (case long_enough of Inl x \<Rightarrow> Inl x
            | Inr _ \<Rightarrow> if field_type = ''datetime'' \<and> parse_iso s = None
                then Inl (Value_error (field_name @ '':invalid_datetime'')) else Inr (PStr s))
      else if field_type = ''boolean'' then
        (case value of PBool b \<Rightarrow> Inr value
         | _ \<Rightarrow>
            let t = lower (strip (py_str (fe_rp e) value)) in
            if t \<in> {''1'', ''true'', ''yes'', ''on''} then Inr (PBool True)
            else if t \<in> {''0'', ''false'', ''no'', ''off''} then Inr (PBool False)
            else Inl (Value_error (field_name @ '':invalid_boolean'')))
      else Inr value)"

definition coerce_and_validate_field :: "finder_env \<Rightarrow> string \<Rightarrow> pv \<Rightarrow> dict \<Rightarrow> crash + pv" where
  "coerce_and_validate_field e field_name value schema =
     (case coerce_value e field_name value schema of Inl x \<Rightarrow> Inl x | Inr v \<Rightarrow> check_enum field_name schema v)"

text \<open>\<open>source.split(":", 1)[1]\<close> of a source that starts with \<open>slot:\<close> is what follows it.\<close>

definition extract_field_value :: "finder_env \<Rightarrow> string \<Rightarrow> dict \<Rightarrow> dict \<Rightarrow> instant \<Rightarrow> pv" where
  "extract_field_value e field_name schema slots requested_at =
     (let source = strip (py_str (fe_rp e) (py_or (dget schema ''source'') (PStr field_name))) in
      if source \<in> {''system_time'', ''requested_at'', ''now''} then PStr (isoformat requested_at)
      else if startswith source ''slot:'' then dget slots (drop 5 source)
      else if source = ''duration_hhmmss'' then
        (case dget slots ''duration_seconds'' of
           PInt i \<Rightarrow> PStr (format_duration_hhmmss i)
         | PBool b \<Rightarrow> PStr (format_duration_hhmmss (if b then 1 else 0))
         | _ \<Rightarrow> PNone)
      else if source = ''value'' then dget schema ''value''
      else dget slots source)"

definition extract_field ::
    "finder_env \<Rightarrow> instant \<Rightarrow> bool \<Rightarrow> string \<Rightarrow> pv \<Rightarrow> dict \<Rightarrow> crash + dict" where
  "extract_field e requested_at needed field_name schema_value slots =
     (if \<not> is_dict schema_value then Inl (Value_error (field_name @ '':schema_must_be_object''))
      else
        let schema = dict_of schema_value;
            value = extract_field_value e field_name schema slots requested_at;
            store = (\<lambda>v. case coerce_and_validate_field e field_name v schema of
              Inl x \<Rightarrow> Inl x | Inr w \<Rightarrow> Inr (aput field_name w slots))
        in if \<not> is_missing value then store value
           else if aget schema ''default'' \<noteq> None then store (dget schema ''default'')
           else if needed \<or> dget schema ''required'' = PBool True then Inl (Value_error (field_name @ '':required''))
           else Inr slots)"

fun extract_section ::
    "finder_env \<Rightarrow> instant \<Rightarrow> bool \<Rightarrow> dict \<Rightarrow> dict \<Rightarrow> crash + dict" where
  "extract_section e requested_at needed [] slots = Inr slots"
| "extract_section e requested_at needed ((field_name, schema) # remaining) slots =
     (case extract_field e requested_at needed field_name schema slots of
        Inl x \<Rightarrow> Inl x
      | Inr slots' \<Rightarrow> extract_section e requested_at needed remaining slots')"

definition section_of :: "finder_env \<Rightarrow> instant \<Rightarrow> bool \<Rightarrow> pv \<Rightarrow> dict \<Rightarrow> crash + dict" where
  "section_of e requested_at needed v slots =
     (if v = PNone then Inr slots
      else if \<not> is_dict v then Inl (Value_error ''extraction_section_must_be_object'')
      else extract_section e requested_at needed (dict_of v) slots)"

definition validate_extracted_slots :: "finder_env \<Rightarrow> dict \<Rightarrow> dict \<Rightarrow> instant \<Rightarrow> crash + dict" where
  "validate_extracted_slots e def slots requested_at =
     (let extraction = dict_of (dget def ''extraction'') in
      if extraction = [] then Inr slots
      else case section_of e requested_at True (dget extraction ''required'') slots of
        Inl x \<Rightarrow> Inl x
      | Inr s \<Rightarrow> section_of e requested_at False (dget extraction ''optional'') s)"

section \<open>Templates\<close>

text \<open>
  \<open>template.format(**slots)\<close>. Plain fields \<open>{name}\<close> are modelled; a template with conversions, format
  specifications or attributes is left to the parameter, whose answer is an exception the sources do not
  catch (\<open>None\<close>), a \<open>KeyError\<close> or \<open>ValueError\<close> (\<open>Some None\<close>) or the text. A positional field raises
  \<open>IndexError\<close>, for there are no positional arguments.
\<close>

datatype formatted = Text string | Refused | Out_of_range | Beyond

definition prepend :: "string \<Rightarrow> formatted \<Rightarrow> formatted" where
  "prepend s f = (case f of Text t \<Rightarrow> Text (s @ t) | _ \<Rightarrow> f)"

fun format_from :: "(pv \<Rightarrow> string) \<Rightarrow> dict \<Rightarrow> string option \<Rightarrow> string \<Rightarrow> formatted" where
  "format_from rp slots None [] = Text []"
| "format_from rp slots (Some name) [] = Refused"
| "format_from rp slots (Some name) (c # s) =
     (if c = CHR ''}'' then
        (if list_all is_digit name then Out_of_range
         else case aget slots name of None \<Rightarrow> Refused | Some v \<Rightarrow> prepend (py_str rp v) (format_from rp slots None s))
      else if is_word c then format_from rp slots (Some (name @ [c])) s
      else Beyond)"
| "format_from rp slots None [c] =
     (if c = CHR ''{'' \<or> c = CHR ''}'' then Refused else Text [c])"
| "format_from rp slots None (c # d # s) =
     (if c = CHR ''{'' then (if d = CHR ''{'' then prepend [c] (format_from rp slots None s) else format_from rp slots (Some []) (d # s))
      else if c = CHR ''}'' then (if d = CHR ''}'' then prepend [c] (format_from rp slots None s) else Refused)
      else prepend [c] (format_from rp slots None (d # s)))"

text \<open>The result is a text, a refusal (which the sources catch) or \<open>IndexError\<close>, which they do not.\<close>

definition format_template :: "finder_env \<Rightarrow> string \<Rightarrow> dict \<Rightarrow> crash + string option" where
  "format_template e template slots = (case format_from (fe_rp e) slots None template of
     Text t \<Rightarrow> Inr (Some t)
   | Refused \<Rightarrow> Inr None
   | Out_of_range \<Rightarrow> Inl Index_error
   | Beyond \<Rightarrow> (case fe_format e template slots of None \<Rightarrow> Inl Index_error | Some r \<Rightarrow> Inr r))"

definition format_optional_template :: "finder_env \<Rightarrow> pv \<Rightarrow> dict \<Rightarrow> crash + string option" where
  "format_optional_template e value slots = (case value of
     PStr s \<Rightarrow>
       if strip s = [] then Inr None
       else (case format_template e (strip s) slots of
          Inl x \<Rightarrow> Inl x | Inr None \<Rightarrow> Inr (Some (strip s)) | Inr (Some t) \<Rightarrow> Inr (Some t))
   | _ \<Rightarrow> Inr None)"

definition followup_ttl :: "dict \<Rightarrow> int" where
  "followup_ttl followup =
     (let ttl = (case aget followup ''ttl_seconds'' of None \<Rightarrow> 30
        | Some v \<Rightarrow> (case py_int v of None \<Rightarrow> 30 | Some n \<Rightarrow> n))
      in max 5 (min ttl 300))"

definition extract_conversation_followup :: "finder_env \<Rightarrow> dict \<Rightarrow> dict \<Rightarrow> crash + dict option" where
  "extract_conversation_followup e def slots =
     (let conversation = dict_of (dget def ''conversation'');
          found = (if is_dict (dget def ''followup'') then dget def ''followup'' else dget conversation ''followup'')
      in if \<not> is_dict found then Inr None
         else
           let followup = dict_of found in
           (case format_optional_template e (py_or (dget followup ''prompt'') (dget followup ''prompt_template'')) slots of
              Inl x \<Rightarrow> Inl x | Inr prompt \<Rightarrow>
           (case format_optional_template e (py_or (dget followup ''yes_reply_text'') (dget followup ''affirmative_reply_text'')) slots of
              Inl x \<Rightarrow> Inl x | Inr yes_reply \<Rightarrow>
           (case format_optional_template e (py_or (dget followup ''no_reply_text'') (dget followup ''negative_reply_text'')) slots of
              Inl x \<Rightarrow> Inl x | Inr no_reply \<Rightarrow>
              Inr (Some
                [(''required'', PBool (case aget followup ''required'' of None \<Rightarrow> True | Some v \<Rightarrow> truthy v)),
                 (''prompt'', ostr prompt),
                 (''yes_reply_text'', PStr (str_or yes_reply ''Okay.'')),
                 (''no_reply_text'', PStr (str_or no_reply ''Okay, cancelled.'')),
                 (''ttl_seconds'', PInt (followup_ttl followup)),
                 (''context'', PDict (dict_of (dget followup ''context'')))])))))"

section \<open>Matches of registered intents\<close>

definition record_match ::
    "string \<Rightarrow> string \<Rightarrow> string \<Rightarrow> string option \<Rightarrow> finder_state \<Rightarrow> unit finding" where
  "record_match now intent_id status reason st = (case st of
     None \<Rightarrow> (Inr (), None)
   | Some rg \<Rightarrow> (case record_usage now intent_id status reason rg of
       (Inl x, rg') \<Rightarrow> (Inl (Registry_error x), Some rg')
     | (Inr _, rg') \<Rightarrow> (Inr (), Some rg')))"

text \<open>The fields every match of an intent copies from its record.\<close>

definition registered_match :: "finder_env \<Rightarrow> intent_record \<Rightarrow> string \<Rightarrow> dict \<Rightarrow> string \<Rightarrow> local_match" where
  "registered_match e r command slots reply =
     \<lparr>lm_intent = (if ir_intent_id r = [] then command else ir_intent_id r), lm_command = command, lm_slots = slots,
      lm_reply_text = reply, lm_provider_id = ''registered_intent'',
      lm_intent_name = (case ir_intent_name r of None \<Rightarrow> None | Some n \<Rightarrow> nonempty n),
      lm_service_id = nonempty (ir_service_id r), lm_version = nonempty (ir_version r),
      lm_definition = Some (ir_definition r),
      lm_dispatch = (case dget (ir_definition r) ''dispatch'' of PDict d \<Rightarrow> Some d | _ \<Rightarrow> None),
      lm_reply = (case dget (ir_definition r) ''reply'' of PDict d \<Rightarrow> Some d | _ \<Rightarrow> None),
      lm_conversation_followup = None,
      lm_constraints = Some (ir_constraints r), lm_metadata = Some (ir_metadata r),
      lm_speaker_identity_policy = Some (resolve_intent_speaker_identity_policy (fe_rp e) r)\<rparr>"

definition reply_template :: "finder_env \<Rightarrow> dict \<Rightarrow> string" where
  "reply_template e def =
     (let response = dict_of (dget def ''response''); reply = dict_of (dget def ''reply'')
      in strip (py_str (fe_rp e) (py_or (py_or (py_or (py_or (dget reply ''text'') (dget reply ''text_template''))
           (dget response ''reply_text'')) (dget response ''reply_template'')) (PStr []))))"

definition generic_reply_text ::
    "finder_env \<Rightarrow> intent_record \<Rightarrow> string \<Rightarrow> dict option \<Rightarrow> string \<Rightarrow> string" where
  "generic_reply_text e r command followup formatted =
     (let prompted = (if formatted = [] \<and> followup \<noteq> None \<and> truthy (dget (case followup of None \<Rightarrow> [] | Some d \<Rightarrow> d) ''prompt'')
            then strip (py_str (fe_rp e) (dget (case followup of None \<Rightarrow> [] | Some d \<Rightarrow> d) ''prompt'')) else formatted)
      in if prompted = []
         then str_or (ir_intent_name r) (if ir_intent_id r = [] then command else ir_intent_id r) @ '' accepted.''
         else prompted)"

definition build_generic_match ::
    "finder_env \<Rightarrow> intent_record \<Rightarrow> string \<Rightarrow> dict \<Rightarrow> crash + local_match" where
  "build_generic_match e r command slots =
     (case extract_conversation_followup e (ir_definition r) slots of
        Inl x \<Rightarrow> Inl x
      | Inr followup \<Rightarrow>
          let template = reply_template e (ir_definition r);
              formatted = (if template = [] then Inr (Some []) else format_template e template slots)
          in (case formatted of
                Inl x \<Rightarrow> Inl x
              | Inr t \<Rightarrow>
                  Inr ((registered_match e r command slots
                      (generic_reply_text e r command followup (case t of None \<Rightarrow> template | Some s \<Rightarrow> s)))
                    \<lparr>lm_reply := Some (dict_of (dget (ir_definition r) ''reply'')), lm_conversation_followup := followup\<rparr>)))"

definition build_registered_match ::
    "finder_env \<Rightarrow> string \<Rightarrow> intent_record \<Rightarrow> string \<Rightarrow> dict \<Rightarrow> instant \<Rightarrow> finder_state \<Rightarrow> local_match option finding" where
  "build_registered_match e now r command slots requested_at st =
     (case validate_extracted_slots e (ir_definition r) slots requested_at of
        Inl (Value_error reason) \<Rightarrow>
          (case record_match now (ir_intent_id r) ''invalid_extraction'' (Some reason) st of
             (Inl x, st') \<Rightarrow> (Inl x, st') | (Inr _, st') \<Rightarrow> (Inr None, st'))
      | Inl x \<Rightarrow> (Inl x, st)
      | Inr extracted \<Rightarrow>
          (case record_match now (ir_intent_id r) ''matched'' None st of
             (Inl x, st') \<Rightarrow> (Inl x, st')
           | (Inr _, st') \<Rightarrow> (map_sum id Some (build_generic_match e r command extracted), st')))"

definition build_confirmation_match ::
    "finder_env \<Rightarrow> string \<Rightarrow> intent_record \<Rightarrow> string \<Rightarrow> string \<Rightarrow> dict \<Rightarrow> instant \<Rightarrow> finder_state \<Rightarrow> local_match option finding" where
  "build_confirmation_match e now r command response pending requested_at st =
     (case record_match now (ir_intent_id r) ''matched'' None st of
        (Inl x, st') \<Rightarrow> (Inl x, st')
      | (Inr _, st') \<Rightarrow>
          let pend = (\<lambda>k. PStr (py_str (fe_rp e) (py_or (dget pending k) (PStr []))));
              slots = [(''response'', PStr response), (''pending_intent_id'', pend ''intent_id''),
                (''pending_command'', pend ''command''), (''pending_prompt'', pend ''prompt''),
                (''requested_at'', PStr (isoformat requested_at))];
              reply_key = (if response = ''yes'' then ''yes_reply_text'' else ''no_reply_text'');
              default_reply = (if response = ''yes'' then ''Okay.'' else ''Okay, cancelled.'');
              reply = strip (py_str (fe_rp e) (py_or (dget pending reply_key) (PStr default_reply)))
          in (Inr (Some (registered_match e r command slots reply)), st'))"

definition allows_global_short_intent :: "finder_env \<Rightarrow> intent_record \<Rightarrow> bool" where
  "allows_global_short_intent e r =
     list_ex (\<lambda>c. lower (strip (py_str (fe_rp e) (py_or (py_or (dget c ''short_intent_scope'')
         (dget c ''short_utterance_scope'')) (PStr [])))) = ''global'')
       [ir_constraints r, ir_metadata r, ir_definition r, dict_of (dget (ir_definition r) ''matcher'')]"

definition matches_examples :: "string \<Rightarrow> pv \<Rightarrow> bool" where
  "matches_examples s examples =
     list_ex (\<lambda>x. case x of PStr t \<Rightarrow> normalize_text t = s | _ \<Rightarrow> False) (list_of examples)"

text \<open>\<open>command.rsplit(".", 1)[-1]\<close>\<close>

definition last_segment :: "string \<Rightarrow> string" where
  "last_segment s = rev (takeWhile (\<lambda>c. c \<noteq> CHR ''.'') (rev s))"

definition match_command :: "finder_env \<Rightarrow> intent_record \<Rightarrow> string" where
  "match_command e r = strip (py_str (fe_rp e)
     (py_or (py_or (dget (dict_of (dget (ir_definition r) ''dispatch'')) ''command'') (PStr (ir_intent_id r))) (PStr [])))"

text \<open>The patterns of an intent, the first that matches; a pattern that does not compile is noted.\<close>

fun match_patterns ::
    "finder_env \<Rightarrow> string \<Rightarrow> intent_record \<Rightarrow> string \<Rightarrow> string \<Rightarrow> instant \<Rightarrow> pv list \<Rightarrow> finder_state \<Rightarrow> local_match option finding" where
  "match_patterns e now r command s requested_at [] st = (Inr None, st)"
| "match_patterns e now r command s requested_at (p # ps) st =
     (case p of
        PStr pattern \<Rightarrow>
          if strip pattern = [] then match_patterns e now r command s requested_at ps st
          else (case fe_compile e pattern of
             None \<Rightarrow>
               (case record_match now (ir_intent_id r) ''invalid_pattern'' (Some pattern) st of
                  (Inl x, st') \<Rightarrow> (Inl x, st')
                | (Inr _, st') \<Rightarrow> match_patterns e now r command s requested_at ps st')
           | Some rx \<Rightarrow>
               (case re_match rx s of
                  None \<Rightarrow> match_patterns e now r command s requested_at ps st
                | Some c \<Rightarrow> build_registered_match e now r command (map (\<lambda>(k, v). (k, PStr v)) c) requested_at st))
      | _ \<Rightarrow> match_patterns e now r command s requested_at ps st)"

definition endpoint_commands :: "string list" where
  "endpoint_commands = [''playback.stop'', ''playback.repeat'', ''endpoint.volume.set'', ''endpoint.volume.adjust'',
     ''endpoint.mute'', ''endpoint.unmute'', ''endpoint.identify'']"

definition build_found ::
    "finder_env \<Rightarrow> string \<Rightarrow> intent_record \<Rightarrow> string \<Rightarrow> local_match option \<Rightarrow> instant \<Rightarrow> finder_state \<Rightarrow> local_match option finding" where
  "build_found e now r command found requested_at st = (case found of
     None \<Rightarrow> (Inr None, st)
   | Some m \<Rightarrow> build_registered_match e now r command (lm_slots m) requested_at st)"

definition match_registered_intent ::
    "finder_env \<Rightarrow> string \<Rightarrow> intent_record \<Rightarrow> string \<Rightarrow> instant \<Rightarrow> dict option \<Rightarrow> finder_state \<Rightarrow> local_match option finding" where
  "match_registered_intent e now r s requested_at pending st =
     (let matcher = dict_of (dget (ir_definition r) ''matcher'');
          command = match_command e r;
          kind = (\<lambda>t c. dget matcher ''type'' = PStr t \<or> command = c \<or> ir_intent_id r = c);
          found = (\<lambda>m. build_found e now r command m requested_at st)
      in if command = [] then (Inr None, st)
         else if kind ''builtin_confirmation'' ''voice.confirm.yes'' \<or> kind ''builtin_confirmation'' ''voice.confirm.no'' then
           let response = lower (strip (py_str (fe_rp e) (py_or (dget matcher ''response'') (PStr (last_segment command))))) in
           if response \<noteq> ''yes'' \<and> response \<noteq> ''no'' then (Inr None, st)
           else if \<not> is_confirmation_response s response then (Inr None, st)
           else (case pending of
               Some (p # ps) \<Rightarrow> build_confirmation_match e now r command response (p # ps) requested_at st
             | _ \<Rightarrow>
               (case record_match now (ir_intent_id r) ''ignored'' (Some ''missing_pending_followup'') st of
                  (Inl x, st') \<Rightarrow> (Inl x, st') | (Inr _, st') \<Rightarrow> (Inr None, st')))
         else if is_short_intent_utterance s \<and> (pending = None \<or> pending = Some []) \<and> \<not> allows_global_short_intent e r then
           (case record_match now (ir_intent_id r) ''ignored'' (Some ''short_intent_requires_followup'') st of
              (Inl x, st') \<Rightarrow> (Inl x, st') | (Inr _, st') \<Rightarrow> (Inr None, st'))
         else if kind ''builtin_timer'' ''timer.create'' then found (find_timer_create s requested_at)
         else if kind ''builtin_time_query'' ''voice.time.query'' then found (find_time_query e s requested_at)
         else if kind ''builtin_date_query'' ''voice.date.query'' then found (find_date_query e s requested_at)
         else if kind ''builtin_timer_status'' ''timer.status'' then found (find_timer_status s requested_at)
         else if kind ''builtin_timer_control'' ''timer.stop'' \<or> kind ''builtin_timer_control'' ''timer.cancel'' then
           found (find_timer_control s (py_str (fe_rp e) (py_or (dget matcher ''action'') (PStr (last_segment command)))) requested_at)
         else if kind ''builtin_timer_adjust_time'' ''timer.adjust_time'' then found (find_timer_adjust_time s requested_at)
         else if kind ''builtin_timer_snooze'' ''timer.snooze'' then found (find_timer_snooze s requested_at)
         else if dget matcher ''type'' = PStr ''builtin_endpoint_control'' \<or> command \<in> set endpoint_commands then
           found (find_endpoint_control s command requested_at)
         else if matches_examples s (dget (ir_definition r) ''utterance_examples'') then
           build_registered_match e now r command [] requested_at st
         else match_patterns e now r command s requested_at (list_of (dget (ir_definition r) ''patterns'')) st)"

section \<open>Finding an intent\<close>

fun find_registered ::
    "finder_env \<Rightarrow> string \<Rightarrow> string \<Rightarrow> instant \<Rightarrow> dict option \<Rightarrow> intent_record list \<Rightarrow> finder_state \<Rightarrow> local_match option finding" where
  "find_registered e now s requested_at pending [] st = (Inr None, st)"
| "find_registered e now s requested_at pending (r # rs) st =
     (case match_registered_intent e now r s requested_at pending st of
        (Inr None, st') \<Rightarrow> find_registered e now s requested_at pending rs st'
      | result \<Rightarrow> result)"

definition candidate_intents :: "finder_state \<Rightarrow> intent_record list" where
  "candidate_intents st = (case st of None \<Rightarrow> [] | Some rg \<Rightarrow> active_intents rg)"

definition find_local ::
    "finder_env \<Rightarrow> string \<Rightarrow> string \<Rightarrow> instant \<Rightarrow> dict option \<Rightarrow> finder_state \<Rightarrow> local_match option finding" where
  "find_local e now s requested_at pending st =
     (let normalized = normalize_text s in
      if normalized = [] then (Inr None, st)
      else case find_registered e now normalized requested_at pending (candidate_intents st) st of
        (Inr None, None) \<Rightarrow>
          (Inr (first_some
            ([find_timer_create normalized requested_at, find_timer_status normalized requested_at,
              find_timer_control normalized ''stop'' requested_at, find_timer_control normalized ''cancel'' requested_at,
              find_timer_adjust_time normalized requested_at, find_timer_snooze normalized requested_at,
              find_date_query e normalized requested_at]
             @ map (\<lambda>c. find_endpoint_control normalized c requested_at) endpoint_commands)), None)
      | result \<Rightarrow> result)"

section \<open>Declared and classified intents\<close>

definition find_ai_catalog_intent :: "string \<Rightarrow> finder_state \<Rightarrow> intent_record option" where
  "find_ai_catalog_intent value st =
     (let wanted = lower (strip value) in
      if wanted = [] then None
      else find (\<lambda>r. lower (strip (ir_intent_id r)) = wanted \<or> lower (strip (str_or (ir_intent_name r) [])) = wanted)
        (candidate_intents st))"

definition slots_for_ai_match :: "finder_env \<Rightarrow> string \<Rightarrow> dict \<Rightarrow> instant \<Rightarrow> dict" where
  "slots_for_ai_match e command slots requested_at =
     (if command = ''voice.time.query'' then
        aput ''timezone'' (PStr (zone_name e requested_at))
          (aput ''time_text'' (PStr (format_clock_time (local_time e requested_at))) slots)
      else if command = ''voice.date.query'' then
        aput ''timezone'' (PStr (zone_name e requested_at))
          (aput ''date_iso'' (PStr (iso_date (local_day (local_time e requested_at))))
            (aput ''date_text'' (PStr (format_calendar_date (local_time e requested_at))) slots))
      else if command = ''timer.create'' then
        let duration_text = strip (py_str (fe_rp e) (py_or (py_or (dget slots ''duration_text'') (dget slots ''duration'')) (PStr [])));
            is_int = (case dget slots ''duration_seconds'' of PInt _ \<Rightarrow> True | PBool _ \<Rightarrow> True | _ \<Rightarrow> False)
        in if duration_text \<noteq> [] \<and> \<not> is_int then
             (case parse_duration_seconds (lower duration_text) of
                None \<Rightarrow> slots
              | Some n \<Rightarrow> aput ''duration_text'' (PStr (format_duration n)) (aput ''duration_seconds'' (PInt n) slots))
           else slots
      else slots)"

definition match_declared_intent ::
    "finder_env \<Rightarrow> string \<Rightarrow> string \<Rightarrow> instant \<Rightarrow> dict option \<Rightarrow> finder_state \<Rightarrow> local_match option finding" where
  "match_declared_intent e now intent_id requested_at slots st =
     (case find_ai_catalog_intent intent_id st of
        None \<Rightarrow> (Inr None, st)
      | Some r \<Rightarrow>
          let command = match_command e r in
          if command = [] then (Inr None, st)
          else (case build_registered_match e now r command
                   (slots_for_ai_match e command (case slots of None \<Rightarrow> [] | Some d \<Rightarrow> d) requested_at) requested_at st of
              (Inr (Some m), st') \<Rightarrow> (Inr (Some (m\<lparr>lm_provider_id := ''declared_ui_intent''\<rparr>)), st')
            | result \<Rightarrow> result))"

definition normalize_ai_arguments :: "dict \<Rightarrow> dict" where
  "normalize_ai_arguments arguments =
     fold (\<lambda>(k, v) slots. if strip k = [] \<or> is_missing v then slots else aput (strip k) v slots) arguments []"

definition coerce_confidence :: "finder_env \<Rightarrow> pv \<Rightarrow> rat option" where
  "coerce_confidence e v = (case float_or_error e v of Inl _ \<Rightarrow> None | Inr x \<Rightarrow> Some (max 0 (min 1 x)))"

definition match_ai_classification ::
    "finder_env \<Rightarrow> string \<Rightarrow> dict \<Rightarrow> instant \<Rightarrow> string \<Rightarrow> finder_state \<Rightarrow> local_match option finding" where
  "match_ai_classification e now classification requested_at provider_id st =
     (if lower (strip (py_str (fe_rp e) (py_or (dget classification ''type'') (PStr [])))) \<noteq> ''intent'' then (Inr None, st)
      else case find_ai_catalog_intent (py_str (fe_rp e) (py_or (dget classification ''intent'') (PStr []))) st of
        None \<Rightarrow> (Inr None, st)
      | Some r \<Rightarrow>
          let command = match_command e r;
              slots = normalize_ai_arguments (dict_of (dget classification ''arguments''))
          in if command = [] then (Inr None, st)
             else (case build_registered_match e now r command (slots_for_ai_match e command slots requested_at) requested_at st of
                 (Inr (Some m), st') \<Rightarrow>
                   let confidence = [(''confidence'', onum (coerce_confidence e (dget classification ''confidence''))), (''type'', PStr ''intent'')];
                       metadata = aput ''ai_intent_classifier'' (PDict confidence) (case lm_metadata m of None \<Rightarrow> [] | Some d \<Rightarrow> d)
                   in (Inr (Some (m\<lparr>lm_provider_id := provider_id, lm_metadata := Some metadata\<rparr>)), st')
               | result \<Rightarrow> result))"

section \<open>What the finder says of itself\<close>

definition field_is_system_supplied :: "finder_env \<Rightarrow> dict \<Rightarrow> bool" where
  "field_is_system_supplied e schema =
     (let source = strip (py_str (fe_rp e) (py_or (dget schema ''source'') (PStr [])))
      in source \<in> {''system_time'', ''requested_at'', ''now'', ''value''} \<or> startswith source ''system:'')"

definition type_name :: "finder_env \<Rightarrow> dict \<Rightarrow> string" where
  "type_name e schema = str_or (nonempty (strip (py_str (fe_rp e) (py_or (dget schema ''type'') (PStr ''string''))))) ''string''"

fun section_arguments ::
    "finder_env \<Rightarrow> bool \<Rightarrow> dict \<Rightarrow> string list \<times> string list \<Rightarrow> string list \<times> string list" where
  "section_arguments e needed [] acc = acc"
| "section_arguments e needed ((field_name, v) # remaining) (arguments, seen) =
     (let schema = dict_of v; name = strip field_name in
      if \<not> is_dict v \<or> field_is_system_supplied e schema \<or> name = [] \<or> name \<in> set seen
      then section_arguments e needed remaining (arguments, seen)
      else
        let requirement = (if needed \<or> dget schema ''required'' = PBool True then ''required'' else ''optional'');
            detail = name @ '': '' @ requirement @ '' '' @ type_name e schema;
            detail' = (case dget schema ''enum'' of
                PList xs \<Rightarrow> detail @ ''; one of '' @ join '', '' (map (py_str (fe_rp e)) xs)
              | _ \<Rightarrow> detail)
        in section_arguments e needed remaining (arguments @ [detail'], seen @ [name]))"

fun slot_arguments :: "finder_env \<Rightarrow> dict \<Rightarrow> string list \<Rightarrow> string list" where
  "slot_arguments e [] seen = []"
| "slot_arguments e ((field_name, v) # remaining) seen =
     (let name = strip field_name in
      if \<not> is_dict v \<or> name = [] \<or> name \<in> set seen \<or> name = ''requested_at'' then slot_arguments e remaining seen
      else (name @ '': optional '' @ type_name e (dict_of v)) # slot_arguments e remaining (seen @ [name]))"

definition intent_catalog_arguments :: "finder_env \<Rightarrow> dict \<Rightarrow> string list" where
  "intent_catalog_arguments e def =
     (let command = strip (py_str (fe_rp e) (py_or (dget (dict_of (dget def ''dispatch'')) ''command'') (PStr []))) in
      if command = ''timer.create'' then [''duration_text: required string'']
      else if command = ''timer.adjust_time'' then [''delta_text: required string'', ''direction: required string; one of add, remove'']
      else if command = ''timer.snooze'' then [''duration_text: required string'']
      else
        let extraction = dict_of (dget def ''extraction'');
            (arguments, seen) = section_arguments e False (dict_of (dget extraction ''optional''))
              (section_arguments e True (dict_of (dget extraction ''required'')) ([], []))
        in if arguments \<noteq> [] then arguments
           else slot_arguments e (dict_of (dget def ''slots'')) seen)"

definition intent_catalog_description :: "finder_env \<Rightarrow> intent_record \<Rightarrow> string" where
  "intent_catalog_description e r =
     (let def = ir_definition r;
          name = str_or (ir_intent_name r) (ir_intent_id r);
          described = (case py_or (dget def ''description'') (dget def ''summary'') of PStr s \<Rightarrow> strip s | _ \<Rightarrow> []);
          examples = concat (map (\<lambda>x. case x of PStr t \<Rightarrow> if strip t \<noteq> [] then [strip t] else [] | _ \<Rightarrow> [])
            (take 4 (list_of (dget def ''utterance_examples''))));
          example_text = join '', '' examples
      in if described \<noteq> [] then described
         else if example_text \<noteq> [] then name @ '' intent. Examples: '' @ example_text @ ''.''
         else name @ '' intent.'')"

definition newline :: string where
  "newline = [char_of (10 :: nat)]"

definition catalog_entry :: "finder_env \<Rightarrow> intent_record \<Rightarrow> string list" where
  "catalog_entry e r =
     (let intent_id = strip (ir_intent_id r); arguments = intent_catalog_arguments e (ir_definition r) in
      if intent_id = [] then []
      else [''- '' @ intent_id, ''  Description: '' @ intent_catalog_description e r,
            (if arguments = [] then ''  Arguments: none'' else ''  Arguments:'')]
           @ map (\<lambda>a. ''  '' @ a) arguments @ [[]])"

definition ai_intent_catalog :: "finder_env \<Rightarrow> finder_state \<Rightarrow> string" where
  "ai_intent_catalog e st =
     (let intents = candidate_intents st in
      if intents = [] then
        join newline [''- timer.create'', ''  Description: User asks to set, start, create, or make a timer.'',
          ''  Arguments:'', ''  duration_text: required string'', [], ''- voice.time.query'',
          ''  Description: User asks for the current local time.'', ''  Arguments: none'', [], ''- voice.date.query'',
          ''  Description: User asks for today\\'s date, day, month, or year.'', ''  Arguments: none'']
      else strip (join newline (concat (map (catalog_entry e) intents))))"

record finder_status =
  fs_provider :: string
  fs_healthy :: bool
  fs_configured :: bool
  fs_registered_count :: "nat option"
  fs_active_count :: "nat option"
  fs_intents :: "string list"

definition local_finder_status :: "finder_state \<Rightarrow> finder_status" where
  "local_finder_status st = (case st of
     Some rg \<Rightarrow>
       (let snapshot = registry_snapshot rg in
        \<lparr>fs_provider = ''registered_intent'', fs_healthy = True, fs_configured = True,
         fs_registered_count = Some (sn_registered_count snapshot), fs_active_count = Some (sn_active_count snapshot),
         fs_intents = map ir_intent_id (filter (\<lambda>r. ir_status r = ''active'') (sn_intents snapshot))\<rparr>)
   | None \<Rightarrow>
       \<lparr>fs_provider = ''local_pattern'', fs_healthy = True, fs_configured = True,
        fs_registered_count = None, fs_active_count = None,
        fs_intents = [''timer.create'', ''timer.status'', ''timer.stop'', ''timer.cancel'', ''timer.adjust_time'',
          ''timer.snooze'', ''voice.date.query''] @ endpoint_commands\<rparr>)"

end
