(* ===== verification/FinderFacts.thy ===== *)
theory FinderFacts
  imports IntentFinder RegistryRuns Durations
begin

text \<open>
  What the finder guarantees: whatever it matches is an active intent with the policy of its record, a single
  short word starts nothing on its own, the slots of a match satisfy the intent's schema, and looking
  for an intent changes nothing in the registry but the usage counts.
\<close>

section \<open>Where a match comes from\<close>

definition match_of :: "finder_env \<Rightarrow> intent_record \<Rightarrow> local_match \<Rightarrow> bool" where
  "match_of e r m \<longleftrightarrow> lm_command m = match_command e r
     \<and> lm_speaker_identity_policy m = Some (resolve_intent_speaker_identity_policy (fe_rp e) r)
     \<and> lm_constraints m = Some (ir_constraints r) \<and> lm_definition m = Some (ir_definition r)"

lemma registered_match_of: "match_of e r (registered_match e r (match_command e r) slots reply)"
  by (simp add: match_of_def registered_match_def)

lemma build_generic_match_of:
  "build_generic_match e r (match_command e r) slots = Inr m \<Longrightarrow> match_of e r m"
  by (auto simp: build_generic_match_def Let_def match_of_def registered_match_def split: sum.splits if_splits)

lemma map_sum_Some: "map_sum id Some x = Inr (Some m) \<longleftrightarrow> x = Inr m"
  by (cases x) auto

lemma build_registered_match_of:
  "build_registered_match e now r (match_command e r) slots t st = (Inr (Some m), st') \<Longrightarrow> match_of e r m"
  by (auto simp: build_registered_match_def map_sum_Some split: sum.splits crash.splits prod.splits
      dest: build_generic_match_of)

lemma build_found_of:
  "build_found e now r (match_command e r) found t st = (Inr (Some m), st') \<Longrightarrow> match_of e r m"
  by (auto simp: build_found_def split: option.splits dest: build_registered_match_of)

lemma match_patterns_of:
  "match_patterns e now r (match_command e r) s t ps st = (Inr (Some m), st') \<Longrightarrow> match_of e r m"
proof (induction ps arbitrary: st)
  case (Cons p ps)
  then show ?case
    by (auto split: pv.splits if_splits option.splits sum.splits prod.splits dest: build_registered_match_of)
qed simp

lemma build_confirmation_match_of:
  "build_confirmation_match e now r (match_command e r) resp pending t st = (Inr (Some m), st') \<Longrightarrow> match_of e r m"
  by (auto simp: build_confirmation_match_def Let_def registered_match_of split: sum.splits prod.splits)

lemma match_registered_of:
  assumes "match_registered_intent e now r s t pending st = (Inr (Some m), st')"
  shows "match_of e r m"
    "is_short_intent_utterance s \<Longrightarrow> pending = None \<or> pending = Some [] \<Longrightarrow> allows_global_short_intent e r"
  using assms unfolding match_registered_intent_def Let_def
  by (auto split: if_splits option.splits list.splits sum.splits prod.splits
      dest: build_confirmation_match_of build_found_of build_registered_match_of match_patterns_of)

lemma find_registered_of:
  assumes "find_registered e now s t pending rs st = (Inr (Some m), st')"
  shows "\<exists>r \<in> set rs. match_of e r m \<and>
    (is_short_intent_utterance s \<and> (pending = None \<or> pending = Some []) \<longrightarrow> allows_global_short_intent e r)"
  using assms
proof (induction rs arbitrary: st)
  case (Cons r rs)
  show ?case
  proof (cases "\<exists>st1. match_registered_intent e now r s t pending st = (Inr None, st1)")
    case True
    then obtain st1 where "match_registered_intent e now r s t pending st = (Inr None, st1)" by blast
    with Cons.prems have "find_registered e now s t pending rs st1 = (Inr (Some m), st')" by simp
    from Cons.IH [OF this] show ?thesis by auto
  next
    case False
    then have "match_registered_intent e now r s t pending st = (Inr (Some m), st')"
      using Cons.prems by (auto split: prod.splits sum.splits option.splits)
    from match_registered_of [OF this] show ?thesis by auto
  qed
qed simp

section \<open>The registry is only counted in\<close>

definition core :: "intent_record \<Rightarrow> intent_record" where
  "core r = r\<lparr>ir_usage := [], ir_updated_at := []\<rparr>"

text \<open>\<open>counted st st'\<close>: a settled registry stays settled, and its records differ in nothing but usage.\<close>

definition counted :: "finder_state \<Rightarrow> finder_state \<Rightarrow> bool" where
  "counted st st' \<longleftrightarrow> (case (st, st') of
     (None, None) \<Rightarrow> True
   | (Some a, Some b) \<Rightarrow> intents_ok a \<longrightarrow> intents_ok b \<and> map core (is_intents (rg_state b)) = map core (is_intents (rg_state a))
   | _ \<Rightarrow> False)"

interpretation counting: evolution counted
  by unfold_locales (auto simp: counted_def split: option.splits)

lemma usage_counted:
  assumes "intents_ok rg"
  shows "intents_ok (snd (record_usage now i status reason rg))
    \<and> map core (is_intents (rg_state (snd (record_usage now i status reason rg)))) = map core (is_intents (rg_state rg))"
proof -
  consider "snd (record_usage now i status reason rg) = rg"
    | r u where "find_intent i rg = Some r" "changed_to (r\<lparr>ir_usage := u, ir_updated_at := now\<rparr>) rg (record_usage now i status reason rg)"
    using record_usage_ok [OF assms, of now i status reason] by fastforce
  then show ?thesis
  proof cases
    case 1
    then show ?thesis using assms by simp
  next
    case (2 r u)
    let ?n = "r\<lparr>ir_usage := u, ir_updated_at := now\<rparr>"
    have r: "r \<in> set (is_intents (rg_state rg))" "valid_record r" using settled_find [OF assms 2(1)] by auto
    have "core (normal_record ?n) = core r"
      using r(2) by (cases r) (simp add: valid_record_eq normal_record_id core_def normal_record_def)
    moreover have "q = r" if "q \<in> set (is_intents (rg_state rg))" "ir_intent_id q = ir_intent_id r" for q
      using assms that r(1) by (auto simp: intents_ok_def intents_settled_def distinct_map inj_on_def)
    ultimately have "map core (map (\<lambda>q. if ir_intent_id q = ir_intent_id ?n then normal_record ?n else q) (is_intents (rg_state rg)))
        = map core (is_intents (rg_state rg))"
      by (intro map_same_key) auto
    then show ?thesis using 2(2) by (simp add: changed_to_def)
  qed
qed

lemma record_match_counted: "counted st (snd (record_match now i status reason st))"
  using usage_counted [of "the st" now i status reason]
  by (auto simp: record_match_def counted_def split: option.splits prod.splits sum.splits)

lemma build_registered_counted: "counted st (snd (build_registered_match e now r command slots t st))"
  using record_match_counted counting.refl_R
  by (auto simp: build_registered_match_def split: sum.splits crash.splits prod.splits) (metis snd_conv)+

lemma record_match_counted':
  "record_match now i status reason st = (res, st') \<Longrightarrow> counted st st'"
  using record_match_counted [of st now i status reason] by simp

lemma build_confirmation_counted: "counted st (snd (build_confirmation_match e now r command resp pending t st))"
  by (auto simp: build_confirmation_match_def Let_def split: sum.splits prod.splits dest: record_match_counted')

lemma after_note:
  assumes "\<And>st'. counted st st' \<Longrightarrow> counted st (snd (k st'))"
  shows "counted st (snd (case record_match now i status reason st of (Inl x, st') \<Rightarrow> (Inl x, st') | (Inr u, st') \<Rightarrow> k st'))"
  using assms record_match_counted [of st now i status reason]
  by (cases "record_match now i status reason st") (simp split: sum.splits)

lemma match_patterns_counted: "counted st (snd (match_patterns e now r command s t ps st))"
proof (induction ps arbitrary: st)
  case (Cons p ps)
  show ?case
  proof (cases "\<exists>pattern. p = PStr pattern \<and> strip pattern \<noteq> []")
    case True
    then obtain pattern where p: "p = PStr pattern" "strip pattern \<noteq> []" by blast
    show ?thesis
    proof (cases "fe_compile e pattern")
      case None
      show ?thesis
        by (simp only: match_patterns.simps pv.case p if_False None option.case)
          (rule after_note, rule counting.trans_R [OF _ Cons.IH])
    next
      case (Some rx)
      then show ?thesis using p Cons.IH [of st] build_registered_counted by (cases "re_match rx s") simp_all
    qed
  next
    case False
    then show ?thesis using Cons.IH [of st] by (cases p) auto
  qed
qed (simp add: counting.refl_R)

lemma build_found_counted: "counted st (snd (build_found e now r command found t st))"
  by (simp add: build_found_def counting.refl_R build_registered_counted split: option.splits)

lemma counted_cases:
  "counted st (snd a) \<Longrightarrow> counted st (snd b) \<Longrightarrow> counted st (snd (if c then a else b))"
  "counted st (snd a) \<Longrightarrow> (\<And>p ps. counted st (snd (f p ps))) \<Longrightarrow>
     counted st (snd (case x of Some (p # ps) \<Rightarrow> f p ps | _ \<Rightarrow> a))"
  "counted st (snd (res, st))"
  by (auto simp: counting.refl_R split: option.splits list.splits)

lemma noted_and_passed: "counted st (snd (case record_match now i status reason st of
    (Inl x, st') \<Rightarrow> (Inl x, st') | (Inr u, st') \<Rightarrow> (res, st')))"
  by (rule after_note) simp

lemma match_registered_counted: "counted st (snd (match_registered_intent e now r s t pending st))"
  unfolding match_registered_intent_def Let_def
  by (intro counted_cases noted_and_passed build_found_counted build_registered_counted match_patterns_counted
      build_confirmation_counted)

lemma find_registered_counted: "counted st (snd (find_registered e now s t pending rs st))"
proof (induction rs arbitrary: st)
  case (Cons r rs)
  obtain res st1 where m: "match_registered_intent e now r s t pending st = (res, st1)" by force
  have "counted st st1" using match_registered_counted [of st e now r s t pending] m by simp
  then have "counted st (snd (find_registered e now s t pending rs st1))" using counting.trans_R Cons.IH by blast
  with \<open>counted st st1\<close> show ?case by (simp add: m split: sum.splits option.splits)
qed (simp add: counting.refl_R)

lemma find_local_counted: "counted st (snd (find_local e now s t pending st))"
  using find_registered_counted [of st e now "normalize_text s" t pending "candidate_intents st"]
  by (auto simp: find_local_def Let_def counting.refl_R split: sum.splits option.splits prod.splits)

lemma match_declared_counted: "counted st (snd (match_declared_intent e now i t slots st))"
proof -
  have "counted st st'" if "build_registered_match e now r command sl t st = (res, st')" for r command sl res st'
    using build_registered_counted [of st e now r command sl t] that by simp
  then show ?thesis
    by (auto simp: match_declared_intent_def Let_def counting.refl_R split: option.splits sum.splits prod.splits)
qed

lemma match_ai_counted: "counted st (snd (match_ai_classification e now c t provider st))"
proof -
  have "counted st st'" if "build_registered_match e now r command sl t st = (res, st')" for r command sl res st'
    using build_registered_counted [of st e now r command sl t] that by simp
  then show ?thesis
    by (auto simp: match_ai_classification_def Let_def counting.refl_R split: option.splits sum.splits prod.splits)
qed

lemma find_local_of:
  assumes "find_local e now s t pending (Some rg) = (Inr (Some m), st')"
  shows "\<exists>r \<in> set (active_intents rg). match_of e r m \<and>
    (is_short_intent_utterance (normalize_text s) \<and> (pending = None \<or> pending = Some []) \<longrightarrow> allows_global_short_intent e r)"
proof -
  have "find_registered e now (normalize_text s) t pending (active_intents rg) (Some rg) = (Inr (Some m), st')"
    using assms find_registered_counted [of "Some rg" e now "normalize_text s" t pending "active_intents rg"]
    by (auto simp: find_local_def Let_def candidate_intents_def counted_def split: if_splits sum.splits option.splits prod.splits)
  from find_registered_of [OF this] show ?thesis .
qed

section \<open>Slots\<close>










section \<open>An example\<close>

text \<open>A node in UTC whose registry holds the intents that stop a timer and set the volume.\<close>

definition ex_finder :: finder_env where
  "ex_finder = \<lparr>fe_zone = (\<lambda>_. (0, Some ''UTC'')), fe_compile = (\<lambda>_. None), fe_format = (\<lambda>_ _. None),
     fe_float = (\<lambda>_. None), fe_rp = (\<lambda>_. [])\<rparr>"

definition ex_stop :: intent_record where
  "ex_stop = built_in_timer_control_intent ''stop'' ''2026-01-01T00:00:00+00:00''"

definition ex_volume :: intent_record where
  "ex_volume = \<lparr>ir_intent_id = ''endpoint.volume.set'', ir_intent_name = Some ''Set endpoint volume'',
     ir_service_id = ''voice.local_intents'', ir_owner_service = Some ''hexevoice'', ir_owner_client_id = None,
     ir_version = ''v1'', ir_status = ''active'', ir_privacy_class = ''internal'', ir_access_scope = ''service'',
     ir_definition = endpoint_control_intent_definition ''endpoint.volume.set''
       \<lparr>ec_name = [], ec_examples = [], ec_patterns = [], ec_command = ''endpoint.volume.set'',
        ec_reply = ''Setting volume to {volume_percent} percent.''\<rparr>,
     ir_constraints = [], ir_metadata = [], ir_reviews = [], ir_usage = [], ir_created_at = [], ir_updated_at = []\<rparr>"

definition ex_registry :: intent_registry where
  "ex_registry =
     (let st = \<lparr>is_schema_version = ''1.0'', is_intents = [ex_stop, ex_volume], is_updated_at = None\<rparr>
      in \<lparr>rg_state = st, rg_file = Some st\<rparr>)"

definition command_of :: "local_match option finding \<Rightarrow> string option" where
  "command_of res = (case fst res of Inr (Some m) \<Rightarrow> Some (lm_command m) | _ \<Rightarrow> None)"

lemma ex_stop_found: "command_of (find_local ex_finder [] ''Stop!'' 0 None (Some ex_registry)) = Some ''timer.stop''"
  by code_simp


lemma command_of_Some: "command_of res = Some c \<Longrightarrow> \<exists>m. res = (Inr (Some m), snd res) \<and> lm_command m = c"
  by (cases res) (auto simp: command_of_def split: sum.splits option.splits)

section \<open>Properties\<close>

text \<open>C29. Whatever the finder matches, from speech, from a declared action or from a classification, is an
  intent of the registry that is active at that moment, and the match carries that intent's command,
  constraints and speaker policy; so a disabled intent, such as the administrative ones before they are enabled, cannot be triggered.\<close>

theorem matches_are_active:
  assumes "find_local e now s t pending (Some rg) = (Inr (Some m), st') \<or>
    match_declared_intent e now i t slots (Some rg) = (Inr (Some m), st') \<or>
    match_ai_classification e now classification t provider (Some rg) = (Inr (Some m), st')"
  shows "\<exists>r \<in> set (is_intents (rg_state rg)). ir_status r = ''active'' \<and> lm_command m = match_command e r
    \<and> lm_constraints m = Some (ir_constraints r)
    \<and> lm_speaker_identity_policy m = Some (resolve_intent_speaker_identity_policy (fe_rp e) r)"
proof -
  have active: "r \<in> set (is_intents (rg_state rg)) \<and> ir_status r = ''active''" if "r \<in> set (active_intents rg)" for r
    using that by (simp add: active_intents_def ACTIVE_INTENT_STATES_def)
  have cat: "r \<in> set (active_intents rg)" if "find_ai_catalog_intent x (Some rg) = Some r" for x r
    using that by (auto simp: find_ai_catalog_intent_def candidate_intents_def Let_def find_Some_iff split: if_splits)
  from assms have "\<exists>r \<in> set (active_intents rg). match_of e r m"
  proof (elim disjE)
    assume "find_local e now s t pending (Some rg) = (Inr (Some m), st')"
    from find_local_of [OF this] show ?thesis by blast
  next
    assume "match_declared_intent e now i t slots (Some rg) = (Inr (Some m), st')"
    then show ?thesis
      by (auto simp: match_declared_intent_def Let_def match_of_def split: option.splits if_splits sum.splits prod.splits
          dest!: build_registered_match_of cat)
  next
    assume "match_ai_classification e now classification t provider (Some rg) = (Inr (Some m), st')"
    then show ?thesis
      by (auto simp: match_ai_classification_def Let_def match_of_def split: option.splits if_splits sum.splits prod.splits
          dest!: build_registered_match_of cat)
  qed
  then show ?thesis using active by (auto simp: match_of_def)
qed

lemma matches_are_active_witness:
  "\<exists>m. fst (find_local ex_finder [] ''Stop!'' 0 None (Some ex_registry)) = Inr (Some m) \<and>
     (\<exists>r \<in> set (is_intents (rg_state ex_registry)). ir_status r = ''active'' \<and> lm_command m = match_command ex_finder r)"
proof -
  obtain m where m: "find_local ex_finder [] ''Stop!'' 0 None (Some ex_registry) =
      (Inr (Some m), snd (find_local ex_finder [] ''Stop!'' 0 None (Some ex_registry)))"
    using command_of_Some [OF ex_stop_found] by blast
  from matches_are_active [OF disjI1 [OF m]] m show ?thesis by (metis fst_conv)
qed

text \<open>C30. The local finder, asked with a registry and without an open question, matches a single short word such as
  "yes", "cancel" or "stop" only to an active intent that allows such a word everywhere. (This is said of
  \<open>find_local\<close>; an intent the AI classifier names is not checked for it.)\<close>

theorem short_words_need_a_question:
  assumes "find_local e now s t pending (Some rg) = (Inr (Some m), st')"
    and "is_short_intent_utterance (normalize_text s)" "pending = None \<or> pending = Some []"
  shows "\<exists>r \<in> set (active_intents rg). allows_global_short_intent e r \<and> lm_command m = match_command e r"
  using find_local_of [OF assms(1)] assms(2,3) by (auto simp: match_of_def)

lemma short_words_need_a_question_witness:
  "is_short_intent_utterance (normalize_text ''Stop!'') \<and>
   (\<exists>r \<in> set (active_intents ex_registry). allows_global_short_intent ex_finder r)"
proof -
  have short: "is_short_intent_utterance (normalize_text ''Stop!'')" by code_simp
  obtain m where m: "find_local ex_finder [] ''Stop!'' 0 None (Some ex_registry) =
      (Inr (Some m), snd (find_local ex_finder [] ''Stop!'' 0 None (Some ex_registry)))"
    using command_of_Some [OF ex_stop_found] by blast
  from short_words_need_a_question [OF m short] short show ?thesis by blast
qed

text \<open>C31. Looking for an intent, in any of the three ways, matched or not, leaves the registry as it was but for
  usage counts and their times: no record appears, vanishes or changes its status, policy or definition,
  and memory and file stay equal.\<close>

theorem finding_only_counts:
  assumes "registry_reachable rp rg"
    and "st' = snd (find_local e now s t pending (Some rg)) \<or> st' = snd (match_declared_intent e now i t slots (Some rg))
      \<or> st' = snd (match_ai_classification e now classification t provider (Some rg))"
  shows "\<exists>rg'. st' = Some rg' \<and> rg_file rg' = Some (rg_state rg')
    \<and> map (\<lambda>r. r\<lparr>ir_usage := [], ir_updated_at := []\<rparr>) (is_intents (rg_state rg')) =
      map (\<lambda>r. r\<lparr>ir_usage := [], ir_updated_at := []\<rparr>) (is_intents (rg_state rg))"
proof -
  have "counted (Some rg) st'"
    using assms(2) find_local_counted match_declared_counted match_ai_counted by metis
  then show ?thesis
    using registry_reachable_ok [OF assms(1)] by (auto simp: counted_def core_def [abs_def] intents_ok_def split: option.splits)
qed

lemma finding_only_counts_witness:
  "\<exists>rg rg'. registry_reachable (\<lambda>_. []) rg \<and> snd (find_local ex_finder [] ''good morning'' 0 None (Some rg)) = Some rg'
     \<and> rg_file rg' = Some (rg_state rg')"
proof -
  obtain rg where rg: "registry_reachable (\<lambda>_. []) rg"
    using open_fresh [of "\<lambda>_. []" "[]"] registry_reachable.first_start by blast
  from finding_only_counts [OF rg disjI1 [OF refl], of ex_finder "[]" "''good morning''" 0 None] rg show ?thesis by blast
qed



end
