(* ===== verification/TimerCache.thy ===== *)
theory TimerCache
  imports IntentText
begin

text \<open>
  \<open>timer_announcements.py\<close>: the cache of the timers that other nodes run for the endpoints, the choice
  of the timer that a spoken request means, what is said when a timer was made or read, the alarm of a timer
  that is done, and the service that turns MQTT messages into these. Parameters are the clock
  (\<open>datetime.now\<close>, a function of the number of its reads) and the text of a float. MQTT itself and the
  coroutines that play and speak are not under the sources' control: a message is queued work here, and the results of the
  work come back as operations of their own.
\<close>

section \<open>Instants with an offset\<close>

text \<open>A \<open>datetime\<close> with a time zone: its local reading and its offset, both in microseconds.\<close>

type_synonym moment = "int \<times> int"

definition the_instant :: "moment \<Rightarrow> instant" where
  "the_instant m = fst m - snd m"

definition parse_event_datetime :: "string option \<Rightarrow> moment option" where
  "parse_event_datetime v = (case v of
     None \<Rightarrow> None
   | Some s \<Rightarrow> if s = [] then None
       else map_option (\<lambda>(t, z). (t, case z of None \<Rightarrow> 0 | Some z \<Rightarrow> z)) (parse_iso (replace_z s)))"

text \<open>\<open>isoformat\<close> prints the offset with its sign, and its seconds and microseconds only if it has any.\<close>

definition iso_offset :: "int \<Rightarrow> string" where
  "iso_offset z =
     (let a = nat \<bar>z\<bar>; s = a div 1000000 in
      (if z < 0 then ''-'' else ''+'') @ fixdec 2 (s div 3600) @ '':'' @ fixdec 2 (s div 60 mod 60)
      @ (if s mod 60 = 0 \<and> a mod 1000000 = 0 then [] else '':'' @ fixdec 2 (s mod 60))
      @ (if a mod 1000000 = 0 then [] else ''.'' @ fixdec 6 (a mod 1000000)))"

definition iso_moment :: "moment \<Rightarrow> string" where
  "iso_moment m = iso_naive (fst m) @ iso_offset (snd m)"

text \<open>A sum beyond the year 9999 raises \<open>OverflowError\<close>.\<close>

definition end_of_time :: int where
  "end_of_time = 253402300800000000"

definition add_seconds :: "moment \<Rightarrow> int \<Rightarrow> moment option" where
  "add_seconds m n = (let t = fst m + n * us_per_s in if t < end_of_time then Some (t, snd m) else None)"

definition optional_int :: "pv \<Rightarrow> int option" where
  "optional_int v = (if v = PNone \<or> v = PStr [] then None else py_int v)"

text \<open>\<open>str(a or b or "").strip()\<close>\<close>

definition text_of :: "(pv \<Rightarrow> string) \<Rightarrow> pv list \<Rightarrow> string" where
  "text_of rp vs = strip (py_str rp (foldr py_or vs (PStr [])))"

section \<open>Records\<close>

record timer_env =
  te_clock :: "nat \<Rightarrow> instant"
  te_rp :: "pv \<Rightarrow> string"

record timer_owner =
  to_timer_id :: string
  to_endpoint_id :: string
  to_owner_node_id :: "string option"
  to_title :: "string option"
  to_state :: string
  to_due_at :: "string option"
  to_remaining_seconds :: "int option"
  to_remaining_text :: "string option"
  to_alarm_status :: "string option"
  to_last_event_type :: string
  to_last_event_id :: "string option"
  to_last_seen_at :: string

definition owner_as_dict :: "timer_owner \<Rightarrow> dict" where
  "owner_as_dict t =
     [(''timer_id'', PStr (to_timer_id t)), (''endpoint_id'', PStr (to_endpoint_id t)),
      (''owner_node_id'', ostr (to_owner_node_id t)), (''title'', ostr (to_title t)), (''state'', PStr (to_state t)),
      (''due_at'', ostr (to_due_at t)), (''remaining_seconds'', oint (to_remaining_seconds t)),
      (''remaining_text'', ostr (to_remaining_text t)), (''alarm_status'', ostr (to_alarm_status t)),
      (''last_event_type'', PStr (to_last_event_type t)), (''last_event_id'', ostr (to_last_event_id t)),
      (''last_seen_at'', PStr (to_last_seen_at t))]"

text \<open>The cache, with the number of clock reads made so far.\<close>

record timer_cache =
  tc_max_records :: nat
  tc_records :: "(string \<times> timer_owner) list"
  tc_reads :: nat

definition new_timer_cache :: "int \<Rightarrow> timer_cache" where
  "new_timer_cache max_records = \<lparr>tc_max_records = nat (max 10 max_records), tc_records = [], tc_reads = 0\<rparr>"

definition read_clock :: "timer_env \<Rightarrow> timer_cache \<Rightarrow> instant \<times> timer_cache" where
  "read_clock e c = (te_clock e (tc_reads c), c\<lparr>tc_reads := Suc (tc_reads c)\<rparr>)"

section \<open>Reading an event\<close>

definition timer_state_from_event :: "(pv \<Rightarrow> string) \<Rightarrow> string \<Rightarrow> dict \<Rightarrow> string" where
  "timer_state_from_event rp event_type data =
     (let explicit = lower (text_of rp [dget data ''state'']) in
      if explicit \<noteq> [] then explicit
      else if event_type = ''timer.completed'' then ''completed''
      else if startswith event_type ''timer.cancel'' then ''cancelled''
      else if startswith event_type ''timer.stop'' then ''stopped''
      else if startswith event_type ''timer.create'' \<or> startswith event_type ''timer.status''
          \<or> startswith event_type ''timer.adjust_time'' then ''active''
      else ''unknown'')"

definition alarm_status_from_event :: "(pv \<Rightarrow> string) \<Rightarrow> string \<Rightarrow> dict \<Rightarrow> string option" where
  "alarm_status_from_event rp event_type data =
     (let explicit = lower (text_of rp [dget data ''alarm_status'', dget data ''playback_state'']) in
      if explicit \<noteq> [] then Some explicit
      else if event_type = ''timer.completed'' then Some ''pending'' else None)"

definition INACTIVE_STATES :: "string list" where
  "INACTIVE_STATES = [[], ''inactive'', ''cancelled'', ''canceled'', ''cleared'', ''completed'', ''done'', ''expired'',
     ''none'', ''not_found'', ''stopped'', ''unknown'']"

definition is_active_timer_state :: "string \<Rightarrow> bool" where
  "is_active_timer_state s \<longleftrightarrow> lower (strip s) \<notin> set INACTIVE_STATES"

text \<open>The durations of an event: seconds, h:mm:ss (the text is stripped, so \<open>$\<close> is \<open>fullmatch\<close>), or spoken.\<close>

definition hhmmss_rx :: rx where
  "hhmmss_rx = rseq [RGrp ''hours'' (RPlus True RDigit), RLit '':'', RGrp ''minutes'' (RSeq RDigit RDigit), RLit '':'',
     RGrp ''seconds'' (RSeq RDigit RDigit), REnd]"

definition spoken_duration_rx :: rx where
  "spoken_duration_rx = rseq [RGrp ''value'' (RPlus True RDigit), RStar True RSpace,
     RGrp ''unit'' (ralt (map (\<lambda>u. RSeq (RLit u) (ROpt (RLit ''s''))) [''hour'', ''hr'', ''minute'', ''min'', ''second'', ''sec'']))]"

definition int_of_digits :: "string \<Rightarrow> int" where
  "int_of_digits s = (case undec_from 0 s of None \<Rightarrow> 0 | Some n \<Rightarrow> int n)"

definition unit_multiplier :: "string \<Rightarrow> int" where
  "unit_multiplier u =
     (if startswith u ''hour'' \<or> startswith u ''hr'' then 3600
      else if startswith u ''minute'' \<or> startswith u ''min'' then 60 else 1)"

definition timer_duration_seconds :: "(pv \<Rightarrow> string) \<Rightarrow> dict \<Rightarrow> int option" where
  "timer_duration_seconds rp data =
     (let spoken = finditer spoken_duration_rx (lower (py_str rp (foldr py_or [dget data ''duration_text'', dget data ''title''] (PStr []))));
          sum = sum_list (map (\<lambda>g. int_of_digits (group ''value'' g) * unit_multiplier (group ''unit'' g)) spoken)
      in case Option.bind (optional_int (dget data ''duration_seconds'')) (\<lambda>n. if 0 < n then Some n else None) of
           Some n \<Rightarrow> Some n
         | None \<Rightarrow>
             (case re_match hhmmss_rx (text_of rp [dget data ''duration_hhmmss'']) of
                Some g \<Rightarrow> Some (int_of_digits (group ''hours'' g) * 3600 + int_of_digits (group ''minutes'' g) * 60
                    + int_of_digits (group ''seconds'' g))
              | None \<Rightarrow> if spoken \<noteq> [] \<and> 0 < sum then Some sum else None))"

section \<open>The cache\<close>

text \<open>
  A timer that this node asked for is first known by the request's id (\<open>timer.create_succeeded\<close>);
  the first event with the timer's own id takes the place of the provisional record that is due at most 30 seconds from it.
\<close>

definition provisional_candidates :: "timer_owner \<Rightarrow> instant \<Rightarrow> (string \<times> timer_owner) list \<Rightarrow> (int \<times> string) list" where
  "provisional_candidates r due records = List.map_filter
     (\<lambda>(i, q). if i = to_timer_id r \<or> to_endpoint_id q \<noteq> to_endpoint_id r \<or> to_last_event_type q \<noteq> ''timer.create_succeeded''
        then None
        else map_option (\<lambda>m. (\<bar>the_instant m - due\<bar>, i)) (parse_event_datetime (to_due_at q))) records"

definition remove_matching_provisional :: "timer_owner \<Rightarrow> timer_cache \<Rightarrow> timer_cache" where
  "remove_matching_provisional r c =
     (case parse_event_datetime (to_due_at r) of
        None \<Rightarrow> c
      | Some due \<Rightarrow>
          (let candidates = provisional_candidates r (the_instant due) (tc_records c) in
           if candidates = [] then c
           else let (difference, i) = Min (set candidates) in
             if difference \<le> 30 * us_per_s then c\<lparr>tc_records := adel i (tc_records c)\<rparr> else c))"

definition trim_records :: "timer_cache \<Rightarrow> timer_cache" where
  "trim_records c =
     (if length (tc_records c) \<le> tc_max_records c then c
      else let newest = rev (sort_key to_last_seen_at (rev (map snd (tc_records c)))) in
        c\<lparr>tc_records := aupdate [] (map (\<lambda>r. (to_timer_id r, r)) (take (tc_max_records c) newest))\<rparr>)"

text \<open>
  What \<open>timer.create_succeeded\<close> adds when the timer node did not say it: how long, until when, and the
  duration as a title. \<open>None\<close> is the \<open>OverflowError\<close> of a due time beyond the calendar.
\<close>

definition complete_created ::
    "timer_env \<Rightarrow> dict \<Rightarrow> dict \<Rightarrow> string option \<Rightarrow> string option \<Rightarrow> timer_cache
     \<Rightarrow> (int option \<times> string option \<times> string option) option \<times> timer_cache" where
  "complete_created e payload data label due_at c =
     (let rp = te_rp e; remaining = timer_duration_seconds rp data;
          label' = (case label of None \<Rightarrow> nonempty (text_of rp [dget data ''duration_text'', dget data ''duration_hhmmss'']) | t \<Rightarrow> t)
      in case (remaining, due_at) of
           (Some n, None) \<Rightarrow>
             let (occurred, c') = (case parse_event_datetime (Some (py_str rp (py_or (dget payload ''occurred_at'') (PStr [])))) of
                 Some m \<Rightarrow> (m, c)
               | None \<Rightarrow> let (now, c') = read_clock e c in ((now, 0), c'))
             in (map_option (\<lambda>m. (Some n, Some (iso_moment m), label')) (add_seconds occurred n), c')
         | _ \<Rightarrow> (Some (remaining, due_at, label'), c))"

datatype overflow = Overflow_error

text \<open>The record of an event: what the event leaves out is kept from the record before it.\<close>

definition kept :: "timer_owner option \<Rightarrow> 'a option \<Rightarrow> (timer_owner \<Rightarrow> 'a option) \<Rightarrow> 'a option" where
  "kept existing t f = (case t of None \<Rightarrow> Option.bind existing f | v \<Rightarrow> v)"

definition owner_record ::
    "timer_env \<Rightarrow> dict \<Rightarrow> dict \<Rightarrow> string \<Rightarrow> string \<Rightarrow> string \<Rightarrow> timer_cache \<Rightarrow> (overflow + timer_owner) \<times> timer_cache" where
  "owner_record e payload data event_type timer_id endpoint_id c =
     (let rp = te_rp e; source = dict_of (dget payload ''source''); existing = aget (tc_records c) timer_id;
          label = kept existing (nonempty (text_of rp [dget data ''title'', dget data ''label''])) to_title;
          due_at = kept existing (nonempty (text_of rp [dget data ''due_at''])) to_due_at;
          remaining_text = kept existing (nonempty (text_of rp [dget data ''remaining_text'', dget data ''remaining_hhmmss''])) to_remaining_text;
          remaining = kept existing (optional_int (dget data ''remaining_seconds'')) to_remaining_seconds;
          (completed, c1) = (if event_type = ''timer.create_succeeded'' \<and> remaining = None
              then complete_created e payload data label due_at c else (Some (remaining, due_at, label), c))
      in case completed of
           None \<Rightarrow> (Inl Overflow_error, c1)
         | Some (remaining, due_at, label) \<Rightarrow>
             (let (now, c2) = read_clock e c1 in
              (Inr \<lparr>to_timer_id = timer_id, to_endpoint_id = endpoint_id,
                 to_owner_node_id = kept existing (nonempty (text_of rp [dget source ''node_id'', dget data ''requester_node_id''])) to_owner_node_id,
                 to_title = label, to_state = timer_state_from_event rp event_type data, to_due_at = due_at,
                 to_remaining_seconds = remaining, to_remaining_text = remaining_text,
                 to_alarm_status = kept existing (alarm_status_from_event rp event_type data) to_alarm_status,
                 to_last_event_type = event_type, to_last_event_id = nonempty (text_of rp [dget payload ''event_id'']),
                 to_last_seen_at = isoformat now\<rparr>, c2)))"

definition store_record :: "timer_owner \<Rightarrow> timer_cache \<Rightarrow> timer_cache" where
  "store_record r c =
     (let c' = (if to_last_event_type r \<noteq> ''timer.create_succeeded'' then remove_matching_provisional r c else c)
      in trim_records (c'\<lparr>tc_records := aput (to_timer_id r) r (tc_records c')\<rparr>))"

definition update_one ::
    "timer_env \<Rightarrow> dict \<Rightarrow> dict \<Rightarrow> string \<Rightarrow> timer_cache \<Rightarrow> (overflow + timer_owner list) \<times> timer_cache" where
  "update_one e payload data event_type c =
     (let timer_id = text_of (te_rp e) [dget data ''timer_id'', dget (dict_of (dget payload ''subject'')) ''record_id''];
          endpoint_id = text_of (te_rp e) [dget data ''endpoint_id'', dget data ''device_id'']
      in if timer_id = [] \<or> endpoint_id = [] then (Inr [], c)
         else case owner_record e payload data event_type timer_id endpoint_id c of
           (Inl x, c') \<Rightarrow> (Inl x, c')
         | (Inr r, c') \<Rightarrow> (Inr [r], store_record r c'))"

fun update_items ::
    "timer_env \<Rightarrow> dict \<Rightarrow> dict \<Rightarrow> string \<Rightarrow> pv list \<Rightarrow> timer_cache \<Rightarrow> (overflow + timer_owner list) \<times> timer_cache" where
  "update_items e payload data event_type [] c = (Inr [], c)"
| "update_items e payload data event_type (item # remaining) c =
     (case item of
        PDict d \<Rightarrow>
          (case update_one e payload (aupdate data d) event_type c of
             (Inl x, c') \<Rightarrow> (Inl x, c')
           | (Inr rs, c') \<Rightarrow>
               (case update_items e payload data event_type remaining c' of
                  (Inl x, c'') \<Rightarrow> (Inl x, c'') | (Inr rs', c'') \<Rightarrow> (Inr (rs @ rs'), c'')))
      | _ \<Rightarrow> update_items e payload data event_type remaining c)"

definition update_from_event :: "timer_env \<Rightarrow> dict \<Rightarrow> timer_cache \<Rightarrow> (overflow + timer_owner list) \<times> timer_cache" where
  "update_from_event e payload c =
     (let event_type = text_of (te_rp e) [dget payload ''event_type'']; data = dict_of (dget payload ''data'') in
      if \<not> startswith event_type ''timer.'' \<or> endswith event_type ''_requested'' then (Inr [], c)
      else (case dget data ''timers'' of
          PList (item # items) \<Rightarrow> update_items e payload data event_type (item # items) c
        | _ \<Rightarrow> update_one e payload data event_type c))"

section \<open>Which timer is meant\<close>

definition active_timer_record_expired :: "instant \<Rightarrow> timer_owner \<Rightarrow> bool" where
  "active_timer_record_expired now r =
     (case (parse_event_datetime (to_due_at r), parse_event_datetime (Some (to_last_seen_at r))) of
        (Some due, Some seen) \<Rightarrow>
          the_instant due \<le> now
          \<and> max 1 (case to_remaining_seconds r of None \<Rightarrow> 0 | Some n \<Rightarrow> n) * us_per_s \<le> now - the_instant seen
      | _ \<Rightarrow> False)"

text \<open>Timers without a due time sort as \<open>datetime.max\<close>.\<close>

definition due_rank :: "timer_owner \<Rightarrow> instant" where
  "due_rank r = (case parse_event_datetime (to_due_at r) of None \<Rightarrow> end_of_time - 1 | Some m \<Rightarrow> the_instant m)"

definition active_for_endpoint :: "timer_env \<Rightarrow> string \<Rightarrow> timer_cache \<Rightarrow> timer_owner list \<times> timer_cache" where
  "active_for_endpoint e endpoint_id c =
     (let (now, c') = read_clock e c in
      (sort_key (\<lambda>r. (due_rank r, to_timer_id r))
         (filter (\<lambda>r. to_endpoint_id r = strip endpoint_id \<and> is_active_timer_state (to_state r)
             \<and> \<not> active_timer_record_expired now r) (map snd (tc_records c))), c'))"

text \<open>\<open>status\<close> of the dict that \<open>select_timer\<close> returns: unknown, selected (strategy, timer) or ambiguous.\<close>

datatype timer_selection =
    No_timer
  | Selected_timer string timer_owner "timer_owner list"
  | Ambiguous_timers "timer_owner list"

definition choose_timer :: "timer_owner list \<Rightarrow> timer_selection" where
  "choose_timer candidates =
     (case candidates of
        [] \<Rightarrow> No_timer
      | [r] \<Rightarrow> Selected_timer ''single_active'' r [r]
      | _ \<Rightarrow>
          (let due = sort_key snd (List.map_filter (\<lambda>r. map_option (\<lambda>m. (r, the_instant m)) (parse_event_datetime (to_due_at r))) candidates) in
           case due of
             [] \<Rightarrow> Ambiguous_timers candidates
           | [(r, t)] \<Rightarrow> Selected_timer ''nearest_due'' r candidates
           | (r, t) # (q, u) # _ \<Rightarrow> if t < u then Selected_timer ''nearest_due'' r candidates else Ambiguous_timers candidates))"

definition select_timer :: "timer_env \<Rightarrow> string \<Rightarrow> timer_cache \<Rightarrow> timer_selection \<times> timer_cache" where
  "select_timer e endpoint_id c = (let (candidates, c') = active_for_endpoint e endpoint_id c in (choose_timer candidates, c'))"

record cache_status =
  cs_record_count :: nat
  cs_active_count :: nat
  cs_records :: "dict list"

definition timer_cache_status :: "timer_cache \<Rightarrow> cache_status" where
  "timer_cache_status c =
     (let records = sort_key (\<lambda>r. (to_endpoint_id r, due_rank r, to_timer_id r)) (map snd (tc_records c)) in
      \<lparr>cs_record_count = length records, cs_active_count = length (filter (is_active_timer_state \<circ> to_state) records),
       cs_records = map owner_as_dict (take (tc_max_records c) records)\<rparr>)"

end
