(* ===== verification/TimerAnnouncements.thy ===== *)
theory TimerAnnouncements
  imports TimerCache
begin

text \<open>
  The second half of \<open>timer_announcements.py\<close>: what is said when a timer was made or read, the alarm of a
  timer that is done, and \<open>TimerSucceededAnnouncementService\<close>, whose message handler keeps the cache up to
  date and queues coroutines on the event loop. The trust state, the MQTT client and the loop are arguments.
\<close>

section \<open>Announcements and alarms\<close>

record timer_announcement =
  tn_endpoint_id :: string
  tn_session_id :: string
  tn_text :: string
  tn_event_id :: string
  tn_dedupe_key :: string
  tn_topic :: string

record timer_alarm = timer_announcement +
  tn_timer_id :: string
  tn_metadata :: dict

definition status_sentence :: "(pv \<Rightarrow> string) \<Rightarrow> dict \<Rightarrow> string" where
  "status_sentence rp data =
     (let state = lower (text_of rp [dget data ''state'']);
          remaining = text_of rp [dget data ''remaining_text'', dget data ''remaining_hhmmss'']
      in if remaining \<noteq> [] then remaining @ '' left on the timer.''
         else if state \<in> {''inactive'', ''cancelled'', ''canceled'', ''cleared'', ''none'', ''not_found''} then ''No active timer.''
         else ''I could not read the timer remaining time.'')"

definition created_sentence :: "(pv \<Rightarrow> string) \<Rightarrow> dict \<Rightarrow> string" where
  "created_sentence rp data =
     (let named = text_of rp [dget data ''title'', dget data ''duration_text'', dget data ''duration_hhmmss''] in
      if named \<noteq> [] then ''Timer is on for '' @ named @ ''.'' else ''Timer is on.'')"

definition timer_success_announcement :: "(pv \<Rightarrow> string) \<Rightarrow> string \<Rightarrow> dict \<Rightarrow> timer_announcement option" where
  "timer_success_announcement rp topic payload =
     (let event_type = text_of rp [dget payload ''event_type'']; data = dict_of (dget payload ''data'');
          subject = dict_of (dget payload ''subject''); endpoint_id = text_of rp [dget data ''endpoint_id''];
          session_id = text_of rp [if event_type = ''timer.status_succeeded'' then dget data ''session_id'' else PNone,
            dget subject ''record_id'', dget data ''session_id'', PStr ''timer-announcement''];
          event_id = text_of rp [dget payload ''event_id''];
          sentence = (if event_type = ''timer.status_succeeded'' then status_sentence rp data else created_sentence rp data)
      in if event_type \<notin> {''timer.create_succeeded'', ''timer.status_succeeded''} \<or> endpoint_id = [] then None
         else Some \<lparr>tn_endpoint_id = endpoint_id, tn_session_id = session_id, tn_text = sentence, tn_event_id = event_id,
           tn_dedupe_key = strip (if event_id \<noteq> [] then event_id
             else event_type @ '':'' @ endpoint_id @ '':'' @ session_id @ '':'' @ sentence),
           tn_topic = strip topic\<rparr>)"

definition alarm_text :: "string \<Rightarrow> string \<Rightarrow> string" where
  "alarm_text default_text named =
     (let spoken = (if named \<noteq> [] then named @ '' timer is done.'' else strip (str_or (Some default_text) ''Timer done.''))
      in if spoken = [] then ''Timer done.'' else spoken)"

definition timer_completed_alarm :: "(pv \<Rightarrow> string) \<Rightarrow> string \<Rightarrow> dict \<Rightarrow> string \<Rightarrow> timer_alarm option" where
  "timer_completed_alarm rp topic payload default_text =
     (let event_type = text_of rp [dget payload ''event_type'']; subject = dict_of (dget payload ''subject'');
          data = dict_of (dget payload ''data''); source = dict_of (dget payload ''source'');
          endpoint_id = text_of rp [dget data ''endpoint_id'', dget data ''device_id''];
          timer_id = text_of rp [dget data ''timer_id'', dget subject ''record_id''];
          event_id = text_of rp [dget payload ''event_id''];
          dedupe_key = strip (if event_id \<noteq> [] then event_id else endpoint_id @ '':'' @ timer_id);
          named = text_of rp [dget data ''title'', dget data ''label'']
      in if event_type \<noteq> ''timer.completed'' \<or> text_of rp [dget subject ''family''] \<notin> {[], ''timer''}
           \<or> endpoint_id = [] \<or> (timer_id = [] \<and> event_id = []) \<or> dedupe_key = [] then None
         else Some \<lparr>tn_endpoint_id = endpoint_id,
           tn_session_id = ''timer-completed-'' @ (if timer_id \<noteq> [] then timer_id else event_id),
           tn_text = alarm_text default_text named, tn_event_id = event_id, tn_dedupe_key = dedupe_key, tn_topic = strip topic,
           tn_timer_id = timer_id,
           tn_metadata = filter (\<lambda>p. snd p \<noteq> PNone)
             [(''source'', PStr ''timer.completed''), (''timer_id'', ostr (nonempty timer_id)), (''title'', ostr (nonempty named)),
              (''source_node_id'', py_or (dget source ''node_id'') (dget data ''requester_node_id'')),
              (''source_component'', dget source ''component''), (''dedupe_key'', PStr dedupe_key),
              (''completed_at'', dget data ''completed_at''), (''due_at'', dget data ''due_at''),
              (''started_at'', dget data ''started_at''), (''duration_seconds'', dget data ''duration_seconds'')]\<rparr>)"

definition announcement_as_dict :: "timer_announcement \<Rightarrow> dict" where
  "announcement_as_dict a =
     [(''endpoint_id'', PStr (tn_endpoint_id a)), (''session_id'', PStr (tn_session_id a)), (''text'', PStr (tn_text a)),
      (''event_id'', PStr (tn_event_id a)), (''dedupe_key'', PStr (tn_dedupe_key a)), (''topic'', PStr (tn_topic a))]"

definition alarm_as_dict :: "timer_alarm \<Rightarrow> dict" where
  "alarm_as_dict a =
     [(''endpoint_id'', PStr (tn_endpoint_id a)), (''session_id'', PStr (tn_session_id a)), (''timer_id'', PStr (tn_timer_id a)),
      (''text'', PStr (tn_text a)), (''event_id'', PStr (tn_event_id a)), (''dedupe_key'', PStr (tn_dedupe_key a)),
      (''topic'', PStr (tn_topic a)), (''metadata'', PDict (tn_metadata a)), (''status'', PStr ''queued'')]"

section \<open>The service\<close>

record timer_settings =
  tg_enabled :: bool
  tg_success_topic :: "string option"
  tg_status_topic :: "string option"
  tg_completed_topic :: "string option"
  tg_alarm_text :: string
  tg_plays_alarms :: bool
  tg_updates_endpoints :: bool

text \<open>Coroutines queued on the loop, in the order in which they are queued.\<close>

datatype timer_task =
    Update_endpoint_timer timer_owner "timer_owner list"
  | Play_alarm timer_alarm
  | Announce timer_announcement

record timer_service =
  tv_loop :: bool
  tv_client :: bool
  tv_running :: bool
  tv_last_status :: string
  tv_last_reason :: "string option"
  tv_last_announcement :: "dict option"
  tv_last_alarm :: "dict option"
  tv_seen_announcement_keys :: "string list"
  tv_seen_alarm_keys :: "string list"
  tv_cache :: timer_cache
  tv_tasks :: "timer_task list"

definition new_timer_service :: timer_service where
  "new_timer_service =
     \<lparr>tv_loop = False, tv_client = False, tv_running = False, tv_last_status = ''stopped'', tv_last_reason = None,
      tv_last_announcement = None, tv_last_alarm = None, tv_seen_announcement_keys = [], tv_seen_alarm_keys = [],
      tv_cache = new_timer_cache 100, tv_tasks = []\<rparr>"

definition timer_topics :: "timer_settings \<Rightarrow> string list" where
  "timer_topics g = fold (\<lambda>topic kept. let t = strip (str_or topic []) in if t \<noteq> [] \<and> t \<notin> set kept then kept @ [t] else kept)
     [tg_success_topic g, tg_status_topic g, tg_completed_topic g, Some ''hexe/events/timer/+''] []"

text \<open>The trust state of the node, and what connecting the client came to.\<close>

record timer_trust =
  tt_operational_ready :: bool
  tt_trust_status :: string
  tt_identity :: "string option"
  tt_token :: "string option"
  tt_host :: "string option"
  tt_port :: "int option"

datatype client_outcome = Client_started | No_mqtt_module | Client_error

definition given :: "string option \<Rightarrow> bool" where
  "given x \<longleftrightarrow> str_or x [] \<noteq> []"

definition start_timer_service ::
    "timer_settings \<Rightarrow> timer_trust \<Rightarrow> client_outcome \<Rightarrow> timer_service \<Rightarrow> timer_service" where
  "start_timer_service g trust outcome v0 =
     (let v = v0\<lparr>tv_loop := True\<rparr>;
          skip = (\<lambda>status reason. v\<lparr>tv_last_status := status, tv_last_reason := Some reason\<rparr>)
      in if tv_running v then v
         else if \<not> tg_enabled g then skip ''skipped'' ''timer_announcements_disabled''
         else if \<not> tt_operational_ready trust \<or> tt_trust_status trust \<noteq> ''trusted'' then
           skip ''skipped'' ''trusted_operational_node_required''
         else if \<not> given (tt_identity trust) \<or> \<not> given (tt_token trust) then
           skip ''skipped'' ''missing_operational_mqtt_credentials''
         else if \<not> given (tt_host trust) \<or> tt_port trust = None \<or> tt_port trust = Some 0 then
           skip ''skipped'' ''missing_operational_mqtt_endpoint''
         else (case outcome of
             No_mqtt_module \<Rightarrow> skip ''failed'' ''missing_paho_mqtt_dependency''
           | Client_error \<Rightarrow> skip ''failed'' ''mqtt_subscribe_failed''
           | Client_started \<Rightarrow> v\<lparr>tv_client := True, tv_running := True, tv_last_status := ''starting'', tv_last_reason := None\<rparr>))"

definition stop_timer_service :: "timer_service \<Rightarrow> timer_service" where
  "stop_timer_service v = v\<lparr>tv_client := False, tv_running := False, tv_last_status := ''stopped''\<rparr>"

text \<open>\<open>on_connect\<close> with the return code and the topics it subscribes; \<open>on_disconnect\<close>.\<close>

definition on_connect :: "timer_settings \<Rightarrow> int \<Rightarrow> timer_service \<Rightarrow> timer_service \<times> string list" where
  "on_connect g rc v =
     (if rc \<noteq> 0 then (v\<lparr>tv_last_status := ''failed'', tv_last_reason := Some (''connect_rc:'' @ int_dec rc)\<rparr>, [])
      else (v\<lparr>tv_last_status := ''connected'', tv_last_reason := None\<rparr>, timer_topics g))"

definition on_disconnect :: "timer_service \<Rightarrow> timer_service" where
  "on_disconnect v = v\<lparr>tv_last_status := ''disconnected''\<rparr>"

definition queue_task :: "timer_task \<Rightarrow> timer_service \<Rightarrow> timer_service" where
  "queue_task t v = v\<lparr>tv_tasks := tv_tasks v @ [t]\<rparr>"

text \<open>One endpoint update per record that changed, each with the timers active at that moment.\<close>

definition queue_update :: "timer_env \<Rightarrow> timer_owner \<Rightarrow> timer_service \<Rightarrow> timer_service" where
  "queue_update e r v =
     (let (active, c) = active_for_endpoint e (to_endpoint_id r) (tv_cache v)
      in queue_task (Update_endpoint_timer r active) (v\<lparr>tv_cache := c\<rparr>))"

definition note_alarm :: "timer_alarm \<Rightarrow> timer_service \<Rightarrow> timer_service" where
  "note_alarm a v =
     (if tn_dedupe_key a \<in> set (tv_seen_alarm_keys v) then v\<lparr>tv_last_reason := Some ''duplicate_timer_completed_ignored''\<rparr>
      else queue_task (Play_alarm a)
        (v\<lparr>tv_seen_alarm_keys := push_front 100 (tn_dedupe_key a) (tv_seen_alarm_keys v), tv_last_alarm := Some (alarm_as_dict a)\<rparr>))"

definition note_announcement :: "timer_announcement \<Rightarrow> timer_service \<Rightarrow> timer_service" where
  "note_announcement a v =
     (if tn_dedupe_key a \<in> set (tv_seen_announcement_keys v) then v\<lparr>tv_last_reason := Some ''duplicate_timer_announcement_ignored''\<rparr>
      else queue_task (Announce a)
        (v\<lparr>tv_seen_announcement_keys := push_front 100 (tn_dedupe_key a) (tv_seen_announcement_keys v),
           tv_last_announcement := Some (announcement_as_dict a)\<rparr>))"

text \<open>
  A message: what \<open>json.loads\<close> makes of it, \<open>None\<close> when it fails. An overflow in the cache leaves the
  handler, after the records before it have been stored.
\<close>

definition on_message ::
    "timer_env \<Rightarrow> timer_settings \<Rightarrow> string \<Rightarrow> pv option \<Rightarrow> timer_service \<Rightarrow> (overflow + unit) \<times> timer_service" where
  "on_message e g topic decoded v =
     (case decoded of
        None \<Rightarrow> (Inr (), v\<lparr>tv_last_reason := Some ''invalid_json''\<rparr>)
      | Some (PDict payload) \<Rightarrow>
          if \<not> tv_loop v then (Inr (), v\<lparr>tv_last_reason := Some ''event_loop_unavailable''\<rparr>)
          else (case update_from_event e payload (tv_cache v) of
              (Inl x, c) \<Rightarrow> (Inl x, v\<lparr>tv_cache := c\<rparr>)
            | (Inr records, c) \<Rightarrow>
                let v1 = v\<lparr>tv_cache := c\<rparr>;
                    v2 = (if tg_updates_endpoints g then fold (queue_update e) records v1 else v1)
                in (Inr (), case timer_completed_alarm (te_rp e) topic payload (tg_alarm_text g) of
                      Some a \<Rightarrow> note_alarm a v2
                    | None \<Rightarrow> (case timer_success_announcement (te_rp e) topic payload of
                        None \<Rightarrow> v2 | Some a \<Rightarrow> note_announcement a v2)))
      | Some _ \<Rightarrow> (Inr (), v\<lparr>tv_last_reason := Some ''invalid_payload''\<rparr>))"

section \<open>What the coroutines came to\<close>

text \<open>The result of a callback: a dict, something else, or an exception.\<close>

datatype callback_result = Returned pv | Raised

definition reason_of :: "(pv \<Rightarrow> string) \<Rightarrow> dict \<Rightarrow> string \<Rightarrow> string" where
  "reason_of rp d otherwise = py_str rp (py_or (dget d ''reason'') (PStr otherwise))"

definition accepted_result :: "dict \<Rightarrow> bool" where
  "accepted_result d = truthy (dget d ''accepted'')"

definition endpoint_timer_updated :: "(pv \<Rightarrow> string) \<Rightarrow> callback_result \<Rightarrow> timer_service \<Rightarrow> timer_service" where
  "endpoint_timer_updated rp result v = (case result of
     Raised \<Rightarrow> v\<lparr>tv_last_reason := Some ''endpoint_timer_update_failed''\<rparr>
   | Returned (PDict d) \<Rightarrow>
       if accepted_result d then v else v\<lparr>tv_last_reason := Some (reason_of rp d ''endpoint_timer_update_rejected'')\<rparr>
   | Returned _ \<Rightarrow> v)"

definition announced :: "callback_result \<Rightarrow> timer_service \<Rightarrow> timer_service" where
  "announced result v = (case result of Raised \<Rightarrow> v\<lparr>tv_last_reason := Some ''announcement_failed''\<rparr> | Returned _ \<Rightarrow> v)"

text \<open>The outcome is written into the last alarm only if that is still this one.\<close>

definition upd_last_alarm :: "timer_alarm \<Rightarrow> (dict \<Rightarrow> dict) \<Rightarrow> timer_service \<Rightarrow> timer_service" where
  "upd_last_alarm a f v = (case tv_last_alarm v of
     Some d \<Rightarrow> if dget d ''dedupe_key'' = PStr (tn_dedupe_key a) then v\<lparr>tv_last_alarm := Some (f d)\<rparr> else v
   | None \<Rightarrow> v)"

definition alarm_played ::
    "(pv \<Rightarrow> string) \<Rightarrow> timer_settings \<Rightarrow> timer_alarm \<Rightarrow> callback_result \<Rightarrow> timer_service \<Rightarrow> timer_service" where
  "alarm_played rp g a result v =
     (if \<not> tg_plays_alarms g then v\<lparr>tv_last_reason := Some ''timer_alarm_callback_unavailable''\<rparr>
      else case result of
        Raised \<Rightarrow> upd_last_alarm a (\<lambda>d. aput ''reason'' (PStr ''timer_alarm_failed'') (aput ''status'' (PStr ''failed'') d))
          (v\<lparr>tv_last_reason := Some ''timer_alarm_failed''\<rparr>)
      | Returned (PDict r) \<Rightarrow>
          (let v' = upd_last_alarm a (\<lambda>d. aput ''reason'' (dget r ''reason'') (aput ''request_id'' (dget r ''request_id'')
                  (aput ''status'' (py_or (dget r ''status'') (PStr (if accepted_result r then ''accepted'' else ''failed''))) d))) v
           in if accepted_result r then v' else v'\<lparr>tv_last_reason := Some (reason_of rp r ''timer_alarm_rejected'')\<rparr>)
      | Returned _ \<Rightarrow> v)"

end
