(* ===== verification/TimerFacts.thy ===== *)
theory TimerFacts
  imports TimerAnnouncements
begin

text \<open>
  What the timer service guarantees: its cache stays bounded and keyed by timer, the timer it selects for a
  request is one of the endpoint's own and the only one that is due first, and an alarm or an announcement
  is not queued again while its key is among the last hundred.
\<close>

section \<open>The invariant of the cache\<close>

definition cache_ok :: "timer_cache \<Rightarrow> bool" where
  "cache_ok c \<longleftrightarrow> 10 \<le> tc_max_records c \<and> length (tc_records c) \<le> tc_max_records c \<and> distinct (map fst (tc_records c))
     \<and> (\<forall>(k, r) \<in> set (tc_records c). to_timer_id r = k \<and> k \<noteq> [] \<and> strip k = k \<and> to_endpoint_id r \<noteq> [])"

lemma new_cache_ok: "cache_ok (new_timer_cache n)"
  by (simp add: cache_ok_def new_timer_cache_def)

lemma aput_new: "k \<notin> fst ` set d \<Longrightarrow> aput k v d = d @ [(k, v)]"
  by (induction d) auto

lemma aupdate_append: "distinct (map fst (d @ e)) \<Longrightarrow> aupdate d e = d @ e"
proof (induction e arbitrary: d)
  case Nil
  then show ?case by (simp add: aupdate_def)
next
  case (Cons p e)
  then have "aput (fst p) (snd p) d = d @ [p]" by (auto simp: aput_new)
  with Cons.IH [of "d @ [p]"] Cons.prems show ?case by (simp add: aupdate_def split_def)
qed

lemma trimmed:
  assumes "distinct (map fst (tc_records c))" "\<forall>(k, r) \<in> set (tc_records c). to_timer_id r = k"
  shows "set (tc_records (trim_records c)) \<subseteq> set (tc_records c)" "distinct (map fst (tc_records (trim_records c)))"
    "length (tc_records (trim_records c)) \<le> tc_max_records c"
    "tc_max_records (trim_records c) = tc_max_records c" "tc_reads (trim_records c) = tc_reads c"
proof -
  let ?newest = "rev (sort_key to_last_seen_at (rev (map snd (tc_records c))))"
  let ?kept = "map (\<lambda>r. (to_timer_id r, r)) (take (tc_max_records c) ?newest)"
  have "map to_timer_id (map snd (tc_records c)) = map fst (tc_records c)" using assms(2) by auto
  then have "distinct (map to_timer_id (map snd (tc_records c)))" using assms(1) by (simp only:)
  then have "distinct (map to_timer_id ?newest)" by (simp only: distinct_map set_rev set_sort distinct_rev distinct_sort)
  then have "distinct (map to_timer_id (take (tc_max_records c) ?newest))" by (simp add: distinct_take flip: take_map)
  then have d: "distinct (map fst ?kept)" by (simp add: comp_def)
  from aupdate_append [of "[]" ?kept] d have k: "aupdate [] ?kept = ?kept" by simp
  have sub: "set ?kept \<subseteq> set (tc_records c)"
  proof -
    have "set (take n ?newest) \<subseteq> snd ` set (tc_records c)" for n using set_take_subset [of n ?newest] by simp
    then show ?thesis using assms(2) by fastforce
  qed
  show "set (tc_records (trim_records c)) \<subseteq> set (tc_records c)" "distinct (map fst (tc_records (trim_records c)))"
    "length (tc_records (trim_records c)) \<le> tc_max_records c"
    "tc_max_records (trim_records c) = tc_max_records c" "tc_reads (trim_records c) = tc_reads c"
    using assms(1) d sub by (simp_all add: trim_records_def k)
qed

lemma removed_provisional:
  "set (tc_records (remove_matching_provisional r c)) \<subseteq> set (tc_records c)"
  "distinct (map fst (tc_records c)) \<Longrightarrow> distinct (map fst (tc_records (remove_matching_provisional r c)))"
  "tc_max_records (remove_matching_provisional r c) = tc_max_records c"
  by (auto simp: remove_matching_provisional_def Let_def adel_def distinct_map_filter split: option.splits prod.splits)

lemma read_clock_records [simp]:
  "tc_records (snd (read_clock e c)) = tc_records c" "tc_max_records (snd (read_clock e c)) = tc_max_records c"
  by (simp_all add: read_clock_def)

lemma completed_records:
  "complete_created e payload data label due c = (x, c') \<Longrightarrow> tc_records c' = tc_records c \<and> tc_max_records c' = tc_max_records c"
  by (auto simp: complete_created_def Let_def read_clock_def split: option.splits prod.splits)

lemma owner_record_ids:
  "owner_record e payload data event_type i ep c = (Inr r, c') \<Longrightarrow> to_timer_id r = i \<and> to_endpoint_id r = ep"
  "owner_record e payload data event_type i ep c = (res, c') \<Longrightarrow> tc_records c' = tc_records c \<and> tc_max_records c' = tc_max_records c"
  by (auto simp: owner_record_def Let_def read_clock_def split: prod.splits option.splits if_splits dest: completed_records)

text \<open>Storing a record keeps the invariant, whatever was removed for it before.\<close>

lemma store_record_ok:
  assumes "cache_ok c" "to_timer_id r \<noteq> []" "strip (to_timer_id r) = to_timer_id r" "to_endpoint_id r \<noteq> []"
  shows "cache_ok (store_record r c)"
proof -
  define c' where "c' = (if to_last_event_type r \<noteq> ''timer.create_succeeded'' then remove_matching_provisional r c else c)"
  have c': "set (tc_records c') \<subseteq> set (tc_records c)" "distinct (map fst (tc_records c'))" "tc_max_records c' = tc_max_records c"
    using removed_provisional [where c = c and r = r] assms(1) by (simp_all add: c'_def cache_ok_def)
  let ?c = "c'\<lparr>tc_records := aput (to_timer_id r) r (tc_records c')\<rparr>"
  have all: "\<forall>(k, q) \<in> set (tc_records ?c). to_timer_id q = k \<and> k \<noteq> [] \<and> strip k = k \<and> to_endpoint_id q \<noteq> []"
  proof
    fix p assume "p \<in> set (tc_records ?c)"
    then have "p = (to_timer_id r, r) \<or> p \<in> set (tc_records c)"
      using c'(1) set_aput [of "to_timer_id r" r "tc_records c'"] by auto
    then show "case p of (k, q) \<Rightarrow> to_timer_id q = k \<and> k \<noteq> [] \<and> strip k = k \<and> to_endpoint_id q \<noteq> []"
      using assms by (auto simp: cache_ok_def)
  qed
  have "distinct (map fst (tc_records ?c))" using c'(2) by simp
  moreover have "\<forall>(k, q) \<in> set (tc_records ?c). to_timer_id q = k" using all by blast
  ultimately have "cache_ok (trim_records ?c)"
    using trimmed [of ?c] all assms(1) c'(3) by (auto simp: cache_ok_def)
  then show ?thesis by (simp add: store_record_def Let_def c'_def)
qed

lemma update_one_ok:
  assumes "cache_ok c" "update_one e payload data event_type c = (res, c')"
  shows "cache_ok c'"
proof -
  let ?id = "text_of (te_rp e) [dget data ''timer_id'', dget (dict_of (dget payload ''subject'')) ''record_id'']"
  let ?ep = "text_of (te_rp e) [dget data ''endpoint_id'', dget data ''device_id'']"
  obtain r1 c1 where r: "owner_record e payload data event_type ?id ?ep c = (r1, c1)" by force
  have c1: "cache_ok c1" using owner_record_ids(2) [OF r] assms(1) by (simp add: cache_ok_def)
  show ?thesis
  proof (cases r1)
    case (Inl x)
    then show ?thesis using assms r c1 by (auto simp: update_one_def Let_def split: if_splits)
  next
    case (Inr q)
    then have "to_timer_id q = ?id" "to_endpoint_id q = ?ep" using owner_record_ids(1) r by blast+
    moreover from this have "strip (to_timer_id q) = to_timer_id q" by (simp add: text_of_def)
    ultimately show ?thesis
      using Inr r c1 assms store_record_ok [OF c1, of q] by (auto simp: update_one_def Let_def split: if_splits)
  qed
qed

lemma update_items_ok: "cache_ok c \<Longrightarrow> update_items e payload data event_type items c = (res, c') \<Longrightarrow> cache_ok c'"
  by (induction items arbitrary: c c' res) (auto split: pv.splits prod.splits sum.splits dest: update_one_ok)

lemma update_from_event_ok: "cache_ok c \<Longrightarrow> update_from_event e payload c = (res, c') \<Longrightarrow> cache_ok c'"
  by (auto simp: update_from_event_def Let_def split: if_splits pv.splits list.splits
      intro: update_one_ok update_items_ok simp del: update_items.simps)

section \<open>The timer that is meant\<close>

definition qualifies :: "instant \<Rightarrow> string \<Rightarrow> timer_cache \<Rightarrow> timer_owner \<Rightarrow> bool" where
  "qualifies now endpoint_id c r \<longleftrightarrow> r \<in> snd ` set (tc_records c) \<and> to_endpoint_id r = strip endpoint_id
     \<and> is_active_timer_state (to_state r) \<and> \<not> active_timer_record_expired now r"

definition due_of :: "timer_owner \<Rightarrow> instant option" where
  "due_of r = map_option the_instant (parse_event_datetime (to_due_at r))"

definition timer_candidates_of :: "timer_env \<Rightarrow> string \<Rightarrow> timer_cache \<Rightarrow> timer_owner set" where
  "timer_candidates_of e endpoint_id c = {r. qualifies (te_clock e (tc_reads c)) endpoint_id c r}"

text \<open>\<open>due_first r R\<close>: among \<open>R\<close>, \<open>r\<close> is due strictly before every other timer that has a due time.\<close>

definition due_first :: "timer_owner \<Rightarrow> timer_owner set \<Rightarrow> bool" where
  "due_first r R \<longleftrightarrow> r \<in> R \<and> (\<exists>t. due_of r = Some t \<and> (\<forall>q \<in> R - {r}. \<forall>u. due_of q = Some u \<longrightarrow> t < u))"

lemma active_for_endpoint_set:
  "set (fst (active_for_endpoint e endpoint_id c)) = {r. qualifies (te_clock e (tc_reads c)) endpoint_id c r}"
  "cache_ok c \<Longrightarrow> distinct (fst (active_for_endpoint e endpoint_id c))"
proof -
  show "set (fst (active_for_endpoint e endpoint_id c)) = {r. qualifies (te_clock e (tc_reads c)) endpoint_id c r}"
    by (auto simp: active_for_endpoint_def read_clock_def qualifies_def)
  assume "cache_ok c"
  moreover from this have "fst p = to_timer_id (snd p)" if "p \<in> set (tc_records c)" for p
    using that by (auto simp: cache_ok_def)
  then have "inj_on snd (set (tc_records c))" by (intro inj_onI) (metis prod.expand)
  ultimately have "distinct (map snd (tc_records c))"
    by (simp add: cache_ok_def distinct_map)
  then show "distinct (fst (active_for_endpoint e endpoint_id c))"
    by (simp add: active_for_endpoint_def read_clock_def)
qed

definition with_due :: "timer_owner list \<Rightarrow> (timer_owner \<times> instant) list" where
  "with_due rs = sort_key snd (List.map_filter (\<lambda>r. map_option (\<lambda>m. (r, the_instant m)) (parse_event_datetime (to_due_at r))) rs)"

lemma in_with_due: "(r, t) \<in> set (with_due rs) \<longleftrightarrow> r \<in> set rs \<and> due_of r = Some t"
  by (auto simp: with_due_def due_of_def map_filter_def image_iff) force?

lemma distinct_with_due:
  assumes "distinct rs"
  shows "distinct (map fst (with_due rs))"
proof -
  let ?f = "\<lambda>r. map_option (\<lambda>m. (r, the_instant m)) (parse_event_datetime (to_due_at r))"
  have "map fst (List.map_filter ?f rs) = filter (\<lambda>r. due_of r \<noteq> None) rs"
    by (induction rs) (auto simp: map_filter_def due_of_def)
  then have "distinct (map fst (List.map_filter ?f rs))" using assms by simp
  then show ?thesis by (simp only: with_due_def distinct_map set_sort distinct_sort)
qed

lemma due_first_with_due:
  "due_first r (set rs) \<longleftrightarrow> (\<exists>t. (r, t) \<in> set (with_due rs) \<and> (\<forall>q u. (q, u) \<in> set (with_due rs) \<and> q \<noteq> r \<longrightarrow> t < u))"
  unfolding due_first_def in_with_due by blast

lemma due_first_mem: "due_first r R \<Longrightarrow> r \<in> R"
  by (simp add: due_first_def)

lemma sorted_with_due: "sorted (map snd (with_due rs))"
  by (simp add: with_due_def)

text \<open>The candidates with a due time, earliest first, have a unique first one or none.\<close>

lemma first_of_due:
  assumes "distinct rs"
  shows "case with_due rs of
      [] \<Rightarrow> \<forall>r. \<not> due_first r (set rs)
    | [(r, t)] \<Rightarrow> due_first r (set rs)
    | (r, t) # (q, u) # w \<Rightarrow> if t < u then due_first r (set rs) else (\<forall>x. \<not> due_first x (set rs))"
proof -
  consider "with_due rs = []" | r t where "with_due rs = [(r, t)]"
    | r t q u w where "with_due rs = (r, t) # (q, u) # w"
    by (metis list.exhaust surj_pair)
  then show ?thesis
  proof cases
    case 3
    from sorted_with_due [of rs] have le: "t \<le> u" "\<forall>(x, v) \<in> set w. u \<le> v" by (auto simp: 3)
    from distinct_with_due [OF assms] have ne: "r \<noteq> q" by (simp add: 3)
    have "due_first r (set rs)" if "t < u" using le that unfolding due_first_with_due 3 by fastforce
    moreover have "\<not> due_first x (set rs)" if "\<not> t < u" for x
    proof
      assume "due_first x (set rs)"
      then obtain v where v: "(x, v) \<in> set ((r, t) # (q, u) # w)"
        "\<forall>y z. (y, z) \<in> set ((r, t) # (q, u) # w) \<and> y \<noteq> x \<longrightarrow> v < z"
        unfolding due_first_with_due 3 by blast
      have "t \<le> v" using v(1) le by force
      moreover have "x \<noteq> r \<Longrightarrow> v < t" "x \<noteq> q \<Longrightarrow> v < u" using v(2) by auto
      ultimately show False using ne le(1) that by (cases "x = r") auto
    qed
    ultimately show ?thesis by (simp add: 3)
  qed (auto simp: due_first_with_due)
qed

lemma chosen:
  assumes "distinct rs"
  shows "case choose_timer rs of
      No_timer \<Rightarrow> rs = []
    | Selected_timer how r cs \<Rightarrow> cs = rs \<and> r \<in> set rs \<and> (rs = [r] \<or> due_first r (set rs))
    | Ambiguous_timers cs \<Rightarrow> cs = rs \<and> 2 \<le> length rs \<and> (\<forall>r. \<not> due_first r (set rs))"
proof -
  consider "rs = []" | r where "rs = [r]" | a b c where "rs = a # b # c" by (metis list.exhaust)
  then show ?thesis
  proof cases
    case 3
    have "choose_timer rs = (case with_due rs of
             [] \<Rightarrow> Ambiguous_timers rs
           | [(r, t)] \<Rightarrow> Selected_timer ''nearest_due'' r rs
           | (r, t) # (q, u) # _ \<Rightarrow> if t < u then Selected_timer ''nearest_due'' r rs else Ambiguous_timers rs)"
      unfolding choose_timer_def with_due_def 3 Let_def list.case by (rule refl)
    then show ?thesis using first_of_due [OF assms] 3 by (auto dest: due_first_mem split: list.splits if_splits)
  qed (simp_all add: choose_timer_def)
qed

text \<open>A spoken request about "the timer" means a timer of the same endpoint that is active and not expired, and
  only if no other could be meant: it is the only one there, or it is due strictly before all others that
  have a due time. The answer is ambiguous exactly when there are several and none of them is due first.\<close>

lemma selected_timer_is_meant:
  assumes "cache_ok c"
  shows "case fst (select_timer e endpoint_id c) of
      No_timer \<Rightarrow> timer_candidates_of e endpoint_id c = {}
    | Selected_timer how r cs \<Rightarrow> set cs = timer_candidates_of e endpoint_id c \<and> r \<in> set cs \<and> (set cs = {r} \<or> due_first r (set cs))
    | Ambiguous_timers cs \<Rightarrow> set cs = timer_candidates_of e endpoint_id c \<and> 2 \<le> card (set cs) \<and> (\<forall>r. \<not> due_first r (set cs))"
proof -
  let ?rs = "fst (active_for_endpoint e endpoint_id c)"
  have R: "set ?rs = timer_candidates_of e endpoint_id c" and d: "distinct ?rs"
    using active_for_endpoint_set assms by (auto simp: timer_candidates_of_def)
  have "fst (select_timer e endpoint_id c) = choose_timer ?rs" by (simp add: select_timer_def split: prod.splits)
  then show ?thesis
    using chosen [OF d] R distinct_card [OF d] by (cases "choose_timer ?rs") auto
qed

section \<open>Runs of the service\<close>

definition alarm_keys :: "timer_task list \<Rightarrow> string list" where
  "alarm_keys tasks = List.map_filter (\<lambda>t. case t of Play_alarm a \<Rightarrow> Some (tn_dedupe_key a) | _ \<Rightarrow> None) tasks"

definition announcement_keys :: "timer_task list \<Rightarrow> string list" where
  "announcement_keys tasks = List.map_filter (\<lambda>t. case t of Announce a \<Rightarrow> Some (tn_dedupe_key a) | _ \<Rightarrow> None) tasks"

lemma keys_append [simp]:
  "alarm_keys (ts @ us) = alarm_keys ts @ alarm_keys us" "announcement_keys (ts @ us) = announcement_keys ts @ announcement_keys us"
  "alarm_keys [] = []" "announcement_keys [] = []"
  "alarm_keys [Play_alarm a] = [tn_dedupe_key a]" "announcement_keys [Play_alarm a] = []"
  "alarm_keys [Announce b] = []" "announcement_keys [Announce b] = [tn_dedupe_key b]"
  "alarm_keys [Update_endpoint_timer r rs] = []" "announcement_keys [Update_endpoint_timer r rs] = []"
  by (simp_all add: alarm_keys_def announcement_keys_def map_filter_def)

definition own_update :: "timer_task \<Rightarrow> bool" where
  "own_update t = (case t of
     Update_endpoint_timer r rs \<Rightarrow> \<forall>q \<in> set rs. to_endpoint_id q = strip (to_endpoint_id r) \<and> is_active_timer_state (to_state q)
   | _ \<Rightarrow> True)"

definition service_ok :: "timer_service \<Rightarrow> bool" where
  "service_ok v \<longleftrightarrow> cache_ok (tv_cache v) \<and> tc_max_records (tv_cache v) = 100
     \<and> distinct (tv_seen_alarm_keys v) \<and> tv_seen_alarm_keys v = take 100 (rev (alarm_keys (tv_tasks v)))
     \<and> distinct (tv_seen_announcement_keys v) \<and> tv_seen_announcement_keys v = take 100 (rev (announcement_keys (tv_tasks v)))
     \<and> list_all own_update (tv_tasks v)"

text \<open>Everything from outside: \<open>start\<close> and \<open>stop\<close>, the callbacks of the client, the results of coroutines.\<close>

datatype timer_call =
    Start timer_trust client_outcome
  | Stop
  | Connected int
  | Disconnected
  | Message string "pv option"
  | Updated callback_result
  | Announced callback_result
  | Played timer_alarm callback_result

fun run_timer_call :: "timer_env \<Rightarrow> timer_settings \<Rightarrow> timer_call \<Rightarrow> timer_service \<Rightarrow> timer_service" where
  "run_timer_call e g (Start trust outcome) v = start_timer_service g trust outcome v"
| "run_timer_call e g Stop v = stop_timer_service v"
| "run_timer_call e g (Connected rc) v = fst (on_connect g rc v)"
| "run_timer_call e g Disconnected v = on_disconnect v"
| "run_timer_call e g (Message topic decoded) v = snd (on_message e g topic decoded v)"
| "run_timer_call e g (Updated result) v = endpoint_timer_updated (te_rp e) result v"
| "run_timer_call e g (Announced result) v = announced result v"
| "run_timer_call e g (Played a result) v = alarm_played (te_rp e) g a result v"

inductive timers_reachable :: "timer_env \<Rightarrow> timer_settings \<Rightarrow> timer_service \<Rightarrow> bool" for e g where
  new: "timers_reachable e g new_timer_service"
| call: "timers_reachable e g v \<Longrightarrow> timers_reachable e g (run_timer_call e g call v)"

lemma update_one_max: "update_one e payload data event_type c = (res, c') \<Longrightarrow> tc_max_records c' = tc_max_records c"
  by (auto simp: update_one_def Let_def store_record_def trim_records_def removed_provisional(3)
      split: prod.splits sum.splits if_splits dest: owner_record_ids(2))

lemma update_items_max: "update_items e payload data event_type items c = (res, c') \<Longrightarrow> tc_max_records c' = tc_max_records c"
  by (induction items arbitrary: c c' res) (auto split: pv.splits prod.splits sum.splits dest: update_one_max)

lemma update_from_event_max: "update_from_event e payload c = (res, c') \<Longrightarrow> tc_max_records c' = tc_max_records c"
  by (auto simp: update_from_event_def Let_def split: if_splits pv.splits list.splits
      intro: update_one_max update_items_max simp del: update_items.simps)

text \<open>Calls that only touch the status fields keep the invariant.\<close>

lemma same_parts_ok:
  assumes "service_ok v" "tv_cache v' = tv_cache v" "tv_tasks v' = tv_tasks v"
    "tv_seen_alarm_keys v' = tv_seen_alarm_keys v" "tv_seen_announcement_keys v' = tv_seen_announcement_keys v"
  shows "service_ok v'"
  unfolding service_ok_def assms(2-5) using assms(1) [unfolded service_ok_def] .

lemma push_new: "push_front 100 k (take 100 ks) = k # take 99 ks"
  by (simp add: push_front_def take_Cons')

lemma take_fewer:
  "distinct (take 100 ks) \<Longrightarrow> distinct (take 99 ks)" "k \<notin> set (take 100 ks) \<Longrightarrow> k \<notin> set (take 99 ks)"
  using distinct_take [of "take 100 ks" 99] set_take_subset_set_take [of 99 100 ks] by auto

lemma note_alarm_ok: "service_ok v \<Longrightarrow> service_ok (note_alarm a v)"
  by (auto simp: note_alarm_def queue_task_def service_ok_def own_update_def push_new take_fewer)

lemma note_announcement_ok: "service_ok v \<Longrightarrow> service_ok (note_announcement a v)"
  by (auto simp: note_announcement_def queue_task_def service_ok_def own_update_def push_new take_fewer)

lemma queue_update_ok: "service_ok v \<Longrightarrow> service_ok (queue_update e r v)"
  by (auto simp: queue_update_def active_for_endpoint_def read_clock_def queue_task_def service_ok_def own_update_def
      cache_ok_def Let_def)

lemma queue_updates_ok: "service_ok v \<Longrightarrow> service_ok (fold (queue_update e) rs v)"
  by (induction rs arbitrary: v) (simp_all add: queue_update_ok)

lemma on_message_ok:
  assumes "service_ok v"
  shows "service_ok (snd (on_message e g topic decoded v))"
proof -
  have reason: "service_ok (v\<lparr>tv_last_reason := r\<rparr>)" for r using assms by (rule same_parts_ok) simp_all
  have payload: "service_ok (snd (on_message e g topic (Some (PDict payload)) v))" for payload
  proof -
    obtain res c where u: "update_from_event e payload (tv_cache v) = (res, c)" by force
    have "service_ok (v\<lparr>tv_cache := c\<rparr>)"
      using assms update_from_event_ok [OF _ u] update_from_event_max [OF u] by (auto simp: service_ok_def)
    moreover from this have "service_ok (fold (queue_update e) rs (v\<lparr>tv_cache := c\<rparr>))" for rs by (rule queue_updates_ok)
    ultimately show ?thesis
      by (auto simp: on_message_def u Let_def reason note_alarm_ok note_announcement_ok split: sum.splits option.splits)
  qed
  show ?thesis
  proof (cases decoded)
    case (Some d)
    then show ?thesis using payload reason by (cases d) (simp_all add: on_message_def)
  qed (simp add: on_message_def reason)
qed

lemma timers_reachable_ok: "timers_reachable e g v \<Longrightarrow> service_ok v"
proof (induction rule: timers_reachable.induct)
  case new
  show ?case by (simp add: service_ok_def new_timer_service_def cache_ok_def new_timer_cache_def)
next
  case (call v call)
  have "service_ok (run_timer_call e g call v)" if "\<not> (\<exists>topic decoded. call = Message topic decoded)"
    by (rule same_parts_ok [OF call.IH]; cases call)
      (use that in \<open>auto simp: start_timer_service_def stop_timer_service_def on_connect_def on_disconnect_def
        endpoint_timer_updated_def announced_def alarm_played_def upd_last_alarm_def Let_def
        split: client_outcome.splits callback_result.splits pv.splits option.splits\<close>)
  moreover have "service_ok (run_timer_call e g (Message topic decoded) v)" for topic decoded
    using on_message_ok [OF call.IH] by simp
  ultimately show ?case by blast
qed

text \<open>C33. However messages, restarts and results interleave: the cache holds at most a hundred timers, each under
  its own id; of the last hundred alarms queued, and likewise of the last hundred announcements, no
  two share a key; and an endpoint is only ever told of its own active timers.\<close>

theorem timer_service_invariant:
  assumes "timers_reachable e g v"
  shows "length (tc_records (tv_cache v)) \<le> 100
    \<and> distinct (map fst (tc_records (tv_cache v))) \<and> (\<forall>(k, r) \<in> set (tc_records (tv_cache v)). to_timer_id r = k)
    \<and> distinct (take 100 (rev (alarm_keys (tv_tasks v)))) \<and> distinct (take 100 (rev (announcement_keys (tv_tasks v))))
    \<and> (\<forall>r rs. Update_endpoint_timer r rs \<in> set (tv_tasks v) \<longrightarrow>
         (\<forall>q \<in> set rs. to_endpoint_id q = strip (to_endpoint_id r) \<and> is_active_timer_state (to_state q)))"
proof -
  have "own_update (Update_endpoint_timer r rs)" if "Update_endpoint_timer r rs \<in> set (tv_tasks v)" for r rs
    using timers_reachable_ok [OF assms] that by (auto simp: service_ok_def list_all_iff)
  then have "\<forall>r rs. Update_endpoint_timer r rs \<in> set (tv_tasks v) \<longrightarrow>
      (\<forall>q \<in> set rs. to_endpoint_id q = strip (to_endpoint_id r) \<and> is_active_timer_state (to_state q))"
    by (simp add: own_update_def)
  then show ?thesis
    using timers_reachable_ok [OF assms] by (auto simp: service_ok_def cache_ok_def)
qed

text \<open>A completed timer rings unless its key was among the last hundred.\<close>

lemma queue_updates_keep:
  "alarm_keys (tv_tasks (fold (queue_update e) rs v)) = alarm_keys (tv_tasks v)"
  "tv_seen_alarm_keys (fold (queue_update e) rs v) = tv_seen_alarm_keys v"
  by (induction rs arbitrary: v) (simp_all add: queue_update_def queue_task_def split: prod.splits)

lemma alarm_rings:
  assumes "tv_loop v" "update_from_event e payload (tv_cache v) = (Inr rs, c)"
    and "timer_completed_alarm (te_rp e) topic payload (tg_alarm_text g) = Some a"
  shows "alarm_keys (tv_tasks (snd (on_message e g topic (Some (PDict payload)) v))) =
    alarm_keys (tv_tasks v) @ (if tn_dedupe_key a \<in> set (tv_seen_alarm_keys v) then [] else [tn_dedupe_key a])"
  using assms by (simp add: on_message_def Let_def note_alarm_def queue_task_def queue_updates_keep)

lemma reported_stored:
  assumes "event_type \<noteq> ''timer.create_succeeded''"
  shows "\<exists>rs c'. update_one e payload data event_type c = (Inr rs, c')"
  using assms by (auto simp: update_one_def owner_record_def Let_def split: prod.splits)

section \<open>Examples\<close>

definition ex_timer_env :: timer_env where
  "ex_timer_env = \<lparr>te_clock = (\<lambda>n. int n * us_per_s), te_rp = (\<lambda>_. [])\<rparr>"

text \<open>Two timers of the kitchen, the second due first.\<close>

definition ex_owner :: "string \<Rightarrow> string \<Rightarrow> timer_owner" where
  "ex_owner i due = \<lparr>to_timer_id = i, to_endpoint_id = ''kitchen'', to_owner_node_id = None, to_title = None,
     to_state = ''active'', to_due_at = Some due, to_remaining_seconds = None, to_remaining_text = None,
     to_alarm_status = None, to_last_event_type = ''timer.status_succeeded'', to_last_event_id = None,
     to_last_seen_at = ''1970-01-01T00:00:00+00:00''\<rparr>"

definition ex_cache :: timer_cache where
  "ex_cache = \<lparr>tc_max_records = 10,
     tc_records = [(''a'', ex_owner ''a'' ''2026-01-01T10:00:00Z''), (''b'', ex_owner ''b'' ''2026-01-01T09:00:00Z'')], tc_reads = 0\<rparr>"

lemma ex_selection: "(case fst (select_timer ex_timer_env ''kitchen'' ex_cache) of
    Selected_timer how r cs \<Rightarrow> how = ''nearest_due'' \<and> to_timer_id r = ''b'' \<and> length cs = 2 | _ \<Rightarrow> False)"
  by code_simp

lemma selected_timer_is_meant_witness:
  "\<exists>r. r \<in> timer_candidates_of ex_timer_env ''kitchen'' ex_cache \<and> to_timer_id r = ''b''"
proof -
  have "strip ''a'' = ''a''" "strip ''b'' = ''b''" by code_simp+
  then have "cache_ok ex_cache" by (simp add: cache_ok_def ex_cache_def ex_owner_def)
  from selected_timer_is_meant [OF this, of ex_timer_env "''kitchen''"] ex_selection show ?thesis
    by (auto split: timer_selection.splits)
qed

text \<open>A timer of the kitchen is done, and its node says so.\<close>

definition ex_timer_settings :: timer_settings where
  "ex_timer_settings = \<lparr>tg_enabled = True, tg_success_topic = Some ''hexe/events/timer/create_succeeded'', tg_status_topic = None,
     tg_completed_topic = Some '' '', tg_alarm_text = ''Timer done.'', tg_plays_alarms = True, tg_updates_endpoints = True\<rparr>"

definition ex_timer_trust :: timer_trust where
  "ex_timer_trust = \<lparr>tt_operational_ready = True, tt_trust_status = ''trusted'', tt_identity = Some ''node'', tt_token = Some ''token'',
     tt_host = Some ''broker'', tt_port = Some 1883\<rparr>"

definition ex_started :: timer_service where
  "ex_started = run_timer_call ex_timer_env ex_timer_settings (Start ex_timer_trust Client_started) new_timer_service"

definition ex_done :: dict where
  "ex_done = [(''event_type'', PStr ''timer.completed''), (''event_id'', PStr ''e1''),
     (''data'', PDict [(''timer_id'', PStr ''a''), (''endpoint_id'', PStr ''kitchen'')])]"

definition ex_rung :: timer_service where
  "ex_rung = run_timer_call ex_timer_env ex_timer_settings (Message ''t'' (Some (PDict ex_done))) ex_started"

lemma ex_rung_reachable: "timers_reachable ex_timer_env ex_timer_settings ex_rung"
  unfolding ex_rung_def ex_started_def by (intro timers_reachable.intros)

lemma ex_started_keys: "tv_loop ex_started \<and> alarm_keys (tv_tasks ex_started) = [] \<and> tv_seen_alarm_keys ex_started = []"
  by code_simp

lemma ex_alarm: "map_option tn_dedupe_key (timer_completed_alarm (te_rp ex_timer_env) ''t'' ex_done (tg_alarm_text ex_timer_settings)) = Some ''e1''"
  by code_simp

lemma ex_event_type: "text_of (te_rp ex_timer_env) [dget ex_done ''event_type''] = ''timer.completed''"
  "dget (dict_of (dget ex_done ''data'')) ''timers'' = PNone"
  by code_simp+

lemma ex_rung_alarm: "alarm_keys (tv_tasks ex_rung) = [''e1'']"
proof -
  obtain rs c where "update_one ex_timer_env ex_done (dict_of (dget ex_done ''data'')) ''timer.completed'' (tv_cache ex_started) = (Inr rs, c)"
    using reported_stored [of "''timer.completed''"] by fastforce
  then have "update_from_event ex_timer_env ex_done (tv_cache ex_started) = (Inr rs, c)"
    by (simp add: update_from_event_def ex_event_type Let_def startswith_def endswith_def)
  moreover obtain a where "timer_completed_alarm (te_rp ex_timer_env) ''t'' ex_done (tg_alarm_text ex_timer_settings) = Some a"
      "tn_dedupe_key a = ''e1''" using ex_alarm by auto
  ultimately show ?thesis using alarm_rings ex_started_keys by (simp add: ex_rung_def)
qed

lemma timer_service_invariant_witness:
  "distinct (take 100 (rev (alarm_keys (tv_tasks ex_rung)))) \<and> alarm_keys (tv_tasks ex_rung) = [''e1'']"
  using timer_service_invariant [OF ex_rung_reachable] ex_rung_alarm by blast

end
