(* ===== verification/DomainEvents.thy ===== *)
theory DomainEvents
  imports TimerCache
begin

text \<open>
  \<open>domain_events.py\<close>: the events this node publishes to the Hexe core, the check every event passes before it
  leaves the node, the MQTT publisher with its requests to the timer node, and the queue a worker thread
  publishes from. Parameters are the clock, random identifiers, the stored trust state (each by the number of
  its reads), the text of a float and what the broker made of each delivery. The payload is a dict, as in the code; \<open>json.dumps\<close>
  is modelled for the text the model has, ASCII.
\<close>

section \<open>Types and topics\<close>

definition DOMAIN_EVENT_MAX_PAYLOAD_BYTES :: nat where
  "DOMAIN_EVENT_MAX_PAYLOAD_BYTES = 65536"

definition DOMAIN_EVENT_LEGACY_FIELDS :: "string list" where
  "DOMAIN_EVENT_LEGACY_FIELDS = [''promotion_id'', ''promoted_event_type'', ''received_at'', ''promoted_at'', ''core'',
     ''routing'', ''policy'']"

definition DOMAIN_EVENT_PRIVATE_FIELDS :: "string list" where
  "DOMAIN_EVENT_PRIVATE_FIELDS = [''access_token'', ''api_key'', ''apikey'', ''attachment'', ''attachments'', ''authorization'',
     ''body_html'', ''client_secret'', ''cookie'', ''credentials'', ''email_body'', ''full_address'',
     ''heard_text'', ''html'', ''oauth_token'', ''password'', ''raw_body'', ''raw_email_body'',
     ''refresh_token'', ''reply_audio'', ''reply_text'', ''secret'', ''session_cookie'', ''token'']"

text \<open>\<open>^[a-z0-9_]+(?:\.[a-z0-9_]+)+$\<close>, all of the text: parts of these characters with single dots between them.\<close>

definition type_char :: "char \<Rightarrow> bool" where
  "type_char c \<longleftrightarrow> (97 \<le> (of_char c :: nat) \<and> (of_char c :: nat) \<le> 122) \<or> is_digit c \<or> c = CHR ''_''"

definition is_domain_event_type :: "string \<Rightarrow> bool" where
  "is_domain_event_type s \<longleftrightarrow> list_all (\<lambda>c. type_char c \<or> c = CHR ''.'') s \<and> CHR ''.'' \<in> set s
     \<and> hd s \<noteq> CHR ''.'' \<and> last s \<noteq> CHR ''.'' \<and> \<not> contains s ''..''"

definition domain_event_topic :: "string \<Rightarrow> string option" where
  "domain_event_topic event_type =
     (let normalized = lower (strip event_type) in
      if is_domain_event_type normalized
      then Some (''hexe/events/'' @ map (\<lambda>c. if c = CHR ''.'' then CHR ''/'' else c) normalized) else None)"

section \<open>JSON\<close>

definition hex_digit :: "nat \<Rightarrow> char" where
  "hex_digit n = (if n < 10 then digit_char n else char_of (87 + n))"

definition json_char :: "char \<Rightarrow> string" where
  "json_char c = (let n = of_char c :: nat; b = char_of (92 :: nat) in
     if n = 34 \<or> n = 92 then [b, c]
     else if n = 10 then [b, CHR ''n''] else if n = 13 then [b, CHR ''r''] else if n = 9 then [b, CHR ''t'']
     else if n = 12 then [b, CHR ''f''] else if n = 8 then [b, CHR ''b'']
     else if 32 \<le> n \<and> n \<le> 126 then [c]
     else [b, CHR ''u'', CHR ''0'', CHR ''0'', hex_digit (n div 16), hex_digit (n mod 16)])"

definition json_string :: "string \<Rightarrow> string" where
  "json_string s = (let q = char_of (34 :: nat) in q # concat (map json_char s) @ [q])"

text \<open>\<open>json.dumps(v, separators=(",", ":"), ensure_ascii=True)\<close>; \<open>fl\<close> is the text of a float.\<close>

fun json_dumps :: "(pv \<Rightarrow> string) \<Rightarrow> pv \<Rightarrow> string"
  and json_items :: "(pv \<Rightarrow> string) \<Rightarrow> dict \<Rightarrow> string list"
  and json_list :: "(pv \<Rightarrow> string) \<Rightarrow> pv list \<Rightarrow> string list" where
  "json_dumps fl PNone = ''null''"
| "json_dumps fl (PBool b) = (if b then ''true'' else ''false'')"
| "json_dumps fl (PInt i) = int_dec i"
| "json_dumps fl (PFloat r) = fl (PFloat r)"
| "json_dumps fl (PStr s) = json_string s"
| "json_dumps fl (PList xs) = ''['' @ join '','' (json_list fl xs) @ '']''"
| "json_dumps fl (PDict d) = ''{'' @ join '','' (json_items fl d) @ ''}''"
| "json_items fl [] = []"
| "json_items fl ((k, v) # d) = (json_string k @ '':'' @ json_dumps fl v) # json_items fl d"
| "json_list fl [] = []"
| "json_list fl (v # xs) = json_dumps fl v # json_list fl xs"

section \<open>The check\<close>

text \<open>The path of the first private field, in the order of the traversal.\<close>

definition is_private_field :: "string \<Rightarrow> bool" where
  "is_private_field raw_key \<longleftrightarrow> lower (strip raw_key) \<in> set DOMAIN_EVENT_PRIVATE_FIELDS"

fun reject_private :: "pv \<Rightarrow> string \<Rightarrow> string option"
  and reject_items :: "dict \<Rightarrow> string \<Rightarrow> string option"
  and reject_list :: "pv list \<Rightarrow> nat \<Rightarrow> string \<Rightarrow> string option" where
  "reject_private (PDict d) path = reject_items d path"
| "reject_private (PList xs) path = reject_list xs 0 path"
| "reject_private PNone path = None"
| "reject_private (PBool b) path = None"
| "reject_private (PInt i) path = None"
| "reject_private (PFloat r) path = None"
| "reject_private (PStr s) path = None"
| "reject_items [] path = None"
| "reject_items ((raw_key, child) # d) path =
     (let child_path = path @ ''.'' @ raw_key in
      if is_private_field raw_key then Some (''private_domain_event_field:'' @ child_path)
      else case reject_private child child_path of None \<Rightarrow> reject_items d path | x \<Rightarrow> x)"
| "reject_list [] index path = None"
| "reject_list (child # xs) index path =
     (case reject_private child (path @ ''['' @ nat_dec index @ '']'') of
        None \<Rightarrow> reject_list xs (Suc index) path | x \<Rightarrow> x)"

definition valid_schema_version :: "pv \<Rightarrow> bool" where
  "valid_schema_version v = (case v of PInt n \<Rightarrow> 1 \<le> n | _ \<Rightarrow> False)"

text \<open>The encoded event, or the text of the \<open>ValueError\<close>.\<close>

definition validate_domain_event_publish :: "(pv \<Rightarrow> string) \<Rightarrow> string \<Rightarrow> dict \<Rightarrow> string \<Rightarrow> string + string" where
  "validate_domain_event_publish rp topic payload trusted_node_id =
     (let legacy = filter (\<lambda>f. f \<in> fst ` set payload) DOMAIN_EVENT_LEGACY_FIELDS;
          event_id = text_of rp [dget payload ''event_id'']; event_type = text_of rp [dget payload ''event_type''];
          schema_version = (case aget payload ''schema_version'' of None \<Rightarrow> PInt 1 | Some v \<Rightarrow> v);
          source = dget payload ''source'';
          data = (case aget payload ''data'' of None \<Rightarrow> PDict [] | Some v \<Rightarrow> v);
          subject = (case aget payload ''subject'' of None \<Rightarrow> PDict [] | Some v \<Rightarrow> v);
          encoded = json_dumps rp (PDict payload)
      in if legacy \<noteq> [] then Inl (''legacy_domain_event_fields:'' @ join '','' (sort_key id legacy))
         else if event_id = [] \<or> \<not> is_domain_event_type event_type then Inl ''invalid_domain_event_identity''
         else if \<not> valid_schema_version schema_version then Inl ''invalid_domain_event_schema_version''
         else if domain_event_topic event_type \<noteq> Some topic then Inl ''domain_event_topic_type_mismatch''
         else if \<not> is_dict source \<or> text_of rp [dget (dict_of source) ''node_id''] \<noteq> strip trusted_node_id then
           Inl ''domain_event_source_identity_mismatch''
         else if \<not> is_dict data then Inl ''domain_event_data_must_be_object''
         else if \<not> is_dict subject then Inl ''domain_event_subject_must_be_object''
         else case reject_private data ''data'' of
           Some e \<Rightarrow> Inl e
         | None \<Rightarrow> if DOMAIN_EVENT_MAX_PAYLOAD_BYTES < length encoded then Inl ''domain_event_payload_too_large'' else Inr encoded)"

section \<open>Decisions and the state of the publisher\<close>

record publish_decision =
  dd_status :: string
  dd_reason :: string
  dd_event_id :: "string option"
  dd_event_type :: "string option"
  dd_topic :: "string option"
  dd_published_at :: "string option"

definition decision_as_dict :: "publish_decision \<Rightarrow> dict" where
  "decision_as_dict d =
     [(''status'', PStr (dd_status d)), (''reason'', PStr (dd_reason d)), (''event_id'', ostr (dd_event_id d)),
      (''event_type'', ostr (dd_event_type d)), (''topic'', ostr (dd_topic d)), (''published_at'', ostr (dd_published_at d))]"

text \<open>The trust state of the node (\<open>trust_activation\<close> and the readiness beside it).\<close>

record domain_trust =
  dt_operational_ready :: bool
  dt_trust_status :: string
  dt_node_id :: "string option"
  dt_node_type :: "string option"
  dt_identity :: "string option"
  dt_token :: "string option"
  dt_host :: "string option"
  dt_port :: "int option"

text \<open>
  What becomes of a delivery: \<open>paho\<close> is not installed, connecting fails, publishing fails, the
  broker does not confirm in time, or it does.
\<close>

datatype broker = No_paho | Connect_error | Publish_error | Not_confirmed | Confirmed

record events_env =
  de_enabled :: bool
  de_node_type :: string
  de_rp :: "pv \<Rightarrow> string"
  de_clock :: "nat \<Rightarrow> instant"
  de_uuid :: "nat \<Rightarrow> string"
  de_trust :: "nat \<Rightarrow> domain_trust"
  de_broker :: "nat \<Rightarrow> broker"

text \<open>How often each parameter was read, the two last decisions, and all that was handed to the broker: topic,
  payload and the identity of the node that was trusted then, latest first.\<close>

record events_state =
  ev_clocks :: nat
  ev_uuids :: nat
  ev_loads :: nat
  ev_deliveries :: nat
  ev_last_decision :: "publish_decision option"
  ev_last_recognition :: "publish_decision option"
  ev_sent :: "(string \<times> dict \<times> string) list"

definition new_events_state :: events_state where
  "new_events_state = \<lparr>ev_clocks = 0, ev_uuids = 0, ev_loads = 0, ev_deliveries = 0, ev_last_decision = None,
     ev_last_recognition = None, ev_sent = []\<rparr>"

type_synonym 'a E = "(events_state, 'a) state"

definition event_now :: "events_env \<Rightarrow> instant E" where
  "event_now e = do { n \<leftarrow> gets ev_clocks; modify (\<lambda>s. s\<lparr>ev_clocks := Suc n\<rparr>); ret (de_clock e n) }"

definition event_uuid :: "events_env \<Rightarrow> string E" where
  "event_uuid e = do { n \<leftarrow> gets ev_uuids; modify (\<lambda>s. s\<lparr>ev_uuids := Suc n\<rparr>); ret (de_uuid e n) }"

definition load_trust :: "events_env \<Rightarrow> domain_trust E" where
  "load_trust e = do { n \<leftarrow> gets ev_loads; modify (\<lambda>s. s\<lparr>ev_loads := Suc n\<rparr>); ret (de_trust e n) }"

definition next_broker :: "events_env \<Rightarrow> broker E" where
  "next_broker e = do { n \<leftarrow> gets ev_deliveries; modify (\<lambda>s. s\<lparr>ev_deliveries := Suc n\<rparr>); ret (de_broker e n) }"

definition trusted_node :: "domain_trust \<Rightarrow> string" where
  "trusted_node t = strip (str_or (dt_node_id t) [])"

text \<open>The five reasons to skip an event, in their order.\<close>

definition skip_reason :: "events_env \<Rightarrow> domain_trust \<Rightarrow> string option" where
  "skip_reason e t =
     (let missing = (\<lambda>x. str_or x [] = []) in
      if \<not> de_enabled e then Some ''domain_events_disabled''
      else if \<not> dt_operational_ready t then Some ''operational_readiness_required''
      else if dt_trust_status t \<noteq> ''trusted'' then Some ''trusted_node_required''
      else if trusted_node t = [] \<or> missing (dt_identity t) \<or> missing (dt_token t) then Some ''missing_operational_mqtt_credentials''
      else if missing (dt_host t) \<or> dt_port t = None \<or> dt_port t = Some 0 then Some ''missing_operational_mqtt_endpoint''
      else None)"

section \<open>Delivery\<close>

definition event_latency_ms :: "instant \<Rightarrow> instant \<Rightarrow> rat" where
  "event_latency_ms started_at ended_at = py_round 3 (seconds_between ended_at started_at * 1000)"

definition stamp_mqtt_sent :: "instant \<Rightarrow> instant \<Rightarrow> dict \<Rightarrow> dict" where
  "stamp_mqtt_sent request_timestamp now payload =
     aput ''data'' (PDict (aput ''request_to_mqtt_latency_ms'' (PFloat (event_latency_ms request_timestamp now))
       (aput ''mqtt_sent_at'' (PStr (isoformat now)) (dict_of (dget payload ''data''))))) payload"

datatype delivery = Delivered | No_dependency | Delivery_error

definition publish_payload :: "events_env \<Rightarrow> string \<Rightarrow> string \<Rightarrow> dict \<Rightarrow> instant \<Rightarrow> delivery E" where
  "publish_payload e trusted_node_id topic payload request_timestamp = do {
     b \<leftarrow> next_broker e;
     if b = No_paho then ret No_dependency
     else if b = Connect_error then ret Delivery_error
     else do {
       now \<leftarrow> event_now e;
       let stamped = stamp_mqtt_sent request_timestamp now payload in
       (case validate_domain_event_publish (de_rp e) topic stamped trusted_node_id of
          Inl _ \<Rightarrow> ret Delivery_error
        | Inr _ \<Rightarrow>
            if b = Publish_error then ret Delivery_error
            else do {
              modify (\<lambda>s. s\<lparr>ev_sent := (topic, stamped, trusted_node_id) # ev_sent s\<rparr>);
              ret (if b = Not_confirmed then Delivery_error else Delivered) }) } }"

text \<open>The decision on an event is noted: a recognition apart from the requests.\<close>

definition record_publish :: "bool \<Rightarrow> publish_decision \<Rightarrow> publish_decision E" where
  "record_publish recognition d = do {
     modify (\<lambda>s. if recognition then s\<lparr>ev_last_recognition := Some d\<rparr> else s\<lparr>ev_last_decision := Some d\<rparr>);
     ret d }"

definition skipped_decision :: "string \<Rightarrow> string \<Rightarrow> string \<Rightarrow> string option \<Rightarrow> publish_decision" where
  "skipped_decision reason event_id event_type topic =
     \<lparr>dd_status = ''skipped'', dd_reason = reason, dd_event_id = Some event_id, dd_event_type = Some event_type,
      dd_topic = topic, dd_published_at = None\<rparr>"

definition deliver_event ::
    "events_env \<Rightarrow> bool \<Rightarrow> domain_trust \<Rightarrow> string \<Rightarrow> string \<Rightarrow> dict \<Rightarrow> instant \<Rightarrow> publish_decision E" where
  "deliver_event e recognition trust event_id event_type payload request_timestamp = do {
     let topic = domain_event_topic event_type;
         decision = (\<lambda>status reason published. \<lparr>dd_status = status, dd_reason = reason, dd_event_id = Some event_id,
           dd_event_type = Some event_type, dd_topic = topic, dd_published_at = published\<rparr>)
     in do {
       d \<leftarrow> publish_payload e (trusted_node trust) (str_or topic []) payload request_timestamp;
       (case d of
          No_dependency \<Rightarrow> record_publish recognition (decision ''failed'' ''missing_paho_mqtt_dependency'' None)
        | Delivery_error \<Rightarrow> record_publish recognition (decision ''failed'' ''mqtt_publish_failed'' None)
        | Delivered \<Rightarrow> do {
            now \<leftarrow> event_now e;
            record_publish recognition (decision ''published'' ''published'' (Some (isoformat now))) }) } }"

definition request_time :: "events_env \<Rightarrow> instant option \<Rightarrow> instant E" where
  "request_time e requested_at = (case requested_at of None \<Rightarrow> event_now e | Some t \<Rightarrow> ret t)"

definition event_source :: "events_env \<Rightarrow> domain_trust \<Rightarrow> pv" where
  "event_source e trust = PDict [(''node_id'', PStr (trusted_node trust)), (''component'', PStr ''hexevoice.assistant.local_intents''),
     (''node_type'', PStr (str_or (dt_node_type trust) (de_node_type e)))]"

definition event_payload :: "events_env \<Rightarrow> domain_trust \<Rightarrow> string \<Rightarrow> string \<Rightarrow> string \<Rightarrow> string \<Rightarrow> string \<Rightarrow> dict \<Rightarrow> dict" where
  "event_payload e trust event_id event_type occurred_at family record_id data =
     [(''schema_version'', PInt 1), (''event_id'', PStr event_id), (''event_type'', PStr event_type),
      (''occurred_at'', PStr occurred_at), (''source'', event_source e trust),
      (''subject'', PDict [(''family'', PStr family), (''record_id'', PStr record_id)]), (''data'', PDict data),
      (''severity'', PStr ''info''), (''priority'', PStr ''normal''), (''safety_critical'', PBool False)]"

section \<open>The requests to the timer node\<close>

definition event_duration_hhmmss :: "int \<Rightarrow> string" where
  "event_duration_hhmmss duration_seconds =
     (let seconds = max 0 duration_seconds; hours = seconds div 3600; remainder = seconds mod 3600
      in two_digits hours @ '':'' @ two_digits (remainder div 60) @ '':'' @ two_digits (remainder mod 60))"

definition publish_timer_create ::
    "events_env \<Rightarrow> string \<Rightarrow> string \<Rightarrow> int \<Rightarrow> string \<Rightarrow> instant option \<Rightarrow> publish_decision E" where
  "publish_timer_create e endpoint_id session_id duration_seconds duration_text requested_at = do {
     u \<leftarrow> event_uuid e;
     trust \<leftarrow> load_trust e;
     let event_type = ''timer.create_requested''; event_id = ''voice-timer-'' @ u in
     (case skip_reason e trust of
        Some reason \<Rightarrow> record_publish False (skipped_decision reason event_id event_type
          (if trusted_node trust = [] then None else domain_event_topic event_type))
      | None \<Rightarrow> do {
          t \<leftarrow> request_time e requested_at;
          deliver_event e False trust event_id event_type
            (event_payload e trust event_id event_type (isoformat t) ''timer'' session_id
              [(''intent'', PStr ''timer.create''), (''endpoint_id'', PStr endpoint_id), (''session_id'', PStr session_id),
               (''duration_seconds'', PInt duration_seconds), (''duration_hhmmss'', PStr (event_duration_hhmmss duration_seconds)),
               (''duration_text'', PStr duration_text), (''requested_at'', PStr (isoformat t))]) t }) }"

definition publish_timer_status_request ::
    "events_env \<Rightarrow> string \<Rightarrow> string \<Rightarrow> instant option \<Rightarrow> string \<Rightarrow> string option \<Rightarrow> publish_decision E" where
  "publish_timer_status_request e endpoint_id session_id requested_at scope timer_id = do {
     u \<leftarrow> event_uuid e;
     trust \<leftarrow> load_trust e;
     let event_type = ''timer.status_requested''; event_id = ''voice-timer-status-'' @ u in
     (case skip_reason e trust of
        Some reason \<Rightarrow> record_publish False (skipped_decision reason event_id event_type
          (if trusted_node trust = [] then None else domain_event_topic event_type))
      | None \<Rightarrow> do {
          t \<leftarrow> request_time e requested_at;
          c \<leftarrow> event_uuid e;
          deliver_event e False trust event_id event_type
            (event_payload e trust event_id event_type (isoformat t) ''timer'' (str_or timer_id endpoint_id)
              [(''intent'', PStr ''timer.status''), (''endpoint_id'', PStr endpoint_id), (''session_id'', PStr session_id),
               (''timer_id'', ostr timer_id), (''scope'', PStr scope), (''correlation_id'', PStr (''timer-status-'' @ c)),
               (''requested_at'', PStr (isoformat t))]) t }) }"

definition publish_timer_control_request ::
    "events_env \<Rightarrow> string \<Rightarrow> string \<Rightarrow> string \<Rightarrow> instant option \<Rightarrow> string \<Rightarrow> string option \<Rightarrow> publish_decision E" where
  "publish_timer_control_request e action endpoint_id session_id requested_at scope timer_id = do {
     let act = lower (strip action) in
     if act \<notin> {''stop'', ''cancel''} then
       record_publish False \<lparr>dd_status = ''failed'', dd_reason = ''unsupported_timer_control'', dd_event_id = None,
         dd_event_type = Some ''timer.control_requested'', dd_topic = None, dd_published_at = None\<rparr>
     else do {
       u \<leftarrow> event_uuid e;
       trust \<leftarrow> load_trust e;
       let event_type = ''timer.'' @ act @ ''_requested''; event_id = ''voice-timer-'' @ act @ ''-'' @ u in
       (case skip_reason e trust of
          Some reason \<Rightarrow> record_publish False (skipped_decision reason event_id event_type
            (if trusted_node trust = [] then None else domain_event_topic event_type))
        | None \<Rightarrow> do {
            t \<leftarrow> request_time e requested_at;
            c \<leftarrow> event_uuid e;
            deliver_event e False trust event_id event_type
              (event_payload e trust event_id event_type (isoformat t) ''timer'' (str_or timer_id endpoint_id)
                [(''intent'', PStr (''timer.'' @ act)), (''action'', PStr act), (''endpoint_id'', PStr endpoint_id),
                 (''session_id'', PStr session_id), (''timer_id'', ostr timer_id), (''scope'', PStr scope),
                 (''correlation_id'', PStr (''timer-'' @ act @ ''-'' @ c)), (''requested_at'', PStr (isoformat t))]) t }) } }"

definition publish_timer_adjust_request ::
    "events_env \<Rightarrow> string \<Rightarrow> string \<Rightarrow> int \<Rightarrow> string \<Rightarrow> instant option \<Rightarrow> string \<Rightarrow> string option \<Rightarrow> publish_decision E" where
  "publish_timer_adjust_request e endpoint_id session_id delta_seconds delta_text requested_at scope timer_id = do {
     u \<leftarrow> event_uuid e;
     trust \<leftarrow> load_trust e;
     let event_type = ''timer.adjust_time_requested''; event_id = ''voice-timer-adjust-'' @ u in
     (case skip_reason e trust of
        Some reason \<Rightarrow> record_publish False (skipped_decision reason event_id event_type
          (if trusted_node trust = [] then None else domain_event_topic event_type))
      | None \<Rightarrow> do {
          t \<leftarrow> request_time e requested_at;
          c \<leftarrow> event_uuid e;
          deliver_event e False trust event_id event_type
            (event_payload e trust event_id event_type (isoformat t) ''timer'' (str_or timer_id endpoint_id)
              [(''intent'', PStr ''timer.adjust_time''), (''endpoint_id'', PStr endpoint_id), (''session_id'', PStr session_id),
               (''timer_id'', ostr timer_id), (''scope'', PStr scope), (''delta_seconds'', PInt delta_seconds),
               (''delta_hhmmss'', PStr (event_duration_hhmmss \<bar>delta_seconds\<bar>)), (''delta_text'', PStr delta_text),
               (''direction'', PStr (if 0 \<le> delta_seconds then ''add'' else ''remove'')),
               (''correlation_id'', PStr (''timer-adjust-'' @ c)), (''requested_at'', PStr (isoformat t))]) t }) }"

definition publish_timer_snooze_request ::
    "events_env \<Rightarrow> string \<Rightarrow> string \<Rightarrow> int \<Rightarrow> string \<Rightarrow> instant option \<Rightarrow> string \<Rightarrow> string option \<Rightarrow> publish_decision E" where
  "publish_timer_snooze_request e endpoint_id session_id duration_seconds duration_text requested_at scope timer_id = do {
     u \<leftarrow> event_uuid e;
     trust \<leftarrow> load_trust e;
     let event_type = ''timer.snooze_requested''; event_id = ''voice-timer-snooze-'' @ u in
     (case skip_reason e trust of
        Some reason \<Rightarrow> record_publish False (skipped_decision reason event_id event_type
          (if trusted_node trust = [] then None else domain_event_topic event_type))
      | None \<Rightarrow> do {
          t \<leftarrow> request_time e requested_at;
          c \<leftarrow> event_uuid e;
          deliver_event e False trust event_id event_type
            (event_payload e trust event_id event_type (isoformat t) ''timer'' (str_or timer_id endpoint_id)
              [(''intent'', PStr ''timer.snooze''), (''endpoint_id'', PStr endpoint_id), (''session_id'', PStr session_id),
               (''timer_id'', ostr timer_id), (''scope'', PStr scope), (''duration_seconds'', PInt duration_seconds),
               (''duration_hhmmss'', PStr (event_duration_hhmmss \<bar>duration_seconds\<bar>)), (''duration_text'', PStr duration_text),
               (''correlation_id'', PStr (''timer-snooze-'' @ c)), (''requested_at'', PStr (isoformat t))]) t }) }"

section \<open>Recognised intents\<close>

record recognition =
  rc_event_id :: string
  rc_endpoint_id :: string
  rc_session_id :: string
  rc_intent_id :: string
  rc_intent_name :: "string option"
  rc_service_id :: "string option"
  rc_version :: "string option"
  rc_command :: string
  rc_provider_id :: string
  rc_slots :: dict
  rc_requested_at :: instant
  rc_intent_latency_ms :: "rat option"

text \<open>What was heard and said does not enter the event: \<open>recognized_text\<close> is the command.\<close>

definition publish_voice_intent_recognized :: "events_env \<Rightarrow> recognition \<Rightarrow> publish_decision E" where
  "publish_voice_intent_recognized e q = do {
     trust \<leftarrow> load_trust e;
     let event_type = ''voice.intent.recognized''; event_id = rc_event_id q; stamp = isoformat (rc_requested_at q) in
     (case skip_reason e trust of
        Some reason \<Rightarrow> record_publish True (skipped_decision reason event_id event_type
          (if trusted_node trust = [] then None else domain_event_topic event_type))
      | None \<Rightarrow>
          deliver_event e True trust event_id event_type
            (event_payload e trust event_id event_type stamp ''voice_intent'' (rc_session_id q)
              [(''endpoint_id'', PStr (rc_endpoint_id q)), (''session_id'', PStr (rc_session_id q)),
               (''intent_id'', PStr (rc_intent_id q)), (''intent_name'', ostr (rc_intent_name q)),
               (''service_id'', ostr (rc_service_id q)), (''version'', ostr (rc_version q)), (''command'', PStr (rc_command q)),
               (''provider_id'', PStr (rc_provider_id q)), (''recognized_text'', PStr (rc_command q)),
               (''slots'', PDict (rc_slots q)), (''parameters'', PDict (rc_slots q)), (''recognized_at'', PStr stamp),
               (''intent_latency_ms'', onum (rc_intent_latency_ms q))]) (rc_requested_at q)) }"

section \<open>The queue of the worker\<close>

text \<open>A call of the publisher with its arguments (the texts heard and said are not used by the publisher).\<close>

datatype publish_call =
    Timer_create string string int string instant
  | Timer_status string string instant string "string option"
  | Timer_control string string string instant string "string option"
  | Timer_adjust string string int string instant string "string option"
  | Timer_snooze string string int string instant string "string option"
  | Intent_recognized recognition

fun run_publish :: "events_env \<Rightarrow> publish_call \<Rightarrow> publish_decision E" where
  "run_publish e (Timer_create ep s n txt t) = publish_timer_create e ep s n txt (Some t)"
| "run_publish e (Timer_status ep s t scope i) = publish_timer_status_request e ep s (Some t) scope i"
| "run_publish e (Timer_control action ep s t scope i) = publish_timer_control_request e action ep s (Some t) scope i"
| "run_publish e (Timer_adjust ep s n txt t scope i) = publish_timer_adjust_request e ep s n txt (Some t) scope i"
| "run_publish e (Timer_snooze ep s n txt t scope i) = publish_timer_snooze_request e ep s n txt (Some t) scope i"
| "run_publish e (Intent_recognized q) = publish_voice_intent_recognized e q"

record async_publisher =
  ap_capacity :: nat
  ap_queue :: "(publish_call \<times> publish_decision) list"
  ap_last_queued :: "publish_decision option"
  ap_last_worker :: "publish_decision option"
  ap_delegate :: events_state

definition new_async_publisher :: "int \<Rightarrow> async_publisher" where
  "new_async_publisher queue_size = \<lparr>ap_capacity = nat (max 1 queue_size), ap_queue = [], ap_last_queued = None,
     ap_last_worker = None, ap_delegate = new_events_state\<rparr>"

definition enqueue_publish :: "publish_call \<Rightarrow> publish_decision \<Rightarrow> async_publisher \<Rightarrow> publish_decision \<times> async_publisher" where
  "enqueue_publish job queued p =
     (if ap_capacity p \<le> length (ap_queue p) then
        (let dropped = queued\<lparr>dd_status := ''failed'', dd_reason := ''async_publish_queue_full'', dd_published_at := None\<rparr>
         in (dropped, p\<lparr>ap_last_queued := Some dropped\<rparr>))
      else (queued, p\<lparr>ap_queue := ap_queue p @ [(job, queued)], ap_last_queued := Some queued\<rparr>))"

text \<open>The identifier and the type the caller is told; a request gets an identifier of its own here.\<close>

fun queued_event :: "publish_call \<Rightarrow> string \<Rightarrow> string \<times> string" where
  "queued_event (Timer_create ep s n txt t) u = (''voice-timer-'' @ u, ''timer.create_requested'')"
| "queued_event (Timer_status ep s t scope i) u = (''voice-timer-status-'' @ u, ''timer.status_requested'')"
| "queued_event (Timer_control action ep s t scope i) u =
     (let act = lower (strip action) in
      (''voice-timer-'' @ (if act = [] then ''control'' else act) @ ''-'' @ u,
       if act = [] then ''timer.control_requested'' else ''timer.'' @ act @ ''_requested''))"
| "queued_event (Timer_adjust ep s n txt t scope i) u = (''voice-timer-adjust-'' @ u, ''timer.adjust_time_requested'')"
| "queued_event (Timer_snooze ep s n txt t scope i) u = (''voice-timer-snooze-'' @ u, ''timer.snooze_requested'')"
| "queued_event (Intent_recognized q) u = (rc_event_id q, ''voice.intent.recognized'')"

fun needs_uuid :: "publish_call \<Rightarrow> bool" where
  "needs_uuid (Intent_recognized q) = False"
| "needs_uuid _ = True"

definition async_publish :: "events_env \<Rightarrow> publish_call \<Rightarrow> async_publisher \<Rightarrow> publish_decision \<times> async_publisher" where
  "async_publish e job p =
     (let (u, s) = (if needs_uuid job then run_state (event_uuid e) (ap_delegate p) else ([], ap_delegate p));
          (event_id, event_type) = queued_event job u
      in enqueue_publish job
           \<lparr>dd_status = ''queued'', dd_reason = ''queued_for_async_publish'', dd_event_id = Some event_id,
            dd_event_type = Some event_type, dd_topic = None, dd_published_at = None\<rparr> (p\<lparr>ap_delegate := s\<rparr>))"

text \<open>The worker takes one job; \<open>raised\<close> says that it failed with an exception (the trust state cannot be read).\<close>

definition worker_step :: "events_env \<Rightarrow> bool \<Rightarrow> async_publisher \<Rightarrow> async_publisher" where
  "worker_step e raised p = (case ap_queue p of
     [] \<Rightarrow> p
   | (job, queued) # remaining \<Rightarrow>
       if raised then p\<lparr>ap_queue := remaining,
         ap_last_worker := Some (queued\<lparr>dd_status := ''failed'', dd_reason := ''async_publish_worker_exception'', dd_published_at := None\<rparr>)\<rparr>
       else let (d, s) = run_state (run_publish e job) (ap_delegate p)
            in p\<lparr>ap_queue := remaining, ap_last_worker := Some d, ap_delegate := s\<rparr>)"

end
