(* ===== verification/DomainFacts.thy ===== *)
theory DomainFacts
  imports DomainEvents
begin

text \<open>
  What leaves the node: every event handed to the broker has passed the check, so it carries no private field, its
  topic is that of its type and its source is the trusted node; and the requests the publisher builds itself
  pass the check unless they are too large, so that exactly the event that was asked for goes out.
\<close>

section \<open>Private fields\<close>

fun private_free :: "pv \<Rightarrow> bool"
  and private_free_items :: "dict \<Rightarrow> bool"
  and private_free_list :: "pv list \<Rightarrow> bool" where
  "private_free (PDict d) = private_free_items d"
| "private_free (PList xs) = private_free_list xs"
| "private_free PNone = True"
| "private_free (PBool b) = True"
| "private_free (PInt i) = True"
| "private_free (PFloat r) = True"
| "private_free (PStr s) = True"
| "private_free_items [] = True"
| "private_free_items ((k, v) # d) = (\<not> is_private_field k \<and> private_free v \<and> private_free_items d)"
| "private_free_list [] = True"
| "private_free_list (v # xs) = (private_free v \<and> private_free_list xs)"

lemma reject_private_None:
  "reject_private v path = None \<longleftrightarrow> private_free v"
  "reject_items d path = None \<longleftrightarrow> private_free_items d"
  "reject_list xs n path = None \<longleftrightarrow> private_free_list xs"
  by (induction v path and d path and xs n path rule: reject_private_reject_items_reject_list.induct)
    (auto simp: Let_def split: option.splits)

lemma private_free_aput:
  "private_free_items d \<Longrightarrow> private_free v \<Longrightarrow> \<not> is_private_field k \<Longrightarrow> private_free_items (aput k v d)"
  by (induction d) auto

section \<open>Checked events\<close>

fun event_safe :: "events_env \<Rightarrow> string \<times> dict \<times> string \<Rightarrow> bool" where
  "event_safe e (topic, payload, node) \<longleftrightarrow> private_free (dget payload ''data'')
     \<and> domain_event_topic (text_of (de_rp e) [dget payload ''event_type'']) = Some topic
     \<and> text_of (de_rp e) [dget (dict_of (dget payload ''source'')) ''node_id''] = node \<and> node \<noteq> []
     \<and> length (json_dumps (de_rp e) (PDict payload)) \<le> DOMAIN_EVENT_MAX_PAYLOAD_BYTES"

lemma trusted_node_strip [simp]: "strip (trusted_node t) = trusted_node t"
  by (simp add: trusted_node_def)

lemma validated_safe:
  assumes "validate_domain_event_publish (de_rp e) topic payload node = Inr x" "strip node = node" "node \<noteq> []"
  shows "event_safe e (topic, payload, node)"
proof -
  have "dget payload ''data'' = (case aget payload ''data'' of None \<Rightarrow> PNone | Some v \<Rightarrow> v)" by (simp add: dget_def)
  then show ?thesis
    using assms by (auto simp: validate_domain_event_publish_def Let_def reject_private_None split: if_splits option.splits)
qed

definition sent_ok :: "events_env \<Rightarrow> events_state \<Rightarrow> bool" where
  "sent_ok e s \<longleftrightarrow> (\<forall>x \<in> set (ev_sent s). event_safe e x)"

lemma event_now_wp [wp_simps]: "wp (event_now e) Q s = Q (de_clock e (ev_clocks s)) (s\<lparr>ev_clocks := Suc (ev_clocks s)\<rparr>)"
  by (simp add: event_now_def wp_simps)

lemma event_uuid_wp [wp_simps]: "wp (event_uuid e) Q s = Q (de_uuid e (ev_uuids s)) (s\<lparr>ev_uuids := Suc (ev_uuids s)\<rparr>)"
  by (simp add: event_uuid_def wp_simps)

lemma load_trust_wp [wp_simps]: "wp (load_trust e) Q s = Q (de_trust e (ev_loads s)) (s\<lparr>ev_loads := Suc (ev_loads s)\<rparr>)"
  by (simp add: load_trust_def wp_simps)

lemma next_broker_wp [wp_simps]:
  "wp (next_broker e) Q s = Q (de_broker e (ev_deliveries s)) (s\<lparr>ev_deliveries := Suc (ev_deliveries s)\<rparr>)"
  by (simp add: next_broker_def wp_simps)

lemma record_wp [wp_simps]: "wp (record_publish rec d) Q s =
    Q d (if rec then s\<lparr>ev_last_recognition := Some d\<rparr> else s\<lparr>ev_last_decision := Some d\<rparr>)"
  by (simp add: record_publish_def wp_simps)

lemma request_time_wp [wp_simps]: "wp (request_time e r) Q s = (case r of
    None \<Rightarrow> Q (de_clock e (ev_clocks s)) (s\<lparr>ev_clocks := Suc (ev_clocks s)\<rparr>) | Some t \<Rightarrow> Q t s)"
  by (simp add: request_time_def wp_simps split: option.splits)

lemma sent_ok_simps [simp]:
  "sent_ok e (s\<lparr>ev_clocks := n\<rparr>) = sent_ok e s" "sent_ok e (s\<lparr>ev_uuids := n\<rparr>) = sent_ok e s"
  "sent_ok e (s\<lparr>ev_loads := n\<rparr>) = sent_ok e s" "sent_ok e (s\<lparr>ev_deliveries := n\<rparr>) = sent_ok e s"
  "sent_ok e (s\<lparr>ev_last_decision := d\<rparr>) = sent_ok e s" "sent_ok e (s\<lparr>ev_last_recognition := d\<rparr>) = sent_ok e s"
  "sent_ok e (s\<lparr>ev_sent := xs\<rparr>) = (\<forall>x \<in> set xs. event_safe e x)"
  by (simp_all add: sent_ok_def)

lemma publish_payload_ok:
  assumes "sent_ok e s" "strip node = node" "node \<noteq> []"
  shows "wp (publish_payload e node topic payload t) (\<lambda>_. sent_ok e) s"
  using assms validated_safe [OF _ assms(2,3)]
  by (auto simp: publish_payload_def wp_simps Let_def simp del: event_safe.simps split: sum.splits)
    (auto simp: sent_ok_def simp del: event_safe.simps)

lemma skip_None_node: "skip_reason e t = None \<Longrightarrow> trusted_node t \<noteq> []"
  by (auto simp: skip_reason_def Let_def split: if_splits)

lemma deliver_ok:
  assumes "sent_ok e s" "skip_reason e trust = None"
  shows "wp (deliver_event e rec trust i ty payload t) (\<lambda>_. sent_ok e) s"
proof -
  have "wp (publish_payload e (trusted_node trust) topic payload t) (\<lambda>_. sent_ok e) s" for topic
    using assms skip_None_node by (intro publish_payload_ok) auto
  then show ?thesis
    unfolding deliver_event_def Let_def wp_bind by (rule wp_mono) (auto simp: wp_simps split: delivery.splits)
qed

lemma publish_ok: "sent_ok e s \<Longrightarrow> wp (run_publish e job) (\<lambda>_. sent_ok e) s"
  by (cases job)
    (auto simp: publish_timer_create_def publish_timer_status_request_def publish_timer_control_request_def
      publish_timer_adjust_request_def publish_timer_snooze_request_def publish_voice_intent_recognized_def
      wp_simps Let_def intro!: deliver_ok split: option.splits)

section \<open>Runs\<close>

inductive publisher_reachable :: "events_env \<Rightarrow> async_publisher \<Rightarrow> bool" for e where
  new: "publisher_reachable e (new_async_publisher n)"
| published: "publisher_reachable e p \<Longrightarrow> publisher_reachable e (snd (async_publish e job p))"
| worked: "publisher_reachable e p \<Longrightarrow> publisher_reachable e (worker_step e raised p)"

definition publisher_ok :: "events_env \<Rightarrow> async_publisher \<Rightarrow> bool" where
  "publisher_ok e p \<longleftrightarrow> sent_ok e (ap_delegate p) \<and> length (ap_queue p) \<le> ap_capacity p"

lemma uuid_state: "snd (run_state (event_uuid e) s) = s\<lparr>ev_uuids := Suc (ev_uuids s)\<rparr>"
  by (simp add: event_uuid_def)

lemma publisher_reachable_ok: "publisher_reachable e p \<Longrightarrow> publisher_ok e p"
proof (induction rule: publisher_reachable.induct)
  case (new n)
  show ?case by (simp add: publisher_ok_def new_async_publisher_def new_events_state_def sent_ok_def)
next
  case (published p job)
  then show ?case
    by (auto simp: publisher_ok_def async_publish_def enqueue_publish_def Let_def event_uuid_def
        split: prod.splits if_splits)
next
  case (worked p raised)
  then show ?case
    using publish_ok [of e "ap_delegate p"]
    by (auto simp: publisher_ok_def worker_step_def wp_def split: list.splits prod.splits) (metis snd_conv)
qed

text \<open>C34. Whatever is queued and however the worker fares, every event that reached the broker holds no field
  with a private name at any depth of its data (the names the code lists, of texts heard or spoken and of
  credentials; the values of other fields are not looked at), goes to the topic of its own
  type, names the node that was trusted, and is no larger than allowed; the queue never outgrows its bound.\<close>

theorem published_events_are_clean:
  assumes "publisher_reachable e p"
  shows "length (ap_queue p) \<le> ap_capacity p
    \<and> (\<forall>(topic, payload, node) \<in> set (ev_sent (ap_delegate p)).
        private_free (dget payload ''data'')
        \<and> domain_event_topic (text_of (de_rp e) [dget payload ''event_type'']) = Some topic
        \<and> text_of (de_rp e) [dget (dict_of (dget payload ''source'')) ''node_id''] = node \<and> node \<noteq> []
        \<and> length (json_dumps (de_rp e) (PDict payload)) \<le> DOMAIN_EVENT_MAX_PAYLOAD_BYTES)"
  using publisher_reachable_ok [OF assms] unfolding publisher_ok_def sent_ok_def by (fastforce simp del: private_free.simps)

section \<open>What the publisher builds passes\<close>

lemma text_of_PStr [simp]: "text_of rp [PStr x] = strip x"
  by (simp add: text_of_def py_or_def py_str.simps)

lemma public_keys:
  "\<not> is_private_field ''intent''" "\<not> is_private_field ''endpoint_id''" "\<not> is_private_field
  ''session_id''" "\<not> is_private_field ''duration_seconds''" "\<not> is_private_field ''duration_hhmmss''" "\<not> is_private_field ''duration_text''" "\<not> is_private_field ''requested_at''" "\<not> is_private_field
  ''timer_id''" "\<not> is_private_field ''scope''" "\<not> is_private_field ''correlation_id''" "\<not> is_private_field ''action''" "\<not> is_private_field ''delta_seconds''" "\<not> is_private_field ''delta_hhmmss''"
  "\<not> is_private_field ''delta_text''" "\<not> is_private_field ''direction''" "\<not> is_private_field
  ''mqtt_sent_at''" "\<not> is_private_field ''request_to_mqtt_latency_ms''"
  by code_simp+

lemma request_topics:
  "domain_event_topic ''timer.create_requested'' = Some ''hexe/events/timer/create_requested''" "is_domain_event_type
  ''timer.create_requested''" "domain_event_topic ''timer.status_requested'' = Some
  ''hexe/events/timer/status_requested''" "is_domain_event_type ''timer.status_requested''" "domain_event_topic
  ''timer.stop_requested'' = Some ''hexe/events/timer/stop_requested''" "is_domain_event_type
  ''timer.stop_requested''" "domain_event_topic ''timer.cancel_requested'' = Some
  ''hexe/events/timer/cancel_requested''" "is_domain_event_type ''timer.cancel_requested''" "domain_event_topic
  ''timer.adjust_time_requested'' = Some ''hexe/events/timer/adjust_time_requested''" "is_domain_event_type
  ''timer.adjust_time_requested''" "domain_event_topic ''timer.snooze_requested'' = Some
  ''hexe/events/timer/snooze_requested''" "is_domain_event_type ''timer.snooze_requested''"
  by code_simp+

text \<open>
  The events the timer node is asked with, in a table of their own: what a request is about (the end of its type
  and of its topic), its identifier, its subject and its data. \<open>u\<close> and \<open>c\<close> are the two random identifiers drawn for it.
\<close>

fun timer_request :: "publish_call \<Rightarrow> bool" where
  "timer_request (Intent_recognized q) = False"
| "timer_request (Timer_control action ep s t scope i) = (lower (strip action) \<in> {''stop'', ''cancel''})"
| "timer_request _ = True"

fun timer_ask :: "publish_call \<Rightarrow> string \<Rightarrow> string \<Rightarrow> string \<times> string \<times> string \<times> instant \<times> dict" where
  "timer_ask (Timer_create ep sid n txt t) u c = (''create_requested'', ''voice-timer-'' @ u, sid, t,
     [(''intent'', PStr ''timer.create''), (''endpoint_id'', PStr ep), (''session_id'', PStr sid), (''duration_seconds'', PInt n),
      (''duration_hhmmss'', PStr (event_duration_hhmmss n)), (''duration_text'', PStr txt), (''requested_at'', PStr (isoformat t))])"
| "timer_ask (Timer_status ep sid t scope i) u c = (''status_requested'', ''voice-timer-status-'' @ u, str_or i ep, t,
     [(''intent'', PStr ''timer.status''), (''endpoint_id'', PStr ep), (''session_id'', PStr sid), (''timer_id'', ostr i),
      (''scope'', PStr scope), (''correlation_id'', PStr (''timer-status-'' @ c)), (''requested_at'', PStr (isoformat t))])"
| "timer_ask (Timer_control action ep sid t scope i) u c =
     (let act = lower (strip action) in (act @ ''_requested'', ''voice-timer-'' @ act @ ''-'' @ u, str_or i ep, t,
     [(''intent'', PStr (''timer.'' @ act)), (''action'', PStr act), (''endpoint_id'', PStr ep), (''session_id'', PStr sid),
      (''timer_id'', ostr i), (''scope'', PStr scope), (''correlation_id'', PStr (''timer-'' @ act @ ''-'' @ c)),
      (''requested_at'', PStr (isoformat t))]))"
| "timer_ask (Timer_adjust ep sid n txt t scope i) u c = (''adjust_time_requested'', ''voice-timer-adjust-'' @ u, str_or i ep, t,
     [(''intent'', PStr ''timer.adjust_time''), (''endpoint_id'', PStr ep), (''session_id'', PStr sid), (''timer_id'', ostr i),
      (''scope'', PStr scope), (''delta_seconds'', PInt n), (''delta_hhmmss'', PStr (event_duration_hhmmss \<bar>n\<bar>)),
      (''delta_text'', PStr txt), (''direction'', PStr (if n < 0 then ''remove'' else ''add'')),
      (''correlation_id'', PStr (''timer-adjust-'' @ c)), (''requested_at'', PStr (isoformat t))])"
| "timer_ask (Timer_snooze ep sid n txt t scope i) u c = (''snooze_requested'', ''voice-timer-snooze-'' @ u, str_or i ep, t,
     [(''intent'', PStr ''timer.snooze''), (''endpoint_id'', PStr ep), (''session_id'', PStr sid), (''timer_id'', ostr i),
      (''scope'', PStr scope), (''duration_seconds'', PInt n), (''duration_hhmmss'', PStr (event_duration_hhmmss \<bar>n\<bar>)),
      (''duration_text'', PStr txt), (''correlation_id'', PStr (''timer-snooze-'' @ c)), (''requested_at'', PStr (isoformat t))])"
| "timer_ask (Intent_recognized q) u c = ([], [], [], 0, [])"

definition timer_event :: "events_env \<Rightarrow> domain_trust \<Rightarrow> instant \<Rightarrow> string \<times> string \<times> string \<times> instant \<times> dict \<Rightarrow> dict" where
  "timer_event e trust now ask = (case ask of (what, i, about, t, data) \<Rightarrow>
     [(''schema_version'', PInt 1), (''event_id'', PStr i), (''event_type'', PStr (''timer.'' @ what)),
      (''occurred_at'', PStr (isoformat t)),
      (''source'', PDict [(''node_id'', PStr (trusted_node trust)), (''component'', PStr ''hexevoice.assistant.local_intents''),
        (''node_type'', PStr (str_or (dt_node_type trust) (de_node_type e)))]),
      (''subject'', PDict [(''family'', PStr ''timer''), (''record_id'', PStr about)]),
      (''data'', PDict (data @ [(''mqtt_sent_at'', PStr (isoformat now)),
        (''request_to_mqtt_latency_ms'', PFloat (event_latency_ms t now))])),
      (''severity'', PStr ''info''), (''priority'', PStr ''normal''), (''safety_critical'', PBool False)])"

text \<open>The event \<open>p\<close> is handed to the broker, once, or is over the limit and nothing is.\<close>

definition sent_if_small :: "events_env \<Rightarrow> string \<Rightarrow> string \<Rightarrow> dict \<Rightarrow> publish_decision \<Rightarrow> events_state \<Rightarrow> events_state \<Rightarrow> bool" where
  "sent_if_small e topic node p d s u \<longleftrightarrow>
     (if length (json_dumps (de_rp e) (PDict p)) \<le> DOMAIN_EVENT_MAX_PAYLOAD_BYTES
      then dd_status d = ''published'' \<and> ev_sent u = (topic, p, node) # ev_sent s
      else dd_status d = ''failed'' \<and> dd_reason d = ''mqtt_publish_failed'' \<and> ev_sent u = ev_sent s)"

lemma built_payload_checks:
  fixes rec family occurred :: string and t now :: instant and e :: events_env
  assumes "domain_event_topic ty = Some topic" "is_domain_event_type ty" "strip ty = ty" "strip i \<noteq> []"
    and "private_free_items data" "trusted_node trust = node"
  defines "p \<equiv> stamp_mqtt_sent t now (event_payload e trust i ty occurred family rec data)"
  shows "validate_domain_event_publish rp topic p node = (if DOMAIN_EVENT_MAX_PAYLOAD_BYTES < length (json_dumps rp (PDict p))
      then Inl ''domain_event_payload_too_large'' else Inr (json_dumps rp (PDict p)))"
    "dget p ''event_id'' = PStr i"
proof -
  let ?data = "aput ''request_to_mqtt_latency_ms'' (PFloat (event_latency_ms t now)) (aput ''mqtt_sent_at'' (PStr (isoformat now)) data)"
  have data: "private_free_items ?data" using assms(5) by (intro private_free_aput) (simp_all add: public_keys)
  have p: "p = [(''schema_version'', PInt 1), (''event_id'', PStr i), (''event_type'', PStr ty), (''occurred_at'', PStr occurred),
      (''source'', event_source e trust), (''subject'', PDict [(''family'', PStr family), (''record_id'', PStr rec)]),
      (''data'', PDict ?data), (''severity'', PStr ''info''), (''priority'', PStr ''normal''), (''safety_critical'', PBool False)]"
    by (simp add: p_def stamp_mqtt_sent_def event_payload_def dget_def)
  have node: "text_of rp [dget (dict_of (event_source e trust)) ''node_id''] = node"
    using assms(6) by (simp add: event_source_def dget_def del: dict_of.simps) (auto simp: event_source_def dget_def)
  have src: "is_dict (event_source e trust)" by (simp add: event_source_def)
  have fields: "dget p ''event_type'' = PStr ty" "dget p ''event_id'' = PStr i" "aget p ''schema_version'' = Some (PInt 1)"
    "dget p ''source'' = event_source e trust" "aget p ''data'' = Some (PDict ?data)"
    "aget p ''subject'' = Some (PDict [(''family'', PStr family), (''record_id'', PStr rec)])"
    by (simp_all add: p dget_def)
  have legacy: "filter (\<lambda>f. f \<in> fst ` set p) DOMAIN_EVENT_LEGACY_FIELDS = []"
    by (simp add: p DOMAIN_EVENT_LEGACY_FIELDS_def)
  have free: "reject_private (PDict ?data) ''data'' = None" using data by (simp add: reject_private_None)
  show "dget p ''event_id'' = PStr i" by (rule fields(2))
  show "validate_domain_event_publish rp topic p node = (if DOMAIN_EVENT_MAX_PAYLOAD_BYTES < length (json_dumps rp (PDict p))
      then Inl ''domain_event_payload_too_large'' else Inr (json_dumps rp (PDict p)))"
    using assms(1-4,6) by (simp only: validate_domain_event_publish_def Let_def fields legacy node src free)
      (auto simp: valid_schema_version_def free simp del: json_dumps.simps reject_private.simps)
qed

lemma deliver_built:
  fixes e :: events_env and s :: events_state
  assumes "domain_event_topic ty = Some topic" "is_domain_event_type ty" "strip ty = ty" "strip i \<noteq> []"
    and "private_free_items data" "de_broker e (ev_deliveries s) = Confirmed"
  shows "wp (deliver_event e rec trust i ty (event_payload e trust i ty occurred family r data) t)
    (\<lambda>d u. dd_event_id d = Some i \<and> sent_if_small e topic (trusted_node trust)
      (stamp_mqtt_sent t (de_clock e (ev_clocks s)) (event_payload e trust i ty occurred family r data)) d s u) s"
  using assms(6)
  by (auto simp: deliver_event_def publish_payload_def wp_simps Let_def assms(1) str_or_def sent_if_small_def
      built_payload_checks(1) [OF assms(1-5) refl] split: if_splits)

lemma request_id_nonblank: "strip (CHR ''v'' # i) \<noteq> []"
  by (rule strip_nonblank [of "CHR ''v''"]) (simp_all add: is_space_def)

lemma request_types_stripped:
  "strip ''timer.create_requested'' = ''timer.create_requested''" "strip ''timer.status_requested'' = ''timer.status_requested''"
  "strip ''timer.stop_requested'' = ''timer.stop_requested''" "strip ''timer.cancel_requested'' = ''timer.cancel_requested''"
  "strip ''timer.adjust_time_requested'' = ''timer.adjust_time_requested''"
  "strip ''timer.snooze_requested'' = ''timer.snooze_requested''"
  by code_simp+

text \<open>The state in which a request is delivered differs from the one before in reads only.\<close>

lemma requested:
  assumes "ev_sent s' = ev_sent s" "ev_deliveries s' = ev_deliveries s" "ev_clocks s' = ev_clocks s"
    and "de_broker e (ev_deliveries s) = Confirmed"
    and "domain_event_topic ty = Some topic" "is_domain_event_type ty" "strip ty = ty" "strip i \<noteq> []" "private_free_items data"
    and "p = stamp_mqtt_sent t (de_clock e (ev_clocks s)) (event_payload e trust i ty occurred family r data)" "i = i'"
    and "node = trusted_node trust"
  shows "wp (deliver_event e rec trust i ty (event_payload e trust i ty occurred family r data) t)
    (\<lambda>d u. dd_event_id d = Some i' \<and> sent_if_small e topic node p d s u) s'"
proof -
  have "wp (deliver_event e rec trust i ty (event_payload e trust i ty occurred family r data) t)
      (\<lambda>d u. dd_event_id d = Some i \<and> sent_if_small e topic node p d s' u) s'"
    unfolding assms(10,12) assms(3) [symmetric] by (rule deliver_built [OF assms(5-9)]) (simp add: assms(2,4))
  moreover have "sent_if_small e topic node p d s' u = sent_if_small e topic node p d s u" for d u
    by (simp only: sent_if_small_def assms(1))
  ultimately show ?thesis by (simp only: assms(11))
qed

lemmas request_defs = publish_timer_create_def publish_timer_status_request_def publish_timer_control_request_def
  publish_timer_adjust_request_def publish_timer_snooze_request_def

lemma timer_event_built:
  "aget data ''mqtt_sent_at'' = None \<Longrightarrow> aget data ''request_to_mqtt_latency_ms'' = None \<Longrightarrow> ty = ''timer.'' @ what \<Longrightarrow>
   timer_event e trust now (what, i, r, t, data) =
     stamp_mqtt_sent t now (event_payload e trust i ty (isoformat t) ''timer'' r data)"
proof -
  have "aput k v d = d @ [(k, v)]" if "aget d k = None" for k v and d :: dict
    using that by (induction d) (auto split: if_splits)
  moreover assume "aget data ''mqtt_sent_at'' = None" "aget data ''request_to_mqtt_latency_ms'' = None" "ty = ''timer.'' @ what"
  ultimately show ?thesis
    by (simp add: timer_event_def stamp_mqtt_sent_def event_payload_def event_source_def dget_def)
qed

text \<open>C35. A timer request of a trusted node with a broker that confirms is published as exactly one event, the one of
  the table: its type, its topic, its identifier, its subject and its data. Only when that event is larger than
  the limit is nothing handed to the broker, and the request has failed.\<close>

theorem timer_requests_are_published:
  fixes e :: events_env and s :: events_state
  defines "trust \<equiv> de_trust e (ev_loads s)"
  assumes "timer_request job" "skip_reason e trust = None" "de_broker e (ev_deliveries s) = Confirmed"
  shows "case run_state (run_publish e job) s of (d, u) \<Rightarrow>
    (let ask = timer_ask job (de_uuid e (ev_uuids s)) (de_uuid e (Suc (ev_uuids s))) in
     dd_event_id d = Some (fst (snd ask))
     \<and> sent_if_small e (''hexe/events/timer/'' @ fst ask) (trusted_node trust) (timer_event e trust (de_clock e (ev_clocks s)) ask) d s u)"
proof -
  let ?ask = "timer_ask job (de_uuid e (ev_uuids s)) (de_uuid e (Suc (ev_uuids s)))"
  have "wp (run_publish e job) (\<lambda>d u. dd_event_id d = Some (fst (snd ?ask))
     \<and> sent_if_small e (''hexe/events/timer/'' @ fst ?ask) (trusted_node trust) (timer_event e trust (de_clock e (ev_clocks s)) ?ask) d s u) s"
    using assms by (cases job)
      (auto simp: request_defs wp_simps Let_def public_keys request_id_nonblank ostr_def request_types_stripped
        intro!: requested timer_event_built intro: request_topics split: option.splits)
  then show ?thesis by (simp add: wp_def case_prod_beta)
qed

text \<open>
  The caller of a queued request is told an identifier that is not the one the worker publishes it under: both draw a
  random identifier of their own.
\<close>

lemma decision_id: "wp (deliver_event e rec trust i ty payload t) (\<lambda>d u. dd_event_id d = Some i) s"
  by (auto simp: deliver_event_def publish_payload_def wp_simps Let_def split: sum.splits delivery.splits)

lemma published_under_another_id:
  assumes "ap_queue p = []" "0 < ap_capacity p"
  shows "let k = ev_uuids (ap_delegate p); (d, q) = async_publish e (Timer_create ep s n txt t) p
    in dd_event_id d = Some (''voice-timer-'' @ de_uuid e k)
     \<and> Option.bind (ap_last_worker (worker_step e False q)) dd_event_id = Some (''voice-timer-'' @ de_uuid e (Suc k))"
proof -
  have "wp (publish_timer_create e ep s n txt (Some t)) (\<lambda>d u. dd_event_id d = Some (''voice-timer-'' @ de_uuid e (ev_uuids st))) st" for st
    by (auto simp: publish_timer_create_def wp_simps Let_def skipped_decision_def intro: decision_id split: option.splits)
  from wpD [OF this] show ?thesis
    using assms by (auto simp: async_publish_def enqueue_publish_def worker_step_def event_uuid_def Let_def split: prod.splits)
qed

section \<open>An example\<close>

definition ex_trust :: domain_trust where
  "ex_trust = \<lparr>dt_operational_ready = True, dt_trust_status = ''trusted'', dt_node_id = Some ''node-1'', dt_node_type = None,
     dt_identity = Some ''id'', dt_token = Some ''t'', dt_host = Some ''broker'', dt_port = Some 1883\<rparr>"

definition ex_events :: events_env where
  "ex_events = \<lparr>de_enabled = True, de_node_type = ''voice'', de_rp = (\<lambda>_. ''0.0''), de_clock = (\<lambda>n. 0), de_uuid = (\<lambda>n. ''u''),
     de_trust = (\<lambda>n. ex_trust), de_broker = (\<lambda>n. Confirmed)\<rparr>"

definition ex_job :: publish_call where
  "ex_job = Timer_create ''kitchen'' ''s1'' 300 ''5 minutes'' 0"

lemma ex_trusted: "skip_reason ex_events (de_trust ex_events n) = None"
  by code_simp

lemma timer_requests_are_published_witness:
  "case run_state (run_publish ex_events ex_job) new_events_state of (d, u) \<Rightarrow> dd_event_id d = Some ''voice-timer-u''
     \<and> sent_if_small ex_events ''hexe/events/timer/create_requested'' ''node-1''
         (timer_event ex_events ex_trust 0 (timer_ask ex_job ''u'' ''u'')) d new_events_state u"
proof -
  have n: "trusted_node ex_trust = ''node-1''" by code_simp
  have r: "de_trust ex_events k = ex_trust" "de_uuid ex_events k = ''u''" "de_clock ex_events k = 0" for k
    by (simp_all add: ex_events_def)
  have "timer_request ex_job" "de_broker ex_events k = Confirmed" for k by (simp_all add: ex_job_def ex_events_def)
  from timer_requests_are_published [OF this(1) ex_trusted this(2), of new_events_state] show ?thesis
    unfolding Let_def r n by (simp add: ex_job_def)
qed

definition ex_publisher :: async_publisher where
  "ex_publisher = worker_step ex_events False (snd (async_publish ex_events ex_job (new_async_publisher 1)))"

lemma ex_publisher_reachable: "publisher_reachable ex_events ex_publisher"
  unfolding ex_publisher_def by (intro publisher_reachable.intros)

lemma published_events_are_clean_witness:
  "length (ap_queue ex_publisher) \<le> 1 \<and> list_all (\<lambda>(topic, payload, node). private_free (dget payload ''data''))
    (ev_sent (ap_delegate ex_publisher))"
proof -
  have "ap_capacity ex_publisher = 1"
    by (simp add: ex_publisher_def new_async_publisher_def async_publish_def enqueue_publish_def worker_step_def Let_def
        split: prod.splits list.splits)
  then show ?thesis using published_events_are_clean [OF ex_publisher_reachable]
    by (auto simp: list_all_iff simp del: private_free.simps)
qed

end
