(* ===== verification/AssistantService.thy ===== *)
theory AssistantService
  imports TurnPipeline IntentFinder TimerCache DomainEvents
begin

text \<open>
  \<open>AssistantTurnService\<close> of \<open>assistant/service.py\<close>: one turn of the conversation, from the text that was
  heard to the response. A text is first looked up in the intents; then, if it is configured, a classifier
  may name an intent; otherwise the adapter answers. A matched intent is completed with the timer it
  means, published, dispatched, and may leave a question open for the next turn. The intents, the
  timers and the publisher are the models of their own theories; clocks, identifiers, the adapter and the
  classifier (calls to the core over HTTP) are parameters, functions of the number of reads made so far.
\<close>

section \<open>State and parameters\<close>

record conversation_turn =
  cv_endpoint_id :: string
  cv_session_id :: string
  cv_heard_text :: string
  cv_reply_text :: string

record pending_followup =
  pf_endpoint_id :: string
  pf_session_id :: string
  pf_intent_id :: string
  pf_command :: string
  pf_prompt :: string
  pf_yes_reply_text :: string
  pf_no_reply_text :: string
  pf_context :: dict
  pf_created_at :: instant
  pf_expires_at :: instant

definition followup_expired :: "instant \<Rightarrow> pending_followup \<Rightarrow> bool" where
  "followup_expired now p \<longleftrightarrow> pf_expires_at p \<le> now"

definition followup_as_dict :: "pending_followup \<Rightarrow> dict" where
  "followup_as_dict p =
     [(''endpoint_id'', PStr (pf_endpoint_id p)), (''session_id'', PStr (pf_session_id p)),
      (''intent_id'', PStr (pf_intent_id p)), (''command'', PStr (pf_command p)), (''prompt'', PStr (pf_prompt p)),
      (''yes_reply_text'', PStr (pf_yes_reply_text p)), (''no_reply_text'', PStr (pf_no_reply_text p)),
      (''context'', PDict (pf_context p)), (''created_at'', PStr (isoformat (pf_created_at p))),
      (''expires_at'', PStr (isoformat (pf_expires_at p)))]"

record classification =
  cl_kind :: string
  cl_intent :: "string option"
  cl_confidence :: "rat option"
  cl_arguments :: "dict option"
  cl_text :: "string option"
  cl_provider_id :: string
  cl_provider_metadata :: "dict option"
  cl_provider_latency_ms :: "rat option"

text \<open>The classifier: its minimal confidence and what it makes of a request, the context and the catalog.\<close>

record classifier =
  ai_min_confidence :: rat
  ai_classify :: "nat \<Rightarrow> assistant_request \<Rightarrow> conversation_turn list \<Rightarrow> string \<Rightarrow> classification option"

record assistant_env =
  ae_finder :: finder_env
  ae_timers :: timer_env
  ae_events :: events_env
  ae_now :: "nat \<Rightarrow> instant"
  ae_elapsed :: "nat \<Rightarrow> rat"
  ae_uuid :: "nat \<Rightarrow> string"
  ae_wake_models :: "string option"
  ae_context_limit :: nat
  ae_dispatcher :: bool
  ae_loop_running :: "nat \<Rightarrow> bool"
  ae_adapter :: "nat \<Rightarrow> assistant_request \<Rightarrow> conversation_turn list \<Rightarrow> turn_response"
  ae_classifier :: "classifier option"

text \<open>A command for an endpoint that the dispatcher has queued on the loop.\<close>

record voice_command =
  vc_endpoint_id :: string
  vc_session_id :: string
  vc_command :: string
  vc_slots :: dict
  vc_event_id :: string

record assistant_state =
  as_session_counter :: nat
  as_context_by_endpoint :: "(string \<times> conversation_turn list) list"
  as_context_by_session :: "(string \<times> conversation_turn list) list"
  as_pending_by_endpoint :: "(string \<times> pending_followup) list"
  as_pending_by_session :: "(string \<times> pending_followup) list"
  as_last_intent_latency :: "dict option"
  as_registry :: finder_state
  as_timers :: "timer_cache option"
  as_publisher :: async_publisher
  as_commands :: "voice_command list"
  as_reads :: nat

definition new_assistant :: "finder_state \<Rightarrow> timer_cache option \<Rightarrow> assistant_state" where
  "new_assistant registry timers =
     \<lparr>as_session_counter = 0, as_context_by_endpoint = [], as_context_by_session = [], as_pending_by_endpoint = [],
      as_pending_by_session = [], as_last_intent_latency = None, as_registry = registry, as_timers = timers,
      as_publisher = new_async_publisher 200, as_commands = [], as_reads = 0\<rparr>"

type_synonym 'a A = "(assistant_state, 'a) state"

text \<open>One read of the outside world.\<close>

definition consult :: "(nat \<Rightarrow> 'a) \<Rightarrow> 'a A" where
  "consult f = do { n \<leftarrow> gets as_reads; modify (\<lambda>s. s\<lparr>as_reads := Suc n\<rparr>); ret (f n) }"

abbreviation arp :: "assistant_env \<Rightarrow> pv \<Rightarrow> string" where
  "arp e \<equiv> fe_rp (ae_finder e)"

section \<open>Wake words\<close>

definition wake_words :: "assistant_env \<Rightarrow> string list" where
  "wake_words e = fold (\<lambda>w kept. if lower w \<in> lower ` set kept then kept else kept @ [w])
     (filter (\<lambda>w. w \<noteq> []) (map strip (split_on CHR '','' (str_or (ae_wake_models e) []))) @ [''Hexe'', ''Hexa'']) []"

text \<open>\<open>re.sub(rf"^\s*{re.escape(w)}\b[\s,.:;!?-]*", "", s, flags=re.IGNORECASE).strip()\<close>\<close>

definition strip_wake_word :: "string \<Rightarrow> string \<Rightarrow> string" where
  "strip_wake_word w s =
     (let t = dropWhile is_space s; heard = take (length w) t; remaining = drop (length w) t in
      if lower heard = lower w \<and> w \<noteq> [] \<and> word_before (Some (last heard)) \<noteq> word_ahead remaining
      then strip (dropWhile (\<lambda>c. is_space c \<or> c \<in> set '',.:;!?-'') remaining) else strip s)"

definition strip_wake_words :: "assistant_env \<Rightarrow> string \<Rightarrow> string" where
  "strip_wake_words e s = fold strip_wake_word (wake_words e) (strip s)"

section \<open>The context of a conversation\<close>

definition next_session_id :: "string \<Rightarrow> string A" where
  "next_session_id endpoint_id = do {
     n \<leftarrow> gets as_session_counter;
     modify (\<lambda>s. s\<lparr>as_session_counter := Suc n\<rparr>);
     let digits = nat_dec (Suc n) in
     ret (endpoint_id @ ''-session-'' @ replicate (4 - length digits) CHR ''0'' @ digits) }"

definition session_or_next :: "string \<Rightarrow> string \<Rightarrow> string A" where
  "session_or_next endpoint_id session_id = (if session_id \<noteq> [] then ret session_id else next_session_id endpoint_id)"

definition turns_of :: "(string \<times> conversation_turn list) list \<Rightarrow> string \<Rightarrow> conversation_turn list" where
  "turns_of contexts k = (case aget contexts k of None \<Rightarrow> [] | Some ts \<Rightarrow> ts)"

fun unseen_turns :: "(string \<times> string) set \<Rightarrow> conversation_turn list \<Rightarrow> conversation_turn list" where
  "unseen_turns seen [] = []"
| "unseen_turns seen (t # ts) =
     (let key = (cv_session_id t, cv_heard_text t) in
      if key \<in> seen then unseen_turns seen ts else t # unseen_turns (insert key seen) ts)"

definition last_n :: "nat \<Rightarrow> 'a list \<Rightarrow> 'a list" where
  "last_n n xs = drop (length xs - n) xs"

definition conversation_context :: "assistant_env \<Rightarrow> string \<Rightarrow> string \<Rightarrow> assistant_state \<Rightarrow> conversation_turn list" where
  "conversation_context e endpoint_id session_id s =
     last_n (ae_context_limit e)
       (unseen_turns {} (turns_of (as_context_by_endpoint s) endpoint_id @ turns_of (as_context_by_session s) session_id))"

text \<open>A deque of bounded length drops its oldest turn.\<close>

definition append_turn :: "nat \<Rightarrow> string \<Rightarrow> conversation_turn \<Rightarrow> (string \<times> conversation_turn list) list \<Rightarrow> (string \<times> conversation_turn list) list" where
  "append_turn limit k t contexts = aput k (last_n limit (turns_of contexts k @ [t])) contexts"

definition record_turn :: "assistant_env \<Rightarrow> turn_response \<Rightarrow> unit A" where
  "record_turn e r = whenM (0 < ae_context_limit e)
     (let t = \<lparr>cv_endpoint_id = rs_endpoint_id r, cv_session_id = rs_session_id r,
               cv_heard_text = rs_heard_text r, cv_reply_text = rs_reply_text r\<rparr>
      in modify (\<lambda>s. s\<lparr>as_context_by_endpoint := append_turn (ae_context_limit e) (rs_endpoint_id r) t (as_context_by_endpoint s),
             as_context_by_session := append_turn (ae_context_limit e) (rs_session_id r) t (as_context_by_session s)\<rparr>))"

section \<open>The open question\<close>

definition clear_pending_followup :: "pending_followup \<Rightarrow> unit A" where
  "clear_pending_followup p = modify (\<lambda>s. s\<lparr>as_pending_by_endpoint := adel (pf_endpoint_id p) (as_pending_by_endpoint s),
     as_pending_by_session := adel (pf_session_id p) (as_pending_by_session s)\<rparr>)"

definition find_pending :: "string \<Rightarrow> string \<Rightarrow> assistant_state \<Rightarrow> pending_followup option" where
  "find_pending endpoint_id session_id s = (case aget (as_pending_by_endpoint s) endpoint_id of
     Some p \<Rightarrow> Some p
   | None \<Rightarrow> if session_id \<noteq> [] then aget (as_pending_by_session s) session_id else None)"

definition pending_followup_for :: "string \<Rightarrow> string \<Rightarrow> instant \<Rightarrow> pending_followup option A" where
  "pending_followup_for endpoint_id session_id now = do {
     found \<leftarrow> gets (find_pending endpoint_id session_id);
     (case found of
        None \<Rightarrow> ret None
      | Some p \<Rightarrow> if followup_expired now p then do { clear_pending_followup p; ret None } else ret (Some p)) }"

text \<open>\<open>max(5, min(int(ttl or 30), 300))\<close>; the finder always gives the time to live as an integer.\<close>

definition followup_seconds :: "dict \<Rightarrow> int" where
  "followup_seconds d = max 5 (min (case dget d ''ttl_seconds'' of PInt n \<Rightarrow> if n = 0 then 30 else n | _ \<Rightarrow> 30) 300)"

definition store_pending_followup ::
    "assistant_env \<Rightarrow> string \<Rightarrow> string \<Rightarrow> string \<Rightarrow> string \<Rightarrow> dict \<Rightarrow> instant \<Rightarrow> pending_followup A" where
  "store_pending_followup e endpoint_id session_id intent_id command d now = do {
     let p = \<lparr>pf_endpoint_id = endpoint_id, pf_session_id = session_id, pf_intent_id = intent_id, pf_command = command,
         pf_prompt = text_of (arp e) [dget d ''prompt''],
         pf_yes_reply_text = text_of (arp e) [dget d ''yes_reply_text'', PStr ''Okay.''],
         pf_no_reply_text = text_of (arp e) [dget d ''no_reply_text'', PStr ''Okay, cancelled.''],
         pf_context = dict_of (dget d ''context''), pf_created_at = now,
         pf_expires_at = now + followup_seconds d * us_per_s\<rparr>
     in do {
       modify (\<lambda>s. s\<lparr>as_pending_by_endpoint := aput endpoint_id p (as_pending_by_endpoint s),
                     as_pending_by_session := aput session_id p (as_pending_by_session s)\<rparr>);
       ret p } }"

definition apply_followup_transition ::
    "assistant_env \<Rightarrow> string \<Rightarrow> string \<Rightarrow> local_match \<Rightarrow> instant \<Rightarrow> dict option A" where
  "apply_followup_transition e endpoint_id session_id m now =
     (let close = do {
            p \<leftarrow> pending_followup_for endpoint_id session_id now;
            (case p of None \<Rightarrow> ret () | Some p \<Rightarrow> clear_pending_followup p);
            ret None }
      in if lm_command m = ''voice.confirm.yes'' \<or> lm_command m = ''voice.confirm.no'' then close
         else (case lm_conversation_followup m of
             Some (x # d) \<Rightarrow> do {
               p \<leftarrow> store_pending_followup e endpoint_id session_id (lm_intent m) (lm_command m) (x # d) now;
               ret (Some (followup_as_dict p)) }
           | _ \<Rightarrow> close))"

section \<open>The timer that is meant\<close>

definition timer_ambiguity_reply :: "(pv \<Rightarrow> string) \<Rightarrow> dict list \<Rightarrow> string" where
  "timer_ambiguity_reply rp candidates =
     (let label = (\<lambda>c. str_or (nonempty (text_of rp [dget c ''title'']))
            (str_or (nonempty (text_of rp [dget c ''remaining_text''])) (text_of rp [dget c ''timer_id''])));
          labels = filter (\<lambda>l. l \<noteq> []) (map label (take 3 candidates))
      in if labels \<noteq> [] then ''I found multiple active timers: '' @ join '', '' labels @ ''. Please say which timer.''
         else ''I found multiple active timers. Please say which timer.'')"

definition TIMER_REFERENCES :: "string list" where
  "TIMER_REFERENCES = [''timer.status'', ''timer.stop'', ''timer.cancel'', ''timer.adjust_time'', ''timer.snooze'']"

definition aput_truthy :: "string \<Rightarrow> pv \<Rightarrow> dict \<Rightarrow> dict" where
  "aput_truthy k v d = (if truthy v then aput k v d else d)"

definition with_selection :: "(pv \<Rightarrow> string) \<Rightarrow> timer_selection \<Rightarrow> local_match \<Rightarrow> local_match" where
  "with_selection rp selection m = (case selection of
     No_timer \<Rightarrow> m\<lparr>lm_slots := aput ''timer_selection_status'' (PStr ''unknown'') (lm_slots m)\<rparr>
   | Selected_timer strategy r _ \<Rightarrow>
       (let timer = owner_as_dict r; timer_id = text_of rp [dget timer ''timer_id''];
            slots = aput ''timer_selection_status'' (PStr ''selected'') (lm_slots m);
            slots = (if timer_id \<noteq> [] then aput ''timer_id'' (PStr timer_id) slots else slots);
            slots = aput_truthy ''timer_owner_node_id'' (dget timer ''owner_node_id'') slots;
            slots = aput_truthy ''timer_title'' (dget timer ''title'') slots;
            slots = aput_truthy ''timer_due_at'' (dget timer ''due_at'') slots
        in m\<lparr>lm_slots := aput ''timer_selection_strategy'' (PStr strategy) slots\<rparr>)
   | Ambiguous_timers rs \<Rightarrow>
       (let candidates = map owner_as_dict rs;
            slots = aput ''timer_selection_status'' (PStr ''ambiguous'') (lm_slots m)
        in m\<lparr>lm_slots := aput ''timer_candidate_count'' (PInt (int (length candidates)))
               (aput ''timer_candidates'' (PList (map PDict candidates)) slots),
             lm_reply_text := timer_ambiguity_reply rp candidates\<rparr>))"

definition resolve_timer_context :: "assistant_env \<Rightarrow> local_match \<Rightarrow> string \<Rightarrow> local_match A" where
  "resolve_timer_context e m endpoint_id =
     (if lm_command m \<notin> set TIMER_REFERENCES then ret m
      else do {
        timers \<leftarrow> gets as_timers;
        (case timers of
           None \<Rightarrow> ret m
         | Some c \<Rightarrow>
             let (selection, c') = select_timer (ae_timers e) endpoint_id c in do {
               modify (\<lambda>s. s\<lparr>as_timers := Some c'\<rparr>);
               ret (with_selection (arp e) selection m) }) })"

definition timer_selection_blocks_dispatch :: "local_match \<Rightarrow> bool" where
  "timer_selection_blocks_dispatch m \<longleftrightarrow> dget (lm_slots m) ''timer_selection_status'' = PStr ''ambiguous''"

section \<open>Dispatch\<close>

definition publish_job :: "assistant_env \<Rightarrow> publish_call \<Rightarrow> publish_decision A" where
  "publish_job e job = do {
     p \<leftarrow> gets as_publisher;
     let (d, p') = async_publish (ae_events e) job p in do {
       modify (\<lambda>s. s\<lparr>as_publisher := p'\<rparr>);
       ret d } }"

text \<open>\<open>isinstance(x, int)\<close>, which a \<open>bool\<close> is as well.\<close>

fun as_int :: "pv \<Rightarrow> int option" where
  "as_int (PInt n) = Some n"
| "as_int (PBool b) = Some (if b then 1 else 0)"
| "as_int _ = None"

definition scope_of :: "(pv \<Rightarrow> string) \<Rightarrow> dict \<Rightarrow> string" where
  "scope_of rp slots = str_or (nonempty (text_of rp [dget slots ''scope'', PStr ''active_for_endpoint''])) ''active_for_endpoint''"

definition timer_id_of :: "(pv \<Rightarrow> string) \<Rightarrow> dict \<Rightarrow> string option" where
  "timer_id_of rp slots = nonempty (text_of rp [dget slots ''timer_id''])"

text \<open>The request a timer intent makes, if its slots allow one.\<close>

definition timer_request_job ::
    "(pv \<Rightarrow> string) \<Rightarrow> string \<Rightarrow> string \<Rightarrow> string \<Rightarrow> dict \<Rightarrow> instant \<Rightarrow> publish_call option" where
  "timer_request_job rp command endpoint_id session_id slots requested_at =
     (let scope = scope_of rp slots; timer_id = timer_id_of rp slots in
      if command = ''timer.create'' then
        (case (as_int (dget slots ''duration_seconds''), dget slots ''duration_text'') of
           (Some n, PStr txt) \<Rightarrow> Some (Timer_create endpoint_id session_id n txt requested_at) | _ \<Rightarrow> None)
      else if command = ''timer.status'' then Some (Timer_status endpoint_id session_id requested_at scope timer_id)
      else if command = ''timer.stop'' \<or> command = ''timer.cancel'' then
        (let action = lower (text_of rp [dget slots ''action'']) in
         if action = ''stop'' \<or> action = ''cancel''
         then Some (Timer_control action endpoint_id session_id requested_at scope timer_id) else None)
      else if command = ''timer.adjust_time'' then
        (case (as_int (dget slots ''delta_seconds''), dget slots ''delta_text'') of
           (Some n, PStr txt) \<Rightarrow> Some (Timer_adjust endpoint_id session_id n txt requested_at scope timer_id) | _ \<Rightarrow> None)
      else if command = ''timer.snooze'' then
        (case (as_int (dget slots ''duration_seconds''), dget slots ''duration_text'') of
           (Some n, PStr txt) \<Rightarrow> Some (Timer_snooze endpoint_id session_id n txt requested_at scope timer_id) | _ \<Rightarrow> None)
      else None)"

definition ENDPOINT_INTENTS :: "string list" where
  "ENDPOINT_INTENTS = [''playback.stop'', ''playback.repeat'', ''endpoint.volume.set'', ''endpoint.volume.adjust'', ''endpoint.mute'',
     ''endpoint.unmute'', ''endpoint.identify'', ''endpoint.settings.open'']"

text \<open>The dispatcher queues a coroutine on the running loop.\<close>

definition skipped_dispatch :: "string \<Rightarrow> string \<Rightarrow> publish_decision" where
  "skipped_dispatch reason event_type = \<lparr>dd_status = ''skipped'', dd_reason = reason, dd_event_id = None,
     dd_event_type = Some event_type, dd_topic = None, dd_published_at = None\<rparr>"

definition dispatch_endpoint_command :: "assistant_env \<Rightarrow> string \<Rightarrow> string \<Rightarrow> string \<Rightarrow> dict \<Rightarrow> publish_decision A" where
  "dispatch_endpoint_command e endpoint_id session_id command slots = do {
     running \<leftarrow> consult (ae_loop_running e);
     if \<not> running then ret (skipped_dispatch ''endpoint_command_loop_unavailable'' command)
     else do {
       u \<leftarrow> consult (ae_uuid e);
       now \<leftarrow> consult (ae_now e);
       let i = ''voice-endpoint-command-'' @ u in do {
         modify (\<lambda>s. s\<lparr>as_commands := as_commands s @ [\<lparr>vc_endpoint_id = endpoint_id, vc_session_id = session_id,
           vc_command = command, vc_slots = slots, vc_event_id = i\<rparr>]\<rparr>);
         ret \<lparr>dd_status = ''queued'', dd_reason = ''endpoint_command_queued'', dd_event_id = Some i,
           dd_event_type = Some command, dd_topic = None, dd_published_at = Some (isoformat now)\<rparr> } } }"

definition dispatch_intent :: "assistant_env \<Rightarrow> string \<Rightarrow> string \<Rightarrow> local_match \<Rightarrow> instant \<Rightarrow> publish_decision option A" where
  "dispatch_intent e endpoint_id session_id m requested_at =
     (if timer_selection_blocks_dispatch m then
        ret (Some (skipped_dispatch ''ambiguous_timer_selection'' (lm_command m @ ''_requested'')))
      else if lm_command m \<in> set (''timer.create'' # TIMER_REFERENCES) then
        (case timer_request_job (arp e) (lm_command m) endpoint_id session_id (lm_slots m) requested_at of
           None \<Rightarrow> ret None
         | Some job \<Rightarrow> do { d \<leftarrow> publish_job e job; ret (Some d) })
      else if lm_command m \<in> set ENDPOINT_INTENTS then
        (if \<not> ae_dispatcher e then ret (Some (skipped_dispatch ''endpoint_dispatcher_unavailable'' (lm_command m)))
         else do { d \<leftarrow> dispatch_endpoint_command e endpoint_id session_id (lm_command m) (lm_slots m); ret (Some d) })
      else ret None)"

section \<open>A matched intent\<close>

definition intent_provider_metadata :: "local_match \<Rightarrow> dict" where
  "intent_provider_metadata m =
     [(''voice_intent'', PDict [(''intent_id'', PStr (lm_intent m)), (''intent_name'', ostr (lm_intent_name m)),
         (''service_id'', ostr (lm_service_id m)), (''version'', ostr (lm_version m)),
         (''provider_id'', PStr (lm_provider_id m)),
         (''metadata'', PDict (case lm_metadata m of None \<Rightarrow> [] | Some d \<Rightarrow> d)),
         (''constraints'', PDict (case lm_constraints m of None \<Rightarrow> [] | Some d \<Rightarrow> d))]),
      (''speaker_identity_policy'', PStr (str_or (lm_speaker_identity_policy m) ''use_if_ready''))]"

text \<open>The text that is recorded for an administrative intent has its passcodes redacted.\<close>

definition is_administrative :: "local_match \<Rightarrow> bool" where
  "is_administrative m \<longleftrightarrow> startswith (strip (lm_command m)) ''admin.''
     \<or> (case lm_metadata m of None \<Rightarrow> False | Some d \<Rightarrow> truthy (dget d ''admin_maintenance_action''))
     \<or> (case lm_constraints m of None \<Rightarrow> False | Some d \<Rightarrow> truthy (dget d ''admin_maintenance_action''))"

definition recorded_heard_text :: "local_match \<Rightarrow> string \<Rightarrow> string" where
  "recorded_heard_text m heard_text = (if is_administrative m then redact_spoken_passcodes heard_text else heard_text)"

definition record_intent_latency ::
    "assistant_env \<Rightarrow> bool \<Rightarrow> string \<Rightarrow> string \<Rightarrow> string option \<Rightarrow> string option \<Rightarrow> string option \<Rightarrow> rat \<Rightarrow> unit A" where
  "record_intent_latency e matched endpoint_id session_id intent_id command provider_id latency_ms = do {
     now \<leftarrow> consult (ae_now e);
     modify (\<lambda>s. s\<lparr>as_last_intent_latency := Some
       [(''matched'', PBool matched), (''endpoint_id'', PStr endpoint_id), (''session_id'', PStr session_id),
        (''intent_id'', ostr intent_id), (''command'', ostr command), (''provider_id'', ostr provider_id),
        (''latency_ms'', PFloat latency_ms), (''recorded_at'', PStr (isoformat now))]\<rparr>) }"

definition publish_intent_recognized ::
    "assistant_env \<Rightarrow> string \<Rightarrow> string \<Rightarrow> string \<Rightarrow> local_match \<Rightarrow> instant \<Rightarrow> rat \<Rightarrow> publish_decision A" where
  "publish_intent_recognized e event_id endpoint_id session_id m requested_at latency_ms =
     publish_job e (Intent_recognized
       \<lparr>rc_event_id = event_id, rc_endpoint_id = endpoint_id, rc_session_id = session_id, rc_intent_id = lm_intent m,
        rc_intent_name = lm_intent_name m, rc_service_id = lm_service_id m, rc_version = lm_version m,
        rc_command = lm_command m, rc_provider_id = lm_provider_id m, rc_slots = lm_slots m,
        rc_requested_at = requested_at, rc_intent_latency_ms = Some latency_ms\<rparr>)"

definition spoken_response ::
    "string \<Rightarrow> string \<Rightarrow> string \<Rightarrow> string \<Rightarrow> bool \<Rightarrow> string option \<Rightarrow> string \<Rightarrow> dict option \<Rightarrow> turn_response" where
  "spoken_response endpoint_id session_id heard reply locally command provider metadata =
     \<lparr>ar_spoken_text = reply, ar_handled_locally = locally, ar_provider_id = provider, ar_model = None, ar_error = None,
      ar_provider_latency_ms = None, ar_provider_metadata = metadata, ar_fallback_used = False, ar_fallback_reason = None,
      ar_intent_latency_ms = None, ar_conversation_followup = None, rs_endpoint_id = endpoint_id, rs_session_id = session_id,
      rs_heard_text = heard, rs_reply_text = reply, rs_command = command, rs_device_state = ''speaking''\<rparr>"

definition intent_response ::
    "string \<Rightarrow> string \<Rightarrow> string \<Rightarrow> local_match \<Rightarrow> rat \<Rightarrow> dict option \<Rightarrow> turn_response" where
  "intent_response endpoint_id session_id heard m latency_ms followup =
     (spoken_response endpoint_id session_id heard (lm_reply_text m) True (Some (lm_command m)) (lm_provider_id m)
        (Some (intent_provider_metadata m)))
     \<lparr>ar_intent_latency_ms := Some latency_ms, ar_conversation_followup := followup\<rparr>"

definition handle_matched_intent ::
    "assistant_env \<Rightarrow> string \<Rightarrow> string \<Rightarrow> string \<Rightarrow> local_match \<Rightarrow> instant \<Rightarrow> turn_response A" where
  "handle_matched_intent e endpoint_id session_id heard_text found requested_at = do {
     m \<leftarrow> resolve_timer_context e found endpoint_id;
     let heard = recorded_heard_text m heard_text in do {
       so_far \<leftarrow> consult (ae_elapsed e);
       u \<leftarrow> consult (ae_uuid e);
       publish_intent_recognized e (''voice-intent-'' @ u) endpoint_id session_id m requested_at so_far;
       dispatch_intent e endpoint_id session_id m requested_at;
       latency_ms \<leftarrow> consult (ae_elapsed e);
       followup \<leftarrow> apply_followup_transition e endpoint_id session_id m requested_at;
       let r = intent_response endpoint_id session_id heard m latency_ms followup in do {
         record_intent_latency e True endpoint_id session_id (Some (lm_intent m)) (Some (lm_command m))
           (Some (lm_provider_id m)) latency_ms;
         record_turn e r;
         ret r } } }"

section \<open>A turn\<close>

definition no_speech_response :: "string \<Rightarrow> string \<Rightarrow> string \<Rightarrow> turn_response" where
  "no_speech_response endpoint_id session_id reason =
     spoken_response endpoint_id session_id [] ''I didn\\'t catch that.'' True None ''no_speech'' (Some [(''reason'', PStr reason)])"

text \<open>A call of the finder, which works on the registry of the state and may raise.\<close>

definition with_finder :: "(finder_state \<Rightarrow> 'a finding) \<Rightarrow> (crash + 'a) A" where
  "with_finder f = do {
     st \<leftarrow> gets as_registry;
     let (result, st') = f st in do {
       modify (\<lambda>s. s\<lparr>as_registry := st'\<rparr>);
       ret result } }"

definition find_intent_for ::
    "assistant_env \<Rightarrow> string \<Rightarrow> instant \<Rightarrow> pending_followup option \<Rightarrow> (crash + local_match option) A" where
  "find_intent_for e heard_text requested_at pending = do {
     now \<leftarrow> consult (ae_now e);
     with_finder (find_local (ae_finder e) (isoformat now) heard_text requested_at (map_option followup_as_dict pending)) }"

definition is_confident_intent :: "classifier \<Rightarrow> classification \<Rightarrow> bool" where
  "is_confident_intent ai c \<longleftrightarrow> cl_kind c = ''intent'' \<and> cl_intent c \<noteq> None
     \<and> ai_min_confidence ai \<le> (case cl_confidence c of None \<Rightarrow> 0 | Some x \<Rightarrow> x)"

definition classification_as_dict :: "classification \<Rightarrow> dict" where
  "classification_as_dict c = [(''type'', PStr (cl_kind c)), (''intent'', ostr (cl_intent c)), (''confidence'', onum (cl_confidence c)),
     (''arguments'', PDict (case cl_arguments c of None \<Rightarrow> [] | Some d \<Rightarrow> d))]"

text \<open>A clarification or chat of the classifier is spoken as it is.\<close>

definition classified_answer ::
    "assistant_env \<Rightarrow> string \<Rightarrow> string \<Rightarrow> string \<Rightarrow> classification \<Rightarrow> turn_response option A" where
  "classified_answer e endpoint_id session_id heard_text c = (case cl_text c of
     Some (x # txt) \<Rightarrow>
       if cl_kind c \<noteq> ''clarification'' \<and> cl_kind c \<noteq> ''chat'' then ret None
       else do {
         latency_ms \<leftarrow> consult (ae_elapsed e);
         record_intent_latency e False endpoint_id session_id (cl_intent c) None (Some (cl_provider_id c)) latency_ms;
         let r = (spoken_response endpoint_id session_id heard_text (x # txt) False None (cl_provider_id c) (cl_provider_metadata c))
             \<lparr>ar_provider_latency_ms := cl_provider_latency_ms c, ar_intent_latency_ms := Some latency_ms\<rparr>
         in do { record_turn e r; ret (Some r) } }
   | _ \<Rightarrow> ret None)"

definition classified_intent ::
    "assistant_env \<Rightarrow> string \<Rightarrow> string \<Rightarrow> string \<Rightarrow> classification \<Rightarrow> instant \<Rightarrow> (crash + turn_response option) A" where
  "classified_intent e endpoint_id session_id heard_text c requested_at = do {
     now \<leftarrow> consult (ae_now e);
     found \<leftarrow> with_finder (match_ai_classification (ae_finder e) (isoformat now) (classification_as_dict c) requested_at (cl_provider_id c));
     (case found of
        Inl x \<Rightarrow> ret (Inl x)
      | Inr None \<Rightarrow> ret (Inr None)
      | Inr (Some m) \<Rightarrow> do {
          r \<leftarrow> handle_matched_intent e endpoint_id session_id heard_text m requested_at;
          let metadata = aput ''ai_intent_classifier'' (PDict (case cl_provider_metadata c of None \<Rightarrow> [] | Some d \<Rightarrow> d))
              (case ar_provider_metadata r of None \<Rightarrow> [] | Some d \<Rightarrow> d) in
          ret (Inr (Some (r\<lparr>ar_provider_latency_ms := cl_provider_latency_ms c, ar_provider_metadata := Some metadata\<rparr>))) }) }"

definition classify_missed_intent ::
    "assistant_env \<Rightarrow> assistant_request \<Rightarrow> conversation_turn list \<Rightarrow> instant \<Rightarrow> (crash + turn_response option) A" where
  "classify_missed_intent e rq context requested_at = (case ae_classifier e of
     None \<Rightarrow> ret (Inr None)
   | Some ai \<Rightarrow> do {
       registry \<leftarrow> gets as_registry;
       c \<leftarrow> consult (\<lambda>n. ai_classify ai n rq context (ai_intent_catalog (ae_finder e) registry));
       (case c of
          None \<Rightarrow> ret (Inr None)
        | Some c \<Rightarrow> do {
            found \<leftarrow> (if is_confident_intent ai c
              then classified_intent e (ask_endpoint_id rq) (ask_session_id rq) (ask_text rq) c requested_at else ret (Inr None));
            (case found of
               Inr None \<Rightarrow> do { r \<leftarrow> classified_answer e (ask_endpoint_id rq) (ask_session_id rq) (ask_text rq) c; ret (Inr r) }
             | x \<Rightarrow> ret x) }) })"

definition handle_turn :: "assistant_env \<Rightarrow> assistant_request \<Rightarrow> (crash + turn_response) A" where
  "handle_turn e payload = do {
     let endpoint_id = ask_endpoint_id payload; heard_text = strip_wake_words e (ask_text payload) in do {
     session_id \<leftarrow> session_or_next endpoint_id (ask_session_id payload);
     if heard_text = [] then ret (Inr (no_speech_response endpoint_id session_id ''empty_transcript''))
     else do {
       requested_at \<leftarrow> consult (ae_now e);
       pending \<leftarrow> pending_followup_for endpoint_id session_id requested_at;
       found \<leftarrow> find_intent_for e heard_text requested_at pending;
       (case found of
          Inl x \<Rightarrow> ret (Inl x)
        | Inr (Some m) \<Rightarrow> do { r \<leftarrow> handle_matched_intent e endpoint_id session_id heard_text m requested_at; ret (Inr r) }
        | Inr None \<Rightarrow> do {
            context \<leftarrow> gets (conversation_context e endpoint_id session_id);
            let rq = payload\<lparr>ask_session_id := session_id, ask_text := heard_text\<rparr> in do {
            answer \<leftarrow> classify_missed_intent e rq context requested_at;
            (case answer of
               Inl x \<Rightarrow> ret (Inl x)
             | Inr (Some r) \<Rightarrow> ret (Inr r)
             | Inr None \<Rightarrow> do {
                 r \<leftarrow> consult (\<lambda>n. ae_adapter e n rq context);
                 record_turn e r;
                 ret (Inr r) }) } }) } } }"

definition match_intent :: "assistant_env \<Rightarrow> string \<Rightarrow> string \<Rightarrow> string \<Rightarrow> (crash + local_match option) A" where
  "match_intent e said endpoint_id session_id = do {
     requested_at \<leftarrow> consult (ae_now e);
     pending \<leftarrow> pending_followup_for endpoint_id session_id requested_at;
     find_intent_for e (strip_wake_words e said) requested_at pending }"

section \<open>Intents invoked without a turn\<close>

record invocation =
  iv_matched :: bool
  iv_endpoint_id :: string
  iv_session_id :: string
  iv_heard_text :: string
  iv_intent_id :: "string option"
  iv_command :: "string option"
  iv_slots :: dict
  iv_reply_text :: "string option"
  iv_provider_id :: "string option"
  iv_recognized_event_id :: "string option"
  iv_recognition_event :: "publish_decision option"
  iv_dispatch_event :: "publish_decision option"
  iv_reply :: "dict option"
  iv_reply_audio :: "dict option"
  iv_conversation_followup :: "dict option"
  iv_latency_ms :: rat

text \<open>Speech for the reply, if the intent asks for it: the factory gets the event, the text to speak and the text that
  is recorded.\<close>

record reply_request =
  rq_event_id :: string
  rq_endpoint_id :: string
  rq_session_id :: string
  rq_text :: string
  rq_audio_options :: dict
  rq_transcript :: string

type_synonym reply_audio_factory = "nat \<Rightarrow> reply_request \<Rightarrow> dict option"

definition synthesize_intent_reply_audio ::
    "assistant_env \<Rightarrow> reply_audio_factory option \<Rightarrow> string \<Rightarrow> string \<Rightarrow> local_match \<Rightarrow> string \<Rightarrow> string \<Rightarrow> dict option A" where
  "synthesize_intent_reply_audio e factory endpoint_id session_id m event_id heard_text = (case factory of
     None \<Rightarrow> ret None
   | Some f \<Rightarrow>
       (let options = dict_of (dget (case lm_reply m of None \<Rightarrow> [] | Some d \<Rightarrow> d) ''audio'');
            mode = lower (text_of (arp e) [dget options ''mode'', PStr ''none''])
        in if lm_reply_text m = [] \<or> mode = [] \<or> mode = ''none'' then ret None
           else consult (\<lambda>n. f n \<lparr>rq_event_id = event_id, rq_endpoint_id = endpoint_id, rq_session_id = session_id,
             rq_text = lm_reply_text m, rq_audio_options = options, rq_transcript = heard_text\<rparr>)))"

definition not_invoked :: "string \<Rightarrow> string \<Rightarrow> string \<Rightarrow> rat \<Rightarrow> invocation" where
  "not_invoked endpoint_id session_id heard_text latency_ms =
     \<lparr>iv_matched = False, iv_endpoint_id = endpoint_id, iv_session_id = session_id, iv_heard_text = heard_text,
      iv_intent_id = None, iv_command = None, iv_slots = [], iv_reply_text = None, iv_provider_id = None,
      iv_recognized_event_id = None, iv_recognition_event = None, iv_dispatch_event = None, iv_reply = None,
      iv_reply_audio = None, iv_conversation_followup = None, iv_latency_ms = latency_ms\<rparr>"

definition invoke_matched ::
    "assistant_env \<Rightarrow> reply_audio_factory option \<Rightarrow> string \<Rightarrow> string \<Rightarrow> string \<Rightarrow> local_match \<Rightarrow> instant \<Rightarrow> invocation A" where
  "invoke_matched e factory endpoint_id session_id heard_text found requested_at = do {
     u \<leftarrow> consult (ae_uuid e);
     let event_id = ''voice-intent-'' @ u in do {
     m \<leftarrow> resolve_timer_context e found endpoint_id;
     let heard = recorded_heard_text m heard_text in do {
     reply_audio \<leftarrow> synthesize_intent_reply_audio e factory endpoint_id session_id m event_id heard;
     so_far \<leftarrow> consult (ae_elapsed e);
     recognized \<leftarrow> publish_intent_recognized e event_id endpoint_id session_id m requested_at so_far;
     dispatched \<leftarrow> dispatch_intent e endpoint_id session_id m requested_at;
     latency_ms \<leftarrow> consult (ae_elapsed e);
     followup \<leftarrow> apply_followup_transition e endpoint_id session_id m requested_at;
     record_intent_latency e True endpoint_id session_id (Some (lm_intent m)) (Some (lm_command m)) (Some (lm_provider_id m)) latency_ms;
     record_turn e (intent_response endpoint_id session_id heard m latency_ms followup);
     ret \<lparr>iv_matched = True, iv_endpoint_id = endpoint_id, iv_session_id = session_id, iv_heard_text = heard,
       iv_intent_id = Some (lm_intent m), iv_command = Some (lm_command m), iv_slots = lm_slots m,
       iv_reply_text = Some (lm_reply_text m), iv_provider_id = Some (lm_provider_id m),
       iv_recognized_event_id = Some event_id, iv_recognition_event = Some recognized, iv_dispatch_event = dispatched,
       iv_reply = lm_reply m, iv_reply_audio = reply_audio, iv_conversation_followup = followup,
       iv_latency_ms = latency_ms\<rparr> } } }"

definition invoke_intent ::
    "assistant_env \<Rightarrow> reply_audio_factory option \<Rightarrow> string \<Rightarrow> string \<Rightarrow> string \<Rightarrow> string option \<Rightarrow> dict option \<Rightarrow> (crash + invocation) A" where
  "invoke_intent e factory endpoint_id said asked_session declared_intent_id declared_slots = do {
     let heard_text = strip_wake_words e said in do {
     session_id \<leftarrow> session_or_next endpoint_id asked_session;
     requested_at \<leftarrow> consult (ae_now e);
     pending \<leftarrow> pending_followup_for endpoint_id session_id requested_at;
     found \<leftarrow> (case declared_intent_id of
         Some (x # i) \<Rightarrow> do {
           now \<leftarrow> consult (ae_now e);
           with_finder (match_declared_intent (ae_finder e) (isoformat now) (x # i) requested_at declared_slots) }
       | _ \<Rightarrow> find_intent_for e heard_text requested_at pending);
     (case found of
        Inl x \<Rightarrow> ret (Inl x)
      | Inr None \<Rightarrow> do {
          latency_ms \<leftarrow> consult (ae_elapsed e);
          record_intent_latency e False endpoint_id session_id None None None latency_ms;
          ret (Inr (not_invoked endpoint_id session_id heard_text latency_ms)) }
      | Inr (Some m) \<Rightarrow> do {
          r \<leftarrow> invoke_matched e factory endpoint_id session_id heard_text m requested_at;
          ret (Inr r) }) } }"

section \<open>Status\<close>

record assistant_status =
  ss_last_intent_latency :: "dict option"
  ss_context_turn_limit :: nat
  ss_endpoint_contexts :: "(string \<times> nat) list"
  ss_session_contexts :: "(string \<times> nat) list"
  ss_pending_followups :: "(string \<times> dict) list"

text \<open>The parts of the status that are the service's own; each entry is compared with a clock read of its own.\<close>

fun unexpired_followups :: "assistant_env \<Rightarrow> (string \<times> pending_followup) list \<Rightarrow> (string \<times> dict) list A" where
  "unexpired_followups e [] = ret []"
| "unexpired_followups e ((k, p) # d) = do {
     now \<leftarrow> consult (ae_now e);
     remaining \<leftarrow> unexpired_followups e d;
     ret (if followup_expired now p then remaining else (k, followup_as_dict p) # remaining) }"

definition assistant_status_of :: "assistant_env \<Rightarrow> assistant_status A" where
  "assistant_status_of e = do {
     s \<leftarrow> State_Monad.get;
     pending \<leftarrow> unexpired_followups e (as_pending_by_endpoint s);
     ret \<lparr>ss_last_intent_latency = as_last_intent_latency s, ss_context_turn_limit = ae_context_limit e,
       ss_endpoint_contexts = map (\<lambda>(k, ts). (k, length ts)) (as_context_by_endpoint s),
       ss_session_contexts = map (\<lambda>(k, ts). (k, length ts)) (as_context_by_session s),
       ss_pending_followups = pending\<rparr> }"

definition context_for_endpoint :: "string \<Rightarrow> assistant_state \<Rightarrow> conversation_turn list" where
  "context_for_endpoint endpoint_id s = turns_of (as_context_by_endpoint s) endpoint_id"

definition context_for_session :: "string \<Rightarrow> assistant_state \<Rightarrow> conversation_turn list" where
  "context_for_session session_id s = turns_of (as_context_by_session s) session_id"

section \<open>The local adapter\<close>

definition local_echo :: "assistant_request \<Rightarrow> turn_response" where
  "local_echo rq =
     (let heard = strip (ask_text rq)
      in spoken_response (ask_endpoint_id rq) (ask_session_id rq) heard (''I heard '' @ str_or (Some heard) ''nothing'') False None
           ''local_echo'' None)"

end
