(* ===== verification/AssistantFacts.thy ===== *)
theory AssistantFacts
  imports SpokenCodes AssistantService FinderFacts TimerFacts DomainFacts
begin

text \<open>
  What the assistant service guarantees over all its runs: its memory stays bounded and filed under the right
  keys, the registry, the timer cache and the publisher keep their own invariants, and for a matched intent:
  which timer is asked for, what is recorded of what was heard, and when a question is closed.
\<close>

section \<open>The invariant\<close>

definition contexts_ok :: "nat \<Rightarrow> (conversation_turn \<Rightarrow> string) \<Rightarrow> (string \<times> conversation_turn list) list \<Rightarrow> bool" where
  "contexts_ok limit key contexts \<longleftrightarrow> (\<forall>(k, ts) \<in> set contexts. length ts \<le> limit \<and> (\<forall>t \<in> set ts. key t = k))"

definition timely :: "pending_followup \<Rightarrow> bool" where
  "timely p \<longleftrightarrow> pf_created_at p + 5 * us_per_s \<le> pf_expires_at p \<and> pf_expires_at p \<le> pf_created_at p + 300 * us_per_s"

definition questions_ok :: "(pending_followup \<Rightarrow> string) \<Rightarrow> (string \<times> pending_followup) list \<Rightarrow> bool" where
  "questions_ok key d \<longleftrightarrow> (\<forall>(k, p) \<in> set d. key p = k \<and> timely p)"

definition assistant_ok :: "assistant_env \<Rightarrow> assistant_state \<Rightarrow> bool" where
  "assistant_ok e s \<longleftrightarrow> contexts_ok (ae_context_limit e) cv_endpoint_id (as_context_by_endpoint s)
     \<and> contexts_ok (ae_context_limit e) cv_session_id (as_context_by_session s)
     \<and> questions_ok pf_endpoint_id (as_pending_by_endpoint s) \<and> questions_ok pf_session_id (as_pending_by_session s)
     \<and> (\<forall>rg. as_registry s = Some rg \<longrightarrow> intents_ok rg) \<and> (\<forall>c. as_timers s = Some c \<longrightarrow> cache_ok c)
     \<and> publisher_reachable (ae_events e) (as_publisher s)
     \<and> (\<forall>c \<in> set (as_commands s). vc_command c \<in> set ENDPOINT_INTENTS)"

lemma assistant_ok_frame [simp]:
  "assistant_ok e (s\<lparr>as_reads := n\<rparr>) = assistant_ok e s"
  "assistant_ok e (s\<lparr>as_session_counter := n\<rparr>) = assistant_ok e s"
  "assistant_ok e (s\<lparr>as_last_intent_latency := l\<rparr>) = assistant_ok e s"
  by (simp_all add: assistant_ok_def)

lemma consult_wp [wp_simps]: "wp (consult f) Q s = Q (f (as_reads s)) (s\<lparr>as_reads := Suc (as_reads s)\<rparr>)"
  by (simp add: consult_def wp_simps)

text \<open>A sequence untouched the invariant if its parts do.\<close>

lemma seq_ok:
  assumes "wp m (\<lambda>_. assistant_ok e) s" "\<And>a t. assistant_ok e t \<Longrightarrow> wp (f a) (\<lambda>_. assistant_ok e) t"
  shows "wp (State_Monad.bind m f) (\<lambda>_. assistant_ok e) s"
  unfolding wp_bind using assms by (rule wp_mono)

lemma ask_ok: "assistant_ok e s \<Longrightarrow> wp (consult f) (\<lambda>_. assistant_ok e) s"
  by (simp add: wp_simps)

lemma ret_ok: "assistant_ok e s \<Longrightarrow> wp (ret x) (\<lambda>_. assistant_ok e) s"
  by (simp add: wp_simps)

lemma gets_ok: "assistant_ok e s \<Longrightarrow> wp (gets f) (\<lambda>_. assistant_ok e) s"
  by (simp add: wp_simps)

lemma last_n_facts: "length (last_n n xs) \<le> n" "set (last_n n xs) \<subseteq> set xs"
  by (auto simp: last_n_def dest: in_set_dropD)

lemma append_turn_ok:
  assumes "contexts_ok limit key contexts" "key t = k"
  shows "contexts_ok limit key (append_turn limit k t contexts)"
proof -
  have "\<forall>u \<in> set (turns_of contexts k). key u = k"
    using assms(1) map_of_SomeD [of contexts k] by (cases "aget contexts k") (fastforce simp: turns_of_def contexts_ok_def)+
  then have "\<forall>u \<in> set (last_n limit (turns_of contexts k @ [t])). key u = k"
    using last_n_facts(2) [of limit "turns_of contexts k @ [t]"] assms(2) by auto
  then show ?thesis
    using assms(1) last_n_facts(1) set_aput [of k "last_n limit (turns_of contexts k @ [t])" contexts]
    unfolding append_turn_def contexts_ok_def by fast
qed

lemma record_turn_ok: "assistant_ok e s \<Longrightarrow> wp (record_turn e r) (\<lambda>_. assistant_ok e) s"
  by (auto simp: record_turn_def wp_simps Let_def assistant_ok_def append_turn_ok)

lemma questions_adel: "questions_ok key d \<Longrightarrow> questions_ok key (adel k d)"
  by (auto simp: questions_ok_def adel_def)

lemma questions_aput: "questions_ok key d \<Longrightarrow> key p = k \<Longrightarrow> timely p \<Longrightarrow> questions_ok key (aput k p d)"
  using set_aput [of k p d] by (fastforce simp: questions_ok_def)

lemma clear_pending_ok: "assistant_ok e s \<Longrightarrow> wp (clear_pending_followup p) (\<lambda>_. assistant_ok e) s"
  by (simp add: clear_pending_followup_def wp_simps assistant_ok_def questions_adel)

lemma pending_ok: "assistant_ok e s \<Longrightarrow> wp (pending_followup_for ep sid now) (\<lambda>_. assistant_ok e) s"
  unfolding pending_followup_for_def
  by (auto split: option.splits intro!: seq_ok gets_ok ret_ok clear_pending_ok)

lemma store_pending_ok:
  assumes "assistant_ok e s"
  shows "wp (store_pending_followup e ep sid i c d now) (\<lambda>_. assistant_ok e) s"
proof -
  have "timely p" if "pf_created_at p = now" "pf_expires_at p = now + followup_seconds d * us_per_s" for p
    using that by (auto simp: timely_def followup_seconds_def us_per_s_def)
  then show ?thesis
    using assms by (simp add: store_pending_followup_def wp_simps Let_def assistant_ok_def questions_aput)
qed

lemma transition_ok: "assistant_ok e s \<Longrightarrow> wp (apply_followup_transition e ep sid m now) (\<lambda>_. assistant_ok e) s"
  unfolding apply_followup_transition_def Let_def
  by (auto split: option.splits list.splits intro!: seq_ok pending_ok clear_pending_ok store_pending_ok ret_ok)

lemma select_keeps: "cache_ok c \<Longrightarrow> select_timer te ep c = (x, c') \<Longrightarrow> cache_ok c'"
  by (auto simp: select_timer_def active_for_endpoint_def read_clock_def cache_ok_def)

lemma resolve_ok: "assistant_ok e s \<Longrightarrow> wp (resolve_timer_context e m ep) (\<lambda>_. assistant_ok e) s"
  using select_keeps by (auto simp: resolve_timer_context_def wp_simps assistant_ok_def split: option.splits prod.splits)

lemma publish_job_ok: "assistant_ok e s \<Longrightarrow> wp (publish_job e job) (\<lambda>_. assistant_ok e) s"
  using publisher_reachable.published [of "ae_events e" "as_publisher s" job]
  by (auto simp: publish_job_def wp_simps assistant_ok_def split: prod.splits)

lemma dispatch_endpoint_ok:
  "assistant_ok e s \<Longrightarrow> c \<in> set ENDPOINT_INTENTS \<Longrightarrow> wp (dispatch_endpoint_command e ep sid c slots) (\<lambda>_. assistant_ok e) s"
  by (auto simp: dispatch_endpoint_command_def wp_simps Let_def) (auto simp: assistant_ok_def)

lemma dispatch_ok: "assistant_ok e s \<Longrightarrow> wp (dispatch_intent e ep sid m t) (\<lambda>_. assistant_ok e) s"
  unfolding dispatch_intent_def
  by (auto split: option.splits intro!: seq_ok ret_ok publish_job_ok dispatch_endpoint_ok)

lemma latency_ok: "assistant_ok e s \<Longrightarrow> wp (record_intent_latency e b ep sid i c p l) (\<lambda>_. assistant_ok e) s"
  by (simp add: record_intent_latency_def wp_simps)

lemma session_ok: "assistant_ok e s \<Longrightarrow> wp (session_or_next ep sid) (\<lambda>_. assistant_ok e) s"
  by (simp add: session_or_next_def next_session_id_def wp_simps Let_def)

lemmas parts_ok = ask_ok ret_ok gets_ok session_ok pending_ok resolve_ok publish_job_ok dispatch_ok latency_ok transition_ok
  record_turn_ok

lemma matched_ok: "assistant_ok e s \<Longrightarrow> wp (handle_matched_intent e ep sid heard m t) (\<lambda>_. assistant_ok e) s"
  unfolding handle_matched_intent_def Let_def publish_intent_recognized_def by (intro seq_ok parts_ok)

lemma with_finder_ok:
  assumes "assistant_ok e s" "\<And>st. counted st (snd (f st))"
  shows "wp (with_finder f) (\<lambda>_. assistant_ok e) s"
  using assms(1) assms(2) [of "as_registry s"]
  by (auto simp: with_finder_def wp_simps assistant_ok_def counted_def split: prod.splits option.splits)

lemma find_intent_ok: "assistant_ok e s \<Longrightarrow> wp (find_intent_for e heard t p) (\<lambda>_. assistant_ok e) s"
  unfolding find_intent_for_def by (intro seq_ok parts_ok with_finder_ok find_local_counted)

lemma classified_answer_ok: "assistant_ok e s \<Longrightarrow> wp (classified_answer e ep sid heard c) (\<lambda>_. assistant_ok e) s"
  unfolding classified_answer_def Let_def
  by (auto split: option.splits list.splits intro!: seq_ok parts_ok)

lemma classified_intent_ok: "assistant_ok e s \<Longrightarrow> wp (classified_intent e ep sid heard c t) (\<lambda>_. assistant_ok e) s"
  unfolding classified_intent_def Let_def
  by (intro seq_ok ask_ok with_finder_ok match_ai_counted)
    (auto split: sum.splits option.splits intro!: seq_ok matched_ok parts_ok)

lemma classify_ok: "assistant_ok e s \<Longrightarrow> wp (classify_missed_intent e rq context t) (\<lambda>_. assistant_ok e) s"
  unfolding classify_missed_intent_def
  by (auto split: option.splits sum.splits intro!: seq_ok classified_intent_ok classified_answer_ok parts_ok)

lemma handle_turn_ok: "assistant_ok e s \<Longrightarrow> wp (handle_turn e rq) (\<lambda>_. assistant_ok e) s"
  unfolding handle_turn_def Let_def
  by (auto split: option.splits sum.splits intro!: seq_ok find_intent_ok matched_ok classify_ok parts_ok)

lemma match_intent_ok: "assistant_ok e s \<Longrightarrow> wp (match_intent e said ep sid) (\<lambda>_. assistant_ok e) s"
  unfolding match_intent_def by (intro seq_ok parts_ok find_intent_ok)

lemma synthesize_ok: "assistant_ok e s \<Longrightarrow> wp (synthesize_intent_reply_audio e f ep sid m i heard) (\<lambda>_. assistant_ok e) s"
  unfolding synthesize_intent_reply_audio_def Let_def by (auto split: option.splits intro!: parts_ok)

lemma invoke_matched_ok: "assistant_ok e s \<Longrightarrow> wp (invoke_matched e f ep sid heard m t) (\<lambda>_. assistant_ok e) s"
  unfolding invoke_matched_def Let_def publish_intent_recognized_def by (intro seq_ok parts_ok synthesize_ok)

lemma invoke_ok: "assistant_ok e s \<Longrightarrow> wp (invoke_intent e f ep said sid i slots) (\<lambda>_. assistant_ok e) s"
  unfolding invoke_intent_def Let_def
  by (auto split: option.splits sum.splits list.splits
      intro!: seq_ok find_intent_ok with_finder_ok match_declared_counted invoke_matched_ok parts_ok)

section \<open>Runs\<close>

text \<open>The calls of the service, and what happens beside it: an event of the timer node and the worker of the publisher.\<close>

datatype assistant_call =
    Turn assistant_request
  | Match string string string
  | Invoke "reply_audio_factory option" string string string "string option" "dict option"
  | Timer_event dict
  | Worker bool

definition update_timers :: "assistant_env \<Rightarrow> dict \<Rightarrow> assistant_state \<Rightarrow> assistant_state" where
  "update_timers e payload s = s\<lparr>as_timers := map_option (\<lambda>c. snd (update_from_event (ae_timers e) payload c)) (as_timers s)\<rparr>"

fun run_assistant :: "assistant_env \<Rightarrow> assistant_call \<Rightarrow> assistant_state \<Rightarrow> assistant_state" where
  "run_assistant e (Turn rq) s = snd (run_state (handle_turn e rq) s)"
| "run_assistant e (Match said ep sid) s = snd (run_state (match_intent e said ep sid) s)"
| "run_assistant e (Invoke f ep said sid i slots) s = snd (run_state (invoke_intent e f ep said sid i slots) s)"
| "run_assistant e (Timer_event payload) s = update_timers e payload s"
| "run_assistant e (Worker raised) s = s\<lparr>as_publisher := worker_step (ae_events e) raised (as_publisher s)\<rparr>"

inductive assistant_reachable :: "assistant_env \<Rightarrow> assistant_state \<Rightarrow> bool" for e where
  new: "(case registry of None \<Rightarrow> True | Some rg \<Rightarrow> registry_reachable (arp e) rg) \<Longrightarrow>
    assistant_reachable e (new_assistant registry (if timers then Some (new_timer_cache 100) else None))"
| call: "assistant_reachable e s \<Longrightarrow> assistant_reachable e (run_assistant e call s)"

lemma wp_snd: "wp m (\<lambda>_. P) s \<Longrightarrow> P (snd (run_state m s))"
  by (simp add: wp_def)

lemma assistant_reachable_ok: "assistant_reachable e s \<Longrightarrow> assistant_ok e s"
proof (induction rule: assistant_reachable.induct)
  case (new registry timers)
  then have "\<forall>rg. registry = Some rg \<longrightarrow> intents_ok rg" using registry_reachable_ok by auto
  then show ?case
    by (auto simp: assistant_ok_def new_assistant_def contexts_ok_def questions_ok_def new_cache_ok publisher_reachable.new)
next
  case (call s call)
  show ?case
  proof (cases call)
    case (Timer_event payload)
    have "cache_ok (snd (update_from_event (ae_timers e) payload c))" if "cache_ok c" for c
      using update_from_event_ok [OF that] by (metis surjective_pairing)
    then show ?thesis using call.IH Timer_event by (auto simp: update_timers_def assistant_ok_def)
  next
    case (Worker raised)
    then show ?thesis
      using call.IH publisher_reachable.worked [of "ae_events e" "as_publisher s" raised] by (simp add: assistant_ok_def)
  qed (use call.IH in \<open>auto intro!: wp_snd handle_turn_ok match_intent_ok invoke_ok\<close>)
qed

text \<open>C38. Over all runs of the assistant, with timer events and the publisher's worker in between: a conversation
  remembers no more turns than configured, each under its endpoint and its session; an open question is filed under
  its own endpoint and session and lives between five seconds and five minutes; only endpoint intents become
  commands; the intents keep their invariant; and nothing private has reached the broker.\<close>

theorem assistant_invariant:
  assumes "assistant_reachable e s"
  shows "(\<forall>(k, ts) \<in> set (as_context_by_endpoint s). length ts \<le> ae_context_limit e \<and> (\<forall>t \<in> set ts. cv_endpoint_id t = k))
    \<and> (\<forall>(k, ts) \<in> set (as_context_by_session s). length ts \<le> ae_context_limit e \<and> (\<forall>t \<in> set ts. cv_session_id t = k))
    \<and> (\<forall>(k, p) \<in> set (as_pending_by_endpoint s). pf_endpoint_id p = k
        \<and> pf_created_at p + 5 * us_per_s \<le> pf_expires_at p \<and> pf_expires_at p \<le> pf_created_at p + 300 * us_per_s)
    \<and> (\<forall>(k, p) \<in> set (as_pending_by_session s). pf_session_id p = k
        \<and> pf_created_at p + 5 * us_per_s \<le> pf_expires_at p \<and> pf_expires_at p \<le> pf_created_at p + 300 * us_per_s)
    \<and> (\<forall>c \<in> set (as_commands s). vc_command c \<in> set ENDPOINT_INTENTS)
    \<and> (\<forall>rg. as_registry s = Some rg \<longrightarrow> rg_file rg = Some (rg_state rg) \<and> distinct (map ir_intent_id (is_intents (rg_state rg))))
    \<and> (\<forall>(topic, payload, node) \<in> set (ev_sent (ap_delegate (as_publisher s))). private_free (dget payload ''data''))"
proof -
  have ok: "assistant_ok e s" by (rule assistant_reachable_ok [OF assms])
  then have "sent_ok (ae_events e) (ap_delegate (as_publisher s))"
    using publisher_reachable_ok by (simp add: assistant_ok_def publisher_ok_def)
  then have sent: "\<forall>(topic, payload, node) \<in> set (ev_sent (ap_delegate (as_publisher s))). private_free (dget payload ''data'')"
    by (auto simp: sent_ok_def)
  have contexts: "\<forall>(k, ts) \<in> set (as_context_by_endpoint s). length ts \<le> ae_context_limit e \<and> (\<forall>t \<in> set ts. cv_endpoint_id t = k)"
    "\<forall>(k, ts) \<in> set (as_context_by_session s). length ts \<le> ae_context_limit e \<and> (\<forall>t \<in> set ts. cv_session_id t = k)"
    using ok by (simp_all add: assistant_ok_def contexts_ok_def)
  have questions: "\<forall>(k, p) \<in> set (as_pending_by_endpoint s). pf_endpoint_id p = k \<and> timely p"
    "\<forall>(k, p) \<in> set (as_pending_by_session s). pf_session_id p = k \<and> timely p"
    using ok by (simp_all add: assistant_ok_def questions_ok_def)
  show ?thesis
    using ok sent contexts questions
    by (auto simp: assistant_ok_def intents_ok_def intents_settled_def timely_def)
qed

section \<open>The timer a request names\<close>

fun job_timer :: "publish_call \<Rightarrow> string option option" where
  "job_timer (Timer_status ep s t scope i) = Some i"
| "job_timer (Timer_control action ep s t scope i) = Some i"
| "job_timer (Timer_adjust ep s n txt t scope i) = Some i"
| "job_timer (Timer_snooze ep s n txt t scope i) = Some i"
| "job_timer _ = None"

section \<open>What a step leaves alone\<close>

definition untouched :: "(assistant_state \<Rightarrow> 'v) \<Rightarrow> 'a A \<Rightarrow> bool" where
  "untouched f m \<longleftrightarrow> (\<forall>s. f (snd (run_state m s)) = f s)"

lemma keeps_bind: "untouched f m \<Longrightarrow> (\<And>a. untouched f (k a)) \<Longrightarrow> untouched f (State_Monad.bind m k)"
  by (simp add: untouched_def case_prod_beta)

lemma keeps_basic: "untouched f (ret a)" "untouched f State_Monad.get" "(\<And>s. f (g s) = f s) \<Longrightarrow> untouched f (modify g)"
  by (simp_all add: untouched_def)

lemma keeps_ask: "(\<And>s n. f (s\<lparr>as_reads := n\<rparr>) = f s) \<Longrightarrow> untouched f (consult g)"
  by (simp add: untouched_def consult_def)

lemma keeps_step: "untouched f m \<Longrightarrow> (\<And>a t. f t = f s \<Longrightarrow> wp (k a) Q t) \<Longrightarrow> wp (State_Monad.bind m k) Q s"
  by (simp add: untouched_def wp_def case_prod_beta)

text \<open>The open questions, the conversations, and what goes out.\<close>

definition memory :: "assistant_state \<Rightarrow> (string \<times> pending_followup) list \<times> (string \<times> pending_followup) list" where
  "memory s = (as_pending_by_endpoint s, as_pending_by_session s)"

definition talk :: "assistant_state \<Rightarrow> (string \<times> conversation_turn list) list \<times> (string \<times> conversation_turn list) list" where
  "talk s = (as_context_by_endpoint s, as_context_by_session s)"

definition queued :: "assistant_state \<Rightarrow> publish_call list" where
  "queued s = map fst (ap_queue (as_publisher s))"

definition room :: "assistant_state \<Rightarrow> nat" where
  "room s = ap_capacity (as_publisher s) - length (queued s)"

definition outbox :: "assistant_state \<Rightarrow> publish_call list \<times> nat \<times> voice_command list" where
  "outbox s = (queued s, ap_capacity (as_publisher s), as_commands s)"

lemmas view_defs = memory_def talk_def outbox_def queued_def

lemma asks_keep: "untouched memory (consult g)" "untouched talk (consult g)" "untouched outbox (consult g)"
  by (rule keeps_ask, simp add: view_defs)+

lemma publish_keeps: "untouched memory (publish_job e job)" "untouched talk (publish_job e job)"
  unfolding publish_job_def by (auto intro!: keeps_bind keeps_basic simp: view_defs split: prod.splits)

lemma resolve_keeps:
  "untouched memory (resolve_timer_context e m ep)" "untouched talk (resolve_timer_context e m ep)" "untouched outbox (resolve_timer_context e m ep)"
  unfolding resolve_timer_context_def
  by (auto intro!: keeps_bind keeps_basic simp: view_defs split: option.splits prod.splits)

lemma dispatch_endpoint_keeps:
  "untouched memory (dispatch_endpoint_command e ep sid c slots)" "untouched talk (dispatch_endpoint_command e ep sid c slots)"
  unfolding dispatch_endpoint_command_def Let_def
  by (auto intro!: keeps_bind keeps_basic asks_keep simp: view_defs)

lemma dispatch_keeps: "untouched memory (dispatch_intent e ep sid m t)" "untouched talk (dispatch_intent e ep sid m t)"
  unfolding dispatch_intent_def
  by (auto intro!: keeps_bind keeps_basic publish_keeps dispatch_endpoint_keeps split: option.splits)

lemma latency_keeps:
  "untouched memory (record_intent_latency e b ep sid i c p l)" "untouched talk (record_intent_latency e b ep sid i c p l)"
  "untouched outbox (record_intent_latency e b ep sid i c p l)"
  unfolding record_intent_latency_def by (intro keeps_bind keeps_basic asks_keep; simp add: view_defs)+

lemma clear_untouched: "untouched talk (clear_pending_followup p)" "untouched outbox (clear_pending_followup p)"
  by (simp_all add: clear_pending_followup_def untouched_def view_defs)

lemma transition_keeps:
  "untouched talk (apply_followup_transition e ep sid m t)" "untouched outbox (apply_followup_transition e ep sid m t)"
  unfolding apply_followup_transition_def pending_followup_for_def store_pending_followup_def Let_def
  by (auto intro!: keeps_bind keeps_basic clear_untouched simp: view_defs split: option.splits list.splits)

lemma turn_keeps: "untouched memory (record_turn e r)" "untouched outbox (record_turn e r)"
  by (simp_all add: record_turn_def untouched_def view_defs Let_def)

section \<open>A matched intent\<close>

text \<open>What publishing and dispatching add to the queue: as many of their jobs, in order, as there is room for.\<close>

definition sent :: "publish_call list \<Rightarrow> bool \<Rightarrow> assistant_state \<Rightarrow> assistant_state \<Rightarrow> bool" where
  "sent jobs quiet s s' \<longleftrightarrow> queued s' = queued s @ take (room s) jobs \<and> ap_capacity (as_publisher s') = ap_capacity (as_publisher s)
     \<and> (quiet \<longrightarrow> as_commands s' = as_commands s)"

lemma sent_none: "outbox s' = outbox s \<Longrightarrow> sent [] quiet s s'"
  by (simp add: sent_def outbox_def)

lemma sent_trans: "sent J quiet s t \<Longrightarrow> sent K quiet t u \<Longrightarrow> sent (J @ K) quiet s u"
proof -
  have "n - (q + min j (n - q)) = n - (q + j)" for n q j :: nat by linarith
  then show "sent J quiet s t \<Longrightarrow> sent K quiet t u \<Longrightarrow> ?thesis" by (auto simp: sent_def room_def)
qed

lemma publish_sends: "wp (publish_job e job) (\<lambda>_. sent [job] quiet s) s"
  by (auto simp: publish_job_def wp_simps sent_def room_def queued_def async_publish_def enqueue_publish_def Let_def
      split: prod.splits if_splits)

text \<open>The request of an intent: none if it is not clear which timer it means.\<close>

definition option_list :: "'a option \<Rightarrow> 'a list" where
  "option_list x = (case x of None \<Rightarrow> [] | Some a \<Rightarrow> [a])"

definition requests_of :: "assistant_env \<Rightarrow> string \<Rightarrow> string \<Rightarrow> local_match \<Rightarrow> instant \<Rightarrow> publish_call list" where
  "requests_of e ep sid m t = (if timer_selection_blocks_dispatch m then []
     else option_list (timer_request_job (arp e) (lm_command m) ep sid (lm_slots m) t))"

lemma TIMER_REFERENCES_distinct: "set TIMER_REFERENCES \<inter> set ENDPOINT_INTENTS = {}"
  by code_simp

lemma no_request: "c \<notin> set (''timer.create'' # TIMER_REFERENCES) \<Longrightarrow> timer_request_job rp c ep sid slots t = None"
  by (auto simp: timer_request_job_def TIMER_REFERENCES_def Let_def)

lemma command_sends: "wp (dispatch_endpoint_command e ep sid c slots) (\<lambda>_. sent [] False s) s"
  by (auto simp: dispatch_endpoint_command_def wp_simps Let_def sent_def queued_def)

lemma dispatch_sends:
  "wp (dispatch_intent e ep sid m t) (\<lambda>_. sent (requests_of e ep sid m t) (lm_command m \<in> set TIMER_REFERENCES) s) s"
proof -
  let ?q = "lm_command m \<in> set TIMER_REFERENCES"
  have published: "wp (publish_job e job) (\<lambda>a. wp (ret (Some a)) (\<lambda>_. sent [job] ?q s)) s" for job
    by (rule wp_mono [OF publish_sends]) (simp add: wp_return)
  have commanded: "wp (dispatch_endpoint_command e ep sid c slots) (\<lambda>a. wp (ret (Some a)) (\<lambda>_. sent [] False s)) s" for c slots
    by (rule wp_mono [OF command_sends]) (simp add: wp_return)
  show ?thesis
  proof (cases "timer_selection_blocks_dispatch m")
    case True
    then show ?thesis by (simp add: dispatch_intent_def wp_return requests_of_def sent_none)
  next
    case False
    show ?thesis
    proof (cases "lm_command m \<in> set (''timer.create'' # TIMER_REFERENCES)")
      case True
      then show ?thesis
        using False published by (auto simp: dispatch_intent_def wp_bind wp_return requests_of_def option_list_def sent_none split: option.splits)
    next
      case False
      then have "requests_of e ep sid m t = []" "\<not> ?q" by (simp_all add: requests_of_def no_request option_list_def)
      then show ?thesis
        using False \<open>\<not> timer_selection_blocks_dispatch m\<close> commanded
        by (simp add: dispatch_intent_def wp_bind wp_return sent_none)
    qed
  qed
qed

definition spoken_turn :: "turn_response \<Rightarrow> conversation_turn" where
  "spoken_turn r = \<lparr>cv_endpoint_id = rs_endpoint_id r, cv_session_id = rs_session_id r,
     cv_heard_text = rs_heard_text r, cv_reply_text = rs_reply_text r\<rparr>"

definition remembered :: "assistant_env \<Rightarrow> turn_response \<Rightarrow> assistant_state \<Rightarrow> bool" where
  "remembered e r s \<longleftrightarrow> (0 < ae_context_limit e \<longrightarrow>
     turns_of (as_context_by_endpoint s) (rs_endpoint_id r) \<noteq> [] \<and> last (turns_of (as_context_by_endpoint s) (rs_endpoint_id r)) = spoken_turn r
     \<and> turns_of (as_context_by_session s) (rs_session_id r) \<noteq> [] \<and> last (turns_of (as_context_by_session s) (rs_session_id r)) = spoken_turn r)"

lemma appended: "0 < n \<Longrightarrow> turns_of (append_turn n k t d) k \<noteq> [] \<and> last (turns_of (append_turn n k t d) k) = t"
  by (auto simp: append_turn_def turns_of_def last_n_def)

lemma record_remembers: "wp (record_turn e r) (\<lambda>_. remembered e r) s"
  by (auto simp: record_turn_def wp_simps Let_def remembered_def spoken_turn_def appended)

text \<open>How far a matched intent has come: the questions are still open as they were, and only allowed jobs went out.\<close>

definition so_far :: "publish_call list \<Rightarrow> bool \<Rightarrow> assistant_state \<Rightarrow> assistant_state \<Rightarrow> bool" where
  "so_far jobs quiet s t \<longleftrightarrow> memory t = memory s \<and> sent jobs quiet s t"

lemma so_far_step:
  assumes "so_far jobs quiet s t" "untouched memory m" "wp m (\<lambda>_. sent extra quiet t) t"
  shows "wp m (\<lambda>_. so_far (jobs @ extra) quiet s) t"
  using assms sent_trans [of jobs quiet s t] by (auto simp: so_far_def untouched_def wp_def)

lemma so_far_quiet:
  assumes "so_far jobs quiet s t" "untouched memory m" "untouched outbox m"
  shows "wp m (\<lambda>_. so_far jobs quiet s) t"
proof -
  have "wp m (\<lambda>_. sent [] quiet t) t"
    using assms(3) by (simp add: wp_def untouched_def sent_none case_prod_beta)
  from so_far_step [OF assms(1,2) this] show ?thesis by simp
qed

lemma so_far_ask: "so_far J quiet s t \<Longrightarrow> wp (consult g) (\<lambda>_. so_far J quiet s) t"
  by (rule so_far_quiet [OF _ asks_keep(1,3)])

lemma wp_seq: "wp m (\<lambda>_. P) s \<Longrightarrow> (\<And>a t. P t \<Longrightarrow> wp (k a) Q t) \<Longrightarrow> wp (State_Monad.bind m k) Q s"
  unfolding wp_bind by (rule wp_mono)

lemma wp_run: "run_state m s = (a, t) \<Longrightarrow> wp (k a) Q t \<Longrightarrow> wp (State_Monad.bind m k) Q s"
  by (simp add: wp_def)

lemma keeps_run: "untouched f m \<Longrightarrow> run_state m s = (a, t) \<Longrightarrow> f t = f s"
  unfolding untouched_def by (metis snd_conv)

definition closing :: "assistant_env \<Rightarrow> string \<Rightarrow> string \<Rightarrow> string \<Rightarrow> local_match \<Rightarrow> instant \<Rightarrow> rat \<Rightarrow> turn_response A" where
  "closing e ep sid heard m t l = do {
     followup \<leftarrow> apply_followup_transition e ep sid m t;
     let r = intent_response ep sid heard m l followup in do {
       record_intent_latency e True ep sid (Some (lm_intent m)) (Some (lm_command m)) (Some (lm_provider_id m)) l;
       record_turn e r;
       ret r } }"

lemma closing_steps:
  assumes "so_far J quiet s s2"
  shows "wp (closing e ep sid heard m t l)
    (\<lambda>r s'. \<exists>s2 s3 f. r = intent_response ep sid heard m l f
       \<and> memory s2 = memory s \<and> run_state (apply_followup_transition e ep sid m t) s2 = (f, s3) \<and> memory s' = memory s3
       \<and> sent J quiet s s' \<and> remembered e r s') s2"
proof -
  obtain f s3 where run: "run_state (apply_followup_transition e ep sid m t) s2 = (f, s3)" by fastforce
  have out: "outbox s3 = outbox s2" by (rule keeps_run [OF transition_keeps(2) run])
  have recorded: "wp (record_turn e r) (\<lambda>_ u. memory u = memory v \<and> outbox u = outbox v \<and> remembered e r u) v" for r v
    using record_remembers [of e r v] turn_keeps [of e r] by (simp add: wp_def untouched_def case_prod_beta)
  have sent2: "sent J quiet s u" if "outbox u = outbox s3" for u
    using assms out that by (simp add: so_far_def sent_def outbox_def)
  show ?thesis
    unfolding closing_def Let_def
  proof (rule wp_run [OF run], rule keeps_step [where f = "\<lambda>s. (memory s, outbox s)"])
    show "untouched (\<lambda>s. (memory s, outbox s)) (record_intent_latency e b ep sid i c p l)" for b i c p
      using latency_keeps(1,3) [of e b ep sid i c p l] by (simp add: untouched_def)
  next
    fix v assume v: "(memory v, outbox v) = (memory s3, outbox s3)"
    show "wp (State_Monad.bind (record_turn e (intent_response ep sid heard m l f)) (\<lambda>_. ret (intent_response ep sid heard m l f)))
      (\<lambda>r s'. \<exists>s2 s3 f. r = intent_response ep sid heard m l f
       \<and> memory s2 = memory s \<and> run_state (apply_followup_transition e ep sid m t) s2 = (f, s3) \<and> memory s' = memory s3
       \<and> sent J quiet s s' \<and> remembered e r s') v"
      using v run assms sent2 unfolding so_far_def
      by (intro wp_seq [OF recorded]) (simp add: wp_return, metis)
  qed
qed

text \<open>All of it: the intent is announced first, and then its request is made.\<close>

definition announces :: "local_match \<Rightarrow> publish_call \<Rightarrow> bool" where
  "announces m job = (case job of Intent_recognized x \<Rightarrow> rc_intent_id x = lm_intent m \<and> rc_command x = lm_command m | _ \<Rightarrow> False)"

lemma matched_steps:
  assumes "run_state (resolve_timer_context e found ep) s = (m, s1)"
  shows "wp (handle_matched_intent e ep sid heard found t)
    (\<lambda>r s'. \<exists>s2 s3 l f. r = intent_response ep sid (recorded_heard_text m heard) m l f
       \<and> memory s2 = memory s \<and> run_state (apply_followup_transition e ep sid m t) s2 = (f, s3) \<and> memory s' = memory s3
       \<and> (\<exists>a. announces m a \<and> sent (a # requests_of e ep sid m t) (lm_command m \<in> set TIMER_REFERENCES) s s') \<and> remembered e r s') s"
proof -
  let ?B = "\<lambda>J. so_far J (lm_command m \<in> set TIMER_REFERENCES) s"
  have start: "?B [] s1"
    using keeps_run [OF resolve_keeps(1) assms] keeps_run [OF resolve_keeps(3) assms] by (simp add: so_far_def sent_none)
  have published: "wp (publish_intent_recognized e i ep sid m t l) (\<lambda>_ u. \<exists>a. announces m a \<and> ?B [a] u) u" if "?B [] u" for i l u
  proof -
    have *: "wp (publish_job e job) (\<lambda>_ u. \<exists>a. announces m a \<and> ?B [a] u) u" if "announces m job" for job
      using so_far_step [OF \<open>?B [] u\<close> publish_keeps(1) publish_sends, of e job] that by (auto intro: wp_mono)
    show ?thesis unfolding publish_intent_recognized_def by (rule *) (simp add: announces_def)
  qed
  have dispatched: "wp (dispatch_intent e ep sid m t) (\<lambda>_. ?B (a # requests_of e ep sid m t)) u" if "?B [a] u" for a u
    using so_far_step [OF that dispatch_keeps(1) dispatch_sends] by simp
  show ?thesis
    unfolding handle_matched_intent_def
    apply (rule wp_run [OF assms])
    unfolding Let_def
    apply (rule wp_seq, rule so_far_ask, rule start)
    apply (rule wp_seq, erule so_far_ask)
    apply (rule wp_seq, erule published)
    apply (elim exE conjE)
    apply (rule wp_seq, erule dispatched)
    apply (rule wp_seq, erule so_far_ask)
    apply (rule wp_mono, erule closing_steps [unfolded closing_def Let_def])
    by blast
qed

section \<open>Which timer a request names\<close>

definition request_keys :: "string list" where
  "request_keys = [''scope'', ''timer_id'', ''duration_seconds'', ''duration_text'', ''action'', ''delta_seconds'', ''delta_text'']"

lemma same_request:
  assumes "\<And>k. k \<in> set request_keys \<Longrightarrow> dget slots k = dget slots' k"
  shows "timer_request_job rp c ep sid slots t = timer_request_job rp c ep sid slots' t"
proof -
  have same: "\<forall>k \<in> set request_keys. dget slots k = dget slots' k" using assms by blast
  show ?thesis
    using same [unfolded request_keys_def]
    by (simp only: list.set ball_simps simp_thms timer_request_job_def scope_of_def timer_id_of_def)
qed

lemma dget_truthy: "k \<noteq> k' \<Longrightarrow> dget (aput_truthy k' v d) k = dget d k"
  by (simp add: aput_truthy_def)

text \<open>What the selection makes of an intent: the command stays, and the timer that is selected is named.\<close>

lemma selection_frame:
  "lm_command (with_selection rp x m) = lm_command m" "lm_intent (with_selection rp x m) = lm_intent m"
  "lm_metadata (with_selection rp x m) = lm_metadata m" "lm_constraints (with_selection rp x m) = lm_constraints m"
  "lm_conversation_followup (with_selection rp x m) = lm_conversation_followup m"
  by (simp_all add: with_selection_def Let_def split: timer_selection.splits)

lemma requests_none:
  "requests_of e ep sid (with_selection rp No_timer m) t = option_list (timer_request_job (arp e) (lm_command m) ep sid (lm_slots m) t)"
proof -
  have "timer_request_job (arp e) (lm_command m) ep sid (aput ''timer_selection_status'' (PStr ''unknown'') (lm_slots m)) t
      = timer_request_job (arp e) (lm_command m) ep sid (lm_slots m) t"
    by (rule same_request) (auto simp: request_keys_def)
  then show ?thesis
    by (simp add: requests_of_def timer_selection_blocks_dispatch_def with_selection_def)
qed

definition selection_keys :: "string list" where
  "selection_keys = [''timer_selection_status'', ''timer_owner_node_id'', ''timer_title'', ''timer_due_at'', ''timer_selection_strategy'']"

lemma selection_keys_distinct: "set request_keys \<inter> set selection_keys = {}"
  by code_simp

lemma selected_slots:
  assumes "strip (to_timer_id q) = to_timer_id q" "to_timer_id q \<noteq> []" "k \<notin> set selection_keys"
  shows "dget (lm_slots (with_selection rp (Selected_timer how q cs) m)) k = dget (aput ''timer_id'' (PStr (to_timer_id q)) (lm_slots m)) k"
proof -
  have i: "dget (owner_as_dict q) ''timer_id'' = PStr (to_timer_id q)" by (simp add: owner_as_dict_def dget_def)
  show ?thesis
    using assms(3) by (simp add: with_selection_def Let_def i assms(1,2) dget_truthy selection_keys_def)
qed

lemma selected_status: "dget (lm_slots (with_selection rp (Selected_timer how q cs) m)) ''timer_selection_status'' = PStr ''selected''"
  by (simp add: with_selection_def Let_def dget_truthy)

lemma requests_selected:
  assumes "strip (to_timer_id q) = to_timer_id q" "to_timer_id q \<noteq> []"
  shows "requests_of e ep sid (with_selection rp (Selected_timer how q cs) m) t
    = option_list (timer_request_job (arp e) (lm_command m) ep sid (aput ''timer_id'' (PStr (to_timer_id q)) (lm_slots m)) t)"
proof -
  have "timer_request_job (arp e) (lm_command m) ep sid (lm_slots (with_selection rp (Selected_timer how q cs) m)) t
      = timer_request_job (arp e) (lm_command m) ep sid (aput ''timer_id'' (PStr (to_timer_id q)) (lm_slots m)) t"
    using selection_keys_distinct assms by (intro same_request selected_slots) auto
  then show ?thesis
    by (simp add: requests_of_def timer_selection_blocks_dispatch_def selection_frame selected_status)
qed

lemma requests_ambiguous: "requests_of e ep sid (with_selection rp (Ambiguous_timers cs) m) t = []"
  by (simp add: requests_of_def timer_selection_blocks_dispatch_def with_selection_def Let_def)

lemma spoken_amount:
  "(case (x, v) of (Some n, PStr txt) \<Rightarrow> Some (f n txt) | _ \<Rightarrow> None) = Some job \<Longrightarrow> \<exists>n txt. job = f n txt"
  by (cases x; cases v) auto

lemma option_cases:
  assumes "(if a then x else y) = Some job" "x = Some job \<Longrightarrow> P" "y = Some job \<Longrightarrow> P"
  shows P using assms by (cases a) simp_all

lemma request_timer:
  assumes "timer_request_job rp c ep sid slots t = Some job" "c \<noteq> ''timer.create''"
  shows "job_timer job = Some (timer_id_of rp slots)"
  using assms(1) unfolding timer_request_job_def Let_def if_not_P [OF assms(2)]
  by (elim option_cases) ((drule spoken_amount, elim exE)?, clarsimp)+
lemma request_names:
  assumes "c \<in> set TIMER_REFERENCES" "strip i = i" "i \<noteq> []"
    "timer_request_job rp c ep sid (aput ''timer_id'' (PStr i) slots) t = Some job"
  shows "job_timer job = Some (Some i)"
proof -
  have "timer_id_of rp (aput ''timer_id'' (PStr i) slots) = Some i"
    using assms(2,3) by (simp add: timer_id_of_def nonempty_def)
  moreover have "c \<noteq> ''timer.create''" using assms(1) by (auto simp: TIMER_REFERENCES_def)
  ultimately show ?thesis using request_timer [OF assms(4)] by simp
qed

lemma resolve_run:
  assumes "as_timers s = Some c" "lm_command m \<in> set TIMER_REFERENCES"
  shows "\<exists>s1. run_state (resolve_timer_context e m ep) s = (with_selection (arp e) (fst (select_timer (ae_timers e) ep c)) m, s1)"
  using assms by (simp add: resolve_timer_context_def split: prod.splits)

lemma resolve_frame:
  assumes "run_state (resolve_timer_context e found ep) s = (m, s1)"
  shows "lm_command m = lm_command found \<and> lm_intent m = lm_intent found \<and> lm_metadata m = lm_metadata found
    \<and> lm_constraints m = lm_constraints found \<and> lm_conversation_followup m = lm_conversation_followup found"
  using assms by (auto simp: resolve_timer_context_def selection_frame split: if_splits option.splits prod.splits)

lemma ambiguity_asks: "startswith (lm_reply_text (with_selection rp (Ambiguous_timers cs) m)) ''I found multiple active timers''"
  by (simp add: with_selection_def Let_def timer_ambiguity_reply_def startswith_def)

text \<open>The timer an intent without a name means: the only one of its endpoint, or the one that is due first.\<close>

definition means :: "timer_owner \<Rightarrow> timer_owner set \<Rightarrow> bool" where
  "means q C \<longleftrightarrow> C = {q} \<or> due_first q C"

text \<open>The request an intent makes that was said to a kitchen with the timers of the cache: all of the cases.\<close>

definition request_fits :: "assistant_env \<Rightarrow> string \<Rightarrow> string \<Rightarrow> timer_cache \<Rightarrow> local_match \<Rightarrow> instant \<Rightarrow> publish_call list \<Rightarrow> string \<Rightarrow> bool" where
  "request_fits e ep sid c found t asked reply \<longleftrightarrow>
     (let C = timer_candidates_of (ae_timers e) ep c;
          asks = (\<lambda>slots. option_list (timer_request_job (arp e) (lm_command found) ep sid slots t)) in
      if C = {} then asked = asks (lm_slots found)
      else if \<exists>q. means q C
        then (\<exists>q. means q C \<and> asked = asks (aput ''timer_id'' (PStr (to_timer_id q)) (lm_slots found))
          \<and> list_all (\<lambda>j. job_timer j = Some (Some (to_timer_id q))) asked)
      else asked = [] \<and> startswith reply ''I found multiple active timers'')"

lemma requests_fit:
  fixes e ep
  assumes ok: "cache_ok c" and ref: "lm_command found \<in> set TIMER_REFERENCES"
  defines "m \<equiv> with_selection (arp e) (fst (select_timer (ae_timers e) ep c)) found"
  shows "request_fits e ep sid c found t (requests_of e ep sid m t) (lm_reply_text m)"
proof -
  let ?C = "timer_candidates_of (ae_timers e) ep c" and ?x = "fst (select_timer (ae_timers e) ep c)"
  have sel: "case ?x of No_timer \<Rightarrow> ?C = {} | Selected_timer how q cs \<Rightarrow> means q ?C \<and> q \<in> ?C
      | Ambiguous_timers cs \<Rightarrow> ?C \<noteq> {} \<and> \<not> (\<exists>q. means q ?C)"
    using selected_timer_is_meant [OF ok, of "ae_timers e" ep] by (auto simp: means_def split: timer_selection.splits)
  show ?thesis
  proof (cases ?x)
    case No_timer
    then show ?thesis using sel by (simp add: request_fits_def m_def requests_none)
  next
    case (Selected_timer how q cs)
    then have q: "means q ?C" "?C \<noteq> {}" and i: "strip (to_timer_id q) = to_timer_id q" "to_timer_id q \<noteq> []"
      using sel ok by (auto simp: timer_candidates_of_def qualifies_def cache_ok_def)
    let ?asked = "option_list (timer_request_job (arp e) (lm_command found) ep sid (aput ''timer_id'' (PStr (to_timer_id q)) (lm_slots found)) t)"
    have eq: "requests_of e ep sid m t = ?asked"
      unfolding m_def Selected_timer by (rule requests_selected [OF i])
    have "list_all (\<lambda>j. job_timer j = Some (Some (to_timer_id q))) ?asked"
      using request_names [OF ref i] by (auto simp: option_list_def split: option.splits)
    then show ?thesis
      using q unfolding request_fits_def Let_def eq by auto
  next
    case (Ambiguous_timers cs)
    then show ?thesis using sel by (simp add: request_fits_def m_def requests_ambiguous ambiguity_asks)
  qed
qed

text \<open>C36. An intent that refers to a timer (status, stop, cancel, change, snooze), in any reachable state of the assistant:
  it is announced, and then, if the queue has room, one request is made of it. When no timer of the endpoint is running the request
  is made as it was spoken; when one timer is meant, the request its words allow is made and names that timer; when several are running
  and none is due first, nothing is asked of the timer node, and the reply asks which timer is meant. No command is sent to an endpoint.\<close>

theorem timer_requests_name_the_timer:
  assumes "assistant_reachable e s" "as_timers s = Some c" "lm_command found \<in> set TIMER_REFERENCES"
  shows "case run_state (handle_matched_intent e ep sid heard found t) s of (r, s') \<Rightarrow>
    \<exists>a asked. announces found a \<and> queued s' = queued s @ take (room s) (a # asked) \<and> as_commands s' = as_commands s \<and>
     request_fits e ep sid c found t asked (rs_reply_text r)"
proof -
  let ?m = "with_selection (arp e) (fst (select_timer (ae_timers e) ep c)) found"
  have ok: "cache_ok c" using assistant_reachable_ok [OF assms(1)] assms(2) by (simp add: assistant_ok_def)
  obtain s1 where run: "run_state (resolve_timer_context e found ep) s = (?m, s1)" using resolve_run [OF assms(2,3)] by blast
  have same: "announces ?m = announces found" by (simp add: announces_def selection_frame fun_eq_iff cong: publish_call.case_cong)
  have "wp (handle_matched_intent e ep sid heard found t)
    (\<lambda>r s'. \<exists>a. announces found a \<and> rs_reply_text r = lm_reply_text ?m \<and> sent (a # requests_of e ep sid ?m t) True s s') s"
    using assms(3) by (rule_tac wp_mono [OF matched_steps [OF run]])
      (auto simp: intent_response_def spoken_response_def same selection_frame)
  then show ?thesis
    using requests_fit [OF ok assms(3), of e ep sid t] unfolding wp_def sent_def case_prod_beta by metis
qed

section \<open>What is kept of what was heard\<close>

lemma nothing_remembered: "ae_context_limit e = 0 \<Longrightarrow> untouched talk (handle_matched_intent e ep sid heard found t)"
  unfolding handle_matched_intent_def publish_intent_recognized_def Let_def
  by (intro keeps_bind resolve_keeps asks_keep publish_keeps dispatch_keeps transition_keeps latency_keeps keeps_basic)
    (simp add: record_turn_def untouched_def Let_def)

text \<open>C39. A matched intent answers and remembers, under its endpoint and under its session, the words that were heard. Of the
  words of an administrative intent, the codes spoken as four digits (with blanks or hyphens between
  them) or as four number words (with blanks between them) are replaced by \<open>[passcode]\<close>, all else is kept, and no
  code of these forms is left. (A code with commas, or of digits and words mixed, is accepted but not
  replaced; nothing is claimed of those.)\<close>

theorem administrative_words_are_redacted:
  shows "case run_state (handle_matched_intent e ep sid heard found t) s of (r, s') \<Rightarrow>
    (if is_administrative found
     then codes_redacted heard (rs_heard_text r)
     else rs_heard_text r = heard)
    \<and> (if ae_context_limit e = 0 then as_context_by_endpoint s' = as_context_by_endpoint s
       else context_for_endpoint ep s' \<noteq> [] \<and> last (context_for_endpoint ep s') = spoken_turn r
         \<and> context_for_session sid s' \<noteq> [] \<and> last (context_for_session sid s') = spoken_turn r)"
proof -
  obtain m s1 where run: "run_state (resolve_timer_context e found ep) s = (m, s1)" by fastforce
  have same: "is_administrative m = is_administrative found" using resolve_frame [OF run] by (simp add: is_administrative_def)
  have "wp (handle_matched_intent e ep sid heard found t)
    (\<lambda>r s'. rs_heard_text r = recorded_heard_text m heard \<and> rs_endpoint_id r = ep \<and> rs_session_id r = sid \<and> remembered e r s') s"
    by (rule wp_mono [OF matched_steps [OF run]]) (auto simp: intent_response_def spoken_response_def)
  moreover have "wp (handle_matched_intent e ep sid heard found t) (\<lambda>_ s'. ae_context_limit e = 0 \<longrightarrow> talk s' = talk s) s"
    using nothing_remembered by (simp add: wp_def untouched_def case_prod_beta)
  ultimately show ?thesis
    using redacted_codes [of heard]
    by (auto simp: wp_def case_prod_beta recorded_heard_text_def same remembered_def context_for_endpoint_def context_for_session_def
        talk_def turns_of_def)
qed

section \<open>When a question is closed\<close>

definition asks_back :: "local_match \<Rightarrow> bool" where
  "asks_back m \<longleftrightarrow> lm_command m \<noteq> ''voice.confirm.yes'' \<and> lm_command m \<noteq> ''voice.confirm.no''
     \<and> lm_conversation_followup m \<noteq> None \<and> lm_conversation_followup m \<noteq> Some []"

text \<open>The only question an endpoint can then have open.\<close>

definition asked_last :: "string \<Rightarrow> string \<Rightarrow> local_match \<Rightarrow> instant \<Rightarrow> pending_followup \<Rightarrow> bool" where
  "asked_last ep sid m t p \<longleftrightarrow> pf_endpoint_id p = ep \<and> pf_session_id p = sid \<and> pf_intent_id p = lm_intent m \<and> pf_created_at p = t \<and> timely p"

lemma store_step:
  "wp (store_pending_followup e ep sid (lm_intent m) c d t) (\<lambda>p s'. asked_last ep sid m t p
    \<and> as_pending_by_endpoint s' = aput ep p (as_pending_by_endpoint s) \<and> as_pending_by_session s' = aput sid p (as_pending_by_session s)) s"
proof -
  have "5 * us_per_s \<le> followup_seconds d * us_per_s" "followup_seconds d * us_per_s \<le> 300 * us_per_s"
    by (simp_all add: followup_seconds_def us_per_s_def)
  then show ?thesis by (simp add: store_pending_followup_def wp_simps Let_def asked_last_def timely_def)
qed

lemma question_stored:
  assumes "asks_back m"
  shows "wp (apply_followup_transition e ep sid m t) (\<lambda>f s'. \<exists>p. asked_last ep sid m t p \<and> f = Some (followup_as_dict p)
    \<and> as_pending_by_endpoint s' = aput ep p (as_pending_by_endpoint s) \<and> as_pending_by_session s' = aput sid p (as_pending_by_session s)) s"
proof -
  from assms obtain x d where "lm_conversation_followup m = Some (x # d)" by (auto simp: asks_back_def neq_Nil_conv)
  then have eq: "apply_followup_transition e ep sid m t = do {
      p \<leftarrow> store_pending_followup e ep sid (lm_intent m) (lm_command m) (x # d) t; ret (Some (followup_as_dict p)) }"
    using assms by (simp add: apply_followup_transition_def asks_back_def)
  show ?thesis
    unfolding eq wp_bind by (rule wp_mono [OF store_step]) (auto simp: wp_return)
qed

lemma question_closed:
  assumes "\<not> asks_back m"
  shows "wp (apply_followup_transition e ep sid m t) (\<lambda>f s'. f = None \<and> (case find_pending ep sid s of None \<Rightarrow> memory s' = memory s
    | Some p \<Rightarrow> memory s' = (adel (pf_endpoint_id p) (as_pending_by_endpoint s), adel (pf_session_id p) (as_pending_by_session s)))) s"
proof -
  have eq: "apply_followup_transition e ep sid m t = do {
      p \<leftarrow> pending_followup_for ep sid t;
      (case p of None \<Rightarrow> ret () | Some p \<Rightarrow> clear_pending_followup p);
      ret None }"
    using assms by (cases "lm_conversation_followup m") (auto simp: apply_followup_transition_def asks_back_def Let_def split: list.splits)
  show ?thesis
    unfolding eq by (auto simp: pending_followup_for_def clear_pending_followup_def memory_def wp_simps split: option.splits)
qed








text \<open>A question that was superseded in another session is not closed with the one that took its place: its own session still
  finds it once the later one is answered.\<close>

lemma superseded_question_returns:
  assumes "asks_back m1" "asks_back m2" "\<not> asks_back m3" "sid1 \<noteq> sid2" "sid1 \<noteq> []"
  shows "wp (do { apply_followup_transition e ep sid1 m1 t1; apply_followup_transition e ep sid2 m2 t2; apply_followup_transition e ep sid2 m3 t3 })
    (\<lambda>_ s'. \<exists>p. asked_last ep sid1 m1 t1 p \<and> find_pending ep sid1 s' = Some p) s"
proof -
  let ?asked = "\<lambda>s'. \<exists>p. asked_last ep sid1 m1 t1 p \<and> aget (as_pending_by_session s') sid1 = Some p"
  let ?both = "\<lambda>s'. ?asked s' \<and> (\<exists>q. asked_last ep sid2 m2 t2 q \<and> aget (as_pending_by_endpoint s') ep = Some q)"
  have "wp (apply_followup_transition e ep sid1 m1 t1) (\<lambda>_. ?asked) s"
    by (rule wp_mono [OF question_stored [OF assms(1)]]) auto
  moreover have "wp (apply_followup_transition e ep sid2 m2 t2) (\<lambda>_. ?both) s'" if "?asked s'" for s'
    using that assms(4) by (auto intro!: wp_mono [OF question_stored [OF assms(2)]])
  moreover have "wp (apply_followup_transition e ep sid2 m3 t3)
      (\<lambda>_ s'. \<exists>p. asked_last ep sid1 m1 t1 p \<and> find_pending ep sid1 s' = Some p) s'" if "?both s'" for s'
    using that assms(4,5)
    by (auto simp: memory_def find_pending_def asked_last_def intro!: wp_mono [OF question_closed [OF assms(3)]])
  ultimately show ?thesis by (intro wp_seq)
qed

section \<open>An example\<close>

definition ex_assistant :: assistant_env where
  "ex_assistant = \<lparr>ae_finder = ex_finder, ae_timers = ex_timer_env, ae_events = ex_events, ae_now = (\<lambda>_. 0), ae_elapsed = (\<lambda>_. 1),
     ae_uuid = (\<lambda>_. ''u''), ae_wake_models = None, ae_context_limit = 4, ae_dispatcher = True, ae_loop_running = (\<lambda>_. True),
     ae_adapter = (\<lambda>_ rq _. local_echo rq), ae_classifier = None\<rparr>"

definition ex_idle :: assistant_state where
  "ex_idle = new_assistant None (Some (new_timer_cache 100))"

lemma ex_idle_reachable: "assistant_reachable ex_assistant ex_idle"
  using assistant_reachable.new [of ex_assistant None True] by (simp add: ex_idle_def)

definition ex_talked :: assistant_state where
  "ex_talked = run_assistant ex_assistant (Invoke None ''kitchen'' ''Hexe mute'' ''s1'' None None) ex_idle"

lemma assistant_invariant_witness:
  "list_all (\<lambda>c. vc_command c \<in> set ENDPOINT_INTENTS) (as_commands ex_talked)
    \<and> list_all (\<lambda>(k, ts). length ts \<le> 4) (as_context_by_endpoint ex_talked)"
proof -
  have run: "assistant_reachable ex_assistant ex_talked"
    unfolding ex_talked_def by (rule assistant_reachable.call [OF ex_idle_reachable])
  have limit: "ae_context_limit ex_assistant = 4" by (simp add: ex_assistant_def)
  note inv = assistant_invariant [OF run, unfolded limit]
  from inv have "\<forall>(k, ts) \<in> set (as_context_by_endpoint ex_talked). length ts \<le> 4 \<and> (\<forall>t \<in> set ts. cv_endpoint_id t = k)"
    by (rule conjunct1)
  moreover from inv have "\<forall>c \<in> set (as_commands ex_talked). vc_command c \<in> set ENDPOINT_INTENTS"
    by (elim conjE)
  ultimately show ?thesis by (auto simp: list_all_iff)
qed

definition ex_status :: local_match where
  "ex_status = plain_match ''timer.status'' ''timer.status'' [] ''Checking.''"

lemma timer_requests_name_the_timer_witness:
  "\<exists>a. queued (snd (run_state (handle_matched_intent ex_assistant ''kitchen'' ''s1'' ''how long'' ex_status 0) ex_idle))
    = [a, Timer_status ''kitchen'' ''s1'' 0 ''active_for_endpoint'' None]"
proof -
  have c: "as_timers ex_idle = Some (new_timer_cache 100)" "room ex_idle = 200" "queued ex_idle = []"
    by (simp_all add: ex_idle_def new_assistant_def room_def queued_def new_async_publisher_def)
  have none: "timer_candidates_of (ae_timers ex_assistant) ''kitchen'' (new_timer_cache 100) = {}"
    by (simp add: timer_candidates_of_def qualifies_def new_timer_cache_def)
  have job: "option_list (timer_request_job (arp ex_assistant) (lm_command ex_status) ''kitchen'' ''s1'' (lm_slots ex_status) 0)
    = [Timer_status ''kitchen'' ''s1'' 0 ''active_for_endpoint'' None]"
    by code_simp
  have ref: "lm_command ex_status \<in> set TIMER_REFERENCES" by code_simp
  show ?thesis
    using timer_requests_name_the_timer [OF ex_idle_reachable c(1) ref, where ep = "''kitchen''" and sid = "''s1''" and heard = "''how long''" and t = 0]
    unfolding request_fits_def Let_def none job c(2,3) by (auto simp: case_prod_beta)
qed



end
