(* ===== verification/VoiceCommands.thy ===== *)
theory VoiceCommands
  imports AssistantService CommandLife ExampleRuns
begin

text \<open>
  What becomes of a command for an endpoint that was spoken: \<open>QueuedEndpointCommandDispatcher._run\<close> of
  \<open>assistant/service.py\<close>, the coroutine the dispatcher queues. It is where the assistant service meets the
  session manager: each command is an operation of the manager, so that everything proved of the runs of the
  manager holds of runs with spoken commands as well.
\<close>

section \<open>The coroutine\<close>

text \<open>The operation of a command, with the last volume of the endpoint; \<open>None\<close> if a slot is missing or no number
  (the exception is logged) and for a command that is not one of an endpoint.\<close>

definition voice_operation :: "pv \<Rightarrow> voice_command \<Rightarrow> command option" where
  "voice_operation current c =
     (let endpoint_id = vc_endpoint_id c; slots = vc_slots c in
      if vc_command c = ''playback.stop'' then Some (PushPlaybackStop endpoint_id ''voice_intent'')
      else if vc_command c = ''playback.repeat'' then Some (PushReplay endpoint_id)
      else if vc_command c = ''endpoint.mute'' then Some (PushMute endpoint_id True)
      else if vc_command c = ''endpoint.unmute'' then Some (PushMute endpoint_id False)
      else if vc_command c = ''endpoint.volume.set'' then map_option (PushVolume endpoint_id) (py_int (dget slots ''volume_percent''))
      else if vc_command c = ''endpoint.volume.adjust'' then
        (let current_volume = (case as_int current of Some n \<Rightarrow> n | None \<Rightarrow> 70) in
         map_option (\<lambda>d. PushVolume endpoint_id (max 0 (min 100 (current_volume + d)))) (py_int (dget slots ''delta_percent'')))
      else if vc_command c = ''endpoint.identify'' then Some (PushLed endpoint_id ''identify'' 3000)
      else if vc_command c = ''endpoint.settings.open'' then Some (PushScreenSet endpoint_id ''settings'')
      else None)"

definition run_voice_command :: "voice_command \<Rightarrow> unit M" where
  "run_voice_command c = do {
     status \<leftarrow> (if vc_command c = ''endpoint.volume.adjust'' then volume_status (vc_endpoint_id c) else ret []);
     (case voice_operation (dget status ''volume_percent'') c of
        None \<Rightarrow> ret ()
      | Some operation \<Rightarrow> run_command operation) }"

section \<open>Spoken commands are steps of the manager\<close>

lemma operator_step: "reachable w \<Longrightarrow> reachable (snd (run_state (run_command operation) w))"
  by (rule reachable.more [OF _ step.step [where x = "Operator operation"]]) simp_all

lemma volume_step: "reachable w \<Longrightarrow> reachable (snd (run_state (volume_status e) w))"
  by (rule reachable.more [OF _ step.step [where x = "OperatorVolume e"]]) (simp_all add: case_prod_beta)

text \<open>What reaches the endpoint: one message of the type with that payload on its live socket, and nothing without one.\<close>

definition told :: "string \<Rightarrow> world \<Rightarrow> world \<Rightarrow> event_type \<Rightarrow> dict \<Rightarrow> bool" where
  "told e w v et payload \<longleftrightarrow> (case live_socket e w of
     None \<Rightarrow> trace v = trace w
   | Some (r, ws) \<Rightarrow> \<exists>ev rid. trace v = SendJson ws ev # trace w \<and> ev_event_type ev = et \<and> ev_endpoint_id ev = e
       \<and> ev_payload ev = (''request_id'', PStr rid) # payload)"

lemma push_tells:
  assumes "\<And>rid. aupdate [(''request_id'', PStr rid)] payload = (''request_id'', PStr rid) # payload"
  shows "told e w (snd (run_state (push_endpoint_command e et command_type payload None None) w)) et payload"
  using push_command_delivers [of e et command_type payload None None w] assms
  by (auto simp: wp_def told_def delivered_def addressed_def case_prod_beta split: option.splits)

text \<open>Looking up the last volume closes overdue command records and changes nothing that is sent.\<close>

definition same_sockets :: "world \<Rightarrow> world \<Rightarrow> bool" where
  "same_sockets v w \<longleftrightarrow> trace w = trace v \<and> rts w = rts v \<and> endpoint_runtimes w = endpoint_runtimes v
     \<and> last_volume w = last_volume v"

interpretation sk: evolution same_sockets
  by unfold_locales (auto simp: same_sockets_def)

lemma volume_status_reads:
  "same_sockets w (snd (run_state (volume_status e) w))"
  "dget (fst (run_state (volume_status e) w)) ''volume_percent'' = oint (aget (last_volume w) e)"
proof -
  have x: "state_io_rel same_sockets expire_commands"
    unfolding expire_commands_def py_now_def
    by (intro sk.structural sk.update_evol) (simp_all add: same_sockets_def)
  obtain u where u: "run_state expire_commands w = ((), u)" by (cases "run_state expire_commands w") simp
  from sk.run_evol [OF x, of w] u have "same_sockets w u" by simp
  then show "same_sockets w (snd (run_state (volume_status e) w))"
    "dget (fst (run_state (volume_status e) w)) ''volume_percent'' = oint (aget (last_volume w) e)"
    by (simp_all add: volume_status_def u repr_env_def dget_def same_sockets_def)
qed

lemma told_after_reads: "same_sockets w u \<Longrightarrow> told e u v et payload \<Longrightarrow> told e w v et payload"
  unfolding same_sockets_def told_def live_socket_def runtime_for_endpoint_def by metis

lemma volume_tells:
  "told e w (snd (run_state (push_volume_command e n) w)) EvEndpointVolume [(''volume_percent'', PInt n)]"
  using push_tells [where payload = "[(''volume_percent'', PInt n)]" and command_type = "''endpoint.volume.set''"
      and e = e and et = EvEndpointVolume and w = w]
  by (auto simp: push_volume_command_def aupdate_def case_prod_beta whenM_def told_def split: option.splits)

text \<open>C40. Running a command the assistant dispatches to an endpoint leads from a reachable state of the session manager
  to a reachable one, so that all invariants of the manager survive it, and the endpoint is told what was
  asked: to stop the playback, to mute or unmute, to set the volume to the number in the slots, or to the last volume
  (70 if none is known) changed by the number and kept between 0 and 100, or to identify itself for three seconds. Repeating
  and opening the settings are the manager's replay and its settings screen. Without a number in the slots of a volume
  command nothing is sent.\<close>

theorem spoken_commands_are_steps:
  assumes "reachable w" "v = snd (run_state (run_voice_command c) w)" "e = vc_endpoint_id c"
  shows "reachable v
    \<and> (vc_command c = ''playback.stop'' \<longrightarrow> told e w v EvPlaybackStop [(''reason'', PStr ''voice_intent'')])
    \<and> (vc_command c = ''endpoint.mute'' \<longrightarrow> told e w v EvEndpointMute [(''muted'', PBool True)])
    \<and> (vc_command c = ''endpoint.unmute'' \<longrightarrow> told e w v EvEndpointMute [(''muted'', PBool False)])
    \<and> (vc_command c = ''endpoint.volume.set'' \<longrightarrow> (case py_int (dget (vc_slots c) ''volume_percent'') of
         None \<Rightarrow> trace v = trace w
       | Some n \<Rightarrow> told e w v EvEndpointVolume [(''volume_percent'', PInt n)]))
    \<and> (vc_command c = ''endpoint.volume.adjust'' \<longrightarrow> (case py_int (dget (vc_slots c) ''delta_percent'') of
         None \<Rightarrow> trace v = trace w
       | Some d \<Rightarrow> told e w v EvEndpointVolume [(''volume_percent'',
           PInt (max 0 (min 100 ((case aget (last_volume w) e of Some n \<Rightarrow> n | None \<Rightarrow> 70) + d))))]))
    \<and> (vc_command c = ''endpoint.identify'' \<longrightarrow>
         told e w v EvEndpointLedSimulate [(''pattern'', PStr ''identify''), (''duration_ms'', PInt 3000)])
    \<and> (vc_command c = ''playback.repeat'' \<longrightarrow> v = snd (run_state (push_replay_command e) w))
    \<and> (vc_command c = ''endpoint.settings.open'' \<longrightarrow> v = snd (run_state (push_ui_screen_set_command e ''settings'') w))"
proof -
  have "reachable v"
    unfolding assms(2) using assms(1) operator_step volume_step
    by (simp add: run_voice_command_def case_prod_beta split: option.split)
  have "v = (case voice_operation PNone c of None \<Rightarrow> w | Some x \<Rightarrow> snd (run_state (run_command x) w))"
    if "vc_command c \<noteq> ''endpoint.volume.adjust''"
    using that by (simp add: assms(2) run_voice_command_def dget_def split: option.split)
  note plain = this
  define u where "u = snd (run_state (volume_status e) w)"
  have adjust: "case py_int (dget (vc_slots c) ''delta_percent'') of
         None \<Rightarrow> trace v = trace w
       | Some d \<Rightarrow> told e w v EvEndpointVolume [(''volume_percent'',
           PInt (max 0 (min 100 ((case aget (last_volume w) e of Some n \<Rightarrow> n | None \<Rightarrow> 70) + d))))]"
    if "vc_command c = ''endpoint.volume.adjust''"
  proof -
    have operation: "voice_operation (oint last_known) c = map_option (\<lambda>d. PushVolume e
        (max 0 (min 100 ((case last_known of Some n \<Rightarrow> n | None \<Rightarrow> 70) + d)))) (py_int (dget (vc_slots c) ''delta_percent''))"
      for last_known
      using that by (cases last_known) (simp_all add: voice_operation_def oint_def assms(3))
    have "v = (case voice_operation (oint (aget (last_volume w) e)) c of
        None \<Rightarrow> u | Some x \<Rightarrow> snd (run_state (run_command x) u))"
      using that volume_status_reads(2) [of e w]
      by (simp add: assms(2,3) u_def run_voice_command_def case_prod_beta split: option.split)
    note v = this [unfolded operation]
    show ?thesis
    proof (cases "py_int (dget (vc_slots c) ''delta_percent'')")
      case None
      with v volume_status_reads(1) [of w e] show ?thesis by (simp add: same_sockets_def u_def)
    next
      case (Some d)
      with v told_after_reads [OF volume_status_reads(1) [of w e] volume_tells [of e "snd (run_state (volume_status e) w)"]]
      show ?thesis by (simp add: u_def case_prod_beta)
    qed
  qed
  show ?thesis
    using \<open>reachable v\<close> push_tells [of "[(''reason'', PStr ''voice_intent'')]" e w EvPlaybackStop "''playback.stop''"]
      push_tells [of "[(''muted'', PBool True)]" e w EvEndpointMute "''endpoint.mute''"]
      push_tells [of "[(''muted'', PBool False)]" e w EvEndpointMute "''endpoint.mute''"]
      push_tells [of "[(''pattern'', PStr ''identify''), (''duration_ms'', PInt 3000)]" e w EvEndpointLedSimulate "''endpoint.led.simulate''"]
      volume_tells [of e w] plain adjust
    by (simp add: voice_operation_def Let_def assms(3) aupdate_def push_playback_stop_command_def push_mute_command_def
        push_led_simulation_command_def case_prod_beta split: option.split)
qed

definition ex_louder :: voice_command where
  "ex_louder = \<lparr>vc_endpoint_id = ''kitchen'', vc_session_id = ''s1'', vc_command = ''endpoint.volume.adjust'',
     vc_slots = [(''delta_percent'', PInt 50)], vc_event_id = ''voice-endpoint-command-u''\<rparr>"

theorem spoken_commands_are_steps_witness:
  "live_socket ''kitchen'' ex_connected = Some (1, 7)
   \<and> told ''kitchen'' ex_connected (snd (run_state (run_voice_command ex_louder) ex_connected))
       EvEndpointVolume [(''volume_percent'', PInt 100)]"
proof
  show "live_socket ''kitchen'' ex_connected = Some (1, 7)"
    by (simp add: live_socket_def runtime_for_endpoint_def runtime_live_def ex_connected_state ex_runtime_def)
  have "aget (last_volume ex_connected) ''kitchen'' = None"
    by (simp add: ex_connected_state ex_start_def initial_world_def)
  with spoken_commands_are_steps [OF ex_connected_reachable refl refl, of ex_louder]
  show "told ''kitchen'' ex_connected (snd (run_state (run_voice_command ex_louder) ex_connected))
      EvEndpointVolume [(''volume_percent'', PInt 100)]"
    by (simp add: ex_louder_def dget_def py_int.simps)
qed

end
