(* ===== verification/Spec2Isabelle.thy ===== *)
theory Spec2Isabelle
  imports VoicePrelude PyTime Contracts WakeElection SessionState SessionHistory Evolution SessionCore
    SessionHandlers AudioEnd Dispatch EndpointCommands Connections Examples ExampleRuns SessionEnds TurnOutcomes
    SessionStarts CommandLife Admission HistoryFacts Arbitration Guidance PyText AdminMaintenance SpokenCodes
    AudioQuality ProfileReview TurnPolicy TurnPipeline TurnSafety Placement Calibration
    ObservationLog ManagerReports Regex BuiltinIntents IntentRegistry BuiltinChecks RegistryRuns
    IntentText Durations IntentFinder FinderFacts TimerCache TimerAnnouncements TimerFacts DomainEvents DomainFacts
    AssistantService AssistantFacts VoiceCommands
begin

text \<open>
  HexeVoice is the voice node of a Hexe installation: endpoints (small devices with a microphone, a
  speaker and perhaps a touch screen) connect over WebSockets, report wake words, stream audio and play
  answers; the node decides which endpoint listens, runs a turn (speech to text, speaker lookup,
  assistant, text to speech) and keeps records. This development models the parts of
  \<open>src/src/hexevoice\<close> that decide: the session manager and everything it consults, and the turn pipeline.
  All names of definitions are those of the source, without leading underscores.

  \<^bold>\<open>Which theory models what.\<close>

    \<^item> \<open>VoicePrelude\<close>: JSON-like values \<open>pv\<close>, dicts as association lists in insertion order, string
      operations, \<open>round\<close>, the state monad with its rule \<open>wp\<close>, the locale \<open>evolution\<close> for relations
      between states that every operation respects. \<open>PyTime\<close>: \<open>datetime.isoformat\<close> and \<open>fromisoformat\<close>.
      \<open>PyText\<close>: \<open>str.split\<close>, \<open>re.sub\<close> for patterns between word boundaries, base64.
    \<^item> \<open>Contracts\<close>: \<open>voice/contracts.py\<close>, the events, the session states and their transitions.
    \<^item> \<open>WakeElection\<close>: \<open>voice/wake_election.py\<close>, which of several endpoints that heard one wake word listens.
    \<^item> \<open>SessionState\<close>, \<open>Evolution\<close>, \<open>SessionCore\<close>, \<open>SessionHandlers\<close>, \<open>AudioEnd\<close>, \<open>Dispatch\<close>,
      \<open>EndpointCommands\<close>, \<open>Connections\<close>: \<open>voice/session_manager.py\<close>. The state is the record \<open>world\<close>: the
      runtimes (\<open>VoiceEndpointRuntime\<close>) and sessions (\<open>VoiceSessionSnapshot\<close>) are allocated objects addressed
      by numbers, because handlers share and mutate them; \<open>ctx\<close> is the runtime the context variable selects.
    \<^item> \<open>SessionHistory\<close>: the record a session collects, and \<open>persistence/voice_session_history.py\<close>.
    \<^item> \<open>SessionEnds\<close>, \<open>TurnOutcomes\<close>, \<open>SessionStarts\<close>, \<open>CommandLife\<close>, \<open>Admission\<close>, \<open>Arbitration\<close>,
      \<open>HistoryFacts\<close>: the theorems about the manager, by subject, with the abstract accounts they refer to
      (\<open>session_over\<close>, \<open>outcome_of\<close>, a bounded store). \<open>Examples\<close>, \<open>ExampleRuns\<close>: a concrete manager and a run of it
      for their witnesses.
    \<^item> \<open>AudioQuality\<close>: \<open>voice/audio_quality.py\<close>. \<open>Guidance\<close>: \<open>voice/failure_guidance.py\<close>.
      \<open>AdminMaintenance\<close>: \<open>persistence/voice_admin_maintenance.py\<close>, the passcode-protected actions.
      \<open>SpokenCodes\<close>: what its redaction of spoken codes promises, said without its patterns.
      \<open>ProfileReview\<close>: \<open>persistence/speaker_profile_review.py\<close>.
    \<^item> \<open>Placement\<close>: \<open>voice/placement.py\<close>, the report of an active placement test, with \<open>difflib\<close>'s matcher.
      \<open>Calibration\<close>: \<open>persistence/voice_placement_calibration.py\<close>, the 48 hour windows and their scores.
      \<open>ObservationLog\<close>: \<open>persistence/voice_quality_observation_log.py\<close> with the checks of
      \<open>voice/metric_schemas.py\<close>. \<open>ManagerReports\<close>: the passive calibration and quality reports of the manager.
    \<^item> \<open>TurnPolicy\<close>, \<open>TurnPipeline\<close>: \<open>VoiceTurnPipeline\<close> of \<open>voice/pipeline.py\<close>; \<open>complete_turn\<close> is cut into
      stages at its comments and early decisions. \<open>TurnSafety\<close>: what a whole turn guarantees.
    \<^item> \<open>BuiltinIntents\<close>, \<open>IntentRegistry\<close>: \<open>assistant/intent_registry.py\<close>, the intents the node ships, the checks
      of a record, the store and the registry's operations. \<open>BuiltinChecks\<close>: the shipped intents pass the checks.
      \<open>RegistryRuns\<close>: all runs of a registry, restarts included, and their refinement of a map of statuses.
    \<^item> \<open>Regex\<close>: the backtracking matcher of \<open>re\<close>, which \<open>assistant/intents.py\<close> is written in: patterns are a
      datatype, \<open>ms\<close> lists the ways a pattern can match in the order \<open>re\<close> tries them, \<open>mt\<close> says the same as a relation.
      \<open>IntentText\<close>: the texts of that file, its patterns, numbers, durations and clock times. \<open>Durations\<close>: what is
      spoken is read back. \<open>IntentFinder\<close>: \<open>LocalIntentFinder\<close>. \<open>FinderFacts\<close>: what a match guarantees.
    \<^item> \<open>TimerCache\<close>, \<open>TimerAnnouncements\<close>: \<open>timer_announcements.py\<close>, the timers other nodes run for the endpoints,
      which of them a request means, and the service that speaks and rings. \<open>TimerFacts\<close>: its theorems.
    \<^item> \<open>DomainEvents\<close>: \<open>domain_events.py\<close>, the events the node publishes, their check and their queue.
      \<open>DomainFacts\<close>: what leaves the node.
    \<^item> \<open>AssistantService\<close>: \<open>AssistantTurnService\<close> of \<open>assistant/service.py\<close>, a conversation: its memory, its open
      question, the timer a request means, the dispatch of an intent, a turn. \<open>AssistantFacts\<close>: all runs of the
      service and what a matched intent does. \<open>VoiceCommands\<close>: what spoken commands do to the manager.
    \<^item> This theory: the properties of all reachable states of the manager and of all its steps.

  \<^bold>\<open>How the parts interact.\<close> \<open>Connections.step\<close> applies one input (a message of an endpoint, an uploaded
  chunk, a binary frame, a timer, an operator's command, a connection opened or lost) to the manager.
  \<open>Dispatch\<close> parses and admits a message and calls its handler; the handlers use the election, the history
  and the command records; at the end of the audio \<open>AudioEnd\<close> calls the turn pipeline. There the pipeline is
  the parameter \<open>e_complete_turn\<close>, whose results have the type \<open>session_view\<close> projects the results of
  \<open>TurnPipeline.complete_turn\<close> to. The pipeline in turn owns the two stores of \<open>AdminMaintenance\<close> and
  \<open>ProfileReview\<close>. \<open>IntentFinder\<close> reads the registry of \<open>IntentRegistry\<close> and counts its matches there.
  \<open>AssistantService\<close> holds the registry, the cache of \<open>TimerCache\<close> and the publisher of \<open>DomainEvents\<close>, so that one
  step of it runs through all of them; the commands it queues are run by \<open>VoiceCommands\<close> on the manager. To the
  pipeline the assistant stays a parameter, so that its theorems hold whatever is answered.

  \<^bold>\<open>Conventions.\<close> Code outside the modelled files is a field of the records \<open>env\<close> (session manager),
  \<open>pipe_env\<close> (pipeline) or \<open>finder_env\<close> (intents: the local time zone, the compiler of patterns that users
  register, \<open>str.format\<close> beyond plain names, the text of a float), \<open>timer_env\<close>, \<open>events_env\<close> (the trust state
  and the broker) or \<open>assistant_env\<close> (the adapter and the classifier of the AI node): clocks, random identifiers, JSON and pydantic validation, base64, WAV files,
  detectors, adapters, the assistant, the speaker service. What may differ from call to call is a function
  of the reads or calls made so far, so nothing is assumed of it, not even that equal questions get equal
  answers. Instants are integers of microseconds, the resolution of \<open>datetime\<close>; floats are rationals, without
  rounding errors, infinities and nan; text is ASCII; Python's \<open>int\<close> is \<open>int\<close>, bytes are 8-bit words and
  samples 16-bit words. An exception that the code catches is a value of a sum type; a rejected message is an
  event. An \<open>asyncio\<close> handler runs without interruption in the model, with one exception where it matters: a
  connection that replaces an earlier one is suspended while that one's sockets close, and any other input may
  come between its parts (\<open>Connect\<close> and \<open>Resume\<close> of \<open>Connections\<close>; \<open>orderly\<close> are the runs in which nobody takes the
  endpoint meanwhile, and \<open>contested_connections_reached\<close> shows what happens otherwise). Elsewhere the code only sends
  or calls the pipeline while it is suspended, after its updates. The speaker lookup of a turn runs on a second
  thread in the code; in the model its answer is fixed when it is started and \<open>pe_ready\<close> says, at each poll,
  whether it is there. Files of the stores are the records they hold; a write is atomic.

  \<^bold>\<open>What the theorems show.\<close> Over all runs: an endpoint has one live connection (unless a second one begins while
  the first is being replaced), sessions that do not fail move only along the transition table and over
  sessions stay over, the state stays consistent, the wake election decides once and
  keeps its histories bounded. For each event: when a session starts, is protected or replaced, is
  captured, times out, is cancelled or fails, and which of them touch a session at all. For the turn: the
  handler of the end of the audio implements the abstract account of its outcome and settles the
  session; an administrative action is spoken only when the store allowed it; privacy mode, audiences,
  silence and passcodes are respected whatever the parameters answer. For the stores: the history is a
  bounded map with the latest record first; the reviews hold only candidates above the guardrails, without
  biometric or secret keys; after three wrong codes the administrative store refuses until the lock ends; the
  intent registry keeps its invariant through all calls and restarts. For spoken requests: only active intents
  match, the local finder takes a short word only as the answer to an open question, the slots of a match fit its schema, matching changes nothing but
  counts, and a duration the node speaks is read back. For timers and events: the timer a request means is the
  endpoint's own and the only one due first, alarms ring once, and no event with private content reaches the broker.
  For a conversation: it remembers no more than configured, a question lives until the next matched intent of its
  endpoint, a request names the timer that is meant or asks back, codes spoken in the redacted forms are not
  recorded, and a spoken command tells the endpoint what was asked.

  \<^bold>\<open>Bounds.\<close> The newest ten wake results and event diagnostics, fifty confidences, twenty button and playback
  events are kept, and as many history records and review candidates as configured. No definition uses fuel
  for a loop that could go on: loops run over lists, \<open>re_sub\<close> consumes its text, and \<open>Regex.rep\<close> repeats at most as
  often as there are characters, since \<open>re\<close> ends a repetition that consumes nothing.

  \<^bold>\<open>Not modelled.\<close> \<open>main.py\<close> and the routers (FastAPI wiring and response models); the adapters for speech
  (HTTP clients, faster-whisper, Piper, soxr); wake-word models and recordings; the adapters of
  \<open>assistant/service.py\<close> for the AI node (calls over HTTP); speaker embeddings; discovery, BLE and mDNS;
  onboarding and trust against the Hexe core; the MQTT client; firmware bundles; the frontend. They are
  I/O around other programs or behind the parameters named above. Also left out: logging, metrics, the
  interleaving of suspended handlers apart from connections, and write failures of the stores.
\<close>

section \<open>Properties of all reachable states\<close>

text \<open>C3. An endpoint has at most one live control connection, at every moment of a run in which nobody
  else takes an endpoint while a connection for it waits for the sockets it replaces: two live
  runtimes bound to the same endpoint are the same runtime, and it is the one the registry finds. Any
  other steps may come between the parts of a connection.\<close>

theorem one_live_connection:
  assumes "orderly w" "e \<noteq> []"
    and "runtime_live (rts w r)" "rt_connected_endpoint_id (rts w r) = Some e"
  shows "runtime_for_endpoint e w = Some r
     \<and> (\<forall>r'. runtime_live (rts w r') \<and> rt_connected_endpoint_id (rts w r') = Some e \<longrightarrow> r' = r)"
proof -
  have u: "aget (endpoint_runtimes w) e = Some r'"
    if "runtime_live (rts w r')" "rt_connected_endpoint_id (rts w r') = Some e" for r'
    using orderly_sole [OF assms(1)] assms(2) that by (simp add: sole_def)
  from u [OF assms(3,4)] have "aget (endpoint_runtimes w) e = Some r" .
  with u assms(3) show ?thesis by (auto simp: runtime_for_endpoint_def Let_def)
qed

theorem one_live_connection_witness: "runtime_for_endpoint ''kitchen'' ex_connected = Some 1"
  by (rule one_live_connection [OF ex_connected_orderly, THEN conjunct1])
    (simp_all add: ex_connected_state ex_runtime_def runtime_live_def)

text \<open>Without that condition it fails: two connections of the kitchen that begin while the control socket of
  a third is closing both replace that one, and both are live in the end.\<close>

definition ex_suspended :: "pending_connection list \<Rightarrow> ext_effect list \<Rightarrow> world" where
  "ex_suspended ps effects = ex_connected\<lparr>connecting := ps, trace := effects\<rparr>"

definition ex_pending :: "nat \<Rightarrow> pending_connection" where
  "ex_pending ws = \<lparr>pc_websocket = ws, pc_endpoint_id = ''kitchen'', pc_replaced = 1, pc_control_closing = True\<rparr>"

lemma ex_suspended_fields [simp]: "connecting (ex_suspended ps tr) = ps" "next_rt (ex_suspended ps tr) = 1"
  by (simp_all add: ex_suspended_def ex_connected_state)

lemma ex_suspended_step:
  "step (ex_suspended ps tr) (Connect ws (Some ''kitchen'')) (ex_suspended (ps @ [ex_pending ws]) (CloseSocket 7 1012 # tr))"
proof (rule step.intros)
  show "snd (run_state (run_input (Connect ws (Some ''kitchen''))) (ex_suspended ps tr))
      = ex_suspended (ps @ [ex_pending ws]) (CloseSocket 7 1012 # tr)"
    by (simp add: connect_websocket_def query_kitchen ex_suspended_def ex_connected_state ex_start_def initial_world_def
        runtime_for_endpoint_def runtime_live_def ex_runtime_def new_runtime_def begin_connection_def
        replace_begin_def continue_connection_def replace_close_def with_runtime_run cur_runtime_def
        cancel_followup_timeout_task_def upd_runtime_def close_socket_def emit_def suspend_connection_def ex_pending_def,
      rule ext, simp add: ex_runtime_def new_runtime_def)
qed simp

lemma contested_connections_reached:
  "\<exists>w r r'. reachable w \<and> r \<noteq> r' \<and> holds w r ''kitchen'' \<and> holds w r' ''kitchen''"
proof -
  let ?w = "ex_suspended [ex_pending 8, ex_pending 9] [CloseSocket 7 1012, CloseSocket 7 1012]"
  let ?u = "snd (run_state (run_input (Resume 0)) ?w)"
  let ?v = "snd (run_state (run_input (Resume 0)) ?u)"
  have w: "connecting ?w = [ex_pending 8, ex_pending 9]" by simp
  have "reachable (ex_suspended [] [])"
    using ex_connected_reachable by (simp add: ex_suspended_def ex_connected_state ex_start_def initial_world_def)
  from reachable.more [OF reachable.more [OF this ex_suspended_step [of "[]" "[]" 8]] ex_suspended_step [of _ _ 9]]
  have "reachable ?w" by simp
  moreover have "step ?w (Resume 0) ?u" by (rule step.intros) (simp_all add: w)
  moreover have "step ?u (Resume 0) ?v"
    by (rule step.intros)
      (simp_all add: resume_connection_def ex_pending_def complete_connection_holds(3) case_prod_beta)
  ultimately have "reachable ?v" by (blast intro: reachable.more)
  moreover have "\<exists>r r'. r \<noteq> r' \<and> holds ?v r ''kitchen'' \<and> holds ?v r' ''kitchen''"
    using contested_connections_stay_live [OF w] by (simp add: ex_pending_def case_prod_beta)
  ultimately show ?thesis by blast
qed

text \<open>C5. The state of a run is consistent: every session's UX state is the projection of its state,
  every active session exists and belongs to one runtime only, and the registry holds each endpoint
  once, at a runtime that is bound to it.\<close>

theorem reachable_consistent:
  assumes "reachable w"
  shows "(\<forall>i < next_sess w. ss_ux_state (sess w i) = project_ux_state (ss_session_state (sess w i)))
     \<and> (\<forall>r i. rt_active_session (rts w r) = Some i \<longrightarrow>
          i < next_sess w \<and> (\<forall>r'. rt_active_session (rts w r') = Some i \<longrightarrow> r' = r))
     \<and> distinct (map fst (endpoint_runtimes w))
     \<and> (\<forall>e r. (e, r) \<in> set (endpoint_runtimes w) \<longrightarrow> e \<noteq> [] \<and> rt_connected_endpoint_id (rts w r) = Some e)"
  using reachable_ok [OF assms]
  unfolding world_ok_def sessions_ok_def refs_ok_def registry_ok_def by blast

theorem reachable_consistent_witness:
  "distinct (map fst (endpoint_runtimes ex_connected)) \<and> rt_connected_endpoint_id (rts ex_connected 1) = Some ''kitchen''"
  using reachable_consistent [OF ex_connected_reachable] by (auto simp: ex_connected_state)

text \<open>C14. What the manager keeps stays bounded: ten diagnostics, ten wake entries, fifty wake
  confidences and twenty button presses, twenty playback entries per runtime, at most the store's
  limit of sessions in the history; no session or command is recorded twice.\<close>

theorem records_bounded:
  assumes "reachable w"
  shows "length (event_diagnostics w) \<le> 10 \<and> length (wake_history w) \<le> 10
     \<and> length (wake_confidence_history w) \<le> 50 \<and> length (ui_button_history w) \<le> 20
     \<and> (\<forall>r. length (rt_tts_playback_history (rts w r)) \<le> 20)
     \<and> length (hist w) \<le> e_history_limit (env w)
     \<and> distinct (map (\<lambda>s. dget s ''session_id'') (hist w)) \<and> distinct (map fst (command_records w))"
  using reachable_ok [OF assms] by (simp add: world_ok_def logs_ok_def store_ok_def)

theorem records_bounded_witness:
  "length (event_diagnostics ex_connected) \<le> 10 \<and> length (wake_history ex_connected) \<le> 10
     \<and> length (wake_confidence_history ex_connected) \<le> 50 \<and> length (ui_button_history ex_connected) \<le> 20
     \<and> (\<forall>r. length (rt_tts_playback_history (rts ex_connected r)) \<le> 20)
     \<and> length (hist ex_connected) \<le> e_history_limit (env ex_connected)
     \<and> distinct (map (\<lambda>s. dget s ''session_id'') (hist ex_connected))
     \<and> distinct (map fst (command_records ex_connected))"
  by (rule records_bounded [OF ex_connected_reachable])

section \<open>Properties of every step\<close>

lemma lawful_steps:
  "state_step\<^sup>*\<^sup>* a b \<Longrightarrow> b \<noteq> Failed \<Longrightarrow> (\<lambda>a b. is_valid_transition a b \<and> b \<noteq> Idle)\<^sup>*\<^sup>* a b"
proof (induction rule: rtranclp_induct)
  case (step y z)
  have "y \<noteq> Failed" using step.hyps(2) step.prems by (auto simp: state_step_def)
  then have "(\<lambda>a b. is_valid_transition a b \<and> b \<noteq> Idle)\<^sup>*\<^sup>* a y" by (rule step.IH)
  with step.hyps(2) step.prems show ?case by (auto simp: state_step_def intro: rtranclp.rtrancl_into_rtrancl)
qed simp

lemma final_steps: "state_step\<^sup>*\<^sup>* a b \<Longrightarrow> is_terminal a \<Longrightarrow> b = a \<or> b = Failed"
proof (induction rule: rtranclp_induct)
  case (step y z)
  then show ?case by (cases a) (auto simp: state_step_def is_terminal_def)
qed simp

lemma early_steps:
  assumes "state_step\<^sup>*\<^sup>* a b"
  shows "b = Idle \<Longrightarrow> a = Idle" "b = WakeDetected \<Longrightarrow> a = Idle \<or> a = WakeDetected"
proof -
  have "(b = Idle \<longrightarrow> a = Idle) \<and> (b = WakeDetected \<longrightarrow> a = Idle \<or> a = WakeDetected)"
    using assms
  proof (induction rule: rtranclp_induct)
    case (step y z)
    then show ?case by (cases y) (auto simp: state_step_def)
  qed simp
  then show "b = Idle \<Longrightarrow> a = Idle" "b = WakeDetected \<Longrightarrow> a = Idle \<or> a = WakeDetected" by simp_all
qed

text \<open>C4. Whatever arrives, a session keeps its identity and what has been sent stays sent. Unless it has
  failed, the session's state has moved along the transition table only, never back to idle; one that is
  over stays as it is, or fails when a handler asks it for an illegal transition; only a session that
  was idle is in wake_detected afterwards, or one that was there before.\<close>

theorem sessions_move_lawfully:
  assumes "step w x v" "i < next_sess w"
  shows "ss_session_id (sess v i) = ss_session_id (sess w i)
     \<and> ss_endpoint_id (sess v i) = ss_endpoint_id (sess w i)
     \<and> ss_started_at (sess v i) = ss_started_at (sess w i)
     \<and> (ss_session_state (sess v i) \<noteq> Failed \<longrightarrow>
          (\<lambda>a b. is_valid_transition a b \<and> b \<noteq> Idle)\<^sup>*\<^sup>* (ss_session_state (sess w i)) (ss_session_state (sess v i)))
     \<and> (is_terminal (ss_session_state (sess w i)) \<longrightarrow>
          ss_session_state (sess v i) = ss_session_state (sess w i) \<or> ss_session_state (sess v i) = Failed)
     \<and> (ss_session_state (sess v i) = Idle \<longrightarrow> ss_session_state (sess w i) = Idle)
     \<and> (ss_session_state (sess v i) = WakeDetected \<longrightarrow> ss_session_state (sess w i) \<in> {Idle, WakeDetected})
     \<and> (\<exists>new. trace v = new @ trace w)"
proof -
  have "session_step (sess w i) (sess v i)" "\<exists>new. trace v = new @ trace w"
    using step_advances [OF assms(1)] assms(2) unfolding advances_def by blast+
  then show ?thesis using final_steps lawful_steps early_steps [of "ss_session_state (sess w i)"]
    by (auto simp: session_step_def)
qed

theorem sessions_move_lawfully_witness: "\<exists>v. step (ex_busy Cancelled) (HttpAudio (ex_event EvAudioEnd 5)) v
     \<and> ss_session_state (sess v 0) \<in> {Cancelled, Failed}"
proof (intro exI conjI)
  let ?v = "snd (run_state (run_input (HttpAudio (ex_event EvAudioEnd 5))) (ex_busy Cancelled))"
  show "step (ex_busy Cancelled) (HttpAudio (ex_event EvAudioEnd 5)) ?v" by (rule step.intros) simp_all
  from sessions_move_lawfully [OF this, of 0] show "ss_session_state (sess ?v 0) \<in> {Cancelled, Failed}"
    by (simp add: ex_busy_def ex_world_def is_terminal_def)
qed

end
